(* ===== verification/Prelude.thy ===== *)
theory Prelude
  imports Main "HOL-Library.Word" "HOL-Library.Char_ord" "HOL-Library.List_Lexorder"
    "HOL-Library.AList"
begin

text \<open>
  Shared vocabulary of the development: Go's machine integers, instants and byte strings,
  the two shapes in which Go code reports failure (a bare \<open>error\<close> and a value paired with an
  error), the string tables the control plane keeps, and the parts of the packages
  \<open>strings\<close>, \<open>unicode/utf8\<close> and \<open>encoding/hex\<close> that the modelled sources call.
\<close>

named_theorems err_simps \<open>characteristic equations of checks that report an error or pass\<close>
named_theorems tbl_simps \<open>lookup laws of string-keyed tables\<close>

section \<open>Machine integers, instants, byte strings\<close>

type_synonym uint64 = "64 word"
type_synonym uint32 = "32 word"
type_synonym int64 = "64 word"

text \<open>
  A Go \<open>string\<close> and a \<open>[]byte\<close> are both sequences of bytes, which is what the type
  \<^typ>\<open>string\<close> is: a list of 8-bit characters.  An instant (\<open>time.Time\<close>) is the number of
  nanoseconds since Go's zero time, so that \<open>IsZero\<close> is equality with 0 and \<open>After\<close>,
  \<open>Before\<close>, \<open>Equal\<close> and \<open>Add\<close> are the order, equality and addition of integers; \<open>UTC\<close> only
  changes the presentation of an instant and is the identity here.
\<close>

type_synonym bytes = string
type_synonym time = int
type_synonym duration = int

abbreviation zero_time :: time where
  "zero_time \<equiv> 0"

abbreviation byte_val :: "char \<Rightarrow> nat" where
  "byte_val c \<equiv> of_char c"

section \<open>Errors in Go's two shapes\<close>

text \<open>
  A function that returns only an \<open>error\<close> is modelled by an optional value, \<open>None\<close> being
  \<open>nil\<close>.  A sequence of \<open>if err := check(); err != nil { return err }\<close> statements is the first
  error of a list of checks.
\<close>

primrec first_err :: "'e option list \<Rightarrow> 'e option" where
  "first_err [] = None"
| "first_err (c # cs) = (case c of None \<Rightarrow> first_err cs | Some e \<Rightarrow> Some e)"

definition fail_if :: "bool \<Rightarrow> 'e \<Rightarrow> 'e option" where
  "fail_if bad e = (if bad then Some e else None)"

lemma first_err_Cons_None [simp, err_simps]:
  "first_err (c # cs) = None \<longleftrightarrow> c = None \<and> first_err cs = None"
  by (cases c) auto

lemma first_err_eval [simp]:
  "first_err (None # cs) = first_err cs" "first_err (Some e # cs) = Some e"
  by simp_all

declare first_err.simps(2) [simp del]

lemma first_err_None_iff: "first_err cs = None \<longleftrightarrow> (\<forall>c \<in> set cs. c = None)"
  by (induction cs) auto

lemma first_err_append [err_simps]:
  "first_err (cs @ ds) = None \<longleftrightarrow> first_err cs = None \<and> first_err ds = None"
  by (induction cs) auto

lemma first_err_SomeD: "first_err cs = Some e \<Longrightarrow> Some e \<in> set cs"
  by (induction cs) (auto simp: first_err.simps(2) split: option.splits)

lemma first_err_map_None [err_simps]:
  "first_err (map f xs) = None \<longleftrightarrow> (\<forall>x \<in> set xs. f x = None)"
  by (induction xs) auto

lemma fail_if_None [simp, err_simps]: "fail_if bad e = None \<longleftrightarrow> \<not> bad"
  by (simp add: fail_if_def)

lemma fail_if_Some [simp]: "fail_if bad e = Some e' \<longleftrightarrow> bad \<and> e' = e"
  by (auto simp: fail_if_def)

text \<open>
  A function that returns a value and an \<open>error\<close> has a sum type, \<open>Inl\<close> for the error.  The two
  projections read it as Go does: the error component, and the value component, which is the
  type's zero value when the error is not \<open>nil\<close>.
\<close>

definition err_of :: "'e + 'a \<Rightarrow> 'e option" where
  "err_of r = (case r of Inl e \<Rightarrow> Some e | Inr _ \<Rightarrow> None)"

definition val_or :: "'a \<Rightarrow> 'e + 'a \<Rightarrow> 'a" where
  "val_or z r = (case r of Inl _ \<Rightarrow> z | Inr v \<Rightarrow> v)"

definition checked :: "'e option list \<Rightarrow> 'a \<Rightarrow> 'e + 'a" where
  "checked cs v = (case first_err cs of Some e \<Rightarrow> Inl e | None \<Rightarrow> Inr v)"

definition guarded :: "'e option list \<Rightarrow> 'e + 'a \<Rightarrow> 'e + 'a" where
  "guarded cs r = (case first_err cs of Some e \<Rightarrow> Inl e | None \<Rightarrow> r)"

definition bind_r :: "'e + 'a \<Rightarrow> ('a \<Rightarrow> 'e + 'b) \<Rightarrow> 'e + 'b" where
  "bind_r r f = (case r of Inl e \<Rightarrow> Inl e | Inr v \<Rightarrow> f v)"

lemma err_of_simps [simp, err_simps]:
  "err_of (Inl e) = Some e" "err_of (Inr v) = None"
  by (simp_all add: err_of_def)

lemma err_of_None_iff: "err_of r = None \<longleftrightarrow> (\<exists>v. r = Inr v)"
  by (cases r) simp_all

lemma val_or_simps [simp]: "val_or z (Inl e) = z" "val_or z (Inr v) = v"
  by (simp_all add: val_or_def)

lemma checked_Inr [simp, err_simps]:
  "checked cs v = Inr w \<longleftrightarrow> first_err cs = None \<and> w = v"
  by (auto simp: checked_def split: option.splits)

lemma checked_Inl: "checked cs v = Inl e \<longleftrightarrow> first_err cs = Some e"
  by (auto simp: checked_def split: option.splits)

lemma err_of_checked [simp, err_simps]: "err_of (checked cs v) = first_err cs"
  by (auto simp: checked_def split: option.splits)

lemma checked_ok: "first_err cs = None \<Longrightarrow> checked cs v = Inr v"
  by simp

lemma guarded_Inr [simp, err_simps]:
  "guarded cs r = Inr w \<longleftrightarrow> first_err cs = None \<and> r = Inr w"
  by (auto simp: guarded_def split: option.splits)

lemma checked_eval [simp]:
  "checked [] v = Inr v" "checked (None # cs) v = checked cs v" "checked (Some e # cs) v = Inl e"
  by (simp_all add: checked_def)

lemma guarded_eval [simp]:
  "guarded [] r = r" "guarded (None # cs) r = guarded cs r" "guarded (Some e # cs) r = Inl e"
  by (simp_all add: guarded_def)

lemma bind_r_simps [simp]: "bind_r (Inl e) f = Inl e" "bind_r (Inr v) f = f v"
  by (simp_all add: bind_r_def)

lemma bind_r_Inr: "bind_r r f = Inr w \<longleftrightarrow> (\<exists>v. r = Inr v \<and> f v = Inr w)"
  by (cases r) simp_all

section \<open>String-keyed tables\<close>

text \<open>
  A Go \<open>map[string]T\<close> is an association list with the library's update, so that the loops that
  range over a map are list traversals.
\<close>

type_synonym 'v table = "(string \<times> 'v) list"

abbreviation tbl_get :: "'v table \<Rightarrow> string \<Rightarrow> 'v option" where
  "tbl_get t k \<equiv> map_of t k"

abbreviation tbl_put :: "string \<Rightarrow> 'v \<Rightarrow> 'v table \<Rightarrow> 'v table" where
  "tbl_put k v t \<equiv> AList.update k v t"

lemma tbl_get_put [simp, tbl_simps]:
  "tbl_get (tbl_put k v t) k' = (if k' = k then Some v else tbl_get t k')"
  by (simp add: update_conv')

lemma tbl_put_put [simp, tbl_simps]: "tbl_put k v (tbl_put k w t) = tbl_put k v t"
  by (induction t) auto

lemma tbl_put_keys [tbl_simps]: "fst ` set (tbl_put k v t) = insert k (fst ` set t)"
  by (simp add: dom_update)

lemma tbl_delete_keys [tbl_simps]: "fst ` set (AList.delete k t) = fst ` set t - {k}"
proof -
  have "fst ` set (AList.delete k t) = set (map fst (AList.delete k t))"
    by simp
  also have "\<dots> = fst ` set t - {k}"
    by (simp only: delete_keys) simp
  finally show ?thesis .
qed

lemma tbl_put_distinct: "distinct (map fst t) \<Longrightarrow> distinct (map fst (tbl_put k v t))"
  by (rule distinct_update)

lemma tbl_in_set_iff:
  "distinct (map fst t) \<Longrightarrow> (k, v) \<in> set t \<longleftrightarrow> tbl_get t k = Some v"
  by simp

section \<open>Package \<open>strings\<close>\<close>

text \<open>
  The UTF-8 encodings of the runes for which \<open>unicode.IsSpace\<close> holds.  A byte string begins
  (ends) with a white-space rune exactly when one of these is a prefix (suffix) of it.
\<close>

definition space_encodings :: "bytes list" where
  "space_encodings =
    [[CHR 0x09], [CHR 0x0A], [CHR 0x0B], [CHR 0x0C], [CHR 0x0D], [CHR 0x20],
     [CHR 0xC2, CHR 0x85], [CHR 0xC2, CHR 0xA0], [CHR 0xE1, CHR 0x9A, CHR 0x80],
     [CHR 0xE2, CHR 0x80, CHR 0x80], [CHR 0xE2, CHR 0x80, CHR 0x81],
     [CHR 0xE2, CHR 0x80, CHR 0x82], [CHR 0xE2, CHR 0x80, CHR 0x83],
     [CHR 0xE2, CHR 0x80, CHR 0x84], [CHR 0xE2, CHR 0x80, CHR 0x85],
     [CHR 0xE2, CHR 0x80, CHR 0x86], [CHR 0xE2, CHR 0x80, CHR 0x87],
     [CHR 0xE2, CHR 0x80, CHR 0x88], [CHR 0xE2, CHR 0x80, CHR 0x89],
     [CHR 0xE2, CHR 0x80, CHR 0x8A], [CHR 0xE2, CHR 0x80, CHR 0xA8],
     [CHR 0xE2, CHR 0x80, CHR 0xA9], [CHR 0xE2, CHR 0x80, CHR 0xAF],
     [CHR 0xE2, CHR 0x81, CHR 0x9F], [CHR 0xE3, CHR 0x80, CHR 0x80]]"

definition starts_with :: "bytes \<Rightarrow> bytes \<Rightarrow> bool" where
  "starts_with e s \<longleftrightarrow> e \<noteq> [] \<and> take (length e) s = e"

lemma starts_with_append: "starts_with e s \<Longrightarrow> starts_with e (s @ t)"
proof -
  assume e: "starts_with e s"
  then have "length (take (length e) s) = length e" by (simp add: starts_with_def)
  then have "length e \<le> length s" by simp
  with e show ?thesis by (simp add: starts_with_def)
qed

function strip_all :: "bytes list \<Rightarrow> bytes \<Rightarrow> bytes" where
  "strip_all es s =
     (case find (\<lambda>e. starts_with e s) es of
        None \<Rightarrow> s
      | Some e \<Rightarrow> strip_all es (drop (length e) s))"
  by pat_completeness auto
termination
proof (relation "measure (\<lambda>(es, s). length s)")
  fix es s e
  assume "find (\<lambda>e. starts_with e s) es = Some e"
  then have "starts_with e s" by (auto simp: find_Some_iff)
  then have "0 < length e" and "0 < length s"
    by (auto simp: starts_with_def)
  then show "((es, drop (length e) s), (es, s)) \<in> measure (\<lambda>(es, s). length s)" by simp
qed simp

declare strip_all.simps [simp del]

lemma strip_all_none: "\<forall>e \<in> set es. \<not> starts_with e s \<Longrightarrow> strip_all es s = s"
proof -
  assume "\<forall>e \<in> set es. \<not> starts_with e s"
  then have "find (\<lambda>e. starts_with e s) es = None" by (auto simp: find_None_iff)
  then show ?thesis by (simp add: strip_all.simps [of es s])
qed

lemma strip_all_stops: "e \<in> set es \<Longrightarrow> \<not> starts_with e (strip_all es s)"
proof (induction es s rule: strip_all.induct)
  case (1 es s)
  show ?case
  proof (cases "find (\<lambda>e. starts_with e s) es")
    case None
    then have "strip_all es s = s" by (simp add: strip_all.simps [of es s])
    moreover have "\<not> starts_with e s" using None "1.prems" by (auto simp: find_None_iff)
    ultimately show ?thesis by simp
  next
    case (Some a)
    with 1 show ?thesis by (simp add: strip_all.simps [of es s])
  qed
qed

lemma strip_all_suffix: "\<exists>p. s = p @ strip_all es s"
proof (induction es s rule: strip_all.induct)
  case (1 es s)
  show ?case
  proof (cases "find (\<lambda>e. starts_with e s) es")
    case None
    then show ?thesis by (simp add: strip_all.simps [of es s])
  next
    case (Some e)
    with 1 obtain p where "drop (length e) s = p @ strip_all es (drop (length e) s)" by auto
    then have "s = (take (length e) s @ p) @ strip_all es (drop (length e) s)"
      by (metis append_assoc append_take_drop_id)
    moreover have "strip_all es s = strip_all es (drop (length e) s)"
      using Some by (simp add: strip_all.simps [of es s])
    ultimately show ?thesis by metis
  qed
qed

text \<open>\<open>strings.TrimSpace\<close>: leading white space first, then trailing white space.\<close>

definition TrimSpace :: "bytes \<Rightarrow> bytes" where
  "TrimSpace s = rev (strip_all (map rev space_encodings) (rev (strip_all space_encodings s)))"

lemma TrimSpace_prefix: "\<exists>q. strip_all space_encodings s = TrimSpace s @ q"
proof -
  obtain p where "rev (strip_all space_encodings s) =
      p @ strip_all (map rev space_encodings) (rev (strip_all space_encodings s))"
    using strip_all_suffix by blast
  then have "strip_all space_encodings s = TrimSpace s @ rev p"
    by (metis TrimSpace_def rev_append rev_rev_ident)
  then show ?thesis by blast
qed

lemma TrimSpace_idem [simp]: "TrimSpace (TrimSpace s) = TrimSpace s"
proof -
  obtain q where q: "strip_all space_encodings s = TrimSpace s @ q"
    using TrimSpace_prefix by blast
  have "\<not> starts_with e (TrimSpace s)" if "e \<in> set space_encodings" for e
    using strip_all_stops [OF that, of s] starts_with_append [of e "TrimSpace s" q] q by auto
  then have left: "strip_all space_encodings (TrimSpace s) = TrimSpace s"
    by (intro strip_all_none) simp
  have "strip_all (map rev space_encodings) (rev (TrimSpace s)) = rev (TrimSpace s)"
    unfolding TrimSpace_def rev_rev_ident by (rule strip_all_none) (blast dest: strip_all_stops)
  with left show ?thesis by (simp add: TrimSpace_def [of "TrimSpace s"])
qed

lemma TrimSpace_length: "length (TrimSpace s) \<le> length s"
proof -
  obtain q where "strip_all space_encodings s = TrimSpace s @ q"
    using TrimSpace_prefix by blast
  then have "length (TrimSpace s) \<le> length (strip_all space_encodings s)"
    by (metis length_append le_add1)
  moreover obtain p where "s = p @ strip_all space_encodings s"
    using strip_all_suffix by blast
  then have "length (strip_all space_encodings s) \<le> length s"
    by (metis length_append le_add2)
  ultimately show ?thesis by simp
qed

lemma starts_with_hd: "starts_with e s \<Longrightarrow> s \<noteq> [] \<and> hd s = hd e"
  by (cases e; cases s) (auto simp: starts_with_def)

lemma space_encodings_ends:
  "e \<in> set space_encodings \<Longrightarrow>
     (byte_val (hd e) \<le> 0x20 \<or> 0x80 \<le> byte_val (hd e)) \<and>
     (byte_val (last e) \<le> 0x20 \<or> 0x80 \<le> byte_val (last e)) \<and> e \<noteq> []"
  unfolding space_encodings_def by auto

text \<open>A string whose first and last bytes are printing ASCII is trimmed already.\<close>

lemma TrimSpace_printing:
  assumes "s \<noteq> []" and "0x20 < byte_val (hd s)" and "byte_val (hd s) < 0x80"
    and "0x20 < byte_val (last s)" and "byte_val (last s) < 0x80"
  shows "TrimSpace s = s"
proof -
  have "\<not> starts_with e s" if "e \<in> set space_encodings" for e
    using that assms space_encodings_ends [of e] starts_with_hd [of e s] by auto
  then have l: "strip_all space_encodings s = s" by (intro strip_all_none) simp
  have "\<not> starts_with (rev e) (rev s)" if "e \<in> set space_encodings" for e
    using that assms space_encodings_ends [of e] starts_with_hd [of "rev e" "rev s"]
    by (auto simp: hd_rev)
  then have "strip_all (map rev space_encodings) (rev s) = rev s" by (intro strip_all_none) auto
  with l show ?thesis by (simp add: TrimSpace_def)
qed

definition blank :: "bytes \<Rightarrow> bool" where
  "blank s \<longleftrightarrow> TrimSpace s = []"

lemma TrimSpace_Nil [simp]: "TrimSpace [] = []"
  using TrimSpace_length [of "[]"] by simp

lemma blank_Nil [simp]: "blank []"
  by (simp add: blank_def)

lemma not_blank_nonempty: "\<not> blank s \<Longrightarrow> s \<noteq> []"
  by auto

lemma trimmed_not_blank: "TrimSpace s = s \<Longrightarrow> s \<noteq> [] \<Longrightarrow> \<not> blank s"
  by (simp add: blank_def)

text \<open>\<open>strings.HasPrefix\<close> and \<open>strings.TrimPrefix\<close>.\<close>

definition HasPrefix :: "bytes \<Rightarrow> bytes \<Rightarrow> bool" where
  "HasPrefix s p \<longleftrightarrow> take (length p) s = p"

definition TrimPrefix :: "bytes \<Rightarrow> bytes \<Rightarrow> bytes" where
  "TrimPrefix s p = (if HasPrefix s p then drop (length p) s else s)"

lemma HasPrefix_append [simp]: "HasPrefix (p @ s) p"
  by (simp add: HasPrefix_def)

lemma TrimPrefix_append [simp]: "TrimPrefix (p @ s) p = s"
  by (simp add: TrimPrefix_def)

lemma HasPrefix_TrimPrefix: "HasPrefix s p \<Longrightarrow> s = p @ TrimPrefix s p"
  by (auto simp: HasPrefix_def TrimPrefix_def) (metis append_take_drop_id)

section \<open>Package \<open>unicode/utf8\<close>\<close>

text \<open>
  \<open>rune_len s\<close> is the width of the well-formed UTF-8 sequence at the start of \<open>s\<close>, and 0 when
  there is none (the empty string, or a byte that \<open>utf8\<close> decodes as an error).
\<close>

definition cont :: "char \<Rightarrow> bool" where
  "cont c \<longleftrightarrow> 0x80 \<le> byte_val c \<and> byte_val c \<le> 0xBF"

definition rune_len :: "bytes \<Rightarrow> nat" where
  "rune_len s =
    (case s of
       [] \<Rightarrow> 0
     | a # s1 \<Rightarrow>
         if byte_val a < 0x80 then 1
         else case s1 of
           [] \<Rightarrow> 0
         | b # s2 \<Rightarrow>
             if 0xC2 \<le> byte_val a \<and> byte_val a \<le> 0xDF then (if cont b then 2 else 0)
             else case s2 of
               [] \<Rightarrow> 0
             | c # s3 \<Rightarrow>
                 if 0xE0 \<le> byte_val a \<and> byte_val a \<le> 0xEF
                 then (if cont b \<and> cont c
                          \<and> (byte_val a = 0xE0 \<longrightarrow> 0xA0 \<le> byte_val b)
                          \<and> (byte_val a = 0xED \<longrightarrow> byte_val b \<le> 0x9F) then 3 else 0)
                 else case s3 of
                   [] \<Rightarrow> 0
                 | d # _ \<Rightarrow>
                     if 0xF0 \<le> byte_val a \<and> byte_val a \<le> 0xF4 \<and> cont b \<and> cont c \<and> cont d
                        \<and> (byte_val a = 0xF0 \<longrightarrow> 0x90 \<le> byte_val b)
                        \<and> (byte_val a = 0xF4 \<longrightarrow> byte_val b \<le> 0x8F)
                     then 4 else 0)"

function ValidString :: "bytes \<Rightarrow> bool" where
  "ValidString s =
     (if s = [] then True
      else if rune_len s = 0 then False
      else ValidString (drop (rune_len s) s))"
  by pat_completeness auto
termination
  by (relation "measure length") auto

declare ValidString.simps [simp del]

lemma ValidString_Nil [simp]: "ValidString []"
  by (simp add: ValidString.simps [of "[]"])

lemma ValidString_ascii:
  "\<forall>c \<in> set s. byte_val c < 0x80 \<Longrightarrow> ValidString s"
proof (induction s)
  case Nil
  show ?case by simp
next
  case (Cons a s)
  then have "rune_len (a # s) = 1" by (simp add: rune_len_def)
  with Cons show ?case by (simp add: ValidString.simps [of "a # s"])
qed

section \<open>Package \<open>encoding/hex\<close> and big-endian integers\<close>

definition hex_digit :: "nat \<Rightarrow> char" where
  "hex_digit n = char_of (if n < 10 then 48 + n else 87 + n)"

text \<open>\<open>hex.EncodeToString\<close> writes two lower-case digits per byte.\<close>

definition hex_encode :: "bytes \<Rightarrow> bytes" where
  "hex_encode bs = concat (map (\<lambda>b. [hex_digit (byte_val b div 16), hex_digit (byte_val b mod 16)]) bs)"

text \<open>\<open>hex.DecodeString\<close> accepts both cases and fails on odd length and other characters.\<close>

definition hex_value :: "char \<Rightarrow> nat option" where
  "hex_value c =
    (let v = byte_val c in
     if 48 \<le> v \<and> v \<le> 57 then Some (v - 48)
     else if 97 \<le> v \<and> v \<le> 102 then Some (v - 87)
     else if 65 \<le> v \<and> v \<le> 70 then Some (v - 55)
     else None)"

fun hex_decode :: "bytes \<Rightarrow> bytes option" where
  "hex_decode [] = Some []"
| "hex_decode [c] = None"
| "hex_decode (c # d # s) =
     (case (hex_value c, hex_value d, hex_decode s) of
        (Some h, Some l, Some bs) \<Rightarrow> Some (char_of (16 * h + l) # bs)
      | _ \<Rightarrow> None)"

text \<open>\<open>strings.ToLower\<close> on the ASCII range, which is all the modelled code compares.\<close>

definition lower_char :: "char \<Rightarrow> char" where
  "lower_char c = (if 65 \<le> byte_val c \<and> byte_val c \<le> 90 then char_of (byte_val c + 32) else c)"

lemma hex_value_digit: "n < 16 \<Longrightarrow> hex_value (hex_digit n) = Some n"
  by (auto simp: hex_value_def hex_digit_def Let_def)

lemma hex_decode_encode [simp]: "hex_decode (hex_encode bs) = Some bs"
proof (induction bs)
  case Nil
  show ?case by (simp add: hex_encode_def)
next
  case (Cons b bs)
  have "byte_val b < 256" by simp
  then have "byte_val b div 16 < 16" "byte_val b mod 16 < 16"
    by (simp_all add: div_less_iff_less_mult)
  with Cons show ?case
    by (simp add: hex_encode_def hex_value_digit)
qed

lemma hex_encode_length [simp]: "length (hex_encode bs) = 2 * length bs"
  by (induction bs) (simp_all add: hex_encode_def)

lemma hex_digit_lower:
  assumes "n < 16"
  shows "lower_char (hex_digit n) = hex_digit n" and "hex_digit n \<noteq> CHR ''-''"
proof -
  show "lower_char (hex_digit n) = hex_digit n"
    using assms by (auto simp: lower_char_def hex_digit_def)
  have "byte_val (hex_digit n) \<noteq> byte_val (CHR ''-'')"
    using assms by (auto simp: hex_digit_def)
  then show "hex_digit n \<noteq> CHR ''-''" by metis
qed

lemma hex_encode_digits:
  assumes "c \<in> set (hex_encode bs)"
  shows "\<exists>n < 16. c = hex_digit n"
proof -
  have lt: "byte_val b div 16 < 16" "byte_val b mod 16 < 16" for b
    by (simp_all add: div_less_iff_less_mult)
  obtain b where "c = hex_digit (byte_val b div 16) \<or> c = hex_digit (byte_val b mod 16)"
    using assms by (auto simp: hex_encode_def)
  then show ?thesis using lt by blast
qed

lemma hex_encode_lower [simp]: "map lower_char (hex_encode bs) = hex_encode bs"
  by (rule map_idI) (metis hex_encode_digits hex_digit_lower(1))

lemma hex_encode_no_dash [simp]: "filter (\<lambda>c. c \<noteq> CHR ''-'') (hex_encode bs) = hex_encode bs"
  by (rule filter_True) (metis hex_encode_digits hex_digit_lower(2))

lemma hex_encode_append: "hex_encode (a @ b) = hex_encode a @ hex_encode b"
  by (simp add: hex_encode_def)

text \<open>\<open>Time.UnixNano\<close>: the Go zero time is 62135596800 seconds before the Unix epoch.\<close>

definition unixNano :: "time \<Rightarrow> int" where
  "unixNano t = t - 62135596800 * 1000000000"

text \<open>\<open>binary.BigEndian.PutUint64\<close>.\<close>

definition be64 :: "uint64 \<Rightarrow> bytes" where
  "be64 w = map (\<lambda>i. char_of (unat w div 256 ^ i mod 256)) [7, 6, 5, 4, 3, 2, 1, 0]"

lemma be64_length [simp]: "length (be64 w) = 8"
  by (simp add: be64_def)

text \<open>The digits of a number in base 256 determine it, so the encoding is injective.\<close>

lemma digits_determine:
  fixes x y :: nat
  assumes "x < 256 ^ n" and "y < 256 ^ n"
    and "\<forall>i < n. x div 256 ^ i mod 256 = y div 256 ^ i mod 256"
  shows "x = y"
  using assms
proof (induction n arbitrary: x y)
  case 0
  then show ?case by simp
next
  case (Suc n)
  have "x div 256 = y div 256"
  proof (rule Suc.IH)
    show "x div 256 < 256 ^ n" "y div 256 < 256 ^ n"
      using Suc.prems by (simp_all add: less_mult_imp_div_less)
    show "\<forall>i < n. x div 256 div 256 ^ i mod 256 = y div 256 div 256 ^ i mod 256"
      using Suc.prems(3) by (auto simp flip: div_mult2_eq power_Suc)
  qed
  moreover have "x mod 256 = y mod 256" using Suc.prems(3) by force
  ultimately show ?case by (metis div_mult_mod_eq)
qed

lemma be64_inj: "be64 v = be64 w \<Longrightarrow> v = w"
proof -
  assume eq: "be64 v = be64 w"
  have "unat v = unat w"
  proof (rule digits_determine [where n = 8])
    show "unat v < 256 ^ 8" "unat w < 256 ^ 8"
      using unsigned_less [of v, where 'a = nat] unsigned_less [of w, where 'a = nat] by simp_all
    show "\<forall>i < 8. unat v div 256 ^ i mod 256 = unat w div 256 ^ i mod 256"
    proof (intro allI impI)
      fix i :: nat
      assume "i < 8"
      then have "i = 7 \<or> i = 6 \<or> i = 5 \<or> i = 4 \<or> i = 3 \<or> i = 2 \<or> i = 1 \<or> i = 0" by linarith
      then show "unat v div 256 ^ i mod 256 = unat w div 256 ^ i mod 256"
        using eq by (elim disjE) (simp_all add: be64_def)
    qed
  qed
  then show "v = w" by (rule unsigned_word_eqI)
qed

text \<open>Length-prefixed strings can be read back from the front of a longer message.\<close>

lemma frame_inj:
  assumes "length a < 2 ^ 64" "length b < 2 ^ 64"
    and "be64 (of_nat (length a)) @ a @ x = be64 (of_nat (length b)) @ b @ y"
  shows "a = b \<and> x = y"
proof -
  have "be64 (of_nat (length a)) = be64 (of_nat (length b))"
    using assms(3) by (simp add: append_eq_append_conv)
  then have "(of_nat (length a) :: uint64) = of_nat (length b)" by (rule be64_inj)
  then have "unat (of_nat (length a) :: uint64) = unat (of_nat (length b) :: uint64)" by simp
  then have "length a = length b" using assms(1,2) by (simp add: unat_of_nat)
  with assms(3) show ?thesis by (auto simp: append_eq_append_conv)
qed

end
