(* ===== verification/Domain_Errors.thy ===== *)
theory Domain_Errors
  imports Prelude
begin

text \<open>
  The error values of the control plane: the structured errors of
  \<open>src/internal/domain/errors.go\<close>, the sentinel errors of the store and of the application
  core, and errors wrapped with \<open>fmt.Errorf\<close>.  The lemmas show how a classification survives
  wrapping.
\<close>

datatype ErrorCode =
    CodeInvalidArgument | CodeInvalidID | CodeInvalidState | CodeInvalidTransition
  | CodeFailedPrecondition | CodeNotFound | CodeAlreadyExists | CodeConflict
  | CodeStaleRevision | CodeUnauthorized | CodeForbidden | CodeDeadlineExceeded
  | CodeResourceExhausted | CodeCapabilityUnavailable | CodeIntegrityViolation
  | CodeUnavailable | CodeInternal

datatype sentinel =
    AppErrNotFound | AppErrScope
  | StoreErrIdempotencyConflict | StoreErrRevisionConflict | StoreErrIntegrity
  | StoreErrPolicyConflict | StoreErrObjectConflict | StoreErrNotFound
  | External string

text \<open>
  \<open>DomainError code op field message details cause\<close> is the struct \<open>Error\<close>; \<open>Sentinel\<close> is a
  package-level \<open>errors.New\<close> value or an error of a package outside the repository;
  \<open>Wrapped text e\<close> is \<open>fmt.Errorf\<close> with a \<open>%w\<close> verb for \<open>e\<close>, and \<open>Errorf text\<close> one without.
\<close>

datatype go_error =
    DomainError ErrorCode string string string "(string \<times> string) list" "go_error option"
  | Sentinel sentinel
  | Wrapped string go_error
  | Errorf string

type_synonym err = "go_error option"
type_synonym 'a result = "go_error + 'a"

definition NewError :: "ErrorCode \<Rightarrow> string \<Rightarrow> string \<Rightarrow> string \<Rightarrow> err \<Rightarrow> go_error" where
  "NewError code op field message cause = DomainError code op field message [] cause"

definition NewDetailedError ::
    "ErrorCode \<Rightarrow> string \<Rightarrow> string \<Rightarrow> string \<Rightarrow> (string \<times> string) list \<Rightarrow> err \<Rightarrow> go_error" where
  "NewDetailedError code op field message details cause =
     DomainError code op field message details cause"

fun ErrorCode_text :: "ErrorCode \<Rightarrow> string" where
  "ErrorCode_text CodeInvalidArgument = ''invalid_argument''"
| "ErrorCode_text CodeInvalidID = ''invalid_id''"
| "ErrorCode_text CodeInvalidState = ''invalid_state''"
| "ErrorCode_text CodeInvalidTransition = ''invalid_transition''"
| "ErrorCode_text CodeFailedPrecondition = ''failed_precondition''"
| "ErrorCode_text CodeNotFound = ''not_found''"
| "ErrorCode_text CodeAlreadyExists = ''already_exists''"
| "ErrorCode_text CodeConflict = ''conflict''"
| "ErrorCode_text CodeStaleRevision = ''stale_revision''"
| "ErrorCode_text CodeUnauthorized = ''unauthorized''"
| "ErrorCode_text CodeForbidden = ''forbidden''"
| "ErrorCode_text CodeDeadlineExceeded = ''deadline_exceeded''"
| "ErrorCode_text CodeResourceExhausted = ''resource_exhausted''"
| "ErrorCode_text CodeCapabilityUnavailable = ''capability_unavailable''"
| "ErrorCode_text CodeIntegrityViolation = ''integrity_violation''"
| "ErrorCode_text CodeUnavailable = ''unavailable''"
| "ErrorCode_text CodeInternal = ''internal''"

text \<open>The method \<open>Error()\<close> of the domain error.\<close>

definition Error_text :: "ErrorCode \<Rightarrow> string \<Rightarrow> string \<Rightarrow> string \<Rightarrow> string" where
  "Error_text code op field message =
    (let location = (if field \<noteq> [] then (if op \<noteq> [] then op @ ''.'' else op) @ field else op);
         location = (if location = [] then ErrorCode_text code else location)
     in if message = [] then location else location @ '': '' @ message)"

text \<open>
  \<open>errors.As\<close> walks the \<open>Unwrap\<close> chain to the first domain error; anything else is internal.
\<close>

fun ErrorCodeOf :: "go_error \<Rightarrow> ErrorCode" where
  "ErrorCodeOf (DomainError code _ _ _ _ _) = code"
| "ErrorCodeOf (Sentinel _) = CodeInternal"
| "ErrorCodeOf (Wrapped _ e) = ErrorCodeOf e"
| "ErrorCodeOf (Errorf _) = CodeInternal"

definition IsCode :: "err \<Rightarrow> ErrorCode \<Rightarrow> bool" where
  "IsCode err code = (case err of None \<Rightarrow> False | Some e \<Rightarrow> ErrorCodeOf e = code)"

text \<open>\<open>errors.Is\<close> against a sentinel follows the same chain, through the cause of a domain error.\<close>

fun wraps_sentinel :: "go_error \<Rightarrow> sentinel \<Rightarrow> bool" where
  "wraps_sentinel (DomainError _ _ _ _ _ None) s = False"
| "wraps_sentinel (DomainError _ _ _ _ _ (Some e)) s = wraps_sentinel e s"
| "wraps_sentinel (Sentinel t) s = (s = t)"
| "wraps_sentinel (Wrapped _ e) s = wraps_sentinel e s"
| "wraps_sentinel (Errorf _) s = False"

lemma ErrorCodeOf_NewError [simp]:
  "ErrorCodeOf (NewError code op field message cause) = code"
  "ErrorCodeOf (NewDetailedError code op field message details cause) = code"
  by (simp_all add: NewError_def NewDetailedError_def)

text \<open>The helpers of \<open>src/internal/application/errors.go\<close>.\<close>

definition invalidArgument :: "string \<Rightarrow> string \<Rightarrow> string \<Rightarrow> err \<Rightarrow> go_error" where
  "invalidArgument operation field message cause =
     NewError CodeInvalidArgument operation field message cause"

definition failedPrecondition :: "string \<Rightarrow> string \<Rightarrow> string \<Rightarrow> err \<Rightarrow> go_error" where
  "failedPrecondition operation field message cause =
     NewError CodeFailedPrecondition operation field message cause"

definition resourceExhausted :: "string \<Rightarrow> string \<Rightarrow> string \<Rightarrow> err \<Rightarrow> go_error" where
  "resourceExhausted operation field message cause =
     NewError CodeResourceExhausted operation field message cause"

definition integrityViolation :: "string \<Rightarrow> string \<Rightarrow> string \<Rightarrow> err \<Rightarrow> go_error" where
  "integrityViolation operation field message cause =
     NewError CodeIntegrityViolation operation field message cause"

lemma ErrorCodeOf_helpers [simp]:
  "ErrorCodeOf (invalidArgument operation field message cause) = CodeInvalidArgument"
  "ErrorCodeOf (failedPrecondition operation field message cause) = CodeFailedPrecondition"
  "ErrorCodeOf (resourceExhausted operation field message cause) = CodeResourceExhausted"
  "ErrorCodeOf (integrityViolation operation field message cause) = CodeIntegrityViolation"
  by (simp_all add: invalidArgument_def failedPrecondition_def resourceExhausted_def
      integrityViolation_def)

abbreviation ErrNotFound :: go_error where "ErrNotFound \<equiv> Sentinel AppErrNotFound"
abbreviation ErrScope :: go_error where "ErrScope \<equiv> Sentinel AppErrScope"
abbreviation ErrRevisionConflict :: go_error where
  "ErrRevisionConflict \<equiv> Sentinel StoreErrRevisionConflict"
abbreviation ErrIdempotencyConflict :: go_error where
  "ErrIdempotencyConflict \<equiv> Sentinel StoreErrIdempotencyConflict"

end
