(* ===== verification/Domain_States.thy ===== *)
theory Domain_States
  imports Domain_Errors
begin

text \<open>
  The lifecycle state machines of \<open>src/internal/domain/states.go\<close>: the generic transition guard
  and the thirteen resource machines built on it.  A Go state is a string; the datatypes below
  have one constructor per declared constant and one (\<open>...Other\<close>) for every other string, which
  persisted data or a request can carry.

  The locale \<open>lifecycle\<close> is the contract every machine keeps: permitted steps stay among
  recognized states, terminal states are absorbing, every other recognized state has a way on,
  and a rank decreases with every step.  Each machine is an interpretation of it.
\<close>

section \<open>The transition guard\<close>

text \<open>A transition table is a map of maps; the inner map is used as a set.\<close>

type_synonym 's transitionTable = "'s \<Rightarrow> 's set option"

definition put_transition :: "'s \<times> 's \<Rightarrow> 's transitionTable \<Rightarrow> 's transitionTable" where
  "put_transition item table =
     (case item of (from, to) \<Rightarrow>
        table(from := Some (insert to (case table from of None \<Rightarrow> {} | Some m \<Rightarrow> m))))"

definition newTransitionTable :: "('s \<times> 's) list \<Rightarrow> 's transitionTable" where
  "newTransitionTable transitions = fold put_transition transitions (\<lambda>_. None)"

text \<open>
  The nested loops that add the failure edges assign into the inner map, which panics when the
  outer key is missing; the result is then \<open>None\<close>.
\<close>

fun add_edge :: "'s \<times> 's \<Rightarrow> 's transitionTable option \<Rightarrow> 's transitionTable option" where
  "add_edge item None = None"
| "add_edge (from, to) (Some t) =
     (case t from of None \<Rightarrow> None | Some m \<Rightarrow> Some (t(from := Some (insert to m))))"

definition add_edges :: "'s list \<Rightarrow> 's list \<Rightarrow> 's transitionTable \<Rightarrow> 's transitionTable option" where
  "add_edges froms tos table = fold add_edge (List.product froms tos) (Some table)"

definition allowed :: "'s transitionTable \<Rightarrow> 's \<Rightarrow> 's \<Rightarrow> bool" where
  "allowed table from to = (case table from of None \<Rightarrow> False | Some m \<Rightarrow> to \<in> m)"

definition guardTransition ::
    "string \<Rightarrow> ('s \<Rightarrow> bool) \<Rightarrow> ('s \<Rightarrow> string) \<Rightarrow> 's transitionTable \<Rightarrow> 's \<Rightarrow> 's \<Rightarrow> err" where
  "guardTransition resource valid text table from to =
     first_err
       [fail_if (\<not> valid from)
          (NewError CodeInvalidState (resource @ ''.transition'') ''from''
             ''is not a recognized state'' None),
        fail_if (\<not> valid to)
          (NewError CodeInvalidState (resource @ ''.transition'') ''to''
             ''is not a recognized state'' None),
        fail_if (\<not> allowed table from to)
          (NewDetailedError CodeInvalidTransition (resource @ ''.transition'') ''state''
             ''transition is not allowed'' [(''from'', text from), (''to'', text to)] None)]"

lemma allowed_put_transition:
  "allowed (put_transition e table) a b \<longleftrightarrow> (a, b) = e \<or> allowed table a b"
  by (cases e) (auto simp: allowed_def put_transition_def split: option.splits)

lemma allowed_fold_put:
  "allowed (fold put_transition xs table) a b \<longleftrightarrow> (a, b) \<in> set xs \<or> allowed table a b"
  by (induction xs arbitrary: table) (auto simp: allowed_put_transition)

lemma allowed_new [simp]: "allowed (newTransitionTable xs) a b \<longleftrightarrow> (a, b) \<in> set xs"
  by (simp add: newTransitionTable_def allowed_fold_put) (simp add: allowed_def)

lemma newTransitionTable_has_key:
  "newTransitionTable xs a = None \<longleftrightarrow> a \<notin> fst ` set xs"
proof -
  have "fold put_transition xs t a = None \<longleftrightarrow> t a = None \<and> a \<notin> fst ` set xs" for t
    by (induction xs arbitrary: t) (auto simp: put_transition_def split: if_splits)
  then show ?thesis by (simp add: newTransitionTable_def)
qed

lemma fold_add_edge_allowed:
  "fold add_edge es (Some t) = Some t' \<Longrightarrow>
     allowed t' a b \<longleftrightarrow> (a, b) \<in> set es \<or> allowed t a b"
proof (induction es arbitrary: t)
  case Nil
  then show ?case by simp
next
  case (Cons e es)
  obtain x y where e: "e = (x, y)" by (cases e)
  show ?case
  proof (cases "t x")
    case None
    have "fold add_edge es None = None" for es :: "('a \<times> 'a) list"
      by (induction es) auto
    with None e Cons.prems show ?thesis by simp
  next
    case (Some m)
    with e Cons.prems have "fold add_edge es (Some (t(x := Some (insert y m)))) = Some t'"
      by simp
    from Cons.IH [OF this] Some e show ?thesis by (auto simp: allowed_def)
  qed
qed

lemma fold_add_edge_Some:
  "\<forall>e \<in> set es. t (fst e) \<noteq> None \<Longrightarrow> \<exists>t'. fold add_edge es (Some t) = Some t'"
proof (induction es arbitrary: t)
  case Nil
  then show ?case by simp
next
  case (Cons e es)
  then obtain x y m where e: "e = (x, y)" and m: "t x = Some m" by (cases e) auto
  have "\<exists>t'. fold add_edge es (Some (t(x := Some (insert y m)))) = Some t'"
    using Cons by auto
  with e m show ?case by simp
qed

lemma add_edges_ok:
  "\<forall>f \<in> set froms. t f \<noteq> None \<Longrightarrow> \<exists>t'. add_edges froms tos t = Some t'"
  unfolding add_edges_def by (rule fold_add_edge_Some) auto

lemma add_edges_allowed:
  "add_edges froms tos t = Some t' \<Longrightarrow>
     allowed t' a b \<longleftrightarrow> a \<in> set froms \<and> b \<in> set tos \<or> allowed t a b"
  by (auto simp: add_edges_def fold_add_edge_allowed)

lemma guardTransition_None [err_simps]:
  "guardTransition resource valid text table from to = None \<longleftrightarrow>
     valid from \<and> valid to \<and> allowed table from to"
  by (simp add: guardTransition_def)

text \<open>The lookup of a table that was built without a panic.\<close>

definition built :: "'s transitionTable option \<Rightarrow> 's transitionTable" where
  "built t = (case t of None \<Rightarrow> (\<lambda>_. None) | Some t' \<Rightarrow> t')"

lemma allowed_built:
  "\<forall>f \<in> set froms. f \<in> fst ` set xs \<Longrightarrow>
   allowed (built (add_edges froms tos (newTransitionTable xs))) a b \<longleftrightarrow>
     a \<in> set froms \<and> b \<in> set tos \<or> (a, b) \<in> set xs"
proof -
  assume "\<forall>f \<in> set froms. f \<in> fst ` set xs"
  then have "\<forall>f \<in> set froms. newTransitionTable xs f \<noteq> None"
    by (simp add: newTransitionTable_has_key)
  then obtain t' where "add_edges froms tos (newTransitionTable xs) = Some t'"
    using add_edges_ok by blast
  then show ?thesis by (simp add: built_def add_edges_allowed)
qed

section \<open>The contract of a lifecycle\<close>

locale lifecycle =
  fixes valid :: "'s \<Rightarrow> bool"
    and terminal :: "'s \<Rightarrow> bool"
    and require :: "'s \<Rightarrow> 's \<Rightarrow> err"
    and rank :: "'s \<Rightarrow> nat"
  assumes require_valid: "require a b = None \<Longrightarrow> valid a \<and> valid b"
    and terminal_valid: "terminal a \<Longrightarrow> valid a"
    and absorbing: "terminal a \<Longrightarrow> require a b \<noteq> None"
    and progress: "valid a \<Longrightarrow> \<not> terminal a \<Longrightarrow> \<exists>b. require a b = None"
    and rank_decreases: "require a b = None \<Longrightarrow> rank b < rank a"
begin

definition step :: "'s \<Rightarrow> 's \<Rightarrow> bool" where
  "step a b \<longleftrightarrow> require a b = None"

lemma no_self_loop: "require a a \<noteq> None"
  using rank_decreases [of a a] by auto

lemma steps_rank: "step\<^sup>*\<^sup>* a b \<Longrightarrow> rank b \<le> rank a"
  by (induction rule: rtranclp_induct) (auto simp: step_def dest: rank_decreases)

lemma no_cycle: "step\<^sup>+\<^sup>+ a b \<Longrightarrow> a \<noteq> b"
proof -
  assume "step\<^sup>+\<^sup>+ a b"
  then have "rank b < rank a"
    by (induction rule: tranclp_induct) (auto simp: step_def dest: rank_decreases)
  then show "a \<noteq> b" by auto
qed

lemma terminal_stays: "step\<^sup>*\<^sup>* a b \<Longrightarrow> terminal a \<Longrightarrow> b = a"
  by (induction rule: converse_rtranclp_induct) (auto simp: step_def absorbing)

lemma reaches_terminal: "valid a \<Longrightarrow> \<exists>b. terminal b \<and> step\<^sup>*\<^sup>* a b"
proof (induction "rank a" arbitrary: a rule: less_induct)
  case less
  show ?case
  proof (cases "terminal a")
    case True
    then show ?thesis by blast
  next
    case False
    then obtain b where ab: "require a b = None" using progress less.prems by blast
    then obtain c where "terminal c" and "step\<^sup>*\<^sup>* b c"
      using less.hyps [of b] rank_decreases require_valid by blast
    with ab show ?thesis by (metis converse_rtranclp_into_rtranclp step_def)
  qed
qed

lemma path_bound:
  "(\<forall>i. Suc i < length p \<longrightarrow> require (p ! i) (p ! Suc i) = None) \<Longrightarrow> p \<noteq> [] \<Longrightarrow>
     length p \<le> Suc (rank (hd p))"
proof (induction p)
  case Nil
  then show ?case by simp
next
  case (Cons a p)
  show ?case
  proof (cases p)
    case Nil
    then show ?thesis by simp
  next
    case (Cons b q)
    have "length p \<le> Suc (rank (hd p))"
      by (rule Cons.IH) (use Cons.prems(1) Cons in force)+
    moreover have "require a b = None" using Cons.prems(1) Cons by force
    ultimately show ?thesis using rank_decreases [of a b] Cons by simp
  qed
qed

end

section \<open>ResearchSessionState\<close>

datatype ResearchSessionState =
    ResearchSessionRequested | ResearchSessionAdmitted | ResearchSessionLeased
  | ResearchSessionReleasing | ResearchSessionReleased | ResearchSessionQuarantined
  | ResearchSessionLost | ResearchSessionStateOther string

fun ResearchSessionState_String :: "ResearchSessionState \<Rightarrow> string" where
  "ResearchSessionState_String ResearchSessionRequested = ''requested''"
| "ResearchSessionState_String ResearchSessionAdmitted = ''admitted''"
| "ResearchSessionState_String ResearchSessionLeased = ''leased''"
| "ResearchSessionState_String ResearchSessionReleasing = ''releasing''"
| "ResearchSessionState_String ResearchSessionReleased = ''released''"
| "ResearchSessionState_String ResearchSessionQuarantined = ''quarantined''"
| "ResearchSessionState_String ResearchSessionLost = ''lost''"
| "ResearchSessionState_String (ResearchSessionStateOther s) = s"

text \<open>The recognized states are the keys of the map behind \<open>IsValid\<close>.\<close>

definition sessionStates :: "ResearchSessionState list" where
  "sessionStates =
     [ResearchSessionRequested, ResearchSessionAdmitted, ResearchSessionLeased,
      ResearchSessionReleasing, ResearchSessionReleased, ResearchSessionQuarantined,
      ResearchSessionLost]"

definition ResearchSessionState_IsValid :: "ResearchSessionState \<Rightarrow> bool" where
  "ResearchSessionState_IsValid s \<longleftrightarrow> s \<in> set sessionStates"

definition ResearchSessionState_Terminal :: "ResearchSessionState \<Rightarrow> bool" where
  "ResearchSessionState_Terminal s \<longleftrightarrow> s = ResearchSessionReleased \<or> s = ResearchSessionQuarantined \<or> s = ResearchSessionLost"

definition sessionTransitions :: "ResearchSessionState transitionTable" where
  "sessionTransitions =
     newTransitionTable
       [(ResearchSessionRequested, ResearchSessionAdmitted),
        (ResearchSessionAdmitted, ResearchSessionLeased),
        (ResearchSessionLeased, ResearchSessionReleasing),
        (ResearchSessionReleasing, ResearchSessionReleased),
        (ResearchSessionRequested, ResearchSessionQuarantined),
        (ResearchSessionRequested, ResearchSessionLost),
        (ResearchSessionAdmitted, ResearchSessionQuarantined),
        (ResearchSessionAdmitted, ResearchSessionLost),
        (ResearchSessionLeased, ResearchSessionQuarantined),
        (ResearchSessionLeased, ResearchSessionLost),
        (ResearchSessionReleasing, ResearchSessionQuarantined),
        (ResearchSessionReleasing, ResearchSessionLost)]"

definition RequireResearchSessionTransition :: "ResearchSessionState \<Rightarrow> ResearchSessionState \<Rightarrow> err" where
  "RequireResearchSessionTransition from to =
     guardTransition ''research_session'' ResearchSessionState_IsValid ResearchSessionState_String sessionTransitions from to"

definition CanResearchSessionTransition :: "ResearchSessionState \<Rightarrow> ResearchSessionState \<Rightarrow> bool" where
  "CanResearchSessionTransition from to \<longleftrightarrow> RequireResearchSessionTransition from to = None"

lemma RequireResearchSessionTransition_None:
  "RequireResearchSessionTransition a b = None \<longleftrightarrow>
     (a, b) \<in>
     {(ResearchSessionRequested, ResearchSessionAdmitted),
      (ResearchSessionAdmitted, ResearchSessionLeased),
      (ResearchSessionLeased, ResearchSessionReleasing),
      (ResearchSessionReleasing, ResearchSessionReleased),
      (ResearchSessionRequested, ResearchSessionQuarantined),
      (ResearchSessionRequested, ResearchSessionLost),
      (ResearchSessionAdmitted, ResearchSessionQuarantined),
      (ResearchSessionAdmitted, ResearchSessionLost),
      (ResearchSessionLeased, ResearchSessionQuarantined),
      (ResearchSessionLeased, ResearchSessionLost),
      (ResearchSessionReleasing, ResearchSessionQuarantined),
      (ResearchSessionReleasing, ResearchSessionLost)}"
  by (auto simp: RequireResearchSessionTransition_def sessionTransitions_def err_simps ResearchSessionState_IsValid_def sessionStates_def)

fun ResearchSession_rank :: "ResearchSessionState \<Rightarrow> nat" where
  "ResearchSession_rank ResearchSessionRequested = 4"
| "ResearchSession_rank ResearchSessionAdmitted = 3"
| "ResearchSession_rank ResearchSessionLeased = 2"
| "ResearchSession_rank ResearchSessionReleasing = 1"
| "ResearchSession_rank ResearchSessionReleased = 0"
| "ResearchSession_rank ResearchSessionQuarantined = 0"
| "ResearchSession_rank ResearchSessionLost = 0"
| "ResearchSession_rank (ResearchSessionStateOther s) = 0"

interpretation ResearchSession_machine: lifecycle ResearchSessionState_IsValid ResearchSessionState_Terminal RequireResearchSessionTransition ResearchSession_rank
proof
  fix a b
  show "RequireResearchSessionTransition a b = None \<Longrightarrow> ResearchSessionState_IsValid a \<and> ResearchSessionState_IsValid b"
    by (auto simp: RequireResearchSessionTransition_None ResearchSessionState_IsValid_def sessionStates_def)
  show "ResearchSessionState_Terminal a \<Longrightarrow> ResearchSessionState_IsValid a"
    by (auto simp: ResearchSessionState_Terminal_def ResearchSessionState_IsValid_def sessionStates_def)
  show "ResearchSessionState_Terminal a \<Longrightarrow> RequireResearchSessionTransition a b \<noteq> None"
    by (auto simp: RequireResearchSessionTransition_None ResearchSessionState_Terminal_def)
  show "ResearchSessionState_IsValid a \<Longrightarrow> \<not> ResearchSessionState_Terminal a \<Longrightarrow> \<exists>b. RequireResearchSessionTransition a b = None"
    by (auto simp: RequireResearchSessionTransition_None ResearchSessionState_Terminal_def ResearchSessionState_IsValid_def sessionStates_def)
  show "RequireResearchSessionTransition a b = None \<Longrightarrow> ResearchSession_rank b < ResearchSession_rank a"
    by (auto simp: RequireResearchSessionTransition_None)
qed

section \<open>LeaseState\<close>

datatype LeaseState =
    LeaseActive | LeaseReleasing | LeaseReleased
  | LeaseExpired | LeaseRevoked | LeaseQuarantined
  | LeaseLost | LeaseStateOther string

fun LeaseState_String :: "LeaseState \<Rightarrow> string" where
  "LeaseState_String LeaseActive = ''active''"
| "LeaseState_String LeaseReleasing = ''releasing''"
| "LeaseState_String LeaseReleased = ''released''"
| "LeaseState_String LeaseExpired = ''expired''"
| "LeaseState_String LeaseRevoked = ''revoked''"
| "LeaseState_String LeaseQuarantined = ''quarantined''"
| "LeaseState_String LeaseLost = ''lost''"
| "LeaseState_String (LeaseStateOther s) = s"

text \<open>The recognized states are the keys of the map behind \<open>IsValid\<close>.\<close>

definition leaseStates :: "LeaseState list" where
  "leaseStates =
     [LeaseActive, LeaseReleasing, LeaseReleased,
      LeaseExpired, LeaseRevoked, LeaseQuarantined,
      LeaseLost]"

definition LeaseState_IsValid :: "LeaseState \<Rightarrow> bool" where
  "LeaseState_IsValid s \<longleftrightarrow> s \<in> set leaseStates"

definition LeaseState_Terminal :: "LeaseState \<Rightarrow> bool" where
  "LeaseState_Terminal s \<longleftrightarrow> s = LeaseReleased \<or> s = LeaseExpired \<or> s = LeaseRevoked \<or> s = LeaseQuarantined \<or> s = LeaseLost"

definition leaseTransitions :: "LeaseState transitionTable" where
  "leaseTransitions =
     newTransitionTable
       [(LeaseActive, LeaseReleasing),
        (LeaseReleasing, LeaseReleased),
        (LeaseActive, LeaseExpired),
        (LeaseActive, LeaseRevoked),
        (LeaseActive, LeaseQuarantined),
        (LeaseActive, LeaseLost),
        (LeaseReleasing, LeaseRevoked),
        (LeaseReleasing, LeaseQuarantined),
        (LeaseReleasing, LeaseLost)]"

definition RequireLeaseTransition :: "LeaseState \<Rightarrow> LeaseState \<Rightarrow> err" where
  "RequireLeaseTransition from to =
     guardTransition ''lease'' LeaseState_IsValid LeaseState_String leaseTransitions from to"

definition CanLeaseTransition :: "LeaseState \<Rightarrow> LeaseState \<Rightarrow> bool" where
  "CanLeaseTransition from to \<longleftrightarrow> RequireLeaseTransition from to = None"

lemma RequireLeaseTransition_None:
  "RequireLeaseTransition a b = None \<longleftrightarrow>
     (a, b) \<in>
     {(LeaseActive, LeaseReleasing),
      (LeaseReleasing, LeaseReleased),
      (LeaseActive, LeaseExpired),
      (LeaseActive, LeaseRevoked),
      (LeaseActive, LeaseQuarantined),
      (LeaseActive, LeaseLost),
      (LeaseReleasing, LeaseRevoked),
      (LeaseReleasing, LeaseQuarantined),
      (LeaseReleasing, LeaseLost)}"
  by (auto simp: RequireLeaseTransition_def leaseTransitions_def err_simps LeaseState_IsValid_def leaseStates_def)

fun Lease_rank :: "LeaseState \<Rightarrow> nat" where
  "Lease_rank LeaseActive = 2"
| "Lease_rank LeaseReleasing = 1"
| "Lease_rank LeaseReleased = 0"
| "Lease_rank LeaseExpired = 0"
| "Lease_rank LeaseRevoked = 0"
| "Lease_rank LeaseQuarantined = 0"
| "Lease_rank LeaseLost = 0"
| "Lease_rank (LeaseStateOther s) = 0"

interpretation Lease_machine: lifecycle LeaseState_IsValid LeaseState_Terminal RequireLeaseTransition Lease_rank
proof
  fix a b
  show "RequireLeaseTransition a b = None \<Longrightarrow> LeaseState_IsValid a \<and> LeaseState_IsValid b"
    by (auto simp: RequireLeaseTransition_None LeaseState_IsValid_def leaseStates_def)
  show "LeaseState_Terminal a \<Longrightarrow> LeaseState_IsValid a"
    by (auto simp: LeaseState_Terminal_def LeaseState_IsValid_def leaseStates_def)
  show "LeaseState_Terminal a \<Longrightarrow> RequireLeaseTransition a b \<noteq> None"
    by (auto simp: RequireLeaseTransition_None LeaseState_Terminal_def)
  show "LeaseState_IsValid a \<Longrightarrow> \<not> LeaseState_Terminal a \<Longrightarrow> \<exists>b. RequireLeaseTransition a b = None"
    by (auto simp: RequireLeaseTransition_None LeaseState_Terminal_def LeaseState_IsValid_def leaseStates_def)
  show "RequireLeaseTransition a b = None \<Longrightarrow> Lease_rank b < Lease_rank a"
    by (auto simp: RequireLeaseTransition_None)
qed

section \<open>AgentGenerationState\<close>

datatype AgentGenerationState =
    AgentGenerationProvisioning | AgentGenerationBooting | AgentGenerationReady
  | AgentGenerationRunning | AgentGenerationQuiescing | AgentGenerationSealed
  | AgentGenerationFailed | AgentGenerationQuarantined | AgentGenerationLost | AgentGenerationStateOther string

fun AgentGenerationState_String :: "AgentGenerationState \<Rightarrow> string" where
  "AgentGenerationState_String AgentGenerationProvisioning = ''provisioning''"
| "AgentGenerationState_String AgentGenerationBooting = ''booting''"
| "AgentGenerationState_String AgentGenerationReady = ''ready''"
| "AgentGenerationState_String AgentGenerationRunning = ''running''"
| "AgentGenerationState_String AgentGenerationQuiescing = ''quiescing''"
| "AgentGenerationState_String AgentGenerationSealed = ''sealed''"
| "AgentGenerationState_String AgentGenerationFailed = ''failed''"
| "AgentGenerationState_String AgentGenerationQuarantined = ''quarantined''"
| "AgentGenerationState_String AgentGenerationLost = ''lost''"
| "AgentGenerationState_String (AgentGenerationStateOther s) = s"

text \<open>The recognized states are the keys of the map behind \<open>IsValid\<close>.\<close>

definition agentGenerationStates :: "AgentGenerationState list" where
  "agentGenerationStates =
     [AgentGenerationProvisioning, AgentGenerationBooting, AgentGenerationReady,
      AgentGenerationRunning, AgentGenerationQuiescing, AgentGenerationSealed,
      AgentGenerationFailed, AgentGenerationQuarantined, AgentGenerationLost]"

definition AgentGenerationState_IsValid :: "AgentGenerationState \<Rightarrow> bool" where
  "AgentGenerationState_IsValid s \<longleftrightarrow> s \<in> set agentGenerationStates"

definition AgentGenerationState_Terminal :: "AgentGenerationState \<Rightarrow> bool" where
  "AgentGenerationState_Terminal s \<longleftrightarrow> s = AgentGenerationSealed \<or> s = AgentGenerationFailed \<or> s = AgentGenerationQuarantined \<or> s = AgentGenerationLost"

definition buildFailureAwareAgentTransitions :: "AgentGenerationState transitionTable option" where
  "buildFailureAwareAgentTransitions =
     add_edges
       [AgentGenerationProvisioning, AgentGenerationBooting, AgentGenerationReady,
        AgentGenerationRunning, AgentGenerationQuiescing]
       [AgentGenerationFailed, AgentGenerationQuarantined, AgentGenerationLost]
       (newTransitionTable
         [(AgentGenerationProvisioning, AgentGenerationBooting),
          (AgentGenerationBooting, AgentGenerationReady),
          (AgentGenerationReady, AgentGenerationRunning),
          (AgentGenerationReady, AgentGenerationQuiescing),
          (AgentGenerationRunning, AgentGenerationQuiescing),
          (AgentGenerationQuiescing, AgentGenerationSealed)])"

definition agentGenerationTransitions :: "AgentGenerationState transitionTable" where
  "agentGenerationTransitions = built buildFailureAwareAgentTransitions"

definition RequireAgentGenerationTransition :: "AgentGenerationState \<Rightarrow> AgentGenerationState \<Rightarrow> err" where
  "RequireAgentGenerationTransition from to =
     guardTransition ''agent_generation'' AgentGenerationState_IsValid AgentGenerationState_String agentGenerationTransitions from to"

definition CanAgentGenerationTransition :: "AgentGenerationState \<Rightarrow> AgentGenerationState \<Rightarrow> bool" where
  "CanAgentGenerationTransition from to \<longleftrightarrow> RequireAgentGenerationTransition from to = None"

lemma RequireAgentGenerationTransition_None:
  "RequireAgentGenerationTransition a b = None \<longleftrightarrow>
     (a, b) \<in>
     {(AgentGenerationProvisioning, AgentGenerationBooting),
      (AgentGenerationBooting, AgentGenerationReady),
      (AgentGenerationReady, AgentGenerationRunning),
      (AgentGenerationReady, AgentGenerationQuiescing),
      (AgentGenerationRunning, AgentGenerationQuiescing),
      (AgentGenerationQuiescing, AgentGenerationSealed)} \<or>
     a \<in> {AgentGenerationProvisioning, AgentGenerationBooting, AgentGenerationReady, AgentGenerationRunning, AgentGenerationQuiescing} \<and>
     b \<in> {AgentGenerationFailed, AgentGenerationQuarantined, AgentGenerationLost}"
  by (auto simp: RequireAgentGenerationTransition_def agentGenerationTransitions_def buildFailureAwareAgentTransitions_def err_simps allowed_built AgentGenerationState_IsValid_def agentGenerationStates_def)

fun AgentGeneration_rank :: "AgentGenerationState \<Rightarrow> nat" where
  "AgentGeneration_rank AgentGenerationProvisioning = 5"
| "AgentGeneration_rank AgentGenerationBooting = 4"
| "AgentGeneration_rank AgentGenerationReady = 3"
| "AgentGeneration_rank AgentGenerationRunning = 2"
| "AgentGeneration_rank AgentGenerationQuiescing = 1"
| "AgentGeneration_rank AgentGenerationSealed = 0"
| "AgentGeneration_rank AgentGenerationFailed = 0"
| "AgentGeneration_rank AgentGenerationQuarantined = 0"
| "AgentGeneration_rank AgentGenerationLost = 0"
| "AgentGeneration_rank (AgentGenerationStateOther s) = 0"

interpretation AgentGeneration_machine: lifecycle AgentGenerationState_IsValid AgentGenerationState_Terminal RequireAgentGenerationTransition AgentGeneration_rank
proof
  fix a b
  show "RequireAgentGenerationTransition a b = None \<Longrightarrow> AgentGenerationState_IsValid a \<and> AgentGenerationState_IsValid b"
    by (auto simp: RequireAgentGenerationTransition_None AgentGenerationState_IsValid_def agentGenerationStates_def)
  show "AgentGenerationState_Terminal a \<Longrightarrow> AgentGenerationState_IsValid a"
    by (auto simp: AgentGenerationState_Terminal_def AgentGenerationState_IsValid_def agentGenerationStates_def)
  show "AgentGenerationState_Terminal a \<Longrightarrow> RequireAgentGenerationTransition a b \<noteq> None"
    by (auto simp: RequireAgentGenerationTransition_None AgentGenerationState_Terminal_def)
  show "AgentGenerationState_IsValid a \<Longrightarrow> \<not> AgentGenerationState_Terminal a \<Longrightarrow> \<exists>b. RequireAgentGenerationTransition a b = None"
    by (auto simp: RequireAgentGenerationTransition_None AgentGenerationState_Terminal_def AgentGenerationState_IsValid_def agentGenerationStates_def)
  show "RequireAgentGenerationTransition a b = None \<Longrightarrow> AgentGeneration_rank b < AgentGeneration_rank a"
    by (auto simp: RequireAgentGenerationTransition_None)
qed

section \<open>TargetGenerationState\<close>

datatype TargetGenerationState =
    TargetGenerationProvisioning | TargetGenerationInstrumenting | TargetGenerationReady
  | TargetGenerationResettable | TargetGenerationDestroyed | TargetGenerationFailed
  | TargetGenerationQuarantined | TargetGenerationLost | TargetGenerationStateOther string

fun TargetGenerationState_String :: "TargetGenerationState \<Rightarrow> string" where
  "TargetGenerationState_String TargetGenerationProvisioning = ''provisioning''"
| "TargetGenerationState_String TargetGenerationInstrumenting = ''instrumenting''"
| "TargetGenerationState_String TargetGenerationReady = ''ready''"
| "TargetGenerationState_String TargetGenerationResettable = ''resettable''"
| "TargetGenerationState_String TargetGenerationDestroyed = ''destroyed''"
| "TargetGenerationState_String TargetGenerationFailed = ''failed''"
| "TargetGenerationState_String TargetGenerationQuarantined = ''quarantined''"
| "TargetGenerationState_String TargetGenerationLost = ''lost''"
| "TargetGenerationState_String (TargetGenerationStateOther s) = s"

text \<open>The recognized states are the keys of the map behind \<open>IsValid\<close>.\<close>

definition targetGenerationStates :: "TargetGenerationState list" where
  "targetGenerationStates =
     [TargetGenerationProvisioning, TargetGenerationInstrumenting, TargetGenerationReady,
      TargetGenerationResettable, TargetGenerationDestroyed, TargetGenerationFailed,
      TargetGenerationQuarantined, TargetGenerationLost]"

definition TargetGenerationState_IsValid :: "TargetGenerationState \<Rightarrow> bool" where
  "TargetGenerationState_IsValid s \<longleftrightarrow> s \<in> set targetGenerationStates"

definition TargetGenerationState_Terminal :: "TargetGenerationState \<Rightarrow> bool" where
  "TargetGenerationState_Terminal s \<longleftrightarrow> s = TargetGenerationDestroyed \<or> s = TargetGenerationFailed \<or> s = TargetGenerationQuarantined \<or> s = TargetGenerationLost"

definition buildFailureAwareTargetTransitions :: "TargetGenerationState transitionTable option" where
  "buildFailureAwareTargetTransitions =
     add_edges
       [TargetGenerationProvisioning, TargetGenerationInstrumenting, TargetGenerationReady,
        TargetGenerationResettable]
       [TargetGenerationFailed, TargetGenerationQuarantined, TargetGenerationLost]
       (newTransitionTable
         [(TargetGenerationProvisioning, TargetGenerationInstrumenting),
          (TargetGenerationInstrumenting, TargetGenerationReady),
          (TargetGenerationReady, TargetGenerationResettable),
          (TargetGenerationResettable, TargetGenerationDestroyed)])"

definition targetGenerationTransitions :: "TargetGenerationState transitionTable" where
  "targetGenerationTransitions = built buildFailureAwareTargetTransitions"

definition RequireTargetGenerationTransition :: "TargetGenerationState \<Rightarrow> TargetGenerationState \<Rightarrow> err" where
  "RequireTargetGenerationTransition from to =
     guardTransition ''target_generation'' TargetGenerationState_IsValid TargetGenerationState_String targetGenerationTransitions from to"

definition CanTargetGenerationTransition :: "TargetGenerationState \<Rightarrow> TargetGenerationState \<Rightarrow> bool" where
  "CanTargetGenerationTransition from to \<longleftrightarrow> RequireTargetGenerationTransition from to = None"

lemma RequireTargetGenerationTransition_None:
  "RequireTargetGenerationTransition a b = None \<longleftrightarrow>
     (a, b) \<in>
     {(TargetGenerationProvisioning, TargetGenerationInstrumenting),
      (TargetGenerationInstrumenting, TargetGenerationReady),
      (TargetGenerationReady, TargetGenerationResettable),
      (TargetGenerationResettable, TargetGenerationDestroyed)} \<or>
     a \<in> {TargetGenerationProvisioning, TargetGenerationInstrumenting, TargetGenerationReady, TargetGenerationResettable} \<and>
     b \<in> {TargetGenerationFailed, TargetGenerationQuarantined, TargetGenerationLost}"
  by (auto simp: RequireTargetGenerationTransition_def targetGenerationTransitions_def buildFailureAwareTargetTransitions_def err_simps allowed_built TargetGenerationState_IsValid_def targetGenerationStates_def)

fun TargetGeneration_rank :: "TargetGenerationState \<Rightarrow> nat" where
  "TargetGeneration_rank TargetGenerationProvisioning = 4"
| "TargetGeneration_rank TargetGenerationInstrumenting = 3"
| "TargetGeneration_rank TargetGenerationReady = 2"
| "TargetGeneration_rank TargetGenerationResettable = 1"
| "TargetGeneration_rank TargetGenerationDestroyed = 0"
| "TargetGeneration_rank TargetGenerationFailed = 0"
| "TargetGeneration_rank TargetGenerationQuarantined = 0"
| "TargetGeneration_rank TargetGenerationLost = 0"
| "TargetGeneration_rank (TargetGenerationStateOther s) = 0"

interpretation TargetGeneration_machine: lifecycle TargetGenerationState_IsValid TargetGenerationState_Terminal RequireTargetGenerationTransition TargetGeneration_rank
proof
  fix a b
  show "RequireTargetGenerationTransition a b = None \<Longrightarrow> TargetGenerationState_IsValid a \<and> TargetGenerationState_IsValid b"
    by (auto simp: RequireTargetGenerationTransition_None TargetGenerationState_IsValid_def targetGenerationStates_def)
  show "TargetGenerationState_Terminal a \<Longrightarrow> TargetGenerationState_IsValid a"
    by (auto simp: TargetGenerationState_Terminal_def TargetGenerationState_IsValid_def targetGenerationStates_def)
  show "TargetGenerationState_Terminal a \<Longrightarrow> RequireTargetGenerationTransition a b \<noteq> None"
    by (auto simp: RequireTargetGenerationTransition_None TargetGenerationState_Terminal_def)
  show "TargetGenerationState_IsValid a \<Longrightarrow> \<not> TargetGenerationState_Terminal a \<Longrightarrow> \<exists>b. RequireTargetGenerationTransition a b = None"
    by (auto simp: RequireTargetGenerationTransition_None TargetGenerationState_Terminal_def TargetGenerationState_IsValid_def targetGenerationStates_def)
  show "RequireTargetGenerationTransition a b = None \<Longrightarrow> TargetGeneration_rank b < TargetGeneration_rank a"
    by (auto simp: RequireTargetGenerationTransition_None)
qed

section \<open>TargetRunState\<close>

datatype TargetRunState =
    TargetRunRequested | TargetRunPreparing | TargetRunObserving
  | TargetRunRunning | TargetRunFinalizing | TargetRunCompleted
  | TargetRunFailed | TargetRunQuarantined | TargetRunLost | TargetRunStateOther string

fun TargetRunState_String :: "TargetRunState \<Rightarrow> string" where
  "TargetRunState_String TargetRunRequested = ''requested''"
| "TargetRunState_String TargetRunPreparing = ''preparing''"
| "TargetRunState_String TargetRunObserving = ''observing''"
| "TargetRunState_String TargetRunRunning = ''running''"
| "TargetRunState_String TargetRunFinalizing = ''finalizing''"
| "TargetRunState_String TargetRunCompleted = ''completed''"
| "TargetRunState_String TargetRunFailed = ''failed''"
| "TargetRunState_String TargetRunQuarantined = ''quarantined''"
| "TargetRunState_String TargetRunLost = ''lost''"
| "TargetRunState_String (TargetRunStateOther s) = s"

text \<open>The recognized states are the keys of the map behind \<open>IsValid\<close>.\<close>

definition targetRunStates :: "TargetRunState list" where
  "targetRunStates =
     [TargetRunRequested, TargetRunPreparing, TargetRunObserving,
      TargetRunRunning, TargetRunFinalizing, TargetRunCompleted,
      TargetRunFailed, TargetRunQuarantined, TargetRunLost]"

definition TargetRunState_IsValid :: "TargetRunState \<Rightarrow> bool" where
  "TargetRunState_IsValid s \<longleftrightarrow> s \<in> set targetRunStates"

definition TargetRunState_Terminal :: "TargetRunState \<Rightarrow> bool" where
  "TargetRunState_Terminal s \<longleftrightarrow> s = TargetRunCompleted \<or> s = TargetRunFailed \<or> s = TargetRunQuarantined \<or> s = TargetRunLost"

definition buildFailureAwareRunTransitions :: "TargetRunState transitionTable option" where
  "buildFailureAwareRunTransitions =
     add_edges
       [TargetRunRequested, TargetRunPreparing, TargetRunObserving,
        TargetRunRunning, TargetRunFinalizing]
       [TargetRunFailed, TargetRunQuarantined, TargetRunLost]
       (newTransitionTable
         [(TargetRunRequested, TargetRunPreparing),
          (TargetRunPreparing, TargetRunObserving),
          (TargetRunObserving, TargetRunRunning),
          (TargetRunRunning, TargetRunFinalizing),
          (TargetRunFinalizing, TargetRunCompleted)])"

definition targetRunTransitions :: "TargetRunState transitionTable" where
  "targetRunTransitions = built buildFailureAwareRunTransitions"

definition RequireTargetRunTransition :: "TargetRunState \<Rightarrow> TargetRunState \<Rightarrow> err" where
  "RequireTargetRunTransition from to =
     guardTransition ''target_run'' TargetRunState_IsValid TargetRunState_String targetRunTransitions from to"

definition CanTargetRunTransition :: "TargetRunState \<Rightarrow> TargetRunState \<Rightarrow> bool" where
  "CanTargetRunTransition from to \<longleftrightarrow> RequireTargetRunTransition from to = None"

lemma RequireTargetRunTransition_None:
  "RequireTargetRunTransition a b = None \<longleftrightarrow>
     (a, b) \<in>
     {(TargetRunRequested, TargetRunPreparing),
      (TargetRunPreparing, TargetRunObserving),
      (TargetRunObserving, TargetRunRunning),
      (TargetRunRunning, TargetRunFinalizing),
      (TargetRunFinalizing, TargetRunCompleted)} \<or>
     a \<in> {TargetRunRequested, TargetRunPreparing, TargetRunObserving, TargetRunRunning, TargetRunFinalizing} \<and>
     b \<in> {TargetRunFailed, TargetRunQuarantined, TargetRunLost}"
  by (auto simp: RequireTargetRunTransition_def targetRunTransitions_def buildFailureAwareRunTransitions_def err_simps allowed_built TargetRunState_IsValid_def targetRunStates_def)

fun TargetRun_rank :: "TargetRunState \<Rightarrow> nat" where
  "TargetRun_rank TargetRunRequested = 5"
| "TargetRun_rank TargetRunPreparing = 4"
| "TargetRun_rank TargetRunObserving = 3"
| "TargetRun_rank TargetRunRunning = 2"
| "TargetRun_rank TargetRunFinalizing = 1"
| "TargetRun_rank TargetRunCompleted = 0"
| "TargetRun_rank TargetRunFailed = 0"
| "TargetRun_rank TargetRunQuarantined = 0"
| "TargetRun_rank TargetRunLost = 0"
| "TargetRun_rank (TargetRunStateOther s) = 0"

interpretation TargetRun_machine: lifecycle TargetRunState_IsValid TargetRunState_Terminal RequireTargetRunTransition TargetRun_rank
proof
  fix a b
  show "RequireTargetRunTransition a b = None \<Longrightarrow> TargetRunState_IsValid a \<and> TargetRunState_IsValid b"
    by (auto simp: RequireTargetRunTransition_None TargetRunState_IsValid_def targetRunStates_def)
  show "TargetRunState_Terminal a \<Longrightarrow> TargetRunState_IsValid a"
    by (auto simp: TargetRunState_Terminal_def TargetRunState_IsValid_def targetRunStates_def)
  show "TargetRunState_Terminal a \<Longrightarrow> RequireTargetRunTransition a b \<noteq> None"
    by (auto simp: RequireTargetRunTransition_None TargetRunState_Terminal_def)
  show "TargetRunState_IsValid a \<Longrightarrow> \<not> TargetRunState_Terminal a \<Longrightarrow> \<exists>b. RequireTargetRunTransition a b = None"
    by (auto simp: RequireTargetRunTransition_None TargetRunState_Terminal_def TargetRunState_IsValid_def targetRunStates_def)
  show "RequireTargetRunTransition a b = None \<Longrightarrow> TargetRun_rank b < TargetRun_rank a"
    by (auto simp: RequireTargetRunTransition_None)
qed

section \<open>ExecState\<close>

datatype ExecState =
    ExecRequested | ExecStarting | ExecRunning
  | ExecCompleted | ExecFailed | ExecCancelled
  | ExecLost | ExecStateOther string

fun ExecState_String :: "ExecState \<Rightarrow> string" where
  "ExecState_String ExecRequested = ''requested''"
| "ExecState_String ExecStarting = ''starting''"
| "ExecState_String ExecRunning = ''running''"
| "ExecState_String ExecCompleted = ''completed''"
| "ExecState_String ExecFailed = ''failed''"
| "ExecState_String ExecCancelled = ''cancelled''"
| "ExecState_String ExecLost = ''lost''"
| "ExecState_String (ExecStateOther s) = s"

text \<open>The recognized states are the keys of the map behind \<open>IsValid\<close>.\<close>

definition execStates :: "ExecState list" where
  "execStates =
     [ExecRequested, ExecStarting, ExecRunning,
      ExecCompleted, ExecFailed, ExecCancelled,
      ExecLost]"

definition ExecState_IsValid :: "ExecState \<Rightarrow> bool" where
  "ExecState_IsValid s \<longleftrightarrow> s \<in> set execStates"

definition ExecState_Terminal :: "ExecState \<Rightarrow> bool" where
  "ExecState_Terminal s \<longleftrightarrow> s = ExecCompleted \<or> s = ExecFailed \<or> s = ExecCancelled \<or> s = ExecLost"

definition execTransitions :: "ExecState transitionTable" where
  "execTransitions =
     newTransitionTable
       [(ExecRequested, ExecStarting),
        (ExecStarting, ExecRunning),
        (ExecRunning, ExecCompleted),
        (ExecRequested, ExecCancelled),
        (ExecStarting, ExecCancelled),
        (ExecRunning, ExecCancelled),
        (ExecRequested, ExecFailed),
        (ExecStarting, ExecFailed),
        (ExecRunning, ExecFailed),
        (ExecRequested, ExecLost),
        (ExecStarting, ExecLost),
        (ExecRunning, ExecLost)]"

definition RequireExecTransition :: "ExecState \<Rightarrow> ExecState \<Rightarrow> err" where
  "RequireExecTransition from to =
     guardTransition ''exec'' ExecState_IsValid ExecState_String execTransitions from to"

definition CanExecTransition :: "ExecState \<Rightarrow> ExecState \<Rightarrow> bool" where
  "CanExecTransition from to \<longleftrightarrow> RequireExecTransition from to = None"

lemma RequireExecTransition_None:
  "RequireExecTransition a b = None \<longleftrightarrow>
     (a, b) \<in>
     {(ExecRequested, ExecStarting),
      (ExecStarting, ExecRunning),
      (ExecRunning, ExecCompleted),
      (ExecRequested, ExecCancelled),
      (ExecStarting, ExecCancelled),
      (ExecRunning, ExecCancelled),
      (ExecRequested, ExecFailed),
      (ExecStarting, ExecFailed),
      (ExecRunning, ExecFailed),
      (ExecRequested, ExecLost),
      (ExecStarting, ExecLost),
      (ExecRunning, ExecLost)}"
  by (auto simp: RequireExecTransition_def execTransitions_def err_simps ExecState_IsValid_def execStates_def)

fun Exec_rank :: "ExecState \<Rightarrow> nat" where
  "Exec_rank ExecRequested = 3"
| "Exec_rank ExecStarting = 2"
| "Exec_rank ExecRunning = 1"
| "Exec_rank ExecCompleted = 0"
| "Exec_rank ExecFailed = 0"
| "Exec_rank ExecCancelled = 0"
| "Exec_rank ExecLost = 0"
| "Exec_rank (ExecStateOther s) = 0"

interpretation Exec_machine: lifecycle ExecState_IsValid ExecState_Terminal RequireExecTransition Exec_rank
proof
  fix a b
  show "RequireExecTransition a b = None \<Longrightarrow> ExecState_IsValid a \<and> ExecState_IsValid b"
    by (auto simp: RequireExecTransition_None ExecState_IsValid_def execStates_def)
  show "ExecState_Terminal a \<Longrightarrow> ExecState_IsValid a"
    by (auto simp: ExecState_Terminal_def ExecState_IsValid_def execStates_def)
  show "ExecState_Terminal a \<Longrightarrow> RequireExecTransition a b \<noteq> None"
    by (auto simp: RequireExecTransition_None ExecState_Terminal_def)
  show "ExecState_IsValid a \<Longrightarrow> \<not> ExecState_Terminal a \<Longrightarrow> \<exists>b. RequireExecTransition a b = None"
    by (auto simp: RequireExecTransition_None ExecState_Terminal_def ExecState_IsValid_def execStates_def)
  show "RequireExecTransition a b = None \<Longrightarrow> Exec_rank b < Exec_rank a"
    by (auto simp: RequireExecTransition_None)
qed

section \<open>TargetOperationState\<close>

datatype TargetOperationState =
    TargetOperationRequested | TargetOperationRunning | TargetOperationCompleted
  | TargetOperationFailed | TargetOperationCancelled | TargetOperationLost | TargetOperationStateOther string

fun TargetOperationState_String :: "TargetOperationState \<Rightarrow> string" where
  "TargetOperationState_String TargetOperationRequested = ''requested''"
| "TargetOperationState_String TargetOperationRunning = ''running''"
| "TargetOperationState_String TargetOperationCompleted = ''completed''"
| "TargetOperationState_String TargetOperationFailed = ''failed''"
| "TargetOperationState_String TargetOperationCancelled = ''cancelled''"
| "TargetOperationState_String TargetOperationLost = ''lost''"
| "TargetOperationState_String (TargetOperationStateOther s) = s"

text \<open>The recognized states are the keys of the map behind \<open>IsValid\<close>.\<close>

definition targetOperationStates :: "TargetOperationState list" where
  "targetOperationStates =
     [TargetOperationRequested, TargetOperationRunning, TargetOperationCompleted,
      TargetOperationFailed, TargetOperationCancelled, TargetOperationLost]"

definition TargetOperationState_IsValid :: "TargetOperationState \<Rightarrow> bool" where
  "TargetOperationState_IsValid s \<longleftrightarrow> s \<in> set targetOperationStates"

definition TargetOperationState_Terminal :: "TargetOperationState \<Rightarrow> bool" where
  "TargetOperationState_Terminal s \<longleftrightarrow> s = TargetOperationCompleted \<or> s = TargetOperationFailed \<or> s = TargetOperationCancelled \<or> s = TargetOperationLost"

definition targetOperationTransitions :: "TargetOperationState transitionTable" where
  "targetOperationTransitions =
     newTransitionTable
       [(TargetOperationRequested, TargetOperationRunning),
        (TargetOperationRunning, TargetOperationCompleted),
        (TargetOperationRequested, TargetOperationFailed),
        (TargetOperationRunning, TargetOperationFailed),
        (TargetOperationRequested, TargetOperationCancelled),
        (TargetOperationRunning, TargetOperationCancelled),
        (TargetOperationRequested, TargetOperationLost),
        (TargetOperationRunning, TargetOperationLost)]"

definition RequireTargetOperationTransition :: "TargetOperationState \<Rightarrow> TargetOperationState \<Rightarrow> err" where
  "RequireTargetOperationTransition from to =
     guardTransition ''target_operation'' TargetOperationState_IsValid TargetOperationState_String targetOperationTransitions from to"

definition CanTargetOperationTransition :: "TargetOperationState \<Rightarrow> TargetOperationState \<Rightarrow> bool" where
  "CanTargetOperationTransition from to \<longleftrightarrow> RequireTargetOperationTransition from to = None"

lemma RequireTargetOperationTransition_None:
  "RequireTargetOperationTransition a b = None \<longleftrightarrow>
     (a, b) \<in>
     {(TargetOperationRequested, TargetOperationRunning),
      (TargetOperationRunning, TargetOperationCompleted),
      (TargetOperationRequested, TargetOperationFailed),
      (TargetOperationRunning, TargetOperationFailed),
      (TargetOperationRequested, TargetOperationCancelled),
      (TargetOperationRunning, TargetOperationCancelled),
      (TargetOperationRequested, TargetOperationLost),
      (TargetOperationRunning, TargetOperationLost)}"
  by (auto simp: RequireTargetOperationTransition_def targetOperationTransitions_def err_simps TargetOperationState_IsValid_def targetOperationStates_def)

fun TargetOperation_rank :: "TargetOperationState \<Rightarrow> nat" where
  "TargetOperation_rank TargetOperationRequested = 2"
| "TargetOperation_rank TargetOperationRunning = 1"
| "TargetOperation_rank TargetOperationCompleted = 0"
| "TargetOperation_rank TargetOperationFailed = 0"
| "TargetOperation_rank TargetOperationCancelled = 0"
| "TargetOperation_rank TargetOperationLost = 0"
| "TargetOperation_rank (TargetOperationStateOther s) = 0"

interpretation TargetOperation_machine: lifecycle TargetOperationState_IsValid TargetOperationState_Terminal RequireTargetOperationTransition TargetOperation_rank
proof
  fix a b
  show "RequireTargetOperationTransition a b = None \<Longrightarrow> TargetOperationState_IsValid a \<and> TargetOperationState_IsValid b"
    by (auto simp: RequireTargetOperationTransition_None TargetOperationState_IsValid_def targetOperationStates_def)
  show "TargetOperationState_Terminal a \<Longrightarrow> TargetOperationState_IsValid a"
    by (auto simp: TargetOperationState_Terminal_def TargetOperationState_IsValid_def targetOperationStates_def)
  show "TargetOperationState_Terminal a \<Longrightarrow> RequireTargetOperationTransition a b \<noteq> None"
    by (auto simp: RequireTargetOperationTransition_None TargetOperationState_Terminal_def)
  show "TargetOperationState_IsValid a \<Longrightarrow> \<not> TargetOperationState_Terminal a \<Longrightarrow> \<exists>b. RequireTargetOperationTransition a b = None"
    by (auto simp: RequireTargetOperationTransition_None TargetOperationState_Terminal_def TargetOperationState_IsValid_def targetOperationStates_def)
  show "RequireTargetOperationTransition a b = None \<Longrightarrow> TargetOperation_rank b < TargetOperation_rank a"
    by (auto simp: RequireTargetOperationTransition_None)
qed

section \<open>InputViewState\<close>

datatype InputViewState =
    InputViewBuilding | InputViewReady | InputViewRetired
  | InputViewFailed | InputViewQuarantined | InputViewLost | InputViewStateOther string

fun InputViewState_String :: "InputViewState \<Rightarrow> string" where
  "InputViewState_String InputViewBuilding = ''building''"
| "InputViewState_String InputViewReady = ''ready''"
| "InputViewState_String InputViewRetired = ''retired''"
| "InputViewState_String InputViewFailed = ''failed''"
| "InputViewState_String InputViewQuarantined = ''quarantined''"
| "InputViewState_String InputViewLost = ''lost''"
| "InputViewState_String (InputViewStateOther s) = s"

text \<open>The recognized states are the keys of the map behind \<open>IsValid\<close>.\<close>

definition inputViewStates :: "InputViewState list" where
  "inputViewStates =
     [InputViewBuilding, InputViewReady, InputViewRetired,
      InputViewFailed, InputViewQuarantined, InputViewLost]"

definition InputViewState_IsValid :: "InputViewState \<Rightarrow> bool" where
  "InputViewState_IsValid s \<longleftrightarrow> s \<in> set inputViewStates"

definition InputViewState_Terminal :: "InputViewState \<Rightarrow> bool" where
  "InputViewState_Terminal s \<longleftrightarrow> s = InputViewRetired \<or> s = InputViewFailed \<or> s = InputViewQuarantined \<or> s = InputViewLost"

definition inputViewTransitions :: "InputViewState transitionTable" where
  "inputViewTransitions =
     newTransitionTable
       [(InputViewBuilding, InputViewReady),
        (InputViewReady, InputViewRetired),
        (InputViewBuilding, InputViewFailed),
        (InputViewReady, InputViewFailed),
        (InputViewBuilding, InputViewQuarantined),
        (InputViewReady, InputViewQuarantined),
        (InputViewBuilding, InputViewLost),
        (InputViewReady, InputViewLost)]"

definition RequireInputViewTransition :: "InputViewState \<Rightarrow> InputViewState \<Rightarrow> err" where
  "RequireInputViewTransition from to =
     guardTransition ''input_view'' InputViewState_IsValid InputViewState_String inputViewTransitions from to"

definition CanInputViewTransition :: "InputViewState \<Rightarrow> InputViewState \<Rightarrow> bool" where
  "CanInputViewTransition from to \<longleftrightarrow> RequireInputViewTransition from to = None"

lemma RequireInputViewTransition_None:
  "RequireInputViewTransition a b = None \<longleftrightarrow>
     (a, b) \<in>
     {(InputViewBuilding, InputViewReady),
      (InputViewReady, InputViewRetired),
      (InputViewBuilding, InputViewFailed),
      (InputViewReady, InputViewFailed),
      (InputViewBuilding, InputViewQuarantined),
      (InputViewReady, InputViewQuarantined),
      (InputViewBuilding, InputViewLost),
      (InputViewReady, InputViewLost)}"
  by (auto simp: RequireInputViewTransition_def inputViewTransitions_def err_simps InputViewState_IsValid_def inputViewStates_def)

fun InputView_rank :: "InputViewState \<Rightarrow> nat" where
  "InputView_rank InputViewBuilding = 2"
| "InputView_rank InputViewReady = 1"
| "InputView_rank InputViewRetired = 0"
| "InputView_rank InputViewFailed = 0"
| "InputView_rank InputViewQuarantined = 0"
| "InputView_rank InputViewLost = 0"
| "InputView_rank (InputViewStateOther s) = 0"

interpretation InputView_machine: lifecycle InputViewState_IsValid InputViewState_Terminal RequireInputViewTransition InputView_rank
proof
  fix a b
  show "RequireInputViewTransition a b = None \<Longrightarrow> InputViewState_IsValid a \<and> InputViewState_IsValid b"
    by (auto simp: RequireInputViewTransition_None InputViewState_IsValid_def inputViewStates_def)
  show "InputViewState_Terminal a \<Longrightarrow> InputViewState_IsValid a"
    by (auto simp: InputViewState_Terminal_def InputViewState_IsValid_def inputViewStates_def)
  show "InputViewState_Terminal a \<Longrightarrow> RequireInputViewTransition a b \<noteq> None"
    by (auto simp: RequireInputViewTransition_None InputViewState_Terminal_def)
  show "InputViewState_IsValid a \<Longrightarrow> \<not> InputViewState_Terminal a \<Longrightarrow> \<exists>b. RequireInputViewTransition a b = None"
    by (auto simp: RequireInputViewTransition_None InputViewState_Terminal_def InputViewState_IsValid_def inputViewStates_def)
  show "RequireInputViewTransition a b = None \<Longrightarrow> InputView_rank b < InputView_rank a"
    by (auto simp: RequireInputViewTransition_None)
qed

section \<open>WorkspaceState\<close>

datatype WorkspaceState =
    WorkspacePreparing | WorkspaceReady | WorkspaceMounted
  | WorkspaceQuiescing | WorkspaceSealing | WorkspaceSealed
  | WorkspaceReleased | WorkspaceFailed | WorkspaceQuarantined
  | WorkspaceLost | WorkspaceStateOther string

fun WorkspaceState_String :: "WorkspaceState \<Rightarrow> string" where
  "WorkspaceState_String WorkspacePreparing = ''preparing''"
| "WorkspaceState_String WorkspaceReady = ''ready''"
| "WorkspaceState_String WorkspaceMounted = ''mounted''"
| "WorkspaceState_String WorkspaceQuiescing = ''quiescing''"
| "WorkspaceState_String WorkspaceSealing = ''sealing''"
| "WorkspaceState_String WorkspaceSealed = ''sealed''"
| "WorkspaceState_String WorkspaceReleased = ''released''"
| "WorkspaceState_String WorkspaceFailed = ''failed''"
| "WorkspaceState_String WorkspaceQuarantined = ''quarantined''"
| "WorkspaceState_String WorkspaceLost = ''lost''"
| "WorkspaceState_String (WorkspaceStateOther s) = s"

text \<open>The recognized states are the keys of the map behind \<open>IsValid\<close>.\<close>

definition workspaceStates :: "WorkspaceState list" where
  "workspaceStates =
     [WorkspacePreparing, WorkspaceReady, WorkspaceMounted,
      WorkspaceQuiescing, WorkspaceSealing, WorkspaceSealed,
      WorkspaceReleased, WorkspaceFailed, WorkspaceQuarantined,
      WorkspaceLost]"

definition WorkspaceState_IsValid :: "WorkspaceState \<Rightarrow> bool" where
  "WorkspaceState_IsValid s \<longleftrightarrow> s \<in> set workspaceStates"

definition WorkspaceState_Terminal :: "WorkspaceState \<Rightarrow> bool" where
  "WorkspaceState_Terminal s \<longleftrightarrow> s = WorkspaceReleased \<or> s = WorkspaceFailed \<or> s = WorkspaceQuarantined \<or> s = WorkspaceLost"

definition buildWorkspaceTransitions :: "WorkspaceState transitionTable option" where
  "buildWorkspaceTransitions =
     add_edges
       [WorkspacePreparing, WorkspaceReady, WorkspaceMounted,
        WorkspaceQuiescing, WorkspaceSealing, WorkspaceSealed]
       [WorkspaceFailed, WorkspaceQuarantined, WorkspaceLost]
       (newTransitionTable
         [(WorkspacePreparing, WorkspaceReady),
          (WorkspaceReady, WorkspaceMounted),
          (WorkspaceMounted, WorkspaceQuiescing),
          (WorkspaceQuiescing, WorkspaceSealing),
          (WorkspaceSealing, WorkspaceSealed),
          (WorkspaceSealed, WorkspaceReleased)])"

definition workspaceTransitions :: "WorkspaceState transitionTable" where
  "workspaceTransitions = built buildWorkspaceTransitions"

definition RequireWorkspaceTransition :: "WorkspaceState \<Rightarrow> WorkspaceState \<Rightarrow> err" where
  "RequireWorkspaceTransition from to =
     guardTransition ''workspace'' WorkspaceState_IsValid WorkspaceState_String workspaceTransitions from to"

definition CanWorkspaceTransition :: "WorkspaceState \<Rightarrow> WorkspaceState \<Rightarrow> bool" where
  "CanWorkspaceTransition from to \<longleftrightarrow> RequireWorkspaceTransition from to = None"

lemma RequireWorkspaceTransition_None:
  "RequireWorkspaceTransition a b = None \<longleftrightarrow>
     (a, b) \<in>
     {(WorkspacePreparing, WorkspaceReady),
      (WorkspaceReady, WorkspaceMounted),
      (WorkspaceMounted, WorkspaceQuiescing),
      (WorkspaceQuiescing, WorkspaceSealing),
      (WorkspaceSealing, WorkspaceSealed),
      (WorkspaceSealed, WorkspaceReleased)} \<or>
     a \<in> {WorkspacePreparing, WorkspaceReady, WorkspaceMounted, WorkspaceQuiescing, WorkspaceSealing, WorkspaceSealed} \<and>
     b \<in> {WorkspaceFailed, WorkspaceQuarantined, WorkspaceLost}"
  by (auto simp: RequireWorkspaceTransition_def workspaceTransitions_def buildWorkspaceTransitions_def err_simps allowed_built WorkspaceState_IsValid_def workspaceStates_def)

fun Workspace_rank :: "WorkspaceState \<Rightarrow> nat" where
  "Workspace_rank WorkspacePreparing = 6"
| "Workspace_rank WorkspaceReady = 5"
| "Workspace_rank WorkspaceMounted = 4"
| "Workspace_rank WorkspaceQuiescing = 3"
| "Workspace_rank WorkspaceSealing = 2"
| "Workspace_rank WorkspaceSealed = 1"
| "Workspace_rank WorkspaceReleased = 0"
| "Workspace_rank WorkspaceFailed = 0"
| "Workspace_rank WorkspaceQuarantined = 0"
| "Workspace_rank WorkspaceLost = 0"
| "Workspace_rank (WorkspaceStateOther s) = 0"

interpretation Workspace_machine: lifecycle WorkspaceState_IsValid WorkspaceState_Terminal RequireWorkspaceTransition Workspace_rank
proof
  fix a b
  show "RequireWorkspaceTransition a b = None \<Longrightarrow> WorkspaceState_IsValid a \<and> WorkspaceState_IsValid b"
    by (auto simp: RequireWorkspaceTransition_None WorkspaceState_IsValid_def workspaceStates_def)
  show "WorkspaceState_Terminal a \<Longrightarrow> WorkspaceState_IsValid a"
    by (auto simp: WorkspaceState_Terminal_def WorkspaceState_IsValid_def workspaceStates_def)
  show "WorkspaceState_Terminal a \<Longrightarrow> RequireWorkspaceTransition a b \<noteq> None"
    by (auto simp: RequireWorkspaceTransition_None WorkspaceState_Terminal_def)
  show "WorkspaceState_IsValid a \<Longrightarrow> \<not> WorkspaceState_Terminal a \<Longrightarrow> \<exists>b. RequireWorkspaceTransition a b = None"
    by (auto simp: RequireWorkspaceTransition_None WorkspaceState_Terminal_def WorkspaceState_IsValid_def workspaceStates_def)
  show "RequireWorkspaceTransition a b = None \<Longrightarrow> Workspace_rank b < Workspace_rank a"
    by (auto simp: RequireWorkspaceTransition_None)
qed

section \<open>CaptureState\<close>

datatype CaptureState =
    CaptureRequested | CaptureRunning | CaptureFinalizing
  | CaptureCompleted | CaptureFailed | CaptureCancelled
  | CaptureLost | CaptureStateOther string

fun CaptureState_String :: "CaptureState \<Rightarrow> string" where
  "CaptureState_String CaptureRequested = ''requested''"
| "CaptureState_String CaptureRunning = ''running''"
| "CaptureState_String CaptureFinalizing = ''finalizing''"
| "CaptureState_String CaptureCompleted = ''completed''"
| "CaptureState_String CaptureFailed = ''failed''"
| "CaptureState_String CaptureCancelled = ''cancelled''"
| "CaptureState_String CaptureLost = ''lost''"
| "CaptureState_String (CaptureStateOther s) = s"

text \<open>The recognized states are the keys of the map behind \<open>IsValid\<close>.\<close>

definition captureStates :: "CaptureState list" where
  "captureStates =
     [CaptureRequested, CaptureRunning, CaptureFinalizing,
      CaptureCompleted, CaptureFailed, CaptureCancelled,
      CaptureLost]"

definition CaptureState_IsValid :: "CaptureState \<Rightarrow> bool" where
  "CaptureState_IsValid s \<longleftrightarrow> s \<in> set captureStates"

definition CaptureState_Terminal :: "CaptureState \<Rightarrow> bool" where
  "CaptureState_Terminal s \<longleftrightarrow> s = CaptureCompleted \<or> s = CaptureFailed \<or> s = CaptureCancelled \<or> s = CaptureLost"

definition captureTransitions :: "CaptureState transitionTable" where
  "captureTransitions =
     newTransitionTable
       [(CaptureRequested, CaptureRunning),
        (CaptureRunning, CaptureFinalizing),
        (CaptureFinalizing, CaptureCompleted),
        (CaptureRequested, CaptureCancelled),
        (CaptureRunning, CaptureCancelled),
        (CaptureRequested, CaptureFailed),
        (CaptureRunning, CaptureFailed),
        (CaptureFinalizing, CaptureFailed),
        (CaptureRequested, CaptureLost),
        (CaptureRunning, CaptureLost),
        (CaptureFinalizing, CaptureLost)]"

definition RequireCaptureTransition :: "CaptureState \<Rightarrow> CaptureState \<Rightarrow> err" where
  "RequireCaptureTransition from to =
     guardTransition ''capture'' CaptureState_IsValid CaptureState_String captureTransitions from to"

definition CanCaptureTransition :: "CaptureState \<Rightarrow> CaptureState \<Rightarrow> bool" where
  "CanCaptureTransition from to \<longleftrightarrow> RequireCaptureTransition from to = None"

lemma RequireCaptureTransition_None:
  "RequireCaptureTransition a b = None \<longleftrightarrow>
     (a, b) \<in>
     {(CaptureRequested, CaptureRunning),
      (CaptureRunning, CaptureFinalizing),
      (CaptureFinalizing, CaptureCompleted),
      (CaptureRequested, CaptureCancelled),
      (CaptureRunning, CaptureCancelled),
      (CaptureRequested, CaptureFailed),
      (CaptureRunning, CaptureFailed),
      (CaptureFinalizing, CaptureFailed),
      (CaptureRequested, CaptureLost),
      (CaptureRunning, CaptureLost),
      (CaptureFinalizing, CaptureLost)}"
  by (auto simp: RequireCaptureTransition_def captureTransitions_def err_simps CaptureState_IsValid_def captureStates_def)

fun Capture_rank :: "CaptureState \<Rightarrow> nat" where
  "Capture_rank CaptureRequested = 3"
| "Capture_rank CaptureRunning = 2"
| "Capture_rank CaptureFinalizing = 1"
| "Capture_rank CaptureCompleted = 0"
| "Capture_rank CaptureFailed = 0"
| "Capture_rank CaptureCancelled = 0"
| "Capture_rank CaptureLost = 0"
| "Capture_rank (CaptureStateOther s) = 0"

interpretation Capture_machine: lifecycle CaptureState_IsValid CaptureState_Terminal RequireCaptureTransition Capture_rank
proof
  fix a b
  show "RequireCaptureTransition a b = None \<Longrightarrow> CaptureState_IsValid a \<and> CaptureState_IsValid b"
    by (auto simp: RequireCaptureTransition_None CaptureState_IsValid_def captureStates_def)
  show "CaptureState_Terminal a \<Longrightarrow> CaptureState_IsValid a"
    by (auto simp: CaptureState_Terminal_def CaptureState_IsValid_def captureStates_def)
  show "CaptureState_Terminal a \<Longrightarrow> RequireCaptureTransition a b \<noteq> None"
    by (auto simp: RequireCaptureTransition_None CaptureState_Terminal_def)
  show "CaptureState_IsValid a \<Longrightarrow> \<not> CaptureState_Terminal a \<Longrightarrow> \<exists>b. RequireCaptureTransition a b = None"
    by (auto simp: RequireCaptureTransition_None CaptureState_Terminal_def CaptureState_IsValid_def captureStates_def)
  show "RequireCaptureTransition a b = None \<Longrightarrow> Capture_rank b < Capture_rank a"
    by (auto simp: RequireCaptureTransition_None)
qed

section \<open>ExportState\<close>

datatype ExportState =
    ExportDeclared | ExportCommitting | ExportCommitted
  | ExportFailed | ExportCancelled | ExportStateOther string

fun ExportState_String :: "ExportState \<Rightarrow> string" where
  "ExportState_String ExportDeclared = ''declared''"
| "ExportState_String ExportCommitting = ''committing''"
| "ExportState_String ExportCommitted = ''committed''"
| "ExportState_String ExportFailed = ''failed''"
| "ExportState_String ExportCancelled = ''cancelled''"
| "ExportState_String (ExportStateOther s) = s"

text \<open>The recognized states are the keys of the map behind \<open>IsValid\<close>.\<close>

definition exportStates :: "ExportState list" where
  "exportStates =
     [ExportDeclared, ExportCommitting, ExportCommitted,
      ExportFailed, ExportCancelled]"

definition ExportState_IsValid :: "ExportState \<Rightarrow> bool" where
  "ExportState_IsValid s \<longleftrightarrow> s \<in> set exportStates"

definition ExportState_Terminal :: "ExportState \<Rightarrow> bool" where
  "ExportState_Terminal s \<longleftrightarrow> s = ExportCommitted \<or> s = ExportFailed \<or> s = ExportCancelled"

definition exportTransitions :: "ExportState transitionTable" where
  "exportTransitions =
     newTransitionTable
       [(ExportDeclared, ExportCommitting),
        (ExportCommitting, ExportCommitted),
        (ExportDeclared, ExportCancelled),
        (ExportDeclared, ExportFailed),
        (ExportCommitting, ExportFailed)]"

definition RequireExportTransition :: "ExportState \<Rightarrow> ExportState \<Rightarrow> err" where
  "RequireExportTransition from to =
     guardTransition ''export'' ExportState_IsValid ExportState_String exportTransitions from to"

definition CanExportTransition :: "ExportState \<Rightarrow> ExportState \<Rightarrow> bool" where
  "CanExportTransition from to \<longleftrightarrow> RequireExportTransition from to = None"

lemma RequireExportTransition_None:
  "RequireExportTransition a b = None \<longleftrightarrow>
     (a, b) \<in>
     {(ExportDeclared, ExportCommitting),
      (ExportCommitting, ExportCommitted),
      (ExportDeclared, ExportCancelled),
      (ExportDeclared, ExportFailed),
      (ExportCommitting, ExportFailed)}"
  by (auto simp: RequireExportTransition_def exportTransitions_def err_simps ExportState_IsValid_def exportStates_def)

fun Export_rank :: "ExportState \<Rightarrow> nat" where
  "Export_rank ExportDeclared = 2"
| "Export_rank ExportCommitting = 1"
| "Export_rank ExportCommitted = 0"
| "Export_rank ExportFailed = 0"
| "Export_rank ExportCancelled = 0"
| "Export_rank (ExportStateOther s) = 0"

interpretation Export_machine: lifecycle ExportState_IsValid ExportState_Terminal RequireExportTransition Export_rank
proof
  fix a b
  show "RequireExportTransition a b = None \<Longrightarrow> ExportState_IsValid a \<and> ExportState_IsValid b"
    by (auto simp: RequireExportTransition_None ExportState_IsValid_def exportStates_def)
  show "ExportState_Terminal a \<Longrightarrow> ExportState_IsValid a"
    by (auto simp: ExportState_Terminal_def ExportState_IsValid_def exportStates_def)
  show "ExportState_Terminal a \<Longrightarrow> RequireExportTransition a b \<noteq> None"
    by (auto simp: RequireExportTransition_None ExportState_Terminal_def)
  show "ExportState_IsValid a \<Longrightarrow> \<not> ExportState_Terminal a \<Longrightarrow> \<exists>b. RequireExportTransition a b = None"
    by (auto simp: RequireExportTransition_None ExportState_Terminal_def ExportState_IsValid_def exportStates_def)
  show "RequireExportTransition a b = None \<Longrightarrow> Export_rank b < Export_rank a"
    by (auto simp: RequireExportTransition_None)
qed

section \<open>ObservationBundleState\<close>

datatype ObservationBundleState =
    ObservationBundleBuilding | ObservationBundleSealed | ObservationBundleFailed | ObservationBundleStateOther string

fun ObservationBundleState_String :: "ObservationBundleState \<Rightarrow> string" where
  "ObservationBundleState_String ObservationBundleBuilding = ''building''"
| "ObservationBundleState_String ObservationBundleSealed = ''sealed''"
| "ObservationBundleState_String ObservationBundleFailed = ''failed''"
| "ObservationBundleState_String (ObservationBundleStateOther s) = s"

text \<open>The recognized states are the keys of the map behind \<open>IsValid\<close>.\<close>

definition observationBundleStates :: "ObservationBundleState list" where
  "observationBundleStates =
     [ObservationBundleBuilding, ObservationBundleSealed, ObservationBundleFailed]"

definition ObservationBundleState_IsValid :: "ObservationBundleState \<Rightarrow> bool" where
  "ObservationBundleState_IsValid s \<longleftrightarrow> s \<in> set observationBundleStates"

definition ObservationBundleState_Terminal :: "ObservationBundleState \<Rightarrow> bool" where
  "ObservationBundleState_Terminal s \<longleftrightarrow> s = ObservationBundleSealed \<or> s = ObservationBundleFailed"

definition observationBundleTransitions :: "ObservationBundleState transitionTable" where
  "observationBundleTransitions =
     newTransitionTable
       [(ObservationBundleBuilding, ObservationBundleSealed),
        (ObservationBundleBuilding, ObservationBundleFailed)]"

definition RequireObservationBundleTransition :: "ObservationBundleState \<Rightarrow> ObservationBundleState \<Rightarrow> err" where
  "RequireObservationBundleTransition from to =
     guardTransition ''observation_bundle'' ObservationBundleState_IsValid ObservationBundleState_String observationBundleTransitions from to"

definition CanObservationBundleTransition :: "ObservationBundleState \<Rightarrow> ObservationBundleState \<Rightarrow> bool" where
  "CanObservationBundleTransition from to \<longleftrightarrow> RequireObservationBundleTransition from to = None"

lemma RequireObservationBundleTransition_None:
  "RequireObservationBundleTransition a b = None \<longleftrightarrow>
     (a, b) \<in>
     {(ObservationBundleBuilding, ObservationBundleSealed),
      (ObservationBundleBuilding, ObservationBundleFailed)}"
  by (auto simp: RequireObservationBundleTransition_def observationBundleTransitions_def err_simps ObservationBundleState_IsValid_def observationBundleStates_def)

fun ObservationBundle_rank :: "ObservationBundleState \<Rightarrow> nat" where
  "ObservationBundle_rank ObservationBundleBuilding = 1"
| "ObservationBundle_rank ObservationBundleSealed = 0"
| "ObservationBundle_rank ObservationBundleFailed = 0"
| "ObservationBundle_rank (ObservationBundleStateOther s) = 0"

interpretation ObservationBundle_machine: lifecycle ObservationBundleState_IsValid ObservationBundleState_Terminal RequireObservationBundleTransition ObservationBundle_rank
proof
  fix a b
  show "RequireObservationBundleTransition a b = None \<Longrightarrow> ObservationBundleState_IsValid a \<and> ObservationBundleState_IsValid b"
    by (auto simp: RequireObservationBundleTransition_None ObservationBundleState_IsValid_def observationBundleStates_def)
  show "ObservationBundleState_Terminal a \<Longrightarrow> ObservationBundleState_IsValid a"
    by (auto simp: ObservationBundleState_Terminal_def ObservationBundleState_IsValid_def observationBundleStates_def)
  show "ObservationBundleState_Terminal a \<Longrightarrow> RequireObservationBundleTransition a b \<noteq> None"
    by (auto simp: RequireObservationBundleTransition_None ObservationBundleState_Terminal_def)
  show "ObservationBundleState_IsValid a \<Longrightarrow> \<not> ObservationBundleState_Terminal a \<Longrightarrow> \<exists>b. RequireObservationBundleTransition a b = None"
    by (auto simp: RequireObservationBundleTransition_None ObservationBundleState_Terminal_def ObservationBundleState_IsValid_def observationBundleStates_def)
  show "RequireObservationBundleTransition a b = None \<Longrightarrow> ObservationBundle_rank b < ObservationBundle_rank a"
    by (auto simp: RequireObservationBundleTransition_None)
qed

section \<open>IncidentState\<close>

datatype IncidentState =
    IncidentOpen | IncidentEvidenceSealed | IncidentRecovering
  | IncidentResolved | IncidentStateOther string

fun IncidentState_String :: "IncidentState \<Rightarrow> string" where
  "IncidentState_String IncidentOpen = ''open''"
| "IncidentState_String IncidentEvidenceSealed = ''evidence_sealed''"
| "IncidentState_String IncidentRecovering = ''recovering''"
| "IncidentState_String IncidentResolved = ''resolved''"
| "IncidentState_String (IncidentStateOther s) = s"

text \<open>The recognized states are the keys of the map behind \<open>IsValid\<close>.\<close>

definition incidentStates :: "IncidentState list" where
  "incidentStates =
     [IncidentOpen, IncidentEvidenceSealed, IncidentRecovering,
      IncidentResolved]"

definition IncidentState_IsValid :: "IncidentState \<Rightarrow> bool" where
  "IncidentState_IsValid s \<longleftrightarrow> s \<in> set incidentStates"

definition IncidentState_Terminal :: "IncidentState \<Rightarrow> bool" where
  "IncidentState_Terminal s \<longleftrightarrow> s = IncidentResolved"

definition incidentTransitions :: "IncidentState transitionTable" where
  "incidentTransitions =
     newTransitionTable
       [(IncidentOpen, IncidentEvidenceSealed),
        (IncidentEvidenceSealed, IncidentRecovering),
        (IncidentEvidenceSealed, IncidentResolved),
        (IncidentRecovering, IncidentResolved)]"

definition RequireIncidentTransition :: "IncidentState \<Rightarrow> IncidentState \<Rightarrow> err" where
  "RequireIncidentTransition from to =
     guardTransition ''incident'' IncidentState_IsValid IncidentState_String incidentTransitions from to"

definition CanIncidentTransition :: "IncidentState \<Rightarrow> IncidentState \<Rightarrow> bool" where
  "CanIncidentTransition from to \<longleftrightarrow> RequireIncidentTransition from to = None"

lemma RequireIncidentTransition_None:
  "RequireIncidentTransition a b = None \<longleftrightarrow>
     (a, b) \<in>
     {(IncidentOpen, IncidentEvidenceSealed),
      (IncidentEvidenceSealed, IncidentRecovering),
      (IncidentEvidenceSealed, IncidentResolved),
      (IncidentRecovering, IncidentResolved)}"
  by (auto simp: RequireIncidentTransition_def incidentTransitions_def err_simps IncidentState_IsValid_def incidentStates_def)

fun Incident_rank :: "IncidentState \<Rightarrow> nat" where
  "Incident_rank IncidentOpen = 3"
| "Incident_rank IncidentEvidenceSealed = 2"
| "Incident_rank IncidentRecovering = 1"
| "Incident_rank IncidentResolved = 0"
| "Incident_rank (IncidentStateOther s) = 0"

interpretation Incident_machine: lifecycle IncidentState_IsValid IncidentState_Terminal RequireIncidentTransition Incident_rank
proof
  fix a b
  show "RequireIncidentTransition a b = None \<Longrightarrow> IncidentState_IsValid a \<and> IncidentState_IsValid b"
    by (auto simp: RequireIncidentTransition_None IncidentState_IsValid_def incidentStates_def)
  show "IncidentState_Terminal a \<Longrightarrow> IncidentState_IsValid a"
    by (auto simp: IncidentState_Terminal_def IncidentState_IsValid_def incidentStates_def)
  show "IncidentState_Terminal a \<Longrightarrow> RequireIncidentTransition a b \<noteq> None"
    by (auto simp: RequireIncidentTransition_None IncidentState_Terminal_def)
  show "IncidentState_IsValid a \<Longrightarrow> \<not> IncidentState_Terminal a \<Longrightarrow> \<exists>b. RequireIncidentTransition a b = None"
    by (auto simp: RequireIncidentTransition_None IncidentState_Terminal_def IncidentState_IsValid_def incidentStates_def)
  show "RequireIncidentTransition a b = None \<Longrightarrow> Incident_rank b < Incident_rank a"
    by (auto simp: RequireIncidentTransition_None)
qed

end
