(* ===== verification/Domain_Ids.thy ===== *)
theory Domain_Ids
  imports Domain_Errors
begin

text \<open>
  Typed identifiers and digests of \<open>src/internal/domain/ids.go\<close>.  A UUIDv7 is its sixteen
  bytes; the struct types of the prefixes are one-element datatypes, so identifiers of different
  resources have different types.  The lemmas show that parsing accepts exactly the printed forms
  of well-formed identifiers, and that generated identifiers are well formed.
\<close>

section \<open>UUIDv7 values\<close>

type_synonym uuidV7 = bytes

datatype 'p typedID = TypedID (id_value: uuidV7)

definition zero_uuid :: uuidV7 where
  "zero_uuid = replicate 16 (CHR 0x00)"

definition zeroID :: "'p typedID" where
  "zeroID = TypedID zero_uuid"

definition formatUUID :: "uuidV7 \<Rightarrow> string" where
  "formatUUID value =
     hex_encode (take 4 value) @ ''-'' @ hex_encode (take 2 (drop 4 value)) @ ''-'' @
     hex_encode (take 2 (drop 6 value)) @ ''-'' @ hex_encode (take 2 (drop 8 value)) @ ''-'' @
     hex_encode (take 6 (drop 10 value))"

definition ID_IsZero :: "'p typedID \<Rightarrow> bool" where
  "ID_IsZero i \<longleftrightarrow> id_value i = zero_uuid"

definition ID_UUID :: "'p typedID \<Rightarrow> string" where
  "ID_UUID i = (if ID_IsZero i then [] else formatUUID (id_value i))"

text \<open>The printed form, for the prefix \<open>p\<close> of the identifier's type.\<close>

definition ID_String :: "string \<Rightarrow> 'p typedID \<Rightarrow> string" where
  "ID_String p i = (if ID_IsZero i then [] else p @ ''_'' @ formatUUID (id_value i))"

definition invalid_hex :: go_error where
  "invalid_hex = Sentinel (External ''encoding/hex'')"

text \<open>
  \<open>strings.ReplaceAll(text, "-", "")\<close> removes every dash; \<open>strings.ToLower\<close> is compared for
  equality only, where non-ASCII input is rejected by the hexadecimal decoder in any case.
\<close>

definition parseUUIDv7 :: "string \<Rightarrow> uuidV7 result" where
  "parseUUIDv7 text =
    (if length text \<noteq> 36 \<or> text ! 8 \<noteq> CHR ''-'' \<or> text ! 13 \<noteq> CHR ''-'' \<or>
        text ! 18 \<noteq> CHR ''-'' \<or> text ! 23 \<noteq> CHR ''-''
     then Inl (NewError CodeInvalidID ''id.parse'' ''id'' ''must contain a canonical UUID'' None)
     else
       let compact = filter (\<lambda>c. c \<noteq> CHR ''-'') text
       in if compact \<noteq> map lower_char compact
          then Inl (NewError CodeInvalidID ''id.parse'' ''id'' ''must use lower-case hexadecimal'' None)
          else (case hex_decode compact of
             None \<Rightarrow> Inl (NewError CodeInvalidID ''id.parse'' ''id''
                       ''contains invalid UUID hexadecimal'' (Some invalid_hex))
           | Some value \<Rightarrow>
               (if length value \<noteq> 16
                then Inl (NewError CodeInvalidID ''id.parse'' ''id''
                       ''contains invalid UUID hexadecimal'' None)
                else if byte_val (value ! 6) div 16 \<noteq> 7
                then Inl (NewError CodeInvalidID ''id.parse'' ''id'' ''must be UUID version 7'' None)
                else if byte_val (value ! 8) div 64 \<noteq> 2
                then Inl (NewError CodeInvalidID ''id.parse'' ''id''
                       ''must use the RFC 4122 variant'' None)
                else Inr value)))"

definition parseID :: "string \<Rightarrow> string \<Rightarrow> 'p typedID result" where
  "parseID p text =
    (let prefix = p @ ''_''
     in if \<not> HasPrefix text prefix
        then Inl (NewDetailedError CodeInvalidID ''id.parse'' ''id'' ''has the wrong type prefix''
                    [(''expected_prefix'', p)] None)
        else bind_r (parseUUIDv7 (TrimPrefix text prefix)) (\<lambda>value.
          let i = TypedID value
          in if ID_String p i \<noteq> text
             then Inl (NewError CodeInvalidID ''id.parse'' ''id''
                         ''must use canonical lower-case form'' None)
             else Inr i))"

text \<open>
  Generation: the clock reading and the outcome of reading ten random bytes are arguments.
  \<open>UnixMilli\<close> rounds towards the past; the two masks set the version and the variant.
\<close>

definition UnixMilli :: "time \<Rightarrow> int" where
  "UnixMilli t = unixNano t div 1000000"

fun be48 :: "nat \<Rightarrow> bytes" where
  "be48 n = map (\<lambda>k. char_of (n div 256 ^ (5 - k) mod 256)) [0..<6]"

definition generateID :: "time \<Rightarrow> bytes option \<Rightarrow> 'p typedID result" where
  "generateID now random =
    (if now = zero_time
     then Inl (NewError CodeInvalidArgument ''id.generate'' ''time'' ''must be set'' None)
     else if UnixMilli now < 0 \<or> UnixMilli now > 0xffffffffffff
     then Inl (NewError CodeInvalidArgument ''id.generate'' ''time''
                 ''is outside the UUIDv7 timestamp range'' None)
     else (case random of
        None \<Rightarrow> Inl (NewError CodeUnavailable ''id.generate'' ''random''
                  ''could not read UUID entropy'' (Some (Sentinel (External ''random''))))
      | Some entropy \<Rightarrow>
          (let value = be48 (nat (UnixMilli now)) @ entropy;
               value = value[6 := char_of (byte_val (value ! 6) mod 16 + 0x70)];
               value = value[8 := char_of (byte_val (value ! 8) mod 64 + 0x80)]
           in Inr (TypedID value))))"

definition MarshalText :: "string \<Rightarrow> 'p typedID \<Rightarrow> bytes result" where
  "MarshalText p i =
    (if ID_IsZero i then Inl (NewError CodeInvalidID ''id.marshal'' ''id'' ''must not be zero'' None)
     else Inr (ID_String p i))"

definition UnmarshalText :: "string \<Rightarrow> bytes \<Rightarrow> 'p typedID result" where
  "UnmarshalText p text = parseID p text"

section \<open>The identifier types\<close>

datatype researchSessionPrefix = researchSessionPrefix
datatype leasePrefix = leasePrefix
datatype agentWorkspacePrefix = agentWorkspacePrefix
datatype execPrefix = execPrefix
datatype targetPrefix = targetPrefix
datatype targetRunPrefix = targetRunPrefix
datatype targetOperationPrefix = targetOperationPrefix
datatype workspacePrefix = workspacePrefix
datatype incidentPrefix = incidentPrefix
datatype capturePrefix = capturePrefix
datatype bundlePrefix = bundlePrefix
datatype exportPrefix = exportPrefix
datatype eventPrefix = eventPrefix
datatype correlationPrefix = correlationPrefix
datatype collectorPrefix = collectorPrefix
datatype subjectPrefix = subjectPrefix

type_synonym ResearchSessionID = "researchSessionPrefix typedID"
type_synonym LeaseID = "leasePrefix typedID"
type_synonym AgentWorkspaceID = "agentWorkspacePrefix typedID"
type_synonym ExecID = "execPrefix typedID"
type_synonym TargetID = "targetPrefix typedID"
type_synonym TargetRunID = "targetRunPrefix typedID"
type_synonym TargetOperationID = "targetOperationPrefix typedID"
type_synonym WorkspaceID = "workspacePrefix typedID"
type_synonym IncidentID = "incidentPrefix typedID"
type_synonym CaptureID = "capturePrefix typedID"
type_synonym ObservationBundleID = "bundlePrefix typedID"
type_synonym ExportID = "exportPrefix typedID"
type_synonym EventID = "eventPrefix typedID"
type_synonym CorrelationID = "correlationPrefix typedID"
type_synonym CollectorID = "collectorPrefix typedID"
type_synonym SubjectID = "subjectPrefix typedID"

definition researchSessionPrefix_prefix :: string where
  "researchSessionPrefix_prefix = ''rs''"

definition leasePrefix_prefix :: string where
  "leasePrefix_prefix = ''lease''"

definition agentWorkspacePrefix_prefix :: string where
  "agentWorkspacePrefix_prefix = ''aw''"

definition execPrefix_prefix :: string where
  "execPrefix_prefix = ''exec''"

definition targetPrefix_prefix :: string where
  "targetPrefix_prefix = ''target''"

definition targetRunPrefix_prefix :: string where
  "targetRunPrefix_prefix = ''run''"

definition targetOperationPrefix_prefix :: string where
  "targetOperationPrefix_prefix = ''op''"

definition workspacePrefix_prefix :: string where
  "workspacePrefix_prefix = ''ws''"

definition incidentPrefix_prefix :: string where
  "incidentPrefix_prefix = ''incident''"

definition capturePrefix_prefix :: string where
  "capturePrefix_prefix = ''capture''"

definition bundlePrefix_prefix :: string where
  "bundlePrefix_prefix = ''bundle''"

definition exportPrefix_prefix :: string where
  "exportPrefix_prefix = ''export''"

definition eventPrefix_prefix :: string where
  "eventPrefix_prefix = ''event''"

definition correlationPrefix_prefix :: string where
  "correlationPrefix_prefix = ''corr''"

definition collectorPrefix_prefix :: string where
  "collectorPrefix_prefix = ''collector''"

definition subjectPrefix_prefix :: string where
  "subjectPrefix_prefix = ''subject''"

lemmas prefix_defs =
  researchSessionPrefix_prefix_def
  leasePrefix_prefix_def
  agentWorkspacePrefix_prefix_def
  execPrefix_prefix_def
  targetPrefix_prefix_def
  targetRunPrefix_prefix_def
  targetOperationPrefix_prefix_def
  workspacePrefix_prefix_def
  incidentPrefix_prefix_def
  capturePrefix_prefix_def
  bundlePrefix_prefix_def
  exportPrefix_prefix_def
  eventPrefix_prefix_def
  correlationPrefix_prefix_def
  collectorPrefix_prefix_def
  subjectPrefix_prefix_def

text \<open>
  The exported parsers, and the generator methods and default constructors with the clock reading
  and the entropy read as arguments.
\<close>

definition ParseResearchSessionID :: "string \<Rightarrow> ResearchSessionID result" where
  "ParseResearchSessionID v = parseID researchSessionPrefix_prefix v"

definition ParseLeaseID :: "string \<Rightarrow> LeaseID result" where
  "ParseLeaseID v = parseID leasePrefix_prefix v"

definition ParseAgentWorkspaceID :: "string \<Rightarrow> AgentWorkspaceID result" where
  "ParseAgentWorkspaceID v = parseID agentWorkspacePrefix_prefix v"

definition ParseExecID :: "string \<Rightarrow> ExecID result" where
  "ParseExecID v = parseID execPrefix_prefix v"

definition ParseTargetID :: "string \<Rightarrow> TargetID result" where
  "ParseTargetID v = parseID targetPrefix_prefix v"

definition ParseTargetRunID :: "string \<Rightarrow> TargetRunID result" where
  "ParseTargetRunID v = parseID targetRunPrefix_prefix v"

definition ParseTargetOperationID :: "string \<Rightarrow> TargetOperationID result" where
  "ParseTargetOperationID v = parseID targetOperationPrefix_prefix v"

definition ParseWorkspaceID :: "string \<Rightarrow> WorkspaceID result" where
  "ParseWorkspaceID v = parseID workspacePrefix_prefix v"

definition ParseIncidentID :: "string \<Rightarrow> IncidentID result" where
  "ParseIncidentID v = parseID incidentPrefix_prefix v"

definition ParseCaptureID :: "string \<Rightarrow> CaptureID result" where
  "ParseCaptureID v = parseID capturePrefix_prefix v"

definition ParseObservationBundleID :: "string \<Rightarrow> ObservationBundleID result" where
  "ParseObservationBundleID v = parseID bundlePrefix_prefix v"

definition ParseExportID :: "string \<Rightarrow> ExportID result" where
  "ParseExportID v = parseID exportPrefix_prefix v"

definition ParseEventID :: "string \<Rightarrow> EventID result" where
  "ParseEventID v = parseID eventPrefix_prefix v"

definition ParseCorrelationID :: "string \<Rightarrow> CorrelationID result" where
  "ParseCorrelationID v = parseID correlationPrefix_prefix v"

definition ParseCollectorID :: "string \<Rightarrow> CollectorID result" where
  "ParseCollectorID v = parseID collectorPrefix_prefix v"

definition ParseSubjectID :: "string \<Rightarrow> SubjectID result" where
  "ParseSubjectID v = parseID subjectPrefix_prefix v"

definition GenerateResearchSessionID :: "time \<Rightarrow> bytes option \<Rightarrow> ResearchSessionID result" where
  "GenerateResearchSessionID now random = generateID now random"

definition GenerateLeaseID :: "time \<Rightarrow> bytes option \<Rightarrow> LeaseID result" where
  "GenerateLeaseID now random = generateID now random"

definition GenerateAgentWorkspaceID :: "time \<Rightarrow> bytes option \<Rightarrow> AgentWorkspaceID result" where
  "GenerateAgentWorkspaceID now random = generateID now random"

definition GenerateExecID :: "time \<Rightarrow> bytes option \<Rightarrow> ExecID result" where
  "GenerateExecID now random = generateID now random"

definition GenerateTargetID :: "time \<Rightarrow> bytes option \<Rightarrow> TargetID result" where
  "GenerateTargetID now random = generateID now random"

definition GenerateTargetRunID :: "time \<Rightarrow> bytes option \<Rightarrow> TargetRunID result" where
  "GenerateTargetRunID now random = generateID now random"

definition GenerateTargetOperationID :: "time \<Rightarrow> bytes option \<Rightarrow> TargetOperationID result" where
  "GenerateTargetOperationID now random = generateID now random"

definition GenerateWorkspaceID :: "time \<Rightarrow> bytes option \<Rightarrow> WorkspaceID result" where
  "GenerateWorkspaceID now random = generateID now random"

definition GenerateIncidentID :: "time \<Rightarrow> bytes option \<Rightarrow> IncidentID result" where
  "GenerateIncidentID now random = generateID now random"

definition GenerateCaptureID :: "time \<Rightarrow> bytes option \<Rightarrow> CaptureID result" where
  "GenerateCaptureID now random = generateID now random"

definition GenerateObservationBundleID :: "time \<Rightarrow> bytes option \<Rightarrow> ObservationBundleID result" where
  "GenerateObservationBundleID now random = generateID now random"

definition GenerateExportID :: "time \<Rightarrow> bytes option \<Rightarrow> ExportID result" where
  "GenerateExportID now random = generateID now random"

definition GenerateEventID :: "time \<Rightarrow> bytes option \<Rightarrow> EventID result" where
  "GenerateEventID now random = generateID now random"

definition GenerateCorrelationID :: "time \<Rightarrow> bytes option \<Rightarrow> CorrelationID result" where
  "GenerateCorrelationID now random = generateID now random"

definition GenerateCollectorID :: "time \<Rightarrow> bytes option \<Rightarrow> CollectorID result" where
  "GenerateCollectorID now random = generateID now random"

definition GenerateSubjectID :: "time \<Rightarrow> bytes option \<Rightarrow> SubjectID result" where
  "GenerateSubjectID now random = generateID now random"

definition NewResearchSessionID :: "time \<Rightarrow> bytes option \<Rightarrow> ResearchSessionID result" where
  "NewResearchSessionID now random = generateID now random"

definition NewLeaseID :: "time \<Rightarrow> bytes option \<Rightarrow> LeaseID result" where
  "NewLeaseID now random = generateID now random"

definition NewAgentWorkspaceID :: "time \<Rightarrow> bytes option \<Rightarrow> AgentWorkspaceID result" where
  "NewAgentWorkspaceID now random = generateID now random"

definition NewExecID :: "time \<Rightarrow> bytes option \<Rightarrow> ExecID result" where
  "NewExecID now random = generateID now random"

definition NewTargetID :: "time \<Rightarrow> bytes option \<Rightarrow> TargetID result" where
  "NewTargetID now random = generateID now random"

definition NewTargetRunID :: "time \<Rightarrow> bytes option \<Rightarrow> TargetRunID result" where
  "NewTargetRunID now random = generateID now random"

definition NewTargetOperationID :: "time \<Rightarrow> bytes option \<Rightarrow> TargetOperationID result" where
  "NewTargetOperationID now random = generateID now random"

definition NewWorkspaceID :: "time \<Rightarrow> bytes option \<Rightarrow> WorkspaceID result" where
  "NewWorkspaceID now random = generateID now random"

definition NewIncidentID :: "time \<Rightarrow> bytes option \<Rightarrow> IncidentID result" where
  "NewIncidentID now random = generateID now random"

definition NewCaptureID :: "time \<Rightarrow> bytes option \<Rightarrow> CaptureID result" where
  "NewCaptureID now random = generateID now random"

definition NewObservationBundleID :: "time \<Rightarrow> bytes option \<Rightarrow> ObservationBundleID result" where
  "NewObservationBundleID now random = generateID now random"

definition NewExportID :: "time \<Rightarrow> bytes option \<Rightarrow> ExportID result" where
  "NewExportID now random = generateID now random"

definition NewEventID :: "time \<Rightarrow> bytes option \<Rightarrow> EventID result" where
  "NewEventID now random = generateID now random"

definition NewCorrelationID :: "time \<Rightarrow> bytes option \<Rightarrow> CorrelationID result" where
  "NewCorrelationID now random = generateID now random"

definition NewCollectorID :: "time \<Rightarrow> bytes option \<Rightarrow> CollectorID result" where
  "NewCollectorID now random = generateID now random"

definition NewSubjectID :: "time \<Rightarrow> bytes option \<Rightarrow> SubjectID result" where
  "NewSubjectID now random = generateID now random"

lemmas ParseID_defs =
  ParseResearchSessionID_def
  ParseLeaseID_def
  ParseAgentWorkspaceID_def
  ParseExecID_def
  ParseTargetID_def
  ParseTargetRunID_def
  ParseTargetOperationID_def
  ParseWorkspaceID_def
  ParseIncidentID_def
  ParseCaptureID_def
  ParseObservationBundleID_def
  ParseExportID_def
  ParseEventID_def
  ParseCorrelationID_def
  ParseCollectorID_def
  ParseSubjectID_def

section \<open>Digests and input views\<close>

text \<open>\<open>sha\<close> stands for \<open>sha256.Sum256\<close>, which the model takes as a parameter.\<close>

datatype Digest = Digest (digest_value: bytes)

definition zeroDigest :: Digest where
  "zeroDigest = Digest (replicate 32 (CHR 0x00))"

definition NewDigest :: "(bytes \<Rightarrow> bytes) \<Rightarrow> bytes \<Rightarrow> Digest" where
  "NewDigest sha data = Digest (sha data)"

definition Digest_IsZero :: "Digest \<Rightarrow> bool" where
  "Digest_IsZero d \<longleftrightarrow> digest_value d = replicate 32 (CHR 0x00)"

definition Digest_String :: "Digest \<Rightarrow> string" where
  "Digest_String d = (if Digest_IsZero d then [] else ''sha256:'' @ hex_encode (digest_value d))"

definition ParseDigest :: "string \<Rightarrow> Digest result" where
  "ParseDigest text =
    (let prefix = ''sha256:'' in
     if \<not> HasPrefix text prefix \<or> length text \<noteq> length prefix + 32 * 2
     then Inl (NewError CodeInvalidArgument ''digest.parse'' ''digest''
                 ''must be sha256:<64 lower-case hex characters>'' None)
     else
       let hexText = TrimPrefix text prefix
       in if hexText \<noteq> map lower_char hexText
          then Inl (NewError CodeInvalidArgument ''digest.parse'' ''digest''
                      ''must use lower-case hexadecimal'' None)
          else (case hex_decode hexText of
             None \<Rightarrow> Inl (NewError CodeInvalidArgument ''digest.parse'' ''digest''
                       ''contains invalid hexadecimal'' (Some invalid_hex))
           | Some decoded \<Rightarrow>
               (let digest = Digest decoded
                in if Digest_IsZero digest \<or> Digest_String digest \<noteq> text
                   then Inl (NewError CodeInvalidArgument ''digest.parse'' ''digest''
                               ''must be a canonical non-zero SHA-256 digest'' None)
                   else Inr digest)))"

definition Digest_MarshalText :: "Digest \<Rightarrow> bytes result" where
  "Digest_MarshalText d =
    (if Digest_IsZero d
     then Inl (NewError CodeInvalidArgument ''digest.marshal'' ''digest'' ''must not be zero'' None)
     else Inr (Digest_String d))"

datatype InputViewID = InputViewID (iv_digest: Digest)

definition NewInputViewID :: "(bytes \<Rightarrow> bytes) \<Rightarrow> bytes \<Rightarrow> InputViewID" where
  "NewInputViewID sha canonicalManifest =
     InputViewID (NewDigest sha (''world.input-view.v1'' @ [CHR 0x00] @ canonicalManifest))"

definition InputViewID_IsZero :: "InputViewID \<Rightarrow> bool" where
  "InputViewID_IsZero i = Digest_IsZero (iv_digest i)"

definition InputViewID_String :: "InputViewID \<Rightarrow> string" where
  "InputViewID_String i =
    (if InputViewID_IsZero i then []
     else ''iv_'' @ TrimPrefix (Digest_String (iv_digest i)) ''sha256:'')"

definition ParseInputViewID :: "string \<Rightarrow> InputViewID result" where
  "ParseInputViewID text =
    (let prefix = ''iv_'' in
     if \<not> HasPrefix text prefix
     then Inl (NewError CodeInvalidID ''input_view_id.parse'' ''id'' ''must use iv_ prefix'' None)
     else (case ParseDigest (''sha256:'' @ TrimPrefix text prefix) of
        Inl err \<Rightarrow> Inl (NewError CodeInvalidID ''input_view_id.parse'' ''id''
                     ''contains an invalid digest'' (Some err))
      | Inr digest \<Rightarrow>
          (let i = InputViewID digest
           in if InputViewID_String i \<noteq> text
              then Inl (NewError CodeInvalidID ''input_view_id.parse'' ''id''
                          ''must use canonical lower-case form'' None)
              else Inr i)))"

text \<open>A ledger position.\<close>

type_synonym ObservationCursor = uint64

definition ObservationCursor_Next :: "ObservationCursor \<Rightarrow> ObservationCursor result" where
  "ObservationCursor_Next c =
    (if c = - 1
     then Inl (NewError CodeResourceExhausted ''cursor.next'' ''cursor'' ''has reached its maximum'' None)
     else Inr (c + 1))"

section \<open>Round trips\<close>

definition wf_uuid :: "uuidV7 \<Rightarrow> bool" where
  "wf_uuid v \<longleftrightarrow> length v = 16 \<and> byte_val (v ! 6) div 16 = 7 \<and> byte_val (v ! 8) div 64 = 2"

definition wf_id :: "'p typedID \<Rightarrow> bool" where
  "wf_id i \<longleftrightarrow> wf_uuid (id_value i)"


lemma wf_uuid_nonzero: "wf_uuid v \<Longrightarrow> v \<noteq> zero_uuid"
  by (auto simp: wf_uuid_def zero_uuid_def)

lemma formatUUID_shape:
  assumes "length v = 16"
  shows "length (formatUUID v) = 36"
    and "formatUUID v ! 8 = CHR ''-''" "formatUUID v ! 13 = CHR ''-''"
    and "formatUUID v ! 18 = CHR ''-''" "formatUUID v ! 23 = CHR ''-''"
  using assms by (simp_all add: formatUUID_def nth_append)

lemma formatUUID_compact:
  assumes "length v = 16"
  shows "filter (\<lambda>c. c \<noteq> CHR ''-'') (formatUUID v) = hex_encode v"
proof -
  have "v = take 4 v @ take 2 (drop 4 v) @ take 2 (drop 6 v) @ take 2 (drop 8 v) @ take 6 (drop 10 v)"
    by (rule nth_equalityI) (use assms in \<open>auto simp: nth_append\<close>)
  then have "hex_encode v = hex_encode (take 4 v) @ hex_encode (take 2 (drop 4 v)) @
      hex_encode (take 2 (drop 6 v)) @ hex_encode (take 2 (drop 8 v)) @ hex_encode (take 6 (drop 10 v))"
    by (metis hex_encode_append)
  then show ?thesis by (simp add: formatUUID_def)
qed

lemma parseUUIDv7_format: "wf_uuid v \<Longrightarrow> parseUUIDv7 (formatUUID v) = Inr v"
  by (simp add: parseUUIDv7_def wf_uuid_def formatUUID_shape formatUUID_compact)

lemma parseUUIDv7_wf: "parseUUIDv7 text = Inr v \<Longrightarrow> wf_uuid v"
  by (auto simp: parseUUIDv7_def wf_uuid_def Let_def split: if_splits option.splits)

lemma parseID_String:
  assumes "wf_id i" shows "parseID p (ID_String p i) = Inr i"
proof -
  obtain v where i: "i = TypedID v" by (cases i)
  with assms have v: "wf_uuid v" "v \<noteq> zero_uuid" by (simp_all add: wf_id_def wf_uuid_nonzero)
  have "ID_String p i = (p @ ''_'') @ formatUUID v"
    using i v by (simp add: ID_String_def ID_IsZero_def)
  moreover from this have "HasPrefix (ID_String p i) (p @ ''_'')"
      and "TrimPrefix (ID_String p i) (p @ ''_'') = formatUUID v"
    by (metis HasPrefix_append TrimPrefix_append)+
  ultimately show ?thesis
    using i v by (simp add: parseID_def parseUUIDv7_format)
qed

lemma parseID_ok:
  assumes "parseID p text = Inr i"
  shows "wf_id i \<and> ID_String p i = text \<and> \<not> ID_IsZero i"
proof -
  obtain v where "parseUUIDv7 (TrimPrefix text (p @ ''_'')) = Inr v"
      and i: "i = TypedID v" "ID_String p i = text"
    using assms by (auto simp: parseID_def Let_def bind_r_Inr split: if_splits)
  then show ?thesis
    using parseUUIDv7_wf wf_uuid_nonzero by (force simp: wf_id_def ID_IsZero_def)
qed

lemma parseID_iff: "parseID p text = Inr i \<longleftrightarrow> wf_id i \<and> text = ID_String p i"
  using parseID_String parseID_ok by metis

lemma be48_length [simp]: "length (be48 n) = 6"
  by simp

lemma generateID_wf:
  assumes "generateID now random = Inr i" and "\<forall>e. random = Some e \<longrightarrow> length e = 10"
  shows "wf_id i"
proof -
  obtain e where e: "random = Some e" "length e = 10"
    using assms by (auto simp: generateID_def split: if_splits option.splits)
  let ?v = "be48 (nat (UnixMilli now)) @ e"
  have len: "length ?v = 16" using e by simp
  have "i = TypedID (?v[6 := char_of (byte_val (?v ! 6) mod 16 + 0x70),
            8 := char_of (byte_val (?v[6 := char_of (byte_val (?v ! 6) mod 16 + 0x70)] ! 8) mod 64 + 0x80)])"
    using assms(1) e(1)
    by (simp add: generateID_def Let_def split: if_splits)
  moreover have "(x mod 16 + 112) mod 256 div 16 = 7" for x :: nat
    by (simp add: div_nat_eqI)
  moreover have "(x mod 64 + 128) mod 256 div 64 = 2" for x :: nat
    by (simp add: div_nat_eqI)
  ultimately show ?thesis
    using len by (simp add: wf_id_def wf_uuid_def nth_list_update del: be48.simps)
qed

definition wf_digest :: "Digest \<Rightarrow> bool" where
  "wf_digest d \<longleftrightarrow> length (digest_value d) = 32 \<and> \<not> Digest_IsZero d"

lemma hex_decode_length: "hex_decode s = Some bs \<Longrightarrow> length s = 2 * length bs"
  by (induction s arbitrary: bs rule: hex_decode.induct) (auto split: option.splits)

lemma ParseDigest_iff: "ParseDigest text = Inr d \<longleftrightarrow> wf_digest d \<and> text = Digest_String d"
proof
  assume l: "ParseDigest text = Inr d"
  then have t: "text = Digest_String d" and nz: "\<not> Digest_IsZero d" and len: "length text = 71"
    by (auto simp: ParseDigest_def Let_def split: if_splits option.splits)
  from t nz len have "length (digest_value d) = 32" by (simp add: Digest_String_def)
  with t nz show "wf_digest d \<and> text = Digest_String d" by (simp add: wf_digest_def)
next
  assume "wf_digest d \<and> text = Digest_String d"
  then show "ParseDigest text = Inr d"
    by (cases d) (simp add: ParseDigest_def wf_digest_def Digest_String_def Digest_IsZero_def
        HasPrefix_def TrimPrefix_def)
qed

lemma ParseInputViewID_iff:
  "ParseInputViewID text = Inr i \<longleftrightarrow> wf_digest (iv_digest i) \<and> text = InputViewID_String i"
proof
  assume l: "ParseInputViewID text = Inr i"
  then obtain d where d: "ParseDigest (''sha256:'' @ TrimPrefix text ''iv_'') = Inr d"
      and i: "i = InputViewID d" and t: "text = InputViewID_String i"
    by (auto simp: ParseInputViewID_def Let_def split: if_splits sum.splits)
  with ParseDigest_iff [of "''sha256:'' @ TrimPrefix text ''iv_''" d]
  show "wf_digest (iv_digest i) \<and> text = InputViewID_String i" by simp
next
  assume r: "wf_digest (iv_digest i) \<and> text = InputViewID_String i"
  obtain d where i: "i = InputViewID d" by (cases i)
  from r i have nz: "\<not> Digest_IsZero d" by (simp add: wf_digest_def)
  then have t: "text = ''iv_'' @ hex_encode (digest_value d)"
    using r i by (simp add: InputViewID_String_def InputViewID_IsZero_def Digest_String_def
        TrimPrefix_def HasPrefix_def)
  have p: "HasPrefix text ''iv_''" "TrimPrefix text ''iv_'' = hex_encode (digest_value d)"
    by (simp_all add: t HasPrefix_def TrimPrefix_def)
  have "wf_digest d" using r i by simp
  then have "ParseDigest (''sha256:'' @ hex_encode (digest_value d)) = Inr d"
    using nz by (simp add: ParseDigest_iff Digest_String_def)
  with p r i show "ParseInputViewID text = Inr i"
    unfolding ParseInputViewID_def Let_def by simp
qed

end
