(* ===== verification/Domain_Values.thy ===== *)
theory Domain_Values
  imports Domain_Ids
begin

text \<open>
  Value-level rules of the domain: revisions and generations (\<open>src/internal/domain/revision.go\<close>),
  field validators (\<open>validation.go\<close>) and idempotency keys (\<open>idempotency.go\<close>).  The lemmas
  show that counters never wrap, what each validator accepts, and that derived idempotency keys
  stay bounded and keep distinct pairs apart.
\<close>

section \<open>Revisions and generations\<close>

type_synonym Revision = uint64
type_synonym AgentGeneration = uint64
type_synonym TargetGeneration = uint64

definition InitialRevision :: Revision where "InitialRevision = 1"
definition InitialAgentGeneration :: AgentGeneration where "InitialAgentGeneration = 1"
definition InitialTargetGeneration :: TargetGeneration where "InitialTargetGeneration = 1"

text \<open>\<open>uintString\<close>: decimal digits, most significant first.\<close>

fun decimal :: "nat \<Rightarrow> string" where
  "decimal n = (if n < 10 then [char_of (48 + n)] else decimal (n div 10) @ [char_of (48 + n mod 10)])"

declare decimal.simps [simp del]

definition uintString :: "uint64 \<Rightarrow> string" where
  "uintString value = decimal (unat value)"

definition Revision_IsValid :: "Revision \<Rightarrow> bool" where
  "Revision_IsValid r \<longleftrightarrow> InitialRevision \<le> r"

definition Revision_Next :: "Revision \<Rightarrow> Revision result" where
  "Revision_Next r =
    (if \<not> Revision_IsValid r
     then Inl (NewError CodeInvalidArgument ''revision.next'' ''revision'' ''must be positive'' None)
     else if r = - 1
     then Inl (NewError CodeResourceExhausted ''revision.next'' ''revision''
                 ''has reached its maximum'' None)
     else Inr (r + 1))"

definition RequireRevision :: "Revision \<Rightarrow> Revision \<Rightarrow> err" where
  "RequireRevision actual expected =
     first_err
       [fail_if (\<not> Revision_IsValid expected)
          (NewError CodeInvalidArgument ''revision.require'' ''expected_revision''
             ''must be positive'' None),
        fail_if (actual \<noteq> expected)
          (NewDetailedError CodeStaleRevision ''revision.require'' ''expected_revision''
             ''does not match current revision''
             [(''actual'', uintString actual), (''expected'', uintString expected)] None)]"

definition AgentGeneration_IsValid :: "AgentGeneration \<Rightarrow> bool" where
  "AgentGeneration_IsValid g \<longleftrightarrow> InitialAgentGeneration \<le> g"

definition TargetGeneration_IsValid :: "TargetGeneration \<Rightarrow> bool" where
  "TargetGeneration_IsValid g \<longleftrightarrow> InitialTargetGeneration \<le> g"

definition AgentGeneration_Next :: "AgentGeneration \<Rightarrow> AgentGeneration result" where
  "AgentGeneration_Next g =
    (if \<not> AgentGeneration_IsValid g
     then Inl (NewError CodeInvalidArgument ''agent_generation.next'' ''generation''
                 ''must be positive'' None)
     else if g = - 1
     then Inl (NewError CodeResourceExhausted ''agent_generation.next'' ''generation''
                 ''cannot advance generation'' None)
     else Inr (g + 1))"

definition TargetGeneration_Next :: "TargetGeneration \<Rightarrow> TargetGeneration result" where
  "TargetGeneration_Next g =
    (if \<not> TargetGeneration_IsValid g
     then Inl (NewError CodeInvalidArgument ''target_generation.next'' ''generation''
                 ''must be positive'' None)
     else if g = - 1
     then Inl (NewError CodeResourceExhausted ''target_generation.next'' ''generation''
                 ''cannot advance generation'' None)
     else Inr (g + 1))"

lemmas counter_defs =
  Revision_IsValid_def AgentGeneration_IsValid_def TargetGeneration_IsValid_def
  InitialRevision_def InitialAgentGeneration_def InitialTargetGeneration_def

lemma one_le_word_iff: "(1 :: uint64) \<le> w \<longleftrightarrow> w \<noteq> 0"
  by (simp add: word_le_nat_alt Suc_le_eq unat_gt_0)

lemma valid_counter [simp]:
  "Revision_IsValid w \<longleftrightarrow> w \<noteq> 0" "AgentGeneration_IsValid w \<longleftrightarrow> w \<noteq> 0"
  "TargetGeneration_IsValid w \<longleftrightarrow> w \<noteq> 0"
  by (simp_all add: counter_defs one_le_word_iff)

lemma unat_plus_one:
  fixes w :: uint64
  assumes "w \<noteq> - 1" shows "unat (w + 1) = Suc (unat w)"
proof -
  have "w + 1 \<noteq> 0" using assms by (metis add_eq_0_iff add.commute)
  then show ?thesis by (metis add.commute unatSuc)
qed

text \<open>The contract of a saturating counter: a successful step adds one without wrapping.\<close>

locale counter =
  fixes next_of :: "uint64 \<Rightarrow> uint64 result"
  assumes next_Inr: "next_of w = Inr v \<longleftrightarrow> w \<noteq> 0 \<and> w \<noteq> - 1 \<and> v = w + 1"
begin

lemma next_unat: "next_of w = Inr v \<Longrightarrow> unat v = Suc (unat w)"
  by (simp add: next_Inr unat_plus_one)

lemma next_less: "next_of w = Inr v \<Longrightarrow> w < v"
  by (simp add: word_less_nat_alt next_unat)

lemma next_valid: "next_of w = Inr v \<Longrightarrow> v \<noteq> 0"
  using next_unat by fastforce

lemma next_unique: "next_of w = Inr v \<Longrightarrow> next_of w' = Inr v \<Longrightarrow> w = w'"
  by (simp add: next_Inr)

end

interpretation revision: counter Revision_Next
  by unfold_locales (auto simp: Revision_Next_def)

interpretation agent_generation: counter AgentGeneration_Next
  by unfold_locales (auto simp: AgentGeneration_Next_def)

interpretation target_generation: counter TargetGeneration_Next
  by unfold_locales (auto simp: TargetGeneration_Next_def)

lemma RequireRevision_None [err_simps]:
  "RequireRevision actual expected = None \<longleftrightarrow> expected \<noteq> 0 \<and> actual = expected"
  by (auto simp: RequireRevision_def)

section \<open>Field validators\<close>

definition requireNonBlank :: "string \<Rightarrow> string \<Rightarrow> err" where
  "requireNonBlank field value =
     fail_if (blank value) (NewError CodeInvalidArgument ''validate'' field ''must not be blank'' None)"

definition requireTime :: "string \<Rightarrow> time \<Rightarrow> err" where
  "requireTime field value =
     fail_if (value = zero_time) (NewError CodeInvalidArgument ''validate'' field ''must be set'' None)"

definition requireNonNegative :: "string \<Rightarrow> int \<Rightarrow> err" where
  "requireNonNegative field value =
     fail_if (value < 0) (NewError CodeInvalidArgument ''validate'' field ''must not be negative'' None)"

text \<open>The argument \<open>zero\<close> is the result of the value's \<open>IsZero\<close> method.\<close>

definition requireID :: "string \<Rightarrow> bool \<Rightarrow> err" where
  "requireID field zero =
     fail_if zero (NewError CodeInvalidID ''validate'' field ''must be set'' None)"

definition nextModelRevision ::
    "Revision \<Rightarrow> Revision \<Rightarrow> time \<Rightarrow> time \<Rightarrow> Revision result" where
  "nextModelRevision current expected updatedAt at =
     guarded
       [RequireRevision current expected,
        requireTime ''at'' at,
        fail_if (at < updatedAt)
          (NewError CodeInvalidArgument ''model.transition'' ''at''
             ''must not precede the previous update'' None)]
       (Revision_Next current)"

text \<open>\<open>path.Clean\<close>: elements are processed left to right, an output stack in reverse.\<close>

fun split_slash :: "string \<Rightarrow> string list" where
  "split_slash [] = [[]]"
| "split_slash (c # s) =
     (case split_slash s of
        [] \<Rightarrow> [[c]]
      | w # ws \<Rightarrow> if c = CHR ''/'' then [] # w # ws else (c # w) # ws)"

definition clean_element :: "bool \<Rightarrow> string \<Rightarrow> string list \<Rightarrow> string list" where
  "clean_element rooted e out =
    (if e = [] \<or> e = ''.'' then out
     else if e = ''..'' then
       (case out of
          prev # rest \<Rightarrow> if prev = ''..'' then ''..'' # out else rest
        | [] \<Rightarrow> if rooted then [] else [''..''])
     else e # out)"

fun join_slash :: "string list \<Rightarrow> string" where
  "join_slash [] = []"
| "join_slash [w] = w"
| "join_slash (w # v # ws) = w @ ''/'' @ join_slash (v # ws)"

definition path_Clean :: "string \<Rightarrow> string" where
  "path_Clean p =
    (if p = [] then ''.''
     else
       let rooted = hd p = CHR ''/'';
           body = join_slash (rev (fold (clean_element rooted) (split_slash p) []))
       in if rooted then CHR ''/'' # body else if body = [] then ''.'' else body)"

definition requireRelativePath :: "string \<Rightarrow> string \<Rightarrow> bool \<Rightarrow> err" where
  "requireRelativePath field value allowDot =
     first_err
       [requireNonBlank field value,
        fail_if (CHR 0x00 \<in> set value)
          (NewError CodeInvalidArgument ''validate'' field ''must not contain NUL'' None),
        fail_if (CHR 0x5C \<in> set value)
          (NewError CodeInvalidArgument ''validate'' field ''must use forward slashes'' None),
        fail_if (HasPrefix value ''/'')
          (NewError CodeInvalidArgument ''validate'' field ''must be relative'' None),
        fail_if (path_Clean value \<noteq> value \<or> path_Clean value = ''..'' \<or>
                 HasPrefix (path_Clean value) ''../'')
          (NewError CodeInvalidArgument ''validate'' field ''must be a normalized beneath path'' None),
        fail_if (\<not> allowDot \<and> path_Clean value = ''.'')
          (NewError CodeInvalidArgument ''validate'' field ''must name an entry'' None)]"

definition requireOrderedTimes :: "string \<Rightarrow> time \<Rightarrow> string \<Rightarrow> time \<Rightarrow> err" where
  "requireOrderedTimes startField start endField finish =
     first_err
       [requireTime startField start,
        requireTime endField finish,
        fail_if (finish < start)
          (NewError CodeInvalidArgument ''validate'' endField
             (''must not precede '' @ startField) None)]"

definition sortedKeys :: "'v table \<Rightarrow> string list" where
  "sortedKeys values = sort (map fst values)"

fun unique_loop :: "string \<Rightarrow> nat \<Rightarrow> string list \<Rightarrow> string list \<Rightarrow> err" where
  "unique_loop field i seen [] = None"
| "unique_loop field i seen (value # rest) =
     first_err
       [requireNonBlank (field @ ''['' @ decimal i @ '']'') value,
        fail_if (value \<in> set seen)
          (NewError CodeInvalidArgument ''validate'' field ''must not contain duplicates'' None),
        unique_loop field (Suc i) (value # seen) rest]"

definition uniqueNonBlank :: "string list \<Rightarrow> string \<Rightarrow> string list result" where
  "uniqueNonBlank values field = checked [unique_loop field 0 [] values] values"

lemma validators_None [err_simps]:
  "requireNonBlank field value = None \<longleftrightarrow> \<not> blank value"
  "requireTime field t = None \<longleftrightarrow> t \<noteq> 0"
  "requireNonNegative field n = None \<longleftrightarrow> 0 \<le> n"
  "requireID field zero = None \<longleftrightarrow> \<not> zero"
  "requireOrderedTimes a t b u = None \<longleftrightarrow> t \<noteq> 0 \<and> u \<noteq> 0 \<and> t \<le> u"
  by (auto simp: requireNonBlank_def requireTime_def requireNonNegative_def requireID_def
      requireOrderedTimes_def)

lemma nextModelRevision_Inr [err_simps]:
  "nextModelRevision current expected updatedAt at = Inr r \<longleftrightarrow>
     current = expected \<and> current \<noteq> 0 \<and> current \<noteq> - 1 \<and> at \<noteq> 0 \<and> updatedAt \<le> at \<and> r = current + 1"
  by (auto simp: nextModelRevision_def revision.next_Inr err_simps)

lemma unique_loop_None:
  "unique_loop field i seen values = None \<longleftrightarrow>
     (\<forall>v \<in> set values. \<not> blank v) \<and> distinct values \<and> set values \<inter> set seen = {}"
  by (induction "values" arbitrary: i seen) (auto simp: err_simps)

lemma uniqueNonBlank_Inr:
  "uniqueNonBlank values field = Inr r \<longleftrightarrow>
     r = values \<and> distinct values \<and> (\<forall>v \<in> set values. \<not> blank v)"
  by (auto simp: uniqueNonBlank_def checked_Inr unique_loop_None)

section \<open>Idempotency keys\<close>

definition MaximumIdempotencyKeyBytes :: nat where
  "MaximumIdempotencyKeyBytes = 1024"

definition derivedIdempotencyDigestMarker :: string where
  "derivedIdempotencyDigestMarker = ''//sha256:''"

definition derivedIdempotencyDomain :: string where
  "derivedIdempotencyDomain = ''world-management-layer.idempotency-child.v1'' @ [CHR 0x00]"

definition IsCanonicalIdempotencyKey :: "string \<Rightarrow> bool" where
  "IsCanonicalIdempotencyKey value \<longleftrightarrow>
     value \<noteq> [] \<and> length value \<le> MaximumIdempotencyKeyBytes \<and> TrimSpace value = value \<and>
     ValidString value"

definition idempotencyFrame :: "string \<Rightarrow> bytes" where
  "idempotencyFrame value = be64 (of_nat (length value)) @ value"

text \<open>The bytes written to the hash, and the hash of them.\<close>

definition derivedIdempotencyPreimage :: "string \<Rightarrow> string \<Rightarrow> bytes" where
  "derivedIdempotencyPreimage parent suffix =
     derivedIdempotencyDomain @ idempotencyFrame parent @ idempotencyFrame suffix"

definition derivedIdempotencyPairDigest :: "(bytes \<Rightarrow> bytes) \<Rightarrow> string \<Rightarrow> string \<Rightarrow> bytes" where
  "derivedIdempotencyPairDigest sha parent suffix = sha (derivedIdempotencyPreimage parent suffix)"

function drop_invalid :: "bytes \<Rightarrow> bytes" where
  "drop_invalid value = (if ValidString value then value else drop_invalid (butlast value))"
  by pat_completeness auto
termination
proof (relation "measure length")
  fix v :: bytes
  assume "\<not> ValidString v"
  then have "v \<noteq> []" by auto
  then show "(butlast v, v) \<in> measure length" by simp
qed simp

declare drop_invalid.simps [simp del]

definition truncateValidUTF8 :: "string \<Rightarrow> nat \<Rightarrow> string" where
  "truncateValidUTF8 value maximumBytes =
    (if length value \<le> maximumBytes then value else drop_invalid (take maximumBytes value))"

definition DeriveIdempotencyKey :: "(bytes \<Rightarrow> bytes) \<Rightarrow> string \<Rightarrow> string \<Rightarrow> string" where
  "DeriveIdempotencyKey sha parent suffix =
    (if \<not> IsCanonicalIdempotencyKey parent \<or> \<not> IsCanonicalIdempotencyKey suffix then []
     else
       let candidate = parent @ ''/'' @ suffix
       in if CHR ''/'' \<notin> set parent \<and> CHR ''/'' \<notin> set suffix \<and>
             length candidate \<le> MaximumIdempotencyKeyBytes
          then candidate
          else
            let marker = derivedIdempotencyDigestMarker @
                  hex_encode (derivedIdempotencyPairDigest sha parent suffix);
                prefix = truncateValidUTF8 candidate (MaximumIdempotencyKeyBytes - length marker)
            in prefix @ marker)"

lemma drop_invalid_prefix: "ValidString (drop_invalid v) \<and> (\<exists>q. v = drop_invalid v @ q)"
proof (induction v rule: drop_invalid.induct)
  case (1 v)
  show ?case
  proof (cases "ValidString v")
    case True
    then show ?thesis by (simp add: drop_invalid.simps [of v])
  next
    case False
    then have eq: "drop_invalid v = drop_invalid (butlast v)" by (simp add: drop_invalid.simps [of v])
    obtain q where "butlast v = drop_invalid (butlast v) @ q" using 1 False by blast
    moreover have "v = butlast v @ [last v]" using False by (cases v) auto
    ultimately have "v = drop_invalid v @ q @ [last v]" using eq by (metis append_assoc)
    with 1 False eq show ?thesis by metis
  qed
qed

lemma truncateValidUTF8_length: "length (truncateValidUTF8 v n) \<le> n"
proof (cases "length v \<le> n")
  case True
  then show ?thesis by (simp add: truncateValidUTF8_def)
next
  case False
  obtain q where "take n v = drop_invalid (take n v) @ q" using drop_invalid_prefix by blast
  then have "length (drop_invalid (take n v)) \<le> length (take n v)" by (metis length_append le_add1)
  with False show ?thesis by (simp add: truncateValidUTF8_def)
qed

lemma first_slash_split:
  "CHR ''/'' \<notin> set p \<Longrightarrow> CHR ''/'' \<notin> set p' \<Longrightarrow> p @ CHR ''/'' # s = p' @ CHR ''/'' # s' \<Longrightarrow>
     p = p' \<and> s = s'"
proof (induction p arbitrary: p')
  case Nil
  then show ?case by (cases p') auto
next
  case (Cons c p)
  then show ?case by (cases p') auto
qed

lemma preimage_inj:
  assumes "length p < 2 ^ 64" "length p' < 2 ^ 64"
    and "derivedIdempotencyPreimage p s = derivedIdempotencyPreimage p' s'"
  shows "p = p' \<and> s = s'"
proof -
  have "be64 (of_nat (length p)) @ p @ idempotencyFrame s =
        be64 (of_nat (length p')) @ p' @ idempotencyFrame s'"
    using assms(3) by (simp add: derivedIdempotencyPreimage_def idempotencyFrame_def)
  from frame_inj [OF assms(1,2) this] have "p = p'" and "idempotencyFrame s = idempotencyFrame s'"
    by simp_all
  then show ?thesis by (simp add: idempotencyFrame_def append_eq_append_conv)
qed

definition readable_pair :: "string \<Rightarrow> string \<Rightarrow> bool" where
  "readable_pair p s \<longleftrightarrow> CHR ''/'' \<notin> set p \<and> CHR ''/'' \<notin> set s \<and>
     length p + length s < MaximumIdempotencyKeyBytes"

lemma DeriveIdempotencyKey_cases:
  assumes "IsCanonicalIdempotencyKey p" "IsCanonicalIdempotencyKey s"
  shows "readable_pair p s \<Longrightarrow> DeriveIdempotencyKey sha p s = p @ CHR ''/'' # s"
    and "\<not> readable_pair p s \<Longrightarrow> \<exists>q. DeriveIdempotencyKey sha p s =
           q @ ''//sha256:'' @ hex_encode (sha (derivedIdempotencyPreimage p s)) \<and>
           length q \<le> 1024 - (9 + 2 * length (sha (derivedIdempotencyPreimage p s)))"
proof -
  show "readable_pair p s \<Longrightarrow> DeriveIdempotencyKey sha p s = p @ CHR ''/'' # s"
    using assms by (auto simp: DeriveIdempotencyKey_def readable_pair_def)
  assume "\<not> readable_pair p s"
  then have "DeriveIdempotencyKey sha p s =
      truncateValidUTF8 (p @ ''/'' @ s) (1024 - (9 + 2 * length (sha (derivedIdempotencyPreimage p s)))) @
      ''//sha256:'' @ hex_encode (sha (derivedIdempotencyPreimage p s))"
    using assms
    by (auto simp: DeriveIdempotencyKey_def readable_pair_def derivedIdempotencyDigestMarker_def
        MaximumIdempotencyKeyBytes_def derivedIdempotencyPairDigest_def)
  then show "\<exists>q. DeriveIdempotencyKey sha p s =
           q @ ''//sha256:'' @ hex_encode (sha (derivedIdempotencyPreimage p s)) \<and>
           length q \<le> 1024 - (9 + 2 * length (sha (derivedIdempotencyPreimage p s)))"
    using truncateValidUTF8_length by blast
qed

text \<open>
  C39. A child idempotency key is at most 1024 bytes long, and two different (parent, suffix)
  pairs never share a child key unless the two length-framed preimages are a collision of the
  hash function.  The hypothesis on \<open>sha\<close> is the output size of SHA-256.
\<close>

theorem DeriveIdempotencyKey_separates:
  assumes sha: "\<And>x. length (sha x) = 32"
    and canonical: "IsCanonicalIdempotencyKey p" "IsCanonicalIdempotencyKey s"
      "IsCanonicalIdempotencyKey p'" "IsCanonicalIdempotencyKey s'"
    and same: "DeriveIdempotencyKey sha p s = DeriveIdempotencyKey sha p' s'"
  shows "length (DeriveIdempotencyKey sha p s) \<le> MaximumIdempotencyKeyBytes \<and>
    (p = p' \<and> s = s' \<or>
     derivedIdempotencyPreimage p s \<noteq> derivedIdempotencyPreimage p' s' \<and>
     sha (derivedIdempotencyPreimage p s) = sha (derivedIdempotencyPreimage p' s'))"
proof -
  note cs = DeriveIdempotencyKey_cases [of p s, OF canonical(1,2), of sha]
    DeriveIdempotencyKey_cases [of p' s', OF canonical(3,4), of sha]
  have lens: "length p < 2 ^ 64" "length p' < 2 ^ 64"
    using canonical by (simp_all add: IsCanonicalIdempotencyKey_def MaximumIdempotencyKeyBytes_def)
  have bound: "length (DeriveIdempotencyKey sha p s) \<le> 1024"
    using cs(1,2) sha [of "derivedIdempotencyPreimage p s"]
    by (cases "readable_pair p s") (auto simp: readable_pair_def MaximumIdempotencyKeyBytes_def)
  have one: "count_list (p @ CHR ''/'' # s) (CHR ''/'') = 1" if "readable_pair p s" for p s
    using that by (simp add: readable_pair_def)
  have two: "count_list (q @ ''//sha256:'' @ r) (CHR ''/'') \<noteq> 1" for q r
    by simp
  consider "readable_pair p s" "readable_pair p' s'" | "\<not> readable_pair p s" "\<not> readable_pair p' s'"
    using cs same one two by metis
  then show ?thesis
  proof cases
    case 1
    then have "p = p' \<and> s = s'"
      using cs same first_slash_split [of p p' s s'] by (simp add: readable_pair_def)
    with bound show ?thesis by (simp add: MaximumIdempotencyKeyBytes_def)
  next
    case 2
    let ?h = "hex_encode (sha (derivedIdempotencyPreimage p s))"
    let ?h' = "hex_encode (sha (derivedIdempotencyPreimage p' s'))"
    obtain q where q: "DeriveIdempotencyKey sha p s = q @ ''//sha256:'' @ ?h"
      using cs(2) [OF 2(1)] by blast
    obtain q' where q': "DeriveIdempotencyKey sha p' s' = q' @ ''//sha256:'' @ ?h'"
      using cs(4) [OF 2(2)] by blast
    have "(q @ ''//sha256:'') @ ?h = (q' @ ''//sha256:'') @ ?h'"
      using same unfolding q q' append_assoc .
    moreover have "length ?h = length ?h'" by (simp add: sha)
    ultimately have "?h = ?h'" using append_eq_append_conv by blast
    then have "sha (derivedIdempotencyPreimage p s) = sha (derivedIdempotencyPreimage p' s')"
      by (metis hex_decode_encode option.inject)
    with bound preimage_inj [OF lens] show ?thesis
      by (auto simp: MaximumIdempotencyKeyBytes_def)
  qed
qed

lemma canonical_printing:
  assumes "s \<noteq> []" "length s \<le> 1024" "\<forall>c \<in> set s. 0x20 < byte_val c \<and> byte_val c < 0x80"
  shows "IsCanonicalIdempotencyKey s"
  using assms by (simp add: IsCanonicalIdempotencyKey_def MaximumIdempotencyKeyBytes_def
      TrimSpace_printing ValidString_ascii)

text \<open>
  The two readings of \<open>a/b/c\<close>: with a hash that maps everything to one value they share a key,
  and the theorem exhibits the colliding preimages.
\<close>

theorem DeriveIdempotencyKey_separates_witness:
  "length (DeriveIdempotencyKey (\<lambda>_. replicate 32 (CHR 0x00)) ''a/b'' ''c'') \<le> MaximumIdempotencyKeyBytes \<and>
   derivedIdempotencyPreimage ''a/b'' ''c'' \<noteq> derivedIdempotencyPreimage ''a'' ''b/c''"
proof -
  let ?sha = "\<lambda>_ :: bytes. replicate 32 (CHR 0x00)"
  have c: "IsCanonicalIdempotencyKey ''a/b''" "IsCanonicalIdempotencyKey ''c''"
      "IsCanonicalIdempotencyKey ''a''" "IsCanonicalIdempotencyKey ''b/c''"
    by (rule canonical_printing; simp)+
  have "DeriveIdempotencyKey ?sha ''a/b'' ''c'' = DeriveIdempotencyKey ?sha ''a'' ''b/c''"
    using c by (simp add: DeriveIdempotencyKey_def derivedIdempotencyPairDigest_def)
  from DeriveIdempotencyKey_separates [of ?sha, OF _ c this] show ?thesis by simp
qed

end
