(* ===== verification/Domain_Models.thy ===== *)
theory Domain_Models
  imports Domain_States Domain_Values
begin

text \<open>
  The lifecycle models of \<open>src/internal/domain/lifecycle_models.go\<close>: validating constructors and
  revision-checked transitions of sessions, leases, agent workspaces, execs, targets, target runs
  and target operations.  The locale \<open>versioned\<close> is the contract the \<open>Transition\<close> methods share;
  it extends \<open>lifecycle\<close> and is interpreted once per model.
\<close>

section \<open>Sessions\<close>

record ResearchSession =
  rsm_id :: ResearchSessionID
  rsm_state :: ResearchSessionState
  rsm_revision :: Revision
  rsm_createdAt :: time
  rsm_updatedAt :: time

definition NewResearchSession :: "ResearchSessionID \<Rightarrow> time \<Rightarrow> ResearchSession result" where
  "NewResearchSession i createdAt =
     checked [requireID ''research_session_id'' (ID_IsZero i), requireTime ''created_at'' createdAt]
       \<lparr>rsm_id = i, rsm_state = ResearchSessionRequested, rsm_revision = InitialRevision,
        rsm_createdAt = createdAt, rsm_updatedAt = createdAt\<rparr>"

definition ResearchSession_Transition ::
    "ResearchSession \<Rightarrow> ResearchSessionState \<Rightarrow> Revision \<Rightarrow> time \<Rightarrow> ResearchSession result" where
  "ResearchSession_Transition s next expected at =
     guarded [RequireResearchSessionTransition (rsm_state s) next]
       (bind_r (nextModelRevision (rsm_revision s) expected (rsm_updatedAt s) at) (\<lambda>revision.
          Inr (s\<lparr>rsm_state := next, rsm_revision := revision, rsm_updatedAt := at\<rparr>)))"

section \<open>Leases\<close>

record LeaseSpec =
  lsp_ID :: LeaseID
  lsp_ResearchSessionID :: ResearchSessionID
  lsp_AgentWorkspaceID :: AgentWorkspaceID
  lsp_AgentGeneration :: AgentGeneration
  lsp_InputViewID :: InputViewID
  lsp_PolicyDigest :: Digest
  lsp_CapabilityFingerprintDigest :: Digest
  lsp_ExpiresAt :: time
  lsp_CreatedAt :: time

record Lease =
  lem_spec :: LeaseSpec
  lem_state :: LeaseState
  lem_revision :: Revision
  lem_updatedAt :: time

definition NewLease :: "LeaseSpec \<Rightarrow> Lease result" where
  "NewLease spec =
     checked
       [requireID ''lease_id'' (ID_IsZero (lsp_ID spec)),
        requireID ''research_session_id'' (ID_IsZero (lsp_ResearchSessionID spec)),
        requireID ''agent_workspace_id'' (ID_IsZero (lsp_AgentWorkspaceID spec)),
        fail_if (\<not> AgentGeneration_IsValid (lsp_AgentGeneration spec))
          (NewError CodeInvalidArgument ''lease.new'' ''agent_generation'' ''must be positive'' None),
        fail_if (InputViewID_IsZero (lsp_InputViewID spec))
          (NewError CodeInvalidID ''lease.new'' ''input_view_id'' ''must be set'' None),
        fail_if (Digest_IsZero (lsp_PolicyDigest spec))
          (NewError CodeInvalidArgument ''lease.new'' ''policy_digest'' ''must be set'' None),
        fail_if (Digest_IsZero (lsp_CapabilityFingerprintDigest spec))
          (NewError CodeInvalidArgument ''lease.new'' ''capability_fingerprint_digest''
             ''must be set'' None),
        requireOrderedTimes ''created_at'' (lsp_CreatedAt spec) ''expires_at'' (lsp_ExpiresAt spec),
        fail_if (\<not> lsp_ExpiresAt spec > lsp_CreatedAt spec)
          (NewError CodeInvalidArgument ''lease.new'' ''expires_at'' ''must be after created_at'' None)]
       \<lparr>lem_spec = spec, lem_state = LeaseActive, lem_revision = InitialRevision,
        lem_updatedAt = lsp_CreatedAt spec\<rparr>"

definition Lease_Renew :: "Lease \<Rightarrow> Revision \<Rightarrow> time \<Rightarrow> time \<Rightarrow> Lease result" where
  "Lease_Renew l expected expiresAt at =
     guarded
       [fail_if (lem_state l \<noteq> LeaseActive)
          (NewError CodeFailedPrecondition ''lease.renew'' ''state'' ''lease is not active'' None),
        fail_if (\<not> expiresAt > lsp_ExpiresAt (lem_spec l))
          (NewError CodeInvalidArgument ''lease.renew'' ''expires_at''
             ''must extend the current expiry'' None),
        fail_if (\<not> expiresAt > at)
          (NewError CodeInvalidArgument ''lease.renew'' ''expires_at'' ''must be in the future'' None)]
       (bind_r (nextModelRevision (lem_revision l) expected (lem_updatedAt l) at) (\<lambda>revision.
          Inr (l\<lparr>lem_spec := (lem_spec l)\<lparr>lsp_ExpiresAt := expiresAt\<rparr>,
                 lem_revision := revision, lem_updatedAt := at\<rparr>)))"

definition Lease_Transition :: "Lease \<Rightarrow> LeaseState \<Rightarrow> Revision \<Rightarrow> time \<Rightarrow> Lease result" where
  "Lease_Transition l next expected at =
     guarded [RequireLeaseTransition (lem_state l) next]
       (bind_r (nextModelRevision (lem_revision l) expected (lem_updatedAt l) at) (\<lambda>revision.
          Inr (l\<lparr>lem_state := next, lem_revision := revision, lem_updatedAt := at\<rparr>)))"

section \<open>Agent workspaces and their generations\<close>

record AgentWorkspace =
  awm_id :: AgentWorkspaceID
  awm_researchSessionID :: ResearchSessionID
  awm_currentGeneration :: AgentGeneration
  awm_revision :: Revision
  awm_createdAt :: time
  awm_updatedAt :: time

definition NewAgentWorkspace ::
    "AgentWorkspaceID \<Rightarrow> ResearchSessionID \<Rightarrow> AgentGeneration \<Rightarrow> time \<Rightarrow> AgentWorkspace result" where
  "NewAgentWorkspace i sessionID generation createdAt =
     checked
       [requireID ''agent_workspace_id'' (ID_IsZero i),
        requireID ''research_session_id'' (ID_IsZero sessionID),
        fail_if (\<not> AgentGeneration_IsValid generation)
          (NewError CodeInvalidArgument ''agent_workspace.new'' ''generation'' ''must be positive'' None),
        requireTime ''created_at'' createdAt]
       \<lparr>awm_id = i, awm_researchSessionID = sessionID, awm_currentGeneration = generation,
        awm_revision = InitialRevision, awm_createdAt = createdAt, awm_updatedAt = createdAt\<rparr>"

definition AgentWorkspace_AdvanceGeneration ::
    "AgentWorkspace \<Rightarrow> Revision \<Rightarrow> AgentGeneration \<Rightarrow> time \<Rightarrow> AgentWorkspace result" where
  "AgentWorkspace_AdvanceGeneration w expected next at =
     bind_r (AgentGeneration_Next (awm_currentGeneration w)) (\<lambda>wanted.
       if next \<noteq> wanted
       then Inl (NewDetailedError CodeConflict ''agent_workspace.advance_generation'' ''generation''
                   ''must advance by exactly one''
                   [(''current'', uintString (awm_currentGeneration w)),
                    (''requested'', uintString next)] None)
       else bind_r (nextModelRevision (awm_revision w) expected (awm_updatedAt w) at) (\<lambda>revision.
         Inr (w\<lparr>awm_currentGeneration := next, awm_revision := revision, awm_updatedAt := at\<rparr>)))"

record AgentWorkspaceGenerationSpec =
  ags_AgentWorkspaceID :: AgentWorkspaceID
  ags_Generation :: AgentGeneration
  ags_WorkspaceID :: WorkspaceID
  ags_InputViewID :: InputViewID
  ags_PolicyDigest :: Digest
  ags_CapabilityFingerprintDigest :: Digest
  ags_PreviousGeneration :: AgentGeneration
  ags_RecoveryIncidentID :: IncidentID
  ags_CreatedAt :: time

record AgentWorkspaceGenerationRecord =
  agm_spec :: AgentWorkspaceGenerationSpec
  agm_state :: AgentGenerationState
  agm_revision :: Revision
  agm_updatedAt :: time

definition NewAgentWorkspaceGeneration ::
    "AgentWorkspaceGenerationSpec \<Rightarrow> AgentWorkspaceGenerationRecord result" where
  "NewAgentWorkspaceGeneration spec =
     checked
       [requireID ''agent_workspace_id'' (ID_IsZero (ags_AgentWorkspaceID spec)),
        fail_if (\<not> AgentGeneration_IsValid (ags_Generation spec))
          (NewError CodeInvalidArgument ''agent_generation.new'' ''generation'' ''must be positive'' None),
        requireID ''workspace_id'' (ID_IsZero (ags_WorkspaceID spec)),
        fail_if (InputViewID_IsZero (ags_InputViewID spec))
          (NewError CodeInvalidID ''agent_generation.new'' ''input_view_id'' ''must be set'' None),
        fail_if (Digest_IsZero (ags_PolicyDigest spec) \<or>
                 Digest_IsZero (ags_CapabilityFingerprintDigest spec))
          (NewError CodeInvalidArgument ''agent_generation.new'' ''provenance_digest''
             ''policy and capability digests must be set'' None),
        (if ags_Generation spec = InitialAgentGeneration
         then fail_if (ags_PreviousGeneration spec \<noteq> 0 \<or> \<not> ID_IsZero (ags_RecoveryIncidentID spec))
           (NewError CodeInvalidArgument ''agent_generation.new'' ''previous_generation''
              ''initial generation cannot have recovery provenance'' None)
         else fail_if (ags_PreviousGeneration spec \<noteq> ags_Generation spec - 1)
           (NewError CodeInvalidArgument ''agent_generation.new'' ''previous_generation''
              ''later generations require the immediately previous generation'' None)),
        requireTime ''created_at'' (ags_CreatedAt spec)]
       \<lparr>agm_spec = spec, agm_state = AgentGenerationProvisioning, agm_revision = InitialRevision,
        agm_updatedAt = ags_CreatedAt spec\<rparr>"

definition AgentWorkspaceGeneration_Transition ::
    "AgentWorkspaceGenerationRecord \<Rightarrow> AgentGenerationState \<Rightarrow> Revision \<Rightarrow> time \<Rightarrow>
      AgentWorkspaceGenerationRecord result" where
  "AgentWorkspaceGeneration_Transition g next expected at =
     guarded [RequireAgentGenerationTransition (agm_state g) next]
       (bind_r (nextModelRevision (agm_revision g) expected (agm_updatedAt g) at) (\<lambda>revision.
          Inr (g\<lparr>agm_state := next, agm_revision := revision, agm_updatedAt := at\<rparr>)))"

section \<open>Execs\<close>

datatype ExecKind = ExecProvider | ExecTool | ExecKindOther string

definition ExecKind_IsValid :: "ExecKind \<Rightarrow> bool" where
  "ExecKind_IsValid k \<longleftrightarrow> k = ExecProvider \<or> k = ExecTool"

record ExecSpec =
  exs_ID :: ExecID
  exs_LeaseID :: LeaseID
  exs_AgentWorkspaceID :: AgentWorkspaceID
  exs_AgentGeneration :: AgentGeneration
  exs_Kind :: ExecKind
  exs_Executable :: string
  exs_Argv :: "string list"
  exs_WorkingDirectory :: string
  exs_CreatedAt :: time

record Exec =
  exm_spec :: ExecSpec
  exm_state :: ExecState
  exm_revision :: Revision
  exm_updatedAt :: time

definition NewExec :: "ExecSpec \<Rightarrow> Exec result" where
  "NewExec spec =
     checked
       [requireID ''exec_id'' (ID_IsZero (exs_ID spec)),
        requireID ''lease_id'' (ID_IsZero (exs_LeaseID spec)),
        requireID ''agent_workspace_id'' (ID_IsZero (exs_AgentWorkspaceID spec)),
        fail_if (\<not> AgentGeneration_IsValid (exs_AgentGeneration spec))
          (NewError CodeInvalidArgument ''exec.new'' ''agent_generation'' ''must be positive'' None),
        fail_if (\<not> ExecKind_IsValid (exs_Kind spec))
          (NewError CodeInvalidArgument ''exec.new'' ''kind'' ''is not recognized'' None),
        requireNonBlank ''executable'' (exs_Executable spec),
        requireRelativePath ''working_directory'' (exs_WorkingDirectory spec) True,
        requireTime ''created_at'' (exs_CreatedAt spec)]
       \<lparr>exm_spec = spec, exm_state = ExecRequested, exm_revision = InitialRevision,
        exm_updatedAt = exs_CreatedAt spec\<rparr>"

definition Exec_Transition :: "Exec \<Rightarrow> ExecState \<Rightarrow> Revision \<Rightarrow> time \<Rightarrow> Exec result" where
  "Exec_Transition e next expected at =
     guarded [RequireExecTransition (exm_state e) next]
       (bind_r (nextModelRevision (exm_revision e) expected (exm_updatedAt e) at) (\<lambda>revision.
          Inr (e\<lparr>exm_state := next, exm_revision := revision, exm_updatedAt := at\<rparr>)))"

section \<open>Targets and their generations\<close>

datatype TargetKind =
    TargetLinuxContainer | TargetAndroidVirtualDevice | TargetPhysicalDevice | TargetKindOther string

definition TargetKind_IsValid :: "TargetKind \<Rightarrow> bool" where
  "TargetKind_IsValid k \<longleftrightarrow>
     k = TargetLinuxContainer \<or> k = TargetAndroidVirtualDevice \<or> k = TargetPhysicalDevice"

record Target =
  tam_id :: TargetID
  tam_researchSessionID :: ResearchSessionID
  tam_kind :: TargetKind
  tam_currentGeneration :: TargetGeneration
  tam_revision :: Revision
  tam_createdAt :: time
  tam_updatedAt :: time

definition NewTarget ::
    "TargetID \<Rightarrow> ResearchSessionID \<Rightarrow> TargetKind \<Rightarrow> TargetGeneration \<Rightarrow> time \<Rightarrow> Target result" where
  "NewTarget i sessionID kind generation createdAt =
     checked
       [requireID ''target_id'' (ID_IsZero i),
        requireID ''research_session_id'' (ID_IsZero sessionID),
        fail_if (\<not> TargetKind_IsValid kind)
          (NewError CodeInvalidArgument ''target.new'' ''kind'' ''is not recognized'' None),
        fail_if (\<not> TargetGeneration_IsValid generation)
          (NewError CodeInvalidArgument ''target.new'' ''generation'' ''must be positive'' None),
        requireTime ''created_at'' createdAt]
       \<lparr>tam_id = i, tam_researchSessionID = sessionID, tam_kind = kind,
        tam_currentGeneration = generation, tam_revision = InitialRevision,
        tam_createdAt = createdAt, tam_updatedAt = createdAt\<rparr>"

definition Target_AdvanceGeneration ::
    "Target \<Rightarrow> Revision \<Rightarrow> TargetGeneration \<Rightarrow> time \<Rightarrow> Target result" where
  "Target_AdvanceGeneration t expected next at =
     bind_r (TargetGeneration_Next (tam_currentGeneration t)) (\<lambda>wanted.
       if next \<noteq> wanted
       then Inl (NewDetailedError CodeConflict ''target.advance_generation'' ''generation''
                   ''must advance by exactly one''
                   [(''current'', uintString (tam_currentGeneration t)),
                    (''requested'', uintString next)] None)
       else bind_r (nextModelRevision (tam_revision t) expected (tam_updatedAt t) at) (\<lambda>revision.
         Inr (t\<lparr>tam_currentGeneration := next, tam_revision := revision, tam_updatedAt := at\<rparr>)))"

record TargetGenerationSpec =
  tgs_TargetID :: TargetID
  tgs_Generation :: TargetGeneration
  tgs_PolicyDigest :: Digest
  tgs_CapabilityFingerprintDigest :: Digest
  tgs_PreviousGeneration :: TargetGeneration
  tgs_RecoveryIncidentID :: IncidentID
  tgs_CreatedAt :: time

record TargetGenerationModel =
  tgm_spec :: TargetGenerationSpec
  tgm_state :: TargetGenerationState
  tgm_revision :: Revision
  tgm_updatedAt :: time

definition NewTargetGeneration :: "TargetGenerationSpec \<Rightarrow> TargetGenerationModel result" where
  "NewTargetGeneration spec =
     checked
       [requireID ''target_id'' (ID_IsZero (tgs_TargetID spec)),
        fail_if (\<not> TargetGeneration_IsValid (tgs_Generation spec))
          (NewError CodeInvalidArgument ''target_generation.new'' ''generation'' ''must be positive'' None),
        fail_if (Digest_IsZero (tgs_PolicyDigest spec) \<or>
                 Digest_IsZero (tgs_CapabilityFingerprintDigest spec))
          (NewError CodeInvalidArgument ''target_generation.new'' ''provenance_digest''
             ''policy and capability digests must be set'' None),
        (if tgs_Generation spec = InitialTargetGeneration
         then fail_if (tgs_PreviousGeneration spec \<noteq> 0 \<or> \<not> ID_IsZero (tgs_RecoveryIncidentID spec))
           (NewError CodeInvalidArgument ''target_generation.new'' ''previous_generation''
              ''initial generation cannot have recovery provenance'' None)
         else fail_if (tgs_PreviousGeneration spec \<noteq> tgs_Generation spec - 1)
           (NewError CodeInvalidArgument ''target_generation.new'' ''previous_generation''
              ''later generations require the immediately previous generation'' None)),
        requireTime ''created_at'' (tgs_CreatedAt spec)]
       \<lparr>tgm_spec = spec, tgm_state = TargetGenerationProvisioning, tgm_revision = InitialRevision,
        tgm_updatedAt = tgs_CreatedAt spec\<rparr>"

definition TargetGeneration_Transition ::
    "TargetGenerationModel \<Rightarrow> TargetGenerationState \<Rightarrow> Revision \<Rightarrow> time \<Rightarrow> TargetGenerationModel result" where
  "TargetGeneration_Transition g next expected at =
     guarded [RequireTargetGenerationTransition (tgm_state g) next]
       (bind_r (nextModelRevision (tgm_revision g) expected (tgm_updatedAt g) at) (\<lambda>revision.
          Inr (g\<lparr>tgm_state := next, tgm_revision := revision, tgm_updatedAt := at\<rparr>)))"

section \<open>Target runs and target operations\<close>

record TargetRunSpec =
  trs_ID :: TargetRunID
  trs_LeaseID :: LeaseID
  trs_TargetID :: TargetID
  trs_TargetGeneration :: TargetGeneration
  trs_AgentWorkspaceID :: AgentWorkspaceID
  trs_AgentGeneration :: AgentGeneration
  trs_MaterializationDigest :: Digest
  trs_CreatedAt :: time

record TargetRun =
  trm_spec :: TargetRunSpec
  trm_state :: TargetRunState
  trm_revision :: Revision
  trm_updatedAt :: time

definition NewTargetRun :: "TargetRunSpec \<Rightarrow> TargetRun result" where
  "NewTargetRun spec =
     checked
       [requireID ''target_run_id'' (ID_IsZero (trs_ID spec)),
        requireID ''lease_id'' (ID_IsZero (trs_LeaseID spec)),
        requireID ''target_id'' (ID_IsZero (trs_TargetID spec)),
        requireID ''agent_workspace_id'' (ID_IsZero (trs_AgentWorkspaceID spec)),
        fail_if (\<not> TargetGeneration_IsValid (trs_TargetGeneration spec))
          (NewError CodeInvalidArgument ''target_run.new'' ''target_generation'' ''must be positive'' None),
        fail_if (\<not> AgentGeneration_IsValid (trs_AgentGeneration spec))
          (NewError CodeInvalidArgument ''target_run.new'' ''agent_generation'' ''must be positive'' None),
        fail_if (Digest_IsZero (trs_MaterializationDigest spec))
          (NewError CodeInvalidArgument ''target_run.new'' ''materialization_digest'' ''must be set'' None),
        requireTime ''created_at'' (trs_CreatedAt spec)]
       \<lparr>trm_spec = spec, trm_state = TargetRunRequested, trm_revision = InitialRevision,
        trm_updatedAt = trs_CreatedAt spec\<rparr>"

definition TargetRun_Transition :: "TargetRun \<Rightarrow> TargetRunState \<Rightarrow> Revision \<Rightarrow> time \<Rightarrow> TargetRun result" where
  "TargetRun_Transition r next expected at =
     guarded [RequireTargetRunTransition (trm_state r) next]
       (bind_r (nextModelRevision (trm_revision r) expected (trm_updatedAt r) at) (\<lambda>revision.
          Inr (r\<lparr>trm_state := next, trm_revision := revision, trm_updatedAt := at\<rparr>)))"

datatype TargetOperationKind =
    TargetOperationExec | TargetOperationShell | TargetOperationPush | TargetOperationPull
  | TargetOperationADBService | TargetOperationLifecycle | TargetOperationKindOther string

definition TargetOperationKind_IsValid :: "TargetOperationKind \<Rightarrow> bool" where
  "TargetOperationKind_IsValid k \<longleftrightarrow>
     k \<in> {TargetOperationExec, TargetOperationShell, TargetOperationPush, TargetOperationPull,
          TargetOperationADBService, TargetOperationLifecycle}"

record TargetOperationSpec =
  tos_ID :: TargetOperationID
  tos_LeaseID :: LeaseID
  tos_TargetID :: TargetID
  tos_TargetGeneration :: TargetGeneration
  tos_TargetRunID :: TargetRunID
  tos_Kind :: TargetOperationKind
  tos_CommandDisplay :: string
  tos_ContentDigest :: Digest
  tos_CreatedAt :: time

record TargetOperation =
  tom_spec :: TargetOperationSpec
  tom_state :: TargetOperationState
  tom_revision :: Revision
  tom_updatedAt :: time

definition NewTargetOperation :: "TargetOperationSpec \<Rightarrow> TargetOperation result" where
  "NewTargetOperation spec =
     checked
       [requireID ''target_operation_id'' (ID_IsZero (tos_ID spec)),
        requireID ''lease_id'' (ID_IsZero (tos_LeaseID spec)),
        requireID ''target_id'' (ID_IsZero (tos_TargetID spec)),
        requireID ''target_run_id'' (ID_IsZero (tos_TargetRunID spec)),
        fail_if (\<not> TargetGeneration_IsValid (tos_TargetGeneration spec))
          (NewError CodeInvalidArgument ''target_operation.new'' ''target_generation''
             ''must be positive'' None),
        fail_if (\<not> TargetOperationKind_IsValid (tos_Kind spec))
          (NewError CodeInvalidArgument ''target_operation.new'' ''kind'' ''is not recognized'' None),
        fail_if (tos_CommandDisplay spec = [] \<and> Digest_IsZero (tos_ContentDigest spec))
          (NewError CodeInvalidArgument ''target_operation.new'' ''description''
             ''command_display or content_digest must be set'' None),
        requireTime ''created_at'' (tos_CreatedAt spec)]
       \<lparr>tom_spec = spec, tom_state = TargetOperationRequested, tom_revision = InitialRevision,
        tom_updatedAt = tos_CreatedAt spec\<rparr>"

definition TargetOperation_Transition ::
    "TargetOperation \<Rightarrow> TargetOperationState \<Rightarrow> Revision \<Rightarrow> time \<Rightarrow> TargetOperation result" where
  "TargetOperation_Transition o' next expected at =
     guarded [RequireTargetOperationTransition (tom_state o') next]
       (bind_r (nextModelRevision (tom_revision o') expected (tom_updatedAt o') at) (\<lambda>revision.
          Inr (o'\<lparr>tom_state := next, tom_revision := revision, tom_updatedAt := at\<rparr>)))"

section \<open>The contract of the transitions\<close>

text \<open>A history is a sequence of transition calls, each with the revision its caller expects.\<close>

fun transitions ::
    "('m \<Rightarrow> 's \<Rightarrow> Revision \<Rightarrow> time \<Rightarrow> 'm result) \<Rightarrow> 'm \<Rightarrow> ('s \<times> Revision \<times> time) list \<Rightarrow> 'm result" where
  "transitions f m [] = Inr m"
| "transitions f m ((next, expected, at) # calls) =
     bind_r (f m next expected at) (\<lambda>m'. transitions f m' calls)"

locale versioned = lifecycle valid terminal require rank
  for valid terminal :: "'s \<Rightarrow> bool" and require :: "'s \<Rightarrow> 's \<Rightarrow> err" and rank :: "'s \<Rightarrow> nat" +
  fixes state :: "'m \<Rightarrow> 's" and revision_of :: "'m \<Rightarrow> Revision" and updated :: "'m \<Rightarrow> time"
    and moved :: "'m \<Rightarrow> 's \<Rightarrow> Revision \<Rightarrow> time \<Rightarrow> 'm"
    and transition :: "'m \<Rightarrow> 's \<Rightarrow> Revision \<Rightarrow> time \<Rightarrow> 'm result"
  assumes transition_Inr:
      "transition m next expected at = Inr m' \<longleftrightarrow>
        require (state m) next = None \<and> revision_of m = expected \<and> revision_of m \<noteq> 0 \<and>
        revision_of m \<noteq> - 1 \<and> at \<noteq> 0 \<and> updated m \<le> at \<and> m' = moved m next (revision_of m + 1) at"
    and moved [simp]: "state (moved m s r t) = s" "revision_of (moved m s r t) = r"
      "updated (moved m s r t) = t"
begin

lemma transition_step:
  assumes "transition m next expected at = Inr m'"
  shows "unat (revision_of m') = Suc (unat (revision_of m)) \<and> state m' = next \<and>
    updated m \<le> updated m' \<and> rank (state m') < rank (state m)"
  using assms by (auto simp: transition_Inr unat_plus_one rank_decreases)

lemma terminal_rejects: "terminal (state m) \<Longrightarrow> transition m next expected at \<noteq> Inr m'"
  by (simp add: transition_Inr absorbing)

lemma history:
  "transitions transition m calls = Inr m' \<Longrightarrow>
    unat (revision_of m') = unat (revision_of m) + length calls \<and> updated m \<le> updated m' \<and>
    rank (state m') + length calls \<le> rank (state m) \<and>
    (calls \<noteq> [] \<longrightarrow> state m' = fst (last calls))"
proof (induction calls arbitrary: m)
  case Nil
  then show ?case by simp
next
  case (Cons c calls)
  obtain s r t where c: "c = (s, r, t)" by (cases c)
  from Cons.prems c obtain m1 where m1: "transition m s r t = Inr m1"
      and rest: "transitions transition m1 calls = Inr m'"
    by (auto simp: bind_r_Inr)
  from transition_step [OF m1] Cons.IH [OF rest] rest c show ?case by (cases calls) auto
qed

text \<open>Two callers that start from the same revision cannot both succeed in turn.\<close>

lemma stale_caller_rejected:
  assumes "transition m next expected at = Inr m'"
  shows "transition m' next' expected at' \<noteq> Inr m''"
proof
  assume "transition m' next' expected at' = Inr m''"
  then have "revision_of m' = revision_of m" using assms by (simp add: transition_Inr)
  then show False using transition_step [OF assms] by simp
qed

end

lemmas transition_defs =
  ResearchSession_Transition_def Lease_Transition_def AgentWorkspaceGeneration_Transition_def
  Exec_Transition_def TargetGeneration_Transition_def TargetRun_Transition_def
  TargetOperation_Transition_def

interpretation session_model: versioned ResearchSessionState_IsValid ResearchSessionState_Terminal
  RequireResearchSessionTransition ResearchSession_rank rsm_state rsm_revision rsm_updatedAt
  "\<lambda>m s r t. m\<lparr>rsm_state := s, rsm_revision := r, rsm_updatedAt := t\<rparr>" ResearchSession_Transition
  by unfold_locales (auto simp: transition_defs err_simps bind_r_Inr)

interpretation lease_model: versioned LeaseState_IsValid LeaseState_Terminal
  RequireLeaseTransition Lease_rank lem_state lem_revision lem_updatedAt
  "\<lambda>m s r t. m\<lparr>lem_state := s, lem_revision := r, lem_updatedAt := t\<rparr>" Lease_Transition
  by unfold_locales (auto simp: transition_defs err_simps bind_r_Inr)

interpretation agent_generation_model: versioned AgentGenerationState_IsValid
  AgentGenerationState_Terminal RequireAgentGenerationTransition AgentGeneration_rank
  agm_state agm_revision agm_updatedAt
  "\<lambda>m s r t. m\<lparr>agm_state := s, agm_revision := r, agm_updatedAt := t\<rparr>"
  AgentWorkspaceGeneration_Transition
  by unfold_locales (auto simp: transition_defs err_simps bind_r_Inr)

interpretation exec_model: versioned ExecState_IsValid ExecState_Terminal
  RequireExecTransition Exec_rank exm_state exm_revision exm_updatedAt
  "\<lambda>m s r t. m\<lparr>exm_state := s, exm_revision := r, exm_updatedAt := t\<rparr>" Exec_Transition
  by unfold_locales (auto simp: transition_defs err_simps bind_r_Inr)

interpretation target_generation_model: versioned TargetGenerationState_IsValid
  TargetGenerationState_Terminal RequireTargetGenerationTransition TargetGeneration_rank
  tgm_state tgm_revision tgm_updatedAt
  "\<lambda>m s r t. m\<lparr>tgm_state := s, tgm_revision := r, tgm_updatedAt := t\<rparr>" TargetGeneration_Transition
  by unfold_locales (auto simp: transition_defs err_simps bind_r_Inr)

interpretation target_run_model: versioned TargetRunState_IsValid TargetRunState_Terminal
  RequireTargetRunTransition TargetRun_rank trm_state trm_revision trm_updatedAt
  "\<lambda>m s r t. m\<lparr>trm_state := s, trm_revision := r, trm_updatedAt := t\<rparr>" TargetRun_Transition
  by unfold_locales (auto simp: transition_defs err_simps bind_r_Inr)

interpretation target_operation_model: versioned TargetOperationState_IsValid
  TargetOperationState_Terminal RequireTargetOperationTransition TargetOperation_rank
  tom_state tom_revision tom_updatedAt
  "\<lambda>m s r t. m\<lparr>tom_state := s, tom_revision := r, tom_updatedAt := t\<rparr>" TargetOperation_Transition
  by unfold_locales (auto simp: transition_defs err_simps bind_r_Inr)

end
