(* ===== verification/Domain_Evidence.thy ===== *)
theory Domain_Evidence
  imports Domain_Models
begin

text \<open>
  Evidence values of \<open>src/internal/domain/observation.go\<close> and \<open>evidence_models.go\<close>: gaps,
  collector coverage, metric samples, artifact references, cause assessments, incidents and
  captures.  Closed string types are datatypes with one extra constructor for unrecognized text.
\<close>

section \<open>Floating-point values\<close>

text \<open>
  A \<open>float64\<close> is a finite value \<open>m * 2 ^ e\<close>, an infinity or NaN; comparisons with NaN are false
  and NaN is unequal to everything, as in IEEE 754.  The code modelled here only compares.
\<close>

datatype float64 = FFinite int int | FPosInf | FNegInf | FNaN

fun f_less :: "float64 \<Rightarrow> float64 \<Rightarrow> bool" where
  "f_less FNaN _ = False"
| "f_less _ FNaN = False"
| "f_less (FFinite m e) (FFinite n f) = (m * 2 ^ nat (e - min e f) < n * 2 ^ nat (f - min e f))"
| "f_less FNegInf b = (b \<noteq> FNegInf)"
| "f_less a FNegInf = False"
| "f_less FPosInf b = False"
| "f_less (FFinite m e) FPosInf = True"

fun f_eq :: "float64 \<Rightarrow> float64 \<Rightarrow> bool" where
  "f_eq (FFinite m e) (FFinite n f) = (m * 2 ^ nat (e - min e f) = n * 2 ^ nat (f - min e f))"
| "f_eq FPosInf FPosInf = True"
| "f_eq FNegInf FNegInf = True"
| "f_eq _ _ = False"

abbreviation f_of_int :: "int \<Rightarrow> float64" where
  "f_of_int n \<equiv> FFinite n 0"

section \<open>Closed string types\<close>

datatype Sensitivity =
    SensitivityPublic | SensitivityInternal | SensitivityRestricted
  | SensitivitySecret
  | SensitivityOther string

definition Sensitivity_IsValid :: "Sensitivity \<Rightarrow> bool" where
  "Sensitivity_IsValid v \<longleftrightarrow>
     v \<in> {SensitivityPublic, SensitivityInternal, SensitivityRestricted,
          SensitivitySecret}"

datatype CollectorPlacement =
    CollectorPlacementHost | CollectorPlacementObserverNamespace | CollectorPlacementGuest
  | CollectorPlacementInjectedProcess | CollectorPlacementExternal
  | CollectorPlacementOther string

definition CollectorPlacement_IsValid :: "CollectorPlacement \<Rightarrow> bool" where
  "CollectorPlacement_IsValid v \<longleftrightarrow>
     v \<in> {CollectorPlacementHost, CollectorPlacementObserverNamespace, CollectorPlacementGuest,
          CollectorPlacementInjectedProcess, CollectorPlacementExternal}"

datatype CoverageLevel =
    CoverageLevelUnknown | CoverageLevelNone | CoverageLevelPartial
  | CoverageLevelComplete
  | CoverageLevelOther string

definition CoverageLevel_IsValid :: "CoverageLevel \<Rightarrow> bool" where
  "CoverageLevel_IsValid v \<longleftrightarrow>
     v \<in> {CoverageLevelUnknown, CoverageLevelNone, CoverageLevelPartial,
          CoverageLevelComplete}"

datatype CoverageStatus =
    CoverageUnknown | CoverageAvailable | CoverageDegraded
  | CoverageLost | CoverageUnsupported
  | CoverageStatusOther string

definition CoverageStatus_IsValid :: "CoverageStatus \<Rightarrow> bool" where
  "CoverageStatus_IsValid v \<longleftrightarrow>
     v \<in> {CoverageUnknown, CoverageAvailable, CoverageDegraded,
          CoverageLost, CoverageUnsupported}"

datatype GapKind =
    GapDropped | GapOverflow | GapUnavailable
  | GapStale | GapCompacted | GapCollectorRestart
  | GapClockUncertainty | GapLedgerRepair
  | GapKindOther string

definition GapKind_IsValid :: "GapKind \<Rightarrow> bool" where
  "GapKind_IsValid v \<longleftrightarrow>
     v \<in> {GapDropped, GapOverflow, GapUnavailable,
          GapStale, GapCompacted, GapCollectorRestart,
          GapClockUncertainty, GapLedgerRepair}"

datatype MetricKind =
    MetricCounter | MetricGauge | MetricRate
  | MetricKindOther string

definition MetricKind_IsValid :: "MetricKind \<Rightarrow> bool" where
  "MetricKind_IsValid v \<longleftrightarrow>
     v \<in> {MetricCounter, MetricGauge, MetricRate}"

datatype MetricAvailability =
    MetricAvailable | MetricUnsupported | MetricStale
  | MetricLost | MetricUnknown
  | MetricAvailabilityOther string

definition MetricAvailability_IsValid :: "MetricAvailability \<Rightarrow> bool" where
  "MetricAvailability_IsValid v \<longleftrightarrow>
     v \<in> {MetricAvailable, MetricUnsupported, MetricStale,
          MetricLost, MetricUnknown}"

datatype SubjectKind =
    SubjectHost | SubjectLease | SubjectAgentWorkspace
  | SubjectExec | SubjectLinuxTarget | SubjectAndroidRuntime
  | SubjectAndroidGuest | SubjectAndroidApp | SubjectProcess
  | SubjectCollector | SubjectInputView | SubjectNetwork
  | SubjectKindOther string

definition SubjectKind_IsValid :: "SubjectKind \<Rightarrow> bool" where
  "SubjectKind_IsValid v \<longleftrightarrow>
     v \<in> {SubjectHost, SubjectLease, SubjectAgentWorkspace,
          SubjectExec, SubjectLinuxTarget, SubjectAndroidRuntime,
          SubjectAndroidGuest, SubjectAndroidApp, SubjectProcess,
          SubjectCollector, SubjectInputView, SubjectNetwork}"

datatype IncidentClassification =
    IncidentAgentExecFailure | IncidentAgentWorkspaceFailure | IncidentTargetWorkloadExit
  | IncidentLinuxTargetFailure | IncidentEmulatorFailure | IncidentAndroidFailure
  | IncidentDeviceDisconnect | IncidentHostPressure | IncidentResourceEviction
  | IncidentObserverFailure | IncidentWorkspaceIntegrity | IncidentControlPlaneFailure
  | IncidentClassificationOther string

definition IncidentClassification_IsValid :: "IncidentClassification \<Rightarrow> bool" where
  "IncidentClassification_IsValid v \<longleftrightarrow>
     v \<in> {IncidentAgentExecFailure, IncidentAgentWorkspaceFailure, IncidentTargetWorkloadExit,
          IncidentLinuxTargetFailure, IncidentEmulatorFailure, IncidentAndroidFailure,
          IncidentDeviceDisconnect, IncidentHostPressure, IncidentResourceEviction,
          IncidentObserverFailure, IncidentWorkspaceIntegrity, IncidentControlPlaneFailure}"

datatype CauseKind =
    CauseProven | CauseCorrelated | CauseUnknown
  | CauseKindOther string

definition CauseKind_IsValid :: "CauseKind \<Rightarrow> bool" where
  "CauseKind_IsValid v \<longleftrightarrow>
     v \<in> {CauseProven, CauseCorrelated, CauseUnknown}"

datatype CaptureKind =
    CapturePacket | CaptureTrace | CaptureLog
  | CaptureProfile | CaptureFilesystem | CaptureScreenshot
  | CaptureScreenRecording
  | CaptureKindOther string

definition CaptureKind_IsValid :: "CaptureKind \<Rightarrow> bool" where
  "CaptureKind_IsValid v \<longleftrightarrow>
     v \<in> {CapturePacket, CaptureTrace, CaptureLog,
          CaptureProfile, CaptureFilesystem, CaptureScreenshot,
          CaptureScreenRecording}"

section \<open>Gaps, coverage, metrics and artifacts\<close>

record GapSpec =
  gap_Kind :: GapKind
  gap_Source :: string
  gap_SourceInstance :: string
  gap_FirstSourceSequence :: uint64
  gap_LastSourceSequence :: uint64
  gap_FirstCursor :: ObservationCursor
  gap_LastCursor :: ObservationCursor
  gap_StartedAt :: time
  gap_EndedAt :: time
  gap_LostRecords :: uint64
  gap_Reason :: string

datatype Gap = Gap (gap_spec: GapSpec)

definition NewGap :: "GapSpec \<Rightarrow> Gap result" where
  "NewGap spec =
     checked
       [fail_if (\<not> GapKind_IsValid (gap_Kind spec))
          (NewError CodeInvalidArgument ''gap.new'' ''kind'' ''is not recognized'' None),
        requireNonBlank ''source'' (gap_Source spec),
        requireNonBlank ''reason'' (gap_Reason spec),
        fail_if (gap_LastSourceSequence spec > 0 \<and>
                 gap_LastSourceSequence spec < gap_FirstSourceSequence spec)
          (NewError CodeInvalidArgument ''gap.new'' ''last_source_sequence''
             ''must not precede first_source_sequence'' None),
        fail_if (gap_LastCursor spec > 0 \<and> gap_LastCursor spec < gap_FirstCursor spec)
          (NewError CodeInvalidArgument ''gap.new'' ''last_cursor''
             ''must not precede first_cursor'' None),
        fail_if ((gap_StartedAt spec = zero_time) \<noteq> (gap_EndedAt spec = zero_time))
          (NewError CodeInvalidArgument ''gap.new'' ''time_range''
             ''must provide both start and end or neither'' None),
        fail_if (gap_StartedAt spec \<noteq> zero_time \<and> gap_EndedAt spec < gap_StartedAt spec)
          (NewError CodeInvalidArgument ''gap.new'' ''ended_at''
             ''must not precede started_at'' None)]
       (Gap spec)"

record CollectorCoverageSpec =
  cov_CollectorID :: CollectorID
  cov_SignalFamily :: string
  cov_Placement :: CollectorPlacement
  cov_Level :: CoverageLevel
  cov_Status :: CoverageStatus
  cov_Required :: bool
  cov_StartedAt :: time
  cov_EndedAt :: time
  cov_DroppedRecords :: uint64
  cov_Gaps :: "Gap list"

datatype CollectorCoverage = CollectorCoverage (cov_spec: CollectorCoverageSpec)

definition NewCollectorCoverage :: "CollectorCoverageSpec \<Rightarrow> CollectorCoverage result" where
  "NewCollectorCoverage spec =
     checked
       [fail_if (ID_IsZero (cov_CollectorID spec))
          (NewError CodeInvalidID ''coverage.new'' ''collector_id'' ''must be set'' None),
        requireNonBlank ''signal_family'' (cov_SignalFamily spec),
        fail_if (\<not> CollectorPlacement_IsValid (cov_Placement spec))
          (NewError CodeInvalidArgument ''coverage.new'' ''placement'' ''is not recognized'' None),
        fail_if (\<not> CoverageLevel_IsValid (cov_Level spec))
          (NewError CodeInvalidArgument ''coverage.new'' ''level'' ''is not recognized'' None),
        fail_if (\<not> CoverageStatus_IsValid (cov_Status spec))
          (NewError CodeInvalidArgument ''coverage.new'' ''status'' ''is not recognized'' None),
        fail_if ((cov_StartedAt spec = zero_time) \<noteq> (cov_EndedAt spec = zero_time))
          (NewError CodeInvalidArgument ''coverage.new'' ''time_range''
             ''must provide both start and end or neither'' None),
        fail_if (cov_StartedAt spec \<noteq> zero_time \<and> cov_EndedAt spec < cov_StartedAt spec)
          (NewError CodeInvalidArgument ''coverage.new'' ''ended_at''
             ''must not precede started_at'' None),
        fail_if (cov_Status spec = CoverageUnsupported \<and> cov_Level spec \<noteq> CoverageLevelNone)
          (NewError CodeInvalidArgument ''coverage.new'' ''level''
             ''unsupported coverage must have level none'' None),
        fail_if (cov_Level spec = CoverageLevelComplete \<and>
                 (cov_DroppedRecords spec > 0 \<or> cov_Gaps spec \<noteq> [] \<or>
                  cov_Status spec \<noteq> CoverageAvailable))
          (NewError CodeInvalidArgument ''coverage.new'' ''level''
             ''complete coverage cannot contain drops, gaps, or non-available status'' None)]
       (CollectorCoverage spec)"

text \<open>
  The string-map check of \<open>capability.go\<close>; Go ranges over a map in an unspecified order, here in
  the order of the association list, which only selects among errors.
\<close>

definition validateStringMap :: "string \<Rightarrow> string \<Rightarrow> string table \<Rightarrow> err" where
  "validateStringMap op field values =
     first_err (concat (map (\<lambda>(key, value).
       [fail_if (blank key)
          (NewError CodeInvalidArgument op field ''contains a blank key''
             (requireNonBlank (field @ ''.key'') key)),
        fail_if (blank value)
          (NewError CodeInvalidArgument op field ''contains a blank value''
             (requireNonBlank (field @ ''['' @ key @ '']'') value))]) values))"

record MetricSampleSpec =
  met_SubjectID :: SubjectID
  met_SubjectKind :: SubjectKind
  met_Name :: string
  met_Unit :: string
  met_Kind :: MetricKind
  met_Availability :: MetricAvailability
  met_CounterValue :: "uint64 option"
  met_NumericValue :: "float64 option"
  met_CollectedAt :: time
  met_PublishedAt :: time
  met_Cursor :: ObservationCursor
  met_Labels :: "string table"
  met_ExecID :: ExecID
  met_TargetRunID :: TargetRunID

datatype MetricSample = MetricSample (met_spec: MetricSampleSpec)

definition metric_value_check :: "MetricSampleSpec \<Rightarrow> err" where
  "metric_value_check spec =
    (if met_Availability spec = MetricAvailable then
       (if met_Kind spec = MetricCounter then
          fail_if (met_CounterValue spec = None \<or> met_NumericValue spec \<noteq> None)
            (NewError CodeInvalidArgument ''metric.new'' ''value''
               ''available counters require only counter_value'' None)
        else (case met_NumericValue spec of
            None \<Rightarrow> Some (NewError CodeInvalidArgument ''metric.new'' ''value''
               ''available gauges and rates require only numeric_value'' None)
          | Some x \<Rightarrow> first_err
              [fail_if (met_CounterValue spec \<noteq> None)
                 (NewError CodeInvalidArgument ''metric.new'' ''value''
                    ''available gauges and rates require only numeric_value'' None),
               fail_if (x = FNaN \<or> x = FPosInf \<or> x = FNegInf)
                 (NewError CodeInvalidArgument ''metric.new'' ''numeric_value'' ''must be finite'' None)]))
     else fail_if (met_CounterValue spec \<noteq> None \<or> met_NumericValue spec \<noteq> None)
       (NewError CodeInvalidArgument ''metric.new'' ''value''
          ''unavailable metrics must not carry a numeric value'' None))"

definition NewMetricSample :: "MetricSampleSpec \<Rightarrow> MetricSample result" where
  "NewMetricSample spec =
     checked
       [fail_if (ID_IsZero (met_SubjectID spec))
          (NewError CodeInvalidID ''metric.new'' ''subject_id'' ''must be set'' None),
        fail_if (\<not> SubjectKind_IsValid (met_SubjectKind spec))
          (NewError CodeInvalidArgument ''metric.new'' ''subject_kind'' ''is not recognized'' None),
        requireNonBlank ''name'' (met_Name spec),
        requireNonBlank ''unit'' (met_Unit spec),
        fail_if (\<not> MetricKind_IsValid (met_Kind spec))
          (NewError CodeInvalidArgument ''metric.new'' ''kind'' ''is not recognized'' None),
        fail_if (\<not> MetricAvailability_IsValid (met_Availability spec))
          (NewError CodeInvalidArgument ''metric.new'' ''availability'' ''is not recognized'' None),
        requireOrderedTimes ''collected_at'' (met_CollectedAt spec) ''published_at'' (met_PublishedAt spec),
        validateStringMap ''metric.new'' ''labels'' (met_Labels spec),
        metric_value_check spec]
       (MetricSample spec)"

record ArtifactReferenceSpec =
  art_Reference :: string
  art_Digest :: Digest
  art_Size :: int
  art_Role :: string
  art_Sensitivity :: Sensitivity

datatype ArtifactReference = ArtifactReference (art_spec: ArtifactReferenceSpec)

definition NewArtifactReference :: "ArtifactReferenceSpec \<Rightarrow> ArtifactReference result" where
  "NewArtifactReference spec =
     checked
       [requireNonBlank ''reference'' (art_Reference spec),
        fail_if (Digest_IsZero (art_Digest spec))
          (NewError CodeInvalidArgument ''artifact_reference.new'' ''digest'' ''must be set'' None),
        requireNonNegative ''size'' (art_Size spec),
        requireNonBlank ''role'' (art_Role spec),
        fail_if (\<not> Sensitivity_IsValid (art_Sensitivity spec))
          (NewError CodeInvalidArgument ''artifact_reference.new'' ''sensitivity''
             ''is not recognized'' None)]
       (ArtifactReference spec)"

section \<open>Causes and incidents\<close>

record CauseAssessmentSpec =
  cau_Kind :: CauseKind
  cau_Summary :: string
  cau_Method :: string
  cau_Confidence :: float64

datatype CauseAssessment = CauseAssessment (cau_spec: CauseAssessmentSpec)

definition NewCauseAssessment :: "CauseAssessmentSpec \<Rightarrow> CauseAssessment result" where
  "NewCauseAssessment spec =
     checked
       [fail_if (\<not> CauseKind_IsValid (cau_Kind spec))
          (NewError CodeInvalidArgument ''cause.new'' ''kind'' ''is not recognized'' None),
        requireNonBlank ''summary'' (cau_Summary spec),
        fail_if (f_less (cau_Confidence spec) (f_of_int 0) \<or> f_less (f_of_int 1) (cau_Confidence spec))
          (NewError CodeInvalidArgument ''cause.new'' ''confidence'' ''must be between 0 and 1'' None),
        (if cau_Kind spec = CauseCorrelated then requireNonBlank ''method'' (cau_Method spec)
         else fail_if (cau_Method spec \<noteq> [])
           (NewError CodeInvalidArgument ''cause.new'' ''method''
              ''is valid only for correlated causes'' None)),
        fail_if (cau_Kind spec = CauseProven \<and> \<not> f_eq (cau_Confidence spec) (f_of_int 1))
          (NewError CodeInvalidArgument ''cause.new'' ''confidence''
             ''proven causes must have confidence 1'' None)]
       (CauseAssessment spec)"

record IncidentSpec =
  ins_ID :: IncidentID
  ins_Classification :: IncidentClassification
  ins_ResearchSessionID :: ResearchSessionID
  ins_LeaseID :: LeaseID
  ins_AgentWorkspaceID :: AgentWorkspaceID
  ins_AgentGeneration :: AgentGeneration
  ins_ExecID :: ExecID
  ins_TargetID :: TargetID
  ins_TargetGeneration :: TargetGeneration
  ins_TargetRunID :: TargetRunID
  ins_Trigger :: string
  ins_LastKnownState :: string
  ins_Cause :: CauseAssessment
  ins_HighWaterMetrics :: "MetricSample list"
  ins_FirstRelevantCursor :: ObservationCursor
  ins_LastRelevantCursor :: ObservationCursor
  ins_Coverage :: "CollectorCoverage list"
  ins_ObservationBundleID :: ObservationBundleID
  ins_Artifacts :: "ArtifactReference list"
  ins_RecoveryActions :: "string list"
  ins_VisibilityAcknowledgements :: "string list"
  ins_OccurredAt :: time

record Incident =
  inm_spec :: IncidentSpec
  inm_state :: IncidentState
  inm_revision :: Revision
  inm_updatedAt :: time

text \<open>A check per element, with the element's position in the field name.\<close>

definition each_indexed :: "string \<Rightarrow> (string \<Rightarrow> 'a \<Rightarrow> err) \<Rightarrow> 'a list \<Rightarrow> err" where
  "each_indexed field check xs =
     first_err (map (\<lambda>(i, x). check (field @ ''['' @ decimal i @ '']'') x) (enumerate 0 xs))"

definition validateConstructedEvidence ::
    "MetricSample list \<Rightarrow> CollectorCoverage list \<Rightarrow> ArtifactReference list \<Rightarrow> err" where
  "validateConstructedEvidence metrics coverage artifacts =
    (let bad = (\<lambda>field. NewError CodeInvalidArgument ''evidence.validate'' field
                  ''must be constructed and valid'' None)
     in first_err
       [each_indexed ''metrics'' (\<lambda>field m. fail_if (met_Name (met_spec m) = []) (bad field)) metrics,
        each_indexed ''coverage''
          (\<lambda>field c. fail_if (ID_IsZero (cov_CollectorID (cov_spec c))) (bad field)) coverage,
        each_indexed ''artifacts''
          (\<lambda>field a. fail_if (art_Reference (art_spec a) = [] \<or> Digest_IsZero (art_Digest (art_spec a)))
             (bad field)) artifacts])"

definition NewIncident :: "IncidentSpec \<Rightarrow> Incident result" where
  "NewIncident spec =
     checked
       [requireID ''incident_id'' (ID_IsZero (ins_ID spec)),
        fail_if (\<not> IncidentClassification_IsValid (ins_Classification spec))
          (NewError CodeInvalidArgument ''incident.new'' ''classification'' ''is not recognized'' None),
        requireID ''research_session_id'' (ID_IsZero (ins_ResearchSessionID spec)),
        requireNonBlank ''trigger'' (ins_Trigger spec),
        requireNonBlank ''last_known_state'' (ins_LastKnownState spec),
        fail_if (\<not> CauseKind_IsValid (cau_Kind (cau_spec (ins_Cause spec))))
          (NewError CodeInvalidArgument ''incident.new'' ''cause'' ''must be initialized'' None),
        requireTime ''occurred_at'' (ins_OccurredAt spec),
        fail_if (\<not> ID_IsZero (ins_ExecID spec) \<and>
                 (ID_IsZero (ins_AgentWorkspaceID spec) \<or>
                  \<not> AgentGeneration_IsValid (ins_AgentGeneration spec)))
          (NewError CodeInvalidArgument ''incident.new'' ''exec_id''
             ''requires agent workspace and generation'' None),
        fail_if (ins_AgentGeneration spec > 0 \<and> ID_IsZero (ins_AgentWorkspaceID spec))
          (NewError CodeInvalidArgument ''incident.new'' ''agent_generation''
             ''requires agent_workspace_id'' None),
        fail_if (ins_TargetGeneration spec > 0 \<and> ID_IsZero (ins_TargetID spec))
          (NewError CodeInvalidArgument ''incident.new'' ''target_generation'' ''requires target_id'' None),
        fail_if (\<not> ID_IsZero (ins_TargetRunID spec) \<and>
                 (ID_IsZero (ins_TargetID spec) \<or>
                  \<not> TargetGeneration_IsValid (ins_TargetGeneration spec)))
          (NewError CodeInvalidArgument ''incident.new'' ''target_run_id''
             ''requires target and target generation'' None),
        fail_if (ins_LastRelevantCursor spec > 0 \<and>
                 ins_LastRelevantCursor spec < ins_FirstRelevantCursor spec)
          (NewError CodeInvalidArgument ''incident.new'' ''last_relevant_cursor''
             ''must not precede first_relevant_cursor'' None),
        validateConstructedEvidence (ins_HighWaterMetrics spec) (ins_Coverage spec) (ins_Artifacts spec),
        err_of (uniqueNonBlank (ins_RecoveryActions spec) ''recovery_actions''),
        err_of (uniqueNonBlank (ins_VisibilityAcknowledgements spec) ''visibility_acknowledgements'')]
       \<lparr>inm_spec = spec, inm_state = IncidentOpen, inm_revision = InitialRevision,
        inm_updatedAt = ins_OccurredAt spec\<rparr>"

definition Incident_Transition :: "Incident \<Rightarrow> IncidentState \<Rightarrow> Revision \<Rightarrow> time \<Rightarrow> Incident result" where
  "Incident_Transition i next expected at =
     guarded [RequireIncidentTransition (inm_state i) next]
       (bind_r (nextModelRevision (inm_revision i) expected (inm_updatedAt i) at) (\<lambda>revision.
          Inr (i\<lparr>inm_state := next, inm_revision := revision, inm_updatedAt := at\<rparr>)))"

section \<open>Captures\<close>

record CaptureSpec =
  cas_ID :: CaptureID
  cas_LeaseID :: LeaseID
  cas_TargetRunID :: TargetRunID
  cas_NamedProfile :: string
  cas_Kind :: CaptureKind
  cas_Sensitivity :: Sensitivity
  cas_MaximumDuration :: duration
  cas_MaximumBytes :: int
  cas_PolicyDigest :: Digest
  cas_RequestedAt :: time

record Capture =
  cam_spec :: CaptureSpec
  cam_state :: CaptureState
  cam_revision :: Revision
  cam_updatedAt :: time
  cam_artifacts :: "ArtifactReference list"

definition NewCapture :: "CaptureSpec \<Rightarrow> Capture result" where
  "NewCapture spec =
     checked
       [requireID ''capture_id'' (ID_IsZero (cas_ID spec)),
        requireID ''lease_id'' (ID_IsZero (cas_LeaseID spec)),
        requireNonBlank ''named_profile'' (cas_NamedProfile spec),
        fail_if (\<not> CaptureKind_IsValid (cas_Kind spec))
          (NewError CodeInvalidArgument ''capture.new'' ''kind'' ''is not recognized'' None),
        fail_if (\<not> Sensitivity_IsValid (cas_Sensitivity spec))
          (NewError CodeInvalidArgument ''capture.new'' ''sensitivity'' ''is not recognized'' None),
        fail_if (cas_MaximumDuration spec \<le> 0)
          (NewError CodeInvalidArgument ''capture.new'' ''maximum_duration'' ''must be positive'' None),
        fail_if (cas_MaximumBytes spec \<le> 0)
          (NewError CodeInvalidArgument ''capture.new'' ''maximum_bytes'' ''must be positive'' None),
        fail_if (Digest_IsZero (cas_PolicyDigest spec))
          (NewError CodeInvalidArgument ''capture.new'' ''policy_digest'' ''must be set'' None),
        requireTime ''requested_at'' (cas_RequestedAt spec)]
       \<lparr>cam_spec = spec, cam_state = CaptureRequested, cam_revision = InitialRevision,
        cam_updatedAt = cas_RequestedAt spec, cam_artifacts = []\<rparr>"

definition Capture_Transition :: "Capture \<Rightarrow> CaptureState \<Rightarrow> Revision \<Rightarrow> time \<Rightarrow> Capture result" where
  "Capture_Transition c next expected at =
     guarded [RequireCaptureTransition (cam_state c) next]
       (bind_r (nextModelRevision (cam_revision c) expected (cam_updatedAt c) at) (\<lambda>revision.
          Inr (c\<lparr>cam_state := next, cam_revision := revision, cam_updatedAt := at\<rparr>)))"

definition Capture_Complete :: "Capture \<Rightarrow> ArtifactReference list \<Rightarrow> Revision \<Rightarrow> time \<Rightarrow> Capture result" where
  "Capture_Complete c artifacts expected at =
     guarded
       [fail_if (cam_state c \<noteq> CaptureFinalizing)
          (NewError CodeFailedPrecondition ''capture.complete'' ''state'' ''must be finalizing'' None),
        fail_if (artifacts = [])
          (NewError CodeInvalidArgument ''capture.complete'' ''artifacts'' ''must not be empty'' None),
        validateConstructedEvidence [] [] artifacts]
       (bind_r (nextModelRevision (cam_revision c) expected (cam_updatedAt c) at) (\<lambda>revision.
          Inr (c\<lparr>cam_artifacts := artifacts, cam_state := CaptureCompleted, cam_revision := revision,
                 cam_updatedAt := at\<rparr>)))"

section \<open>Contracts\<close>

interpretation incident_model: versioned IncidentState_IsValid IncidentState_Terminal
  RequireIncidentTransition Incident_rank inm_state inm_revision inm_updatedAt
  "\<lambda>m s r t. m\<lparr>inm_state := s, inm_revision := r, inm_updatedAt := t\<rparr>" Incident_Transition
  by unfold_locales (auto simp: Incident_Transition_def err_simps bind_r_Inr)

interpretation capture_model: versioned CaptureState_IsValid CaptureState_Terminal
  RequireCaptureTransition Capture_rank cam_state cam_revision cam_updatedAt
  "\<lambda>m s r t. m\<lparr>cam_state := s, cam_revision := r, cam_updatedAt := t\<rparr>" Capture_Transition
  by unfold_locales (auto simp: Capture_Transition_def err_simps bind_r_Inr)

text \<open>
  \<open>Complete\<close> writes the state directly; it is nevertheless a permitted transition of the machine,
  with evidence attached.
\<close>

lemma Capture_Complete_is_transition:
  assumes "Capture_Complete c artifacts expected at = Inr c'"
  shows "\<exists>d. Capture_Transition c CaptureCompleted expected at = Inr d \<and>
     c' = d\<lparr>cam_artifacts := artifacts\<rparr> \<and> artifacts \<noteq> []"
  using assms
  by (auto simp: Capture_Complete_def Capture_Transition_def err_simps bind_r_Inr
      RequireCaptureTransition_None)

end
