(* ===== verification/Store.thy ===== *)
theory Store
  imports Domain_Values
begin

text \<open>
  The control-plane store of \<open>src/internal/store/store.go\<close> and \<open>objects.go\<close>: the hash-chained
  journal of control records, the idempotency table, snapshots, policies, named objects and
  segment indexes.  SQLite is modelled by the contents of its tables; a transaction is a state
  that is either installed or dropped.  Payloads are of an arbitrary type \<open>'p\<close> with the byte
  encoding \<open>enc\<close> that enters the hash; responses are of an arbitrary type \<open>'r\<close>.

  The lemmas show that appending keeps the hash chain and the contiguity of revisions, that a
  verified journal is tamper evident, and that a mutation takes effect at most once per key.
\<close>

section \<open>State\<close>

record 'p ControlRecord =
  cr_Sequence :: int
  cr_AggregateKind :: string
  cr_AggregateID :: string
  cr_Revision :: uint64
  cr_Kind :: string
  cr_Payload :: 'p
  cr_AcceptedAt :: time
  cr_PreviousHash :: bytes
  cr_Hash :: bytes

record 'r idempotency_row =
  idem_request_hash :: bytes
  idem_response :: 'r
  idem_created_at :: int

record 'p snapshot_row =
  snap_revision :: uint64
  snap_payload :: 'p
  snap_updated_at :: int

record SegmentIndex =
  seg_FirstCursor :: uint64
  seg_LastCursor :: uint64
  seg_Path :: string
  seg_Digest :: string
  seg_Finalized :: bool
  seg_ArtifactRef :: string

record ('p, 'r) Store =
  control_records :: "'p ControlRecord list"
  idempotency :: "((string \<times> string) \<times> 'r idempotency_row) list"
  snapshots :: "((string \<times> string) \<times> 'p snapshot_row) list"
  policies :: "bytes table"
  named_objects :: "((string \<times> string) \<times> bytes) list"
  segment_indexes :: "SegmentIndex table"

text \<open>
  The surroundings of a call: the hash function, the payload encoding, the injected faults by
  point name, the failures of SQL statements by a label that identifies the statement, and the
  reading of the store's clock.
\<close>

record 'p store_env =
  se_sha :: "bytes \<Rightarrow> bytes"
  se_enc :: "'p \<Rightarrow> bytes"
  se_fault :: "string \<Rightarrow> err"
  se_db :: "string list \<Rightarrow> err"
  se_now :: time

definition emptyStore :: "('p, 'r) Store" where
  "emptyStore = \<lparr>control_records = [], idempotency = [], snapshots = [], policies = [],
     named_objects = [], segment_indexes = []\<rparr>"

definition zero_hash :: bytes where
  "zero_hash = replicate 32 (CHR 0x00)"

section \<open>The hash chain\<close>

definition writeHashBytes :: "bytes \<Rightarrow> bytes" where
  "writeHashBytes value = be64 (of_nat (length value)) @ value"

text \<open>The bytes written to the hash, in the order of the writes.\<close>

definition controlPreimage :: "('p \<Rightarrow> bytes) \<Rightarrow> 'p ControlRecord \<Rightarrow> bytes" where
  "controlPreimage enc record =
     ''world-control-record-v1'' @ [CHR 0x00] @ cr_PreviousHash record @
     writeHashBytes (cr_AggregateKind record) @ writeHashBytes (cr_AggregateID record) @
     be64 (cr_Revision record) @ be64 (of_int (unixNano (cr_AcceptedAt record))) @
     writeHashBytes (cr_Kind record) @ writeHashBytes (enc (cr_Payload record))"

definition hashControl :: "(bytes \<Rightarrow> bytes) \<Rightarrow> ('p \<Rightarrow> bytes) \<Rightarrow> 'p ControlRecord \<Rightarrow> bytes" where
  "hashControl sha enc record = sha (controlPreimage enc record)"

definition aggregate_of :: "'p ControlRecord \<Rightarrow> string \<times> string" where
  "aggregate_of r = (cr_AggregateKind r, cr_AggregateID r)"

text \<open>\<open>SELECT revision ... ORDER BY revision DESC LIMIT 1\<close>, 0 when there is no row.\<close>

definition latest_revision :: "'p ControlRecord list \<Rightarrow> string \<times> string \<Rightarrow> uint64" where
  "latest_revision rs a = fold max (map cr_Revision (filter (\<lambda>r. aggregate_of r = a) rs)) 0"

definition last_hash :: "'p ControlRecord list \<Rightarrow> bytes" where
  "last_hash rs = (if rs = [] then zero_hash else cr_Hash (last rs))"

definition last_sequence :: "'p ControlRecord list \<Rightarrow> int" where
  "last_sequence rs = (if rs = [] then 0 else cr_Sequence (last rs))"

text \<open>
  A revision of \<open>2 ^ 63\<close> or more does not fit the column of the table; that the driver refuses it is an outcome
  of the insert statement, whose name in \<open>se_db\<close> includes the revision.
\<close>

definition AppendControl ::
    "'p store_env \<Rightarrow> 'p ControlRecord \<Rightarrow> ('p, 'r) Store \<Rightarrow> (('p, 'r) Store \<times> 'p ControlRecord) result" where
  "AppendControl env record s =
    (let a = aggregate_of record;
         latest = latest_revision (control_records s) a;
         stored = record\<lparr>cr_PreviousHash := last_hash (control_records s),
                         cr_AcceptedAt := (if cr_AcceptedAt record = zero_time then se_now env
                                           else cr_AcceptedAt record)\<rparr>;
         stored = stored\<lparr>cr_Hash := hashControl (se_sha env) (se_enc env) stored\<rparr>;
         stored = stored\<lparr>cr_Sequence := last_sequence (control_records s) + 1\<rparr>;
         label = [fst a, snd a, uintString (cr_Revision record)]
     in checked
          [fail_if (cr_AggregateKind record = [] \<or> cr_AggregateID record = [] \<or> cr_Kind record = [] \<or>
                    cr_Revision record = 0 \<or> se_enc env (cr_Payload record) = [])
             (Errorf ''complete control record is required''),
           se_db env (''select latest revision'' # label),
           fail_if (cr_Revision record \<noteq> latest + 1)
             (Wrapped (''got '' @ uintString (cr_Revision record) @ '', want '' @ uintString (latest + 1))
                ErrRevisionConflict),
           se_db env (''select last hash'' # label),
           se_db env (''insert control record'' # label)]
          (s\<lparr>control_records := control_records s @ [stored]\<rparr>, stored))"

text \<open>An upsert that only moves a snapshot forward.\<close>

definition PutSnapshot ::
    "'p store_env \<Rightarrow> string \<Rightarrow> string \<Rightarrow> uint64 \<Rightarrow> 'p \<Rightarrow> ('p, 'r) Store \<Rightarrow> ('p, 'r) Store result" where
  "PutSnapshot env kind i revision payload s =
    (let row = \<lparr>snap_revision = revision, snap_payload = payload,
                snap_updated_at = unixNano (se_now env)\<rparr>;
         table = (case map_of (snapshots s) (kind, i) of
             None \<Rightarrow> AList.update (kind, i) row (snapshots s)
           | Some old \<Rightarrow> if snap_revision old < revision
               then AList.update (kind, i) row (snapshots s) else snapshots s)
     in checked
          [fail_if (kind = [] \<or> i = [] \<or> revision = 0 \<or> se_enc env payload = [])
             (Errorf ''complete snapshot is required''),
           se_db env [''upsert snapshot'', kind, i, uintString revision]]
          (s\<lparr>snapshots := table\<rparr>))"

definition Snapshot :: "'p store_env \<Rightarrow> ('p, 'r) Store \<Rightarrow> string \<Rightarrow> string \<Rightarrow> (uint64 \<times> 'p) result" where
  "Snapshot env s kind i =
    (case se_db env [''select snapshot'', kind, i] of
       Some e \<Rightarrow> Inl e
     | None \<Rightarrow> (case map_of (snapshots s) (kind, i) of
         None \<Rightarrow> Inl (Sentinel StoreErrNotFound)
       | Some row \<Rightarrow> Inr (snap_revision row, snap_payload row)))"

definition Records ::
    "'p store_env \<Rightarrow> ('p, 'r) Store \<Rightarrow> int \<Rightarrow> int \<Rightarrow> 'p ControlRecord list result" where
  "Records env s after limit =
    (let rows = take (nat limit) (filter (\<lambda>r. cr_Sequence r > after) (control_records s))
     in checked
          [fail_if (after < 0 \<or> limit \<le> 0 \<or> limit > 10000) (Errorf ''invalid record window''),
           se_db env [''select records''],
           fail_if (\<exists>r \<in> set rows. length (cr_PreviousHash r) \<noteq> 32 \<or> length (cr_Hash r) \<noteq> 32)
             (Sentinel StoreErrIntegrity)]
          rows)"

fun verify_from ::
    "(bytes \<Rightarrow> bytes) \<Rightarrow> ('p \<Rightarrow> bytes) \<Rightarrow> bytes \<Rightarrow> 'p ControlRecord list \<Rightarrow> err" where
  "verify_from sha enc expectedPrevious [] = None"
| "verify_from sha enc expectedPrevious (record # rs) =
     first_err
       [fail_if (length (cr_PreviousHash record) \<noteq> 32 \<or> length (cr_Hash record) \<noteq> 32)
          (Wrapped ''invalid hash length'' (Sentinel StoreErrIntegrity)),
        fail_if (cr_PreviousHash record \<noteq> expectedPrevious \<or>
                 hashControl sha enc record \<noteq> cr_Hash record)
          (Wrapped ''at sequence'' (Sentinel StoreErrIntegrity)),
        verify_from sha enc (cr_Hash record) rs]"

definition Verify :: "'p store_env \<Rightarrow> ('p, 'r) Store \<Rightarrow> err" where
  "Verify env s =
     first_err [se_db env [''select all records''],
                verify_from (se_sha env) (se_enc env) zero_hash (control_records s)]"

section \<open>Idempotent mutations\<close>

text \<open>
  A handler runs inside the transaction: it maps the state the transaction sees to the state it
  leaves and a response, or fails.  \<open>None\<close> as a response is Go's \<open>nil\<close>.
\<close>

type_synonym ('p, 'r) handler = "('p, 'r) Store \<Rightarrow> (('p, 'r) Store \<times> 'r option) result"

definition RunIdempotent ::
    "'p store_env \<Rightarrow> string \<Rightarrow> string \<Rightarrow> bytes \<Rightarrow> ('p, 'r) handler \<Rightarrow> ('p, 'r) Store \<Rightarrow>
      ('p, 'r) Store \<times> ('r \<times> bool) result" where
  "RunIdempotent env namespace key request handler s =
    (case first_err
        [fail_if (namespace = [] \<or> key = [] \<or> request = [])
           (Errorf ''namespace, key, request, and handler are required''),
         se_fault env ''store.before_begin'',
         se_db env [''begin''],
         se_fault env ''store.after_begin'',
         se_db env [''select idempotency'', namespace, key]] of
       Some e \<Rightarrow> (s, Inl e)
     | None \<Rightarrow>
       (let requestHash = se_sha env request in
        case map_of (idempotency s) (namespace, key) of
          Some row \<Rightarrow>
            if idem_request_hash row \<noteq> requestHash then (s, Inl ErrIdempotencyConflict)
            else (case se_db env [''commit''] of
                Some e \<Rightarrow> (s, Inl e)
              | None \<Rightarrow> (s, Inr (idem_response row, True)))
        | None \<Rightarrow>
            (case bind_r (checked [se_fault env ''store.before_handler''] s) handler of
               Inl e \<Rightarrow> (s, Inl e)
             | Inr (s', None) \<Rightarrow> (s, Inl (Errorf ''idempotent handler returned a nil response''))
             | Inr (s', Some response) \<Rightarrow>
                 (case first_err
                     [se_fault env ''store.before_idempotency_insert'',
                      se_db env [''insert idempotency'', namespace, key],
                      se_fault env ''store.before_commit'',
                      se_db env [''commit'']] of
                    Some e \<Rightarrow> (s, Inl e)
                  | None \<Rightarrow>
                      (let row = \<lparr>idem_request_hash = requestHash, idem_response = response,
                                  idem_created_at = unixNano (se_now env)\<rparr>;
                           committed = s'\<lparr>idempotency :=
                             AList.update (namespace, key) row (idempotency s')\<rparr>
                       in (case se_fault env ''store.after_commit'' of
                             Some e \<Rightarrow> (committed, Inl e)
                           | None \<Rightarrow> (committed, Inr (response, False))))))))"

section \<open>Named objects\<close>

definition PutPolicy :: "'p store_env \<Rightarrow> string \<Rightarrow> bytes \<Rightarrow> ('p, 'r) Store \<Rightarrow> ('p, 'r) Store result" where
  "PutPolicy env digest canonicalJSON s =
     guarded
       [fail_if (digest = [] \<or> canonicalJSON = []) (Errorf ''policy digest and document are required''),
        se_db env [''upsert policy'', digest]]
       (case tbl_get (policies s) digest of
          None \<Rightarrow> Inr (s\<lparr>policies := tbl_put digest canonicalJSON (policies s)\<rparr>)
        | Some stored \<Rightarrow> if stored = canonicalJSON then Inr s else Inl (Sentinel StoreErrPolicyConflict))"

definition Policy :: "'p store_env \<Rightarrow> ('p, 'r) Store \<Rightarrow> string \<Rightarrow> bytes result" where
  "Policy env s digest =
     guarded [se_db env [''select policy'', digest]]
       (case tbl_get (policies s) digest of
          None \<Rightarrow> Inl (Sentinel StoreErrNotFound) | Some payload \<Rightarrow> Inr payload)"

definition PutObject ::
    "'p store_env \<Rightarrow> string \<Rightarrow> string \<Rightarrow> bytes \<Rightarrow> ('p, 'r) Store \<Rightarrow> ('p, 'r) Store result" where
  "PutObject env kind i payload s =
     guarded
       [fail_if (kind = [] \<or> i = [] \<or> payload = []) (Errorf ''object kind, id, and payload are required''),
        se_db env [''upsert object'', kind, i]]
       (case map_of (named_objects s) (kind, i) of
          None \<Rightarrow> Inr (s\<lparr>named_objects := AList.update (kind, i) payload (named_objects s)\<rparr>)
        | Some stored \<Rightarrow> if stored = payload then Inr s else Inl (Sentinel StoreErrObjectConflict))"

definition Object :: "'p store_env \<Rightarrow> ('p, 'r) Store \<Rightarrow> string \<Rightarrow> string \<Rightarrow> bytes result" where
  "Object env s kind i =
     guarded [se_db env [''select object'', kind, i]]
       (case map_of (named_objects s) (kind, i) of
          None \<Rightarrow> Inl (Sentinel StoreErrNotFound) | Some payload \<Rightarrow> Inr payload)"

definition PutSegmentIndex ::
    "'p store_env \<Rightarrow> string \<Rightarrow> SegmentIndex \<Rightarrow> ('p, 'r) Store \<Rightarrow> ('p, 'r) Store result" where
  "PutSegmentIndex env segmentID index s =
     checked
       [fail_if (segmentID = [] \<or> seg_FirstCursor index = 0 \<or>
                 seg_LastCursor index < seg_FirstCursor index \<or> seg_Path index = [] \<or> seg_Digest index = [])
          (Errorf ''invalid segment index''),
        se_db env [''upsert segment index'', segmentID]]
       (s\<lparr>segment_indexes := tbl_put segmentID index (segment_indexes s)\<rparr>)"

section \<open>The journal invariant\<close>

text \<open>
  Revisions of an aggregate are 1, 2, 3, ... in journal order, and sequence numbers increase.
\<close>

definition revisions_of :: "'p ControlRecord list \<Rightarrow> string \<times> string \<Rightarrow> uint64 list" where
  "revisions_of rs a = map cr_Revision (filter (\<lambda>r. aggregate_of r = a) rs)"

definition contiguous :: "'p ControlRecord list \<Rightarrow> bool" where
  "contiguous rs \<longleftrightarrow>
     (\<forall>a. map unat (revisions_of rs a) = map Suc [0..<length (revisions_of rs a)])"

definition sequenced :: "'p ControlRecord list \<Rightarrow> bool" where
  "sequenced rs \<longleftrightarrow> sorted_wrt (<) (map cr_Sequence rs) \<and> (\<forall>r \<in> set rs. 0 < cr_Sequence r)"

definition snapshots_current :: "('p, 'r) Store \<Rightarrow> bool" where
  "snapshots_current s \<longleftrightarrow>
     (\<forall>a. (case map_of (snapshots s) a of
         None \<Rightarrow> revisions_of (control_records s) a = []
       | Some row \<Rightarrow> \<exists>r \<in> set (control_records s). aggregate_of r = a \<and>
           cr_Revision r = snap_revision row \<and> cr_Payload r = snap_payload row \<and>
           snap_revision row = latest_revision (control_records s) a))"

definition journal_ok :: "'p store_env \<Rightarrow> 'p ControlRecord list \<Rightarrow> bool" where
  "journal_ok env rs \<longleftrightarrow>
     verify_from (se_sha env) (se_enc env) zero_hash rs = None \<and> contiguous rs \<and> sequenced rs"

lemma revisions_of_append [simp]:
  "revisions_of (rs @ qs) a = revisions_of rs a @ revisions_of qs a"
  by (simp add: revisions_of_def)

lemma latest_revision_alt: "latest_revision rs a = fold max (revisions_of rs a) 0"
  by (simp add: latest_revision_def revisions_of_def)

lemma fold_max_snoc: "fold max (xs @ [x]) z = max x (fold max xs (z :: uint64))"
  by simp

lemma contiguous_bound:
  assumes "contiguous rs"
  shows "unat (latest_revision rs a) = length (revisions_of rs a)"
proof -
  have "map unat xs = map Suc [0..<length xs] \<Longrightarrow> unat (fold max xs 0) = length xs"
    for xs :: "uint64 list"
  proof (induction xs rule: rev_induct)
    case Nil
    show ?case by simp
  next
    case (snoc x xs)
    then have xs: "map unat xs = map Suc [0..<length xs]" and x: "unat x = Suc (length xs)" by auto
    have "fold max xs 0 \<le> x" using snoc.IH [OF xs] x by (simp add: word_le_nat_alt)
    then show ?case using x by (simp add: max_absorb1)
  qed
  then show ?thesis using assms unfolding contiguous_def latest_revision_alt by blast
qed

lemma latest_revision_snoc:
  "latest_revision (rs @ [r]) a =
     (if aggregate_of r = a then max (cr_Revision r) (latest_revision rs a) else latest_revision rs a)"
  by (simp add: latest_revision_def)

lemma verify_snoc:
  "verify_from sha enc h (rs @ [r]) = None \<longleftrightarrow>
     verify_from sha enc h rs = None \<and>
     length (cr_PreviousHash r) = 32 \<and> length (cr_Hash r) = 32 \<and>
     cr_PreviousHash r = (if rs = [] then h else cr_Hash (last rs)) \<and> hashControl sha enc r = cr_Hash r"
  by (induction rs arbitrary: h) auto

lemma last_hash_length:
  "verify_from sha enc zero_hash rs = None \<Longrightarrow> length (last_hash rs) = 32"
  by (cases rs rule: rev_cases) (auto simp: last_hash_def zero_hash_def verify_snoc)

lemma hashControl_upd [simp]:
  "controlPreimage enc (r\<lparr>cr_Hash := h\<rparr>) = controlPreimage enc r"
  "controlPreimage enc (r\<lparr>cr_Sequence := n\<rparr>) = controlPreimage enc r"
  by (simp_all add: controlPreimage_def)

text \<open>What a successful append appended.\<close>

lemma AppendControl_Inr:
  assumes "AppendControl env record s = Inr (s', r)"
  shows "s' = s\<lparr>control_records := control_records s @ [r]\<rparr>"
    and "aggregate_of r = aggregate_of record" "cr_Kind r = cr_Kind record"
    and "cr_Payload r = cr_Payload record" "cr_Revision r = cr_Revision record"
    and "cr_Revision record = latest_revision (control_records s) (aggregate_of record) + 1"
    and "cr_Revision record \<noteq> 0"
    and "cr_PreviousHash r = last_hash (control_records s)"
    and "cr_Hash r = hashControl (se_sha env) (se_enc env) r"
    and "cr_Sequence r = last_sequence (control_records s) + 1"
  using assms by (auto simp: AppendControl_def Let_def hashControl_def aggregate_of_def)

lemma last_sequence_max:
  "sequenced rs \<Longrightarrow> r \<in> set rs \<Longrightarrow> cr_Sequence r \<le> last_sequence rs"
  by (cases rs rule: rev_cases) (auto simp: sequenced_def last_sequence_def sorted_wrt_append)

lemma sequenced_snoc:
  assumes "sequenced rs" "cr_Sequence r = last_sequence rs + 1"
  shows "sequenced (rs @ [r])"
proof -
  have "0 \<le> last_sequence rs"
    using assms(1) by (cases rs rule: rev_cases) (auto simp: sequenced_def last_sequence_def)
  moreover have "cr_Sequence q < cr_Sequence r" if "q \<in> set rs" for q
    using last_sequence_max [OF assms(1) that] assms(2) by simp
  ultimately show ?thesis using assms by (simp add: sequenced_def sorted_wrt_append)
qed

lemma contiguous_snoc:
  assumes "contiguous rs" "cr_Revision r = latest_revision rs (aggregate_of r) + 1" "cr_Revision r \<noteq> 0"
  shows "contiguous (rs @ [r])"
proof -
  have n1: "latest_revision rs (aggregate_of r) \<noteq> - 1" using assms(2,3) by auto
  have "unat (cr_Revision r) = Suc (length (revisions_of rs (aggregate_of r)))"
    using n1 assms(2) contiguous_bound [OF assms(1), of "aggregate_of r"]
    by (simp add: unat_plus_one)
  moreover have "revisions_of [r] a = (if aggregate_of r = a then [cr_Revision r] else [])" for a
    by (simp add: revisions_of_def)
  ultimately show ?thesis using assms(1) unfolding contiguous_def revisions_of_append by simp
qed

lemma AppendControl_journal_ok:
  assumes "AppendControl env record s = Inr (s', r)" and "journal_ok env (control_records s)"
    and sha: "\<And>x. length (se_sha env x) = 32"
  shows "journal_ok env (control_records s')"
proof -
  note a = AppendControl_Inr [OF assms(1)]
  let ?rs = "control_records s"
  have v: "verify_from (se_sha env) (se_enc env) zero_hash ?rs = None"
      and c: "contiguous ?rs" and q: "sequenced ?rs"
    using assms(2) by (simp_all add: journal_ok_def)
  have "verify_from (se_sha env) (se_enc env) zero_hash (?rs @ [r]) = None"
    using v a(8,9) last_hash_length [OF v] sha by (simp add: verify_snoc hashControl_def last_hash_def)
  moreover have "contiguous (?rs @ [r])" using c a by (intro contiguous_snoc) simp_all
  moreover have "sequenced (?rs @ [r])" using q a by (intro sequenced_snoc) simp_all
  ultimately show ?thesis using a(1) by (simp add: journal_ok_def)
qed

section \<open>Tamper evidence\<close>

text \<open>The content of a record that the hash covers.\<close>

definition content ::
    "('p \<Rightarrow> bytes) \<Rightarrow> 'p ControlRecord \<Rightarrow> bytes \<times> string \<times> string \<times> uint64 \<times> uint64 \<times> string \<times> bytes" where
  "content enc r = (cr_PreviousHash r, cr_AggregateKind r, cr_AggregateID r, cr_Revision r,
     of_int (unixNano (cr_AcceptedAt r)), cr_Kind r, enc (cr_Payload r))"

definition bounded_record :: "('p \<Rightarrow> bytes) \<Rightarrow> 'p ControlRecord \<Rightarrow> bool" where
  "bounded_record enc r \<longleftrightarrow> length (cr_AggregateKind r) < 2 ^ 64 \<and> length (cr_AggregateID r) < 2 ^ 64 \<and>
     length (cr_Kind r) < 2 ^ 64 \<and> length (enc (cr_Payload r)) < 2 ^ 64"

lemma writeHashBytes_inj:
  assumes "length a < 2 ^ 64" "length b < 2 ^ 64" "writeHashBytes a @ x = writeHashBytes b @ y"
  shows "a = b \<and> x = y"
  using frame_inj [OF assms(1,2), of x y] assms(3) by (simp add: writeHashBytes_def)

lemma be64_append_inj: "be64 v @ x = be64 w @ y \<Longrightarrow> v = w \<and> x = y"
  using be64_inj by (simp add: append_eq_append_conv)

lemma controlPreimage_inj:
  assumes eq: "controlPreimage enc r = controlPreimage enc q"
    and len: "length (cr_PreviousHash r) = length (cr_PreviousHash q)"
    and b: "bounded_record enc r" "bounded_record enc q"
  shows "content enc r = content enc q"
proof -
  let ?tail = "\<lambda>r. writeHashBytes (cr_AggregateKind r) @ writeHashBytes (cr_AggregateID r) @
     be64 (cr_Revision r) @ be64 (of_int (unixNano (cr_AcceptedAt r))) @
     writeHashBytes (cr_Kind r) @ writeHashBytes (enc (cr_Payload r)) @ []"
  have "cr_PreviousHash r @ ?tail r = cr_PreviousHash q @ ?tail q"
    using eq by (simp add: controlPreimage_def)
  then have p: "cr_PreviousHash r = cr_PreviousHash q" and t1: "?tail r = ?tail q"
    using len by (simp_all add: append_eq_append_conv)
  note bs = b [unfolded bounded_record_def]
  from writeHashBytes_inj [OF _ _ t1] bs have k: "cr_AggregateKind r = cr_AggregateKind q"
      and t2: "writeHashBytes (cr_AggregateID r) @
     be64 (cr_Revision r) @ be64 (of_int (unixNano (cr_AcceptedAt r))) @
     writeHashBytes (cr_Kind r) @ writeHashBytes (enc (cr_Payload r)) @ [] =
     writeHashBytes (cr_AggregateID q) @
     be64 (cr_Revision q) @ be64 (of_int (unixNano (cr_AcceptedAt q))) @
     writeHashBytes (cr_Kind q) @ writeHashBytes (enc (cr_Payload q)) @ []" by blast+
  from writeHashBytes_inj [OF _ _ t2] bs have i: "cr_AggregateID r = cr_AggregateID q"
      and t3: "be64 (cr_Revision r) @ be64 (of_int (unixNano (cr_AcceptedAt r))) @
     writeHashBytes (cr_Kind r) @ writeHashBytes (enc (cr_Payload r)) @ [] =
     be64 (cr_Revision q) @ be64 (of_int (unixNano (cr_AcceptedAt q))) @
     writeHashBytes (cr_Kind q) @ writeHashBytes (enc (cr_Payload q)) @ []" by blast+
  note t4 = be64_append_inj [OF t3]
  note t5 = be64_append_inj [OF conjunct2 [OF t4]]
  from writeHashBytes_inj [OF _ _ conjunct2 [OF t5]] bs have c: "cr_Kind r = cr_Kind q"
      and t6: "writeHashBytes (enc (cr_Payload r)) @ [] = writeHashBytes (enc (cr_Payload q)) @ []"
    by blast+
  from writeHashBytes_inj [OF _ _ t6] bs have "enc (cr_Payload r) = enc (cr_Payload q)" by blast
  with p k i c t4 t5 show ?thesis by (simp add: content_def)
qed

definition hash_collision ::
    "(bytes \<Rightarrow> bytes) \<Rightarrow> ('p \<Rightarrow> bytes) \<Rightarrow> 'p ControlRecord list \<Rightarrow> 'p ControlRecord list \<Rightarrow> bool" where
  "hash_collision sha enc rs qs \<longleftrightarrow>
     (\<exists>r \<in> set rs. \<exists>q \<in> set qs. controlPreimage enc r \<noteq> controlPreimage enc q \<and>
        sha (controlPreimage enc r) = sha (controlPreimage enc q))"

definition zero_hash_hit :: "'p ControlRecord list \<Rightarrow> bool" where
  "zero_hash_hit rs \<longleftrightarrow> (\<exists>r \<in> set rs. cr_Hash r = zero_hash)"

lemma chains_agree:
  assumes "verify_from sha enc zero_hash rs = None" "verify_from sha enc zero_hash qs = None"
    and "last_hash rs = last_hash qs" "\<forall>r \<in> set rs \<union> set qs. bounded_record enc r"
    and "\<not> hash_collision sha enc rs qs" "\<not> zero_hash_hit rs" "\<not> zero_hash_hit qs"
  shows "map (content enc) rs = map (content enc) qs"
  using assms
proof (induction rs arbitrary: qs rule: rev_induct)
  case Nil
  then show ?case by (cases qs rule: rev_cases) (auto simp: last_hash_def zero_hash_hit_def)
next
  case (snoc r rs)
  show ?case
  proof (cases qs rule: rev_cases)
    case Nil
    with snoc.prems show ?thesis by (auto simp: last_hash_def zero_hash_hit_def)
  next
    case (snoc qs' q)
    note v = snoc.prems(1) [unfolded verify_snoc] snoc.prems(2) [unfolded snoc verify_snoc]
    have "sha (controlPreimage enc r) = sha (controlPreimage enc q)"
      using v snoc.prems(3) snoc by (simp add: last_hash_def hashControl_def)
    then have "controlPreimage enc r = controlPreimage enc q"
      using snoc.prems(5) snoc by (auto simp: hash_collision_def)
    then have c: "content enc r = content enc q"
      using v snoc.prems(4) snoc by (intro controlPreimage_inj) auto
    then have "cr_PreviousHash r = cr_PreviousHash q" by (simp add: content_def)
    then have "last_hash rs = last_hash qs'" using v by (auto simp: last_hash_def)
    moreover have "\<not> hash_collision sha enc rs qs'"
      using snoc.prems(5) snoc by (auto simp: hash_collision_def)
    ultimately have "map (content enc) rs = map (content enc) qs'"
      using snoc.prems(4,6,7) v snoc by (intro snoc.IH) (auto simp: zero_hash_hit_def)
    with c snoc show ?thesis by simp
  qed
qed

text \<open>
  C3. The journal is tamper evident: two journals that both pass \<open>Verify\<close> and end in the same
  hash have the same records (every hashed field, in order), unless the hash function has been
  broken on the recorded data - two different record preimages with one hash, or a record that
  hashes to the all-zero start value.
\<close>

theorem Verify_tamper_evident:
  assumes "Verify env s = None" "Verify env t = None"
    and "last_hash (control_records s) = last_hash (control_records t)"
    and "\<forall>r \<in> set (control_records s) \<union> set (control_records t). bounded_record (se_enc env) r"
  shows "map (content (se_enc env)) (control_records s) = map (content (se_enc env)) (control_records t) \<or>
     hash_collision (se_sha env) (se_enc env) (control_records s) (control_records t) \<or>
     zero_hash_hit (control_records s) \<or> zero_hash_hit (control_records t)"
  using assms chains_agree [of "se_sha env" "se_enc env" "control_records s" "control_records t"]
  unfolding Verify_def by auto

section \<open>At most once\<close>

definition healthy :: "'p store_env \<Rightarrow> bool" where
  "healthy env \<longleftrightarrow> (\<forall>p. se_fault env p = None) \<and> (\<forall>l. se_db env l = None)"

lemma RunIdempotent_known:
  assumes "map_of (idempotency s) (namespace, key) = Some row"
  shows "fst (RunIdempotent env namespace key request handler s) = s"
  using assms unfolding RunIdempotent_def Let_def by (auto split: option.splits)

lemma RunIdempotent_replay:
  assumes "map_of (idempotency s) (namespace, key) = Some row" "healthy env"
    and "namespace \<noteq> []" "key \<noteq> []" "request \<noteq> []"
  shows "RunIdempotent env namespace key request handler s =
    (s, if idem_request_hash row = se_sha env request then Inr (idem_response row, True)
        else Inl ErrIdempotencyConflict)"
  using assms unfolding RunIdempotent_def Let_def healthy_def by (simp add: fail_if_def)

text \<open>A fresh key either leaves the store as it was or commits the handler's effects and a row.\<close>

lemma RunIdempotent_fresh:
  assumes "map_of (idempotency s) (namespace, key) = None"
    and "RunIdempotent env namespace key request handler s = (s', res)"
  obtains (rolled_back) e where "s' = s" "res = Inl e"
  | (committed) t response where "handler s = Inr (t, Some response)"
      "namespace \<noteq> []" "key \<noteq> []" "request \<noteq> []"
      "s' = t\<lparr>idempotency := AList.update (namespace, key)
         \<lparr>idem_request_hash = se_sha env request, idem_response = response,
          idem_created_at = unixNano (se_now env)\<rparr> (idempotency t)\<rparr>"
      "res = (case se_fault env ''store.after_commit'' of None \<Rightarrow> Inr (response, False) | Some e \<Rightarrow> Inl e)"
proof -
  let ?pre = "first_err
        [fail_if (namespace = [] \<or> key = [] \<or> request = [])
           (Errorf ''namespace, key, request, and handler are required''),
         se_fault env ''store.before_begin'', se_db env [''begin''], se_fault env ''store.after_begin'',
         se_db env [''select idempotency'', namespace, key]]"
  let ?post = "first_err [se_fault env ''store.before_idempotency_insert'',
                      se_db env [''insert idempotency'', namespace, key],
                      se_fault env ''store.before_commit'', se_db env [''commit'']]"
  let ?run = "bind_r (checked [se_fault env ''store.before_handler''] s) handler"
  show thesis
  proof (cases ?pre)
    case (Some e)
    then have "s' = s" "res = Inl e"
      using assms(2) by (simp_all add: RunIdempotent_def del: first_err_Cons_None)
    then show ?thesis by (rule rolled_back)
  next
    case None
    then have ne: "namespace \<noteq> []" "key \<noteq> []" "request \<noteq> []" by auto
    show ?thesis
    proof (cases ?run)
      case (Inl e)
      with None assms have "s' = s" "res = Inl e"
        by (simp_all add: RunIdempotent_def Let_def del: first_err_Cons_None)
      then show ?thesis by (rule rolled_back)
    next
      case (Inr p)
      obtain t o' where p: "p = (t, o')" by (cases p)
      with Inr have h: "handler s = Inr (t, o')"
        by (auto simp: bind_r_Inr)
      show ?thesis
      proof (cases "\<exists>response. o' = Some response \<and> ?post = None")
        case False
        with None Inr p assms have "s' = s \<and> (\<exists>e. res = Inl e)"
          by (cases o'; cases ?post) (auto simp: RunIdempotent_def simp del: first_err_Cons_None)
        then show ?thesis using rolled_back by blast
      next
        case True
        then obtain response where r: "o' = Some response" and post: "?post = None" by blast
        from None Inr p r post assms have "(s', res) =
            (t\<lparr>idempotency := AList.update (namespace, key)
               \<lparr>idem_request_hash = se_sha env request, idem_response = response,
                idem_created_at = unixNano (se_now env)\<rparr> (idempotency t)\<rparr>,
             case se_fault env ''store.after_commit'' of None \<Rightarrow> Inr (response, False) | Some e \<Rightarrow> Inl e)"
          by (simp add: RunIdempotent_def Let_def del: first_err_Cons_None split: option.splits)
        with committed h r ne show ?thesis by blast
      qed
    qed
  qed
qed

text \<open>
  C1. A mutation takes effect at most once per (namespace, key).  A call with a fresh key either
  leaves the whole store unchanged and reports an error, or installs exactly the state its handler
  produced together with the response row.  From then on, in any later store that still has that
  row, a healthy retry of the same request changes nothing and returns the committed response -
  also when the first call ended in a post-commit fault - and a request with another hash changes
  nothing and is rejected as an idempotency conflict.
\<close>

theorem RunIdempotent_at_most_once:
  assumes fresh: "map_of (idempotency s) (namespace, key) = None"
    and first: "RunIdempotent env namespace key request handler s = (s1, res)"
    and later: "map_of (idempotency s2) (namespace, key) = map_of (idempotency s1) (namespace, key)"
    and retry: "healthy env2" "se_sha env2 = se_sha env" "other \<noteq> []"
  shows "s1 = s \<and> (\<exists>e. res = Inl e) \<or>
    (\<exists>t response. handler s = Inr (t, Some response) \<and>
       control_records s1 = control_records t \<and> snapshots s1 = snapshots t \<and>
       (res = Inr (response, False) \<or>
        (\<exists>e. res = Inl e \<and> se_fault env ''store.after_commit'' = Some e)) \<and>
       RunIdempotent env2 namespace key request handler2 s2 = (s2, Inr (response, True)) \<and>
       (se_sha env other \<noteq> se_sha env request \<longrightarrow>
          RunIdempotent env2 namespace key other handler2 s2 = (s2, Inl ErrIdempotencyConflict)))"
  using fresh first
proof (cases rule: RunIdempotent_fresh)
  case (rolled_back e)
  then show ?thesis by simp
next
  case (committed t response)
  define row where "row = \<lparr>idem_request_hash = se_sha env request, idem_response = response,
          idem_created_at = unixNano (se_now env)\<rparr>"
  have row: "map_of (idempotency s2) (namespace, key) = Some row"
    using later committed(5) by (simp add: row_def update_conv')
  have "RunIdempotent env2 namespace key request handler2 s2 = (s2, Inr (response, True))"
    using RunIdempotent_replay [OF row retry(1) committed(2,3,4)] retry(2) by (simp add: row_def)
  moreover have "se_sha env other \<noteq> se_sha env request \<Longrightarrow>
      RunIdempotent env2 namespace key other handler2 s2 = (s2, Inl ErrIdempotencyConflict)"
    using RunIdempotent_replay [OF row retry(1) committed(2,3) retry(3)] retry(2) by (simp add: row_def)
  moreover have "control_records s1 = control_records t" "snapshots s1 = snapshots t"
    using committed(5) by simp_all
  moreover have "res = Inr (response, False) \<or>
      (\<exists>e. res = Inl e \<and> se_fault env ''store.after_commit'' = Some e)"
    using committed(6) by (auto split: option.splits)
  ultimately show ?thesis using committed(1) by blast
qed

section \<open>Concrete instances\<close>

text \<open>
  A degenerate hash (one value for every input) makes two different one-record journals agree on
  their last hash; the theorem then names the collision.
\<close>

definition demo_env :: "bytes store_env" where
  "demo_env = \<lparr>se_sha = (\<lambda>_. replicate 32 (CHR 0x01)), se_enc = (\<lambda>p. p), se_fault = (\<lambda>_. None),
     se_db = (\<lambda>_. None), se_now = 1\<rparr>"

definition demo_store :: "bytes \<Rightarrow> (bytes, nat) Store" where
  "demo_store payload = emptyStore\<lparr>control_records :=
     [\<lparr>cr_Sequence = 1, cr_AggregateKind = ''lease'', cr_AggregateID = ''l'', cr_Revision = 1,
       cr_Kind = ''lease.created'', cr_Payload = payload, cr_AcceptedAt = 1,
       cr_PreviousHash = zero_hash, cr_Hash = replicate 32 (CHR 0x01)\<rparr>]\<rparr>"

theorem Verify_tamper_evident_witness:
  "Verify demo_env (demo_store ''a'') = None \<and> Verify demo_env (demo_store ''b'') = None \<and>
   hash_collision (se_sha demo_env) (se_enc demo_env)
     (control_records (demo_store ''a'')) (control_records (demo_store ''b''))"
proof -
  have v: "Verify demo_env (demo_store p) = None" for p
    by (simp add: Verify_def demo_env_def demo_store_def emptyStore_def hashControl_def zero_hash_def)
  have "bounded_record (se_enc demo_env) r"
    if "r \<in> set (control_records (demo_store ''a'')) \<union> set (control_records (demo_store ''b''))" for r
    using that by (auto simp: demo_store_def demo_env_def bounded_record_def)
  moreover have "last_hash (control_records (demo_store ''a'')) =
      last_hash (control_records (demo_store ''b''))"
    by (simp add: demo_store_def last_hash_def)
  ultimately have "map (content (se_enc demo_env)) (control_records (demo_store ''a'')) =
       map (content (se_enc demo_env)) (control_records (demo_store ''b'')) \<or>
     hash_collision (se_sha demo_env) (se_enc demo_env)
       (control_records (demo_store ''a'')) (control_records (demo_store ''b'')) \<or>
     zero_hash_hit (control_records (demo_store ''a'')) \<or> zero_hash_hit (control_records (demo_store ''b''))"
    using Verify_tamper_evident [OF v v] by blast
  moreover have "map (content (se_enc demo_env)) (control_records (demo_store ''a'')) \<noteq>
       map (content (se_enc demo_env)) (control_records (demo_store ''b''))"
    by (simp add: demo_store_def demo_env_def content_def)
  moreover have "\<not> zero_hash_hit (control_records (demo_store p))" for p
    by (simp add: demo_store_def zero_hash_hit_def zero_hash_def)
  ultimately show ?thesis using v by blast
qed

text \<open>A handler that answers 7: the call commits, a retry replays 7.\<close>

definition demo_handler :: "(bytes, nat) handler" where
  "demo_handler s = Inr (s, Some 7)"

theorem RunIdempotent_at_most_once_witness:
  "snd (RunIdempotent demo_env ''ns'' ''k'' ''r'' demo_handler emptyStore) = Inr (7, False) \<and>
   snd (RunIdempotent demo_env ''ns'' ''k'' ''r'' demo_handler
     (fst (RunIdempotent demo_env ''ns'' ''k'' ''r'' demo_handler emptyStore))) = Inr (7, True)"
proof -
  let ?run = "RunIdempotent demo_env ''ns'' ''k'' ''r'' demo_handler emptyStore"
  have h: "healthy demo_env" by (simp add: healthy_def demo_env_def)
  have r: "snd ?run = Inr (7, False)"
    by (simp add: RunIdempotent_def demo_env_def demo_handler_def emptyStore_def fail_if_def)
  have f: "map_of (idempotency (emptyStore :: (bytes, nat) Store)) (''ns'', ''k'') = None"
    by (simp add: emptyStore_def)
  have p: "?run = (fst ?run, snd ?run)" by simp
  have "RunIdempotent demo_env ''ns'' ''k'' ''r'' demo_handler (fst ?run) = (fst ?run, Inr (7, True))"
    using RunIdempotent_at_most_once [OF f p refl h refl, of "''x''" demo_handler] r
    by (auto simp: demo_handler_def)
  with r show ?thesis by simp
qed

end
