(* ===== verification/App_Types.thy ===== *)
theory App_Types
  imports Domain_Evidence Store
begin

text \<open>
  The persisted records of the application core (\<open>src/internal/application/types.go\<close>), the
  request metadata every mutation carries, and the lookups over nested records.  Records hold
  identifiers as printed text, as the JSON documents do.  The \<open>clone\<close> helpers of the source copy
  slices to avoid aliasing; values here are immutable, so they are the identity and are left out.
\<close>

section \<open>Request metadata\<close>

record MutationMeta =
  meta_IdempotencyKey :: string
  meta_CorrelationID :: string
  meta_CausationID :: string
  meta_AuthorizedPolicyReference :: string
  meta_Deadline :: time

text \<open>\<open>deadline\<close> is the context's deadline, if it has one.\<close>

definition MutationMeta_Validate :: "time option \<Rightarrow> time \<Rightarrow> MutationMeta \<Rightarrow> err" where
  "MutationMeta_Validate deadline now m =
     first_err
       [fail_if (\<not> IsCanonicalIdempotencyKey (meta_IdempotencyKey m))
          (invalidArgument ''mutation_meta.validate'' ''idempotency_key''
             ''must be a canonical non-blank value of at most 1024 bytes'' None),
        fail_if (blank (meta_AuthorizedPolicyReference m))
          (invalidArgument ''mutation_meta.validate'' ''authorized_policy_reference'' ''is required'' None),
        (case ParseCorrelationID (meta_CorrelationID m) of
           Inl e \<Rightarrow> Some (invalidArgument ''mutation_meta.validate'' ''correlation_id'' ''is invalid'' (Some e))
         | Inr _ \<Rightarrow> None),
        (if meta_CausationID m \<noteq> [] then
           (case ParseEventID (meta_CausationID m) of
              Inl e \<Rightarrow> Some (invalidArgument ''mutation_meta.validate'' ''causation_id'' ''is invalid'' (Some e))
            | Inr _ \<Rightarrow> None)
         else None),
        fail_if (meta_Deadline m = zero_time \<or> \<not> meta_Deadline m > now)
          (invalidArgument ''mutation_meta.validate'' ''deadline'' ''must be in the future'' None),
        (case deadline of
           None \<Rightarrow> None
         | Some d \<Rightarrow> fail_if (d > meta_Deadline m)
             (invalidArgument ''mutation_meta.validate'' ''deadline''
                ''context deadline exceeds the declared mutation deadline'' None))]"

section \<open>Sessions and leases\<close>

record SessionRecord =
  ses_ID :: string
  ses_OwnerSubject :: string
  ses_AcquisitionIdempotencyKey :: string
  ses_State :: ResearchSessionState
  ses_Revision :: uint64
  ses_LeaseID :: string
  ses_AgentWorkspaceID :: string
  ses_InputViewID :: string
  ses_PolicyDigest :: string
  ses_CapabilityDigest :: string
  ses_CreatedAt :: time
  ses_UpdatedAt :: time

datatype LeaseTerminationKind =
    LeaseTerminationRelease | LeaseTerminationExpiry | LeaseTerminationKindOther string

definition LeaseTerminationKind_IsValid :: "LeaseTerminationKind \<Rightarrow> bool" where
  "LeaseTerminationKind_IsValid k \<longleftrightarrow> k = LeaseTerminationRelease \<or> k = LeaseTerminationExpiry"

datatype LeaseTerminationState =
    LeaseTerminationReleasing | LeaseTerminationExpiring | LeaseTerminationReleased
  | LeaseTerminationExpired | LeaseTerminationStateOther string

definition LeaseTerminationState_IsValid :: "LeaseTerminationState \<Rightarrow> bool" where
  "LeaseTerminationState_IsValid s \<longleftrightarrow>
     s \<in> {LeaseTerminationReleasing, LeaseTerminationExpiring, LeaseTerminationReleased,
          LeaseTerminationExpired}"

definition LeaseTerminationState_Terminal :: "LeaseTerminationState \<Rightarrow> bool" where
  "LeaseTerminationState_Terminal s \<longleftrightarrow>
     s = LeaseTerminationReleased \<or> s = LeaseTerminationExpired"

record LeaseTerminationRecord =
  ter_Kind :: LeaseTerminationKind
  ter_State :: LeaseTerminationState
  ter_Reason :: string
  ter_BeginIdempotencyKey :: string
  ter_BeginRequestDigest :: string
  ter_InitiatedLeaseRevision :: uint64
  ter_InitiatedAt :: time
  ter_CompleteIdempotencyKey :: string
  ter_CompleteRequestDigest :: string
  ter_CompletedAt :: time

text \<open>The zero value of the record; an absent kind or state is the empty string.\<close>

definition no_termination :: LeaseTerminationRecord where
  "no_termination = \<lparr>ter_Kind = LeaseTerminationKindOther [], ter_State = LeaseTerminationStateOther [],
     ter_Reason = [], ter_BeginIdempotencyKey = [], ter_BeginRequestDigest = [],
     ter_InitiatedLeaseRevision = 0, ter_InitiatedAt = zero_time, ter_CompleteIdempotencyKey = [],
     ter_CompleteRequestDigest = [], ter_CompletedAt = zero_time\<rparr>"

definition LeaseTermination_Empty :: "LeaseTerminationRecord \<Rightarrow> bool" where
  "LeaseTermination_Empty r \<longleftrightarrow> r = no_termination"

definition LeaseTermination_InProgress :: "LeaseTerminationRecord \<Rightarrow> bool" where
  "LeaseTermination_InProgress r \<longleftrightarrow>
     ter_State r = LeaseTerminationReleasing \<or> ter_State r = LeaseTerminationExpiring"

definition LeaseTermination_Terminal :: "LeaseTerminationRecord \<Rightarrow> bool" where
  "LeaseTermination_Terminal r \<longleftrightarrow> LeaseTerminationState_Terminal (ter_State r)"

record LeaseRecord =
  lea_ID :: string
  lea_SessionID :: string
  lea_AgentWorkspaceID :: string
  lea_AgentGeneration :: uint64
  lea_InputViewID :: string
  lea_PolicyDigest :: string
  lea_CapabilityDigest :: string
  lea_State :: LeaseState
  lea_Revision :: uint64
  lea_ExpiresAt :: time
  lea_Termination :: LeaseTerminationRecord
  lea_CreatedAt :: time
  lea_UpdatedAt :: time

section \<open>Execs, agent workspaces and targets\<close>

record ExecRecord =
  exe_ID :: string
  exe_SessionID :: string
  exe_LeaseID :: string
  exe_AgentWorkspaceID :: string
  exe_AgentGeneration :: uint64
  exe_Kind :: ExecKind
  exe_Executable :: string
  exe_Argv :: "string list"
  exe_WorkingDirectory :: string
  exe_State :: ExecState
  exe_Revision :: uint64
  exe_ExitCode :: "int option"
  exe_Signal :: string
  exe_IncidentIDs :: "string list"
  exe_CleanupConfirmed :: bool
  exe_Error :: string
  exe_CreatedAt :: time
  exe_UpdatedAt :: time

record AgentGenerationRecord =
  agn_Generation :: uint64
  agn_WorkspaceID :: string
  agn_InputViewID :: string
  agn_PolicyDigest :: string
  agn_CapabilityDigest :: string
  agn_ProvisioningPlanDigest :: string
  agn_WorkspaceProvisioningKey :: string
  agn_AgentProvisioningKey :: string
  agn_Previous :: uint64
  agn_RecoveryIncident :: string
  agn_State :: AgentGenerationState
  agn_Revision :: uint64
  agn_CreatedAt :: time
  agn_UpdatedAt :: time

record AgentWorkspaceRecord =
  agt_ID :: string
  agt_SessionID :: string
  agt_CurrentGeneration :: uint64
  agt_Revision :: uint64
  agt_CreatedAt :: time
  agt_UpdatedAt :: time
  agt_Generations :: "AgentGenerationRecord list"

record TargetGenerationRecord =
  tgn_Generation :: uint64
  tgn_PolicyDigest :: string
  tgn_CapabilityDigest :: string
  tgn_ProvisioningPlanDigest :: string
  tgn_ProvisioningKey :: string
  tgn_Previous :: uint64
  tgn_RecoveryIncident :: string
  tgn_State :: TargetGenerationState
  tgn_Revision :: uint64
  tgn_CreatedAt :: time
  tgn_UpdatedAt :: time

record TargetRunRecord =
  run_ID :: string
  run_Generation :: uint64
  run_AgentWorkspaceID :: string
  run_AgentGeneration :: uint64
  run_MaterializationDigest :: string
  run_ProvisioningPlanDigest :: string
  run_ProvisioningKey :: string
  run_State :: TargetRunState
  run_Revision :: uint64
  run_BundleID :: string
  run_BundleArtifact :: string
  run_BundleDigest :: string
  run_IncidentIDs :: "string list"
  run_CreatedAt :: time
  run_UpdatedAt :: time

record TargetOperationRecord =
  ope_ID :: string
  ope_RunID :: string
  ope_Generation :: uint64
  ope_Kind :: TargetOperationKind
  ope_CommandDisplay :: string
  ope_ContentDigest :: string
  ope_State :: TargetOperationState
  ope_Revision :: uint64
  ope_CreatedAt :: time
  ope_UpdatedAt :: time

record TargetRecord =
  tgt_ID :: string
  tgt_SessionID :: string
  tgt_LeaseID :: string
  tgt_CreationIdempotencyKey :: string
  tgt_Template :: string
  tgt_Kind :: TargetKind
  tgt_CurrentGeneration :: uint64
  tgt_Revision :: uint64
  tgt_CreatedAt :: time
  tgt_UpdatedAt :: time
  tgt_Generations :: "TargetGenerationRecord list"
  tgt_Runs :: "TargetRunRecord list"
  tgt_Operations :: "TargetOperationRecord list"

section \<open>Incidents\<close>

record CauseRecord =
  crc_Kind :: CauseKind
  crc_Summary :: string
  crc_Method :: string
  crc_Confidence :: float64

record IncidentMetricRecord =
  imr_SubjectID :: string
  imr_SubjectKind :: SubjectKind
  imr_Name :: string
  imr_Unit :: string
  imr_Kind :: MetricKind
  imr_Availability :: MetricAvailability
  imr_CounterValue :: "uint64 option"
  imr_NumericValue :: "float64 option"
  imr_CollectedAt :: time
  imr_PublishedAt :: time
  imr_Cursor :: uint64
  imr_Labels :: "string table"
  imr_ExecID :: string
  imr_TargetRunID :: string

record IncidentGapRecord =
  igr_Kind :: GapKind
  igr_Source :: string
  igr_SourceInstance :: string
  igr_FirstSourceSequence :: uint64
  igr_LastSourceSequence :: uint64
  igr_FirstCursor :: uint64
  igr_LastCursor :: uint64
  igr_StartedAt :: time
  igr_EndedAt :: time
  igr_LostRecords :: uint64
  igr_Reason :: string

record IncidentCoverageRecord =
  icr_CollectorID :: string
  icr_SignalFamily :: string
  icr_Placement :: CollectorPlacement
  icr_Level :: CoverageLevel
  icr_Status :: CoverageStatus
  icr_Required :: bool
  icr_StartedAt :: time
  icr_EndedAt :: time
  icr_DroppedRecords :: uint64
  icr_Gaps :: "IncidentGapRecord list"

record IncidentArtifactRecord =
  iar_Reference :: string
  iar_Digest :: string
  iar_Size :: int
  iar_Role :: string
  iar_Sensitivity :: Sensitivity

record IncidentRecord =
  inc_ID :: string
  inc_Classification :: IncidentClassification
  inc_SessionID :: string
  inc_LeaseID :: string
  inc_AgentWorkspaceID :: string
  inc_AgentGeneration :: uint64
  inc_ExecID :: string
  inc_TargetID :: string
  inc_TargetGeneration :: uint64
  inc_TargetRunID :: string
  inc_Trigger :: string
  inc_LastKnownState :: string
  inc_Cause :: CauseRecord
  inc_HighWaterMetrics :: "IncidentMetricRecord list"
  inc_FirstRelevantCursor :: uint64
  inc_LastRelevantCursor :: uint64
  inc_Coverage :: "IncidentCoverageRecord list"
  inc_ObservationBundleID :: string
  inc_Artifacts :: "IncidentArtifactRecord list"
  inc_RecoveryActions :: "string list"
  inc_VisibilityAcknowledgements :: "string list"
  inc_State :: IncidentState
  inc_Revision :: uint64
  inc_OccurredAt :: time
  inc_UpdatedAt :: time

record ResearchSessionView =
  view_Session :: SessionRecord
  view_Lease :: LeaseRecord
  view_Agent :: AgentWorkspaceRecord
  view_Execs :: "ExecRecord list"
  view_Targets :: "TargetRecord list"
  view_Incidents :: "IncidentRecord list"

section \<open>Journal payloads and stored responses\<close>

text \<open>
  A control payload or a stored response is JSON text; it is identified with the value it decodes
  to.  \<open>PMalformed\<close> stands for text that does not decode strictly into any aggregate.
\<close>

datatype payload =
    PSession SessionRecord | PLease LeaseRecord | PAgent AgentWorkspaceRecord | PExec ExecRecord
  | PTarget TargetRecord | PIncident IncidentRecord | PMalformed bytes

datatype response =
    RSessionID string | RLease LeaseRecord | RAgent AgentWorkspaceRecord | RExecID string
  | RExec ExecRecord | RTargetID string | RTarget TargetRecord | RRunID string string
  | ROperationID string string | RIncidentID string | RIncident IncidentRecord
  | RPreparation string uint64 | RReleaseOutcome string string time
  | RTerminationOutcome string string LeaseTerminationKind LeaseState time
  | RRecovery IncidentRecord "TargetRecord option" "AgentWorkspaceRecord option" "LeaseRecord option"
  | RIncidentIDs "string list"

type_synonym store = "(payload, response) Store"

text \<open>\<open>json.Unmarshal\<close> of a stored response of another shape reports an error.\<close>

definition unmarshal_error :: go_error where
  "unmarshal_error = Sentinel (External ''encoding/json'')"

section \<open>Lookups over nested records\<close>

text \<open>
  The \<open>find\<close> functions return a pointer into a slice; here they return the position, so that an
  update through the pointer is an update at that position.
\<close>

definition find_index :: "('a \<Rightarrow> bool) \<Rightarrow> 'a list \<Rightarrow> nat result" where
  "find_index P xs =
    (case find (\<lambda>i. P (xs ! i)) [0..<length xs] of None \<Rightarrow> Inl ErrNotFound | Some i \<Rightarrow> Inr i)"

definition findAgentGeneration :: "AgentWorkspaceRecord \<Rightarrow> uint64 \<Rightarrow> nat result" where
  "findAgentGeneration agent generation =
     find_index (\<lambda>g. agn_Generation g = generation) (agt_Generations agent)"

definition findTargetGeneration :: "TargetRecord \<Rightarrow> uint64 \<Rightarrow> nat result" where
  "findTargetGeneration target generation =
     find_index (\<lambda>g. tgn_Generation g = generation) (tgt_Generations target)"

definition findRun :: "TargetRecord \<Rightarrow> string \<Rightarrow> nat result" where
  "findRun target runID = find_index (\<lambda>r. run_ID r = runID) (tgt_Runs target)"

definition findOperation :: "TargetRecord \<Rightarrow> string \<Rightarrow> nat result" where
  "findOperation target operationID = find_index (\<lambda>q. ope_ID q = operationID) (tgt_Operations target)"

lemma find_index_Inr:
  "find_index P xs = Inr i \<longleftrightarrow> i < length xs \<and> P (xs ! i) \<and> (\<forall>j < i. \<not> P (xs ! j))"
proof
  assume "find_index P xs = Inr i"
  then have "find (\<lambda>i. P (xs ! i)) [0..<length xs] = Some i"
    by (simp add: find_index_def split: option.splits)
  then show "i < length xs \<and> P (xs ! i) \<and> (\<forall>j < i. \<not> P (xs ! j))"
    by (auto simp: find_Some_iff)
next
  assume r: "i < length xs \<and> P (xs ! i) \<and> (\<forall>j < i. \<not> P (xs ! j))"
  then have "find (\<lambda>i. P (xs ! i)) [0..<length xs] = Some i"
    by (auto simp: find_Some_iff intro: exI [of _ i])
  then show "find_index P xs = Inr i" by (simp add: find_index_def)
qed

lemma find_index_Inl:
  "find_index P xs = Inl e \<longleftrightarrow> e = ErrNotFound \<and> (\<forall>x \<in> set xs. \<not> P x)"
  by (auto simp: find_index_def find_None_iff in_set_conv_nth split: option.splits)
    (force simp: find_Some_iff)

lemmas find_defs = findAgentGeneration_def findTargetGeneration_def findRun_def findOperation_def

lemma termination_simps [simp]:
  "LeaseTermination_Empty no_termination" "\<not> LeaseTermination_InProgress no_termination"
  "\<not> LeaseTermination_Terminal no_termination"
  by (simp_all add: LeaseTermination_Empty_def LeaseTermination_InProgress_def
      LeaseTermination_Terminal_def LeaseTerminationState_Terminal_def no_termination_def)

lemma in_progress_not_empty: "LeaseTermination_InProgress r \<Longrightarrow> \<not> LeaseTermination_Empty r"
  by (auto simp: LeaseTermination_Empty_def)

lemma in_progress_not_terminal:
  "LeaseTermination_InProgress r \<Longrightarrow> \<not> LeaseTerminationState_Terminal (ter_State r)"
  by (auto simp: LeaseTermination_InProgress_def LeaseTerminationState_Terminal_def)

end
