(* ===== verification/App_Replay.thy ===== *)
theory App_Replay
  imports App_Types
begin

text \<open>
  Replay of the control journal into the in-memory projection: the validators of
  \<open>src/internal/application/replay_validation.go\<close>, which treat every journal payload as untrusted,
  and \<open>apply\<close> of \<open>core.go\<close>.  A record is projected only when its payload decodes, matches its
  envelope, is semantically valid on its own, agrees with the aggregates it refers to, and is a
  legal successor of the previous revision of the same aggregate.
\<close>

section \<open>The projection\<close>

record Core =
  core_store :: store
  core_lastSequence :: int
  core_sessions :: "SessionRecord table"
  core_leases :: "LeaseRecord table"
  core_agents :: "AgentWorkspaceRecord table"
  core_execs :: "ExecRecord table"
  core_targets :: "TargetRecord table"
  core_incidents :: "IncidentRecord table"

section \<open>Elementary checks\<close>

definition replayOperation :: string where
  "replayOperation = ''application.replay''"

definition replayViolation :: "string \<Rightarrow> string \<Rightarrow> err \<Rightarrow> go_error" where
  "replayViolation field message cause = integrityViolation replayOperation field message cause"

definition parsePersisted :: "string \<Rightarrow> string \<Rightarrow> (string \<Rightarrow> 'a result) \<Rightarrow> 'a result" where
  "parsePersisted field value parse =
    (case parse value of
       Inl e \<Rightarrow> Inl (replayViolation field ''persisted identity is invalid'' (Some e))
     | Inr v \<Rightarrow> Inr v)"

definition parseOptionalPersisted :: "string \<Rightarrow> string \<Rightarrow> 'a \<Rightarrow> (string \<Rightarrow> 'a result) \<Rightarrow> 'a result" where
  "parseOptionalPersisted field value zero parse =
    (if value = [] then Inr zero else parsePersisted field value parse)"

definition parsePersistedDigest :: "string \<Rightarrow> string \<Rightarrow> Digest result" where
  "parsePersistedDigest field value = parsePersisted field value ParseDigest"

definition requirePersistedState :: "string \<Rightarrow> bool \<Rightarrow> err" where
  "requirePersistedState field valid =
     fail_if (\<not> valid) (replayViolation field ''persisted state is not recognized'' None)"

definition requirePersistedRevision :: "string \<Rightarrow> uint64 \<Rightarrow> err" where
  "requirePersistedRevision field revision =
     fail_if (\<not> Revision_IsValid revision)
       (replayViolation field ''persisted revision must be positive'' None)"

definition requirePersistedTimes :: "string \<Rightarrow> string \<Rightarrow> time \<Rightarrow> time \<Rightarrow> err" where
  "requirePersistedTimes prefix createdName created updated =
     first_err
       [fail_if (created = zero_time)
          (replayViolation (prefix @ ''.'' @ createdName) ''persisted timestamp must be set'' None),
        fail_if (updated = zero_time)
          (replayViolation (prefix @ ''.updated_at'') ''persisted timestamp must be set'' None),
        fail_if (updated < created)
          (replayViolation (prefix @ ''.updated_at'') ''persisted update precedes creation'' None)]"

definition requireContainedTimes :: "string \<Rightarrow> time \<Rightarrow> time \<Rightarrow> time \<Rightarrow> time \<Rightarrow> err" where
  "requireContainedTimes prefix parentCreated parentUpdated created updated =
     first_err
       [requirePersistedTimes prefix ''created_at'' created updated,
        fail_if (created < parentCreated)
          (replayViolation (prefix @ ''.created_at'') ''persisted child predates its aggregate'' None),
        fail_if (updated > parentUpdated)
          (replayViolation (prefix @ ''.updated_at'')
             ''persisted child update exceeds its aggregate update'' None)]"

definition requireNonBlankPersisted :: "string \<Rightarrow> string \<Rightarrow> err" where
  "requireNonBlankPersisted field value =
     fail_if (blank value) (replayViolation field ''persisted value must not be blank'' None)"

text \<open>Report a failed construction as a violation of \<open>field\<close>.\<close>

definition violates :: "string \<Rightarrow> string \<Rightarrow> 'a result \<Rightarrow> err" where
  "violates field message r =
    (case r of Inl e \<Rightarrow> Some (replayViolation field message (Some e)) | Inr _ \<Rightarrow> None)"

definition indexed :: "string \<Rightarrow> nat \<Rightarrow> string" where
  "indexed field i = field @ ''['' @ decimal i @ '']''"

definition validateGenerationSequence ::
    "string \<Rightarrow> uint64 \<Rightarrow> 'a list \<Rightarrow> ('a \<Rightarrow> uint64) \<Rightarrow> (nat \<Rightarrow> 'a \<Rightarrow> err) \<Rightarrow> err" where
  "validateGenerationSequence field current values generation validate =
     first_err
       (fail_if (current = 0 \<or> of_nat (length values) \<noteq> current)
          (replayViolation field
             ''persisted generations must contain every generation through the current generation'' None) #
        map (\<lambda>index.
          first_err
            [fail_if (generation (values ! index) \<noteq> of_nat (index + 1))
               (replayViolation (indexed field index @ ''.generation'')
                  ''persisted generations must be ordered and contiguous'' None),
             validate index (values ! index)])
          [0..<length values])"

text \<open>The identities seen so far in a loop are those of the earlier elements.\<close>

definition rememberPersistedID :: "string list \<Rightarrow> string \<Rightarrow> string \<Rightarrow> err" where
  "rememberPersistedID seen field value =
     fail_if (value \<in> set seen) (replayViolation field ''persisted identity is duplicated'' None)"

definition validatePersistedIncidentIDs :: "string \<Rightarrow> string list \<Rightarrow> err" where
  "validatePersistedIncidentIDs field values =
     first_err (map (\<lambda>index.
       first_err
         [err_of (parsePersisted (indexed field index) (values ! index) ParseIncidentID),
          rememberPersistedID (take index values) (indexed field index) (values ! index)])
       [0..<length values])"

section \<open>Aggregates on their own\<close>

definition validateReplaySession :: "SessionRecord \<Rightarrow> err" where
  "validateReplaySession value =
    (let sessionID = parsePersisted ''session.id'' (ses_ID value) ParseResearchSessionID
     in first_err
       [err_of sessionID,
        err_of (parsePersisted ''session.lease_id'' (ses_LeaseID value) ParseLeaseID),
        err_of (parsePersisted ''session.agent_workspace_id'' (ses_AgentWorkspaceID value) ParseAgentWorkspaceID),
        err_of (parsePersisted ''session.input_view_id'' (ses_InputViewID value) ParseInputViewID),
        err_of (parsePersistedDigest ''session.policy_digest'' (ses_PolicyDigest value)),
        err_of (parsePersistedDigest ''session.capability_digest'' (ses_CapabilityDigest value)),
        requireNonBlankPersisted ''session.owner_subject'' (ses_OwnerSubject value),
        fail_if (\<not> IsCanonicalIdempotencyKey (ses_AcquisitionIdempotencyKey value))
          (replayViolation ''session.acquisition_idempotency_key''
             ''persisted acquisition key is invalid'' None),
        violates ''session'' ''persisted session creation fields are invalid''
          (NewResearchSession (val_or zeroID sessionID) (ses_CreatedAt value)),
        requirePersistedState ''session.state'' (ResearchSessionState_IsValid (ses_State value)),
        requirePersistedRevision ''session.revision'' (ses_Revision value),
        requirePersistedTimes ''session'' ''created_at'' (ses_CreatedAt value) (ses_UpdatedAt value)])"

definition validateReplayLeaseTermination :: "LeaseRecord \<Rightarrow> err" where
  "validateReplayLeaseTermination value =
    (let t = lea_Termination value in
     if LeaseTermination_Empty t then
       fail_if (lea_State value \<in> {LeaseReleasing, LeaseReleased, LeaseExpired})
         (replayViolation ''lease.termination''
            ''persisted terminal or releasing lease lacks a termination intent'' None)
     else first_err
       [fail_if (\<not> LeaseTerminationKind_IsValid (ter_Kind t))
          (replayViolation ''lease.termination.kind'' ''persisted termination kind is not recognized'' None),
        fail_if (\<not> LeaseTerminationState_IsValid (ter_State t))
          (replayViolation ''lease.termination.state'' ''persisted termination state is not recognized'' None),
        requireNonBlankPersisted ''lease.termination.reason'' (ter_Reason t),
        fail_if (\<not> IsCanonicalIdempotencyKey (ter_BeginIdempotencyKey t))
          (replayViolation ''lease.termination.begin_idempotency_key''
             ''persisted idempotency key is invalid'' None),
        err_of (parsePersistedDigest ''lease.termination.begin_request_digest'' (ter_BeginRequestDigest t)),
        fail_if (ter_InitiatedLeaseRevision t < 2 \<or> ter_InitiatedLeaseRevision t > lea_Revision value)
          (replayViolation ''lease.termination.initiated_lease_revision''
             ''persisted initiating revision is outside the lease history'' None),
        fail_if (ter_InitiatedAt t = zero_time \<or> ter_InitiatedAt t < lea_CreatedAt value \<or>
                 ter_InitiatedAt t > lea_UpdatedAt value)
          (replayViolation ''lease.termination.initiated_at''
             ''persisted initiation timestamp is outside the lease lifetime'' None),
        (if ter_Kind t = LeaseTerminationRelease then first_err
           [fail_if (ter_State t \<noteq> LeaseTerminationReleasing \<and> ter_State t \<noteq> LeaseTerminationReleased)
              (replayViolation ''lease.termination.state'' ''release intent has an expiry state'' None),
            fail_if (ter_State t = LeaseTerminationReleasing \<and> lea_State value \<noteq> LeaseReleasing)
              (replayViolation ''lease.state'' ''releasing intent does not match lease state'' None),
            fail_if (ter_State t = LeaseTerminationReleased \<and> lea_State value \<noteq> LeaseReleased)
              (replayViolation ''lease.state'' ''released intent does not match lease state'' None),
            fail_if (\<not> ter_InitiatedAt t < lea_ExpiresAt value)
              (replayViolation ''lease.termination.initiated_at''
                 ''release began after the lease deadline'' None)]
         else if ter_Kind t = LeaseTerminationExpiry then first_err
           [fail_if (ter_State t \<noteq> LeaseTerminationExpiring \<and> ter_State t \<noteq> LeaseTerminationExpired)
              (replayViolation ''lease.termination.state'' ''expiry intent has a release state'' None),
            fail_if (ter_InitiatedAt t < lea_ExpiresAt value)
              (replayViolation ''lease.termination.initiated_at''
                 ''expiry began before the lease deadline'' None),
            fail_if (ter_State t = LeaseTerminationExpiring \<and> lea_State value \<noteq> LeaseActive)
              (replayViolation ''lease.state'' ''expiring intent does not match lease state'' None),
            fail_if (ter_State t = LeaseTerminationExpired \<and> lea_State value \<noteq> LeaseExpired)
              (replayViolation ''lease.state'' ''expired intent does not match lease state'' None)]
         else None),
        (if LeaseTerminationState_Terminal (ter_State t) then first_err
           [fail_if (\<not> IsCanonicalIdempotencyKey (ter_CompleteIdempotencyKey t))
              (replayViolation ''lease.termination.complete_idempotency_key''
                 ''persisted idempotency key is invalid'' None),
            err_of (parsePersistedDigest ''lease.termination.complete_request_digest''
              (ter_CompleteRequestDigest t)),
            fail_if (ter_CompletedAt t = zero_time \<or> ter_CompletedAt t < ter_InitiatedAt t \<or>
                     ter_CompletedAt t \<noteq> lea_UpdatedAt value)
              (replayViolation ''lease.termination.completed_at''
                 ''persisted completion timestamp is inconsistent'' None),
            fail_if (lea_Revision value \<noteq> ter_InitiatedLeaseRevision t + 1)
              (replayViolation ''lease.revision''
                 ''terminal lease revision does not follow its termination intent'' None)]
         else first_err
           [fail_if (ter_CompleteIdempotencyKey t \<noteq> [] \<or> ter_CompleteRequestDigest t \<noteq> [] \<or>
                     ter_CompletedAt t \<noteq> zero_time)
              (replayViolation ''lease.termination''
                 ''unfinished termination contains completion identity'' None),
            fail_if (lea_Revision value \<noteq> ter_InitiatedLeaseRevision t)
              (replayViolation ''lease.revision''
                 ''unfinished termination revision changed after initiation'' None)])])"

definition validateReplayLease :: "LeaseRecord \<Rightarrow> err" where
  "validateReplayLease value =
    (let leaseID = parsePersisted ''lease.id'' (lea_ID value) ParseLeaseID;
         sessionID = parsePersisted ''lease.session_id'' (lea_SessionID value) ParseResearchSessionID;
         agentID = parsePersisted ''lease.agent_workspace_id'' (lea_AgentWorkspaceID value) ParseAgentWorkspaceID;
         inputViewID = parsePersisted ''lease.input_view_id'' (lea_InputViewID value) ParseInputViewID;
         policyDigest = parsePersistedDigest ''lease.policy_digest'' (lea_PolicyDigest value);
         capabilityDigest = parsePersistedDigest ''lease.capability_digest'' (lea_CapabilityDigest value)
     in first_err
       [err_of leaseID, err_of sessionID, err_of agentID, err_of inputViewID, err_of policyDigest,
        err_of capabilityDigest,
        violates ''lease'' ''persisted lease creation fields are invalid''
          (NewLease
            \<lparr>lsp_ID = val_or zeroID leaseID, lsp_ResearchSessionID = val_or zeroID sessionID,
             lsp_AgentWorkspaceID = val_or zeroID agentID, lsp_AgentGeneration = lea_AgentGeneration value,
             lsp_InputViewID = val_or (InputViewID zeroDigest) inputViewID,
             lsp_PolicyDigest = val_or zeroDigest policyDigest,
             lsp_CapabilityFingerprintDigest = val_or zeroDigest capabilityDigest,
             lsp_ExpiresAt = lea_ExpiresAt value, lsp_CreatedAt = lea_CreatedAt value\<rparr>),
        requirePersistedState ''lease.state'' (LeaseState_IsValid (lea_State value)),
        requirePersistedRevision ''lease.revision'' (lea_Revision value),
        validateReplayLeaseTermination value,
        requirePersistedTimes ''lease'' ''created_at'' (lea_CreatedAt value) (lea_UpdatedAt value)])"

definition agentProvisioningBindingEmpty :: "AgentGenerationRecord \<Rightarrow> bool" where
  "agentProvisioningBindingEmpty g \<longleftrightarrow>
     agn_ProvisioningPlanDigest g = [] \<and> agn_WorkspaceProvisioningKey g = [] \<and> agn_AgentProvisioningKey g = []"

definition agentProvisioningBindingComplete :: "AgentGenerationRecord \<Rightarrow> bool" where
  "agentProvisioningBindingComplete g \<longleftrightarrow>
     agn_ProvisioningPlanDigest g \<noteq> [] \<and> agn_WorkspaceProvisioningKey g \<noteq> [] \<and> agn_AgentProvisioningKey g \<noteq> []"

definition sameAgentProvisioningBinding :: "AgentGenerationRecord \<Rightarrow> AgentGenerationRecord \<Rightarrow> bool" where
  "sameAgentProvisioningBinding l r \<longleftrightarrow>
     agn_ProvisioningPlanDigest l = agn_ProvisioningPlanDigest r \<and>
     agn_WorkspaceProvisioningKey l = agn_WorkspaceProvisioningKey r \<and>
     agn_AgentProvisioningKey l = agn_AgentProvisioningKey r"

definition validateAgentProvisioningBinding :: "string \<Rightarrow> AgentGenerationRecord \<Rightarrow> err" where
  "validateAgentProvisioningBinding prefix g =
    (if agentProvisioningBindingEmpty g then None
     else first_err
       [fail_if (\<not> agentProvisioningBindingComplete g)
          (replayViolation (prefix @ ''.provisioning'') ''persisted agent provisioning binding is partial'' None),
        err_of (parsePersistedDigest (prefix @ ''.provisioning_plan_digest'') (agn_ProvisioningPlanDigest g)),
        fail_if (\<not> IsCanonicalIdempotencyKey (agn_WorkspaceProvisioningKey g) \<or>
                 \<not> IsCanonicalIdempotencyKey (agn_AgentProvisioningKey g))
          (replayViolation (prefix @ ''.provisioning_key'')
             ''persisted provisioning keys are blank or have surrounding whitespace'' None)])"

definition validateReplayAgentGeneration ::
    "AgentWorkspaceID \<Rightarrow> AgentWorkspaceRecord \<Rightarrow> nat \<Rightarrow> AgentGenerationRecord \<Rightarrow> err" where
  "validateReplayAgentGeneration agentID value index g =
    (let prefix = indexed ''agent_workspace.generations'' index;
         workspaceID = parsePersisted (prefix @ ''.workspace_id'') (agn_WorkspaceID g) ParseWorkspaceID;
         inputViewID = parsePersisted (prefix @ ''.input_view_id'') (agn_InputViewID g) ParseInputViewID;
         policyDigest = parsePersistedDigest (prefix @ ''.policy_digest'') (agn_PolicyDigest g);
         capabilityDigest = parsePersistedDigest (prefix @ ''.capability_digest'') (agn_CapabilityDigest g);
         recoveryIncident = parseOptionalPersisted (prefix @ ''.recovery_incident'')
           (agn_RecoveryIncident g) zeroID ParseIncidentID
     in first_err
       [err_of workspaceID,
        rememberPersistedID (map agn_WorkspaceID (take index (agt_Generations value)))
          (prefix @ ''.workspace_id'') (agn_WorkspaceID g),
        err_of inputViewID, err_of policyDigest, err_of capabilityDigest,
        validateAgentProvisioningBinding prefix g,
        err_of recoveryIncident,
        violates prefix ''persisted agent generation creation fields are invalid''
          (NewAgentWorkspaceGeneration
            \<lparr>ags_AgentWorkspaceID = agentID, ags_Generation = agn_Generation g,
             ags_WorkspaceID = val_or zeroID workspaceID,
             ags_InputViewID = val_or (InputViewID zeroDigest) inputViewID,
             ags_PolicyDigest = val_or zeroDigest policyDigest,
             ags_CapabilityFingerprintDigest = val_or zeroDigest capabilityDigest,
             ags_PreviousGeneration = agn_Previous g,
             ags_RecoveryIncidentID = val_or zeroID recoveryIncident,
             ags_CreatedAt = agn_CreatedAt g\<rparr>),
        requirePersistedState (prefix @ ''.state'') (AgentGenerationState_IsValid (agn_State g)),
        requirePersistedRevision (prefix @ ''.revision'') (agn_Revision g),
        requireContainedTimes prefix (agt_CreatedAt value) (agt_UpdatedAt value) (agn_CreatedAt g) (agn_UpdatedAt g)])"

definition validateReplayAgentWorkspace :: "AgentWorkspaceRecord \<Rightarrow> err" where
  "validateReplayAgentWorkspace value =
    (let agentID = parsePersisted ''agent_workspace.id'' (agt_ID value) ParseAgentWorkspaceID;
         sessionID = parsePersisted ''agent_workspace.session_id'' (agt_SessionID value) ParseResearchSessionID
     in first_err
       [err_of agentID, err_of sessionID,
        violates ''agent_workspace'' ''persisted agent workspace creation fields are invalid''
          (NewAgentWorkspace (val_or zeroID agentID) (val_or zeroID sessionID)
             (agt_CurrentGeneration value) (agt_CreatedAt value)),
        requirePersistedRevision ''agent_workspace.revision'' (agt_Revision value),
        requirePersistedTimes ''agent_workspace'' ''created_at'' (agt_CreatedAt value) (agt_UpdatedAt value),
        validateGenerationSequence ''agent_workspace.generations'' (agt_CurrentGeneration value)
          (agt_Generations value) agn_Generation
          (validateReplayAgentGeneration (val_or zeroID agentID) value)])"

definition nul :: char where
  "nul = CHR 0x00"

definition validateExecCommand :: "string \<Rightarrow> string list \<Rightarrow> string \<Rightarrow> err" where
  "validateExecCommand executable argv workingDirectory =
     first_err
       ([fail_if (blank executable \<or> nul \<in> set executable)
           (invalidArgument ''exec.validate_command'' ''executable'' ''is required and must not contain NUL'' None),
         fail_if (length executable > 4096 \<or> length workingDirectory > 4096 \<or> length argv > 4096)
           (resourceExhausted ''exec.validate_command'' ''command'' ''exceeds structural limits'' None),
         fail_if (nul \<in> set workingDirectory)
           (invalidArgument ''exec.validate_command'' ''working_directory'' ''must not contain NUL'' None)] @
        map (\<lambda>index. fail_if (length (argv ! index) > 2 ^ 20 \<or> nul \<in> set (argv ! index))
          (invalidArgument ''exec.validate_command'' (indexed ''argv'' index)
             ''exceeds limits or contains NUL'' None)) [0..<length argv])"

definition validateReplayExec :: "ExecRecord \<Rightarrow> err" where
  "validateReplayExec value =
    (let execID = parsePersisted ''exec.id'' (exe_ID value) ParseExecID;
         leaseID = parsePersisted ''exec.lease_id'' (exe_LeaseID value) ParseLeaseID;
         agentID = parsePersisted ''exec.agent_workspace_id'' (exe_AgentWorkspaceID value) ParseAgentWorkspaceID
     in first_err
       [err_of execID,
        err_of (parsePersisted ''exec.session_id'' (exe_SessionID value) ParseResearchSessionID),
        err_of leaseID, err_of agentID,
        (case validateExecCommand (exe_Executable value) (exe_Argv value) (exe_WorkingDirectory value) of
           None \<Rightarrow> None
         | Some e \<Rightarrow> Some (replayViolation ''exec.command'' ''persisted exec command is invalid'' (Some e))),
        violates ''exec'' ''persisted exec creation fields are invalid''
          (NewExec
            \<lparr>exs_ID = val_or zeroID execID, exs_LeaseID = val_or zeroID leaseID,
             exs_AgentWorkspaceID = val_or zeroID agentID, exs_AgentGeneration = exe_AgentGeneration value,
             exs_Kind = exe_Kind value, exs_Executable = exe_Executable value, exs_Argv = exe_Argv value,
             exs_WorkingDirectory = exe_WorkingDirectory value, exs_CreatedAt = exe_CreatedAt value\<rparr>),
        requirePersistedState ''exec.state'' (ExecState_IsValid (exe_State value)),
        requirePersistedRevision ''exec.revision'' (exe_Revision value),
        requirePersistedTimes ''exec'' ''created_at'' (exe_CreatedAt value) (exe_UpdatedAt value),
        fail_if (exe_State value = ExecCompleted \<and>
                 (exe_ExitCode value \<noteq> Some 0 \<or> \<not> exe_CleanupConfirmed value))
          (replayViolation ''exec.terminal''
             ''completed exec lacks a zero exit code or confirmed cleanup'' None),
        validatePersistedIncidentIDs ''exec.incident_ids'' (exe_IncidentIDs value)])"

definition targetProvisioningBindingEmpty :: "TargetGenerationRecord \<Rightarrow> bool" where
  "targetProvisioningBindingEmpty g \<longleftrightarrow> tgn_ProvisioningPlanDigest g = [] \<and> tgn_ProvisioningKey g = []"

definition targetProvisioningBindingComplete :: "TargetGenerationRecord \<Rightarrow> bool" where
  "targetProvisioningBindingComplete g \<longleftrightarrow> tgn_ProvisioningPlanDigest g \<noteq> [] \<and> tgn_ProvisioningKey g \<noteq> []"

definition sameTargetProvisioningBinding :: "TargetGenerationRecord \<Rightarrow> TargetGenerationRecord \<Rightarrow> bool" where
  "sameTargetProvisioningBinding l r \<longleftrightarrow>
     tgn_ProvisioningPlanDigest l = tgn_ProvisioningPlanDigest r \<and> tgn_ProvisioningKey l = tgn_ProvisioningKey r"

definition validateTargetProvisioningBinding :: "string \<Rightarrow> TargetGenerationRecord \<Rightarrow> err" where
  "validateTargetProvisioningBinding prefix g =
    (if targetProvisioningBindingEmpty g then None
     else first_err
       [fail_if (\<not> targetProvisioningBindingComplete g)
          (replayViolation (prefix @ ''.provisioning'') ''persisted target provisioning binding is partial'' None),
        err_of (parsePersistedDigest (prefix @ ''.provisioning_plan_digest'') (tgn_ProvisioningPlanDigest g)),
        fail_if (\<not> IsCanonicalIdempotencyKey (tgn_ProvisioningKey g))
          (replayViolation (prefix @ ''.provisioning_key'') ''persisted provisioning key is invalid'' None)])"

definition targetRunProvisioningBindingEmpty :: "TargetRunRecord \<Rightarrow> bool" where
  "targetRunProvisioningBindingEmpty r \<longleftrightarrow> run_ProvisioningPlanDigest r = [] \<and> run_ProvisioningKey r = []"

definition targetRunProvisioningBindingComplete :: "TargetRunRecord \<Rightarrow> bool" where
  "targetRunProvisioningBindingComplete r \<longleftrightarrow> run_ProvisioningPlanDigest r \<noteq> [] \<and> run_ProvisioningKey r \<noteq> []"

definition sameTargetRunProvisioningBinding :: "TargetRunRecord \<Rightarrow> TargetRunRecord \<Rightarrow> bool" where
  "sameTargetRunProvisioningBinding l r \<longleftrightarrow>
     run_ProvisioningPlanDigest l = run_ProvisioningPlanDigest r \<and> run_ProvisioningKey l = run_ProvisioningKey r"

definition validateTargetRunProvisioningBinding :: "string \<Rightarrow> TargetRunRecord \<Rightarrow> err" where
  "validateTargetRunProvisioningBinding prefix r =
    (if targetRunProvisioningBindingEmpty r then None
     else first_err
       [fail_if (\<not> targetRunProvisioningBindingComplete r)
          (replayViolation (prefix @ ''.provisioning'') ''persisted target run provisioning binding is partial'' None),
        err_of (parsePersistedDigest (prefix @ ''.provisioning_plan_digest'') (run_ProvisioningPlanDigest r)),
        fail_if (\<not> IsCanonicalIdempotencyKey (run_ProvisioningKey r))
          (replayViolation (prefix @ ''.provisioning_key'') ''persisted provisioning key is invalid'' None)])"

definition validateReplayTargetGeneration ::
    "TargetID \<Rightarrow> TargetRecord \<Rightarrow> nat \<Rightarrow> TargetGenerationRecord \<Rightarrow> err" where
  "validateReplayTargetGeneration targetID value index g =
    (let prefix = indexed ''target.generations'' index;
         policyDigest = parsePersistedDigest (prefix @ ''.policy_digest'') (tgn_PolicyDigest g);
         capabilityDigest = parsePersistedDigest (prefix @ ''.capability_digest'') (tgn_CapabilityDigest g);
         recoveryIncident = parseOptionalPersisted (prefix @ ''.recovery_incident'')
           (tgn_RecoveryIncident g) zeroID ParseIncidentID
     in first_err
       [err_of policyDigest, err_of capabilityDigest, err_of recoveryIncident,
        violates prefix ''persisted target generation creation fields are invalid''
          (NewTargetGeneration
            \<lparr>tgs_TargetID = targetID, tgs_Generation = tgn_Generation g,
             tgs_PolicyDigest = val_or zeroDigest policyDigest,
             tgs_CapabilityFingerprintDigest = val_or zeroDigest capabilityDigest,
             tgs_PreviousGeneration = tgn_Previous g,
             tgs_RecoveryIncidentID = val_or zeroID recoveryIncident,
             tgs_CreatedAt = tgn_CreatedAt g\<rparr>),
        requirePersistedState (prefix @ ''.state'') (TargetGenerationState_IsValid (tgn_State g)),
        requirePersistedRevision (prefix @ ''.revision'') (tgn_Revision g),
        validateTargetProvisioningBinding prefix g,
        requireContainedTimes prefix (tgt_CreatedAt value) (tgt_UpdatedAt value) (tgn_CreatedAt g) (tgn_UpdatedAt g)])"

definition validateReplayRun ::
    "TargetID \<Rightarrow> LeaseID \<Rightarrow> TargetRecord \<Rightarrow> nat \<Rightarrow> TargetRunRecord \<Rightarrow> err" where
  "validateReplayRun targetID leaseID value index r =
    (let prefix = indexed ''target.runs'' index;
         runID = parsePersisted (prefix @ ''.id'') (run_ID r) ParseTargetRunID;
         agentID = parsePersisted (prefix @ ''.agent_workspace_id'') (run_AgentWorkspaceID r) ParseAgentWorkspaceID;
         materializationDigest = parsePersistedDigest (prefix @ ''.materialization_digest'')
           (run_MaterializationDigest r)
     in first_err
       [err_of runID,
        rememberPersistedID (map run_ID (take index (tgt_Runs value))) (prefix @ ''.id'') (run_ID r),
        fail_if (run_Generation r = 0 \<or> run_Generation r > tgt_CurrentGeneration value)
          (replayViolation (prefix @ ''.generation'') ''persisted run refers to a missing target generation'' None),
        err_of agentID, err_of materializationDigest,
        violates prefix ''persisted target run creation fields are invalid''
          (NewTargetRun
            \<lparr>trs_ID = val_or zeroID runID, trs_LeaseID = leaseID, trs_TargetID = targetID,
             trs_TargetGeneration = run_Generation r, trs_AgentWorkspaceID = val_or zeroID agentID,
             trs_AgentGeneration = run_AgentGeneration r,
             trs_MaterializationDigest = val_or zeroDigest materializationDigest,
             trs_CreatedAt = run_CreatedAt r\<rparr>),
        requirePersistedState (prefix @ ''.state'') (TargetRunState_IsValid (run_State r)),
        requirePersistedRevision (prefix @ ''.revision'') (run_Revision r),
        validateTargetRunProvisioningBinding prefix r,
        requireContainedTimes prefix (tgt_CreatedAt value) (tgt_UpdatedAt value) (run_CreatedAt r) (run_UpdatedAt r),
        err_of (parseOptionalPersisted (prefix @ ''.bundle_id'') (run_BundleID r) zeroID ParseObservationBundleID),
        fail_if ((run_BundleArtifact r = []) \<noteq> (run_BundleDigest r = []))
          (replayViolation (prefix @ ''.bundle'')
             ''persisted bundle artifact and digest must be present together'' None),
        fail_if (run_BundleArtifact r \<noteq> [] \<and> run_BundleID r = [])
          (replayViolation (prefix @ ''.bundle'') ''persisted bundle artifact requires a bundle identity'' None),
        (if run_BundleDigest r \<noteq> [] then
           err_of (parsePersistedDigest (prefix @ ''.bundle_digest'') (run_BundleDigest r)) else None),
        fail_if ((run_State r = TargetRunCompleted \<or> run_State r = TargetRunFailed) \<and> run_BundleID r = [])
          (replayViolation (prefix @ ''.bundle_id'')
             ''finalized run lacks its observation bundle identity'' None),
        validatePersistedIncidentIDs (prefix @ ''.incident_ids'') (run_IncidentIDs r)])"

text \<open>After the loop over the runs, \<open>runGenerations\<close> maps each run identity to its generation.\<close>

definition runGenerations :: "TargetRecord \<Rightarrow> string \<Rightarrow> uint64 option" where
  "runGenerations value = map_of (map (\<lambda>r. (run_ID r, run_Generation r)) (tgt_Runs value))"

definition validateReplayOperation ::
    "TargetID \<Rightarrow> LeaseID \<Rightarrow> TargetRecord \<Rightarrow> nat \<Rightarrow> TargetOperationRecord \<Rightarrow> err" where
  "validateReplayOperation targetID leaseID value index q =
    (let prefix = indexed ''target.operations'' index;
         operationID = parsePersisted (prefix @ ''.id'') (ope_ID q) ParseTargetOperationID;
         runID = parsePersisted (prefix @ ''.run_id'') (ope_RunID q) ParseTargetRunID;
         contentDigest = (if ope_ContentDigest q \<noteq> [] then
           parsePersistedDigest (prefix @ ''.content_digest'') (ope_ContentDigest q) else Inr zeroDigest)
     in first_err
       [err_of operationID,
        rememberPersistedID (map ope_ID (take index (tgt_Operations value))) (prefix @ ''.id'') (ope_ID q),
        fail_if (runGenerations value (ope_RunID q) \<noteq> Some (ope_Generation q))
          (replayViolation (prefix @ ''.run_id'')
             ''persisted operation does not match an aggregate run generation'' None),
        err_of runID, err_of contentDigest,
        violates prefix ''persisted target operation creation fields are invalid''
          (NewTargetOperation
            \<lparr>tos_ID = val_or zeroID operationID, tos_LeaseID = leaseID, tos_TargetID = targetID,
             tos_TargetGeneration = ope_Generation q, tos_TargetRunID = val_or zeroID runID,
             tos_Kind = ope_Kind q, tos_CommandDisplay = ope_CommandDisplay q,
             tos_ContentDigest = val_or zeroDigest contentDigest, tos_CreatedAt = ope_CreatedAt q\<rparr>),
        requirePersistedState (prefix @ ''.state'') (TargetOperationState_IsValid (ope_State q)),
        requirePersistedRevision (prefix @ ''.revision'') (ope_Revision q),
        requireContainedTimes prefix (tgt_CreatedAt value) (tgt_UpdatedAt value) (ope_CreatedAt q) (ope_UpdatedAt q)])"

definition validateReplayTarget :: "TargetRecord \<Rightarrow> err" where
  "validateReplayTarget value =
    (let targetID = parsePersisted ''target.id'' (tgt_ID value) ParseTargetID;
         sessionID = parsePersisted ''target.session_id'' (tgt_SessionID value) ParseResearchSessionID;
         leaseID = parsePersisted ''target.lease_id'' (tgt_LeaseID value) ParseLeaseID
     in first_err
       ([err_of targetID, err_of sessionID, err_of leaseID,
         requireNonBlankPersisted ''target.template'' (tgt_Template value),
         fail_if (\<not> IsCanonicalIdempotencyKey (tgt_CreationIdempotencyKey value))
           (replayViolation ''target.creation_idempotency_key'' ''persisted creation key is invalid'' None),
         violates ''target'' ''persisted target creation fields are invalid''
           (NewTarget (val_or zeroID targetID) (val_or zeroID sessionID) (tgt_Kind value)
              (tgt_CurrentGeneration value) (tgt_CreatedAt value)),
         requirePersistedRevision ''target.revision'' (tgt_Revision value),
         requirePersistedTimes ''target'' ''created_at'' (tgt_CreatedAt value) (tgt_UpdatedAt value),
         validateGenerationSequence ''target.generations'' (tgt_CurrentGeneration value)
           (tgt_Generations value) tgn_Generation
           (validateReplayTargetGeneration (val_or zeroID targetID) value)] @
        map (\<lambda>index. validateReplayRun (val_or zeroID targetID) (val_or zeroID leaseID) value index
               (tgt_Runs value ! index)) [0..<length (tgt_Runs value)] @
        map (\<lambda>index. validateReplayOperation (val_or zeroID targetID) (val_or zeroID leaseID) value index
               (tgt_Operations value ! index)) [0..<length (tgt_Operations value)]))"

section \<open>Incident evidence as domain models\<close>

definition optionalID :: "(string \<Rightarrow> 'p typedID result) \<Rightarrow> string \<Rightarrow> 'p typedID result" where
  "optionalID parse value = (if value = [] then Inr zeroID else parse value)"

fun map_results :: "(nat \<Rightarrow> 'a \<Rightarrow> 'b result) \<Rightarrow> nat \<Rightarrow> 'a list \<Rightarrow> 'b list result" where
  "map_results f index [] = Inr []"
| "map_results f index (x # xs) =
     bind_r (f index x) (\<lambda>y. bind_r (map_results f (index + 1) xs) (\<lambda>ys. Inr (y # ys)))"

definition wrap_err :: "string \<Rightarrow> 'a result \<Rightarrow> 'a result" where
  "wrap_err text r = (case r of Inl e \<Rightarrow> Inl (Wrapped text e) | Inr v \<Rightarrow> Inr v)"

definition incidentMetricModel :: "nat \<Rightarrow> IncidentMetricRecord \<Rightarrow> MetricSample result" where
  "incidentMetricModel index m =
    (let at = ''high water metric '' @ decimal index in
     bind_r (wrap_err (at @ '' subject'') (ParseSubjectID (imr_SubjectID m))) (\<lambda>subjectID.
     bind_r (wrap_err (at @ '' exec'') (optionalID ParseExecID (imr_ExecID m))) (\<lambda>execID.
     bind_r (wrap_err (at @ '' target run'') (optionalID ParseTargetRunID (imr_TargetRunID m))) (\<lambda>runID.
     wrap_err at (NewMetricSample
       \<lparr>met_SubjectID = subjectID, met_SubjectKind = imr_SubjectKind m, met_Name = imr_Name m,
        met_Unit = imr_Unit m, met_Kind = imr_Kind m, met_Availability = imr_Availability m,
        met_CounterValue = imr_CounterValue m, met_NumericValue = imr_NumericValue m,
        met_CollectedAt = imr_CollectedAt m, met_PublishedAt = imr_PublishedAt m, met_Cursor = imr_Cursor m,
        met_Labels = imr_Labels m, met_ExecID = execID, met_TargetRunID = runID\<rparr>)))))"

definition incidentMetricModels :: "IncidentMetricRecord list \<Rightarrow> MetricSample list result" where
  "incidentMetricModels records = map_results incidentMetricModel 0 records"

definition incidentGapModel :: "nat \<Rightarrow> nat \<Rightarrow> IncidentGapRecord \<Rightarrow> Gap result" where
  "incidentGapModel index gapIndex g =
     wrap_err (''coverage '' @ decimal index @ '' gap '' @ decimal gapIndex) (NewGap
       \<lparr>gap_Kind = igr_Kind g, gap_Source = igr_Source g, gap_SourceInstance = igr_SourceInstance g,
        gap_FirstSourceSequence = igr_FirstSourceSequence g, gap_LastSourceSequence = igr_LastSourceSequence g,
        gap_FirstCursor = igr_FirstCursor g, gap_LastCursor = igr_LastCursor g,
        gap_StartedAt = igr_StartedAt g, gap_EndedAt = igr_EndedAt g, gap_LostRecords = igr_LostRecords g,
        gap_Reason = igr_Reason g\<rparr>)"

definition incidentCoverageModel :: "nat \<Rightarrow> IncidentCoverageRecord \<Rightarrow> CollectorCoverage result" where
  "incidentCoverageModel index c =
    (let at = ''coverage '' @ decimal index in
     bind_r (wrap_err (at @ '' collector'') (ParseCollectorID (icr_CollectorID c))) (\<lambda>collectorID.
     bind_r (map_results (incidentGapModel index) 0 (icr_Gaps c)) (\<lambda>gaps.
     wrap_err at (NewCollectorCoverage
       \<lparr>cov_CollectorID = collectorID, cov_SignalFamily = icr_SignalFamily c, cov_Placement = icr_Placement c,
        cov_Level = icr_Level c, cov_Status = icr_Status c, cov_Required = icr_Required c,
        cov_StartedAt = icr_StartedAt c, cov_EndedAt = icr_EndedAt c,
        cov_DroppedRecords = icr_DroppedRecords c, cov_Gaps = gaps\<rparr>))))"

definition incidentCoverageModels :: "IncidentCoverageRecord list \<Rightarrow> CollectorCoverage list result" where
  "incidentCoverageModels records = map_results incidentCoverageModel 0 records"

definition incidentArtifactModel :: "nat \<Rightarrow> IncidentArtifactRecord \<Rightarrow> ArtifactReference result" where
  "incidentArtifactModel index a =
    (let at = ''artifact '' @ decimal index in
     bind_r (wrap_err (at @ '' digest'') (ParseDigest (iar_Digest a))) (\<lambda>digest.
     wrap_err at (NewArtifactReference
       \<lparr>art_Reference = iar_Reference a, art_Digest = digest, art_Size = iar_Size a, art_Role = iar_Role a,
        art_Sensitivity = iar_Sensitivity a\<rparr>)))"

definition incidentArtifactModels :: "IncidentArtifactRecord list \<Rightarrow> ArtifactReference list result" where
  "incidentArtifactModels records = map_results incidentArtifactModel 0 records"

definition zero_cause :: CauseAssessment where
  "zero_cause = CauseAssessment \<lparr>cau_Kind = CauseKindOther [], cau_Summary = [], cau_Method = [],
     cau_Confidence = f_of_int 0\<rparr>"

definition validateReplayIncident :: "IncidentRecord \<Rightarrow> err" where
  "validateReplayIncident value =
    (let incidentID = parsePersisted ''incident.id'' (inc_ID value) ParseIncidentID;
         sessionID = parsePersisted ''incident.session_id'' (inc_SessionID value) ParseResearchSessionID;
         leaseID = parseOptionalPersisted ''incident.lease_id'' (inc_LeaseID value) zeroID ParseLeaseID;
         agentID = parseOptionalPersisted ''incident.agent_workspace_id'' (inc_AgentWorkspaceID value) zeroID
           ParseAgentWorkspaceID;
         execID = parseOptionalPersisted ''incident.exec_id'' (inc_ExecID value) zeroID ParseExecID;
         targetID = parseOptionalPersisted ''incident.target_id'' (inc_TargetID value) zeroID ParseTargetID;
         runID = parseOptionalPersisted ''incident.target_run_id'' (inc_TargetRunID value) zeroID ParseTargetRunID;
         bundleID = parseOptionalPersisted ''incident.observation_bundle_id'' (inc_ObservationBundleID value)
           zeroID ParseObservationBundleID;
         cause = NewCauseAssessment
           \<lparr>cau_Kind = crc_Kind (inc_Cause value), cau_Summary = crc_Summary (inc_Cause value),
            cau_Method = crc_Method (inc_Cause value), cau_Confidence = crc_Confidence (inc_Cause value)\<rparr>;
         metrics = incidentMetricModels (inc_HighWaterMetrics value);
         coverage = incidentCoverageModels (inc_Coverage value);
         artifacts = incidentArtifactModels (inc_Artifacts value)
     in first_err
       [err_of incidentID, err_of sessionID, err_of leaseID, err_of agentID, err_of execID, err_of targetID,
        err_of runID, err_of bundleID,
        violates ''incident.cause'' ''persisted cause is invalid'' cause,
        violates ''incident.high_water_metrics'' ''persisted metrics are invalid'' metrics,
        violates ''incident.coverage'' ''persisted coverage is invalid'' coverage,
        violates ''incident.artifacts'' ''persisted artifacts are invalid'' artifacts,
        violates ''incident'' ''persisted incident creation fields are invalid''
          (NewIncident
            \<lparr>ins_ID = val_or zeroID incidentID, ins_Classification = inc_Classification value,
             ins_ResearchSessionID = val_or zeroID sessionID, ins_LeaseID = val_or zeroID leaseID,
             ins_AgentWorkspaceID = val_or zeroID agentID, ins_AgentGeneration = inc_AgentGeneration value,
             ins_ExecID = val_or zeroID execID, ins_TargetID = val_or zeroID targetID,
             ins_TargetGeneration = inc_TargetGeneration value, ins_TargetRunID = val_or zeroID runID,
             ins_Trigger = inc_Trigger value, ins_LastKnownState = inc_LastKnownState value,
             ins_Cause = val_or zero_cause cause, ins_HighWaterMetrics = val_or [] metrics,
             ins_FirstRelevantCursor = inc_FirstRelevantCursor value,
             ins_LastRelevantCursor = inc_LastRelevantCursor value,
             ins_Coverage = val_or [] coverage, ins_ObservationBundleID = val_or zeroID bundleID,
             ins_Artifacts = val_or [] artifacts, ins_RecoveryActions = inc_RecoveryActions value,
             ins_VisibilityAcknowledgements = inc_VisibilityAcknowledgements value,
             ins_OccurredAt = inc_OccurredAt value\<rparr>),
        requirePersistedState ''incident.state'' (IncidentState_IsValid (inc_State value)),
        requirePersistedRevision ''incident.revision'' (inc_Revision value),
        fail_if (inc_State value \<noteq> IncidentOpen \<and> inc_ObservationBundleID value = [] \<and> inc_Artifacts value = [])
          (replayViolation ''incident.state'' ''persisted sealed incident has no evidence identity'' None),
        fail_if (inc_State value = IncidentRecovering \<and>
                 (inc_RecoveryActions value = [] \<or> inc_VisibilityAcknowledgements value = []))
          (replayViolation ''incident.state''
             ''persisted recovering incident lacks recovery and visibility records'' None),
        requirePersistedTimes ''incident'' ''occurred_at'' (inc_OccurredAt value) (inc_UpdatedAt value)])"

section \<open>Successor checks\<close>

definition requireReplayRevisionAdvance :: "string \<Rightarrow> uint64 \<Rightarrow> uint64 \<Rightarrow> time \<Rightarrow> time \<Rightarrow> err" where
  "requireReplayRevisionAdvance prefix previous next previousUpdated nextUpdated =
     first_err
       [fail_if (previous = - 1 \<or> next \<noteq> previous + 1)
          (replayViolation (prefix @ ''.revision'')
             (''persisted aggregate revision '' @ uintString next @ '' is not the successor of '' @
              uintString previous) None),
        fail_if (nextUpdated < previousUpdated)
          (replayViolation (prefix @ ''.updated_at'') ''persisted aggregate update moved backwards'' None)]"

definition requireReplayGenerationAdvance :: "string \<Rightarrow> uint64 \<Rightarrow> uint64 \<Rightarrow> err" where
  "requireReplayGenerationAdvance field previous next =
     fail_if (next < previous \<or> next - previous > 1)
       (replayViolation field ''persisted generation did not advance monotonically by at most one'' None)"

definition requireReplayStateAdvance ::
    "string \<Rightarrow> uint64 \<Rightarrow> uint64 \<Rightarrow> time \<Rightarrow> time \<Rightarrow> 's \<Rightarrow> 's \<Rightarrow> ('s \<Rightarrow> 's \<Rightarrow> err) \<Rightarrow> err" where
  "requireReplayStateAdvance prefix previousRevision nextRevision previousUpdated nextUpdated
       previousState nextState transition =
     first_err
       [requireReplayRevisionAdvance prefix previousRevision nextRevision previousUpdated nextUpdated,
        (if previousState \<noteq> nextState then
           (case transition previousState nextState of
              None \<Rightarrow> None
            | Some e \<Rightarrow> Some (replayViolation (prefix @ ''.state'')
                ''persisted state transition is invalid'' (Some e)))
         else None)]"

definition requireNestedReplayStateAdvance ::
    "string \<Rightarrow> uint64 \<Rightarrow> uint64 \<Rightarrow> time \<Rightarrow> time \<Rightarrow> 's \<Rightarrow> 's \<Rightarrow> ('s \<Rightarrow> 's \<Rightarrow> err) \<Rightarrow> err" where
  "requireNestedReplayStateAdvance prefix previousRevision nextRevision previousUpdated nextUpdated
       previousState nextState transition =
    (if nextRevision = previousRevision then
       fail_if (previousState \<noteq> nextState \<or> previousUpdated \<noteq> nextUpdated)
         (replayViolation (prefix @ ''.revision'') ''persisted nested state changed without a revision'' None)
     else requireReplayStateAdvance prefix previousRevision nextRevision previousUpdated nextUpdated
       previousState nextState transition)"

definition hasAgentGeneration :: "AgentWorkspaceRecord \<Rightarrow> uint64 \<Rightarrow> bool" where
  "hasAgentGeneration agent generation \<longleftrightarrow>
     generation > 0 \<and> unat generation \<le> length (agt_Generations agent) \<and>
     agn_Generation (agt_Generations agent ! (unat generation - 1)) = generation"

definition hasTargetGeneration :: "TargetRecord \<Rightarrow> uint64 \<Rightarrow> bool" where
  "hasTargetGeneration target generation \<longleftrightarrow>
     generation > 0 \<and> unat generation \<le> length (tgt_Generations target) \<and>
     tgn_Generation (tgt_Generations target ! (unat generation - 1)) = generation"

definition targetRunByID :: "TargetRecord \<Rightarrow> string \<Rightarrow> TargetRunRecord option" where
  "targetRunByID target runID = find (\<lambda>r. run_ID r = runID) (tgt_Runs target)"

definition validateAgentGenerationHistory ::
    "AgentGenerationRecord list \<Rightarrow> AgentGenerationRecord list \<Rightarrow> err" where
  "validateAgentGenerationHistory previous next =
     first_err
       (fail_if (length next < length previous \<or> length next > length previous + 1)
          (replayViolation ''agent_workspace.generations''
             ''persisted agent generation history was removed or skipped'' None) #
        map (\<lambda>index.
          let before = previous ! index; after = next ! index;
              prefix = indexed ''agent_workspace.generations'' index
          in first_err
            [fail_if (agn_Generation before \<noteq> agn_Generation after \<or> agn_WorkspaceID before \<noteq> agn_WorkspaceID after \<or>
                agn_InputViewID before \<noteq> agn_InputViewID after \<or> agn_PolicyDigest before \<noteq> agn_PolicyDigest after \<or>
                agn_CapabilityDigest before \<noteq> agn_CapabilityDigest after \<or> agn_Previous before \<noteq> agn_Previous after \<or>
                agn_RecoveryIncident before \<noteq> agn_RecoveryIncident after \<or> agn_CreatedAt before \<noteq> agn_CreatedAt after)
               (replayViolation prefix ''persisted agent generation identity or provenance changed'' None),
             fail_if (\<not> sameAgentProvisioningBinding before after \<and>
                (\<not> agentProvisioningBindingEmpty before \<or> \<not> agentProvisioningBindingComplete after))
               (replayViolation (prefix @ ''.provisioning'')
                  ''persisted agent provisioning binding changed after it was established'' None),
             requireNestedReplayStateAdvance prefix (agn_Revision before) (agn_Revision after)
               (agn_UpdatedAt before) (agn_UpdatedAt after) (agn_State before) (agn_State after)
               RequireAgentGenerationTransition])
          [0..<length previous])"

definition validateTargetGenerationHistory ::
    "TargetGenerationRecord list \<Rightarrow> TargetGenerationRecord list \<Rightarrow> err" where
  "validateTargetGenerationHistory previous next =
     first_err
       (fail_if (length next < length previous \<or> length next > length previous + 1)
          (replayViolation ''target.generations''
             ''persisted target generation history was removed or skipped'' None) #
        map (\<lambda>index.
          let before = previous ! index; after = next ! index;
              prefix = indexed ''target.generations'' index
          in first_err
            [fail_if (tgn_Generation before \<noteq> tgn_Generation after \<or> tgn_PolicyDigest before \<noteq> tgn_PolicyDigest after \<or>
                tgn_CapabilityDigest before \<noteq> tgn_CapabilityDigest after \<or> tgn_Previous before \<noteq> tgn_Previous after \<or>
                tgn_RecoveryIncident before \<noteq> tgn_RecoveryIncident after \<or> tgn_CreatedAt before \<noteq> tgn_CreatedAt after)
               (replayViolation prefix ''persisted target generation identity or provenance changed'' None),
             fail_if (\<not> sameTargetProvisioningBinding before after \<and>
                (\<not> targetProvisioningBindingEmpty before \<or> \<not> targetProvisioningBindingComplete after))
               (replayViolation (prefix @ ''.provisioning'')
                  ''persisted target provisioning binding changed after it was established'' None),
             requireNestedReplayStateAdvance prefix (tgn_Revision before) (tgn_Revision after)
               (tgn_UpdatedAt before) (tgn_UpdatedAt after) (tgn_State before) (tgn_State after)
               RequireTargetGenerationTransition])
          [0..<length previous])"

text \<open>The map filled by a loop over \<open>next\<close> holds, for each identity, the last element with it.\<close>

definition by_last_id :: "('a \<Rightarrow> string) \<Rightarrow> 'a list \<Rightarrow> string \<Rightarrow> 'a option" where
  "by_last_id ident xs i = find (\<lambda>x. ident x = i) (rev xs)"

definition validateTargetRunHistory :: "TargetRunRecord list \<Rightarrow> TargetRunRecord list \<Rightarrow> err" where
  "validateTargetRunHistory previous next =
     first_err
       (fail_if (length next < length previous)
          (replayViolation ''target.runs'' ''persisted target run history was removed'' None) #
        map (\<lambda>index.
          let before = previous ! index; prefix = indexed ''target.runs'' index in
          case by_last_id run_ID next (run_ID before) of
            None \<Rightarrow> Some (replayViolation prefix ''persisted target run identity changed'' None)
          | Some after \<Rightarrow> first_err
            [fail_if (run_Generation before \<noteq> run_Generation after \<or>
                run_AgentWorkspaceID before \<noteq> run_AgentWorkspaceID after \<or>
                run_AgentGeneration before \<noteq> run_AgentGeneration after \<or>
                run_MaterializationDigest before \<noteq> run_MaterializationDigest after \<or>
                run_CreatedAt before \<noteq> run_CreatedAt after)
               (replayViolation prefix ''persisted target run identity changed'' None),
             fail_if (\<not> sameTargetRunProvisioningBinding before after \<and>
                (\<not> targetRunProvisioningBindingEmpty before \<or> \<not> targetRunProvisioningBindingComplete after))
               (replayViolation (prefix @ ''.provisioning'')
                  ''persisted target run provisioning binding changed after it was established'' None),
             requireNestedReplayStateAdvance prefix (run_Revision before) (run_Revision after)
               (run_UpdatedAt before) (run_UpdatedAt after) (run_State before) (run_State after)
               RequireTargetRunTransition,
             fail_if (run_Revision before = run_Revision after \<and>
                (run_BundleID before \<noteq> run_BundleID after \<or> run_BundleArtifact before \<noteq> run_BundleArtifact after \<or>
                 run_BundleDigest before \<noteq> run_BundleDigest after))
               (replayViolation (prefix @ ''.bundle'')
                  ''persisted target run bundle changed without a run revision'' None)])
          [0..<length previous])"

definition validateTargetOperationHistory ::
    "TargetOperationRecord list \<Rightarrow> TargetOperationRecord list \<Rightarrow> err" where
  "validateTargetOperationHistory previous next =
     first_err
       (fail_if (length next < length previous)
          (replayViolation ''target.operations'' ''persisted target operation history was removed'' None) #
        map (\<lambda>index.
          let before = previous ! index; prefix = indexed ''target.operations'' index in
          case by_last_id ope_ID next (ope_ID before) of
            None \<Rightarrow> Some (replayViolation prefix ''persisted target operation identity changed'' None)
          | Some after \<Rightarrow> first_err
            [fail_if (ope_RunID before \<noteq> ope_RunID after \<or> ope_Generation before \<noteq> ope_Generation after \<or>
                ope_Kind before \<noteq> ope_Kind after \<or> ope_CommandDisplay before \<noteq> ope_CommandDisplay after \<or>
                ope_ContentDigest before \<noteq> ope_ContentDigest after \<or> ope_CreatedAt before \<noteq> ope_CreatedAt after)
               (replayViolation prefix ''persisted target operation identity changed'' None),
             requireNestedReplayStateAdvance prefix (ope_Revision before) (ope_Revision after)
               (ope_UpdatedAt before) (ope_UpdatedAt after) (ope_State before) (ope_State after)
               RequireTargetOperationTransition])
          [0..<length previous])"

definition validateReplayLeaseTerminationAdvance :: "LeaseTerminationRecord \<Rightarrow> LeaseTerminationRecord \<Rightarrow> err" where
  "validateReplayLeaseTerminationAdvance previous next =
    (if LeaseTermination_Empty previous then
       fail_if (\<not> (LeaseTermination_Empty next \<or> LeaseTermination_InProgress next))
         (replayViolation ''lease.termination.state''
            ''persisted termination skipped its in-progress state'' None)
     else first_err
       [fail_if (LeaseTermination_Empty next)
          (replayViolation ''lease.termination'' ''persisted termination intent was removed'' None),
        fail_if (ter_Kind previous \<noteq> ter_Kind next \<or> ter_Reason previous \<noteq> ter_Reason next \<or>
            ter_BeginIdempotencyKey previous \<noteq> ter_BeginIdempotencyKey next \<or>
            ter_BeginRequestDigest previous \<noteq> ter_BeginRequestDigest next \<or>
            ter_InitiatedLeaseRevision previous \<noteq> ter_InitiatedLeaseRevision next \<or>
            ter_InitiatedAt previous \<noteq> ter_InitiatedAt next)
          (replayViolation ''lease.termination'' ''persisted termination identity changed'' None),
        fail_if (LeaseTerminationState_Terminal (ter_State previous))
          (replayViolation ''lease.termination.state'' ''persisted terminal termination changed'' None),
        fail_if (ter_State next \<noteq> (if ter_State previous = LeaseTerminationExpiring
            then LeaseTerminationExpired else LeaseTerminationReleased))
          (replayViolation ''lease.termination.state'' ''persisted termination transition is invalid'' None)])"

text \<open>
  \<open>reflect.DeepEqual\<close> of two incidents after the mutable fields are cleared.  Label maps are kept
  in key order, the order in which the JSON encoder writes them, so equality of tables is
  equality of maps.
\<close>

definition sameIncidentIdentity :: "IncidentRecord \<Rightarrow> IncidentRecord \<Rightarrow> bool" where
  "sameIncidentIdentity previous next \<longleftrightarrow>
    (let clear = (\<lambda>i. i\<lparr>inc_State := IncidentStateOther [], inc_Revision := 0, inc_UpdatedAt := zero_time,
           inc_RecoveryActions := [], inc_VisibilityAcknowledgements := [],
           inc_ObservationBundleID := [], inc_Artifacts := []\<rparr>)
     in clear previous = clear next)"

definition requireIncidentEvidenceAdvance :: "IncidentRecord \<Rightarrow> IncidentRecord \<Rightarrow> err" where
  "requireIncidentEvidenceAdvance previous next =
    (if inc_ObservationBundleID previous = inc_ObservationBundleID next \<and> inc_Artifacts previous = inc_Artifacts next
     then None
     else first_err
       [fail_if (inc_State previous \<noteq> IncidentOpen \<or> inc_State next \<noteq> IncidentEvidenceSealed \<or>
                 inc_ObservationBundleID next = [])
          (replayViolation ''incident.evidence''
             ''persisted incident evidence changed outside the open-to-sealed transition'' None),
        fail_if (inc_ObservationBundleID previous \<noteq> [] \<and> inc_ObservationBundleID previous \<noteq> inc_ObservationBundleID next)
          (replayViolation ''incident.observation_bundle_id'' ''persisted incident evidence binding changed'' None),
        fail_if (\<not> set (inc_Artifacts previous) \<subseteq> set (inc_Artifacts next))
          (replayViolation ''incident.artifacts'' ''persisted incident evidence was removed while sealing'' None),
        fail_if (length (inc_Artifacts next) < length (inc_Artifacts previous) \<or>
                 (length (inc_Artifacts next) = length (inc_Artifacts previous) \<and>
                  inc_ObservationBundleID previous = inc_ObservationBundleID next))
          (replayViolation ''incident.artifacts''
             ''persisted incident seal did not add a bundle evidence binding'' None)])"

section \<open>Aggregates against the projection\<close>

definition validateReplaySessionProjection :: "Core \<Rightarrow> SessionRecord \<Rightarrow> err" where
  "validateReplaySessionProjection c value =
     first_err
       [validateReplaySession value,
        (case tbl_get (core_sessions c) (ses_ID value) of
           None \<Rightarrow> None
         | Some previous \<Rightarrow> first_err
             [fail_if (ses_OwnerSubject previous \<noteq> ses_OwnerSubject value \<or>
                 ses_AcquisitionIdempotencyKey previous \<noteq> ses_AcquisitionIdempotencyKey value \<or>
                 ses_LeaseID previous \<noteq> ses_LeaseID value \<or>
                 ses_AgentWorkspaceID previous \<noteq> ses_AgentWorkspaceID value \<or>
                 ses_InputViewID previous \<noteq> ses_InputViewID value \<or>
                 ses_PolicyDigest previous \<noteq> ses_PolicyDigest value \<or>
                 ses_CapabilityDigest previous \<noteq> ses_CapabilityDigest value \<or>
                 ses_CreatedAt previous \<noteq> ses_CreatedAt value)
                (replayViolation ''session''
                   ''persisted session identity or provenance changed across revisions'' None),
              requireReplayStateAdvance ''session'' (ses_Revision previous) (ses_Revision value)
                (ses_UpdatedAt previous) (ses_UpdatedAt value) (ses_State previous) (ses_State value)
                RequireResearchSessionTransition]),
        (case tbl_get (core_leases c) (ses_LeaseID value) of
           None \<Rightarrow> None
         | Some lease \<Rightarrow> fail_if (lea_SessionID lease \<noteq> ses_ID value \<or>
               lea_AgentWorkspaceID lease \<noteq> ses_AgentWorkspaceID value \<or>
               lea_InputViewID lease \<noteq> ses_InputViewID value \<or> lea_PolicyDigest lease \<noteq> ses_PolicyDigest value \<or>
               lea_CapabilityDigest lease \<noteq> ses_CapabilityDigest value)
             (replayViolation ''session.lease_id'' ''persisted session and lease ownership disagree'' None)),
        (case tbl_get (core_agents c) (ses_AgentWorkspaceID value) of
           None \<Rightarrow> None
         | Some agent \<Rightarrow> fail_if (agt_SessionID agent \<noteq> ses_ID value)
             (replayViolation ''session.agent_workspace_id''
                ''persisted session and agent workspace ownership disagree'' None))]"

definition validateReplayLeaseProjection :: "Core \<Rightarrow> LeaseRecord \<Rightarrow> err" where
  "validateReplayLeaseProjection c value =
     first_err
       [validateReplayLease value,
        fail_if (case tbl_get (core_sessions c) (lea_SessionID value) of
            None \<Rightarrow> True
          | Some session \<Rightarrow> ses_LeaseID session \<noteq> lea_ID value \<or>
              ses_AgentWorkspaceID session \<noteq> lea_AgentWorkspaceID value \<or>
              ses_InputViewID session \<noteq> lea_InputViewID value \<or> ses_PolicyDigest session \<noteq> lea_PolicyDigest value \<or>
              ses_CapabilityDigest session \<noteq> lea_CapabilityDigest value)
          (replayViolation ''lease.session_id'' ''persisted lease does not match its session'' None),
        (case tbl_get (core_leases c) (lea_ID value) of
           Some previous \<Rightarrow> first_err
             [fail_if (lea_SessionID previous \<noteq> lea_SessionID value \<or>
                 lea_AgentWorkspaceID previous \<noteq> lea_AgentWorkspaceID value \<or>
                 lea_InputViewID previous \<noteq> lea_InputViewID value \<or> lea_PolicyDigest previous \<noteq> lea_PolicyDigest value \<or>
                 lea_CapabilityDigest previous \<noteq> lea_CapabilityDigest value \<or>
                 lea_CreatedAt previous \<noteq> lea_CreatedAt value)
                (replayViolation ''lease''
                   ''persisted lease identity or provenance changed across revisions'' None),
              requireReplayGenerationAdvance ''lease.agent_generation'' (lea_AgentGeneration previous)
                (lea_AgentGeneration value),
              fail_if (lea_ExpiresAt value < lea_ExpiresAt previous)
                (replayViolation ''lease.expires_at'' ''persisted lease expiry moved backwards'' None),
              fail_if (\<not> LeaseTermination_Empty (lea_Termination value) \<and> lea_ExpiresAt value \<noteq> lea_ExpiresAt previous)
                (replayViolation ''lease.expires_at''
                   ''persisted lease expiry changed after termination began'' None),
              fail_if (\<not> LeaseTermination_Empty (lea_Termination value) \<and>
                 lea_AgentGeneration value \<noteq> lea_AgentGeneration previous)
                (replayViolation ''lease.agent_generation''
                   ''persisted agent generation changed after termination began'' None),
              validateReplayLeaseTerminationAdvance (lea_Termination previous) (lea_Termination value),
              requireReplayStateAdvance ''lease'' (lea_Revision previous) (lea_Revision value)
                (lea_UpdatedAt previous) (lea_UpdatedAt value) (lea_State previous) (lea_State value)
                RequireLeaseTransition]
         | None \<Rightarrow> fail_if (lea_Revision value \<noteq> InitialRevision \<or> lea_State value \<noteq> LeaseActive \<or>
               \<not> LeaseTermination_Empty (lea_Termination value))
             (replayViolation ''lease''
                ''persisted lease history does not begin at the active initial revision'' None)),
        (case tbl_get (core_agents c) (lea_AgentWorkspaceID value) of
           None \<Rightarrow> None
         | Some agent \<Rightarrow> fail_if (agt_SessionID agent \<noteq> lea_SessionID value \<or>
               lea_AgentGeneration value > agt_CurrentGeneration agent \<or>
               \<not> hasAgentGeneration agent (lea_AgentGeneration value))
             (replayViolation ''lease.agent_workspace_id''
                ''persisted lease does not resolve to its agent generation'' None))]"

definition validateReplayAgentWorkspaceProjection :: "Core \<Rightarrow> AgentWorkspaceRecord \<Rightarrow> err" where
  "validateReplayAgentWorkspaceProjection c value =
    (let mismatch = replayViolation ''agent_workspace.session_id''
           ''persisted agent workspace does not match its session and lease'' None
     in case validateReplayAgentWorkspace value of
       Some e \<Rightarrow> Some e
     | None \<Rightarrow>
       (case tbl_get (core_sessions c) (agt_SessionID value) of
          None \<Rightarrow> Some mismatch
        | Some session \<Rightarrow>
          (case tbl_get (core_leases c) (ses_LeaseID session) of
             None \<Rightarrow> Some mismatch
           | Some lease \<Rightarrow> first_err
               ([fail_if (ses_AgentWorkspaceID session \<noteq> agt_ID value \<or> lea_AgentWorkspaceID lease \<noteq> agt_ID value \<or>
                    lea_SessionID lease \<noteq> agt_SessionID value) mismatch,
                 fail_if (lea_AgentGeneration lease > agt_CurrentGeneration value \<or>
                    agt_CurrentGeneration value - lea_AgentGeneration lease > 1)
                   (replayViolation ''agent_workspace.current_generation''
                      ''persisted agent and lease generations diverge'' None)] @
                map (\<lambda>index. let g = agt_Generations value ! index in
                  fail_if (agn_InputViewID g \<noteq> lea_InputViewID lease \<or> agn_PolicyDigest g \<noteq> lea_PolicyDigest lease \<or>
                      agn_CapabilityDigest g \<noteq> lea_CapabilityDigest lease)
                    (replayViolation (indexed ''agent_workspace.generations'' index)
                       ''persisted agent generation provenance does not match its lease'' None))
                  [0..<length (agt_Generations value)] @
                [case tbl_get (core_agents c) (agt_ID value) of
                   None \<Rightarrow> None
                 | Some previous \<Rightarrow> first_err
                     [fail_if (agt_SessionID previous \<noteq> agt_SessionID value \<or> agt_CreatedAt previous \<noteq> agt_CreatedAt value)
                        (replayViolation ''agent_workspace''
                           ''persisted agent workspace identity changed across revisions'' None),
                      requireReplayGenerationAdvance ''agent_workspace.current_generation''
                        (agt_CurrentGeneration previous) (agt_CurrentGeneration value),
                      requireReplayRevisionAdvance ''agent_workspace'' (agt_Revision previous) (agt_Revision value)
                        (agt_UpdatedAt previous) (agt_UpdatedAt value),
                      validateAgentGenerationHistory (agt_Generations previous) (agt_Generations value)]]))))"

definition exec_incident_linked :: "Core \<Rightarrow> ExecRecord \<Rightarrow> string \<Rightarrow> bool" where
  "exec_incident_linked c value incidentID =
    (case tbl_get (core_incidents c) incidentID of
       None \<Rightarrow> False
     | Some incident \<Rightarrow> inc_SessionID incident = exe_SessionID value \<and> inc_LeaseID incident = exe_LeaseID value \<and>
         inc_AgentWorkspaceID incident = exe_AgentWorkspaceID value \<and>
         inc_AgentGeneration incident = exe_AgentGeneration value \<and> inc_ExecID incident = exe_ID value)"

definition exec_resolves :: "Core \<Rightarrow> ExecRecord \<Rightarrow> bool" where
  "exec_resolves c value =
    (case (tbl_get (core_sessions c) (exe_SessionID value), tbl_get (core_leases c) (exe_LeaseID value),
           tbl_get (core_agents c) (exe_AgentWorkspaceID value)) of
       (Some session, Some lease, Some agent) \<Rightarrow>
         ses_LeaseID session = exe_LeaseID value \<and> lea_SessionID lease = exe_SessionID value \<and>
         lea_AgentWorkspaceID lease = exe_AgentWorkspaceID value \<and> agt_SessionID agent = exe_SessionID value \<and>
         hasAgentGeneration agent (exe_AgentGeneration value)
     | _ \<Rightarrow> False)"

definition validateReplayExecProjection :: "Core \<Rightarrow> ExecRecord \<Rightarrow> err" where
  "validateReplayExecProjection c value =
     first_err
       ([validateReplayExec value,
         fail_if (\<not> exec_resolves c value)
           (replayViolation ''exec.session_id''
              ''persisted exec does not resolve to its session, lease, and agent generation'' None),
         (case tbl_get (core_execs c) (exe_ID value) of
            None \<Rightarrow> None
          | Some previous \<Rightarrow> first_err
              [fail_if (exe_SessionID previous \<noteq> exe_SessionID value \<or> exe_LeaseID previous \<noteq> exe_LeaseID value \<or>
                  exe_AgentWorkspaceID previous \<noteq> exe_AgentWorkspaceID value \<or>
                  exe_AgentGeneration previous \<noteq> exe_AgentGeneration value \<or> exe_Kind previous \<noteq> exe_Kind value \<or>
                  exe_Executable previous \<noteq> exe_Executable value \<or> exe_Argv previous \<noteq> exe_Argv value \<or>
                  exe_WorkingDirectory previous \<noteq> exe_WorkingDirectory value \<or>
                  exe_CreatedAt previous \<noteq> exe_CreatedAt value)
                 (replayViolation ''exec'' ''persisted exec identity or command changed across revisions'' None),
               requireReplayStateAdvance ''exec'' (exe_Revision previous) (exe_Revision value)
                 (exe_UpdatedAt previous) (exe_UpdatedAt value) (exe_State previous) (exe_State value)
                 RequireExecTransition])] @
        map (\<lambda>index. fail_if (\<not> exec_incident_linked c value (exe_IncidentIDs value ! index))
          (replayViolation (indexed ''exec.incident_ids'' index)
             ''persisted exec incident link is inconsistent'' None))
          [0..<length (exe_IncidentIDs value)])"

definition run_incident_linked :: "Core \<Rightarrow> TargetRecord \<Rightarrow> TargetRunRecord \<Rightarrow> string \<Rightarrow> bool" where
  "run_incident_linked c value r incidentID =
    (case tbl_get (core_incidents c) incidentID of
       None \<Rightarrow> False
     | Some incident \<Rightarrow> inc_SessionID incident = tgt_SessionID value \<and> inc_TargetID incident = tgt_ID value \<and>
         inc_TargetGeneration incident = run_Generation r \<and> inc_TargetRunID incident = run_ID r)"

definition run_resolves :: "Core \<Rightarrow> TargetRecord \<Rightarrow> TargetRunRecord \<Rightarrow> bool" where
  "run_resolves c value r =
    (case tbl_get (core_agents c) (run_AgentWorkspaceID r) of
       None \<Rightarrow> False
     | Some agent \<Rightarrow> agt_SessionID agent = tgt_SessionID value \<and> hasAgentGeneration agent (run_AgentGeneration r))"

definition target_resolves :: "Core \<Rightarrow> TargetRecord \<Rightarrow> bool" where
  "target_resolves c value =
    (case (tbl_get (core_sessions c) (tgt_SessionID value), tbl_get (core_leases c) (tgt_LeaseID value)) of
       (Some session, Some lease) \<Rightarrow>
         ses_LeaseID session = tgt_LeaseID value \<and> lea_SessionID lease = tgt_SessionID value
     | _ \<Rightarrow> False)"

definition validateReplayTargetProjection :: "Core \<Rightarrow> TargetRecord \<Rightarrow> err" where
  "validateReplayTargetProjection c value =
     first_err
       ([validateReplayTarget value,
         fail_if (\<not> target_resolves c value)
           (replayViolation ''target.session_id''
              ''persisted target does not resolve to its session and lease'' None)] @
        map (\<lambda>runIndex. let r = tgt_Runs value ! runIndex; prefix = indexed ''target.runs'' runIndex in first_err
          (fail_if (\<not> run_resolves c value r)
             (replayViolation (prefix @ ''.agent_workspace_id'')
                ''persisted run does not resolve to its agent generation'' None) #
           map (\<lambda>incidentIndex. fail_if (\<not> run_incident_linked c value r (run_IncidentIDs r ! incidentIndex))
             (replayViolation (indexed (prefix @ ''.incident_ids'') incidentIndex)
                ''persisted target run incident link is inconsistent'' None))
             [0..<length (run_IncidentIDs r)]))
          [0..<length (tgt_Runs value)] @
        [case tbl_get (core_targets c) (tgt_ID value) of
           None \<Rightarrow> None
         | Some previous \<Rightarrow> first_err
             [fail_if (tgt_SessionID previous \<noteq> tgt_SessionID value \<or> tgt_LeaseID previous \<noteq> tgt_LeaseID value \<or>
                 tgt_CreationIdempotencyKey previous \<noteq> tgt_CreationIdempotencyKey value \<or>
                 tgt_Template previous \<noteq> tgt_Template value \<or> tgt_Kind previous \<noteq> tgt_Kind value \<or>
                 tgt_CreatedAt previous \<noteq> tgt_CreatedAt value)
                (replayViolation ''target'' ''persisted target identity changed across revisions'' None),
              requireReplayGenerationAdvance ''target.current_generation''
                (tgt_CurrentGeneration previous) (tgt_CurrentGeneration value),
              requireReplayRevisionAdvance ''target'' (tgt_Revision previous) (tgt_Revision value)
                (tgt_UpdatedAt previous) (tgt_UpdatedAt value),
              validateTargetGenerationHistory (tgt_Generations previous) (tgt_Generations value),
              validateTargetRunHistory (tgt_Runs previous) (tgt_Runs value),
              validateTargetOperationHistory (tgt_Operations previous) (tgt_Operations value)]])"

definition validateReplayIncidentProjection :: "Core \<Rightarrow> IncidentRecord \<Rightarrow> err" where
  "validateReplayIncidentProjection c value =
    (case tbl_get (core_sessions c) (inc_SessionID value) of
       None \<Rightarrow> first_err [validateReplayIncident value,
         Some (replayViolation ''incident.session_id'' ''persisted incident session does not exist'' None)]
     | Some session \<Rightarrow> first_err
       [validateReplayIncident value,
        fail_if (inc_LeaseID value \<noteq> [] \<and>
            (case tbl_get (core_leases c) (inc_LeaseID value) of None \<Rightarrow> True
             | Some lease \<Rightarrow> lea_SessionID lease \<noteq> inc_SessionID value \<or> ses_LeaseID session \<noteq> inc_LeaseID value))
          (replayViolation ''incident.lease_id'' ''persisted incident lease is inconsistent'' None),
        fail_if (inc_AgentWorkspaceID value \<noteq> [] \<and>
            (case tbl_get (core_agents c) (inc_AgentWorkspaceID value) of None \<Rightarrow> True
             | Some agent \<Rightarrow> agt_SessionID agent \<noteq> inc_SessionID value \<or>
                 (inc_AgentGeneration value > 0 \<and> \<not> hasAgentGeneration agent (inc_AgentGeneration value))))
          (replayViolation ''incident.agent_workspace_id''
             ''persisted incident agent generation is inconsistent'' None),
        fail_if (inc_ExecID value \<noteq> [] \<and>
            (case tbl_get (core_execs c) (inc_ExecID value) of None \<Rightarrow> True
             | Some execution \<Rightarrow> exe_SessionID execution \<noteq> inc_SessionID value \<or>
                 exe_LeaseID execution \<noteq> inc_LeaseID value \<or>
                 exe_AgentWorkspaceID execution \<noteq> inc_AgentWorkspaceID value \<or>
                 exe_AgentGeneration execution \<noteq> inc_AgentGeneration value))
          (replayViolation ''incident.exec_id'' ''persisted incident exec is inconsistent'' None),
        (if inc_TargetID value \<noteq> [] then
           (case tbl_get (core_targets c) (inc_TargetID value) of
              None \<Rightarrow> Some (replayViolation ''incident.target_id''
                ''persisted incident target generation is inconsistent'' None)
            | Some target \<Rightarrow> first_err
                [fail_if (tgt_SessionID target \<noteq> inc_SessionID value \<or>
                    (inc_LeaseID value \<noteq> [] \<and> tgt_LeaseID target \<noteq> inc_LeaseID value) \<or>
                    (inc_TargetGeneration value > 0 \<and> \<not> hasTargetGeneration target (inc_TargetGeneration value)))
                   (replayViolation ''incident.target_id''
                      ''persisted incident target generation is inconsistent'' None),
                 fail_if (inc_TargetRunID value \<noteq> [] \<and>
                    (case targetRunByID target (inc_TargetRunID value) of None \<Rightarrow> True
                     | Some r \<Rightarrow> run_Generation r \<noteq> inc_TargetGeneration value \<or>
                         (inc_AgentWorkspaceID value \<noteq> [] \<and>
                          (run_AgentWorkspaceID r \<noteq> inc_AgentWorkspaceID value \<or>
                           run_AgentGeneration r \<noteq> inc_AgentGeneration value))))
                   (replayViolation ''incident.target_run_id''
                      ''persisted incident target run is inconsistent'' None)])
         else None),
        (case tbl_get (core_incidents c) (inc_ID value) of
           None \<Rightarrow> None
         | Some previous \<Rightarrow> first_err
             [fail_if (\<not> sameIncidentIdentity previous value)
                (replayViolation ''incident'' ''persisted incident identity changed across revisions'' None),
              requireIncidentEvidenceAdvance previous value,
              requireReplayStateAdvance ''incident'' (inc_Revision previous) (inc_Revision value)
                (inc_UpdatedAt previous) (inc_UpdatedAt value) (inc_State previous) (inc_State value)
                RequireIncidentTransition])])"

end
