(* ===== verification/App_Core.thy ===== *)
theory App_Core
  imports App_Replay
begin

text \<open>
  The shared machinery of \<open>src/internal/application/core.go\<close>: replay of journal records into the
  projection and its batched synchronisation with the store, the frame every mutation runs in
  (synchronise, run an idempotent transaction, synchronise), the admission and idleness checks,
  the retirement paths, the read views and the authorisation check.
\<close>

section \<open>Replaying records\<close>

definition decodeReplayAggregate ::
    "(payload \<Rightarrow> 'a option) \<Rightarrow> payload ControlRecord \<Rightarrow> ('a \<Rightarrow> string \<times> uint64) \<Rightarrow> ('a \<Rightarrow> err) \<Rightarrow> 'a result" where
  "decodeReplayAggregate decode record identity validate =
    (case decode (cr_Payload record) of
       None \<Rightarrow> Inl (replayViolation ''payload'' ''persisted aggregate is not strict JSON'' (Some unmarshal_error))
     | Some value \<Rightarrow> checked
         [fail_if (fst (identity value) \<noteq> cr_AggregateID record)
            (replayViolation ''aggregate_id'' ''payload identity does not match the control envelope'' None),
          fail_if (snd (identity value) \<noteq> cr_Revision record)
            (replayViolation ''revision'' ''payload revision does not match the control envelope'' None),
          (case validate value of
             None \<Rightarrow> None
           | Some e \<Rightarrow> Some (if IsCode (Some e) CodeIntegrityViolation then e
               else replayViolation ''payload'' ''persisted aggregate violates semantic invariants'' (Some e)))]
         value)"

fun as_session :: "payload \<Rightarrow> SessionRecord option" where
  "as_session (PSession v) = Some v" | "as_session _ = None"

fun as_lease :: "payload \<Rightarrow> LeaseRecord option" where
  "as_lease (PLease v) = Some v" | "as_lease _ = None"

fun as_agent :: "payload \<Rightarrow> AgentWorkspaceRecord option" where
  "as_agent (PAgent v) = Some v" | "as_agent _ = None"

fun as_exec :: "payload \<Rightarrow> ExecRecord option" where
  "as_exec (PExec v) = Some v" | "as_exec _ = None"

fun as_target :: "payload \<Rightarrow> TargetRecord option" where
  "as_target (PTarget v) = Some v" | "as_target _ = None"

fun as_incident :: "payload \<Rightarrow> IncidentRecord option" where
  "as_incident (PIncident v) = Some v" | "as_incident _ = None"

definition apply_record :: "Core \<Rightarrow> payload ControlRecord \<Rightarrow> Core result" where
  "apply_record c record =
    (if cr_AggregateKind record = ''session'' then
       bind_r (decodeReplayAggregate as_session record (\<lambda>v. (ses_ID v, ses_Revision v))
                (validateReplaySessionProjection c))
         (\<lambda>v. Inr (c\<lparr>core_sessions := tbl_put (ses_ID v) v (core_sessions c)\<rparr>))
     else if cr_AggregateKind record = ''lease'' then
       bind_r (decodeReplayAggregate as_lease record (\<lambda>v. (lea_ID v, lea_Revision v))
                (validateReplayLeaseProjection c))
         (\<lambda>v. Inr (c\<lparr>core_leases := tbl_put (lea_ID v) v (core_leases c)\<rparr>))
     else if cr_AggregateKind record = ''agent_workspace'' then
       bind_r (decodeReplayAggregate as_agent record (\<lambda>v. (agt_ID v, agt_Revision v))
                (validateReplayAgentWorkspaceProjection c))
         (\<lambda>v. Inr (c\<lparr>core_agents := tbl_put (agt_ID v) v (core_agents c)\<rparr>))
     else if cr_AggregateKind record = ''exec'' then
       bind_r (decodeReplayAggregate as_exec record (\<lambda>v. (exe_ID v, exe_Revision v))
                (validateReplayExecProjection c))
         (\<lambda>v. Inr (c\<lparr>core_execs := tbl_put (exe_ID v) v (core_execs c)\<rparr>))
     else if cr_AggregateKind record = ''target'' then
       bind_r (decodeReplayAggregate as_target record (\<lambda>v. (tgt_ID v, tgt_Revision v))
                (validateReplayTargetProjection c))
         (\<lambda>v. Inr (c\<lparr>core_targets := tbl_put (tgt_ID v) v (core_targets c)\<rparr>))
     else if cr_AggregateKind record = ''incident'' then
       bind_r (decodeReplayAggregate as_incident record (\<lambda>v. (inc_ID v, inc_Revision v))
                (validateReplayIncidentProjection c))
         (\<lambda>v. Inr (c\<lparr>core_incidents := tbl_put (inc_ID v) v (core_incidents c)\<rparr>))
     else Inl (integrityViolation ''application.replay'' ''aggregate_kind''
       (''unknown aggregate kind '' @ cr_AggregateKind record) None))"

text \<open>One batch: records are applied in order; the first failure keeps what was applied before it.\<close>

fun apply_batch :: "Core \<Rightarrow> payload ControlRecord list \<Rightarrow> Core \<times> err" where
  "apply_batch c [] = (c, None)"
| "apply_batch c (record # records) =
    (case apply_record c record of
       Inl e \<Rightarrow> (c, Some (Wrapped (''replay control sequence '' @ decimal (nat (cr_Sequence record))) e))
     | Inr c' \<Rightarrow> apply_batch (c'\<lparr>core_lastSequence := cr_Sequence record\<rparr>) records)"

abbreviation newer :: "int \<Rightarrow> payload ControlRecord list \<Rightarrow> payload ControlRecord list" where
  "newer n records \<equiv> filter (\<lambda>r. cr_Sequence r > n) records"

lemma apply_record_frame:
  assumes "apply_record c record = Inr c'"
  shows "core_store c' = core_store c" "core_lastSequence c' = core_lastSequence c"
  using assms by (auto simp: apply_record_def bind_r_Inr split: if_splits)

lemma apply_batch_frame:
  "core_store (fst (apply_batch c rs)) = core_store c"
  by (induction c rs rule: apply_batch.induct) (auto simp: apply_record_frame split: sum.splits)

lemma apply_batch_last:
  "apply_batch c rs = (c', None) \<Longrightarrow>
     core_lastSequence c' = (if rs = [] then core_lastSequence c else cr_Sequence (last rs))"
  by (induction c rs rule: apply_batch.induct) (auto split: sum.splits if_splits)

lemma Records_Inr:
  "Records env s after limit = Inr rs \<Longrightarrow>
     rs = take (nat limit) (filter (\<lambda>r. cr_Sequence r > after) (control_records s))"
  by (simp add: Records_def Let_def)

lemma newer_shrinks:
  assumes "r \<in> set rs" "n < cr_Sequence r"
  shows "length (newer (cr_Sequence r) rs) < length (newer n rs)"
proof -
  have "newer (cr_Sequence r) rs = newer (cr_Sequence r) (newer n rs)"
    using assms(2) by (induction rs) auto
  moreover have "r \<in> set (newer n rs)" "\<not> cr_Sequence r > cr_Sequence r" using assms by auto
  ultimately show ?thesis by (metis (mono_tags, lifting) length_filter_less)
qed

text \<open>
  The loop of \<open>syncLocked\<close>: a batch of fewer than 1000 records is the last one.
\<close>

function syncLocked :: "payload store_env \<Rightarrow> Core \<Rightarrow> Core \<times> err" where
  "syncLocked env c =
    (case Records env (core_store c) (core_lastSequence c) 1000 of
       Inl e \<Rightarrow> (c, Some e)
     | Inr records \<Rightarrow>
         if snd (apply_batch c records) \<noteq> None \<or> length records < 1000 then apply_batch c records
         else syncLocked env (fst (apply_batch c records)))"
  by pat_completeness auto

termination
proof (relation "measure (\<lambda>(env, c). length (newer (core_lastSequence c) (control_records (core_store c))))")
  fix env c records
  assume r: "Records env (core_store c) (core_lastSequence c) 1000 = Inr records"
    and n: "\<not> (snd (apply_batch c records) \<noteq> None \<or> length records < 1000)"
  let ?c = "fst (apply_batch c records)"
  have ne: "records \<noteq> []" and batch: "apply_batch c records = (?c, None)"
    using n by (auto simp: prod_eq_iff)
  have "set records \<subseteq> set (newer (core_lastSequence c) (control_records (core_store c)))"
    unfolding Records_Inr [OF r] by (rule set_take_subset)
  then have sub: "last records \<in> set (newer (core_lastSequence c) (control_records (core_store c)))"
    using last_in_set [OF ne] by (rule subsetD)
  have "core_lastSequence ?c = cr_Sequence (last records)"
    using apply_batch_last [OF batch] ne by simp
  then show "((env, ?c), env, c) \<in>
      measure (\<lambda>(env, c). length (newer (core_lastSequence c) (control_records (core_store c))))"
    using newer_shrinks [of "last records" "control_records (core_store c)" "core_lastSequence c"] sub
    by (simp add: apply_batch_frame)
qed simp

declare syncLocked.simps [simp del]

definition emptyCore :: "store \<Rightarrow> Core" where
  "emptyCore s = \<lparr>core_store = s, core_lastSequence = 0, core_sessions = [], core_leases = [],
     core_agents = [], core_execs = [], core_targets = [], core_incidents = []\<rparr>"

definition NewCore :: "payload store_env \<Rightarrow> store \<Rightarrow> Core result" where
  "NewCore env s =
    (case syncLocked env (emptyCore s) of (c, None) \<Rightarrow> Inr c | (c, Some e) \<Rightarrow> Inl e)"

section \<open>Synchronisation is one pass over the new records\<close>

lemma apply_batch_append:
  "apply_batch c (rs @ qs) =
    (case apply_batch c rs of (c', Some e) \<Rightarrow> (c', Some e) | (c', None) \<Rightarrow> apply_batch c' qs)"
  by (induction c rs rule: apply_batch.induct) (auto split: sum.splits)

lemma newer_newer: "n \<le> m \<Longrightarrow> newer m (newer n rs) = newer m rs"
  by (induction rs) auto

lemma newer_drop:
  assumes "sorted_wrt (<) (map cr_Sequence rs)" "0 < k" "k \<le> length (newer n rs)"
  shows "newer (cr_Sequence (last (take k (newer n rs)))) rs = drop k (newer n rs)"
proof -
  let ?N = "newer n rs" let ?m = "cr_Sequence (last (take k ?N))"
  have ne: "take k ?N \<noteq> []" using assms(2,3) by auto
  have "last (take k ?N) \<in> set ?N" using last_in_set [OF ne] by (rule in_set_takeD)
  then have "n \<le> ?m" by simp
  then have "newer ?m rs = newer ?m ?N" by (rule newer_newer [symmetric])
  then have "newer ?m rs = newer ?m (take k ?N @ drop k ?N)" by (simp only: append_take_drop_id)
  moreover have "sorted_wrt (<) (map cr_Sequence (take k ?N @ drop k ?N))"
    using assms(1) by (simp add: sorted_wrt_map sorted_wrt_filter)
  then have s: "\<forall>r \<in> set (take k ?N). \<forall>q \<in> set (drop k ?N). cr_Sequence r < cr_Sequence q"
      and t: "sorted_wrt (<) (map cr_Sequence (take k ?N))"
    unfolding map_append sorted_wrt_append by auto
  have "newer ?m (drop k ?N) = drop k ?N"
    using s last_in_set [OF ne] by (intro filter_True) blast
  moreover have "newer ?m (take k ?N) = []"
  proof -
    obtain xs x where x: "take k ?N = xs @ [x]" using ne by (metis rev_exhaust)
    then show ?thesis using t by (auto simp: sorted_wrt_append filter_empty_conv)
  qed
  ultimately show ?thesis by (simp only: filter_append append_Nil)
qed

definition readable :: "payload store_env \<Rightarrow> payload ControlRecord list \<Rightarrow> bool" where
  "readable env rs \<longleftrightarrow> se_db env [''select records''] = None \<and> sequenced rs \<and>
     (\<forall>r \<in> set rs. length (cr_PreviousHash r) = 32 \<and> length (cr_Hash r) = 32)"

lemma Records_readable:
  assumes "readable env (control_records s)" "0 \<le> n"
  shows "Records env s n 1000 = Inr (take 1000 (newer n (control_records s)))"
  using assms by (auto simp: Records_def Let_def readable_def dest: in_set_takeD)

lemma syncLocked_one_pass_aux:
  "readable env (control_records (core_store c)) \<Longrightarrow> 0 \<le> core_lastSequence c \<Longrightarrow>
     syncLocked env c = apply_batch c (newer (core_lastSequence c) (control_records (core_store c)))"
proof (induction env c rule: syncLocked.induct)
  case (1 env c)
  let ?N = "newer (core_lastSequence c) (control_records (core_store c))"
  let ?b = "apply_batch c (take 1000 ?N)"
  note R = Records_readable [OF "1.prems"]
  have split: "apply_batch c ?N =
      (case ?b of (c', Some e) \<Rightarrow> (c', Some e) | (c', None) \<Rightarrow> apply_batch c' (drop 1000 ?N))"
    using apply_batch_append [of c "take 1000 ?N" "drop 1000 ?N"] by simp
  show ?case
  proof (cases "snd ?b \<noteq> None \<or> length (take 1000 ?N) < 1000")
    case True
    then have "syncLocked env c = ?b" using R by (simp add: syncLocked.simps [of env c])
    moreover have "apply_batch c ?N = ?b"
    proof (cases "snd ?b")
      case None
      then have "length ?N < 1000" using True by simp
      then show ?thesis by simp
    next
      case (Some e)
      then show ?thesis using split by (simp add: case_prod_beta prod_eq_iff)
    qed
    ultimately show ?thesis by simp
  next
    case False
    let ?c = "fst ?b"
    have b: "?b = (?c, None)" using False by (simp add: prod_eq_iff)
    have n: "1000 \<le> length ?N" and ne: "take 1000 ?N \<noteq> []" using False by auto
    have last: "core_lastSequence ?c = cr_Sequence (last (take 1000 ?N))"
      using apply_batch_last [OF b] ne by simp
    have "last (take 1000 ?N) \<in> set ?N" using last_in_set [OF ne] by (rule in_set_takeD)
    then have "0 \<le> core_lastSequence ?c" using "1.prems"(2) last by simp
    then have "syncLocked env ?c = apply_batch ?c (newer (core_lastSequence ?c) (control_records (core_store ?c)))"
      using "1.IH" [OF R False] "1.prems"(1) by (simp add: apply_batch_frame)
    also have "\<dots> = apply_batch ?c (drop 1000 ?N)"
      using newer_drop [of "control_records (core_store c)" 1000 "core_lastSequence c"] "1.prems"(1) n last
      by (simp add: apply_batch_frame readable_def sequenced_def)
    also have "\<dots> = apply_batch c ?N" using split b by (metis (no_types, lifting) case_prod_conv option.simps(4))
    finally show ?thesis using R False by (simp add: syncLocked.simps [of env c])
  qed
qed

text \<open>The validators and \<open>apply\<close> read the projection only, never the store.\<close>

lemma validators_store [simp]:
  "validateReplaySessionProjection (c\<lparr>core_store := s\<rparr>) = validateReplaySessionProjection c"
  "validateReplayLeaseProjection (c\<lparr>core_store := s\<rparr>) = validateReplayLeaseProjection c"
  "validateReplayAgentWorkspaceProjection (c\<lparr>core_store := s\<rparr>) = validateReplayAgentWorkspaceProjection c"
  "validateReplayExecProjection (c\<lparr>core_store := s\<rparr>) = validateReplayExecProjection c"
  "validateReplayTargetProjection (c\<lparr>core_store := s\<rparr>) = validateReplayTargetProjection c"
  "validateReplayIncidentProjection (c\<lparr>core_store := s\<rparr>) = validateReplayIncidentProjection c"
  by (rule ext; simp add: validateReplaySessionProjection_def validateReplayLeaseProjection_def
      validateReplayAgentWorkspaceProjection_def validateReplayExecProjection_def exec_resolves_def
      exec_incident_linked_def validateReplayTargetProjection_def target_resolves_def run_resolves_def
      run_incident_linked_def validateReplayIncidentProjection_def cong: option.case_cong)+

lemma apply_record_store:
  "apply_record (c\<lparr>core_store := s\<rparr>) r =
     (case apply_record c r of Inl e \<Rightarrow> Inl e | Inr c' \<Rightarrow> Inr (c'\<lparr>core_store := s\<rparr>))"
  by (simp add: apply_record_def bind_r_def split: sum.splits)

lemma apply_batch_store:
  "apply_batch (c\<lparr>core_store := s\<rparr>) rs = (fst (apply_batch c rs)\<lparr>core_store := s\<rparr>, snd (apply_batch c rs))"
proof (induction c rs rule: apply_batch.induct)
  case (2 c r rs)
  show ?case
  proof (cases "apply_record c r")
    case (Inr c')
    have swap: "c'\<lparr>core_store := s, core_lastSequence := n\<rparr> = c'\<lparr>core_lastSequence := n, core_store := s\<rparr>" for n
      by simp
    show ?thesis using "2.IH" [OF Inr] Inr by (simp add: apply_record_store swap)
  qed (simp add: apply_record_store)
qed simp

lemma store_update_same [simp]: "c\<lparr>core_store := core_store c\<rparr> = (c :: Core)"
  by simp

lemma newer_none: "sequenced rs \<Longrightarrow> newer (last_sequence rs) rs = []"
  using last_sequence_max by (fastforce simp: filter_empty_conv)

lemma newer_suffix:
  assumes "sequenced (rs @ qs)"
  shows "newer (last_sequence rs) (rs @ qs) = qs"
proof -
  have rs: "sequenced rs" using assms by (auto simp: sequenced_def sorted_wrt_append)
  have "last_sequence rs < cr_Sequence q" if "q \<in> set qs" for q
    using assms that
    by (cases rs rule: rev_cases) (auto simp: sequenced_def last_sequence_def sorted_wrt_append)
  then have "newer (last_sequence rs) qs = qs" by (simp add: filter_id_conv)
  then show ?thesis using newer_none [OF rs] by simp
qed

text \<open>
  C8. Synchronisation, which reads the journal in batches of 1000, is a single pass over every
  record newer than the last applied one; in particular it terminates and leaves no record of a
  readable journal behind.
\<close>

theorem syncLocked_one_pass:
  assumes "readable env (control_records (core_store c))" "0 \<le> core_lastSequence c"
  shows "syncLocked env c = apply_batch c (newer (core_lastSequence c) (control_records (core_store c)))"
  using assms by (rule syncLocked_one_pass_aux)

lemma NewCore_batch:
  assumes "readable env (control_records s)"
  shows "syncLocked env (emptyCore s) = apply_batch (emptyCore s) (control_records s)"
proof -
  have "newer 0 (control_records s) = control_records s"
    using assms by (simp add: filter_id_conv readable_def sequenced_def)
  then show ?thesis using syncLocked_one_pass_aux [of env "emptyCore s"] assms by (simp add: emptyCore_def)
qed

lemma emptyCore_store: "emptyCore s = (emptyCore t)\<lparr>core_store := s\<rparr>"
  by (simp add: emptyCore_def)

text \<open>
  C7. Restart equivalence: a core that was built when the journal held \<open>rs\<close> and synchronises after
  the journal has grown to \<open>rs @ qs\<close> ends in exactly the projection, and reports exactly the
  error, of a core that is started afresh on the grown journal.
\<close>

theorem restart_agrees:
  assumes "NewCore env s = Inr c" and "readable env (control_records s)"
    and "control_records t = control_records s @ qs" and "readable env (control_records t)"
  shows "syncLocked env (c\<lparr>core_store := t\<rparr>) = syncLocked env (emptyCore t)"
proof -
  let ?rs = "control_records s"
  have b: "apply_batch (emptyCore s) ?rs = (c, None)"
    using assms(1,2) by (auto simp: NewCore_def NewCore_batch split: prod.splits option.splits)
  have last: "core_lastSequence c = last_sequence ?rs"
    using apply_batch_last [OF b] by (simp add: emptyCore_def last_sequence_def)
  have seq: "sequenced (?rs @ qs)" using assms(3,4) by (simp add: readable_def)
  have "0 \<le> core_lastSequence c"
    using assms(2) last_in_set [of ?rs] unfolding last by (auto simp: last_sequence_def readable_def sequenced_def less_imp_le)
  then have "syncLocked env (c\<lparr>core_store := t\<rparr>) = apply_batch (c\<lparr>core_store := t\<rparr>) qs"
    using syncLocked_one_pass_aux [of env "c\<lparr>core_store := t\<rparr>"] assms(3,4) newer_suffix [OF seq] last by simp
  also have "\<dots> = apply_batch (emptyCore t) (?rs @ qs)"
    using apply_batch_store [of t "emptyCore s" ?rs] b
    by (simp add: apply_batch_append emptyCore_store [of t s])
  also have "\<dots> = syncLocked env (emptyCore t)" using NewCore_batch [OF assms(4)] assms(3) by simp
  finally show ?thesis .
qed

section \<open>The frame of a mutation\<close>

text \<open>
  What an operation observes of its surroundings: the store's environment, the value of the i-th
  reading of the core's clock in program order, the clock reading and the ten random bytes (if the
  entropy source delivers them) of the i-th generated identity, and the context's deadline.
\<close>

record env =
  env_store :: "payload store_env"
  env_clock :: "nat \<Rightarrow> time"
  env_ids :: "nat \<Rightarrow> time \<times> bytes option"
  env_deadline :: "time option"

text \<open>\<open>appendControl\<close> runs inside the transaction: the journal record, then its snapshot.\<close>

definition appendControl ::
    "payload store_env \<Rightarrow> string \<Rightarrow> string \<Rightarrow> string \<Rightarrow> uint64 \<Rightarrow> payload \<Rightarrow> store \<Rightarrow> store result" where
  "appendControl env aggregateKind aggregateID eventKind revision payload s =
     bind_r (AppendControl env
        \<lparr>cr_Sequence = 0, cr_AggregateKind = aggregateKind, cr_AggregateID = aggregateID,
         cr_Revision = revision, cr_Kind = eventKind, cr_Payload = payload, cr_AcceptedAt = zero_time,
         cr_PreviousHash = [], cr_Hash = []\<rparr> s)
       (\<lambda>(s', _). PutSnapshot env aggregateKind aggregateID revision payload s')"

definition requireStoredID :: "string \<Rightarrow> string \<Rightarrow> (string \<Rightarrow> 'a result) \<Rightarrow> 'a result" where
  "requireStoredID field value parse =
    (case parse value of
       Inl e \<Rightarrow> Inl (integrityViolation ''application.require_stored_id'' field
         ''persisted resource identity is invalid'' (Some e))
     | Inr v \<Rightarrow> Inr v)"

text \<open>
  A mutation synchronises the projection, runs its transaction against the synchronised
  projection, synchronises again so that the projection includes what it committed, and decodes
  the (possibly replayed) response.
\<close>

definition transact ::
    "env \<Rightarrow> string \<Rightarrow> string \<Rightarrow> bytes \<Rightarrow> (Core \<Rightarrow> (payload, response) handler) \<Rightarrow>
      (Core \<Rightarrow> response \<Rightarrow> 'a result) \<Rightarrow> Core \<Rightarrow> Core \<times> 'a result" where
  "transact env namespace key request tx finish c =
    (case RunIdempotent (env_store env) namespace key request (tx c) (core_store c) of
       (s', Inl e) \<Rightarrow> (c\<lparr>core_store := s'\<rparr>, Inl e)
     | (s', Inr (response, _)) \<Rightarrow>
         (case syncLocked (env_store env) (c\<lparr>core_store := s'\<rparr>) of
            (c', Some e) \<Rightarrow> (c', Inl e)
          | (c', None) \<Rightarrow> (c', finish c' response)))"

definition runMutation ::
    "env \<Rightarrow> string \<Rightarrow> string \<Rightarrow> bytes \<Rightarrow> (Core \<Rightarrow> (payload, response) handler) \<Rightarrow>
      (Core \<Rightarrow> response \<Rightarrow> 'a result) \<Rightarrow> Core \<Rightarrow> Core \<times> 'a result" where
  "runMutation env namespace key request tx finish c =
    (case syncLocked (env_store env) c of
       (c', Some e) \<Rightarrow> (c', Inl e)
     | (c', None) \<Rightarrow> transact env namespace key request tx finish c')"

text \<open>Argument checks that fail leave the core untouched.\<close>

definition validated :: "err list \<Rightarrow> (Core \<Rightarrow> Core \<times> 'a result) \<Rightarrow> Core \<Rightarrow> Core \<times> 'a result" where
  "validated checks run c = (case first_err checks of Some e \<Rightarrow> (c, Inl e) | None \<Rightarrow> run c)"

text \<open>Reads synchronise and look at the projection.\<close>

definition query :: "payload store_env \<Rightarrow> (Core \<Rightarrow> 'a result) \<Rightarrow> Core \<Rightarrow> Core \<times> 'a result" where
  "query env read c =
    (case syncLocked env c of (c', Some e) \<Rightarrow> (c', Inl e) | (c', None) \<Rightarrow> (c', read c'))"

section \<open>Admission and idleness\<close>

definition requireLeaseActive :: "LeaseRecord \<Rightarrow> time \<Rightarrow> err" where
  "requireLeaseActive lease now =
     fail_if (lea_State lease \<noteq> LeaseActive \<or> \<not> LeaseTermination_Empty (lea_Termination lease) \<or>
              \<not> lea_ExpiresAt lease > now)
       (Wrapped ''lease is not active'' ErrScope)"

definition requireAgentGenerationAcceptingWork ::
    "Core \<Rightarrow> string \<Rightarrow> string \<Rightarrow> uint64 \<Rightarrow> AgentWorkspaceRecord result" where
  "requireAgentGenerationAcceptingWork c operation workspaceID generation =
    (case tbl_get (core_agents c) workspaceID of
       None \<Rightarrow> Inl ErrScope
     | Some agent \<Rightarrow>
         if agt_CurrentGeneration agent \<noteq> generation then Inl ErrScope
         else bind_r (findAgentGeneration agent generation) (\<lambda>index.
           let g = agt_Generations agent ! index in
           if agn_State g \<noteq> AgentGenerationReady \<and> agn_State g \<noteq> AgentGenerationRunning
           then Inl (failedPrecondition operation ''agent_generation'' ''is not accepting work'' None)
           else Inr agent))"

definition requireAgentGenerationIdle :: "Core \<Rightarrow> string \<Rightarrow> uint64 \<Rightarrow> err" where
  "requireAgentGenerationIdle c workspaceID generation =
     first_err
       (map (\<lambda>(_, execution). fail_if
           (exe_AgentWorkspaceID execution = workspaceID \<and> exe_AgentGeneration execution = generation \<and>
            \<not> ExecState_Terminal (exe_State execution))
           (failedPrecondition ''agent_generation.quiesce'' ''exec'' (exe_ID execution @ '' is not terminal'') None))
         (core_execs c) @
        concat (map (\<lambda>(_, target). map (\<lambda>q.
           if TargetOperationState_Terminal (ope_State q) then None
           else (case findRun target (ope_RunID q) of
               Inl e \<Rightarrow> Some (integrityViolation ''agent_generation.quiesce'' ''target_operation.run_id''
                 ''operation does not resolve to its run'' (Some e))
             | Inr index \<Rightarrow>
                 let r = tgt_Runs target ! index in
                 fail_if (run_AgentWorkspaceID r = workspaceID \<and> run_AgentGeneration r = generation)
                   (failedPrecondition ''agent_generation.quiesce'' ''target_operation''
                     (ope_ID q @ '' is not terminal'') None)))
           (tgt_Operations target)) (core_targets c)))"

definition targetIDsForLease :: "Core \<Rightarrow> string \<Rightarrow> string list" where
  "targetIDsForLease c leaseID =
     sort (map fst (filter (\<lambda>(_, target). tgt_LeaseID target = leaseID) (core_targets c)))"

definition execIDsForLease :: "Core \<Rightarrow> string \<Rightarrow> string list" where
  "execIDsForLease c leaseID =
     sort (map fst (filter (\<lambda>(_, execution). exe_LeaseID execution = leaseID) (core_execs c)))"

section \<open>Retirement of generations\<close>

fun targetGenerationRetirementPath :: "TargetGenerationState \<Rightarrow> TargetGenerationState list result" where
  "targetGenerationRetirementPath TargetGenerationReady =
     Inr [TargetGenerationResettable, TargetGenerationDestroyed]"
| "targetGenerationRetirementPath TargetGenerationResettable = Inr [TargetGenerationDestroyed]"
| "targetGenerationRetirementPath TargetGenerationProvisioning = Inr [TargetGenerationFailed]"
| "targetGenerationRetirementPath TargetGenerationInstrumenting = Inr [TargetGenerationFailed]"
| "targetGenerationRetirementPath TargetGenerationDestroyed = Inr []"
| "targetGenerationRetirementPath TargetGenerationFailed = Inr []"
| "targetGenerationRetirementPath TargetGenerationQuarantined = Inr []"
| "targetGenerationRetirementPath TargetGenerationLost = Inr []"
| "targetGenerationRetirementPath state =
     Inl (failedPrecondition ''target_generation.retire'' ''state''
       (''cannot retire generation in '' @ TargetGenerationState_String state) None)"

fun agentGenerationRetirementPath :: "AgentGenerationState \<Rightarrow> AgentGenerationState list result" where
  "agentGenerationRetirementPath AgentGenerationReady =
     Inr [AgentGenerationQuiescing, AgentGenerationSealed]"
| "agentGenerationRetirementPath AgentGenerationRunning =
     Inr [AgentGenerationQuiescing, AgentGenerationSealed]"
| "agentGenerationRetirementPath AgentGenerationQuiescing = Inr [AgentGenerationSealed]"
| "agentGenerationRetirementPath AgentGenerationProvisioning = Inr [AgentGenerationFailed]"
| "agentGenerationRetirementPath AgentGenerationBooting = Inr [AgentGenerationFailed]"
| "agentGenerationRetirementPath AgentGenerationSealed = Inr []"
| "agentGenerationRetirementPath AgentGenerationFailed = Inr []"
| "agentGenerationRetirementPath AgentGenerationQuarantined = Inr []"
| "agentGenerationRetirementPath AgentGenerationLost = Inr []"
| "agentGenerationRetirementPath state =
     Inl (failedPrecondition ''agent_generation.retire'' ''state''
       (''cannot retire generation in '' @ AgentGenerationState_String state) None)"

text \<open>One journal record per state; \<open>index\<close> is the position of the generation in the aggregate.\<close>

fun appendTargetGenerationTransitions ::
    "payload store_env \<Rightarrow> nat \<Rightarrow> TargetGenerationState list \<Rightarrow> string \<Rightarrow> time \<Rightarrow> TargetRecord \<Rightarrow> store \<Rightarrow>
      (TargetRecord \<times> store) result" where
  "appendTargetGenerationTransitions env index [] eventKind at target s = Inr (target, s)"
| "appendTargetGenerationTransitions env index (next # states) eventKind at target s =
    (let g = tgt_Generations target ! index;
         target' = target\<lparr>tgt_Generations := (tgt_Generations target)[index :=
             g\<lparr>tgn_State := next, tgn_Revision := tgn_Revision g + 1, tgn_UpdatedAt := at\<rparr>],
           tgt_Revision := tgt_Revision target + 1, tgt_UpdatedAt := at\<rparr>
     in guarded [RequireTargetGenerationTransition (tgn_State g) next]
       (bind_r (appendControl env ''target'' (tgt_ID target) eventKind (tgt_Revision target') (PTarget target') s)
         (appendTargetGenerationTransitions env index states eventKind at target')))"

fun appendAgentGenerationTransitions ::
    "payload store_env \<Rightarrow> nat \<Rightarrow> AgentGenerationState list \<Rightarrow> string \<Rightarrow> time \<Rightarrow> AgentWorkspaceRecord \<Rightarrow> store \<Rightarrow>
      (AgentWorkspaceRecord \<times> store) result" where
  "appendAgentGenerationTransitions env index [] eventKind at agent s = Inr (agent, s)"
| "appendAgentGenerationTransitions env index (next # states) eventKind at agent s =
    (let g = agt_Generations agent ! index;
         agent' = agent\<lparr>agt_Generations := (agt_Generations agent)[index :=
             g\<lparr>agn_State := next, agn_Revision := agn_Revision g + 1, agn_UpdatedAt := at\<rparr>],
           agt_Revision := agt_Revision agent + 1, agt_UpdatedAt := at\<rparr>
     in guarded [RequireAgentGenerationTransition (agn_State g) next]
       (bind_r (appendControl env ''agent_workspace'' (agt_ID agent) eventKind (agt_Revision agent') (PAgent agent') s)
         (appendAgentGenerationTransitions env index states eventKind at agent')))"

section \<open>Views and authorisation\<close>

definition session_view :: "Core \<Rightarrow> SessionRecord \<Rightarrow> LeaseRecord \<Rightarrow> AgentWorkspaceRecord \<Rightarrow> ResearchSessionView" where
  "session_view c session lease agent =
     \<lparr>view_Session = session, view_Lease = lease, view_Agent = agent,
      view_Execs = sort_key exe_ID (filter (\<lambda>v. exe_SessionID v = ses_ID session) (map snd (core_execs c))),
      view_Targets = sort_key tgt_ID (filter (\<lambda>v. tgt_SessionID v = ses_ID session) (map snd (core_targets c))),
      view_Incidents = sort_key inc_ID (filter (\<lambda>v. inc_SessionID v = ses_ID session) (map snd (core_incidents c)))\<rparr>"

definition researchSessionViewLocked :: "Core \<Rightarrow> SessionRecord \<Rightarrow> ResearchSessionView result" where
  "researchSessionViewLocked c session =
    (case tbl_get (core_leases c) (ses_LeaseID session) of
       None \<Rightarrow> Inl (Wrapped ''session lease'' ErrNotFound)
     | Some lease \<Rightarrow>
       (case tbl_get (core_agents c) (ses_AgentWorkspaceID session) of
          None \<Rightarrow> Inl (Wrapped ''session agent workspace'' ErrNotFound)
        | Some agent \<Rightarrow> Inr (session_view c session lease agent)))"

definition GetResearchSession :: "payload store_env \<Rightarrow> string \<Rightarrow> Core \<Rightarrow> Core \<times> ResearchSessionView result" where
  "GetResearchSession env sessionID = query env (\<lambda>c.
    (case tbl_get (core_sessions c) sessionID of
       None \<Rightarrow> Inl ErrNotFound
     | Some session \<Rightarrow> researchSessionViewLocked c session))"

definition GetResearchSessionByLease :: "payload store_env \<Rightarrow> string \<Rightarrow> Core \<Rightarrow> Core \<times> ResearchSessionView result" where
  "GetResearchSessionByLease env leaseID = query env (\<lambda>c.
    (case tbl_get (core_leases c) leaseID of
       None \<Rightarrow> Inl ErrNotFound
     | Some lease \<Rightarrow>
       (case tbl_get (core_sessions c) (lea_SessionID lease) of
          None \<Rightarrow> Inl (Wrapped ''lease session'' ErrNotFound)
        | Some session \<Rightarrow>
            if ses_LeaseID session \<noteq> leaseID then Inl (Wrapped ''lease session'' ErrNotFound)
            else researchSessionViewLocked c session)))"

fun list_views :: "Core \<Rightarrow> string list \<Rightarrow> ResearchSessionView list result" where
  "list_views c [] = Inr []"
| "list_views c (i # is) =
    (case tbl_get (core_sessions c) i of
       None \<Rightarrow> list_views c is
     | Some session \<Rightarrow>
         bind_r (wrap_err (''list research session '' @ i) (researchSessionViewLocked c session)) (\<lambda>view.
         bind_r (list_views c is) (\<lambda>views. Inr (view # views))))"

definition ListResearchSessions :: "payload store_env \<Rightarrow> Core \<Rightarrow> Core \<times> ResearchSessionView list result" where
  "ListResearchSessions env = query env (\<lambda>c. list_views c (sort (map fst (core_sessions c))))"

definition GetExec :: "payload store_env \<Rightarrow> string \<Rightarrow> Core \<Rightarrow> Core \<times> ExecRecord result" where
  "GetExec env execID = query env (\<lambda>c.
    (case tbl_get (core_execs c) execID of None \<Rightarrow> Inl ErrNotFound | Some v \<Rightarrow> Inr v))"

definition GetTarget :: "payload store_env \<Rightarrow> string \<Rightarrow> Core \<Rightarrow> Core \<times> TargetRecord result" where
  "GetTarget env targetID = query env (\<lambda>c.
    (case tbl_get (core_targets c) targetID of None \<Rightarrow> Inl ErrNotFound | Some v \<Rightarrow> Inr v))"

record AuthorizationRequest =
  aut_Subject :: string
  aut_PolicyReference :: string
  aut_SessionID :: string
  aut_LeaseID :: string
  aut_AgentWorkspaceID :: string
  aut_ExecID :: string
  aut_TargetID :: string
  aut_TargetRunID :: string
  aut_IncidentID :: string

text \<open>
  The resources a request names, in the order the source resolves them, each with the session it
  belongs to.  A target run is searched for in every target.
\<close>

definition named_resources :: "Core \<Rightarrow> AuthorizationRequest \<Rightarrow> (string \<times> string option) list" where
  "named_resources c request =
     [(aut_SessionID request, Some (aut_SessionID request)),
      (aut_LeaseID request, map_option lea_SessionID (tbl_get (core_leases c) (aut_LeaseID request))),
      (aut_AgentWorkspaceID request,
         map_option agt_SessionID (tbl_get (core_agents c) (aut_AgentWorkspaceID request))),
      (aut_ExecID request, map_option exe_SessionID (tbl_get (core_execs c) (aut_ExecID request))),
      (aut_TargetID request, map_option tgt_SessionID (tbl_get (core_targets c) (aut_TargetID request))),
      (aut_TargetRunID request,
         map_option tgt_SessionID (find (\<lambda>target. aut_TargetRunID request \<in> run_ID ` set (tgt_Runs target))
           (map snd (core_targets c)))),
      (aut_IncidentID request, map_option inc_SessionID (tbl_get (core_incidents c) (aut_IncidentID request)))]"

fun resolve_owner :: "(string \<times> string option) list \<Rightarrow> nat \<Rightarrow> string \<Rightarrow> (nat \<times> string) result" where
  "resolve_owner [] identifiers sessionID = Inr (identifiers, sessionID)"
| "resolve_owner ((i, owner) # rest) identifiers sessionID =
    (if i = [] then resolve_owner rest identifiers sessionID
     else (case owner of
         None \<Rightarrow> Inl ErrNotFound
       | Some sessionID' \<Rightarrow> resolve_owner rest (identifiers + 1) sessionID'))"

definition authorize_projection :: "env \<Rightarrow> AuthorizationRequest \<Rightarrow> Core \<Rightarrow> unit result" where
  "authorize_projection env request c =
     bind_r (resolve_owner (named_resources c request) 0 []) (\<lambda>(identifiers, sessionID).
       if identifiers \<noteq> 1 then Inl (invalidArgument ''authorize'' ''resource_identity''
         ''exactly one resource identity is required'' None)
       else (case tbl_get (core_sessions c) sessionID of
           None \<Rightarrow> Inl ErrNotFound
         | Some session \<Rightarrow>
             if ses_OwnerSubject session = [] \<or> ses_OwnerSubject session \<noteq> aut_Subject request then Inl ErrScope
             else if aut_PolicyReference request \<noteq> [] \<and> aut_PolicyReference request \<noteq> ses_PolicyDigest session
               then Inl ErrScope
             else if aut_PolicyReference request \<noteq> [] then
               (case tbl_get (core_leases c) (ses_LeaseID session) of
                  None \<Rightarrow> Inl ErrNotFound
                | Some lease \<Rightarrow>
                    if lea_SessionID lease \<noteq> ses_ID session then Inl ErrNotFound
                    else if requireLeaseActive lease (env_clock env 0) \<noteq> None then Inl ErrScope
                    else Inr ())
             else Inr ()))"

definition Authorize :: "env \<Rightarrow> AuthorizationRequest \<Rightarrow> Core \<Rightarrow> Core \<times> unit result" where
  "Authorize env request = validated [fail_if (blank (aut_Subject request)) ErrScope]
     (query (env_store env) (authorize_projection env request))"

end
