(* ===== verification/App_Projection.thy ===== *)
theory App_Projection
  imports App_Core
begin

text \<open>
  What replay guarantees for every journal it accepts, including one written by somebody else:
  the aggregates of the projection refer to each other consistently, and each later revision of an
  aggregate is a legal successor of the earlier one.
\<close>

section \<open>One revision of an aggregate to the next\<close>

definition revision_step :: "uint64 \<Rightarrow> uint64 \<Rightarrow> time \<Rightarrow> time \<Rightarrow> bool" where
  "revision_step r r' u u' \<longleftrightarrow> unat r' = Suc (unat r) \<and> u \<le> u'"

definition termination_step :: "LeaseTerminationRecord \<Rightarrow> LeaseTerminationRecord \<Rightarrow> bool" where
  "termination_step t t' \<longleftrightarrow>
    (if LeaseTermination_Empty t then LeaseTermination_Empty t' \<or> LeaseTermination_InProgress t'
     else \<not> LeaseTermination_Empty t' \<and> \<not> LeaseTermination_Terminal t \<and> LeaseTermination_Terminal t' \<and>
       ter_Kind t' = ter_Kind t \<and> ter_Reason t' = ter_Reason t \<and>
       ter_BeginIdempotencyKey t' = ter_BeginIdempotencyKey t \<and>
       ter_BeginRequestDigest t' = ter_BeginRequestDigest t \<and>
       ter_InitiatedLeaseRevision t' = ter_InitiatedLeaseRevision t \<and> ter_InitiatedAt t' = ter_InitiatedAt t \<and>
       ter_State t' = (if ter_State t = LeaseTerminationExpiring then LeaseTerminationExpired
                       else LeaseTerminationReleased))"

definition session_step :: "SessionRecord \<Rightarrow> SessionRecord \<Rightarrow> bool" where
  "session_step s s' \<longleftrightarrow> ses_ID s' = ses_ID s \<and> ses_OwnerSubject s' = ses_OwnerSubject s \<and>
     ses_AcquisitionIdempotencyKey s' = ses_AcquisitionIdempotencyKey s \<and> ses_LeaseID s' = ses_LeaseID s \<and>
     ses_AgentWorkspaceID s' = ses_AgentWorkspaceID s \<and> ses_InputViewID s' = ses_InputViewID s \<and>
     ses_PolicyDigest s' = ses_PolicyDigest s \<and> ses_CapabilityDigest s' = ses_CapabilityDigest s \<and>
     ses_CreatedAt s' = ses_CreatedAt s \<and>
     revision_step (ses_Revision s) (ses_Revision s') (ses_UpdatedAt s) (ses_UpdatedAt s') \<and>
     (ses_State s' = ses_State s \<or> RequireResearchSessionTransition (ses_State s) (ses_State s') = None)"

definition generation_advance :: "uint64 \<Rightarrow> uint64 \<Rightarrow> bool" where
  "generation_advance g g' \<longleftrightarrow> g' = g \<or> unat g' = Suc (unat g)"

definition lease_step :: "LeaseRecord \<Rightarrow> LeaseRecord \<Rightarrow> bool" where
  "lease_step l l' \<longleftrightarrow> lea_ID l' = lea_ID l \<and> lea_SessionID l' = lea_SessionID l \<and>
     lea_AgentWorkspaceID l' = lea_AgentWorkspaceID l \<and> lea_InputViewID l' = lea_InputViewID l \<and>
     lea_PolicyDigest l' = lea_PolicyDigest l \<and> lea_CapabilityDigest l' = lea_CapabilityDigest l \<and>
     lea_CreatedAt l' = lea_CreatedAt l \<and>
     generation_advance (lea_AgentGeneration l) (lea_AgentGeneration l') \<and>
     lea_ExpiresAt l \<le> lea_ExpiresAt l' \<and>
     (\<not> LeaseTermination_Empty (lea_Termination l') \<longrightarrow>
        lea_ExpiresAt l' = lea_ExpiresAt l \<and> lea_AgentGeneration l' = lea_AgentGeneration l) \<and>
     termination_step (lea_Termination l) (lea_Termination l') \<and>
     revision_step (lea_Revision l) (lea_Revision l') (lea_UpdatedAt l) (lea_UpdatedAt l') \<and>
     (lea_State l' = lea_State l \<or> RequireLeaseTransition (lea_State l) (lea_State l') = None)"

text \<open>The generations, runs and operations nested in an aggregate keep their own revisions.\<close>

definition nested_step :: "uint64 \<Rightarrow> uint64 \<Rightarrow> time \<Rightarrow> time \<Rightarrow> 's \<Rightarrow> 's \<Rightarrow> ('s \<Rightarrow> 's \<Rightarrow> err) \<Rightarrow> bool" where
  "nested_step r r' u u' x x' transition \<longleftrightarrow>
     r' = r \<and> x' = x \<and> u' = u \<or> revision_step r r' u u' \<and> (x' = x \<or> transition x x' = None)"

definition agent_generation_step :: "AgentGenerationRecord \<Rightarrow> AgentGenerationRecord \<Rightarrow> bool" where
  "agent_generation_step g g' \<longleftrightarrow> agn_Generation g' = agn_Generation g \<and> agn_WorkspaceID g' = agn_WorkspaceID g \<and>
     agn_InputViewID g' = agn_InputViewID g \<and> agn_PolicyDigest g' = agn_PolicyDigest g \<and>
     agn_CapabilityDigest g' = agn_CapabilityDigest g \<and> agn_Previous g' = agn_Previous g \<and>
     agn_RecoveryIncident g' = agn_RecoveryIncident g \<and> agn_CreatedAt g' = agn_CreatedAt g \<and>
     (sameAgentProvisioningBinding g g' \<or> agentProvisioningBindingEmpty g \<and> agentProvisioningBindingComplete g') \<and>
     nested_step (agn_Revision g) (agn_Revision g') (agn_UpdatedAt g) (agn_UpdatedAt g')
       (agn_State g) (agn_State g') RequireAgentGenerationTransition"

definition agent_step :: "AgentWorkspaceRecord \<Rightarrow> AgentWorkspaceRecord \<Rightarrow> bool" where
  "agent_step a a' \<longleftrightarrow> agt_ID a' = agt_ID a \<and> agt_SessionID a' = agt_SessionID a \<and>
     agt_CreatedAt a' = agt_CreatedAt a \<and>
     generation_advance (agt_CurrentGeneration a) (agt_CurrentGeneration a') \<and>
     revision_step (agt_Revision a) (agt_Revision a') (agt_UpdatedAt a) (agt_UpdatedAt a') \<and>
     length (agt_Generations a) \<le> length (agt_Generations a') \<and>
     length (agt_Generations a') \<le> length (agt_Generations a) + 1 \<and>
     (\<forall>i < length (agt_Generations a).
        agent_generation_step (agt_Generations a ! i) (agt_Generations a' ! i))"

definition exec_step :: "ExecRecord \<Rightarrow> ExecRecord \<Rightarrow> bool" where
  "exec_step e e' \<longleftrightarrow> exe_ID e' = exe_ID e \<and> exe_SessionID e' = exe_SessionID e \<and> exe_LeaseID e' = exe_LeaseID e \<and>
     exe_AgentWorkspaceID e' = exe_AgentWorkspaceID e \<and> exe_AgentGeneration e' = exe_AgentGeneration e \<and>
     exe_Kind e' = exe_Kind e \<and> exe_Executable e' = exe_Executable e \<and> exe_Argv e' = exe_Argv e \<and>
     exe_WorkingDirectory e' = exe_WorkingDirectory e \<and> exe_CreatedAt e' = exe_CreatedAt e \<and>
     revision_step (exe_Revision e) (exe_Revision e') (exe_UpdatedAt e) (exe_UpdatedAt e') \<and>
     (exe_State e' = exe_State e \<or> RequireExecTransition (exe_State e) (exe_State e') = None)"

definition target_generation_step :: "TargetGenerationRecord \<Rightarrow> TargetGenerationRecord \<Rightarrow> bool" where
  "target_generation_step g g' \<longleftrightarrow> tgn_Generation g' = tgn_Generation g \<and> tgn_PolicyDigest g' = tgn_PolicyDigest g \<and>
     tgn_CapabilityDigest g' = tgn_CapabilityDigest g \<and> tgn_Previous g' = tgn_Previous g \<and>
     tgn_RecoveryIncident g' = tgn_RecoveryIncident g \<and> tgn_CreatedAt g' = tgn_CreatedAt g \<and>
     (sameTargetProvisioningBinding g g' \<or> targetProvisioningBindingEmpty g \<and> targetProvisioningBindingComplete g') \<and>
     nested_step (tgn_Revision g) (tgn_Revision g') (tgn_UpdatedAt g) (tgn_UpdatedAt g')
       (tgn_State g) (tgn_State g') RequireTargetGenerationTransition"

definition run_step :: "TargetRunRecord \<Rightarrow> TargetRunRecord \<Rightarrow> bool" where
  "run_step r r' \<longleftrightarrow> run_ID r' = run_ID r \<and> run_Generation r' = run_Generation r \<and>
     run_AgentWorkspaceID r' = run_AgentWorkspaceID r \<and> run_AgentGeneration r' = run_AgentGeneration r \<and>
     run_MaterializationDigest r' = run_MaterializationDigest r \<and> run_CreatedAt r' = run_CreatedAt r \<and>
     (sameTargetRunProvisioningBinding r r' \<or>
        targetRunProvisioningBindingEmpty r \<and> targetRunProvisioningBindingComplete r') \<and>
     nested_step (run_Revision r) (run_Revision r') (run_UpdatedAt r) (run_UpdatedAt r')
       (run_State r) (run_State r') RequireTargetRunTransition \<and>
     (run_Revision r' = run_Revision r \<longrightarrow> run_BundleID r' = run_BundleID r \<and>
        run_BundleArtifact r' = run_BundleArtifact r \<and> run_BundleDigest r' = run_BundleDigest r)"

definition operation_step :: "TargetOperationRecord \<Rightarrow> TargetOperationRecord \<Rightarrow> bool" where
  "operation_step q q' \<longleftrightarrow> ope_ID q' = ope_ID q \<and> ope_RunID q' = ope_RunID q \<and>
     ope_Generation q' = ope_Generation q \<and> ope_Kind q' = ope_Kind q \<and>
     ope_CommandDisplay q' = ope_CommandDisplay q \<and> ope_ContentDigest q' = ope_ContentDigest q \<and>
     ope_CreatedAt q' = ope_CreatedAt q \<and>
     nested_step (ope_Revision q) (ope_Revision q') (ope_UpdatedAt q) (ope_UpdatedAt q')
       (ope_State q) (ope_State q') RequireTargetOperationTransition"

definition target_step :: "TargetRecord \<Rightarrow> TargetRecord \<Rightarrow> bool" where
  "target_step t t' \<longleftrightarrow> tgt_ID t' = tgt_ID t \<and> tgt_SessionID t' = tgt_SessionID t \<and> tgt_LeaseID t' = tgt_LeaseID t \<and>
     tgt_CreationIdempotencyKey t' = tgt_CreationIdempotencyKey t \<and> tgt_Template t' = tgt_Template t \<and>
     tgt_Kind t' = tgt_Kind t \<and> tgt_CreatedAt t' = tgt_CreatedAt t \<and>
     generation_advance (tgt_CurrentGeneration t) (tgt_CurrentGeneration t') \<and>
     revision_step (tgt_Revision t) (tgt_Revision t') (tgt_UpdatedAt t) (tgt_UpdatedAt t') \<and>
     length (tgt_Generations t) \<le> length (tgt_Generations t') \<and>
     length (tgt_Generations t') \<le> length (tgt_Generations t) + 1 \<and>
     (\<forall>i < length (tgt_Generations t).
        target_generation_step (tgt_Generations t ! i) (tgt_Generations t' ! i)) \<and>
     (\<forall>r \<in> set (tgt_Runs t). \<exists>r' \<in> set (tgt_Runs t'). run_step r r') \<and>
     (\<forall>q \<in> set (tgt_Operations t). \<exists>q' \<in> set (tgt_Operations t'). operation_step q q')"

definition evidence_step :: "IncidentRecord \<Rightarrow> IncidentRecord \<Rightarrow> bool" where
  "evidence_step i i' \<longleftrightarrow>
     inc_ObservationBundleID i' = inc_ObservationBundleID i \<and> inc_Artifacts i' = inc_Artifacts i \<or>
     inc_State i = IncidentOpen \<and> inc_State i' = IncidentEvidenceSealed \<and> inc_ObservationBundleID i' \<noteq> [] \<and>
     (inc_ObservationBundleID i = [] \<or> inc_ObservationBundleID i' = inc_ObservationBundleID i) \<and>
     set (inc_Artifacts i) \<subseteq> set (inc_Artifacts i')"

definition incident_step :: "IncidentRecord \<Rightarrow> IncidentRecord \<Rightarrow> bool" where
  "incident_step i i' \<longleftrightarrow> sameIncidentIdentity i i' \<and> evidence_step i i' \<and>
     revision_step (inc_Revision i) (inc_Revision i') (inc_UpdatedAt i) (inc_UpdatedAt i') \<and>
     (inc_State i' = inc_State i \<or> RequireIncidentTransition (inc_State i) (inc_State i') = None)"

section \<open>The successor checks decide these relations\<close>

lemma requireReplayRevisionAdvance_None [err_simps]:
  "requireReplayRevisionAdvance prefix r r' u u' = None \<longleftrightarrow> revision_step r r' u u'"
proof -
  have "r \<noteq> - 1 \<and> r' = r + 1 \<longleftrightarrow> unat r' = Suc (unat r)"
  proof
    assume "r \<noteq> - 1 \<and> r' = r + 1"
    then show "unat r' = Suc (unat r)" by (simp add: unat_plus_one)
  next
    assume n: "unat r' = Suc (unat r)"
    then have "r \<noteq> - 1" using word_order.extremum [of r'] by (auto simp: word_le_nat_alt)
    moreover from this have "unat r' = unat (r + 1)" using n by (simp add: unat_plus_one)
    ultimately show "r \<noteq> - 1 \<and> r' = r + 1" using unsigned_word_eqI by blast
  qed
  then show ?thesis by (auto simp: requireReplayRevisionAdvance_def revision_step_def)
qed

lemma requireReplayGenerationAdvance_None [err_simps]:
  "requireReplayGenerationAdvance field g g' = None \<longleftrightarrow> generation_advance g g'"
proof -
  have "\<not> g' < g \<and> \<not> 1 < g' - g \<longleftrightarrow> g' = g \<or> unat g' = Suc (unat g)"
    by (auto simp: word_less_nat_alt word_le_nat_alt unat_sub_if_size not_less unsigned_word_eqI le_Suc_eq
        split: if_splits dest: unsigned_word_eqI)
  then show ?thesis by (auto simp: requireReplayGenerationAdvance_def generation_advance_def)
qed

lemma requireReplayStateAdvance_None [err_simps]:
  "requireReplayStateAdvance prefix r r' u u' x x' transition = None \<longleftrightarrow>
     revision_step r r' u u' \<and> (x' = x \<or> transition x x' = None)"
  by (auto simp: requireReplayStateAdvance_def err_simps split: option.splits)

lemma requireNestedReplayStateAdvance_None [err_simps]:
  "requireNestedReplayStateAdvance prefix r r' u u' x x' transition = None \<longleftrightarrow> nested_step r r' u u' x x' transition"
  by (auto simp: requireNestedReplayStateAdvance_def nested_step_def requireReplayStateAdvance_None revision_step_def)

lemma validateReplayLeaseTerminationAdvance_None [err_simps]:
  "validateReplayLeaseTerminationAdvance t t' = None \<longleftrightarrow> termination_step t t'"
  unfolding validateReplayLeaseTerminationAdvance_def termination_step_def LeaseTermination_Terminal_def
    LeaseTerminationState_Terminal_def by auto

lemma first_err_upt_None [err_simps]:
  "first_err (map f [0..<n]) = None \<longleftrightarrow> (\<forall>i < n. f i = None)"
  by (auto simp: first_err_map_None)

lemma nested_same_revision: "nested_step r r' u u' x x' f \<Longrightarrow> r' = r \<Longrightarrow> x' = x \<and> u' = u"
  by (auto simp: nested_step_def revision_step_def)

lemma validateAgentGenerationHistory_None [err_simps]:
  "validateAgentGenerationHistory xs ys = None \<longleftrightarrow>
     length xs \<le> length ys \<and> length ys \<le> length xs + 1 \<and>
     (\<forall>i < length xs. agent_generation_step (xs ! i) (ys ! i))"
  unfolding validateAgentGenerationHistory_def Let_def agent_generation_step_def
  by (auto simp: err_simps not_less)

lemma validateTargetGenerationHistory_None [err_simps]:
  "validateTargetGenerationHistory xs ys = None \<longleftrightarrow>
     length xs \<le> length ys \<and> length ys \<le> length xs + 1 \<and>
     (\<forall>i < length xs. target_generation_step (xs ! i) (ys ! i))"
  unfolding validateTargetGenerationHistory_def Let_def target_generation_step_def
  by (auto simp: err_simps not_less)

lemma find_in: "find P xs = Some x \<Longrightarrow> x \<in> set xs \<and> P x"
  by (induction xs) (auto split: if_splits)

lemma by_last_id_Some: "by_last_id ident xs i = Some x \<Longrightarrow> x \<in> set xs \<and> ident x = i"
  unfolding by_last_id_def by (drule find_in) simp

lemma validateTargetRunHistory_None:
  assumes "validateTargetRunHistory xs ys = None" "r \<in> set xs"
  shows "\<exists>r' \<in> set ys. run_step r r'"
proof -
  obtain i where i: "i < length xs" "xs ! i = r" using assms(2) by (auto simp: in_set_conv_nth)
  note checks = assms(1) [unfolded validateTargetRunHistory_def first_err_Cons_None first_err_upt_None,
    THEN conjunct2, rule_format, OF i(1), unfolded Let_def i(2)]
  obtain r' where r': "by_last_id run_ID ys (run_ID r) = Some r'"
    using checks by (cases "by_last_id run_ID ys (run_ID r)") simp_all
  have "run_step r r'"
    using checks by_last_id_Some [OF r'] unfolding r' option.case run_step_def err_simps by metis
  then show ?thesis using by_last_id_Some [OF r'] by blast
qed

lemma validateTargetOperationHistory_None:
  assumes "validateTargetOperationHistory xs ys = None" "q \<in> set xs"
  shows "\<exists>q' \<in> set ys. operation_step q q'"
proof -
  obtain i where i: "i < length xs" "xs ! i = q" using assms(2) by (auto simp: in_set_conv_nth)
  note checks = assms(1) [unfolded validateTargetOperationHistory_def first_err_Cons_None first_err_upt_None,
    THEN conjunct2, rule_format, OF i(1), unfolded Let_def i(2)]
  obtain q' where q': "by_last_id ope_ID ys (ope_ID q) = Some q'"
    using checks by (cases "by_last_id ope_ID ys (ope_ID q)") simp_all
  have "operation_step q q'"
    using checks by_last_id_Some [OF q'] unfolding q' option.case operation_step_def err_simps by metis
  then show ?thesis using by_last_id_Some [OF q'] by blast
qed

section \<open>The projection validators, read as specifications\<close>

definition lease_matches :: "SessionRecord \<Rightarrow> LeaseRecord \<Rightarrow> bool" where
  "lease_matches s l \<longleftrightarrow> ses_LeaseID s = lea_ID l \<and> ses_AgentWorkspaceID s = lea_AgentWorkspaceID l \<and>
     ses_InputViewID s = lea_InputViewID l \<and> ses_PolicyDigest s = lea_PolicyDigest l \<and>
     ses_CapabilityDigest s = lea_CapabilityDigest l"

definition agent_matches :: "SessionRecord \<Rightarrow> LeaseRecord \<Rightarrow> AgentWorkspaceRecord \<Rightarrow> bool" where
  "agent_matches s l a \<longleftrightarrow> ses_AgentWorkspaceID s = agt_ID a \<and> lea_AgentWorkspaceID l = agt_ID a \<and>
     lea_SessionID l = agt_SessionID a \<and> generation_advance (lea_AgentGeneration l) (agt_CurrentGeneration a) \<and>
     (\<forall>g \<in> set (agt_Generations a). agn_InputViewID g = lea_InputViewID l \<and> agn_PolicyDigest g = lea_PolicyDigest l \<and>
        agn_CapabilityDigest g = lea_CapabilityDigest l)"

lemma generation_advance_alt: "generation_advance g g' \<longleftrightarrow> \<not> (g > g' \<or> g' - g > 1)"
  using requireReplayGenerationAdvance_None [of "[]" g g'] by (auto simp: requireReplayGenerationAdvance_def)

lemma session_projection_None:
  assumes "validateReplaySessionProjection c v = None"
  shows "validateReplaySession v = None"
    and "tbl_get (core_sessions c) (ses_ID v) = Some p \<Longrightarrow> ses_ID p = ses_ID v \<Longrightarrow> session_step p v"
    and "tbl_get (core_leases c) (ses_LeaseID v) = Some l \<Longrightarrow>
        lea_SessionID l = ses_ID v \<and> lea_AgentWorkspaceID l = ses_AgentWorkspaceID v \<and>
        lea_InputViewID l = ses_InputViewID v \<and> lea_PolicyDigest l = ses_PolicyDigest v \<and>
        lea_CapabilityDigest l = ses_CapabilityDigest v"
    and "tbl_get (core_agents c) (ses_AgentWorkspaceID v) = Some a \<Longrightarrow> agt_SessionID a = ses_ID v"
  using assms unfolding validateReplaySessionProjection_def session_step_def
  by (simp_all add: err_simps)

lemma lease_projection_None:
  assumes "validateReplayLeaseProjection c v = None"
  shows "validateReplayLease v = None"
    and "tbl_get (core_leases c) (lea_ID v) = Some p \<Longrightarrow> lea_ID p = lea_ID v \<Longrightarrow> lease_step p v"
    and "tbl_get (core_leases c) (lea_ID v) = None \<Longrightarrow>
       lea_Revision v = 1 \<and> lea_State v = LeaseActive \<and> LeaseTermination_Empty (lea_Termination v)"
    and "tbl_get (core_agents c) (lea_AgentWorkspaceID v) = Some a \<Longrightarrow> agt_SessionID a = lea_SessionID v \<and>
       lea_AgentGeneration v \<le> agt_CurrentGeneration a \<and> hasAgentGeneration a (lea_AgentGeneration v)"
  using assms unfolding validateReplayLeaseProjection_def lease_step_def
  by (simp_all add: err_simps InitialRevision_def not_less) blast

lemma lease_projection_session:
  assumes "validateReplayLeaseProjection c v = None"
  obtains s where "tbl_get (core_sessions c) (lea_SessionID v) = Some s" "lease_matches s v"
  using assms that unfolding validateReplayLeaseProjection_def lease_matches_def
  by (cases "tbl_get (core_sessions c) (lea_SessionID v)") simp_all

lemma agent_projection_None:
  assumes "validateReplayAgentWorkspaceProjection c v = None"
  obtains s l where "tbl_get (core_sessions c) (agt_SessionID v) = Some s"
    "tbl_get (core_leases c) (ses_LeaseID s) = Some l" "agent_matches s l v"
    "validateReplayAgentWorkspace v = None"
    "\<And>p. tbl_get (core_agents c) (agt_ID v) = Some p \<Longrightarrow> agt_ID p = agt_ID v \<Longrightarrow> agent_step p v"
proof -
  from assms obtain s where s: "tbl_get (core_sessions c) (agt_SessionID v) = Some s"
      and v: "validateReplayAgentWorkspace v = None"
    unfolding validateReplayAgentWorkspaceProjection_def Let_def by (simp split: option.splits)
  with assms obtain l where l: "tbl_get (core_leases c) (ses_LeaseID s) = Some l"
    unfolding validateReplayAgentWorkspaceProjection_def Let_def by (simp split: option.splits)
  note checks = assms [unfolded validateReplayAgentWorkspaceProjection_def Let_def s v l option.case
      first_err_append first_err_Cons_None first_err_upt_None fail_if_None]
  have "agent_matches s l v"
    using checks unfolding agent_matches_def generation_advance_alt all_set_conv_all_nth by metis
  moreover have "agent_step p v" if "tbl_get (core_agents c) (agt_ID v) = Some p" "agt_ID p = agt_ID v" for p
    using checks that unfolding agent_step_def by (simp add: err_simps)
  ultimately show thesis using that s l v by blast
qed

lemma exec_projection_None:
  assumes "validateReplayExecProjection c v = None"
  shows "validateReplayExec v = None" "exec_resolves c v"
    and "tbl_get (core_execs c) (exe_ID v) = Some p \<Longrightarrow> exe_ID p = exe_ID v \<Longrightarrow> exec_step p v"
    and "i \<in> set (exe_IncidentIDs v) \<Longrightarrow> exec_incident_linked c v i"
proof -
  note checks = assms [unfolded validateReplayExecProjection_def first_err_append first_err_Cons_None
      first_err_upt_None fail_if_None]
  show "validateReplayExec v = None" "exec_resolves c v" using checks by simp_all
  show "tbl_get (core_execs c) (exe_ID v) = Some p \<Longrightarrow> exe_ID p = exe_ID v \<Longrightarrow> exec_step p v"
    using checks unfolding exec_step_def by (simp add: err_simps)
  show "i \<in> set (exe_IncidentIDs v) \<Longrightarrow> exec_incident_linked c v i"
    using checks by (auto simp: in_set_conv_nth)
qed

lemma target_projection_None:
  assumes "validateReplayTargetProjection c v = None"
  shows "validateReplayTarget v = None" "target_resolves c v"
    and "r \<in> set (tgt_Runs v) \<Longrightarrow> run_resolves c v r"
    and "r \<in> set (tgt_Runs v) \<Longrightarrow> i \<in> set (run_IncidentIDs r) \<Longrightarrow> run_incident_linked c v r i"
    and "tbl_get (core_targets c) (tgt_ID v) = Some p \<Longrightarrow> tgt_ID p = tgt_ID v \<Longrightarrow> target_step p v"
proof -
  note checks = assms [unfolded validateReplayTargetProjection_def Let_def first_err_append first_err_Cons_None
      first_err_upt_None fail_if_None]
  show "validateReplayTarget v = None" "target_resolves c v" using checks by simp_all
  show "r \<in> set (tgt_Runs v) \<Longrightarrow> run_resolves c v r" using checks by (auto simp: in_set_conv_nth)
  show "r \<in> set (tgt_Runs v) \<Longrightarrow> i \<in> set (run_IncidentIDs r) \<Longrightarrow> run_incident_linked c v r i"
    using checks by (auto simp: in_set_conv_nth)
  show "tbl_get (core_targets c) (tgt_ID v) = Some p \<Longrightarrow> tgt_ID p = tgt_ID v \<Longrightarrow> target_step p v"
    using checks validateTargetRunHistory_None validateTargetOperationHistory_None unfolding target_step_def
    by (simp add: err_simps) blast
qed

lemma requireIncidentEvidenceAdvance_None:
  "requireIncidentEvidenceAdvance i i' = None \<Longrightarrow> evidence_step i i'"
  unfolding requireIncidentEvidenceAdvance_def evidence_step_def by (auto split: if_splits)

definition lease_ref :: "Core \<Rightarrow> IncidentRecord \<Rightarrow> bool" where
  "lease_ref c i \<longleftrightarrow> (\<exists>s l. tbl_get (core_sessions c) (inc_SessionID i) = Some s \<and>
     ses_LeaseID s = inc_LeaseID i \<and> tbl_get (core_leases c) (inc_LeaseID i) = Some l \<and>
     lea_SessionID l = inc_SessionID i)"

definition agent_ref :: "Core \<Rightarrow> IncidentRecord \<Rightarrow> bool" where
  "agent_ref c i \<longleftrightarrow> (\<exists>a. tbl_get (core_agents c) (inc_AgentWorkspaceID i) = Some a \<and>
     agt_SessionID a = inc_SessionID i \<and>
     (inc_AgentGeneration i > 0 \<longrightarrow> hasAgentGeneration a (inc_AgentGeneration i)))"

definition exec_ref :: "Core \<Rightarrow> IncidentRecord \<Rightarrow> bool" where
  "exec_ref c i \<longleftrightarrow> (\<exists>e. tbl_get (core_execs c) (inc_ExecID i) = Some e \<and>
     exe_SessionID e = inc_SessionID i \<and> exe_LeaseID e = inc_LeaseID i \<and>
     exe_AgentWorkspaceID e = inc_AgentWorkspaceID i \<and> exe_AgentGeneration e = inc_AgentGeneration i)"

definition target_ref :: "Core \<Rightarrow> IncidentRecord \<Rightarrow> bool" where
  "target_ref c i \<longleftrightarrow> (\<exists>t. tbl_get (core_targets c) (inc_TargetID i) = Some t \<and>
     tgt_SessionID t = inc_SessionID i \<and> (inc_LeaseID i \<noteq> [] \<longrightarrow> tgt_LeaseID t = inc_LeaseID i) \<and>
     (inc_TargetGeneration i > 0 \<longrightarrow> hasTargetGeneration t (inc_TargetGeneration i)) \<and>
     (inc_TargetRunID i \<noteq> [] \<longrightarrow> (\<exists>r \<in> set (tgt_Runs t). run_ID r = inc_TargetRunID i \<and>
        run_Generation r = inc_TargetGeneration i)))"

definition incident_resolves :: "Core \<Rightarrow> IncidentRecord \<Rightarrow> bool" where
  "incident_resolves c i \<longleftrightarrow> tbl_get (core_sessions c) (inc_SessionID i) \<noteq> None \<and>
     (inc_LeaseID i \<noteq> [] \<longrightarrow> lease_ref c i) \<and> (inc_AgentWorkspaceID i \<noteq> [] \<longrightarrow> agent_ref c i) \<and>
     (inc_ExecID i \<noteq> [] \<longrightarrow> exec_ref c i) \<and> (inc_TargetID i \<noteq> [] \<longrightarrow> target_ref c i)"

lemma target_run_found:
  "\<not> (case targetRunByID t i of None \<Rightarrow> True | Some r \<Rightarrow> P r) \<Longrightarrow> \<exists>r \<in> set (tgt_Runs t). run_ID r = i \<and> \<not> P r"
  by (auto simp: targetRunByID_def split: option.splits dest!: find_in)

lemma incident_projection_None:
  assumes "validateReplayIncidentProjection c v = None"
  shows "validateReplayIncident v = None" "incident_resolves c v"
    and "tbl_get (core_incidents c) (inc_ID v) = Some p \<Longrightarrow> incident_step p v"
proof -
  from assms obtain s where s: "tbl_get (core_sessions c) (inc_SessionID v) = Some s"
    unfolding validateReplayIncidentProjection_def by (cases "tbl_get (core_sessions c) (inc_SessionID v)") simp_all
  note checks = assms [unfolded validateReplayIncidentProjection_def s option.case first_err_Cons_None fail_if_None]
  show "validateReplayIncident v = None" using checks by blast
  show "tbl_get (core_incidents c) (inc_ID v) = Some p \<Longrightarrow> incident_step p v"
    using checks requireIncidentEvidenceAdvance_None unfolding incident_step_def by (simp add: err_simps)
  show "incident_resolves c v"
    unfolding incident_resolves_def
  proof (intro conjI impI)
    show "tbl_get (core_sessions c) (inc_SessionID v) \<noteq> None" using s by simp
  next
    assume "inc_LeaseID v \<noteq> []"
    then show "lease_ref c v" unfolding lease_ref_def
      using checks s by (cases "tbl_get (core_leases c) (inc_LeaseID v)") simp_all
  next
    assume "inc_AgentWorkspaceID v \<noteq> []"
    then show "agent_ref c v" unfolding agent_ref_def
      using checks by (cases "tbl_get (core_agents c) (inc_AgentWorkspaceID v)") simp_all
  next
    assume "inc_ExecID v \<noteq> []"
    then show "exec_ref c v" unfolding exec_ref_def
      using checks by (cases "tbl_get (core_execs c) (inc_ExecID v)") simp_all
  next
    assume "inc_TargetID v \<noteq> []"
    then show "target_ref c v" unfolding target_ref_def
      using checks target_run_found by (cases "tbl_get (core_targets c) (inc_TargetID v)") (simp_all, blast)
  qed
qed

section \<open>What one applied record does to the projection\<close>

lemma decodeReplayAggregate_Inr:
  assumes "decodeReplayAggregate decode r identity validate = Inr v"
  shows "decode (cr_Payload r) = Some v" "identity v = (cr_AggregateID r, cr_Revision r)" "validate v = None"
  using assms unfolding decodeReplayAggregate_def
  by (auto simp: prod_eq_iff split: option.splits)

lemma decoded_update:
  assumes "bind_r (decodeReplayAggregate decode r identity validate) (\<lambda>v. Inr (update v)) = Inr c'"
  obtains v where "decode (cr_Payload r) = Some v" "identity v = (cr_AggregateID r, cr_Revision r)"
    "validate v = None" "c' = update v"
  using assms decodeReplayAggregate_Inr [of decode r identity validate] by (auto simp: bind_r_Inr)

lemma apply_record_cases:
  assumes "apply_record c r = Inr c'"
  obtains (session) v where "validateReplaySessionProjection c v = None"
      "c' = c\<lparr>core_sessions := tbl_put (ses_ID v) v (core_sessions c)\<rparr>" "cr_Payload r = PSession v"
      "cr_AggregateKind r = ''session''" "cr_AggregateID r = ses_ID v" "cr_Revision r = ses_Revision v"
  | (lease) v where "validateReplayLeaseProjection c v = None"
      "c' = c\<lparr>core_leases := tbl_put (lea_ID v) v (core_leases c)\<rparr>" "cr_Payload r = PLease v"
      "cr_AggregateKind r = ''lease''" "cr_AggregateID r = lea_ID v" "cr_Revision r = lea_Revision v"
  | (agent) v where "validateReplayAgentWorkspaceProjection c v = None"
      "c' = c\<lparr>core_agents := tbl_put (agt_ID v) v (core_agents c)\<rparr>" "cr_Payload r = PAgent v"
      "cr_AggregateKind r = ''agent_workspace''" "cr_AggregateID r = agt_ID v" "cr_Revision r = agt_Revision v"
  | (exec) v where "validateReplayExecProjection c v = None"
      "c' = c\<lparr>core_execs := tbl_put (exe_ID v) v (core_execs c)\<rparr>" "cr_Payload r = PExec v"
      "cr_AggregateKind r = ''exec''" "cr_AggregateID r = exe_ID v" "cr_Revision r = exe_Revision v"
  | (target) v where "validateReplayTargetProjection c v = None"
      "c' = c\<lparr>core_targets := tbl_put (tgt_ID v) v (core_targets c)\<rparr>" "cr_Payload r = PTarget v"
      "cr_AggregateKind r = ''target''" "cr_AggregateID r = tgt_ID v" "cr_Revision r = tgt_Revision v"
  | (incident) v where "validateReplayIncidentProjection c v = None"
      "c' = c\<lparr>core_incidents := tbl_put (inc_ID v) v (core_incidents c)\<rparr>" "cr_Payload r = PIncident v"
      "cr_AggregateKind r = ''incident''" "cr_AggregateID r = inc_ID v" "cr_Revision r = inc_Revision v"
proof -
  have decoders: "as_session p = Some v1 \<Longrightarrow> p = PSession v1" "as_lease p = Some v2 \<Longrightarrow> p = PLease v2"
      "as_agent p = Some v3 \<Longrightarrow> p = PAgent v3" "as_exec p = Some v4 \<Longrightarrow> p = PExec v4"
      "as_target p = Some v5 \<Longrightarrow> p = PTarget v5" "as_incident p = Some v6 \<Longrightarrow> p = PIncident v6"
    for p v1 v2 v3 v4 v5 v6 by (cases p; simp)+
  note open_apply = assms [unfolded apply_record_def]
  consider "cr_AggregateKind r = ''session''" | "cr_AggregateKind r = ''lease''"
    | "cr_AggregateKind r = ''agent_workspace''" | "cr_AggregateKind r = ''exec''"
    | "cr_AggregateKind r = ''target''" | "cr_AggregateKind r = ''incident''"
    using open_apply by (auto split: if_splits)
  then show thesis
  proof cases
    case 1
    with open_apply show ?thesis using session by (auto elim!: decoded_update dest!: decoders)
  next
    case 2
    with open_apply show ?thesis using lease by (auto elim!: decoded_update dest!: decoders)
  next
    case 3
    with open_apply show ?thesis using agent by (auto elim!: decoded_update dest!: decoders)
  next
    case 4
    with open_apply show ?thesis using exec by (auto elim!: decoded_update dest!: decoders)
  next
    case 5
    with open_apply show ?thesis using target by (auto elim!: decoded_update dest!: decoders)
  next
    case 6
    with open_apply show ?thesis using incident by (auto elim!: decoded_update dest!: decoders)
  qed
qed

section \<open>Histories\<close>

text \<open>
  Every table of the projection holds its values under their own identity, and a replayed record
  either leaves it alone or replaces one value by a legal successor (or adds the first one).
\<close>

definition keyed :: "('v \<Rightarrow> string) \<Rightarrow> 'v table \<Rightarrow> bool" where
  "keyed ident t \<longleftrightarrow> (\<forall>k v. tbl_get t k = Some v \<longrightarrow> ident v = k)"

lemma keyed_put: "keyed ident t \<Longrightarrow> keyed ident (tbl_put (ident v) v t)"
  by (simp add: keyed_def)

lemma keyed_Nil [simp]: "keyed ident []"
  by (simp add: keyed_def)

locale replay_invariant =
  fixes inv :: "Core \<Rightarrow> bool"
  assumes record_inv: "inv c \<Longrightarrow> apply_record c r = Inr c' \<Longrightarrow> inv c'"
    and sequence_inv: "inv (c\<lparr>core_lastSequence := n\<rparr>) = inv c"
begin

lemma batch_inv: "inv c \<Longrightarrow> inv (fst (apply_batch c rs))"
  by (induction c rs rule: apply_batch.induct) (auto simp: sequence_inv record_inv split: sum.splits)

lemma sync_inv: "inv c \<Longrightarrow> inv (fst (syncLocked env c))"
proof (induction env c rule: syncLocked.induct)
  case (1 env c)
  then show ?case using batch_inv [of c]
    by (cases "Records env (core_store c) (core_lastSequence c) 1000")
      (auto simp: syncLocked.simps [of env c])
qed

end

definition succeeds :: "('v \<Rightarrow> 'v \<Rightarrow> bool) \<Rightarrow> 'v table \<Rightarrow> 'v table \<Rightarrow> bool" where
  "succeeds step t t' \<longleftrightarrow> (\<forall>k v. tbl_get t k = Some v \<longrightarrow> (\<exists>v'. tbl_get t' k = Some v' \<and> step v v'))"

locale aggregate =
  fixes entries :: "Core \<Rightarrow> 'v table" and ident :: "'v \<Rightarrow> string" and step :: "'v \<Rightarrow> 'v \<Rightarrow> bool"
  assumes apply_step: "keyed ident (entries c) \<Longrightarrow> apply_record c r = Inr c' \<Longrightarrow>
      entries c' = entries c \<or>
      (\<exists>v. entries c' = tbl_put (ident v) v (entries c) \<and> (\<forall>p. tbl_get (entries c) (ident v) = Some p \<longrightarrow> step p v))"
    and sequence_irrelevant: "entries (c\<lparr>core_lastSequence := n\<rparr>) = entries c"
    and store_irrelevant: "entries (c\<lparr>core_store := s\<rparr>) = entries c"
begin

lemma record_keyed: "keyed ident (entries c) \<Longrightarrow> apply_record c r = Inr c' \<Longrightarrow> keyed ident (entries c')"
  using apply_step [of c r c'] keyed_put by auto

lemma record_succeeds:
  assumes "keyed ident (entries c)" "apply_record c r = Inr c'"
  shows "succeeds (\<lambda>v v'. v' = v \<or> step v v') (entries c) (entries c')"
  using apply_step [OF assms] by (auto simp: succeeds_def)

lemma history_invariant: "replay_invariant (\<lambda>c. keyed ident (entries c) \<and> succeeds step\<^sup>*\<^sup>* t (entries c))"
proof
  fix c r c' assume i: "keyed ident (entries c) \<and> succeeds step\<^sup>*\<^sup>* t (entries c)" and a: "apply_record c r = Inr c'"
  have "succeeds step\<^sup>*\<^sup>* t (entries c')"
    using i record_succeeds [of c r c'] a unfolding succeeds_def by (metis rtranclp.rtrancl_into_rtrancl)
  then show "keyed ident (entries c') \<and> succeeds step\<^sup>*\<^sup>* t (entries c')" using i record_keyed a by blast
qed (simp add: sequence_irrelevant)

end

interpretation sessions: aggregate core_sessions ses_ID session_step
proof
  fix c r c' assume k: "keyed ses_ID (core_sessions c)" and a: "apply_record c r = Inr c'"
  from a show "core_sessions c' = core_sessions c \<or>
      (\<exists>v. core_sessions c' = tbl_put (ses_ID v) v (core_sessions c) \<and>
         (\<forall>p. tbl_get (core_sessions c) (ses_ID v) = Some p \<longrightarrow> session_step p v))"
    by (cases rule: apply_record_cases) (use k session_projection_None(2) in \<open>auto simp: keyed_def\<close>)
qed simp_all

interpretation leases: aggregate core_leases lea_ID lease_step
proof
  fix c r c' assume k: "keyed lea_ID (core_leases c)" and a: "apply_record c r = Inr c'"
  from a show "core_leases c' = core_leases c \<or>
      (\<exists>v. core_leases c' = tbl_put (lea_ID v) v (core_leases c) \<and>
         (\<forall>p. tbl_get (core_leases c) (lea_ID v) = Some p \<longrightarrow> lease_step p v))"
    by (cases rule: apply_record_cases) (use k lease_projection_None(2) in \<open>auto simp: keyed_def\<close>)
qed simp_all

interpretation agents: aggregate core_agents agt_ID agent_step
proof
  fix c r c' assume k: "keyed agt_ID (core_agents c)" and a: "apply_record c r = Inr c'"
  have step: "agent_step p v" if "validateReplayAgentWorkspaceProjection c v = None"
      "tbl_get (core_agents c) (agt_ID v) = Some p" for p v
    using that(1) by (rule agent_projection_None) (use that(2) k in \<open>auto simp: keyed_def\<close>)
  from a show "core_agents c' = core_agents c \<or>
      (\<exists>v. core_agents c' = tbl_put (agt_ID v) v (core_agents c) \<and>
         (\<forall>p. tbl_get (core_agents c) (agt_ID v) = Some p \<longrightarrow> agent_step p v))"
    by (cases rule: apply_record_cases) (use step in auto)
qed simp_all

interpretation execs: aggregate core_execs exe_ID exec_step
proof
  fix c r c' assume k: "keyed exe_ID (core_execs c)" and a: "apply_record c r = Inr c'"
  from a show "core_execs c' = core_execs c \<or>
      (\<exists>v. core_execs c' = tbl_put (exe_ID v) v (core_execs c) \<and>
         (\<forall>p. tbl_get (core_execs c) (exe_ID v) = Some p \<longrightarrow> exec_step p v))"
    by (cases rule: apply_record_cases) (use k exec_projection_None(3) in \<open>auto simp: keyed_def\<close>)
qed simp_all

interpretation targets: aggregate core_targets tgt_ID target_step
proof
  fix c r c' assume k: "keyed tgt_ID (core_targets c)" and a: "apply_record c r = Inr c'"
  from a show "core_targets c' = core_targets c \<or>
      (\<exists>v. core_targets c' = tbl_put (tgt_ID v) v (core_targets c) \<and>
         (\<forall>p. tbl_get (core_targets c) (tgt_ID v) = Some p \<longrightarrow> target_step p v))"
    by (cases rule: apply_record_cases) (use k target_projection_None(5) in \<open>auto simp: keyed_def\<close>)
qed simp_all

interpretation incidents: aggregate core_incidents inc_ID incident_step
proof
  fix c r c' assume k: "keyed inc_ID (core_incidents c)" and a: "apply_record c r = Inr c'"
  from a show "core_incidents c' = core_incidents c \<or>
      (\<exists>v. core_incidents c' = tbl_put (inc_ID v) v (core_incidents c) \<and>
         (\<forall>p. tbl_get (core_incidents c) (inc_ID v) = Some p \<longrightarrow> incident_step p v))"
    by (cases rule: apply_record_cases) (use k incident_projection_None(3) in \<open>auto simp: keyed_def\<close>)
qed simp_all

section \<open>A coherent projection\<close>

text \<open>
  Every aggregate satisfies its own persisted-form invariants, is filed under its own identity, and
  every reference it holds resolves to an aggregate of the same research session with the same pins.
\<close>

definition coherent_lease :: "Core \<Rightarrow> LeaseRecord \<Rightarrow> bool" where
  "coherent_lease c l \<longleftrightarrow> validateReplayLease l = None \<and>
     (\<exists>s. tbl_get (core_sessions c) (lea_SessionID l) = Some s \<and> lease_matches s l)"

definition coherent_agent :: "Core \<Rightarrow> AgentWorkspaceRecord \<Rightarrow> bool" where
  "coherent_agent c a \<longleftrightarrow> validateReplayAgentWorkspace a = None \<and>
     (\<exists>s l. tbl_get (core_sessions c) (agt_SessionID a) = Some s \<and>
        tbl_get (core_leases c) (ses_LeaseID s) = Some l \<and> agent_matches s l a)"

definition coherent_exec :: "Core \<Rightarrow> ExecRecord \<Rightarrow> bool" where
  "coherent_exec c e \<longleftrightarrow> validateReplayExec e = None \<and> exec_resolves c e \<and>
     (\<forall>i \<in> set (exe_IncidentIDs e). exec_incident_linked c e i)"

definition coherent_target :: "Core \<Rightarrow> TargetRecord \<Rightarrow> bool" where
  "coherent_target c t \<longleftrightarrow> validateReplayTarget t = None \<and> target_resolves c t \<and>
     (\<forall>r \<in> set (tgt_Runs t). run_resolves c t r \<and> (\<forall>i \<in> set (run_IncidentIDs r). run_incident_linked c t r i))"

definition coherent_incident :: "Core \<Rightarrow> IncidentRecord \<Rightarrow> bool" where
  "coherent_incident c i \<longleftrightarrow> validateReplayIncident i = None \<and> incident_resolves c i"

definition all_entries :: "('v \<Rightarrow> bool) \<Rightarrow> 'v table \<Rightarrow> bool" where
  "all_entries P t \<longleftrightarrow> (\<forall>k v. tbl_get t k = Some v \<longrightarrow> P v)"

definition keyed_tables :: "Core \<Rightarrow> bool" where
  "keyed_tables c \<longleftrightarrow> keyed ses_ID (core_sessions c) \<and> keyed lea_ID (core_leases c) \<and>
     keyed agt_ID (core_agents c) \<and> keyed exe_ID (core_execs c) \<and> keyed tgt_ID (core_targets c) \<and>
     keyed inc_ID (core_incidents c)"

definition coherent :: "Core \<Rightarrow> bool" where
  "coherent c \<longleftrightarrow> keyed_tables c \<and>
     all_entries (\<lambda>s. validateReplaySession s = None) (core_sessions c) \<and>
     all_entries (coherent_lease c) (core_leases c) \<and> all_entries (coherent_agent c) (core_agents c) \<and>
     all_entries (coherent_exec c) (core_execs c) \<and> all_entries (coherent_target c) (core_targets c) \<and>
     all_entries (coherent_incident c) (core_incidents c)"

text \<open>The projection after one more record keeps, of every aggregate, what the others rely on.\<close>

definition advances :: "Core \<Rightarrow> Core \<Rightarrow> bool" where
  "advances c c' \<longleftrightarrow>
     succeeds (\<lambda>v v'. v' = v \<or> session_step v v') (core_sessions c) (core_sessions c') \<and>
     succeeds (\<lambda>v v'. v' = v \<or> lease_step v v') (core_leases c) (core_leases c') \<and>
     succeeds (\<lambda>v v'. v' = v \<or> agent_step v v') (core_agents c) (core_agents c') \<and>
     succeeds (\<lambda>v v'. v' = v \<or> exec_step v v') (core_execs c) (core_execs c') \<and>
     succeeds (\<lambda>v v'. v' = v \<or> target_step v v') (core_targets c) (core_targets c') \<and>
     succeeds (\<lambda>v v'. v' = v \<or> incident_step v v') (core_incidents c) (core_incidents c')"

lemma record_advances:
  assumes "keyed_tables c" "apply_record c r = Inr c'"
  shows "advances c c'" "keyed_tables c'"
proof -
  note k = assms(1) [unfolded keyed_tables_def] and a = assms(2)
  show "advances c c'" unfolding advances_def
    using k sessions.record_succeeds [OF _ a] leases.record_succeeds [OF _ a] agents.record_succeeds [OF _ a]
      execs.record_succeeds [OF _ a] targets.record_succeeds [OF _ a] incidents.record_succeeds [OF _ a] by blast
  show "keyed_tables c'" unfolding keyed_tables_def
    using k sessions.record_keyed [OF _ a] leases.record_keyed [OF _ a] agents.record_keyed [OF _ a]
      execs.record_keyed [OF _ a] targets.record_keyed [OF _ a] incidents.record_keyed [OF _ a] by blast
qed

lemma advances_session:
  assumes "advances c c'" "tbl_get (core_sessions c) k = Some s"
  obtains s' where "tbl_get (core_sessions c') k = Some s'" "ses_ID s' = ses_ID s" "ses_LeaseID s' = ses_LeaseID s"
    "ses_AgentWorkspaceID s' = ses_AgentWorkspaceID s" "ses_InputViewID s' = ses_InputViewID s"
    "ses_PolicyDigest s' = ses_PolicyDigest s" "ses_CapabilityDigest s' = ses_CapabilityDigest s"
proof -
  obtain s' where "tbl_get (core_sessions c') k = Some s'" "s' = s \<or> session_step s s'"
    using assms unfolding advances_def succeeds_def by blast
  then show thesis using that by (auto simp: session_step_def)
qed

lemma advances_lease:
  assumes "advances c c'" "tbl_get (core_leases c) k = Some l"
  obtains l' where "tbl_get (core_leases c') k = Some l'" "lea_ID l' = lea_ID l" "lea_SessionID l' = lea_SessionID l"
    "lea_AgentWorkspaceID l' = lea_AgentWorkspaceID l" "lea_InputViewID l' = lea_InputViewID l"
    "lea_PolicyDigest l' = lea_PolicyDigest l" "lea_CapabilityDigest l' = lea_CapabilityDigest l"
    "generation_advance (lea_AgentGeneration l) (lea_AgentGeneration l')"
proof -
  obtain l' where "tbl_get (core_leases c') k = Some l'" "l' = l \<or> lease_step l l'"
    using assms unfolding advances_def succeeds_def by blast
  then show thesis using that by (auto simp: lease_step_def generation_advance_def)
qed

lemma agent_step_hasGeneration:
  assumes "agent_step a a'" "hasAgentGeneration a g" shows "hasAgentGeneration a' g"
proof -
  have g: "agn_Generation (agt_Generations a ! (unat g - 1)) = g" "g > 0" and u: "unat g \<le> length (agt_Generations a)"
    using assms(2) unfolding hasAgentGeneration_def by blast+
  have "0 < unat g" using g(2) by (simp add: unat_gt_0 word_gt_0)
  then have i: "unat g - 1 < length (agt_Generations a)" using u by linarith
  have "agent_generation_step (agt_Generations a ! (unat g - 1)) (agt_Generations a' ! (unat g - 1))"
    using assms(1) i unfolding agent_step_def by blast
  then have "agn_Generation (agt_Generations a' ! (unat g - 1)) = g" using g(1) unfolding agent_generation_step_def by metis
  moreover have "unat g \<le> length (agt_Generations a')" using assms unfolding hasAgentGeneration_def agent_step_def by linarith
  ultimately show ?thesis using g(2) unfolding hasAgentGeneration_def by blast
qed

lemma target_step_hasGeneration:
  assumes "target_step t t'" "hasTargetGeneration t g" shows "hasTargetGeneration t' g"
proof -
  have g: "tgn_Generation (tgt_Generations t ! (unat g - 1)) = g" "g > 0" and u: "unat g \<le> length (tgt_Generations t)"
    using assms(2) unfolding hasTargetGeneration_def by blast+
  have "0 < unat g" using g(2) by (simp add: unat_gt_0 word_gt_0)
  then have i: "unat g - 1 < length (tgt_Generations t)" using u by linarith
  have "target_generation_step (tgt_Generations t ! (unat g - 1)) (tgt_Generations t' ! (unat g - 1))"
    using assms(1) i unfolding target_step_def by blast
  then have "tgn_Generation (tgt_Generations t' ! (unat g - 1)) = g" using g(1) unfolding target_generation_step_def by metis
  moreover have "unat g \<le> length (tgt_Generations t')" using assms unfolding hasTargetGeneration_def target_step_def by linarith
  ultimately show ?thesis using g(2) unfolding hasTargetGeneration_def by blast
qed

lemma advances_agent:
  assumes "advances c c'" "tbl_get (core_agents c) k = Some a"
  obtains a' where "tbl_get (core_agents c') k = Some a'" "agt_SessionID a' = agt_SessionID a"
    "\<And>g. hasAgentGeneration a g \<Longrightarrow> hasAgentGeneration a' g"
proof -
  obtain a' where "tbl_get (core_agents c') k = Some a'" "a' = a \<or> agent_step a a'"
    using assms unfolding advances_def succeeds_def by blast
  then show thesis using that agent_step_hasGeneration by (auto simp: agent_step_def)
qed

lemma advances_exec:
  assumes "advances c c'" "tbl_get (core_execs c) k = Some e"
  obtains e' where "tbl_get (core_execs c') k = Some e'" "exe_SessionID e' = exe_SessionID e"
    "exe_LeaseID e' = exe_LeaseID e" "exe_AgentWorkspaceID e' = exe_AgentWorkspaceID e"
    "exe_AgentGeneration e' = exe_AgentGeneration e"
proof -
  obtain e' where "tbl_get (core_execs c') k = Some e'" "e' = e \<or> exec_step e e'"
    using assms unfolding advances_def succeeds_def by blast
  then show thesis using that by (auto simp: exec_step_def)
qed

lemma advances_target:
  assumes "advances c c'" "tbl_get (core_targets c) k = Some t"
  obtains t' where "tbl_get (core_targets c') k = Some t'" "tgt_SessionID t' = tgt_SessionID t"
    "tgt_LeaseID t' = tgt_LeaseID t" "\<And>g. hasTargetGeneration t g \<Longrightarrow> hasTargetGeneration t' g"
    "\<And>r. r \<in> set (tgt_Runs t) \<Longrightarrow> \<exists>r' \<in> set (tgt_Runs t'). run_ID r' = run_ID r \<and> run_Generation r' = run_Generation r"
proof -
  obtain t' where t': "tbl_get (core_targets c') k = Some t'" "t' = t \<or> target_step t t'"
    using assms unfolding advances_def succeeds_def by blast
  have "\<exists>r' \<in> set (tgt_Runs t'). run_ID r' = run_ID r \<and> run_Generation r' = run_Generation r"
    if "r \<in> set (tgt_Runs t)" for r
    using t'(2) that unfolding target_step_def run_step_def by blast
  then show thesis using t' that target_step_hasGeneration by (auto simp: target_step_def)
qed

lemma sameIncidentIdentity_fields:
  assumes "sameIncidentIdentity i i'"
  shows "inc_SessionID i' = inc_SessionID i" "inc_LeaseID i' = inc_LeaseID i"
    "inc_AgentWorkspaceID i' = inc_AgentWorkspaceID i" "inc_AgentGeneration i' = inc_AgentGeneration i"
    "inc_ExecID i' = inc_ExecID i" "inc_TargetID i' = inc_TargetID i"
    "inc_TargetGeneration i' = inc_TargetGeneration i" "inc_TargetRunID i' = inc_TargetRunID i"
proof -
  note same = assms [unfolded sameIncidentIdentity_def Let_def, THEN arg_cong]
  show "inc_SessionID i' = inc_SessionID i" using same [of inc_SessionID] by simp
  show "inc_LeaseID i' = inc_LeaseID i" using same [of inc_LeaseID] by simp
  show "inc_AgentWorkspaceID i' = inc_AgentWorkspaceID i" using same [of inc_AgentWorkspaceID] by simp
  show "inc_AgentGeneration i' = inc_AgentGeneration i" using same [of inc_AgentGeneration] by simp
  show "inc_ExecID i' = inc_ExecID i" using same [of inc_ExecID] by simp
  show "inc_TargetID i' = inc_TargetID i" using same [of inc_TargetID] by simp
  show "inc_TargetGeneration i' = inc_TargetGeneration i" using same [of inc_TargetGeneration] by simp
  show "inc_TargetRunID i' = inc_TargetRunID i" using same [of inc_TargetRunID] by simp
qed

lemma advances_incident:
  assumes "advances c c'" "tbl_get (core_incidents c) k = Some i"
  obtains i' where "tbl_get (core_incidents c') k = Some i'" "inc_SessionID i' = inc_SessionID i"
    "inc_LeaseID i' = inc_LeaseID i" "inc_AgentWorkspaceID i' = inc_AgentWorkspaceID i"
    "inc_AgentGeneration i' = inc_AgentGeneration i" "inc_ExecID i' = inc_ExecID i" "inc_TargetID i' = inc_TargetID i"
    "inc_TargetGeneration i' = inc_TargetGeneration i" "inc_TargetRunID i' = inc_TargetRunID i"
proof -
  obtain i' where "tbl_get (core_incidents c') k = Some i'" "i' = i \<or> incident_step i i'"
    using assms unfolding advances_def succeeds_def by blast
  then show thesis using that sameIncidentIdentity_fields [of i i'] by (auto simp: incident_step_def)
qed

section \<open>References keep resolving\<close>

lemma exec_resolves_iff:
  "exec_resolves c e \<longleftrightarrow>
     (\<exists>s l a. tbl_get (core_sessions c) (exe_SessionID e) = Some s \<and> tbl_get (core_leases c) (exe_LeaseID e) = Some l \<and>
        tbl_get (core_agents c) (exe_AgentWorkspaceID e) = Some a \<and> ses_LeaseID s = exe_LeaseID e \<and>
        lea_SessionID l = exe_SessionID e \<and> lea_AgentWorkspaceID l = exe_AgentWorkspaceID e \<and>
        agt_SessionID a = exe_SessionID e \<and> hasAgentGeneration a (exe_AgentGeneration e))"
  by (auto simp: exec_resolves_def split: option.splits)

lemma target_resolves_iff:
  "target_resolves c t \<longleftrightarrow>
     (\<exists>s l. tbl_get (core_sessions c) (tgt_SessionID t) = Some s \<and> tbl_get (core_leases c) (tgt_LeaseID t) = Some l \<and>
        ses_LeaseID s = tgt_LeaseID t \<and> lea_SessionID l = tgt_SessionID t)"
  by (auto simp: target_resolves_def split: option.splits)

lemma exec_resolves_advances:
  assumes a: "advances c c'" and "exec_resolves c e" shows "exec_resolves c' e"
  using assms(2) unfolding exec_resolves_iff
  by (elim exE conjE advances_session [OF a] advances_lease [OF a] advances_agent [OF a]) auto

lemma exec_incident_advances:
  "advances c c' \<Longrightarrow> exec_incident_linked c e i \<Longrightarrow> exec_incident_linked c' e i"
  by (auto simp: exec_incident_linked_def split: option.splits elim: advances_incident)

lemma run_resolves_advances: "advances c c' \<Longrightarrow> run_resolves c t r \<Longrightarrow> run_resolves c' t r"
  by (auto simp: run_resolves_def split: option.splits elim: advances_agent)

lemma run_incident_advances:
  "advances c c' \<Longrightarrow> run_incident_linked c t r i \<Longrightarrow> run_incident_linked c' t r i"
  by (auto simp: run_incident_linked_def split: option.splits elim: advances_incident)

lemma target_resolves_advances:
  assumes a: "advances c c'" and "target_resolves c t" shows "target_resolves c' t"
  using assms(2) unfolding target_resolves_iff
  by (elim exE conjE advances_session [OF a] advances_lease [OF a]) auto

lemma lease_advances:
  assumes a: "advances c c'" and "coherent_lease c l" shows "coherent_lease c' l"
  using assms(2) unfolding coherent_lease_def lease_matches_def
  by (elim exE conjE advances_session [OF a]) auto

lemma exec_advances: "advances c c' \<Longrightarrow> coherent_exec c e \<Longrightarrow> coherent_exec c' e"
  unfolding coherent_exec_def using exec_resolves_advances exec_incident_advances by blast

lemma target_advances: "advances c c' \<Longrightarrow> coherent_target c t \<Longrightarrow> coherent_target c' t"
  unfolding coherent_target_def
  using target_resolves_advances run_resolves_advances run_incident_advances by blast

lemma lease_ref_advances: assumes a: "advances c c'" and "lease_ref c i" shows "lease_ref c' i"
  using assms(2) unfolding lease_ref_def by (elim exE conjE advances_session [OF a] advances_lease [OF a]) auto

lemma agent_ref_advances: assumes a: "advances c c'" and "agent_ref c i" shows "agent_ref c' i"
  using assms(2) unfolding agent_ref_def by (elim exE conjE advances_agent [OF a]) auto

lemma exec_ref_advances: assumes a: "advances c c'" and "exec_ref c i" shows "exec_ref c' i"
  using assms(2) unfolding exec_ref_def by (elim exE conjE advances_exec [OF a]) auto

lemma target_ref_advances: assumes a: "advances c c'" and "target_ref c i" shows "target_ref c' i"
  using assms(2) unfolding target_ref_def
  by (elim exE conjE advances_target [OF a]) (simp, metis)

lemma incident_advances:
  assumes a: "advances c c'" and i: "coherent_incident c i" shows "coherent_incident c' i"
proof -
  have "tbl_get (core_sessions c) (inc_SessionID i) \<noteq> None \<Longrightarrow> tbl_get (core_sessions c') (inc_SessionID i) \<noteq> None"
    by (auto elim: advances_session [OF a])
  then show ?thesis using i lease_ref_advances [OF a] agent_ref_advances [OF a] exec_ref_advances [OF a]
      target_ref_advances [OF a] unfolding coherent_incident_def incident_resolves_def by blast
qed

text \<open>
  A lease may only be moved to a generation its agent workspace has, so the pair stays in step:
  the workspace is never behind its lease and at most one generation ahead of it.
\<close>

lemma generation_catch_up:
  "generation_advance g h \<Longrightarrow> generation_advance g g' \<Longrightarrow> g' \<le> h \<Longrightarrow> generation_advance g' h"
  by (auto simp: generation_advance_def word_le_nat_alt word_unat_eq_iff)

lemma agent_advances:
  assumes k: "keyed_tables c" and r: "apply_record c r = Inr c'" and "coherent_agent c a"
    and e: "tbl_get (core_agents c) (agt_ID a) = Some a \<or> core_leases c' = core_leases c"
  shows "coherent_agent c' a"
proof -
  obtain s l where s: "tbl_get (core_sessions c) (agt_SessionID a) = Some s"
      and l: "tbl_get (core_leases c) (ses_LeaseID s) = Some l" and m: "agent_matches s l a"
      and v: "validateReplayAgentWorkspace a = None"
    using assms(3) unfolding coherent_agent_def by blast
  note a = record_advances(1) [OF k r]
  obtain s' where s': "tbl_get (core_sessions c') (agt_SessionID a) = Some s'" "ses_LeaseID s' = ses_LeaseID s"
      "ses_AgentWorkspaceID s' = ses_AgentWorkspaceID s"
    using s by (rule advances_session [OF a])
  obtain l' where l': "tbl_get (core_leases c') (ses_LeaseID s) = Some l'" "lea_SessionID l' = lea_SessionID l"
      "lea_AgentWorkspaceID l' = lea_AgentWorkspaceID l" "lea_InputViewID l' = lea_InputViewID l"
      "lea_PolicyDigest l' = lea_PolicyDigest l" "lea_CapabilityDigest l' = lea_CapabilityDigest l"
      "generation_advance (lea_AgentGeneration l) (lea_AgentGeneration l')"
    using l by (rule advances_lease [OF a])
  have "l' = l \<or> lea_AgentGeneration l' \<le> agt_CurrentGeneration a"
    using r
  proof (cases rule: apply_record_cases)
    case (lease v)
    show ?thesis
    proof (cases "core_leases c' = core_leases c")
      case True
      then show ?thesis using l l'(1) by simp
    next
      case False
      then show ?thesis using lease_projection_None(4) [OF lease(1), of a] lease(2) l l' e m
        by (auto simp: agent_matches_def split: if_splits)
    qed
  qed (use l l'(1) in auto)
  then have "generation_advance (lea_AgentGeneration l') (agt_CurrentGeneration a)"
    using m l'(7) generation_catch_up unfolding agent_matches_def by blast
  then show ?thesis
    using s' l' v m unfolding coherent_agent_def agent_matches_def by (metis (no_types, lifting))
qed

lemma all_entries_put:
  "all_entries P t \<Longrightarrow> P v \<Longrightarrow> all_entries P (tbl_put k v t)"
  by (auto simp: all_entries_def split: if_splits)

lemma all_entries_mono: "(\<And>v. P v \<Longrightarrow> Q v) \<Longrightarrow> all_entries P t \<Longrightarrow> all_entries Q t"
  by (auto simp: all_entries_def)

text \<open>Each record that replay accepts keeps the projection coherent.\<close>

lemma old_entries_coherent:
  assumes coh: "coherent c" and r: "apply_record c r = Inr c'"
  shows "all_entries (\<lambda>s. validateReplaySession s = None) (core_sessions c)"
    "all_entries (coherent_lease c') (core_leases c)" "all_entries (coherent_agent c') (core_agents c)"
    "all_entries (coherent_exec c') (core_execs c)" "all_entries (coherent_target c') (core_targets c)"
    "all_entries (coherent_incident c') (core_incidents c)"
proof -
  have k: "keyed_tables c" using coh by (simp add: coherent_def)
  note a = record_advances [OF k r]
  have c: "keyed agt_ID (core_agents c)" "all_entries (\<lambda>s. validateReplaySession s = None) (core_sessions c)"
      "all_entries (coherent_lease c) (core_leases c)" "all_entries (coherent_agent c) (core_agents c)"
      "all_entries (coherent_exec c) (core_execs c)" "all_entries (coherent_target c) (core_targets c)"
      "all_entries (coherent_incident c) (core_incidents c)"
    using coh k unfolding coherent_def keyed_tables_def by blast+
  show "all_entries (\<lambda>s. validateReplaySession s = None) (core_sessions c)" by (rule c)
  show "all_entries (coherent_lease c') (core_leases c)"
    using c by (auto intro: all_entries_mono lease_advances [OF a(1)])
  show "all_entries (coherent_exec c') (core_execs c)"
    using c by (auto intro: all_entries_mono exec_advances [OF a(1)])
  show "all_entries (coherent_target c') (core_targets c)"
    using c by (auto intro: all_entries_mono target_advances [OF a(1)])
  show "all_entries (coherent_incident c') (core_incidents c)"
    using c by (auto intro: all_entries_mono incident_advances [OF a(1)])
  show "all_entries (coherent_agent c') (core_agents c)"
    using c(1,4) agent_advances [OF k r] unfolding all_entries_def keyed_def by simp
qed

lemma record_coherent:
  assumes coh: "coherent c" and r: "apply_record c r = Inr c'"
  shows "coherent c'"
proof -
  have k: "keyed_tables c" using coh by (simp add: coherent_def)
  note a = record_advances [OF k r]
  note old = old_entries_coherent [OF coh r]
  from r show ?thesis
  proof (cases rule: apply_record_cases)
    case (session v)
    then show ?thesis using old a(2) session_projection_None(1) [OF session(1)]
      by (simp add: coherent_def all_entries_put)
  next
    case (lease v)
    obtain s where "tbl_get (core_sessions c) (lea_SessionID v) = Some s" "lease_matches s v"
      using lease(1) by (rule lease_projection_session)
    then have "coherent_lease c v" using lease_projection_None(1) [OF lease(1)] by (auto simp: coherent_lease_def)
    from lease_advances [OF a(1) this] show ?thesis using lease(2) old a(2)
      by (simp add: coherent_def all_entries_put)
  next
    case (agent v)
    have "coherent_agent c v" using agent(1) by (rule agent_projection_None) (auto simp: coherent_agent_def)
    from agent_advances [OF k r this] show ?thesis using agent(2) old a(2)
      by (simp add: coherent_def all_entries_put)
  next
    case (exec v)
    have "coherent_exec c v" using exec_projection_None [OF exec(1)] by (simp add: coherent_exec_def)
    from exec_advances [OF a(1) this] show ?thesis using exec(2) old a(2) by (simp add: coherent_def all_entries_put)
  next
    case (target v)
    have "coherent_target c v" using target_projection_None [OF target(1)] by (simp add: coherent_target_def)
    from target_advances [OF a(1) this] show ?thesis using target(2) old a(2)
      by (simp add: coherent_def all_entries_put)
  next
    case (incident v)
    have "coherent_incident c v" using incident_projection_None [OF incident(1)] by (simp add: coherent_incident_def)
    from incident_advances [OF a(1) this] show ?thesis using incident(2) old a(2)
      by (simp add: coherent_def all_entries_put)
  qed
qed

interpretation coherence: replay_invariant coherent
proof
  fix c r c' assume "coherent c" "apply_record c r = Inr c'"
  then show "coherent c'" by (rule record_coherent)
next
  fix c n
  have "coherent_lease (c\<lparr>core_lastSequence := n\<rparr>) = coherent_lease c"
       "coherent_agent (c\<lparr>core_lastSequence := n\<rparr>) = coherent_agent c"
       "coherent_exec (c\<lparr>core_lastSequence := n\<rparr>) = coherent_exec c"
       "coherent_target (c\<lparr>core_lastSequence := n\<rparr>) = coherent_target c"
       "coherent_incident (c\<lparr>core_lastSequence := n\<rparr>) = coherent_incident c"
    by (simp_all add: fun_eq_iff coherent_lease_def coherent_agent_def coherent_exec_def coherent_target_def
        coherent_incident_def exec_resolves_iff exec_incident_linked_def target_resolves_iff run_resolves_def
        run_incident_linked_def incident_resolves_def lease_ref_def agent_ref_def exec_ref_def target_ref_def)
  then show "coherent (c\<lparr>core_lastSequence := n\<rparr>) = coherent c"
    by (simp add: coherent_def keyed_tables_def)
qed

lemma emptyCore_coherent: "coherent (emptyCore s)"
  by (simp add: coherent_def emptyCore_def keyed_tables_def all_entries_def)

lemma NewCore_coherent_aux: "NewCore env s = Inr c \<Longrightarrow> coherent c"
  using coherence.sync_inv [OF emptyCore_coherent, of env s]
  by (auto simp: NewCore_def split: prod.splits option.splits)

section \<open>What histories of revisions preserve\<close>

lemma terminal_not_empty: "LeaseTermination_Terminal t \<Longrightarrow> \<not> LeaseTermination_Empty t"
  by (auto simp: LeaseTermination_Empty_def)

lemma terminal_lease_stuck: "LeaseTermination_Terminal (lea_Termination l) \<Longrightarrow> \<not> lease_step l l'"
  using terminal_not_empty by (auto simp: lease_step_def termination_step_def)

text \<open>What a begun termination pins: its own identity, and the lease's expiry and generation.\<close>

definition same_intent :: "LeaseRecord \<Rightarrow> LeaseRecord \<Rightarrow> bool" where
  "same_intent l l' \<longleftrightarrow> \<not> LeaseTermination_Empty (lea_Termination l') \<and>
     ter_Kind (lea_Termination l') = ter_Kind (lea_Termination l) \<and>
     ter_Reason (lea_Termination l') = ter_Reason (lea_Termination l) \<and>
     ter_BeginIdempotencyKey (lea_Termination l') = ter_BeginIdempotencyKey (lea_Termination l) \<and>
     ter_BeginRequestDigest (lea_Termination l') = ter_BeginRequestDigest (lea_Termination l) \<and>
     ter_InitiatedAt (lea_Termination l') = ter_InitiatedAt (lea_Termination l) \<and>
     lea_ExpiresAt l' = lea_ExpiresAt l \<and> lea_AgentGeneration l' = lea_AgentGeneration l"

definition lease_monotone :: "LeaseRecord \<Rightarrow> LeaseRecord \<Rightarrow> bool" where
  "lease_monotone l l' \<longleftrightarrow> lea_ID l' = lea_ID l \<and> lea_SessionID l' = lea_SessionID l \<and>
     lea_AgentWorkspaceID l' = lea_AgentWorkspaceID l \<and> lea_PolicyDigest l' = lea_PolicyDigest l \<and>
     lea_CapabilityDigest l' = lea_CapabilityDigest l \<and>
     lea_ExpiresAt l \<le> lea_ExpiresAt l' \<and> lea_AgentGeneration l \<le> lea_AgentGeneration l' \<and>
     lea_Revision l \<le> lea_Revision l' \<and> lea_UpdatedAt l \<le> lea_UpdatedAt l' \<and>
     (\<not> LeaseTermination_Empty (lea_Termination l) \<longrightarrow> same_intent l l')"

lemma lease_step_monotone: "lease_step l l' \<Longrightarrow> lease_monotone l l'"
  by (auto simp: lease_step_def lease_monotone_def same_intent_def generation_advance_def revision_step_def
      termination_step_def word_le_nat_alt split: if_splits)

lemma lease_monotone_trans: "lease_monotone l m \<Longrightarrow> lease_monotone m n \<Longrightarrow> lease_monotone l n"
  by (auto simp: lease_monotone_def same_intent_def)

lemma lease_history_monotone: "lease_step\<^sup>*\<^sup>* l l' \<Longrightarrow> lease_monotone l l'"
proof (induction rule: rtranclp_induct)
  case base
  show ?case by (auto simp: lease_monotone_def same_intent_def)
next
  case (step m n)
  then show ?case using lease_step_monotone lease_monotone_trans by blast
qed

lemma open_not_reentered: "RequireIncidentTransition a IncidentOpen \<noteq> None"
  by (auto simp: RequireIncidentTransition_None)

definition evidence_frozen :: "IncidentRecord \<Rightarrow> IncidentRecord \<Rightarrow> bool" where
  "evidence_frozen i i' \<longleftrightarrow> sameIncidentIdentity i i' \<and>
     (inc_State i \<noteq> IncidentOpen \<longrightarrow> inc_State i' \<noteq> IncidentOpen \<and>
        inc_ObservationBundleID i' = inc_ObservationBundleID i \<and> inc_Artifacts i' = inc_Artifacts i) \<and>
     (inc_ObservationBundleID i \<noteq> [] \<longrightarrow> inc_ObservationBundleID i' = inc_ObservationBundleID i) \<and>
     set (inc_Artifacts i) \<subseteq> set (inc_Artifacts i')"

lemma incident_step_frozen: "incident_step i i' \<Longrightarrow> evidence_frozen i i'"
  by (auto simp: incident_step_def evidence_step_def evidence_frozen_def open_not_reentered)

lemma incident_history_frozen: "incident_step\<^sup>*\<^sup>* i i' \<Longrightarrow> evidence_frozen i i'"
proof (induction rule: rtranclp_induct)
  case base
  show ?case by (simp add: evidence_frozen_def sameIncidentIdentity_def)
next
  case (step j k)
  have "evidence_frozen j k" using step.hyps(2) by (rule incident_step_frozen)
  then show ?case using step.IH unfolding evidence_frozen_def sameIncidentIdentity_def by auto
qed

text \<open>
  C9. Whatever the journal holds, also one written by another process or tampered with, the
  projection that opening it builds is coherent: every aggregate satisfies its persisted-form
  invariants, is filed under its own identity, and each of its references resolves to an aggregate
  of the same session with the same pins.
\<close>

theorem NewCore_coherent:
  assumes "NewCore env s = Inr c"
  shows "coherent c"
  using assms by (rule NewCore_coherent_aux)

end
