(* ===== verification/App_Journal.thy ===== *)
theory App_Journal
  imports App_Projection
begin

text \<open>
  What every transaction of the application core does to the store: it only appends journal records
  with their snapshots.  \<open>extends\<close> is that relation, \<open>journals\<close> the corresponding statement about a
  step of a handler with one rule per construct the handlers are written in, and the locale
  \<open>transaction\<close> the contract each handler meets, with its consequences for the mutation frame of
  \<open>core.go\<close> (\<open>transact\<close>, \<open>runMutation\<close>).
\<close>

section \<open>Appending to the journal\<close>

inductive extends :: "payload store_env \<Rightarrow> store \<Rightarrow> store \<Rightarrow> bool" for env where
  extends_refl [intro, simp]: "extends env s s"
| extends_append: "extends env s t \<Longrightarrow> appendControl env kind i event revision payload t = Inr u \<Longrightarrow> extends env s u"

lemma extends_trans: "extends env t u \<Longrightarrow> extends env s t \<Longrightarrow> extends env s u"
  by (induction rule: extends.induct) (auto intro: extends_append)

lemma appendControl_Inr:
  assumes "appendControl env kind i event revision payload s = Inr u"
  obtains r where "control_records u = control_records s @ [r]" "idempotency u = idempotency s"
    "policies u = policies s" "aggregate_of r = (kind, i)" "cr_Revision r = revision" "cr_Payload r = payload"
    "cr_Kind r = event"
    "revision = latest_revision (control_records s) (kind, i) + 1" "revision \<noteq> 0"
    "AppendControl env \<lparr>cr_Sequence = 0, cr_AggregateKind = kind, cr_AggregateID = i, cr_Revision = revision,
       cr_Kind = event, cr_Payload = payload, cr_AcceptedAt = zero_time, cr_PreviousHash = [], cr_Hash = []\<rparr> s =
       Inr (s\<lparr>control_records := control_records s @ [r]\<rparr>, r)"
    "PutSnapshot env kind i revision payload (s\<lparr>control_records := control_records s @ [r]\<rparr>) = Inr u"
proof -
  obtain t r where a: "AppendControl env \<lparr>cr_Sequence = 0, cr_AggregateKind = kind, cr_AggregateID = i,
       cr_Revision = revision, cr_Kind = event, cr_Payload = payload, cr_AcceptedAt = zero_time,
       cr_PreviousHash = [], cr_Hash = []\<rparr> s = Inr (t, r)"
      and p: "PutSnapshot env kind i revision payload t = Inr u"
    using assms by (auto simp: appendControl_def bind_r_Inr)
  note A = AppendControl_Inr [OF a]
  have "control_records u = control_records t" "idempotency u = idempotency t" "policies u = policies t"
    using p by (auto simp: PutSnapshot_def Let_def)
  then show thesis using that [of r] a p A by (auto simp: aggregate_of_def)
qed

definition grown :: "store \<Rightarrow> store \<Rightarrow> payload ControlRecord list \<Rightarrow> bool" where
  "grown s u rs \<longleftrightarrow> control_records u = control_records s @ rs \<and> idempotency u = idempotency s"

lemma extends_grown: "extends env s u \<Longrightarrow> \<exists>rs. grown s u rs"
proof (induction rule: extends.induct)
  case (extends_append s t kind i event revision payload u)
  then show ?case by (auto simp: grown_def elim!: appendControl_Inr)
qed (simp add: grown_def)

lemma revisions_of_single: "revisions_of [r] a = (if aggregate_of r = a then [cr_Revision r] else [])"
  by (simp add: revisions_of_def)

lemma latest_revision_append_other:
  "aggregate_of r \<noteq> a \<Longrightarrow> latest_revision (rs @ [r]) a = latest_revision rs a"
  by (simp add: latest_revision_def)

text \<open>A store whose journal verifies, with a snapshot of the latest revision of every aggregate.\<close>

definition store_ok :: "payload store_env \<Rightarrow> store \<Rightarrow> bool" where
  "store_ok env s \<longleftrightarrow> journal_ok env (control_records s) \<and> snapshots_current s"

lemma store_ok_idempotency [simp]: "store_ok env (s\<lparr>idempotency := rows\<rparr>) = store_ok env s"
  by (simp add: store_ok_def snapshots_current_def cong: option.case_cong)

lemma appendControl_snapshots:
  assumes "appendControl env kind i event revision payload s = Inr u"
    and j: "journal_ok env (control_records s)" and c: "snapshots_current s"
  shows "snapshots_current u"
  using assms(1)
proof (rule appendControl_Inr)
  fix r
  assume r: "control_records u = control_records s @ [r]" "aggregate_of r = (kind, i)" "cr_Revision r = revision"
      "cr_Payload r = payload" "revision = latest_revision (control_records s) (kind, i) + 1" "revision \<noteq> 0"
    and p: "PutSnapshot env kind i revision payload (s\<lparr>control_records := control_records s @ [r]\<rparr>) = Inr u"
  let ?rs = "control_records s" and ?a = "(kind, i)"
  have less: "latest_revision ?rs ?a < revision"
  proof -
    have "latest_revision ?rs ?a \<noteq> - 1" using r(5,6) by auto
    then show ?thesis using r(5) by (simp add: word_less_nat_alt unat_plus_one)
  qed
  have latest: "latest_revision (?rs @ [r]) ?a = revision"
    using r(2,3) less by (simp add: latest_revision_snoc max_absorb1)
  have new: "map_of (snapshots u) ?a = Some \<lparr>snap_revision = revision, snap_payload = payload,
      snap_updated_at = unixNano (se_now env)\<rparr>"
    using p less c [unfolded snapshots_current_def, rule_format, of ?a] unfolding PutSnapshot_def Let_def
    by (auto simp: update_conv' split: option.splits if_splits)
  have other: "map_of (snapshots u) a = map_of (snapshots s) a" if "a \<noteq> ?a" for a
    using p that unfolding PutSnapshot_def Let_def
    by (auto simp: update_conv' split: option.splits if_splits)
  show "snapshots_current u"
    unfolding snapshots_current_def
  proof
    fix a
    show "case map_of (snapshots u) a of None \<Rightarrow> revisions_of (control_records u) a = []
       | Some row \<Rightarrow> \<exists>q \<in> set (control_records u). aggregate_of q = a \<and> cr_Revision q = snap_revision row \<and>
           cr_Payload q = snap_payload row \<and> snap_revision row = latest_revision (control_records u) a"
    proof (cases "a = ?a")
      case True
      then show ?thesis using new r latest by simp
    next
      case False
      then show ?thesis using other [OF False] c [unfolded snapshots_current_def, rule_format, of a] r(1,2)
        by (auto simp: revisions_of_single latest_revision_append_other split: option.splits)
    qed
  qed
qed

lemma appendControl_journal:
  assumes "appendControl env kind i event revision payload s = Inr u"
    and "journal_ok env (control_records s)" "\<And>x. length (se_sha env x) = 32"
  shows "journal_ok env (control_records u)"
  using assms(1)
proof (rule appendControl_Inr)
  fix r
  assume r: "control_records u = control_records s @ [r]"
    and a: "AppendControl env \<lparr>cr_Sequence = 0, cr_AggregateKind = kind, cr_AggregateID = i, cr_Revision = revision,
       cr_Kind = event, cr_Payload = payload, cr_AcceptedAt = zero_time, cr_PreviousHash = [], cr_Hash = []\<rparr> s =
       Inr (s\<lparr>control_records := control_records s @ [r]\<rparr>, r)"
  show ?thesis using AppendControl_journal_ok [OF a assms(2,3)] r by simp
qed

lemma extends_store_ok:
  assumes "extends env s u" "store_ok env s" "\<And>x. length (se_sha env x) = 32"
  shows "store_ok env u"
  using assms
proof (induction rule: extends.induct)
  case (extends_append s t kind i event revision payload u)
  then show ?case using appendControl_snapshots appendControl_journal by (simp add: store_ok_def)
qed simp

section \<open>Handlers, construct by construct\<close>

named_theorems journal_simps \<open>what a step of a handler appends, read off its last construct\<close>

definition journals :: "payload store_env \<Rightarrow> store \<Rightarrow> ('v \<Rightarrow> store) \<Rightarrow> 'v result \<Rightarrow> bool" where
  "journals env s get m \<longleftrightarrow> (\<forall>v. m = Inr v \<longrightarrow> extends env s (get v))"

lemma journals_bind [journal_simps]:
  "journals env s get (bind_r m f) \<longleftrightarrow> (\<forall>v. m = Inr v \<longrightarrow> journals env s get (f v))"
  by (auto simp: journals_def bind_r_Inr)

lemma journals_result [journal_simps]:
  "journals env s get (Inl e)" "journals env s get (Inr v) \<longleftrightarrow> extends env s (get v)"
  by (auto simp: journals_def)

lemma journals_guarded [journal_simps]:
  "journals env s get (guarded cs m) \<longleftrightarrow> (first_err cs = None \<longrightarrow> journals env s get m)"
  "journals env s get (checked cs v) \<longleftrightarrow> (first_err cs = None \<longrightarrow> extends env s (get v))"
  by (auto simp: journals_def guarded_def checked_def split: option.splits)

lemma extends_appended [journal_simps]:
  "appendControl env kind i event revision payload t = Inr u \<Longrightarrow> extends env s t \<Longrightarrow> extends env s u"
  by (rule extends_append)

lemma journals_append [journal_simps]: "extends env s t \<Longrightarrow> journals env s (\<lambda>u. u) (appendControl env kind i event revision payload t)"
  by (auto simp: journals_def intro: extends_append)

lemma journalsD: "journals env t get m \<Longrightarrow> m = Inr v \<Longrightarrow> extends env s t \<Longrightarrow> extends env s (get v)"
  by (auto simp: journals_def intro: extends_trans)

lemma appendTargetGenerationTransitions_journals:
  "extends env s0 s \<Longrightarrow> journals env s0 snd (appendTargetGenerationTransitions env index states event at target s)"
  by (induction states arbitrary: target s) (auto simp: journal_simps Let_def)

lemma appendAgentGenerationTransitions_journals:
  "extends env s0 s \<Longrightarrow> journals env s0 snd (appendAgentGenerationTransitions env index states event at agent s)"
  by (induction states arbitrary: agent s) (auto simp: journal_simps Let_def)

lemma extends_target_transitions [journal_simps]:
  assumes "appendTargetGenerationTransitions env index states event at target t = Inr (target', u)" "extends env s t"
  shows "extends env s u"
  using appendTargetGenerationTransitions_journals [OF assms(2), of index states event at target] assms(1)
  by (simp add: journals_def)

lemma extends_agent_transitions [journal_simps]:
  assumes "appendAgentGenerationTransitions env index states event at agent t = Inr (agent', u)" "extends env s t"
  shows "extends env s u"
  using appendAgentGenerationTransitions_journals [OF assms(2), of index states event at agent] assms(1)
  by (simp add: journals_def)

section \<open>The contract of a transaction\<close>

text \<open>
  \<open>tx\<close> is a handler of the store; what it commits extends the journal.  The lemmas are about
  \<open>RunIdempotent\<close> and the two mutation frames around such a handler: the store is left as it was or
  extended and given the idempotency row, and its invariant survives every outcome.
\<close>

locale transaction =
  fixes env :: "payload store_env" and tx :: "(payload, response) handler"
  assumes tx_journals: "journals env s fst (tx s)"
begin

lemma RunIdempotent_extends:
  assumes "RunIdempotent env namespace key request tx s = (s', res)"
  shows "s' = s \<or> (\<exists>t row. extends env s t \<and> s' = t\<lparr>idempotency := AList.update (namespace, key) row (idempotency t)\<rparr>)"
proof (cases "map_of (idempotency s) (namespace, key)")
  case None
  from None assms show ?thesis
  proof (cases rule: RunIdempotent_fresh)
    case (committed t response)
    then have "extends env s t" using tx_journals [of s] by (simp add: journals_def)
    then show ?thesis using committed by blast
  qed simp
next
  case (Some row)
  then show ?thesis using assms by (auto simp: RunIdempotent_def Let_def split: option.splits if_splits)
qed

lemma RunIdempotent_store_ok:
  assumes "RunIdempotent env namespace key request tx s = (s', res)" "store_ok env s" "\<And>x. length (se_sha env x) = 32"
  shows "store_ok env s'"
  using RunIdempotent_extends [OF assms(1)] extends_store_ok [OF _ assms(2,3)] assms(2)
  by auto

end

section \<open>The projection is a replay of the journal\<close>

text \<open>
  The tables of a core are what replaying a prefix of its own journal from nothing yields; the
  records after that prefix are the ones the next synchronisation reads.
\<close>

definition replayed :: "Core \<Rightarrow> bool" where
  "replayed c \<longleftrightarrow> (\<exists>rs qs. control_records (core_store c) = rs @ qs \<and>
     apply_batch (emptyCore (core_store c)) rs = (c, None))"

lemma replayed_coherent: "replayed c \<Longrightarrow> coherent c"
  using coherence.batch_inv [OF emptyCore_coherent] by (metis fst_conv replayed_def)

lemma replayed_empty: "replayed (emptyCore s)"
  unfolding replayed_def by (rule exI [of _ "[]"]) (simp add: emptyCore_def)

lemma replayed_grow:
  assumes "replayed c" "control_records s = control_records (core_store c) @ new"
  shows "replayed (c\<lparr>core_store := s\<rparr>)"
proof -
  obtain rs qs where rs: "control_records (core_store c) = rs @ qs"
      "apply_batch (emptyCore (core_store c)) rs = (c, None)"
    using assms(1) unfolding replayed_def by blast
  have "apply_batch (emptyCore s) rs = (c\<lparr>core_store := s\<rparr>, None)"
    using apply_batch_store [where c = "emptyCore (core_store c)" and s = s and rs = rs] rs(2)
    by (simp add: emptyCore_store [of s "core_store c"])
  then show ?thesis using rs(1) assms(2) unfolding replayed_def by auto
qed

lemma apply_batch_prefix:
  "\<exists>k. apply_batch c (take k rs) = (fst (apply_batch c rs), None)"
proof (induction c rs rule: apply_batch.induct)
  case (2 c r rs)
  show ?case
  proof (cases "apply_record c r")
    case (Inl e)
    then show ?thesis by (intro exI [of _ 0]) simp
  next
    case (Inr c')
    then obtain k where "apply_batch (c'\<lparr>core_lastSequence := cr_Sequence r\<rparr>) (take k rs) =
        (fst (apply_batch (c'\<lparr>core_lastSequence := cr_Sequence r\<rparr>) rs), None)"
      using "2.IH" by blast
    then show ?thesis using Inr by (intro exI [of _ "Suc k"]) simp
  qed
qed simp

lemma replayed_batch:
  assumes "replayed c" and seq: "sequenced (control_records (core_store c))"
  shows "replayed (fst (apply_batch c (take n (newer (core_lastSequence c) (control_records (core_store c))))))"
proof -
  obtain rs qs where rs: "control_records (core_store c) = rs @ qs"
      and b: "apply_batch (emptyCore (core_store c)) rs = (c, None)"
    using assms(1) unfolding replayed_def by blast
  have "core_lastSequence c = last_sequence rs"
    using apply_batch_last [OF b] by (simp add: emptyCore_def last_sequence_def)
  then have qs: "newer (core_lastSequence c) (control_records (core_store c)) = qs"
    using newer_suffix [of rs qs] seq rs by simp
  obtain k where k: "apply_batch c (take k (take n qs)) = (fst (apply_batch c (take n qs)), None)"
    using apply_batch_prefix by blast
  let ?m = "min k n"
  have "apply_batch (emptyCore (core_store c)) (rs @ take ?m qs) = (fst (apply_batch c (take n qs)), None)"
    using b k by (simp add: apply_batch_append min.commute)
  moreover have "control_records (core_store c) = (rs @ take ?m qs) @ drop ?m qs" using rs by simp
  ultimately show ?thesis unfolding qs replayed_def by (metis apply_batch_frame)
qed

lemma replayed_sync:
  "replayed c \<Longrightarrow> sequenced (control_records (core_store c)) \<Longrightarrow> replayed (fst (syncLocked env c))"
proof (induction env c rule: syncLocked.induct)
  case (1 env c)
  show ?case
  proof (cases "Records env (core_store c) (core_lastSequence c) 1000")
    case (Inl e)
    then show ?thesis using "1.prems" by (simp add: syncLocked.simps [of env c])
  next
    case (Inr records)
    have "replayed (fst (apply_batch c records))"
      using replayed_batch [OF "1.prems", of 1000] Records_Inr [OF Inr] by simp
    then show ?thesis using "1.IH" [OF Inr] "1.prems"(2) Inr
      by (simp add: syncLocked.simps [of env c] apply_batch_frame)
  qed
qed

lemma syncLocked_store [simp]: "core_store (fst (syncLocked env c)) = core_store c"
proof (induction env c rule: syncLocked.induct)
  case (1 env c)
  then show ?case
    by (cases "Records env (core_store c) (core_lastSequence c) 1000")
      (auto simp: syncLocked.simps [of env c] apply_batch_frame)
qed

section \<open>How a core evolves\<close>

text \<open>
  A core changes in two ways only: the store it points to changes (its own commits, or those of
  another process), and it applies a batch of records.
\<close>

inductive evolves :: "Core \<Rightarrow> Core \<Rightarrow> bool" where
  evolves_refl [intro, simp]: "evolves c c"
| evolves_store: "evolves c d \<Longrightarrow> evolves c (d\<lparr>core_store := s\<rparr>)"
| evolves_batch: "evolves c d \<Longrightarrow> evolves c (fst (apply_batch d rs))"

lemma evolves_trans: "evolves d e \<Longrightarrow> evolves c d \<Longrightarrow> evolves c e"
  by (induction rule: evolves.induct) (auto intro: evolves_store evolves_batch)

lemma evolves_sync: "evolves c d \<Longrightarrow> evolves c (fst (syncLocked env d))"
proof (induction env d rule: syncLocked.induct)
  case (1 env d)
  then show ?case
    by (cases "Records env (core_store d) (core_lastSequence d) 1000")
      (auto simp: syncLocked.simps [of env d] intro: evolves_batch)
qed

lemma succeeds_trans: "succeeds R\<^sup>*\<^sup>* t u \<Longrightarrow> succeeds R\<^sup>*\<^sup>* u v \<Longrightarrow> succeeds R\<^sup>*\<^sup>* t v"
  unfolding succeeds_def by (metis rtranclp_trans)

context aggregate
begin

lemma evolves_history:
  assumes "evolves c c'" "keyed ident (entries c)"
  shows "keyed ident (entries c') \<and> succeeds step\<^sup>*\<^sup>* (entries c) (entries c')"
  using assms
proof (induction rule: evolves.induct)
  case (evolves_refl c)
  then show ?case by (simp add: succeeds_def)
next
  case (evolves_store c d s)
  then show ?case by (simp add: store_irrelevant)
next
  case (evolves_batch c d rs)
  have "succeeds step\<^sup>*\<^sup>* (entries d) (entries d)" by (simp add: succeeds_def)
  then show ?case
    using replay_invariant.batch_inv [OF history_invariant [of "entries d"], of d rs] evolves_batch succeeds_trans by blast
qed

end

text \<open>
  The invariant of a running core: its journal verifies, snapshots are current, and its tables are a
  replay of a prefix of the journal.
\<close>

definition sound :: "payload store_env \<Rightarrow> Core \<Rightarrow> bool" where
  "sound env c \<longleftrightarrow> store_ok env (core_store c) \<and> replayed c"

definition hash32 :: "payload store_env \<Rightarrow> bool" where
  "hash32 env \<longleftrightarrow> (\<forall>x. length (se_sha env x) = 32)"

lemma sound_sync: "sound env c \<Longrightarrow> sound env (fst (syncLocked env' c))"
  using replayed_sync by (simp add: sound_def store_ok_def journal_ok_def)

lemma sync_snd: "syncLocked env c = (c', e) \<Longrightarrow> c' = fst (syncLocked env c)"
  by simp

text \<open>A mutation of the core: \<open>tx\<close> also sees the projection.\<close>

locale mutation =
  fixes env :: env and tx :: "Core \<Rightarrow> (payload, response) handler"
  assumes tx_appends: "journals (env_store env) s fst (tx c s)"
begin

sublocale tx: transaction "env_store env" "tx c" for c
  by unfold_locales (rule tx_appends)

lemma run_sound:
  assumes "sound (env_store env) c" "hash32 (env_store env)"
    and r: "RunIdempotent (env_store env) namespace key request (tx d) (core_store c) = (s', res)"
  shows "sound (env_store env) (c\<lparr>core_store := s'\<rparr>)"
proof -
  have "store_ok (env_store env) s'"
    using tx.RunIdempotent_store_ok [OF r] assms(1,2) by (simp add: sound_def hash32_def)
  moreover obtain new where "control_records s' = control_records (core_store c) @ new"
    using tx.RunIdempotent_extends [OF r] extends_grown by (fastforce simp: grown_def)
  ultimately show ?thesis using assms(1) replayed_grow by (simp add: sound_def)
qed

lemma transact_sound:
  assumes "sound (env_store env) c" "hash32 (env_store env)"
  shows "sound (env_store env) (fst (transact env namespace key request tx finish c))"
proof -
  obtain s' res where r: "RunIdempotent (env_store env) namespace key request (tx c) (core_store c) = (s', res)"
    by fastforce
  note c = run_sound [OF assms r]
  show ?thesis using r c sound_sync [OF c, of "env_store env"]
    by (auto simp: transact_def split: sum.splits prod.splits option.splits dest!: sync_snd)
qed

lemma runMutation_sound:
  assumes "sound (env_store env) c" "hash32 (env_store env)"
  shows "sound (env_store env) (fst (runMutation env namespace key request tx finish c))"
  using transact_sound [OF sound_sync [OF assms(1)] assms(2)] sound_sync [OF assms(1)]
  by (auto simp: runMutation_def split: prod.splits option.splits dest!: sync_snd)

end

lemma transact_evolves: "evolves c (fst (transact env namespace key request tx finish c))"
  by (auto simp: transact_def split: sum.splits prod.splits option.splits dest!: sync_snd
      intro: evolves_store evolves_sync)

lemma runMutation_evolves: "evolves c (fst (runMutation env namespace key request tx finish c))"
  using evolves_trans [OF transact_evolves evolves_sync [OF evolves_refl]]
  by (auto simp: runMutation_def split: prod.splits option.splits dest!: sync_snd intro: evolves_sync)

lemma query_evolves: "evolves c (fst (query env read c))"
  by (auto simp: query_def split: prod.splits option.splits dest!: sync_snd intro: evolves_sync)

lemma query_sound: "sound env c \<Longrightarrow> sound env (fst (query env' read c))"
  using sound_sync [of env c env'] by (auto simp: query_def split: prod.splits option.splits dest!: sync_snd)

lemma validated_fst: "fst (validated checks run c) = (if first_err checks = None then fst (run c) else c)"
  by (auto simp: validated_def split: option.splits)

end
