(* ===== verification/App_Sessions.thy ===== *)
theory App_Sessions
  imports App_Journal
begin

text \<open>
  Acquisition of a research session, lease renewal, agent-generation transitions and the binding
  of agent provisioning plans: \<open>src/internal/application/sessions.go\<close> and
  \<open>agent_plan_binding.go\<close>.  \<open>marshal\<close> stands for the JSON encoding of a request, which the store
  hashes to recognise a retry.
\<close>

section \<open>Acquiring a session\<close>

record InputPathMappingRequest =
  ipm_OccurrenceRef :: string
  ipm_LogicalPath :: string

record InputSelectionRequest =
  isr_FrozenSelectionRef :: string
  isr_OccurrenceRefs :: "string list"
  isr_PathMappings :: "InputPathMappingRequest list"
  isr_AllowedSidecars :: "string list"
  isr_SecurityScope :: string
  isr_RequireZeroCopy :: bool

record AcquireRequest =
  acq_Meta :: MutationMeta
  acq_OwnerSubject :: string
  acq_InputViewID :: string
  acq_InputSelection :: InputSelectionRequest
  acq_PolicyDigest :: string
  acq_CapabilityDigest :: string
  acq_TTL :: duration

definition InputSelectionRequest_Empty :: "InputSelectionRequest \<Rightarrow> bool" where
  "InputSelectionRequest_Empty r \<longleftrightarrow> isr_FrozenSelectionRef r = [] \<and> isr_OccurrenceRefs r = [] \<and>
     isr_PathMappings r = [] \<and> isr_AllowedSidecars r = [] \<and> isr_SecurityScope r = [] \<and> \<not> isr_RequireZeroCopy r"

definition AcquireResearchSession_tx :: "env \<Rightarrow> AcquireRequest \<Rightarrow> Core \<Rightarrow> (payload, response) handler" where
  "AcquireResearchSession_tx env request c s =
    (let now = env_clock env 1; se = env_store env;
         inputViewID = val_or (InputViewID zeroDigest) (ParseInputViewID (acq_InputViewID request));
         policyDigest = val_or zeroDigest (ParseDigest (acq_PolicyDigest request));
         capabilityDigest = val_or zeroDigest (ParseDigest (acq_CapabilityDigest request)) in
     bind_r (case_prod GenerateResearchSessionID (env_ids env 0)) (\<lambda>sessionID.
     bind_r (case_prod GenerateLeaseID (env_ids env 1)) (\<lambda>leaseID.
     bind_r (case_prod GenerateAgentWorkspaceID (env_ids env 2)) (\<lambda>agentID.
     bind_r (case_prod GenerateWorkspaceID (env_ids env 3)) (\<lambda>workspaceID.
     bind_r (NewResearchSession sessionID now) (\<lambda>requested.
     let session = \<lparr>ses_ID = ID_String researchSessionPrefix_prefix sessionID,
           ses_OwnerSubject = acq_OwnerSubject request,
           ses_AcquisitionIdempotencyKey = meta_IdempotencyKey (acq_Meta request),
           ses_State = rsm_state requested, ses_Revision = rsm_revision requested,
           ses_LeaseID = ID_String leasePrefix_prefix leaseID,
           ses_AgentWorkspaceID = ID_String agentWorkspacePrefix_prefix agentID,
           ses_InputViewID = acq_InputViewID request, ses_PolicyDigest = acq_PolicyDigest request,
           ses_CapabilityDigest = acq_CapabilityDigest request, ses_CreatedAt = now, ses_UpdatedAt = now\<rparr> in
     bind_r (appendControl se ''session'' (ses_ID session) ''session.requested'' (ses_Revision session)
       (PSession session) s) (\<lambda>s.
     bind_r (ResearchSession_Transition requested ResearchSessionAdmitted (rsm_revision requested) now) (\<lambda>admitted.
     let session = session\<lparr>ses_State := rsm_state admitted, ses_Revision := rsm_revision admitted\<rparr> in
     bind_r (appendControl se ''session'' (ses_ID session) ''session.admitted'' (ses_Revision session)
       (PSession session) s) (\<lambda>s.
     bind_r (ResearchSession_Transition admitted ResearchSessionLeased (rsm_revision admitted) now) (\<lambda>leased.
     let session = session\<lparr>ses_State := rsm_state leased, ses_Revision := rsm_revision leased\<rparr> in
     bind_r (appendControl se ''session'' (ses_ID session) ''session.leased'' (ses_Revision session)
       (PSession session) s) (\<lambda>s.
     bind_r (NewLease \<lparr>lsp_ID = leaseID, lsp_ResearchSessionID = sessionID, lsp_AgentWorkspaceID = agentID,
         lsp_AgentGeneration = InitialAgentGeneration, lsp_InputViewID = inputViewID,
         lsp_PolicyDigest = policyDigest, lsp_CapabilityFingerprintDigest = capabilityDigest,
         lsp_ExpiresAt = now + acq_TTL request, lsp_CreatedAt = now\<rparr>) (\<lambda>leaseModel.
     let lease = \<lparr>lea_ID = ID_String leasePrefix_prefix leaseID, lea_SessionID = ses_ID session,
           lea_AgentWorkspaceID = ID_String agentWorkspacePrefix_prefix agentID, lea_AgentGeneration = 1,
           lea_InputViewID = acq_InputViewID request, lea_PolicyDigest = acq_PolicyDigest request,
           lea_CapabilityDigest = acq_CapabilityDigest request, lea_State = lem_state leaseModel,
           lea_Revision = lem_revision leaseModel, lea_ExpiresAt = lsp_ExpiresAt (lem_spec leaseModel),
           lea_Termination = no_termination, lea_CreatedAt = now, lea_UpdatedAt = now\<rparr> in
     bind_r (appendControl se ''lease'' (lea_ID lease) ''lease.created'' (lea_Revision lease)
       (PLease lease) s) (\<lambda>s.
     bind_r (NewAgentWorkspace agentID sessionID InitialAgentGeneration now) (\<lambda>agentModel.
     bind_r (NewAgentWorkspaceGeneration \<lparr>ags_AgentWorkspaceID = agentID, ags_Generation = InitialAgentGeneration,
         ags_WorkspaceID = workspaceID, ags_InputViewID = inputViewID, ags_PolicyDigest = policyDigest,
         ags_CapabilityFingerprintDigest = capabilityDigest, ags_PreviousGeneration = 0,
         ags_RecoveryIncidentID = zeroID, ags_CreatedAt = now\<rparr>) (\<lambda>generationModel.
     let agent = \<lparr>agt_ID = ID_String agentWorkspacePrefix_prefix agentID, agt_SessionID = ses_ID session,
           agt_CurrentGeneration = 1, agt_Revision = awm_revision agentModel, agt_CreatedAt = now,
           agt_UpdatedAt = now, agt_Generations =
             [\<lparr>agn_Generation = 1, agn_WorkspaceID = ID_String workspacePrefix_prefix workspaceID,
               agn_InputViewID = acq_InputViewID request, agn_PolicyDigest = acq_PolicyDigest request,
               agn_CapabilityDigest = acq_CapabilityDigest request, agn_ProvisioningPlanDigest = [],
               agn_WorkspaceProvisioningKey = [], agn_AgentProvisioningKey = [], agn_Previous = 0,
               agn_RecoveryIncident = [], agn_State = agm_state generationModel,
               agn_Revision = agm_revision generationModel, agn_CreatedAt = now, agn_UpdatedAt = now\<rparr>]\<rparr> in
     bind_r (appendControl se ''agent_workspace'' (agt_ID agent) ''agent_workspace.created'' (agt_Revision agent)
       (PAgent agent) s) (\<lambda>s.
     Inr (s, Some (RSessionID (ses_ID session)))))))))))))))))))"

definition sessionViewLocked :: "Core \<Rightarrow> string \<Rightarrow> ResearchSessionView result" where
  "sessionViewLocked c sessionID =
    (case tbl_get (core_sessions c) sessionID of
       None \<Rightarrow> Inl ErrNotFound
     | Some session \<Rightarrow>
       (case tbl_get (core_leases c) (ses_LeaseID session) of
          None \<Rightarrow> Inl ErrNotFound
        | Some lease \<Rightarrow>
          (case tbl_get (core_agents c) (ses_AgentWorkspaceID session) of
             None \<Rightarrow> Inl ErrNotFound
           | Some agent \<Rightarrow> Inr
              \<lparr>view_Session = session, view_Lease = lease, view_Agent = agent,
               view_Execs = sort_key exe_ID (filter (\<lambda>v. exe_SessionID v = sessionID) (map snd (core_execs c))),
               view_Targets = sort_key tgt_ID (filter (\<lambda>v. tgt_SessionID v = sessionID) (map snd (core_targets c))),
               view_Incidents =
                 sort_key inc_ID (filter (\<lambda>v. inc_SessionID v = sessionID) (map snd (core_incidents c)))\<rparr>)))"

definition AcquireResearchSession_finish :: "Core \<Rightarrow> response \<Rightarrow> ResearchSessionView result" where
  "AcquireResearchSession_finish c response =
    (case response of RSessionID sessionID \<Rightarrow> sessionViewLocked c sessionID | _ \<Rightarrow> Inl unmarshal_error)"

text \<open>Unlike the other mutations, acquisition does not synchronise before its transaction.\<close>

definition AcquireResearchSession ::
    "(AcquireRequest \<Rightarrow> bytes result) \<Rightarrow> env \<Rightarrow> AcquireRequest \<Rightarrow> Core \<Rightarrow> Core \<times> ResearchSessionView result" where
  "AcquireResearchSession marshal env request0 =
    (let request = request0\<lparr>acq_OwnerSubject := TrimSpace (acq_OwnerSubject request0)\<rparr> in
     validated
       [MutationMeta_Validate (env_deadline env) (env_clock env 0) (acq_Meta request),
        err_of (ParseInputViewID (acq_InputViewID request)),
        err_of (ParseDigest (acq_PolicyDigest request)),
        err_of (ParseDigest (acq_CapabilityDigest request)),
        fail_if (acq_TTL request \<le> 0)
          (invalidArgument ''research_session.acquire'' ''ttl'' ''must be positive'' None),
        fail_if (acq_OwnerSubject request = [])
          (invalidArgument ''research_session.acquire'' ''owner_subject'' ''is required'' None),
        err_of (marshal request)]
       (transact env ''acquire_research_session'' (meta_IdempotencyKey (acq_Meta request))
          (val_or [] (marshal request)) (AcquireResearchSession_tx env request) AcquireResearchSession_finish))"

section \<open>Renewing a lease\<close>

record RenewLeaseRequest =
  ren_Meta :: MutationMeta
  ren_LeaseID :: string
  ren_ExpectedRevision :: uint64
  ren_TTL :: duration

definition RenewLease_tx :: "env \<Rightarrow> RenewLeaseRequest \<Rightarrow> Core \<Rightarrow> (payload, response) handler" where
  "RenewLease_tx env request c s =
    (case tbl_get (core_leases c) (ren_LeaseID request) of
       None \<Rightarrow> Inl ErrNotFound
     | Some lease \<Rightarrow>
         (let now = env_clock env 2;
              nextExpiry = now + ren_TTL request;
              lease' = lease\<lparr>lea_Revision := lea_Revision lease + 1, lea_ExpiresAt := nextExpiry,
                             lea_UpdatedAt := now\<rparr>
          in guarded
            [fail_if (lea_Revision lease \<noteq> ren_ExpectedRevision request)
               (Wrapped ''lease revision'' ErrRevisionConflict),
             requireLeaseActive lease (env_clock env 1),
             fail_if (\<not> nextExpiry > lea_ExpiresAt lease)
               (invalidArgument ''lease.renew'' ''ttl'' ''must extend the current lease expiry'' None)]
            (bind_r (appendControl (env_store env) ''lease'' (lea_ID lease) ''lease.renewed''
                (lea_Revision lease') (PLease lease') s)
              (\<lambda>s. Inr (s, Some (RLease lease'))))))"

definition finish_lease :: "Core \<Rightarrow> response \<Rightarrow> LeaseRecord result" where
  "finish_lease c response = (case response of RLease lease \<Rightarrow> Inr lease | _ \<Rightarrow> Inl unmarshal_error)"

definition RenewLease ::
    "(RenewLeaseRequest \<Rightarrow> bytes) \<Rightarrow> env \<Rightarrow> RenewLeaseRequest \<Rightarrow> Core \<Rightarrow> Core \<times> LeaseRecord result" where
  "RenewLease marshal env request =
     validated
       [MutationMeta_Validate (env_deadline env) (env_clock env 0) (ren_Meta request),
        err_of (ParseLeaseID (ren_LeaseID request)),
        fail_if (ren_TTL request \<le> 0) (invalidArgument ''lease.renew'' ''ttl'' ''must be positive'' None)]
       (runMutation env ''renew_lease'' (meta_IdempotencyKey (ren_Meta request)) (marshal request)
          (RenewLease_tx env request) finish_lease)"

section \<open>Agent generations\<close>

record TransitionAgentRequest =
  tra_Meta :: MutationMeta
  tra_AgentWorkspaceID :: string
  tra_Generation :: uint64
  tra_ExpectedRevision :: uint64
  tra_State :: AgentGenerationState

definition TransitionAgentGeneration_tx ::
    "env \<Rightarrow> TransitionAgentRequest \<Rightarrow> Core \<Rightarrow> (payload, response) handler" where
  "TransitionAgentGeneration_tx env request c s =
    (case tbl_get (core_agents c) (tra_AgentWorkspaceID request) of
       None \<Rightarrow> Inl ErrNotFound
     | Some agent \<Rightarrow>
         bind_r (findAgentGeneration agent (tra_Generation request)) (\<lambda>index.
           let g = agt_Generations agent ! index; now = env_clock env 1;
               agent' = agent\<lparr>agt_Generations := (agt_Generations agent)[index :=
                   g\<lparr>agn_State := tra_State request, agn_Revision := agn_Revision g + 1, agn_UpdatedAt := now\<rparr>],
                 agt_Revision := agt_Revision agent + 1, agt_UpdatedAt := now\<rparr>
           in guarded
             [fail_if (agn_Revision g \<noteq> tra_ExpectedRevision request) ErrRevisionConflict,
              RequireAgentGenerationTransition (agn_State g) (tra_State request),
              (if tra_State request = AgentGenerationQuiescing
               then requireAgentGenerationIdle c (agt_ID agent) (agn_Generation g) else None)]
             (bind_r (appendControl (env_store env) ''agent_workspace'' (agt_ID agent)
                 ''agent_generation.transitioned'' (agt_Revision agent') (PAgent agent') s)
               (\<lambda>s. Inr (s, Some (RAgent agent'))))))"

definition finish_agent :: "Core \<Rightarrow> response \<Rightarrow> AgentWorkspaceRecord result" where
  "finish_agent c response = (case response of RAgent agent \<Rightarrow> Inr agent | _ \<Rightarrow> Inl unmarshal_error)"

definition TransitionAgentGeneration ::
    "(TransitionAgentRequest \<Rightarrow> bytes) \<Rightarrow> env \<Rightarrow> TransitionAgentRequest \<Rightarrow> Core \<Rightarrow> Core \<times> AgentWorkspaceRecord result" where
  "TransitionAgentGeneration marshal env request =
     validated [MutationMeta_Validate (env_deadline env) (env_clock env 0) (tra_Meta request)]
       (runMutation env ''transition_agent_generation'' (meta_IdempotencyKey (tra_Meta request)) (marshal request)
          (TransitionAgentGeneration_tx env request) finish_agent)"

record BindAgentGenerationPlanRequest =
  bag_Meta :: MutationMeta
  bag_AgentWorkspaceID :: string
  bag_Generation :: uint64
  bag_ExpectedRevision :: uint64
  bag_ProvisioningPlanDigest :: string
  bag_WorkspaceProvisioningKey :: string
  bag_AgentProvisioningKey :: string

definition BindAgentGenerationPlan_tx ::
    "env \<Rightarrow> BindAgentGenerationPlanRequest \<Rightarrow> Core \<Rightarrow> (payload, response) handler" where
  "BindAgentGenerationPlan_tx env request c s =
    (let operation = ''agent_generation.bind_plan'' in
     case tbl_get (core_agents c) (bag_AgentWorkspaceID request) of
       None \<Rightarrow> Inl ErrNotFound
     | Some agent \<Rightarrow> guarded
         [fail_if (agt_CurrentGeneration agent \<noteq> bag_Generation request)
            (failedPrecondition operation ''generation'' ''must be the current agent generation'' None)]
         (bind_r (findAgentGeneration agent (bag_Generation request)) (\<lambda>index.
           let g = agt_Generations agent ! index in
           guarded
             [fail_if (agn_Revision g \<noteq> bag_ExpectedRevision request) ErrRevisionConflict,
              fail_if (agn_State g \<noteq> AgentGenerationProvisioning)
                (failedPrecondition operation ''state''
                   ''plan must be bound before physical provisioning advances'' None),
              fail_if (\<not> agentProvisioningBindingEmpty g) ErrIdempotencyConflict]
             (case tbl_get (core_sessions c) (agt_SessionID agent) of
                None \<Rightarrow> Inl ErrNotFound
              | Some session \<Rightarrow>
                (case tbl_get (core_leases c) (ses_LeaseID session) of
                   None \<Rightarrow> Inl ErrScope
                 | Some lease \<Rightarrow>
                   (let now = env_clock env 2;
                        agent' = agent\<lparr>agt_Generations := (agt_Generations agent)[index :=
                            g\<lparr>agn_ProvisioningPlanDigest := bag_ProvisioningPlanDigest request,
                              agn_WorkspaceProvisioningKey := bag_WorkspaceProvisioningKey request,
                              agn_AgentProvisioningKey := bag_AgentProvisioningKey request,
                              agn_Revision := agn_Revision g + 1, agn_UpdatedAt := now\<rparr>],
                          agt_Revision := agt_Revision agent + 1, agt_UpdatedAt := now\<rparr>
                    in guarded
                      [fail_if (lea_AgentWorkspaceID lease \<noteq> agt_ID agent \<or>
                          lea_AgentGeneration lease \<noteq> agn_Generation g) ErrScope,
                       requireLeaseActive lease (env_clock env 1)]
                      (bind_r (appendControl (env_store env) ''agent_workspace'' (agt_ID agent)
                          ''agent_generation.plan_bound'' (agt_Revision agent') (PAgent agent') s)
                        (\<lambda>s. Inr (s, Some (RAgent agent'))))))))))"

definition BindAgentGenerationPlan ::
    "(BindAgentGenerationPlanRequest \<Rightarrow> bytes result) \<Rightarrow> env \<Rightarrow> BindAgentGenerationPlanRequest \<Rightarrow> Core \<Rightarrow>
      Core \<times> AgentWorkspaceRecord result" where
  "BindAgentGenerationPlan marshal env request =
    (let operation = ''agent_generation.bind_plan'' in
     validated
       [MutationMeta_Validate (env_deadline env) (env_clock env 0) (bag_Meta request),
        err_of (ParseAgentWorkspaceID (bag_AgentWorkspaceID request)),
        fail_if (\<not> AgentGeneration_IsValid (bag_Generation request) \<or> bag_ExpectedRevision request = 0)
          (invalidArgument operation ''generation'' ''valid generation and expected revision are required'' None),
        (case ParseDigest (bag_ProvisioningPlanDigest request) of
           Inl e \<Rightarrow> Some (invalidArgument operation ''provisioning_plan_digest'' ''must be a valid digest'' (Some e))
         | Inr _ \<Rightarrow> None),
        fail_if (\<not> IsCanonicalIdempotencyKey (bag_WorkspaceProvisioningKey request) \<or>
                 \<not> IsCanonicalIdempotencyKey (bag_AgentProvisioningKey request))
          (invalidArgument operation ''provisioning_key''
             ''workspace and agent keys must be bounded non-blank values without surrounding whitespace'' None),
        err_of (marshal request)]
       (runMutation env ''bind_agent_generation_plan'' (meta_IdempotencyKey (bag_Meta request))
          (val_or [] (marshal request)) (BindAgentGenerationPlan_tx env request) finish_agent))"

section \<open>The transactions only append\<close>

interpretation acquire: mutation env "AcquireResearchSession_tx env request" for env request
  by unfold_locales (auto simp: AcquireResearchSession_tx_def journal_simps Let_def)

interpretation renew: mutation env "RenewLease_tx env request" for env request
  by unfold_locales (auto simp: RenewLease_tx_def journal_simps Let_def split: option.splits)

interpretation transition_agent: mutation env "TransitionAgentGeneration_tx env request" for env request
  by unfold_locales
    (auto simp: TransitionAgentGeneration_tx_def journal_simps Let_def split: option.splits)

interpretation bind_agent_plan: mutation env "BindAgentGenerationPlan_tx env request" for env request
  by unfold_locales
    (auto simp: BindAgentGenerationPlan_tx_def journal_simps Let_def split: option.splits)

end
