(* ===== verification/App_Execs.thy ===== *)
theory App_Execs
  imports App_Journal
begin

text \<open>
  Execs: creation under an active lease and an accepting agent generation, non-terminal
  transitions, and finalisation with incident links (\<open>src/internal/application/execs.go\<close>).
\<close>

definition zero_ExecRecord :: ExecRecord where
  "zero_ExecRecord = \<lparr>exe_ID = [], exe_SessionID = [], exe_LeaseID = [], exe_AgentWorkspaceID = [],
     exe_AgentGeneration = 0, exe_Kind = ExecKindOther [], exe_Executable = [], exe_Argv = [],
     exe_WorkingDirectory = [], exe_State = ExecStateOther [], exe_Revision = 0, exe_ExitCode = None,
     exe_Signal = [], exe_IncidentIDs = [], exe_CleanupConfirmed = False, exe_Error = [],
     exe_CreatedAt = zero_time, exe_UpdatedAt = zero_time\<rparr>"

section \<open>Normalised string lists\<close>

text \<open>
  Trimmed, without duplicates, in byte order.  The source removes duplicates while it copies and
  sorts afterwards, so it does not matter which copy of a value is kept.
\<close>

definition normalizedNonBlank :: "string list \<Rightarrow> string list result" where
  "normalizedNonBlank values =
    (if \<exists>v \<in> set values. TrimSpace v = []
     then Inl (invalidArgument ''normalize_non_blank'' ''values'' ''must not contain blank entries'' None)
     else Inr (sort (remdups (map TrimSpace values))))"

definition mergedNonBlank :: "string list \<Rightarrow> string list \<Rightarrow> string list result" where
  "mergedNonBlank current additional = normalizedNonBlank (current @ additional)"

section \<open>Creation\<close>

record CreateExecRequest =
  cex_Meta :: MutationMeta
  cex_LeaseID :: string
  cex_Kind :: ExecKind
  cex_Executable :: string
  cex_Argv :: "string list"
  cex_WorkingDirectory :: string

definition CreateExec_tx :: "env \<Rightarrow> CreateExecRequest \<Rightarrow> Core \<Rightarrow> (payload, response) handler" where
  "CreateExec_tx env request c s =
    (case tbl_get (core_leases c) (cex_LeaseID request) of
       None \<Rightarrow> Inl ErrNotFound
     | Some lease \<Rightarrow> guarded [requireLeaseActive lease (env_clock env 1)]
         (bind_r (requireAgentGenerationAcceptingWork c ''exec.create'' (lea_AgentWorkspaceID lease)
             (lea_AgentGeneration lease)) (\<lambda>agent.
          bind_r (case_prod GenerateExecID (env_ids env 0)) (\<lambda>execID.
          let now = env_clock env 2 in
          bind_r (requireStoredID ''lease.id'' (lea_ID lease) ParseLeaseID) (\<lambda>leaseID.
          bind_r (requireStoredID ''agent_workspace.id'' (agt_ID agent) ParseAgentWorkspaceID) (\<lambda>agentID.
          bind_r (NewExec \<lparr>exs_ID = execID, exs_LeaseID = leaseID, exs_AgentWorkspaceID = agentID,
              exs_AgentGeneration = agt_CurrentGeneration agent, exs_Kind = cex_Kind request,
              exs_Executable = cex_Executable request, exs_Argv = cex_Argv request,
              exs_WorkingDirectory = cex_WorkingDirectory request, exs_CreatedAt = now\<rparr>) (\<lambda>model.
          let execution = \<lparr>exe_ID = ID_String execPrefix_prefix execID, exe_SessionID = lea_SessionID lease,
                exe_LeaseID = lea_ID lease, exe_AgentWorkspaceID = agt_ID agent,
                exe_AgentGeneration = agt_CurrentGeneration agent, exe_Kind = cex_Kind request,
                exe_Executable = cex_Executable request, exe_Argv = cex_Argv request,
                exe_WorkingDirectory = cex_WorkingDirectory request, exe_State = exm_state model,
                exe_Revision = exm_revision model, exe_ExitCode = None, exe_Signal = [], exe_IncidentIDs = [],
                exe_CleanupConfirmed = False, exe_Error = [], exe_CreatedAt = now, exe_UpdatedAt = now\<rparr> in
          bind_r (appendControl (env_store env) ''exec'' (exe_ID execution) ''exec.requested''
              (exe_Revision execution) (PExec execution) s)
            (\<lambda>s. Inr (s, Some (RExecID (exe_ID execution)))))))))))"

definition CreateExec_finish :: "Core \<Rightarrow> response \<Rightarrow> ExecRecord result" where
  "CreateExec_finish c response =
    (case response of
       RExecID execID \<Rightarrow> Inr (case tbl_get (core_execs c) execID of None \<Rightarrow> zero_ExecRecord | Some v \<Rightarrow> v)
     | _ \<Rightarrow> Inl unmarshal_error)"

definition CreateExec ::
    "(CreateExecRequest \<Rightarrow> bytes result) \<Rightarrow> env \<Rightarrow> CreateExecRequest \<Rightarrow> Core \<Rightarrow> Core \<times> ExecRecord result" where
  "CreateExec marshal env request0 =
    (let request = (if cex_WorkingDirectory request0 = [] then request0\<lparr>cex_WorkingDirectory := ''.''\<rparr> else request0) in
     validated
       [MutationMeta_Validate (env_deadline env) (env_clock env 0) (cex_Meta request),
        err_of (ParseLeaseID (cex_LeaseID request)),
        fail_if (\<not> ExecKind_IsValid (cex_Kind request))
          (invalidArgument ''exec.create'' ''kind'' ''is not recognized'' None),
        validateExecCommand (cex_Executable request) (cex_Argv request) (cex_WorkingDirectory request),
        err_of (marshal request)]
       (runMutation env ''create_exec'' (meta_IdempotencyKey (cex_Meta request)) (val_or [] (marshal request))
          (CreateExec_tx env request) CreateExec_finish))"

section \<open>Mutation of an existing exec\<close>

text \<open>
  \<open>mutate\<close> sees the projection, a copy of the exec and the transaction; it returns the event, the
  changed copy and the transaction's state.
\<close>

definition mutateExec_tx ::
    "env \<Rightarrow> string \<Rightarrow> bool \<Rightarrow> (Core \<Rightarrow> ExecRecord \<Rightarrow> store \<Rightarrow> (string \<times> ExecRecord \<times> store) result) \<Rightarrow>
      Core \<Rightarrow> (payload, response) handler" where
  "mutateExec_tx env execID requireActiveLease mutate c s =
    (case tbl_get (core_execs c) execID of
       None \<Rightarrow> Inl ErrNotFound
     | Some execution \<Rightarrow> guarded
         [if requireActiveLease then
            (case tbl_get (core_leases c) (exe_LeaseID execution) of
               None \<Rightarrow> Some ErrNotFound
             | Some lease \<Rightarrow> requireLeaseActive lease (env_clock env 1))
          else None]
         (bind_r (mutate c execution s) (\<lambda>(event, execution', s').
          bind_r (appendControl (env_store env) ''exec'' (exe_ID execution') event (exe_Revision execution')
              (PExec execution') s')
            (\<lambda>s. Inr (s, Some (RExec execution'))))))"

definition finish_exec :: "Core \<Rightarrow> response \<Rightarrow> ExecRecord result" where
  "finish_exec c response = (case response of RExec v \<Rightarrow> Inr v | _ \<Rightarrow> Inl unmarshal_error)"

record TransitionExecRequest =
  tre_Meta :: MutationMeta
  tre_ExecID :: string
  tre_ExpectedRevision :: uint64
  tre_State :: ExecState

definition start_generation :: "env \<Rightarrow> Core \<Rightarrow> ExecRecord \<Rightarrow> store \<Rightarrow> store result" where
  "start_generation env c execution s =
    (case tbl_get (core_agents c) (exe_AgentWorkspaceID execution) of
       None \<Rightarrow> Inl ErrNotFound
     | Some agent \<Rightarrow>
         bind_r (findAgentGeneration agent (exe_AgentGeneration execution)) (\<lambda>index.
           let g = agt_Generations agent ! index; now = env_clock env 2 in
           if agn_State g = AgentGenerationReady then
             (let agent' = agent\<lparr>agt_Generations := (agt_Generations agent)[index :=
                   g\<lparr>agn_State := AgentGenerationRunning, agn_Revision := agn_Revision g + 1, agn_UpdatedAt := now\<rparr>],
                 agt_Revision := agt_Revision agent + 1, agt_UpdatedAt := now\<rparr>
              in guarded [RequireAgentGenerationTransition (agn_State g) AgentGenerationRunning]
                (appendControl (env_store env) ''agent_workspace'' (agt_ID agent) ''agent_generation.exec_started''
                  (agt_Revision agent') (PAgent agent') s))
           else if agn_State g \<noteq> AgentGenerationRunning then
             Inl (failedPrecondition ''exec.transition'' ''agent_generation''
               (''cannot run an exec in '' @ AgentGenerationState_String (agn_State g)) None)
           else Inr s))"

definition TransitionExec_mutate ::
    "env \<Rightarrow> TransitionExecRequest \<Rightarrow> Core \<Rightarrow> ExecRecord \<Rightarrow> store \<Rightarrow> (string \<times> ExecRecord \<times> store) result" where
  "TransitionExec_mutate env request c execution s =
     guarded
       [fail_if (exe_Revision execution \<noteq> tre_ExpectedRevision request) ErrRevisionConflict,
        RequireExecTransition (exe_State execution) (tre_State request)]
       (bind_r (if tre_State request = ExecRunning then start_generation env c execution s else Inr s) (\<lambda>s'.
          Inr (''exec.transitioned'',
               execution\<lparr>exe_State := tre_State request, exe_Revision := exe_Revision execution + 1,
                         exe_UpdatedAt := env_clock env 2\<rparr>, s')))"

definition TransitionExec ::
    "(TransitionExecRequest \<Rightarrow> bytes result) \<Rightarrow> env \<Rightarrow> TransitionExecRequest \<Rightarrow> Core \<Rightarrow> Core \<times> ExecRecord result" where
  "TransitionExec marshal env request =
     validated
       [MutationMeta_Validate (env_deadline env) (env_clock env 0) (tre_Meta request),
        err_of (ParseExecID (tre_ExecID request)),
        fail_if (ExecState_Terminal (tre_State request))
          (failedPrecondition ''exec.transition'' ''state'' ''terminal transitions must use FinalizeExec'' None),
        err_of (marshal request)]
       (runMutation env ''transition_exec'' (meta_IdempotencyKey (tre_Meta request)) (val_or [] (marshal request))
          (mutateExec_tx env (tre_ExecID request) True (TransitionExec_mutate env request)) finish_exec)"

record FinalizeExecRequest =
  fin_Meta :: MutationMeta
  fin_ExecID :: string
  fin_ExpectedRevision :: uint64
  fin_State :: ExecState
  fin_ExitCode :: "int option"
  fin_Signal :: string
  fin_IncidentIDs :: "string list"
  fin_CleanupConfirmed :: bool
  fin_Error :: string

definition exec_incident_check :: "Core \<Rightarrow> ExecRecord \<Rightarrow> string \<Rightarrow> err" where
  "exec_incident_check c execution incidentID =
    (case tbl_get (core_incidents c) incidentID of
       None \<Rightarrow> Some ErrNotFound
     | Some incident \<Rightarrow> fail_if (inc_SessionID incident \<noteq> exe_SessionID execution \<or>
           inc_ExecID incident \<noteq> exe_ID execution \<or>
           inc_AgentWorkspaceID incident \<noteq> exe_AgentWorkspaceID execution \<or>
           inc_AgentGeneration incident \<noteq> exe_AgentGeneration execution) ErrScope)"

definition FinalizeExec_mutate ::
    "env \<Rightarrow> FinalizeExecRequest \<Rightarrow> Core \<Rightarrow> ExecRecord \<Rightarrow> store \<Rightarrow> (string \<times> ExecRecord \<times> store) result" where
  "FinalizeExec_mutate env request c execution s =
     guarded
       (fail_if (exe_Revision execution \<noteq> fin_ExpectedRevision request) ErrRevisionConflict #
        map (exec_incident_check c execution) (fin_IncidentIDs request) @
        [RequireExecTransition (exe_State execution) (fin_State request)])
       (bind_r (mergedNonBlank (exe_IncidentIDs execution) (fin_IncidentIDs request)) (\<lambda>incidentIDs.
          Inr (''exec.finalized'',
               execution\<lparr>exe_State := fin_State request, exe_Revision := exe_Revision execution + 1,
                 exe_UpdatedAt := env_clock env 1,
                 exe_ExitCode := (case fin_ExitCode request of None \<Rightarrow> exe_ExitCode execution | Some x \<Rightarrow> Some x),
                 exe_Signal := fin_Signal request, exe_CleanupConfirmed := fin_CleanupConfirmed request,
                 exe_Error := TrimSpace (fin_Error request), exe_IncidentIDs := incidentIDs\<rparr>, s)))"

definition FinalizeExec ::
    "(FinalizeExecRequest \<Rightarrow> bytes result) \<Rightarrow> env \<Rightarrow> FinalizeExecRequest \<Rightarrow> Core \<Rightarrow> Core \<times> ExecRecord result" where
  "FinalizeExec marshal env request0 =
    (let incidentIDs = normalizedNonBlank (fin_IncidentIDs request0);
         request = request0\<lparr>fin_IncidentIDs := val_or [] incidentIDs\<rparr> in
     validated
       ([MutationMeta_Validate (env_deadline env) (env_clock env 0) (fin_Meta request),
         err_of (ParseExecID (fin_ExecID request)),
         fail_if (\<not> ExecState_Terminal (fin_State request))
           (invalidArgument ''exec.finalize'' ''state'' ''must be terminal'' None),
         fail_if (fin_State request = ExecCompleted \<and>
                  (fin_ExitCode request \<noteq> Some 0 \<or> \<not> fin_CleanupConfirmed request))
           (invalidArgument ''exec.finalize'' ''terminal''
              ''completed exec requires exit code zero and confirmed cleanup'' None),
         fail_if (length (fin_Signal request) > 256 \<or> length (fin_Error request) > 4096)
           (resourceExhausted ''exec.finalize'' ''terminal'' ''details exceed limits'' None)] @
        map (\<lambda>i. err_of (ParseIncidentID i)) (fin_IncidentIDs request0) @
        [err_of incidentIDs, err_of (marshal request)])
       (runMutation env ''finalize_exec'' (meta_IdempotencyKey (fin_Meta request)) (val_or [] (marshal request))
          (mutateExec_tx env (fin_ExecID request) False (FinalizeExec_mutate env request)) finish_exec))"

section \<open>The transactions only append\<close>

lemma mutateExec_journals:
  assumes "\<And>c execution. journals (env_store env) s (\<lambda>(_, _, u). u) (mutate c execution s)"
  shows "journals (env_store env) s fst (mutateExec_tx env execID requireActiveLease mutate c s)"
  using assms [THEN journals_def [THEN iffD1]]
  by (auto simp: mutateExec_tx_def journal_simps split: option.splits)

lemma start_generation_journals: "journals (env_store env) s (\<lambda>u. u) (start_generation env c execution s)"
  by (auto simp: start_generation_def journal_simps Let_def split: option.splits)

interpretation create_exec: mutation env "CreateExec_tx env request" for env request
  by unfold_locales (auto simp: CreateExec_tx_def journal_simps Let_def split: option.splits)

interpretation transition_exec: mutation env "mutateExec_tx env execID active (TransitionExec_mutate env request)"
  for env execID active request
proof (unfold_locales, rule mutateExec_journals)
  fix s c execution
  show "journals (env_store env) s (\<lambda>(_, _, u). u) (TransitionExec_mutate env request c execution s)"
    using start_generation_journals [of env s c execution]
    by (auto simp: TransitionExec_mutate_def journal_simps journals_def [of _ _ "\<lambda>u. u"] split: if_splits)
qed

interpretation finalize_exec: mutation env "mutateExec_tx env execID active (FinalizeExec_mutate env request)"
  for env execID active request
proof (unfold_locales, rule mutateExec_journals)
  fix s c execution
  show "journals (env_store env) s (\<lambda>(_, _, u). u) (FinalizeExec_mutate env request c execution s)"
    by (simp add: FinalizeExec_mutate_def journal_simps)
qed

end
