(* ===== verification/App_Targets.thy ===== *)
theory App_Targets
  imports App_Execs
begin

text \<open>
  Targets, their generations, runs and operations: \<open>src/internal/application/targets.go\<close>,
  \<open>target_plan_binding.go\<close>, \<open>target_run_plan_binding.go\<close>, and the port validators these call
  (\<open>src/internal/ports/context.go\<close>, \<open>target.go\<close>).
\<close>

section \<open>Port values\<close>

datatype ResetMode = ResetRecreate | ResetBaseline | ResetSnapshot | ResetModeOther string

definition ResetMode_IsValid :: "ResetMode \<Rightarrow> bool" where
  "ResetMode_IsValid m \<longleftrightarrow> m = ResetRecreate \<or> m = ResetBaseline \<or> m = ResetSnapshot"

definition ValidateResetSelection :: "ResetMode \<Rightarrow> string \<Rightarrow> err" where
  "ValidateResetSelection mode snapshotName =
    (let operation = ''ports.validate_reset_selection'' in
     first_err
       [fail_if (\<not> ResetMode_IsValid mode)
          (NewError CodeInvalidArgument operation ''mode'' ''must be baseline, recreate, or snapshot'' None),
        (if mode = ResetSnapshot then first_err
           [fail_if (blank snapshotName)
              (NewError CodeInvalidArgument operation ''snapshot_name'' ''is required for snapshot reset'' None),
            fail_if (snapshotName \<noteq> TrimSpace snapshotName)
              (NewError CodeInvalidArgument operation ''snapshot_name'' ''must not have surrounding whitespace'' None)]
         else fail_if (snapshotName \<noteq> [])
           (NewError CodeInvalidArgument operation ''snapshot_name'' ''is only valid for snapshot reset'' None))])"

record TargetRef =
  ref_ID :: TargetID
  ref_Generation :: TargetGeneration

definition TargetRef_Validate :: "TargetRef \<Rightarrow> err" where
  "TargetRef_Validate r =
     fail_if (ID_IsZero (ref_ID r) \<or> \<not> TargetGeneration_IsValid (ref_Generation r))
       (NewError CodeInvalidArgument ''ports.target_ref.validate'' ''scope'' ''target and generation are required'' None)"

record TargetQuarantineEvidence =
  qev_Target :: TargetRef
  qev_RuntimeID :: string
  qev_ExecutionStopped :: bool
  qev_NetworkUnreachable :: bool
  qev_StatePreserved :: bool
  qev_ObservedAt :: time

definition TargetQuarantineEvidence_Validate :: "TargetQuarantineEvidence \<Rightarrow> TargetRef \<Rightarrow> err" where
  "TargetQuarantineEvidence_Validate e expected =
    (let operation = ''ports.target_quarantine_evidence.validate'' in
     first_err
       [TargetRef_Validate expected,
        fail_if (qev_Target e \<noteq> expected)
          (NewError CodeIntegrityViolation operation ''target'' ''evidence identifies a different target generation'' None),
        fail_if (blank (qev_RuntimeID e) \<or> qev_ObservedAt e = zero_time)
          (NewError CodeIntegrityViolation operation ''observation''
             ''runtime identity and observation time are required'' None),
        fail_if (\<not> qev_ExecutionStopped e \<or> \<not> qev_NetworkUnreachable e \<or> \<not> qev_StatePreserved e)
          (NewError CodeFailedPrecondition operation ''confirmation''
             ''execution stop, network isolation, and state preservation must all be confirmed'' None)])"

section \<open>The frame of a target mutation\<close>

definition zero_LeaseRecord :: LeaseRecord where
  "zero_LeaseRecord = \<lparr>lea_ID = [], lea_SessionID = [], lea_AgentWorkspaceID = [], lea_AgentGeneration = 0,
     lea_InputViewID = [], lea_PolicyDigest = [], lea_CapabilityDigest = [], lea_State = LeaseStateOther [],
     lea_Revision = 0, lea_ExpiresAt = zero_time, lea_Termination = no_termination,
     lea_CreatedAt = zero_time, lea_UpdatedAt = zero_time\<rparr>"

text \<open>Reading a missing key of a Go map yields the zero value.\<close>

definition lease_or_zero :: "Core \<Rightarrow> string \<Rightarrow> LeaseRecord" where
  "lease_or_zero c i = (case tbl_get (core_leases c) i of None \<Rightarrow> zero_LeaseRecord | Some l \<Rightarrow> l)"

datatype targetLeaseMode = targetLeaseActiveOnly | targetLeaseCleanup

definition requireTargetMutationLease :: "LeaseRecord \<Rightarrow> time \<Rightarrow> targetLeaseMode \<Rightarrow> err" where
  "requireTargetMutationLease lease now mode =
    (if mode = targetLeaseCleanup \<and> LeaseTermination_InProgress (lea_Termination lease) then None
     else requireLeaseActive lease now)"

text \<open>The closure \<open>record\<close>: one journal record of the target, stamped with the i-th clock reading.\<close>

definition record_target ::
    "env \<Rightarrow> nat \<Rightarrow> string \<Rightarrow> TargetRecord \<Rightarrow> store \<Rightarrow> (TargetRecord \<times> store) result" where
  "record_target env i event target s =
    (let target' = target\<lparr>tgt_Revision := tgt_Revision target + 1, tgt_UpdatedAt := env_clock env i\<rparr> in
     bind_r (appendControl (env_store env) ''target'' (tgt_ID target') event (tgt_Revision target') (PTarget target') s)
       (\<lambda>s. Inr (target', s)))"

definition mutateTargetJournalWithLeaseMode_tx ::
    "env \<Rightarrow> targetLeaseMode \<Rightarrow> string \<Rightarrow> (Core \<Rightarrow> TargetRecord \<Rightarrow> store \<Rightarrow> (TargetRecord \<times> store) result) \<Rightarrow>
      Core \<Rightarrow> (payload, response) handler" where
  "mutateTargetJournalWithLeaseMode_tx env mode targetID mutate c s =
    (case tbl_get (core_targets c) targetID of
       None \<Rightarrow> Inl ErrNotFound
     | Some target \<Rightarrow>
         guarded [requireTargetMutationLease (lease_or_zero c (tgt_LeaseID target)) (env_clock env 1) mode]
           (bind_r (mutate c target s) (\<lambda>(target', s'). Inr (s', Some (RTarget target')))))"

text \<open>
  A mutation that ends in one record: \<open>mutate\<close> returns the event, the number of the next clock
  reading, and the changed target.
\<close>

definition mutateTargetWithLeaseMode_tx ::
    "env \<Rightarrow> targetLeaseMode \<Rightarrow> string \<Rightarrow> (Core \<Rightarrow> TargetRecord \<Rightarrow> (string \<times> nat \<times> TargetRecord) result) \<Rightarrow>
      Core \<Rightarrow> (payload, response) handler" where
  "mutateTargetWithLeaseMode_tx env mode targetID mutate =
     mutateTargetJournalWithLeaseMode_tx env mode targetID (\<lambda>c target s.
       bind_r (mutate c target) (\<lambda>(event, i, target'). record_target env i event target' s))"

definition finish_target :: "Core \<Rightarrow> response \<Rightarrow> TargetRecord result" where
  "finish_target c response = (case response of RTarget target \<Rightarrow> Inr target | _ \<Rightarrow> Inl unmarshal_error)"

definition finish_run :: "string \<Rightarrow> Core \<Rightarrow> response \<Rightarrow> TargetRunRecord result" where
  "finish_run runID c response =
     bind_r (finish_target c response) (\<lambda>target.
     bind_r (findRun target runID) (\<lambda>i. Inr (tgt_Runs target ! i)))"

definition finish_operation :: "string \<Rightarrow> Core \<Rightarrow> response \<Rightarrow> TargetOperationRecord result" where
  "finish_operation operationID c response =
     bind_r (finish_target c response) (\<lambda>target.
     bind_r (findOperation target operationID) (\<lambda>i. Inr (tgt_Operations target ! i)))"

definition upd_generation :: "nat \<Rightarrow> (TargetGenerationRecord \<Rightarrow> TargetGenerationRecord) \<Rightarrow> TargetRecord \<Rightarrow> TargetRecord" where
  "upd_generation i f target =
     target\<lparr>tgt_Generations := (tgt_Generations target)[i := f (tgt_Generations target ! i)]\<rparr>"

definition upd_run :: "nat \<Rightarrow> (TargetRunRecord \<Rightarrow> TargetRunRecord) \<Rightarrow> TargetRecord \<Rightarrow> TargetRecord" where
  "upd_run i f target = target\<lparr>tgt_Runs := (tgt_Runs target)[i := f (tgt_Runs target ! i)]\<rparr>"

definition upd_operation :: "nat \<Rightarrow> (TargetOperationRecord \<Rightarrow> TargetOperationRecord) \<Rightarrow> TargetRecord \<Rightarrow> TargetRecord" where
  "upd_operation i f target =
     target\<lparr>tgt_Operations := (tgt_Operations target)[i := f (tgt_Operations target ! i)]\<rparr>"

definition generation_state :: "TargetGenerationState \<Rightarrow> time \<Rightarrow> TargetGenerationRecord \<Rightarrow> TargetGenerationRecord" where
  "generation_state next at g = g\<lparr>tgn_State := next, tgn_Revision := tgn_Revision g + 1, tgn_UpdatedAt := at\<rparr>"

definition run_state :: "TargetRunState \<Rightarrow> time \<Rightarrow> TargetRunRecord \<Rightarrow> TargetRunRecord" where
  "run_state next at r = r\<lparr>run_State := next, run_Revision := run_Revision r + 1, run_UpdatedAt := at\<rparr>"

definition operation_state :: "TargetOperationState \<Rightarrow> time \<Rightarrow> TargetOperationRecord \<Rightarrow> TargetOperationRecord" where
  "operation_state next at q = q\<lparr>ope_State := next, ope_Revision := ope_Revision q + 1, ope_UpdatedAt := at\<rparr>"

section \<open>Creating targets, starting runs, creating operations\<close>

record CreateTargetRequest =
  cta_Meta :: MutationMeta
  cta_LeaseID :: string
  cta_Template :: string
  cta_Kind :: TargetKind
  cta_PolicyDigest :: string
  cta_CapabilityDigest :: string

definition CreateTarget_tx :: "env \<Rightarrow> CreateTargetRequest \<Rightarrow> Core \<Rightarrow> (payload, response) handler" where
  "CreateTarget_tx env request c s =
    (case tbl_get (core_leases c) (cta_LeaseID request) of
       None \<Rightarrow> Inl ErrNotFound
     | Some lease \<Rightarrow> guarded [requireLeaseActive lease (env_clock env 1)]
         (let now = env_clock env 2 in
          bind_r (case_prod GenerateTargetID (env_ids env 0)) (\<lambda>targetID.
          bind_r (requireStoredID ''lease.session_id'' (lea_SessionID lease) ParseResearchSessionID) (\<lambda>sessionID.
          bind_r (NewTarget targetID sessionID (cta_Kind request) InitialTargetGeneration now) (\<lambda>targetModel.
          bind_r (NewTargetGeneration \<lparr>tgs_TargetID = targetID, tgs_Generation = InitialTargetGeneration,
              tgs_PolicyDigest = val_or zeroDigest (ParseDigest (cta_PolicyDigest request)),
              tgs_CapabilityFingerprintDigest = val_or zeroDigest (ParseDigest (cta_CapabilityDigest request)),
              tgs_PreviousGeneration = 0, tgs_RecoveryIncidentID = zeroID, tgs_CreatedAt = now\<rparr>) (\<lambda>generationModel.
          let target = \<lparr>tgt_ID = ID_String targetPrefix_prefix targetID, tgt_SessionID = lea_SessionID lease,
                tgt_LeaseID = lea_ID lease, tgt_CreationIdempotencyKey = meta_IdempotencyKey (cta_Meta request),
                tgt_Template = cta_Template request, tgt_Kind = cta_Kind request, tgt_CurrentGeneration = 1,
                tgt_Revision = tam_revision targetModel, tgt_CreatedAt = now, tgt_UpdatedAt = now,
                tgt_Generations = [\<lparr>tgn_Generation = 1, tgn_PolicyDigest = cta_PolicyDigest request,
                  tgn_CapabilityDigest = cta_CapabilityDigest request, tgn_ProvisioningPlanDigest = [],
                  tgn_ProvisioningKey = [], tgn_Previous = 0, tgn_RecoveryIncident = [],
                  tgn_State = tgm_state generationModel, tgn_Revision = tgm_revision generationModel,
                  tgn_CreatedAt = now, tgn_UpdatedAt = now\<rparr>],
                tgt_Runs = [], tgt_Operations = []\<rparr> in
          bind_r (appendControl (env_store env) ''target'' (tgt_ID target) ''target.created'' (tgt_Revision target)
              (PTarget target) s)
            (\<lambda>s. Inr (s, Some (RTargetID (tgt_ID target))))))))))"

definition zero_TargetRecord :: TargetRecord where
  "zero_TargetRecord = \<lparr>tgt_ID = [], tgt_SessionID = [], tgt_LeaseID = [], tgt_CreationIdempotencyKey = [],
     tgt_Template = [], tgt_Kind = TargetKindOther [], tgt_CurrentGeneration = 0, tgt_Revision = 0,
     tgt_CreatedAt = zero_time, tgt_UpdatedAt = zero_time, tgt_Generations = [], tgt_Runs = [],
     tgt_Operations = []\<rparr>"

definition target_or_zero :: "Core \<Rightarrow> string \<Rightarrow> TargetRecord" where
  "target_or_zero c i = (case tbl_get (core_targets c) i of None \<Rightarrow> zero_TargetRecord | Some t \<Rightarrow> t)"

definition CreateTarget_finish :: "Core \<Rightarrow> response \<Rightarrow> TargetRecord result" where
  "CreateTarget_finish c response =
    (case response of RTargetID i \<Rightarrow> Inr (target_or_zero c i) | _ \<Rightarrow> Inl unmarshal_error)"

definition CreateTarget ::
    "(CreateTargetRequest \<Rightarrow> bytes) \<Rightarrow> env \<Rightarrow> CreateTargetRequest \<Rightarrow> Core \<Rightarrow> Core \<times> TargetRecord result" where
  "CreateTarget marshal env request =
     validated
       [MutationMeta_Validate (env_deadline env) (env_clock env 0) (cta_Meta request),
        err_of (ParseLeaseID (cta_LeaseID request)),
        err_of (ParseDigest (cta_PolicyDigest request)),
        err_of (ParseDigest (cta_CapabilityDigest request)),
        fail_if (blank (cta_Template request) \<or> \<not> TargetKind_IsValid (cta_Kind request))
          (invalidArgument ''target.create'' ''template_kind''
             ''target template and recognized kind are required'' None)]
       (runMutation env ''create_target'' (meta_IdempotencyKey (cta_Meta request)) (marshal request)
          (CreateTarget_tx env request) CreateTarget_finish)"

record StartTargetRunRequest =
  str_Meta :: MutationMeta
  str_TargetID :: string
  str_MaterializationDigest :: string
  str_SpecimenOccurrenceRefs :: "string list"
  str_FixtureRefs :: "string list"

definition StartTargetRun_tx :: "env \<Rightarrow> StartTargetRunRequest \<Rightarrow> Core \<Rightarrow> (payload, response) handler" where
  "StartTargetRun_tx env request c s =
    (let operation = ''target_run.start'' in
     case tbl_get (core_targets c) (str_TargetID request) of
       None \<Rightarrow> Inl ErrNotFound
     | Some target \<Rightarrow>
         (let lease = lease_or_zero c (tgt_LeaseID target) in
          guarded
            [requireLeaseActive lease (env_clock env 1),
             err_of (requireAgentGenerationAcceptingWork c operation (lea_AgentWorkspaceID lease)
               (lea_AgentGeneration lease))]
            (bind_r (findTargetGeneration target (tgt_CurrentGeneration target)) (\<lambda>index.
             let g = tgt_Generations target ! index in
             guarded
               [fail_if (tgn_State g \<noteq> TargetGenerationReady)
                  (failedPrecondition operation ''target_generation''
                     (if tgn_State g = TargetGenerationResettable then ''must be reset before another run''
                      else ''is not ready'') None),
                fail_if (\<exists>r \<in> set (tgt_Runs target). run_Generation r = tgt_CurrentGeneration target)
                  (failedPrecondition operation ''target_generation'' ''already has a run and must be reset'' None)]
               (let now = env_clock env 2 in
                bind_r (case_prod GenerateTargetRunID (env_ids env 0)) (\<lambda>runID.
                bind_r (requireStoredID ''target.lease_id'' (tgt_LeaseID target) ParseLeaseID) (\<lambda>leaseID.
                bind_r (requireStoredID ''target.id'' (tgt_ID target) ParseTargetID) (\<lambda>targetID.
                bind_r (requireStoredID ''lease.agent_workspace_id'' (lea_AgentWorkspaceID lease)
                    ParseAgentWorkspaceID) (\<lambda>agentID.
                bind_r (NewTargetRun \<lparr>trs_ID = runID, trs_LeaseID = leaseID, trs_TargetID = targetID,
                    trs_TargetGeneration = tgt_CurrentGeneration target, trs_AgentWorkspaceID = agentID,
                    trs_AgentGeneration = lea_AgentGeneration lease,
                    trs_MaterializationDigest = val_or zeroDigest (ParseDigest (str_MaterializationDigest request)),
                    trs_CreatedAt = now\<rparr>) (\<lambda>runModel.
                let run = \<lparr>run_ID = ID_String targetRunPrefix_prefix runID,
                      run_Generation = tgt_CurrentGeneration target,
                      run_AgentWorkspaceID = lea_AgentWorkspaceID lease,
                      run_AgentGeneration = lea_AgentGeneration lease,
                      run_MaterializationDigest = str_MaterializationDigest request,
                      run_ProvisioningPlanDigest = [], run_ProvisioningKey = [],
                      run_State = trm_state runModel, run_Revision = trm_revision runModel,
                      run_BundleID = [], run_BundleArtifact = [], run_BundleDigest = [], run_IncidentIDs = [],
                      run_CreatedAt = now, run_UpdatedAt = now\<rparr>;
                    target' = target\<lparr>tgt_Runs := tgt_Runs target @ [run],
                      tgt_Revision := tgt_Revision target + 1, tgt_UpdatedAt := now\<rparr> in
                bind_r (appendControl (env_store env) ''target'' (tgt_ID target) ''target_run.requested''
                    (tgt_Revision target') (PTarget target') s)
                  (\<lambda>s. Inr (s, Some (RRunID (tgt_ID target) (run_ID run))))))))))))))"

definition StartTargetRun_finish :: "Core \<Rightarrow> response \<Rightarrow> TargetRunRecord result" where
  "StartTargetRun_finish c response =
    (case response of
       RRunID targetID runID \<Rightarrow>
         bind_r (findRun (target_or_zero c targetID) runID) (\<lambda>i. Inr (tgt_Runs (target_or_zero c targetID) ! i))
     | _ \<Rightarrow> Inl unmarshal_error)"

definition StartTargetRun ::
    "(StartTargetRunRequest \<Rightarrow> bytes) \<Rightarrow> env \<Rightarrow> StartTargetRunRequest \<Rightarrow> Core \<Rightarrow> Core \<times> TargetRunRecord result" where
  "StartTargetRun marshal env request =
     validated
       [MutationMeta_Validate (env_deadline env) (env_clock env 0) (str_Meta request),
        err_of (ParseDigest (str_MaterializationDigest request))]
       (runMutation env ''start_target_run'' (meta_IdempotencyKey (str_Meta request)) (marshal request)
          (StartTargetRun_tx env request) StartTargetRun_finish)"

record CreateTargetOperationRequest =
  cto_Meta :: MutationMeta
  cto_TargetID :: string
  cto_RunID :: string
  cto_Kind :: TargetOperationKind
  cto_CommandDisplay :: string
  cto_ContentDigest :: string

definition CreateTargetOperation_tx ::
    "env \<Rightarrow> CreateTargetOperationRequest \<Rightarrow> Core \<Rightarrow> (payload, response) handler" where
  "CreateTargetOperation_tx env request c s =
    (let operation = ''target_operation.create'' in
     case tbl_get (core_targets c) (cto_TargetID request) of
       None \<Rightarrow> Inl ErrNotFound
     | Some target \<Rightarrow>
         bind_r (findRun target (cto_RunID request)) (\<lambda>index.
         let r = tgt_Runs target ! index in
         guarded
           [fail_if (run_State r \<noteq> TargetRunRunning)
              (failedPrecondition operation ''target_run'' ''is not running'' None),
            (case tbl_get (core_leases c) (tgt_LeaseID target) of
               None \<Rightarrow> Some ErrNotFound
             | Some lease \<Rightarrow> requireLeaseActive lease (env_clock env 1)),
            err_of (requireAgentGenerationAcceptingWork c operation (run_AgentWorkspaceID r) (run_AgentGeneration r))]
           (bind_r (case_prod GenerateTargetOperationID (env_ids env 0)) (\<lambda>operationID.
            let now = env_clock env 2 in
            bind_r (requireStoredID ''target.lease_id'' (tgt_LeaseID target) ParseLeaseID) (\<lambda>leaseID.
            bind_r (requireStoredID ''target.id'' (tgt_ID target) ParseTargetID) (\<lambda>targetID.
            bind_r (requireStoredID ''target_run.id'' (run_ID r) ParseTargetRunID) (\<lambda>runID.
            bind_r (NewTargetOperation \<lparr>tos_ID = operationID, tos_LeaseID = leaseID, tos_TargetID = targetID,
                tos_TargetGeneration = run_Generation r, tos_TargetRunID = runID, tos_Kind = cto_Kind request,
                tos_CommandDisplay = cto_CommandDisplay request,
                tos_ContentDigest = (if cto_ContentDigest request = [] then zeroDigest
                  else val_or zeroDigest (ParseDigest (cto_ContentDigest request))),
                tos_CreatedAt = now\<rparr>) (\<lambda>model.
            let q = \<lparr>ope_ID = ID_String targetOperationPrefix_prefix operationID, ope_RunID = run_ID r,
                  ope_Generation = run_Generation r, ope_Kind = cto_Kind request,
                  ope_CommandDisplay = cto_CommandDisplay request, ope_ContentDigest = cto_ContentDigest request,
                  ope_State = tom_state model, ope_Revision = tom_revision model,
                  ope_CreatedAt = now, ope_UpdatedAt = now\<rparr>;
                target' = target\<lparr>tgt_Operations := tgt_Operations target @ [q],
                  tgt_Revision := tgt_Revision target + 1, tgt_UpdatedAt := now\<rparr> in
            bind_r (appendControl (env_store env) ''target'' (tgt_ID target) ''target_operation.requested''
                (tgt_Revision target') (PTarget target') s)
              (\<lambda>s. Inr (s, Some (ROperationID (tgt_ID target) (ope_ID q))))))))))))"

definition CreateTargetOperation_finish :: "Core \<Rightarrow> response \<Rightarrow> TargetOperationRecord result" where
  "CreateTargetOperation_finish c response =
    (case response of
       ROperationID targetID operationID \<Rightarrow>
         bind_r (findOperation (target_or_zero c targetID) operationID)
           (\<lambda>i. Inr (tgt_Operations (target_or_zero c targetID) ! i))
     | _ \<Rightarrow> Inl unmarshal_error)"

definition CreateTargetOperation ::
    "(CreateTargetOperationRequest \<Rightarrow> bytes) \<Rightarrow> env \<Rightarrow> CreateTargetOperationRequest \<Rightarrow> Core \<Rightarrow>
      Core \<times> TargetOperationRecord result" where
  "CreateTargetOperation marshal env request =
     validated
       [MutationMeta_Validate (env_deadline env) (env_clock env 0) (cto_Meta request),
        fail_if (length (cto_CommandDisplay request) > 4096)
          (resourceExhausted ''target_operation.create'' ''command_display'' ''exceeds 4096 bytes'' None),
        (if cto_ContentDigest request \<noteq> [] then err_of (ParseDigest (cto_ContentDigest request)) else None)]
       (runMutation env ''create_target_operation'' (meta_IdempotencyKey (cto_Meta request)) (marshal request)
          (CreateTargetOperation_tx env request) CreateTargetOperation_finish)"

section \<open>Transitions\<close>

record TransitionTargetGenerationRequest =
  ttg_Meta :: MutationMeta
  ttg_TargetID :: string
  ttg_Generation :: uint64
  ttg_ExpectedRevision :: uint64
  ttg_State :: TargetGenerationState

definition TransitionTargetGeneration_mutate ::
    "env \<Rightarrow> TransitionTargetGenerationRequest \<Rightarrow> Core \<Rightarrow> TargetRecord \<Rightarrow> (string \<times> nat \<times> TargetRecord) result" where
  "TransitionTargetGeneration_mutate env request c target =
     bind_r (findTargetGeneration target (ttg_Generation request)) (\<lambda>i.
       let g = tgt_Generations target ! i in
       checked
         [fail_if (tgn_Revision g \<noteq> ttg_ExpectedRevision request) ErrRevisionConflict,
          RequireTargetGenerationTransition (tgn_State g) (ttg_State request)]
         (''target_generation.transitioned'', 3,
          upd_generation i (generation_state (ttg_State request) (env_clock env 2)) target))"

definition TransitionTargetGeneration ::
    "(TransitionTargetGenerationRequest \<Rightarrow> bytes result) \<Rightarrow> env \<Rightarrow> TransitionTargetGenerationRequest \<Rightarrow> Core \<Rightarrow>
      Core \<times> TargetRecord result" where
  "TransitionTargetGeneration marshal env request =
     validated [MutationMeta_Validate (env_deadline env) (env_clock env 0) (ttg_Meta request), err_of (marshal request)]
       (runMutation env ''transition_target_generation'' (meta_IdempotencyKey (ttg_Meta request))
          (val_or [] (marshal request))
          (mutateTargetWithLeaseMode_tx env targetLeaseActiveOnly (ttg_TargetID request)
             (TransitionTargetGeneration_mutate env request)) finish_target)"

record TransitionTargetRunRequest =
  ttr_Meta :: MutationMeta
  ttr_TargetID :: string
  ttr_RunID :: string
  ttr_ExpectedRevision :: uint64
  ttr_State :: TargetRunState

definition TransitionTargetRun_mutate ::
    "env \<Rightarrow> TransitionTargetRunRequest \<Rightarrow> Core \<Rightarrow> TargetRecord \<Rightarrow> (string \<times> nat \<times> TargetRecord) result" where
  "TransitionTargetRun_mutate env request c target =
     bind_r (findRun target (ttr_RunID request)) (\<lambda>i.
       let r = tgt_Runs target ! i in
       checked
         [fail_if (run_Revision r \<noteq> ttr_ExpectedRevision request) ErrRevisionConflict,
          fail_if (ttr_State request = TargetRunCompleted \<or> ttr_State request = TargetRunFailed)
            (failedPrecondition ''target_run.transition'' ''state''
               ''terminal runs must use FinalizeTargetRun with a bundle'' None),
          RequireTargetRunTransition (run_State r) (ttr_State request)]
         (''target_run.transitioned'', 3, upd_run i (run_state (ttr_State request) (env_clock env 2)) target))"

definition TransitionTargetRun ::
    "(TransitionTargetRunRequest \<Rightarrow> bytes result) \<Rightarrow> env \<Rightarrow> TransitionTargetRunRequest \<Rightarrow> Core \<Rightarrow>
      Core \<times> TargetRunRecord result" where
  "TransitionTargetRun marshal env request =
     validated [MutationMeta_Validate (env_deadline env) (env_clock env 0) (ttr_Meta request), err_of (marshal request)]
       (runMutation env ''transition_target_run'' (meta_IdempotencyKey (ttr_Meta request)) (val_or [] (marshal request))
          (mutateTargetWithLeaseMode_tx env
             (if TargetRunState_Terminal (ttr_State request) then targetLeaseCleanup else targetLeaseActiveOnly)
             (ttr_TargetID request) (TransitionTargetRun_mutate env request))
          (finish_run (ttr_RunID request)))"

record TransitionTargetOperationRequest =
  tto_Meta :: MutationMeta
  tto_TargetID :: string
  tto_OperationID :: string
  tto_ExpectedRevision :: uint64
  tto_State :: TargetOperationState

definition TransitionTargetOperation_mutate ::
    "env \<Rightarrow> TransitionTargetOperationRequest \<Rightarrow> Core \<Rightarrow> TargetRecord \<Rightarrow> (string \<times> nat \<times> TargetRecord) result" where
  "TransitionTargetOperation_mutate env request c target =
     bind_r (findOperation target (tto_OperationID request)) (\<lambda>i.
       let q = tgt_Operations target ! i in
       checked
         [fail_if (ope_Revision q \<noteq> tto_ExpectedRevision request) ErrRevisionConflict,
          RequireTargetOperationTransition (ope_State q) (tto_State request)]
         (''target_operation.transitioned'', 3,
          upd_operation i (operation_state (tto_State request) (env_clock env 2)) target))"

definition TransitionTargetOperation ::
    "(TransitionTargetOperationRequest \<Rightarrow> bytes result) \<Rightarrow> env \<Rightarrow> TransitionTargetOperationRequest \<Rightarrow> Core \<Rightarrow>
      Core \<times> TargetOperationRecord result" where
  "TransitionTargetOperation marshal env request =
     validated [MutationMeta_Validate (env_deadline env) (env_clock env 0) (tto_Meta request), err_of (marshal request)]
       (runMutation env ''transition_target_operation'' (meta_IdempotencyKey (tto_Meta request))
          (val_or [] (marshal request))
          (mutateTargetWithLeaseMode_tx env
             (if TargetOperationState_Terminal (tto_State request) then targetLeaseCleanup else targetLeaseActiveOnly)
             (tto_TargetID request) (TransitionTargetOperation_mutate env request))
          (finish_operation (tto_OperationID request)))"

section \<open>Quarantine\<close>

record QuarantineTargetRequest =
  qua_Meta :: MutationMeta
  qua_TargetID :: string
  qua_ExpectedRevision :: uint64
  qua_Reason :: string
  qua_Evidence :: TargetQuarantineEvidence

definition quarantine_operation :: "uint64 \<Rightarrow> time \<Rightarrow> TargetOperationRecord \<Rightarrow> TargetOperationRecord" where
  "quarantine_operation current now q =
    (if ope_Generation q \<noteq> current \<or> TargetOperationState_Terminal (ope_State q) then q
     else operation_state TargetOperationCancelled now q)"

definition quarantine_run :: "uint64 \<Rightarrow> time \<Rightarrow> TargetRunRecord \<Rightarrow> TargetRunRecord" where
  "quarantine_run current now r =
    (if run_Generation r \<noteq> current \<or> TargetRunState_Terminal (run_State r) then r
     else run_state TargetRunQuarantined now r)"

definition QuarantineTarget_mutate ::
    "env \<Rightarrow> QuarantineTargetRequest \<Rightarrow> Core \<Rightarrow> TargetRecord \<Rightarrow> store \<Rightarrow> (TargetRecord \<times> store) result" where
  "QuarantineTarget_mutate env request c target s =
    (let current = tgt_CurrentGeneration target in
     guarded [fail_if (tgt_Revision target \<noteq> qua_ExpectedRevision request) ErrRevisionConflict]
       (bind_r (findTargetGeneration target current) (\<lambda>i.
        bind_r (requireStoredID ''target.id'' (tgt_ID target) ParseTargetID) (\<lambda>targetID.
        guarded
          [TargetQuarantineEvidence_Validate (qua_Evidence request) \<lparr>ref_ID = targetID, ref_Generation = current\<rparr>]
          (let g = tgt_Generations target ! i; now = env_clock env 2 in
           if tgn_State g = TargetGenerationQuarantined then Inr (target, s)
           else guarded
             (RequireTargetGenerationTransition (tgn_State g) TargetGenerationQuarantined #
              map (\<lambda>q. if ope_Generation q \<noteq> current \<or> TargetOperationState_Terminal (ope_State q) then None
                else RequireTargetOperationTransition (ope_State q) TargetOperationCancelled) (tgt_Operations target) @
              map (\<lambda>r. if run_Generation r \<noteq> current \<or> TargetRunState_Terminal (run_State r) then None
                else RequireTargetRunTransition (run_State r) TargetRunQuarantined) (tgt_Runs target))
             (record_target env 3 ''target.quarantined''
               (upd_generation i (generation_state TargetGenerationQuarantined now)
                 (target\<lparr>tgt_Operations := map (quarantine_operation current now) (tgt_Operations target),
                    tgt_Runs := map (quarantine_run current now) (tgt_Runs target)\<rparr>)) s))))))"

definition QuarantineTarget ::
    "(QuarantineTargetRequest \<Rightarrow> bytes result) \<Rightarrow> env \<Rightarrow> QuarantineTargetRequest \<Rightarrow> Core \<Rightarrow> Core \<times> TargetRecord result" where
  "QuarantineTarget marshal env request =
     validated
       [MutationMeta_Validate (env_deadline env) (env_clock env 0) (qua_Meta request),
        err_of (ParseTargetID (qua_TargetID request)),
        fail_if (qua_Reason request \<noteq> TrimSpace (qua_Reason request) \<or> qua_Reason request = [] \<or>
                 length (qua_Reason request) > 4096)
          (NewError CodeInvalidArgument ''target.quarantine'' ''reason''
             ''must be trimmed, non-empty, and at most 4096 bytes'' None),
        err_of (marshal request)]
       (runMutation env ''quarantine_target'' (meta_IdempotencyKey (qua_Meta request)) (val_or [] (marshal request))
          (mutateTargetJournalWithLeaseMode_tx env targetLeaseCleanup (qua_TargetID request)
             (QuarantineTarget_mutate env request)) finish_target)"

section \<open>Finalising a run\<close>

record FinalizeTargetRunRequest =
  ftr_Meta :: MutationMeta
  ftr_TargetID :: string
  ftr_RunID :: string
  ftr_ExpectedRevision :: uint64
  ftr_Failed :: bool
  ftr_BundleID :: string
  ftr_BundleArtifact :: string
  ftr_BundleDigest :: string
  ftr_IncidentIDs :: "string list"

definition run_incident_check :: "Core \<Rightarrow> TargetRecord \<Rightarrow> TargetRunRecord \<Rightarrow> string \<Rightarrow> err" where
  "run_incident_check c target r incidentID =
    (case tbl_get (core_incidents c) incidentID of
       None \<Rightarrow> Some ErrNotFound
     | Some incident \<Rightarrow> fail_if (inc_SessionID incident \<noteq> tgt_SessionID target \<or>
           inc_TargetID incident \<noteq> tgt_ID target \<or> inc_TargetRunID incident \<noteq> run_ID r \<or>
           inc_TargetGeneration incident \<noteq> run_Generation r) ErrScope)"

text \<open>The optional step through \<open>finalizing\<close>; returns the number of the next clock reading.\<close>

definition enter_finalizing ::
    "env \<Rightarrow> bool \<Rightarrow> nat \<Rightarrow> TargetRecord \<Rightarrow> store \<Rightarrow> (nat \<times> TargetRecord \<times> store) result" where
  "enter_finalizing env failed i target s =
    (let r = tgt_Runs target ! i in
     if \<not> failed \<and> run_State r \<noteq> TargetRunFinalizing then
       guarded [RequireTargetRunTransition (run_State r) TargetRunFinalizing]
         (bind_r (record_target env 3 ''target_run.finalizing''
             (upd_run i (run_state TargetRunFinalizing (env_clock env 2)) target) s)
           (\<lambda>(target', s'). Inr (4, target', s')))
     else Inr (2, target, s))"

definition release_generation :: "env \<Rightarrow> nat \<Rightarrow> uint64 \<Rightarrow> TargetRecord \<Rightarrow> nat \<times> TargetRecord" where
  "release_generation env n generation target =
    (case findTargetGeneration target generation of
       Inl _ \<Rightarrow> (n, target)
     | Inr gi \<Rightarrow>
         if tgn_State (tgt_Generations target ! gi) = TargetGenerationReady \<and>
            RequireTargetGenerationTransition (tgn_State (tgt_Generations target ! gi)) TargetGenerationResettable = None
         then (n + 1, upd_generation gi (generation_state TargetGenerationResettable (env_clock env n)) target)
         else (n, target))"

definition FinalizeTargetRun_mutate ::
    "env \<Rightarrow> FinalizeTargetRunRequest \<Rightarrow> Core \<Rightarrow> TargetRecord \<Rightarrow> store \<Rightarrow> (TargetRecord \<times> store) result" where
  "FinalizeTargetRun_mutate env request c target s =
     bind_r (findRun target (ftr_RunID request)) (\<lambda>i.
     guarded
       (fail_if (run_Revision (tgt_Runs target ! i) \<noteq> ftr_ExpectedRevision request) ErrRevisionConflict #
        map (run_incident_check c target (tgt_Runs target ! i)) (ftr_IncidentIDs request))
       (bind_r (enter_finalizing env (ftr_Failed request) i target s) (\<lambda>(n, target1, s1).
        let r = tgt_Runs target1 ! i;
            terminal = (if ftr_Failed request then TargetRunFailed else TargetRunCompleted) in
        guarded [RequireTargetRunTransition (run_State r) terminal]
          (bind_r (mergedNonBlank (run_IncidentIDs r) (ftr_IncidentIDs request)) (\<lambda>incidentIDs.
           let target2 = upd_run i (\<lambda>r. (run_state terminal (env_clock env n) r)
                 \<lparr>run_BundleID := ftr_BundleID request, run_BundleArtifact := ftr_BundleArtifact request,
                  run_BundleDigest := ftr_BundleDigest request, run_IncidentIDs := incidentIDs\<rparr>) target1;
               (m, target3) = release_generation env (n + 1) (run_Generation r) target2
           in record_target env m ''target_run.finalized'' target3 s1)))))"

definition FinalizeTargetRun ::
    "(FinalizeTargetRunRequest \<Rightarrow> bytes result) \<Rightarrow> env \<Rightarrow> FinalizeTargetRunRequest \<Rightarrow> Core \<Rightarrow>
      Core \<times> TargetRunRecord result" where
  "FinalizeTargetRun marshal env request0 =
    (let incidentIDs = normalizedNonBlank (ftr_IncidentIDs request0);
         request = request0\<lparr>ftr_IncidentIDs := val_or [] incidentIDs\<rparr> in
     validated
       ([MutationMeta_Validate (env_deadline env) (env_clock env 0) (ftr_Meta request),
         err_of (ParseObservationBundleID (ftr_BundleID request)),
         fail_if ((ftr_BundleArtifact request = []) \<noteq> (ftr_BundleDigest request = []))
           (invalidArgument ''target_run.finalize'' ''bundle'' ''artifact and digest must be provided together'' None),
         (if ftr_BundleDigest request \<noteq> [] then err_of (ParseDigest (ftr_BundleDigest request)) else None)] @
        map (\<lambda>i. err_of (ParseIncidentID i)) (ftr_IncidentIDs request0) @
        [err_of incidentIDs, err_of (marshal request)])
       (runMutation env ''finalize_target_run'' (meta_IdempotencyKey (ftr_Meta request)) (val_or [] (marshal request))
          (mutateTargetJournalWithLeaseMode_tx env targetLeaseCleanup (ftr_TargetID request)
             (FinalizeTargetRun_mutate env request)) (finish_run (ftr_RunID request))))"

section \<open>Resetting a target\<close>

record ResetTargetRequest =
  rst_Meta :: MutationMeta
  rst_TargetID :: string
  rst_ExpectedRevision :: uint64
  rst_Mode :: ResetMode
  rst_SnapshotName :: string
  rst_RecoveryIncidentID :: string

definition retire_for_reset :: "env \<Rightarrow> nat \<Rightarrow> TargetRecord \<Rightarrow> (nat \<times> TargetRecord) result" where
  "retire_for_reset env i target =
    (let old = tgt_Generations target ! i in
     if tgn_State old = TargetGenerationResettable then
       checked [RequireTargetGenerationTransition (tgn_State old) TargetGenerationDestroyed]
         (3, upd_generation i (generation_state TargetGenerationDestroyed (env_clock env 2)) target)
     else if tgn_State old \<noteq> TargetGenerationFailed \<and> tgn_State old \<noteq> TargetGenerationDestroyed then
       Inl (failedPrecondition ''target.reset'' ''target_generation''
         (''in '' @ TargetGenerationState_String (tgn_State old) @ '' cannot be reset'') None)
     else Inr (2, target))"

definition ResetTarget_mutate ::
    "env \<Rightarrow> ResetTargetRequest \<Rightarrow> Core \<Rightarrow> TargetRecord \<Rightarrow> (string \<times> nat \<times> TargetRecord) result" where
  "ResetTarget_mutate env request c target =
     guarded
       (fail_if (tgt_Revision target \<noteq> rst_ExpectedRevision request) ErrRevisionConflict #
        map (\<lambda>r. fail_if (run_Generation r = tgt_CurrentGeneration target \<and> \<not> TargetRunState_Terminal (run_State r))
          (failedPrecondition ''target.reset'' ''target_run'' (run_ID r @ '' must be finalized before reset'') None))
          (tgt_Runs target))
       (bind_r (findTargetGeneration target (tgt_CurrentGeneration target)) (\<lambda>i.
        bind_r (retire_for_reset env i target) (\<lambda>(n, target1).
        let old = tgt_Generations target1 ! i; newGeneration = tgn_Generation old + 1; now = env_clock env n in
        bind_r (ParseDigest (tgn_PolicyDigest old)) (\<lambda>policyDigest.
        bind_r (ParseDigest (tgn_CapabilityDigest old)) (\<lambda>capabilityDigest.
        bind_r (requireStoredID ''target.id'' (tgt_ID target1) ParseTargetID) (\<lambda>targetID.
        bind_r (NewTargetGeneration \<lparr>tgs_TargetID = targetID, tgs_Generation = newGeneration,
            tgs_PolicyDigest = policyDigest, tgs_CapabilityFingerprintDigest = capabilityDigest,
            tgs_PreviousGeneration = tgn_Generation old,
            tgs_RecoveryIncidentID = val_or zeroID (optionalID ParseIncidentID (rst_RecoveryIncidentID request)),
            tgs_CreatedAt = now\<rparr>) (\<lambda>model.
        Inr (''target.reset'', n + 1,
          target1\<lparr>tgt_CurrentGeneration := newGeneration,
            tgt_Generations := tgt_Generations target1 @
              [\<lparr>tgn_Generation = newGeneration, tgn_PolicyDigest = tgn_PolicyDigest old,
                tgn_CapabilityDigest = tgn_CapabilityDigest old, tgn_ProvisioningPlanDigest = [],
                tgn_ProvisioningKey = [], tgn_Previous = tgn_Generation old,
                tgn_RecoveryIncident = rst_RecoveryIncidentID request, tgn_State = tgm_state model,
                tgn_Revision = tgm_revision model, tgn_CreatedAt = now, tgn_UpdatedAt = now\<rparr>]\<rparr>))))))))"

definition ResetTarget ::
    "(ResetTargetRequest \<Rightarrow> bytes result) \<Rightarrow> env \<Rightarrow> ResetTargetRequest \<Rightarrow> Core \<Rightarrow> Core \<times> TargetRecord result" where
  "ResetTarget marshal env request =
     validated
       [MutationMeta_Validate (env_deadline env) (env_clock env 0) (rst_Meta request),
        ValidateResetSelection (rst_Mode request) (rst_SnapshotName request),
        err_of (optionalID ParseIncidentID (rst_RecoveryIncidentID request)),
        err_of (marshal request)]
       (runMutation env ''reset_target'' (meta_IdempotencyKey (rst_Meta request)) (val_or [] (marshal request))
          (mutateTargetWithLeaseMode_tx env targetLeaseActiveOnly (rst_TargetID request)
             (ResetTarget_mutate env request)) finish_target)"

section \<open>Binding provisioning plans\<close>

record BindTargetGenerationPlanRequest =
  btg_Meta :: MutationMeta
  btg_TargetID :: string
  btg_Generation :: uint64
  btg_ExpectedRevision :: uint64
  btg_ProvisioningPlanDigest :: string
  btg_ProvisioningKey :: string

definition BindTargetGenerationPlan_mutate ::
    "env \<Rightarrow> BindTargetGenerationPlanRequest \<Rightarrow> Core \<Rightarrow> TargetRecord \<Rightarrow> (string \<times> nat \<times> TargetRecord) result" where
  "BindTargetGenerationPlan_mutate env request c target =
    (let operation = ''target_generation.bind_plan'' in
     guarded
       [fail_if (tgt_CurrentGeneration target \<noteq> btg_Generation request)
          (failedPrecondition operation ''generation'' ''must be the current target generation'' None)]
       (bind_r (findTargetGeneration target (btg_Generation request)) (\<lambda>i.
        let g = tgt_Generations target ! i in
        checked
          [fail_if (tgn_Revision g \<noteq> btg_ExpectedRevision request) ErrRevisionConflict,
           fail_if (tgn_State g \<noteq> TargetGenerationProvisioning)
             (failedPrecondition operation ''state'' ''plan must be bound before physical provisioning advances'' None),
           fail_if (\<not> targetProvisioningBindingEmpty g) ErrIdempotencyConflict]
          (''target_generation.plan_bound'', 3,
           upd_generation i (\<lambda>g. g\<lparr>tgn_ProvisioningPlanDigest := btg_ProvisioningPlanDigest request,
             tgn_ProvisioningKey := btg_ProvisioningKey request, tgn_Revision := tgn_Revision g + 1,
             tgn_UpdatedAt := env_clock env 2\<rparr>) target))))"

definition plan_digest_check :: "string \<Rightarrow> string \<Rightarrow> err" where
  "plan_digest_check operation digest =
    (case ParseDigest digest of
       Inl e \<Rightarrow> Some (invalidArgument operation ''provisioning_plan_digest'' ''must be a valid digest'' (Some e))
     | Inr _ \<Rightarrow> None)"

definition plan_key_check :: "string \<Rightarrow> string \<Rightarrow> err" where
  "plan_key_check operation key =
     fail_if (\<not> IsCanonicalIdempotencyKey key)
       (invalidArgument operation ''provisioning_key''
          ''must be a bounded non-blank value without surrounding whitespace'' None)"

definition BindTargetGenerationPlan ::
    "(BindTargetGenerationPlanRequest \<Rightarrow> bytes result) \<Rightarrow> env \<Rightarrow> BindTargetGenerationPlanRequest \<Rightarrow> Core \<Rightarrow>
      Core \<times> TargetRecord result" where
  "BindTargetGenerationPlan marshal env request =
    (let operation = ''target_generation.bind_plan'' in
     validated
       [MutationMeta_Validate (env_deadline env) (env_clock env 0) (btg_Meta request),
        err_of (ParseTargetID (btg_TargetID request)),
        fail_if (\<not> TargetGeneration_IsValid (btg_Generation request) \<or> btg_ExpectedRevision request = 0)
          (invalidArgument operation ''generation'' ''valid generation and expected revision are required'' None),
        plan_digest_check operation (btg_ProvisioningPlanDigest request),
        plan_key_check operation (btg_ProvisioningKey request),
        err_of (marshal request)]
       (runMutation env ''bind_target_generation_plan'' (meta_IdempotencyKey (btg_Meta request))
          (val_or [] (marshal request))
          (mutateTargetWithLeaseMode_tx env targetLeaseActiveOnly (btg_TargetID request)
             (BindTargetGenerationPlan_mutate env request)) finish_target))"

record BindTargetRunPlanRequest =
  btr_Meta :: MutationMeta
  btr_TargetID :: string
  btr_RunID :: string
  btr_ExpectedRevision :: uint64
  btr_ProvisioningPlanDigest :: string
  btr_ProvisioningKey :: string

definition BindTargetRunPlan_mutate ::
    "env \<Rightarrow> BindTargetRunPlanRequest \<Rightarrow> Core \<Rightarrow> TargetRecord \<Rightarrow> (string \<times> nat \<times> TargetRecord) result" where
  "BindTargetRunPlan_mutate env request c target =
     bind_r (findRun target (btr_RunID request)) (\<lambda>i.
       let r = tgt_Runs target ! i in
       checked
         [fail_if (run_Revision r \<noteq> btr_ExpectedRevision request) ErrRevisionConflict,
          fail_if (run_State r \<noteq> TargetRunRequested)
            (failedPrecondition ''target_run.bind_plan'' ''state''
               ''plan must be bound before physical preparation advances'' None),
          fail_if (\<not> targetRunProvisioningBindingEmpty r) ErrIdempotencyConflict]
         (''target_run.plan_bound'', 3,
          upd_run i (\<lambda>r. r\<lparr>run_ProvisioningPlanDigest := btr_ProvisioningPlanDigest request,
            run_ProvisioningKey := btr_ProvisioningKey request, run_Revision := run_Revision r + 1,
            run_UpdatedAt := env_clock env 2\<rparr>) target))"

definition BindTargetRunPlan ::
    "(BindTargetRunPlanRequest \<Rightarrow> bytes result) \<Rightarrow> env \<Rightarrow> BindTargetRunPlanRequest \<Rightarrow> Core \<Rightarrow>
      Core \<times> TargetRunRecord result" where
  "BindTargetRunPlan marshal env request =
    (let operation = ''target_run.bind_plan'' in
     validated
       [MutationMeta_Validate (env_deadline env) (env_clock env 0) (btr_Meta request),
        err_of (ParseTargetID (btr_TargetID request)),
        err_of (ParseTargetRunID (btr_RunID request)),
        fail_if (btr_ExpectedRevision request = 0)
          (invalidArgument operation ''expected_revision'' ''must be positive'' None),
        plan_digest_check operation (btr_ProvisioningPlanDigest request),
        plan_key_check operation (btr_ProvisioningKey request),
        err_of (marshal request)]
       (runMutation env ''bind_target_run_plan'' (meta_IdempotencyKey (btr_Meta request)) (val_or [] (marshal request))
          (mutateTargetWithLeaseMode_tx env targetLeaseActiveOnly (btr_TargetID request)
             (BindTargetRunPlan_mutate env request)) (finish_run (btr_RunID request))))"

section \<open>The transactions only append\<close>

lemma record_target_journals:
  "extends (env_store env) s0 s \<Longrightarrow> journals (env_store env) s0 snd (record_target env i event target s)"
  by (auto simp: record_target_def journal_simps Let_def)

lemma mutateTargetJournal_journals:
  assumes "\<And>c target. journals (env_store env) s snd (mutate c target s)"
  shows "journals (env_store env) s fst (mutateTargetJournalWithLeaseMode_tx env mode targetID mutate c s)"
  using assms [THEN journals_def [THEN iffD1]]
  by (fastforce simp: mutateTargetJournalWithLeaseMode_tx_def journal_simps split: option.splits)

interpretation create_target: mutation env "CreateTarget_tx env request" for env request
  by unfold_locales (auto simp: CreateTarget_tx_def journal_simps Let_def split: option.splits)

interpretation start_run: mutation env "StartTargetRun_tx env request" for env request
  by unfold_locales (auto simp: StartTargetRun_tx_def journal_simps Let_def split: option.splits)

interpretation create_operation: mutation env "CreateTargetOperation_tx env request" for env request
  by unfold_locales
    (auto simp: CreateTargetOperation_tx_def journal_simps Let_def split: option.splits)

text \<open>The mutations that end in one record of the target, whatever they change in it.\<close>

interpretation target_mutation: mutation env "mutateTargetWithLeaseMode_tx env mode targetID mutate"
  for env mode targetID mutate
  unfolding mutateTargetWithLeaseMode_tx_def
  by unfold_locales
    (rule mutateTargetJournal_journals, auto simp: journal_simps intro: record_target_journals)

interpretation quarantine: mutation env
    "mutateTargetJournalWithLeaseMode_tx env mode targetID (QuarantineTarget_mutate env request)"
  for env mode targetID request
  by unfold_locales
    (rule mutateTargetJournal_journals,
     auto simp: QuarantineTarget_mutate_def journal_simps Let_def intro: record_target_journals)

lemma enter_finalizing_journals:
  "journals (env_store env) s (\<lambda>(_, _, u). u) (enter_finalizing env failed i target s)"
  using record_target_journals [of env s s, THEN journals_def [THEN iffD1]]
  by (fastforce simp: enter_finalizing_def journal_simps Let_def)

interpretation finalize_run: mutation env
    "mutateTargetJournalWithLeaseMode_tx env mode targetID (FinalizeTargetRun_mutate env request)"
  for env mode targetID request
proof (unfold_locales, rule mutateTargetJournal_journals)
  fix s c target
  show "journals (env_store env) s snd (FinalizeTargetRun_mutate env request c target s)"
    using enter_finalizing_journals [of env s, THEN journals_def [THEN iffD1]]
    by (fastforce simp: FinalizeTargetRun_mutate_def journal_simps Let_def intro: record_target_journals
        split: prod.splits)
qed

end
