(* ===== verification/App_Termination.thy ===== *)
theory App_Termination
  imports App_Sessions App_Targets
begin

text \<open>
  Termination of a lease in two phases (\<open>src/internal/application/lease_termination.go\<close>): a durable
  intent that closes admission, then - once every exec, run and operation of the lease is
  terminal - one transaction that retires the targets and the agent generation and ends the lease
  and its session.  Releases are requested by the caller, expiries by a trusted controller.
\<close>

section \<open>Requests\<close>

definition leaseExpiryReason :: string where
  "leaseExpiryReason = ''lease lifetime elapsed''"

record ReleaseResearchSessionRequest =
  rel_Meta :: MutationMeta
  rel_LeaseID :: string
  rel_ExpectedRevision :: uint64
  rel_Reason :: string

record ReleaseOutcome =
  out_SessionID :: string
  out_LeaseID :: string
  out_ReleasedAt :: time

record ReleasePreparation =
  prep_View :: ResearchSessionView
  prep_ReleasingLeaseRevision :: uint64

record BeginLeaseExpiryRequest =
  ble_LeaseID :: string
  ble_ExpectedRevision :: uint64

record CompleteLeaseTerminationRequest =
  clt_LeaseID :: string
  clt_ExpectedRevision :: uint64

record LeaseTerminationPreparation =
  ltp_View :: ResearchSessionView
  ltp_Kind :: LeaseTerminationKind
  ltp_TerminatingLeaseRevision :: uint64

record LeaseTerminationOutcome =
  lto_SessionID :: string
  lto_LeaseID :: string
  lto_Kind :: LeaseTerminationKind
  lto_LeaseState :: LeaseState
  lto_CompletedAt :: time

record LeaseTerminationWork =
  wrk_LeaseID :: string
  wrk_SessionID :: string
  wrk_Kind :: LeaseTerminationKind
  wrk_State :: LeaseTerminationState
  wrk_LeaseRevision :: uint64
  wrk_ExpiresAt :: time
  wrk_NeedsBegin :: bool

record stableMutationMeta =
  sta_IdempotencyKey :: string
  sta_CorrelationID :: string
  sta_CausationID :: string
  sta_AuthorizedPolicyReference :: string

record stableReleaseRequest =
  srr_Meta :: stableMutationMeta
  srr_LeaseID :: string
  srr_ExpectedRevision :: uint64
  srr_Reason :: string

definition stableRelease :: "ReleaseResearchSessionRequest \<Rightarrow> stableReleaseRequest" where
  "stableRelease request =
     \<lparr>srr_Meta = \<lparr>sta_IdempotencyKey = meta_IdempotencyKey (rel_Meta request),
        sta_CorrelationID = meta_CorrelationID (rel_Meta request),
        sta_CausationID = meta_CausationID (rel_Meta request),
        sta_AuthorizedPolicyReference = meta_AuthorizedPolicyReference (rel_Meta request)\<rparr>,
      srr_LeaseID = rel_LeaseID request, srr_ExpectedRevision = rel_ExpectedRevision request,
      srr_Reason = TrimSpace (rel_Reason request)\<rparr>"

definition canonicalRequest :: "('a \<Rightarrow> bytes result) \<Rightarrow> (bytes \<Rightarrow> bytes) \<Rightarrow> 'a \<Rightarrow> (bytes \<times> string) result" where
  "canonicalRequest marshal sha value =
     bind_r (marshal value) (\<lambda>payload. Inr (payload, ''sha256:'' @ hex_encode (sha payload)))"

definition ReleaseResearchSessionRequest_validate ::
    "time option \<Rightarrow> time \<Rightarrow> ReleaseResearchSessionRequest \<Rightarrow> err" where
  "ReleaseResearchSessionRequest_validate deadline now r =
     first_err
       [MutationMeta_Validate deadline now (rel_Meta r),
        err_of (ParseLeaseID (rel_LeaseID r)),
        fail_if (blank (rel_Reason r)) (invalidArgument ''research_session.release'' ''reason'' ''is required'' None),
        fail_if (rel_ExpectedRevision r = 0)
          (invalidArgument ''research_session.release'' ''expected_revision'' ''must be positive'' None)]"

definition validateTrustedTerminationRequest :: "string \<Rightarrow> string \<Rightarrow> uint64 \<Rightarrow> err" where
  "validateTrustedTerminationRequest operation leaseID expectedRevision =
     first_err
       [err_of (ParseLeaseID leaseID),
        fail_if (expectedRevision = 0) (invalidArgument operation ''expected_revision'' ''must be positive'' None)]"

section \<open>Beginning a termination\<close>

record beginLeaseTerminationParams =
  par_Operation :: string
  par_Kind :: LeaseTerminationKind
  par_Reason :: string
  par_ExpectedRevision :: uint64
  par_IdempotencyKey :: string
  par_RequestDigest :: string

text \<open>\<open>n\<close> is the number of the next clock reading; only a release reads the clock a second time.\<close>

definition beginLeaseTermination ::
    "env \<Rightarrow> nat \<Rightarrow> LeaseRecord \<Rightarrow> beginLeaseTerminationParams \<Rightarrow> Core \<Rightarrow> (payload, response) handler" where
  "beginLeaseTermination env n lease params c s =
    (let release = (par_Kind params = LeaseTerminationRelease) in
     guarded
       [fail_if (\<not> LeaseTermination_Empty (lea_Termination lease)) ErrIdempotencyConflict,
        fail_if (lea_Revision lease \<noteq> par_ExpectedRevision params) ErrRevisionConflict,
        fail_if (lea_State lease \<noteq> LeaseActive)
          (failedPrecondition (par_Operation params) ''lease'' ''is not active'' None),
        (if release then requireLeaseActive lease (env_clock env n) else None)]
       (case tbl_get (core_sessions c) (lea_SessionID lease) of
          None \<Rightarrow> Inl ErrNotFound
        | Some session \<Rightarrow>
            (let now = env_clock env (if release then n + 1 else n);
                 revision = lea_Revision lease + 1;
                 lease' = lease\<lparr>lea_State := (if release then LeaseReleasing else lea_State lease),
                   lea_Revision := revision, lea_UpdatedAt := now,
                   lea_Termination := \<lparr>ter_Kind = par_Kind params,
                     ter_State = (if release then LeaseTerminationReleasing else LeaseTerminationExpiring),
                     ter_Reason = par_Reason params, ter_BeginIdempotencyKey = par_IdempotencyKey params,
                     ter_BeginRequestDigest = par_RequestDigest params, ter_InitiatedLeaseRevision = revision,
                     ter_InitiatedAt = now, ter_CompleteIdempotencyKey = [], ter_CompleteRequestDigest = [],
                     ter_CompletedAt = zero_time\<rparr>\<rparr>;
                 session' = session\<lparr>ses_State := ResearchSessionReleasing,
                   ses_Revision := ses_Revision session + 1, ses_UpdatedAt := now\<rparr>
             in guarded [if release then RequireLeaseTransition (lea_State lease) LeaseReleasing else None]
               (bind_r (appendControl (env_store env) ''lease'' (lea_ID lease)
                   (if release then ''lease.releasing'' else ''lease.expiring'') revision (PLease lease') s) (\<lambda>s.
                guarded [RequireResearchSessionTransition (ses_State session) ResearchSessionReleasing]
                  (bind_r (appendControl (env_store env) ''session'' (ses_ID session) ''session.releasing''
                      (ses_Revision session') (PSession session') s) (\<lambda>s.
                   Inr (s, Some (RPreparation (ses_ID session) revision)))))))))"

definition BeginRelease_tx ::
    "env \<Rightarrow> ReleaseResearchSessionRequest \<Rightarrow> string \<Rightarrow> Core \<Rightarrow> (payload, response) handler" where
  "BeginRelease_tx env request requestDigest c s =
    (case tbl_get (core_leases c) (rel_LeaseID request) of
       None \<Rightarrow> Inl ErrNotFound
     | Some lease \<Rightarrow> beginLeaseTermination env 1 lease
         \<lparr>par_Operation = ''research_session.begin_release'', par_Kind = LeaseTerminationRelease,
          par_Reason = srr_Reason (stableRelease request), par_ExpectedRevision = rel_ExpectedRevision request,
          par_IdempotencyKey = meta_IdempotencyKey (rel_Meta request), par_RequestDigest = requestDigest\<rparr> c s)"

definition BeginRelease_finish :: "Core \<Rightarrow> response \<Rightarrow> ReleasePreparation result" where
  "BeginRelease_finish c response =
    (case response of
       RPreparation sessionID revision \<Rightarrow>
         bind_r (sessionViewLocked c sessionID)
           (\<lambda>view. Inr \<lparr>prep_View = view, prep_ReleasingLeaseRevision = revision\<rparr>)
     | _ \<Rightarrow> Inl unmarshal_error)"

definition BeginReleaseResearchSession ::
    "(stableReleaseRequest \<Rightarrow> bytes result) \<Rightarrow> env \<Rightarrow> ReleaseResearchSessionRequest \<Rightarrow> Core \<Rightarrow>
      Core \<times> ReleasePreparation result" where
  "BeginReleaseResearchSession marshal env request =
    (let canonical = canonicalRequest marshal (se_sha (env_store env)) (stableRelease request);
         (requestBytes, requestDigest) = val_or ([], []) canonical in
     validated
       [ReleaseResearchSessionRequest_validate (env_deadline env) (env_clock env 0) request, err_of canonical]
       (runMutation env ''begin_release_research_session'' (meta_IdempotencyKey (rel_Meta request)) requestBytes
          (BeginRelease_tx env request requestDigest) BeginRelease_finish))"

definition BeginDueLeaseExpiry_tx ::
    "env \<Rightarrow> BeginLeaseExpiryRequest \<Rightarrow> string \<Rightarrow> string \<Rightarrow> Core \<Rightarrow> (payload, response) handler" where
  "BeginDueLeaseExpiry_tx env request idempotencyKey requestDigest c s =
    (case tbl_get (core_leases c) (ble_LeaseID request) of
       None \<Rightarrow> Inl ErrNotFound
     | Some lease \<Rightarrow> guarded
         [fail_if (env_clock env 0 < lea_ExpiresAt lease)
            (failedPrecondition ''lease.begin_expiry'' ''expires_at'' ''lease is not due'' None)]
         (beginLeaseTermination env 1 lease
           \<lparr>par_Operation = ''lease.begin_expiry'', par_Kind = LeaseTerminationExpiry,
            par_Reason = leaseExpiryReason, par_ExpectedRevision = ble_ExpectedRevision request,
            par_IdempotencyKey = idempotencyKey, par_RequestDigest = requestDigest\<rparr> c s))"

definition decodeTerminationPreparation :: "Core \<Rightarrow> response \<Rightarrow> LeaseTerminationPreparation result" where
  "decodeTerminationPreparation c response =
    (case response of
       RPreparation sessionID revision \<Rightarrow>
         bind_r (sessionViewLocked c sessionID) (\<lambda>view. Inr
           \<lparr>ltp_View = view, ltp_Kind = ter_Kind (lea_Termination (view_Lease view)),
            ltp_TerminatingLeaseRevision = revision\<rparr>)
     | _ \<Rightarrow> Inl unmarshal_error)"

definition BeginDueLeaseExpiry ::
    "(BeginLeaseExpiryRequest \<Rightarrow> bytes result) \<Rightarrow> env \<Rightarrow> BeginLeaseExpiryRequest \<Rightarrow> Core \<Rightarrow>
      Core \<times> LeaseTerminationPreparation result" where
  "BeginDueLeaseExpiry marshal env request =
    (let canonical = canonicalRequest marshal (se_sha (env_store env)) request;
         (requestBytes, requestDigest) = val_or ([], []) canonical;
         idempotencyKey = DeriveIdempotencyKey (se_sha (env_store env)) ''expiry'' (ble_LeaseID request) in
     validated
       [validateTrustedTerminationRequest ''lease.begin_expiry'' (ble_LeaseID request) (ble_ExpectedRevision request),
        err_of canonical]
       (runMutation env ''begin_due_lease_expiry'' idempotencyKey requestBytes
          (BeginDueLeaseExpiry_tx env request idempotencyKey requestDigest) decodeTerminationPreparation))"

section \<open>Finding and resuming work\<close>

definition termination_work :: "time \<Rightarrow> LeaseRecord \<Rightarrow> LeaseTerminationWork list" where
  "termination_work now lease =
    (let item = \<lparr>wrk_LeaseID = lea_ID lease, wrk_SessionID = lea_SessionID lease,
           wrk_Kind = LeaseTerminationKindOther [], wrk_State = LeaseTerminationStateOther [],
           wrk_LeaseRevision = lea_Revision lease, wrk_ExpiresAt = lea_ExpiresAt lease, wrk_NeedsBegin = False\<rparr> in
     if LeaseTermination_InProgress (lea_Termination lease) then
       [item\<lparr>wrk_Kind := ter_Kind (lea_Termination lease), wrk_State := ter_State (lea_Termination lease)\<rparr>]
     else if LeaseTermination_Empty (lea_Termination lease) \<and> lea_State lease = LeaseActive \<and>
             \<not> lea_ExpiresAt lease > now then
       [item\<lparr>wrk_Kind := LeaseTerminationExpiry, wrk_NeedsBegin := True\<rparr>]
     else [])"

text \<open>Ordered by expiry, and by lease identity among equal expiries.\<close>

definition ListLeaseTerminationWork :: "env \<Rightarrow> Core \<Rightarrow> Core \<times> LeaseTerminationWork list result" where
  "ListLeaseTerminationWork env = query (env_store env) (\<lambda>c.
     Inr (sort_key wrk_ExpiresAt (sort_key wrk_LeaseID
       (concat (map (\<lambda>(_, lease). termination_work (env_clock env 0) lease) (core_leases c))))))"

definition ResumeLeaseTermination :: "env \<Rightarrow> string \<Rightarrow> Core \<Rightarrow> Core \<times> LeaseTerminationPreparation result" where
  "ResumeLeaseTermination env leaseID =
     validated [err_of (ParseLeaseID leaseID)] (query (env_store env) (\<lambda>c.
       case tbl_get (core_leases c) leaseID of
         None \<Rightarrow> Inl ErrNotFound
       | Some lease \<Rightarrow> guarded
           [fail_if (\<not> LeaseTermination_InProgress (lea_Termination lease))
              (failedPrecondition ''lease.resume_termination'' ''termination'' ''is not in progress'' None)]
           (bind_r (sessionViewLocked c (lea_SessionID lease)) (\<lambda>view. Inr
             \<lparr>ltp_View = view, ltp_Kind = ter_Kind (lea_Termination lease),
              ltp_TerminatingLeaseRevision = lea_Revision lease\<rparr>))))"

section \<open>Completing a termination\<close>

definition exec_or_zero :: "Core \<Rightarrow> string \<Rightarrow> ExecRecord" where
  "exec_or_zero c i = (case tbl_get (core_execs c) i of None \<Rightarrow> zero_ExecRecord | Some v \<Rightarrow> v)"

definition requireLeaseWorkFinalized :: "Core \<Rightarrow> string \<Rightarrow> string \<Rightarrow> err" where
  "requireLeaseWorkFinalized c operation leaseID =
     first_err
       (map (\<lambda>execID. fail_if (\<not> ExecState_Terminal (exe_State (exec_or_zero c execID)))
           (failedPrecondition operation ''exec'' (execID @ '' must be finalized before termination'') None))
         (execIDsForLease c leaseID) @
        map (\<lambda>targetID. first_err
           (map (\<lambda>r. fail_if (\<not> TargetRunState_Terminal (run_State r))
              (failedPrecondition operation ''target_run'' (run_ID r @ '' must be finalized before termination'') None))
              (tgt_Runs (target_or_zero c targetID)) @
            map (\<lambda>q. fail_if (\<not> TargetOperationState_Terminal (ope_State q))
              (failedPrecondition operation ''target_operation''
                 (ope_ID q @ '' must be finalized before termination'') None))
              (tgt_Operations (target_or_zero c targetID))))
         (targetIDsForLease c leaseID))"

fun retire_targets :: "payload store_env \<Rightarrow> Core \<Rightarrow> time \<Rightarrow> string list \<Rightarrow> store \<Rightarrow> store result" where
  "retire_targets env c now [] s = Inr s"
| "retire_targets env c now (targetID # rest) s =
    (case tbl_get (core_targets c) targetID of
       None \<Rightarrow> Inl ErrNotFound
     | Some target \<Rightarrow>
         bind_r (findTargetGeneration target (tgt_CurrentGeneration target)) (\<lambda>i.
         bind_r (targetGenerationRetirementPath (tgn_State (tgt_Generations target ! i))) (\<lambda>states.
         bind_r (appendTargetGenerationTransitions env i states ''target.termination_transition'' now target s)
           (\<lambda>(_, s'). retire_targets env c now rest s'))))"

record completionIdentity =
  cid_Operation :: string
  cid_ExpectedRevision :: uint64
  cid_IdempotencyKey :: string
  cid_RequestDigest :: string

text \<open>\<open>n\<close> is the number of the clock reading that stamps the whole completion.\<close>

definition completeLeaseTermination ::
    "env \<Rightarrow> nat \<Rightarrow> LeaseRecord \<Rightarrow> completionIdentity \<Rightarrow> Core \<Rightarrow> store \<Rightarrow> (store \<times> LeaseTerminationOutcome) result" where
  "completeLeaseTermination env n lease identity c s =
    (let t = lea_Termination lease; now = env_clock env n; se = env_store env in
     guarded
       [(if \<not> LeaseTermination_InProgress t then
           Some (if LeaseTermination_Terminal t then ErrIdempotencyConflict
             else failedPrecondition (cid_Operation identity) ''termination'' ''has not begun'' None)
         else None),
        fail_if (ter_CompleteIdempotencyKey t \<noteq> [] \<or> ter_CompleteRequestDigest t \<noteq> []) ErrIdempotencyConflict,
        fail_if (lea_Revision lease \<noteq> cid_ExpectedRevision identity) ErrRevisionConflict,
        requireLeaseWorkFinalized c (cid_Operation identity) (lea_ID lease)]
       (case (tbl_get (core_sessions c) (lea_SessionID lease), tbl_get (core_agents c) (lea_AgentWorkspaceID lease)) of
          (Some session, Some agent) \<Rightarrow>
            bind_r (retire_targets se c now (targetIDsForLease c (lea_ID lease)) s) (\<lambda>s.
            bind_r (findAgentGeneration agent (agt_CurrentGeneration agent)) (\<lambda>i.
            bind_r (agentGenerationRetirementPath (agn_State (agt_Generations agent ! i))) (\<lambda>states.
            bind_r (appendAgentGenerationTransitions se i states ''agent_generation.termination_transition'' now
                agent s) (\<lambda>(_, s).
            let expiry = (ter_Kind t = LeaseTerminationExpiry);
                nextLeaseState = (if expiry then LeaseExpired else LeaseReleased);
                lease' = lease\<lparr>lea_State := nextLeaseState, lea_Revision := lea_Revision lease + 1,
                  lea_UpdatedAt := now, lea_Termination := t\<lparr>
                    ter_State := (if expiry then LeaseTerminationExpired else LeaseTerminationReleased),
                    ter_CompleteIdempotencyKey := cid_IdempotencyKey identity,
                    ter_CompleteRequestDigest := cid_RequestDigest identity, ter_CompletedAt := now\<rparr>\<rparr>;
                session' = session\<lparr>ses_State := ResearchSessionReleased,
                  ses_Revision := ses_Revision session + 1, ses_UpdatedAt := now\<rparr> in
            guarded [RequireLeaseTransition (lea_State lease) nextLeaseState]
              (bind_r (appendControl se ''lease'' (lea_ID lease) (''lease.'' @ LeaseState_String nextLeaseState)
                  (lea_Revision lease') (PLease lease') s) (\<lambda>s.
               guarded [RequireResearchSessionTransition (ses_State session) ResearchSessionReleased]
                 (bind_r (appendControl se ''session'' (ses_ID session) ''session.released''
                     (ses_Revision session') (PSession session') s) (\<lambda>s.
                  Inr (s, \<lparr>lto_SessionID = ses_ID session, lto_LeaseID = lea_ID lease, lto_Kind = ter_Kind t,
                    lto_LeaseState = nextLeaseState, lto_CompletedAt = now\<rparr>)))))))))
        | _ \<Rightarrow> Inl ErrNotFound))"

definition CompleteRelease_tx ::
    "env \<Rightarrow> ReleaseResearchSessionRequest \<Rightarrow> string \<Rightarrow> Core \<Rightarrow> (payload, response) handler" where
  "CompleteRelease_tx env request requestDigest c s =
    (case tbl_get (core_leases c) (rel_LeaseID request) of
       None \<Rightarrow> Inl ErrNotFound
     | Some lease \<Rightarrow> guarded
         [fail_if (ter_Kind (lea_Termination lease) \<noteq> LeaseTerminationRelease \<or>
                   ter_Reason (lea_Termination lease) \<noteq> srr_Reason (stableRelease request)) ErrIdempotencyConflict]
         (bind_r (completeLeaseTermination env 1 lease
             \<lparr>cid_Operation = ''research_session.complete_release'',
              cid_ExpectedRevision = rel_ExpectedRevision request,
              cid_IdempotencyKey = meta_IdempotencyKey (rel_Meta request), cid_RequestDigest = requestDigest\<rparr> c s)
           (\<lambda>(s, outcome). Inr (s, Some (RReleaseOutcome (lto_SessionID outcome) (lto_LeaseID outcome)
              (lto_CompletedAt outcome))))))"

definition CompleteRelease_finish :: "Core \<Rightarrow> response \<Rightarrow> ReleaseOutcome result" where
  "CompleteRelease_finish c response =
    (case response of
       RReleaseOutcome sessionID leaseID releasedAt \<Rightarrow>
         Inr \<lparr>out_SessionID = sessionID, out_LeaseID = leaseID, out_ReleasedAt = releasedAt\<rparr>
     | _ \<Rightarrow> Inl unmarshal_error)"

definition CompleteReleaseResearchSession ::
    "(stableReleaseRequest \<Rightarrow> bytes result) \<Rightarrow> env \<Rightarrow> ReleaseResearchSessionRequest \<Rightarrow> Core \<Rightarrow>
      Core \<times> ReleaseOutcome result" where
  "CompleteReleaseResearchSession marshal env request =
    (let canonical = canonicalRequest marshal (se_sha (env_store env)) (stableRelease request);
         (requestBytes, requestDigest) = val_or ([], []) canonical in
     validated
       [ReleaseResearchSessionRequest_validate (env_deadline env) (env_clock env 0) request, err_of canonical]
       (runMutation env ''complete_release_research_session'' (meta_IdempotencyKey (rel_Meta request)) requestBytes
          (CompleteRelease_tx env request requestDigest) CompleteRelease_finish))"

definition CompleteLeaseTermination_tx ::
    "env \<Rightarrow> CompleteLeaseTerminationRequest \<Rightarrow> string \<Rightarrow> string \<Rightarrow> Core \<Rightarrow> (payload, response) handler" where
  "CompleteLeaseTermination_tx env request idempotencyKey requestDigest c s =
    (case tbl_get (core_leases c) (clt_LeaseID request) of
       None \<Rightarrow> Inl ErrNotFound
     | Some lease \<Rightarrow>
         bind_r (completeLeaseTermination env 0 lease
             \<lparr>cid_Operation = ''lease.complete_termination'',
              cid_ExpectedRevision = clt_ExpectedRevision request,
              cid_IdempotencyKey = idempotencyKey, cid_RequestDigest = requestDigest\<rparr> c s)
           (\<lambda>(s, outcome). Inr (s, Some (RTerminationOutcome (lto_SessionID outcome) (lto_LeaseID outcome)
              (lto_Kind outcome) (lto_LeaseState outcome) (lto_CompletedAt outcome)))))"

definition CompleteLeaseTermination_finish :: "Core \<Rightarrow> response \<Rightarrow> LeaseTerminationOutcome result" where
  "CompleteLeaseTermination_finish c response =
    (case response of
       RTerminationOutcome sessionID leaseID kind state completedAt \<Rightarrow>
         Inr \<lparr>lto_SessionID = sessionID, lto_LeaseID = leaseID, lto_Kind = kind, lto_LeaseState = state,
              lto_CompletedAt = completedAt\<rparr>
     | _ \<Rightarrow> Inl unmarshal_error)"

definition CompleteLeaseTermination ::
    "(CompleteLeaseTerminationRequest \<Rightarrow> bytes result) \<Rightarrow> env \<Rightarrow> CompleteLeaseTerminationRequest \<Rightarrow> Core \<Rightarrow>
      Core \<times> LeaseTerminationOutcome result" where
  "CompleteLeaseTermination marshal env request =
    (let canonical = canonicalRequest marshal (se_sha (env_store env)) request;
         (requestBytes, requestDigest) = val_or ([], []) canonical;
         idempotencyKey = DeriveIdempotencyKey (se_sha (env_store env)) ''termination'' (clt_LeaseID request) in
     validated
       [validateTrustedTerminationRequest ''lease.complete_termination'' (clt_LeaseID request)
          (clt_ExpectedRevision request),
        err_of canonical]
       (runMutation env ''complete_lease_termination'' idempotencyKey requestBytes
          (CompleteLeaseTermination_tx env request idempotencyKey requestDigest) CompleteLeaseTermination_finish))"

text \<open>
  The logical-only convenience operation.  Each of its three phases has its own surroundings
  (the lock is released in between).
\<close>

definition ReleaseResearchSession ::
    "(stableReleaseRequest \<Rightarrow> bytes result) \<Rightarrow> env \<Rightarrow> env \<Rightarrow> env \<Rightarrow> ReleaseResearchSessionRequest \<Rightarrow> Core \<Rightarrow>
      Core \<times> ReleaseOutcome result" where
  "ReleaseResearchSession marshal env0 env1 env2 request c =
    (case query (env_store env0) (\<lambda>c. checked
        [requireLeaseWorkFinalized c ''research_session.release'' (rel_LeaseID request)] ()) c of
       (c0, Inl e) \<Rightarrow> (c0, Inl e)
     | (c0, Inr _) \<Rightarrow>
       (case BeginReleaseResearchSession marshal env1 request c0 of
          (c1, Inl e) \<Rightarrow> (c1, Inl e)
        | (c1, Inr preparation) \<Rightarrow>
            (let view = prep_View preparation in
             if lea_State (view_Lease view) = LeaseReleased then
               (c1, Inr \<lparr>out_SessionID = ses_ID (view_Session view), out_LeaseID = lea_ID (view_Lease view),
                         out_ReleasedAt = lea_UpdatedAt (view_Lease view)\<rparr>)
             else CompleteReleaseResearchSession marshal env2
               (request\<lparr>rel_ExpectedRevision := prep_ReleasingLeaseRevision preparation\<rparr>) c1)))"

section \<open>The transactions only append\<close>

lemma beginLeaseTermination_journals:
  "journals (env_store env) s fst (beginLeaseTermination env n lease params c s)"
  by (auto simp: beginLeaseTermination_def journal_simps Let_def split: option.splits)

interpretation begin_release: mutation env "BeginRelease_tx env request digest" for env request digest
  by unfold_locales
    (auto simp: BeginRelease_tx_def journal_simps intro: beginLeaseTermination_journals split: option.splits)

interpretation begin_expiry: mutation env "BeginDueLeaseExpiry_tx env request key digest" for env request key digest
  by unfold_locales
    (auto simp: BeginDueLeaseExpiry_tx_def journal_simps intro: beginLeaseTermination_journals split: option.splits)

lemma extends_retire_targets [journal_simps]:
  "retire_targets env c now ids t = Inr u \<Longrightarrow> extends env s t \<Longrightarrow> extends env s u"
  by (induction ids arbitrary: t) (auto simp: bind_r_Inr journal_simps split: option.splits)

lemma extends_completeLeaseTermination [journal_simps]:
  "completeLeaseTermination env n lease identity c s = Inr (u, outcome) \<Longrightarrow> extends (env_store env) s u"
  by (auto simp: completeLeaseTermination_def bind_r_Inr Let_def journal_simps split: option.splits prod.splits)

interpretation complete_release: mutation env "CompleteRelease_tx env request digest" for env request digest
  by unfold_locales (auto simp: CompleteRelease_tx_def journal_simps split: option.splits)

interpretation complete_termination: mutation env "CompleteLeaseTermination_tx env request key digest"
  for env request key digest
  by unfold_locales (auto simp: CompleteLeaseTermination_tx_def journal_simps split: option.splits)

end
