(* ===== verification/App_Incidents.thy ===== *)
theory App_Incidents
  imports App_Targets
begin

text \<open>
  Incidents: opening with links to the affected exec or run, transitions, sealing with the
  observation bundle of a finished run, and recovery, which replaces the generation of exactly one
  resource (\<open>src/internal/application/incidents.go\<close>, \<open>incident_evidence_sealing.go\<close>).
\<close>

section \<open>Opening an incident\<close>

record CreateIncidentRequest =
  cin_Meta :: MutationMeta
  cin_Classification :: IncidentClassification
  cin_SessionID :: string
  cin_LeaseID :: string
  cin_AgentWorkspaceID :: string
  cin_AgentGeneration :: uint64
  cin_ExecID :: string
  cin_TargetID :: string
  cin_TargetGeneration :: uint64
  cin_TargetRunID :: string
  cin_Trigger :: string
  cin_LastKnownState :: string
  cin_Cause :: CauseRecord
  cin_HighWaterMetrics :: "IncidentMetricRecord list"
  cin_FirstRelevantCursor :: uint64
  cin_LastRelevantCursor :: uint64
  cin_Coverage :: "IncidentCoverageRecord list"
  cin_ObservationBundleID :: string
  cin_Artifacts :: "IncidentArtifactRecord list"

definition cause_model :: "CauseRecord \<Rightarrow> CauseAssessment result" where
  "cause_model r = NewCauseAssessment \<lparr>cau_Kind = crc_Kind r, cau_Summary = crc_Summary r,
     cau_Method = crc_Method r, cau_Confidence = crc_Confidence r\<rparr>"

text \<open>The scope checks of the transaction: every named resource exists in the session.\<close>

definition incident_target_scope :: "CreateIncidentRequest \<Rightarrow> TargetRecord \<Rightarrow> err" where
  "incident_target_scope request target =
     first_err
       [fail_if (tgt_SessionID target \<noteq> cin_SessionID request) ErrScope,
        (if cin_TargetGeneration request > 0
         then (case findTargetGeneration target (cin_TargetGeneration request) of Inl _ \<Rightarrow> Some ErrScope | Inr _ \<Rightarrow> None)
         else None),
        (if cin_TargetRunID request \<noteq> [] then
           (case findRun target (cin_TargetRunID request) of
              Inl _ \<Rightarrow> Some ErrScope
            | Inr i \<Rightarrow>
                let r = tgt_Runs target ! i in first_err
                  [fail_if (run_Generation r \<noteq> cin_TargetGeneration request) ErrScope,
                   fail_if (cin_AgentWorkspaceID request \<noteq> [] \<and>
                      (run_AgentWorkspaceID r \<noteq> cin_AgentWorkspaceID request \<or>
                       run_AgentGeneration r \<noteq> cin_AgentGeneration request)) ErrScope])
         else None)]"

definition incident_scope :: "CreateIncidentRequest \<Rightarrow> Core \<Rightarrow> err" where
  "incident_scope request c =
     first_err
       [fail_if (tbl_get (core_sessions c) (cin_SessionID request) = None) ErrNotFound,
        (if cin_LeaseID request \<noteq> [] then
           (case tbl_get (core_leases c) (cin_LeaseID request) of
              None \<Rightarrow> Some ErrScope
            | Some lease \<Rightarrow> fail_if (lea_SessionID lease \<noteq> cin_SessionID request) ErrScope)
         else None),
        (if cin_AgentWorkspaceID request \<noteq> [] then
           (case tbl_get (core_agents c) (cin_AgentWorkspaceID request) of
              None \<Rightarrow> Some ErrScope
            | Some agent \<Rightarrow> first_err
                [fail_if (agt_SessionID agent \<noteq> cin_SessionID request) ErrScope,
                 (if cin_AgentGeneration request > 0
                  then (case findAgentGeneration agent (cin_AgentGeneration request) of
                      Inl _ \<Rightarrow> Some ErrScope | Inr _ \<Rightarrow> None)
                  else None)])
         else None),
        (if cin_ExecID request \<noteq> [] then
           (case tbl_get (core_execs c) (cin_ExecID request) of
              None \<Rightarrow> Some ErrScope
            | Some execution \<Rightarrow> fail_if (exe_SessionID execution \<noteq> cin_SessionID request \<or>
                  exe_LeaseID execution \<noteq> cin_LeaseID request \<or>
                  exe_AgentWorkspaceID execution \<noteq> cin_AgentWorkspaceID request \<or>
                  exe_AgentGeneration execution \<noteq> cin_AgentGeneration request) ErrScope)
         else None),
        (if cin_TargetID request \<noteq> [] then
           (case tbl_get (core_targets c) (cin_TargetID request) of
              None \<Rightarrow> Some ErrScope
            | Some target \<Rightarrow> incident_target_scope request target)
         else None)]"

definition link_run :: "env \<Rightarrow> CreateIncidentRequest \<Rightarrow> string \<Rightarrow> time \<Rightarrow> Core \<Rightarrow> store \<Rightarrow> store result" where
  "link_run env request incidentID now c s =
    (case tbl_get (core_targets c) (cin_TargetID request) of
       None \<Rightarrow> Inr s
     | Some target \<Rightarrow>
         if cin_TargetID request = [] \<or> cin_TargetRunID request = [] then Inr s
         else bind_r (findRun target (cin_TargetRunID request)) (\<lambda>i.
           bind_r (mergedNonBlank (run_IncidentIDs (tgt_Runs target ! i)) [incidentID]) (\<lambda>incidentIDs.
           let target' = (upd_run i (\<lambda>r. r\<lparr>run_IncidentIDs := incidentIDs\<rparr>) target)
                 \<lparr>tgt_Revision := tgt_Revision target + 1, tgt_UpdatedAt := now\<rparr> in
           appendControl (env_store env) ''target'' (tgt_ID target) ''target_run.incident_linked''
             (tgt_Revision target') (PTarget target') s)))"

definition link_exec :: "env \<Rightarrow> CreateIncidentRequest \<Rightarrow> string \<Rightarrow> time \<Rightarrow> Core \<Rightarrow> store \<Rightarrow> store result" where
  "link_exec env request incidentID now c s =
    (case tbl_get (core_execs c) (cin_ExecID request) of
       None \<Rightarrow> Inr s
     | Some execution \<Rightarrow>
         if cin_ExecID request = [] then Inr s
         else bind_r (mergedNonBlank (exe_IncidentIDs execution) [incidentID]) (\<lambda>incidentIDs.
           let execution' = execution\<lparr>exe_IncidentIDs := incidentIDs, exe_Revision := exe_Revision execution + 1,
                 exe_UpdatedAt := now\<rparr> in
           appendControl (env_store env) ''exec'' (exe_ID execution) ''exec.incident_linked''
             (exe_Revision execution') (PExec execution') s))"

definition CreateIncident_tx :: "env \<Rightarrow> CreateIncidentRequest \<Rightarrow> Core \<Rightarrow> (payload, response) handler" where
  "CreateIncident_tx env request c s =
     guarded [incident_scope request c]
       (let now = env_clock env 1 in
        bind_r (case_prod GenerateIncidentID (env_ids env 0)) (\<lambda>incidentID.
        bind_r (NewIncident
          \<lparr>ins_ID = incidentID, ins_Classification = cin_Classification request,
           ins_ResearchSessionID = val_or zeroID (ParseResearchSessionID (cin_SessionID request)),
           ins_LeaseID = val_or zeroID (optionalID ParseLeaseID (cin_LeaseID request)),
           ins_AgentWorkspaceID = val_or zeroID (optionalID ParseAgentWorkspaceID (cin_AgentWorkspaceID request)),
           ins_AgentGeneration = cin_AgentGeneration request,
           ins_ExecID = val_or zeroID (optionalID ParseExecID (cin_ExecID request)),
           ins_TargetID = val_or zeroID (optionalID ParseTargetID (cin_TargetID request)),
           ins_TargetGeneration = cin_TargetGeneration request,
           ins_TargetRunID = val_or zeroID (optionalID ParseTargetRunID (cin_TargetRunID request)),
           ins_Trigger = cin_Trigger request, ins_LastKnownState = cin_LastKnownState request,
           ins_Cause = val_or zero_cause (cause_model (cin_Cause request)),
           ins_HighWaterMetrics = val_or [] (incidentMetricModels (cin_HighWaterMetrics request)),
           ins_FirstRelevantCursor = cin_FirstRelevantCursor request,
           ins_LastRelevantCursor = cin_LastRelevantCursor request,
           ins_Coverage = val_or [] (incidentCoverageModels (cin_Coverage request)),
           ins_ObservationBundleID =
             val_or zeroID (optionalID ParseObservationBundleID (cin_ObservationBundleID request)),
           ins_Artifacts = val_or [] (incidentArtifactModels (cin_Artifacts request)),
           ins_RecoveryActions = [], ins_VisibilityAcknowledgements = [], ins_OccurredAt = now\<rparr>) (\<lambda>model.
        let incident = \<lparr>inc_ID = ID_String incidentPrefix_prefix incidentID,
              inc_Classification = cin_Classification request, inc_SessionID = cin_SessionID request,
              inc_LeaseID = cin_LeaseID request, inc_AgentWorkspaceID = cin_AgentWorkspaceID request,
              inc_AgentGeneration = cin_AgentGeneration request, inc_ExecID = cin_ExecID request,
              inc_TargetID = cin_TargetID request, inc_TargetGeneration = cin_TargetGeneration request,
              inc_TargetRunID = cin_TargetRunID request, inc_Trigger = cin_Trigger request,
              inc_LastKnownState = cin_LastKnownState request, inc_Cause = cin_Cause request,
              inc_HighWaterMetrics = cin_HighWaterMetrics request,
              inc_FirstRelevantCursor = cin_FirstRelevantCursor request,
              inc_LastRelevantCursor = cin_LastRelevantCursor request, inc_Coverage = cin_Coverage request,
              inc_ObservationBundleID = cin_ObservationBundleID request, inc_Artifacts = cin_Artifacts request,
              inc_RecoveryActions = [], inc_VisibilityAcknowledgements = [], inc_State = inm_state model,
              inc_Revision = inm_revision model, inc_OccurredAt = now, inc_UpdatedAt = now\<rparr> in
        bind_r (appendControl (env_store env) ''incident'' (inc_ID incident) ''incident.opened''
            (inc_Revision incident) (PIncident incident) s) (\<lambda>s.
        bind_r (link_run env request (inc_ID incident) now c s) (\<lambda>s.
        bind_r (link_exec env request (inc_ID incident) now c s) (\<lambda>s.
        Inr (s, Some (RIncidentID (inc_ID incident)))))))))"

definition zero_IncidentRecord :: IncidentRecord where
  "zero_IncidentRecord = \<lparr>inc_ID = [], inc_Classification = IncidentClassificationOther [], inc_SessionID = [],
     inc_LeaseID = [], inc_AgentWorkspaceID = [], inc_AgentGeneration = 0, inc_ExecID = [], inc_TargetID = [],
     inc_TargetGeneration = 0, inc_TargetRunID = [], inc_Trigger = [], inc_LastKnownState = [],
     inc_Cause = \<lparr>crc_Kind = CauseKindOther [], crc_Summary = [], crc_Method = [], crc_Confidence = f_of_int 0\<rparr>,
     inc_HighWaterMetrics = [], inc_FirstRelevantCursor = 0, inc_LastRelevantCursor = 0, inc_Coverage = [],
     inc_ObservationBundleID = [], inc_Artifacts = [], inc_RecoveryActions = [], inc_VisibilityAcknowledgements = [],
     inc_State = IncidentStateOther [], inc_Revision = 0, inc_OccurredAt = zero_time, inc_UpdatedAt = zero_time\<rparr>"

definition CreateIncident_finish :: "Core \<Rightarrow> response \<Rightarrow> IncidentRecord result" where
  "CreateIncident_finish c response =
    (case response of
       RIncidentID i \<Rightarrow> Inr (case tbl_get (core_incidents c) i of None \<Rightarrow> zero_IncidentRecord | Some v \<Rightarrow> v)
     | _ \<Rightarrow> Inl unmarshal_error)"

text \<open>The source drops an encoding error here; the empty request it leaves is refused by the store.\<close>

definition CreateIncident ::
    "(CreateIncidentRequest \<Rightarrow> bytes result) \<Rightarrow> env \<Rightarrow> CreateIncidentRequest \<Rightarrow> Core \<Rightarrow> Core \<times> IncidentRecord result" where
  "CreateIncident marshal env request =
     validated
       [MutationMeta_Validate (env_deadline env) (env_clock env 0) (cin_Meta request),
        fail_if (\<not> IncidentClassification_IsValid (cin_Classification request) \<or> blank (cin_Trigger request) \<or>
                 blank (cin_LastKnownState request))
          (invalidArgument ''incident.create'' ''classification_trigger_state''
             ''recognized classification, trigger, and last known state are required'' None),
        err_of (cause_model (cin_Cause request)),
        err_of (ParseResearchSessionID (cin_SessionID request)),
        err_of (optionalID ParseLeaseID (cin_LeaseID request)),
        err_of (optionalID ParseAgentWorkspaceID (cin_AgentWorkspaceID request)),
        err_of (optionalID ParseExecID (cin_ExecID request)),
        err_of (optionalID ParseTargetID (cin_TargetID request)),
        err_of (optionalID ParseTargetRunID (cin_TargetRunID request)),
        err_of (incidentMetricModels (cin_HighWaterMetrics request)),
        err_of (incidentCoverageModels (cin_Coverage request)),
        err_of (optionalID ParseObservationBundleID (cin_ObservationBundleID request)),
        err_of (incidentArtifactModels (cin_Artifacts request))]
       (runMutation env ''create_incident'' (meta_IdempotencyKey (cin_Meta request)) (val_or [] (marshal request))
          (CreateIncident_tx env request) CreateIncident_finish)"

section \<open>Transitions\<close>

record TransitionIncidentRequest =
  tri_Meta :: MutationMeta
  tri_IncidentID :: string
  tri_ExpectedRevision :: uint64
  tri_State :: IncidentState
  tri_RecoveryActions :: "string list"
  tri_VisibilityAcknowledgements :: "string list"

definition stringSetContainsAll :: "string list \<Rightarrow> string list \<Rightarrow> bool" where
  "stringSetContainsAll values required \<longleftrightarrow> set required \<subseteq> set values"

definition physical_candidate :: "string \<Rightarrow> string" where
  "physical_candidate action =
    (if HasPrefix action ''agent_workspace:'' then
       (let strategy = TrimPrefix action ''agent_workspace:'' in
        if strategy \<noteq> [] then ''physical-agent:'' @ strategy else [])
     else if HasPrefix action ''target:'' then
       (let strategy = TrimPrefix action ''target:'' in
        if strategy \<noteq> [] then ''physical-target:'' @ strategy else [])
     else [])"

fun expected_physical :: "string list \<Rightarrow> string \<Rightarrow> string result" where
  "expected_physical [] expected = Inr expected"
| "expected_physical (action # rest) expected =
    (let candidate = physical_candidate action in
     if candidate = [] then expected_physical rest expected
     else if expected \<noteq> [] \<and> expected \<noteq> candidate then
       Inl (NewError CodeIntegrityViolation ''incident.complete_recovery'' ''recovery_actions''
         ''incident contains multiple physical recovery intents'' None)
     else expected_physical rest candidate)"

definition requireExactPhysicalRecoveryCompletion :: "string list \<Rightarrow> string list \<Rightarrow> err" where
  "requireExactPhysicalRecoveryCompletion existing completed =
    (case expected_physical existing [] of
       Inl e \<Rightarrow> Some e
     | Inr expected \<Rightarrow> first_err
         [fail_if (expected = [])
            (NewError CodeIntegrityViolation ''incident.complete_recovery'' ''recovery_actions''
               ''incident has no exact physical recovery intent'' None),
          fail_if (expected \<notin> set completed)
            (failedPrecondition ''incident.complete_recovery'' ''recovery_actions''
               (''trusted recovery completion lacks the exact physical action '' @ expected) None)])"

definition transitionIncident_tx ::
    "env \<Rightarrow> string \<Rightarrow> TransitionIncidentRequest \<Rightarrow> bool \<Rightarrow> Core \<Rightarrow> (payload, response) handler" where
  "transitionIncident_tx env operation request recoveryCompletion c s =
    (case tbl_get (core_incidents c) (tri_IncidentID request) of
       None \<Rightarrow> Inl ErrNotFound
     | Some incident \<Rightarrow>
         (let incident' = incident\<lparr>inc_State := tri_State request, inc_Revision := inc_Revision incident + 1,
                inc_UpdatedAt := env_clock env 1, inc_RecoveryActions := tri_RecoveryActions request,
                inc_VisibilityAcknowledgements := tri_VisibilityAcknowledgements request\<rparr> in
          guarded
            [fail_if (inc_Revision incident \<noteq> tri_ExpectedRevision request) ErrRevisionConflict,
             fail_if (tri_State request = IncidentEvidenceSealed \<and> inc_Artifacts incident = [] \<and>
                      inc_ObservationBundleID incident = [])
               (failedPrecondition operation ''evidence''
                  ''cannot be sealed without a typed artifact or observation bundle'' None),
             fail_if (inc_State incident = IncidentRecovering \<and> tri_State request = IncidentResolved \<and>
                      \<not> recoveryCompletion)
               (failedPrecondition operation ''state''
                  ''recovering incidents can be resolved only by the trusted physical recovery completion path'' None),
             (if recoveryCompletion then first_err
                [fail_if (inc_State incident \<noteq> IncidentRecovering)
                   (failedPrecondition operation ''state'' ''only a recovering incident can complete recovery'' None),
                 fail_if (\<not> stringSetContainsAll (tri_RecoveryActions request) (inc_RecoveryActions incident) \<or>
                          \<not> stringSetContainsAll (tri_VisibilityAcknowledgements request)
                             (inc_VisibilityAcknowledgements incident))
                   (NewError CodeIntegrityViolation operation ''history''
                      ''recovery completion cannot remove durable actions or visibility acknowledgements'' None),
                 requireExactPhysicalRecoveryCompletion (inc_RecoveryActions incident) (tri_RecoveryActions request)]
              else None),
             RequireIncidentTransition (inc_State incident) (tri_State request)]
            (bind_r (appendControl (env_store env) ''incident'' (inc_ID incident) ''incident.transitioned''
                (inc_Revision incident') (PIncident incident') s)
              (\<lambda>s. Inr (s, Some (RIncident incident'))))))"

definition finish_incident :: "Core \<Rightarrow> response \<Rightarrow> IncidentRecord result" where
  "finish_incident c response = (case response of RIncident v \<Rightarrow> Inr v | _ \<Rightarrow> Inl unmarshal_error)"

definition transitionIncident ::
    "(TransitionIncidentRequest \<Rightarrow> bytes) \<Rightarrow> env \<Rightarrow> string \<Rightarrow> string \<Rightarrow> TransitionIncidentRequest \<Rightarrow> bool \<Rightarrow> Core \<Rightarrow>
      Core \<times> IncidentRecord result" where
  "transitionIncident marshal env operation namespace request0 recoveryCompletion =
    (let actions = normalizedNonBlank (tri_RecoveryActions request0);
         acknowledgements = normalizedNonBlank (tri_VisibilityAcknowledgements request0);
         request = request0\<lparr>tri_RecoveryActions := val_or [] actions,
           tri_VisibilityAcknowledgements := val_or [] acknowledgements\<rparr> in
     validated
       [MutationMeta_Validate (env_deadline env) (env_clock env 0) (tri_Meta request),
        err_of (ParseIncidentID (tri_IncidentID request)),
        fail_if (tri_State request = IncidentRecovering)
          (failedPrecondition operation ''state''
             ''recovery must use RecoverIncident so generation rollover is atomic'' None),
        err_of actions, err_of acknowledgements]
       (runMutation env namespace (meta_IdempotencyKey (tri_Meta request)) (marshal request)
          (transitionIncident_tx env operation request recoveryCompletion) finish_incident))"

definition TransitionIncident ::
    "(TransitionIncidentRequest \<Rightarrow> bytes) \<Rightarrow> env \<Rightarrow> TransitionIncidentRequest \<Rightarrow> Core \<Rightarrow> Core \<times> IncidentRecord result" where
  "TransitionIncident marshal env request =
     transitionIncident marshal env ''incident.transition'' ''transition_incident'' request False"

definition CompleteIncidentRecovery ::
    "(TransitionIncidentRequest \<Rightarrow> bytes) \<Rightarrow> env \<Rightarrow> TransitionIncidentRequest \<Rightarrow> Core \<Rightarrow> Core \<times> IncidentRecord result" where
  "CompleteIncidentRecovery marshal env request =
     validated
       [fail_if (tri_State request \<noteq> IncidentResolved)
          (invalidArgument ''incident.complete_recovery'' ''state'' ''recovery completion must resolve the incident'' None)]
       (transitionIncident marshal env ''incident.complete_recovery'' ''complete_incident_recovery'' request True)"

definition GetIncident :: "payload store_env \<Rightarrow> string \<Rightarrow> Core \<Rightarrow> Core \<times> IncidentRecord result" where
  "GetIncident env incidentID = query env (\<lambda>c.
    (case tbl_get (core_incidents c) incidentID of None \<Rightarrow> Inl ErrNotFound | Some v \<Rightarrow> Inr v))"

section \<open>Sealing with the bundle of a run\<close>

record SealRunIncidentsRequest =
  sea_Meta :: MutationMeta
  sea_TargetID :: string
  sea_RunID :: string
  sea_BundleID :: string
  sea_BundleArtifact :: IncidentArtifactRecord
  sea_IncidentIDs :: "string list"

definition appendExactIncidentArtifact ::
    "IncidentArtifactRecord list \<Rightarrow> IncidentArtifactRecord \<Rightarrow> IncidentArtifactRecord list result" where
  "appendExactIncidentArtifact existing desired =
    (case find (\<lambda>a. iar_Reference a = iar_Reference desired) existing of
       None \<Rightarrow> Inr (existing @ [desired])
     | Some artifact \<Rightarrow>
         if artifact \<noteq> desired then
           Inl (NewError CodeIntegrityViolation ''incident.seal_run_evidence'' ''bundle_artifact''
             ''artifact reference already has different immutable metadata'' None)
         else Inr existing)"

definition incidentHasBundleEvidence :: "IncidentRecord \<Rightarrow> string \<Rightarrow> IncidentArtifactRecord \<Rightarrow> bool" where
  "incidentHasBundleEvidence incident bundleID artifact \<longleftrightarrow>
     inc_ObservationBundleID incident = bundleID \<and> artifact \<in> set (inc_Artifacts incident)"

definition seal_incident ::
    "env \<Rightarrow> SealRunIncidentsRequest \<Rightarrow> TargetRecord \<Rightarrow> TargetRunRecord \<Rightarrow> time \<Rightarrow> IncidentRecord \<Rightarrow> store \<Rightarrow>
      store result" where
  "seal_incident env request target r now incident s =
    (let operation = ''incident.seal_run_evidence'' in
     guarded
       [fail_if (inc_SessionID incident \<noteq> tgt_SessionID target \<or> inc_LeaseID incident \<noteq> tgt_LeaseID target \<or>
          inc_TargetID incident \<noteq> tgt_ID target \<or> inc_TargetRunID incident \<noteq> run_ID r \<or>
          inc_TargetGeneration incident \<noteq> run_Generation r) ErrScope]
       (if inc_State incident = IncidentEvidenceSealed then checked
          [fail_if (\<not> incidentHasBundleEvidence incident (sea_BundleID request) (sea_BundleArtifact request))
             (NewError CodeIntegrityViolation operation ''incident'' ''sealed incident differs from the terminal bundle'' None)]
          s
        else guarded
          [fail_if (inc_State incident \<noteq> IncidentOpen)
             (failedPrecondition operation ''incident'' ''only an open incident can receive run evidence'' None),
           fail_if (inc_ObservationBundleID incident \<noteq> [] \<and> inc_ObservationBundleID incident \<noteq> sea_BundleID request)
             (NewError CodeIntegrityViolation operation ''observation_bundle_id''
                ''open incident already names different evidence'' None)]
          (bind_r (appendExactIncidentArtifact (inc_Artifacts incident) (sea_BundleArtifact request)) (\<lambda>artifacts.
           let incident' = incident\<lparr>inc_ObservationBundleID := sea_BundleID request, inc_Artifacts := artifacts,
                 inc_State := IncidentEvidenceSealed, inc_Revision := inc_Revision incident + 1,
                 inc_UpdatedAt := now\<rparr> in
           guarded [RequireIncidentTransition (inc_State incident) IncidentEvidenceSealed]
             (appendControl (env_store env) ''incident'' (inc_ID incident) ''incident.evidence_sealed''
               (inc_Revision incident') (PIncident incident') s)))))"

fun seal_incidents ::
    "env \<Rightarrow> SealRunIncidentsRequest \<Rightarrow> TargetRecord \<Rightarrow> TargetRunRecord \<Rightarrow> time \<Rightarrow> Core \<Rightarrow> string list \<Rightarrow> store \<Rightarrow>
      store result" where
  "seal_incidents env request target r now c [] s = Inr s"
| "seal_incidents env request target r now c (incidentID # rest) s =
    (case tbl_get (core_incidents c) incidentID of
       None \<Rightarrow> Inl ErrNotFound
     | Some incident \<Rightarrow>
         bind_r (seal_incident env request target r now incident s)
           (\<lambda>s. seal_incidents env request target r now c rest s))"

definition SealRunIncidents_tx :: "env \<Rightarrow> SealRunIncidentsRequest \<Rightarrow> Core \<Rightarrow> (payload, response) handler" where
  "SealRunIncidents_tx env request c s =
    (case tbl_get (core_targets c) (sea_TargetID request) of
       None \<Rightarrow> Inl ErrNotFound
     | Some target \<Rightarrow>
         bind_r (findRun target (sea_RunID request)) (\<lambda>i.
           let r = tgt_Runs target ! i in
           guarded
             [fail_if (\<not> TargetRunState_Terminal (run_State r) \<or> run_BundleID r \<noteq> sea_BundleID request \<or>
                run_BundleArtifact r \<noteq> iar_Reference (sea_BundleArtifact request) \<or>
                run_BundleDigest r \<noteq> iar_Digest (sea_BundleArtifact request))
                (failedPrecondition ''incident.seal_run_evidence'' ''target_run''
                   ''terminal run does not bind the requested bundle artifact'' None)]
             (bind_r (seal_incidents env request target r (env_clock env 1) c (sea_IncidentIDs request) s)
               (\<lambda>s. Inr (s, Some (RIncidentIDs (sea_IncidentIDs request)))))))"

fun collect_incidents :: "Core \<Rightarrow> string list \<Rightarrow> IncidentRecord list result" where
  "collect_incidents c [] = Inr []"
| "collect_incidents c (i # rest) =
    (case tbl_get (core_incidents c) i of
       None \<Rightarrow> Inl (NewError CodeIntegrityViolation ''incident.seal_run_evidence'' ''incident''
         ''sealed incident is missing after commit'' None)
     | Some v \<Rightarrow> bind_r (collect_incidents c rest) (\<lambda>vs. Inr (v # vs)))"

definition SealRunIncidents_finish :: "Core \<Rightarrow> response \<Rightarrow> IncidentRecord list result" where
  "SealRunIncidents_finish c response =
    (case response of RIncidentIDs ids \<Rightarrow> collect_incidents c ids | _ \<Rightarrow> Inl unmarshal_error)"

definition SealRunIncidents ::
    "(SealRunIncidentsRequest \<Rightarrow> bytes result) \<Rightarrow> env \<Rightarrow> SealRunIncidentsRequest \<Rightarrow> Core \<Rightarrow>
      Core \<times> IncidentRecord list result" where
  "SealRunIncidents marshal env request0 =
    (let operation = ''incident.seal_run_evidence'';
         incidentIDs = normalizedNonBlank (sea_IncidentIDs request0);
         request = request0\<lparr>sea_IncidentIDs := val_or [] incidentIDs\<rparr>;
         artifacts = incidentArtifactModels [sea_BundleArtifact request] in
     validated
       ([MutationMeta_Validate (env_deadline env) (env_clock env 0) (sea_Meta request),
         err_of (ParseTargetID (sea_TargetID request)),
         err_of (ParseTargetRunID (sea_RunID request)),
         err_of (ParseObservationBundleID (sea_BundleID request)),
         err_of (wrap_err (operation @ '': bundle artifact'') artifacts),
         fail_if (iar_Role (sea_BundleArtifact request) \<noteq> ''observation-bundle'')
           (invalidArgument operation ''bundle_artifact.role'' ''must identify an observation-bundle artifact'' None),
         err_of incidentIDs,
         fail_if (sea_IncidentIDs request = [])
           (invalidArgument operation ''incident_ids'' ''must not be empty'' None)] @
        map (\<lambda>i. err_of (ParseIncidentID i)) (sea_IncidentIDs request) @
        [err_of (marshal request)])
       (runMutation env ''seal_run_incidents'' (meta_IdempotencyKey (sea_Meta request)) (val_or [] (marshal request))
          (SealRunIncidents_tx env request) SealRunIncidents_finish))"

section \<open>Recovery\<close>

datatype RecoveryResource = RecoveryResourceTarget | RecoveryResourceAgent | RecoveryResourceOther string

fun RecoveryResource_text :: "RecoveryResource \<Rightarrow> string" where
  "RecoveryResource_text RecoveryResourceTarget = ''target''"
| "RecoveryResource_text RecoveryResourceAgent = ''agent_workspace''"
| "RecoveryResource_text (RecoveryResourceOther s) = s"

definition RecoveryResource_valid :: "RecoveryResource \<Rightarrow> bool" where
  "RecoveryResource_valid r \<longleftrightarrow> r = RecoveryResourceTarget \<or> r = RecoveryResourceAgent"

record RecoverIncidentRequest =
  rec_Meta :: MutationMeta
  rec_IncidentID :: string
  rec_ExpectedIncidentRevision :: uint64
  rec_Resource :: RecoveryResource
  rec_Strategy :: string
  rec_VisibilityAcknowledgement :: string

record RecoveryOutcome =
  rco_Incident :: IncidentRecord
  rco_Target :: "TargetRecord option"
  rco_Agent :: "AgentWorkspaceRecord option"
  rco_Lease :: "LeaseRecord option"

text \<open>\<open>incidentID\<close> is the parsed identity of the incident.\<close>

definition recoverTargetGeneration ::
    "env \<Rightarrow> IncidentID \<Rightarrow> IncidentRecord \<Rightarrow> LeaseRecord \<Rightarrow> time \<Rightarrow> Core \<Rightarrow> store \<Rightarrow> (store \<times> TargetRecord) result" where
  "recoverTargetGeneration env incidentID incident lease now c s =
    (let operation = ''incident.recover_target'' in
     guarded
       [fail_if (inc_TargetID incident = [] \<or> inc_TargetGeneration incident = 0)
          (failedPrecondition operation ''incident'' ''does not identify a target generation'' None)]
       (case tbl_get (core_targets c) (inc_TargetID incident) of
          None \<Rightarrow> Inl ErrScope
        | Some target \<Rightarrow> guarded
            ([fail_if (tgt_SessionID target \<noteq> inc_SessionID incident \<or> tgt_LeaseID target \<noteq> lea_ID lease) ErrScope,
              fail_if (tgt_CurrentGeneration target \<noteq> inc_TargetGeneration incident)
                (failedPrecondition operation ''target_generation'' ''incident generation is no longer current'' None)] @
             map (\<lambda>r. fail_if (run_Generation r = tgt_CurrentGeneration target \<and>
                 (\<not> TargetRunState_Terminal (run_State r) \<or> run_BundleID r = []))
               (failedPrecondition operation ''target_run''
                  (run_ID r @ '' must be finalized with an observation bundle before recovery'') None))
               (tgt_Runs target))
            (bind_r (findTargetGeneration target (tgt_CurrentGeneration target)) (\<lambda>i.
             bind_r (targetGenerationRetirementPath (tgn_State (tgt_Generations target ! i))) (\<lambda>path.
             bind_r (appendTargetGenerationTransitions (env_store env) i path
                 ''target_generation.recovery_retirement'' now target s) (\<lambda>(target, s).
             let old = tgt_Generations target ! i in
             bind_r (ParseDigest (tgn_PolicyDigest old)) (\<lambda>policyDigest.
             bind_r (ParseDigest (tgn_CapabilityDigest old)) (\<lambda>capabilityDigest.
             let newGeneration = tgn_Generation old + 1 in
             bind_r (requireStoredID ''target.id'' (tgt_ID target) ParseTargetID) (\<lambda>targetID.
             bind_r (NewTargetGeneration \<lparr>tgs_TargetID = targetID, tgs_Generation = newGeneration,
                 tgs_PolicyDigest = policyDigest, tgs_CapabilityFingerprintDigest = capabilityDigest,
                 tgs_PreviousGeneration = tgn_Generation old, tgs_RecoveryIncidentID = incidentID,
                 tgs_CreatedAt = now\<rparr>) (\<lambda>model.
             let target' = target\<lparr>tgt_CurrentGeneration := newGeneration,
                   tgt_Generations := tgt_Generations target @
                     [\<lparr>tgn_Generation = newGeneration, tgn_PolicyDigest = tgn_PolicyDigest old,
                       tgn_CapabilityDigest = tgn_CapabilityDigest old, tgn_ProvisioningPlanDigest = [],
                       tgn_ProvisioningKey = [], tgn_Previous = tgn_Generation old,
                       tgn_RecoveryIncident = inc_ID incident, tgn_State = tgm_state model,
                       tgn_Revision = tgm_revision model, tgn_CreatedAt = now, tgn_UpdatedAt = now\<rparr>],
                   tgt_Revision := tgt_Revision target + 1, tgt_UpdatedAt := now\<rparr> in
             bind_r (appendControl (env_store env) ''target'' (tgt_ID target) ''target_generation.recovery_created''
                 (tgt_Revision target') (PTarget target') s)
               (\<lambda>s. Inr (s, target'))))))))))))"

definition recoverAgentGeneration ::
    "env \<Rightarrow> IncidentID \<Rightarrow> IncidentRecord \<Rightarrow> LeaseRecord \<Rightarrow> time \<Rightarrow> Core \<Rightarrow> store \<Rightarrow>
      (store \<times> AgentWorkspaceRecord \<times> LeaseRecord) result" where
  "recoverAgentGeneration env incidentID incident lease now c s =
    (let operation = ''incident.recover_agent'' in
     guarded
       [fail_if (inc_AgentWorkspaceID incident = [] \<or> inc_AgentGeneration incident = 0)
          (failedPrecondition operation ''incident'' ''does not identify an agent generation'' None)]
       (case tbl_get (core_agents c) (inc_AgentWorkspaceID incident) of
          None \<Rightarrow> Inl ErrScope
        | Some agent \<Rightarrow> guarded
            ([fail_if (agt_SessionID agent \<noteq> inc_SessionID incident \<or> lea_AgentWorkspaceID lease \<noteq> agt_ID agent) ErrScope,
              fail_if (agt_CurrentGeneration agent \<noteq> inc_AgentGeneration incident \<or>
                       lea_AgentGeneration lease \<noteq> inc_AgentGeneration incident)
                (failedPrecondition operation ''agent_generation'' ''incident generation is no longer current'' None)] @
             map (\<lambda>execID. let execution = (case tbl_get (core_execs c) execID of None \<Rightarrow> zero_ExecRecord | Some v \<Rightarrow> v) in
               fail_if (exe_AgentGeneration execution = agt_CurrentGeneration agent \<and>
                        \<not> ExecState_Terminal (exe_State execution))
                 (failedPrecondition operation ''exec'' (execID @ '' must be finalized before agent recovery'') None))
               (execIDsForLease c (lea_ID lease)) @
             map (\<lambda>targetID. first_err (map (\<lambda>r.
               fail_if (run_AgentWorkspaceID r = agt_ID agent \<and> run_AgentGeneration r = agt_CurrentGeneration agent \<and>
                        (\<not> TargetRunState_Terminal (run_State r) \<or> run_BundleID r = []))
                 (failedPrecondition operation ''target_run''
                    (run_ID r @ '' must be finalized with an observation bundle before agent recovery'') None))
               (tgt_Runs (target_or_zero c targetID))))
               (targetIDsForLease c (lea_ID lease)))
            (bind_r (findAgentGeneration agent (agt_CurrentGeneration agent)) (\<lambda>i.
             bind_r (agentGenerationRetirementPath (agn_State (agt_Generations agent ! i))) (\<lambda>path.
             bind_r (appendAgentGenerationTransitions (env_store env) i path
                 ''agent_generation.recovery_retirement'' now agent s) (\<lambda>(agent, s).
             let old = agt_Generations agent ! i in
             bind_r (case_prod GenerateWorkspaceID (env_ids env 0)) (\<lambda>workspaceID.
             bind_r (ParseInputViewID (agn_InputViewID old)) (\<lambda>inputViewID.
             bind_r (ParseDigest (agn_PolicyDigest old)) (\<lambda>policyDigest.
             bind_r (ParseDigest (agn_CapabilityDigest old)) (\<lambda>capabilityDigest.
             let newGeneration = agn_Generation old + 1 in
             bind_r (requireStoredID ''agent_workspace.id'' (agt_ID agent) ParseAgentWorkspaceID) (\<lambda>agentID.
             bind_r (NewAgentWorkspaceGeneration \<lparr>ags_AgentWorkspaceID = agentID, ags_Generation = newGeneration,
                 ags_WorkspaceID = workspaceID, ags_InputViewID = inputViewID, ags_PolicyDigest = policyDigest,
                 ags_CapabilityFingerprintDigest = capabilityDigest,
                 ags_PreviousGeneration = agn_Generation old, ags_RecoveryIncidentID = incidentID,
                 ags_CreatedAt = now\<rparr>) (\<lambda>model.
             let agent' = agent\<lparr>agt_CurrentGeneration := newGeneration,
                   agt_Generations := agt_Generations agent @
                     [\<lparr>agn_Generation = newGeneration,
                       agn_WorkspaceID = ID_String workspacePrefix_prefix workspaceID,
                       agn_InputViewID = agn_InputViewID old, agn_PolicyDigest = agn_PolicyDigest old,
                       agn_CapabilityDigest = agn_CapabilityDigest old, agn_ProvisioningPlanDigest = [],
                       agn_WorkspaceProvisioningKey = [], agn_AgentProvisioningKey = [],
                       agn_Previous = agn_Generation old, agn_RecoveryIncident = inc_ID incident,
                       agn_State = agm_state model, agn_Revision = agm_revision model,
                       agn_CreatedAt = now, agn_UpdatedAt = now\<rparr>],
                   agt_Revision := agt_Revision agent + 1, agt_UpdatedAt := now\<rparr>;
                 lease' = lease\<lparr>lea_AgentGeneration := newGeneration, lea_Revision := lea_Revision lease + 1,
                   lea_UpdatedAt := now\<rparr> in
             bind_r (appendControl (env_store env) ''agent_workspace'' (agt_ID agent)
                 ''agent_generation.recovery_created'' (agt_Revision agent') (PAgent agent') s) (\<lambda>s.
             bind_r (appendControl (env_store env) ''lease'' (lea_ID lease) ''lease.agent_generation_changed''
                 (lea_Revision lease') (PLease lease') s)
               (\<lambda>s. Inr (s, agent', lease')))))))))))))))"

definition RecoverIncident_tx :: "env \<Rightarrow> RecoverIncidentRequest \<Rightarrow> Core \<Rightarrow> (payload, response) handler" where
  "RecoverIncident_tx env request c s =
    (case tbl_get (core_incidents c) (rec_IncidentID request) of
       None \<Rightarrow> Inl ErrNotFound
     | Some incident \<Rightarrow> guarded
         [fail_if (inc_Revision incident \<noteq> rec_ExpectedIncidentRevision request) ErrRevisionConflict,
          fail_if (inc_State incident \<noteq> IncidentEvidenceSealed)
            (failedPrecondition ''incident.recover'' ''incident'' ''evidence must be sealed before recovery'' None)]
         (case tbl_get (core_leases c) (inc_LeaseID incident) of
            None \<Rightarrow> Inl ErrScope
          | Some lease \<Rightarrow> guarded
              [fail_if (lea_SessionID lease \<noteq> inc_SessionID incident) ErrScope,
               requireLeaseActive lease (env_clock env 1),
               RequireIncidentTransition (inc_State incident) IncidentRecovering]
              (let now = env_clock env 2;
                   incidentID = val_or zeroID (ParseIncidentID (rec_IncidentID request)) in
               bind_r (mergedNonBlank (inc_RecoveryActions incident)
                   [RecoveryResource_text (rec_Resource request) @ '':'' @ rec_Strategy request]) (\<lambda>actions.
               bind_r (mergedNonBlank (inc_VisibilityAcknowledgements incident)
                   [rec_VisibilityAcknowledgement request]) (\<lambda>acknowledgements.
               let incident' = incident\<lparr>inc_State := IncidentRecovering, inc_Revision := inc_Revision incident + 1,
                     inc_UpdatedAt := now, inc_RecoveryActions := actions,
                     inc_VisibilityAcknowledgements := acknowledgements\<rparr> in
               bind_r (appendControl (env_store env) ''incident'' (inc_ID incident) ''incident.recovery_started''
                   (inc_Revision incident') (PIncident incident') s) (\<lambda>s.
               case rec_Resource request of
                 RecoveryResourceTarget \<Rightarrow>
                   bind_r (recoverTargetGeneration env incidentID incident' lease now c s)
                     (\<lambda>(s, target). Inr (s, Some (RRecovery incident' (Some target) None None)))
               | RecoveryResourceAgent \<Rightarrow>
                   bind_r (recoverAgentGeneration env incidentID incident' lease now c s)
                     (\<lambda>(s, agent, lease). Inr (s, Some (RRecovery incident' None (Some agent) (Some lease))))
               | RecoveryResourceOther _ \<Rightarrow> Inr (s, Some (RRecovery incident' None None None))))))))"

definition RecoverIncident_finish :: "Core \<Rightarrow> response \<Rightarrow> RecoveryOutcome result" where
  "RecoverIncident_finish c response =
    (case response of
       RRecovery incident target agent lease \<Rightarrow>
         Inr \<lparr>rco_Incident = incident, rco_Target = target, rco_Agent = agent, rco_Lease = lease\<rparr>
     | _ \<Rightarrow> Inl unmarshal_error)"

definition RecoverIncident ::
    "(RecoverIncidentRequest \<Rightarrow> bytes result) \<Rightarrow> env \<Rightarrow> RecoverIncidentRequest \<Rightarrow> Core \<Rightarrow> Core \<times> RecoveryOutcome result" where
  "RecoverIncident marshal env request0 =
    (let request = request0\<lparr>rec_Strategy := TrimSpace (rec_Strategy request0),
           rec_VisibilityAcknowledgement := TrimSpace (rec_VisibilityAcknowledgement request0)\<rparr> in
     validated
       [MutationMeta_Validate (env_deadline env) (env_clock env 0) (rec_Meta request),
        err_of (ParseIncidentID (rec_IncidentID request)),
        fail_if (\<not> RecoveryResource_valid (rec_Resource request) \<or> rec_Strategy request = [] \<or>
                 rec_VisibilityAcknowledgement request = [])
          (invalidArgument ''incident.recover'' ''recovery''
             ''recognized resource, strategy, and visibility acknowledgement are required'' None),
        err_of (marshal request)]
       (runMutation env ''recover_incident'' (meta_IdempotencyKey (rec_Meta request)) (val_or [] (marshal request))
          (RecoverIncident_tx env request) RecoverIncident_finish))"

section \<open>The transactions only append\<close>

lemma extends_links [journal_simps]:
  "link_run env request i now c t = Inr u \<Longrightarrow> extends (env_store env) s t \<Longrightarrow> extends (env_store env) s u"
  "link_exec env request i now c t = Inr u \<Longrightarrow> extends (env_store env) s t \<Longrightarrow> extends (env_store env) s u"
  by (auto simp: link_run_def link_exec_def bind_r_Inr Let_def journal_simps split: option.splits if_splits)

interpretation create_incident: mutation env "CreateIncident_tx env request" for env request
  by unfold_locales (auto simp: CreateIncident_tx_def journal_simps Let_def)

interpretation transition_incident: mutation env "transitionIncident_tx env operation request recovery"
  for env operation request recovery
  by unfold_locales (auto simp: transitionIncident_tx_def journal_simps Let_def split: option.splits)

lemma extends_seal_incident [journal_simps]:
  "seal_incident env request target r now incident t = Inr u \<Longrightarrow> extends (env_store env) s t \<Longrightarrow>
     extends (env_store env) s u"
  by (auto simp: seal_incident_def bind_r_Inr Let_def journal_simps split: if_splits)

lemma extends_seal_incidents [journal_simps]:
  "seal_incidents env request target r now c ids t = Inr u \<Longrightarrow> extends (env_store env) s t \<Longrightarrow>
     extends (env_store env) s u"
  by (induction ids arbitrary: t) (auto simp: bind_r_Inr journal_simps split: option.splits)

interpretation seal_incidents: mutation env "SealRunIncidents_tx env request" for env request
  by unfold_locales (auto simp: SealRunIncidents_tx_def journal_simps Let_def split: option.splits)

lemma extends_recoverTarget [journal_simps]:
  "recoverTargetGeneration env incidentID incident lease now c t = Inr (u, target) \<Longrightarrow>
     extends (env_store env) s t \<Longrightarrow> extends (env_store env) s u"
  by (auto simp: recoverTargetGeneration_def bind_r_Inr Let_def journal_simps split: option.splits)

lemma extends_recoverAgent [journal_simps]:
  "recoverAgentGeneration env incidentID incident lease now c t = Inr (u, agent) \<Longrightarrow>
     extends (env_store env) s t \<Longrightarrow> extends (env_store env) s u"
  by (auto simp: recoverAgentGeneration_def bind_r_Inr Let_def journal_simps split: option.splits)

interpretation recover_incident: mutation env "RecoverIncident_tx env request" for env request
  by unfold_locales
    (auto simp: RecoverIncident_tx_def journal_simps Let_def split: option.splits RecoveryResource.splits)

end
