(* ===== verification/App_System.thy ===== *)
theory App_System
  imports App_Termination App_Incidents
begin

text \<open>
  The application core as a whole: its operations as the steps of one transition system, in any
  order, with any clocks, identifiers, injected faults and database failures, and with restarts in
  between.  The mutex of \<open>Core\<close> makes each operation one step; a read only synchronises.  The theorems are the invariant of
  every reachable core and what no sequence of operations can undo.
\<close>

section \<open>Steps\<close>

definition hashes_with :: "(bytes \<Rightarrow> bytes) \<Rightarrow> (payload \<Rightarrow> bytes) \<Rightarrow> payload store_env \<Rightarrow> bool" where
  "hashes_with sha enc env \<longleftrightarrow> se_sha env = sha \<and> se_enc env = enc"

abbreviation runs_with :: "(bytes \<Rightarrow> bytes) \<Rightarrow> (payload \<Rightarrow> bytes) \<Rightarrow> env \<Rightarrow> bool" where
  "runs_with sha enc env \<equiv> hashes_with sha enc (env_store env)"

inductive core_step :: "(bytes \<Rightarrow> bytes) \<Rightarrow> (payload \<Rightarrow> bytes) \<Rightarrow> Core \<Rightarrow> Core \<Rightarrow> bool" for sha enc where
  acquire_step: "runs_with sha enc env \<Longrightarrow> core_step sha enc c (fst (AcquireResearchSession marshal env request c))"
| renew_step: "runs_with sha enc env \<Longrightarrow> core_step sha enc c (fst (RenewLease marshal env request c))"
| transition_agent_step: "runs_with sha enc env \<Longrightarrow> core_step sha enc c (fst (TransitionAgentGeneration marshal env request c))"
| bind_agent_plan_step: "runs_with sha enc env \<Longrightarrow> core_step sha enc c (fst (BindAgentGenerationPlan marshal env request c))"
| create_exec_step: "runs_with sha enc env \<Longrightarrow> core_step sha enc c (fst (CreateExec marshal env request c))"
| transition_exec_step: "runs_with sha enc env \<Longrightarrow> core_step sha enc c (fst (TransitionExec marshal env request c))"
| finalize_exec_step: "runs_with sha enc env \<Longrightarrow> core_step sha enc c (fst (FinalizeExec marshal env request c))"
| create_target_step: "runs_with sha enc env \<Longrightarrow> core_step sha enc c (fst (CreateTarget marshal env request c))"
| start_run_step: "runs_with sha enc env \<Longrightarrow> core_step sha enc c (fst (StartTargetRun marshal env request c))"
| create_operation_step: "runs_with sha enc env \<Longrightarrow> core_step sha enc c (fst (CreateTargetOperation marshal env request c))"
| transition_target_step: "runs_with sha enc env \<Longrightarrow> core_step sha enc c (fst (TransitionTargetGeneration marshal env request c))"
| transition_run_step: "runs_with sha enc env \<Longrightarrow> core_step sha enc c (fst (TransitionTargetRun marshal env request c))"
| transition_operation_step: "runs_with sha enc env \<Longrightarrow> core_step sha enc c (fst (TransitionTargetOperation marshal env request c))"
| quarantine_step: "runs_with sha enc env \<Longrightarrow> core_step sha enc c (fst (QuarantineTarget marshal env request c))"
| finalize_run_step: "runs_with sha enc env \<Longrightarrow> core_step sha enc c (fst (FinalizeTargetRun marshal env request c))"
| reset_step: "runs_with sha enc env \<Longrightarrow> core_step sha enc c (fst (ResetTarget marshal env request c))"
| bind_target_plan_step: "runs_with sha enc env \<Longrightarrow> core_step sha enc c (fst (BindTargetGenerationPlan marshal env request c))"
| bind_run_plan_step: "runs_with sha enc env \<Longrightarrow> core_step sha enc c (fst (BindTargetRunPlan marshal env request c))"
| begin_release_step: "runs_with sha enc env \<Longrightarrow> core_step sha enc c (fst (BeginReleaseResearchSession marshal env request c))"
| begin_expiry_step: "runs_with sha enc env \<Longrightarrow> core_step sha enc c (fst (BeginDueLeaseExpiry marshal env request c))"
| complete_release_step: "runs_with sha enc env \<Longrightarrow> core_step sha enc c (fst (CompleteReleaseResearchSession marshal env request c))"
| complete_termination_step: "runs_with sha enc env \<Longrightarrow> core_step sha enc c (fst (CompleteLeaseTermination marshal env request c))"
| create_incident_step: "runs_with sha enc env \<Longrightarrow> core_step sha enc c (fst (CreateIncident marshal env request c))"
| transition_incident_step: "runs_with sha enc env \<Longrightarrow> core_step sha enc c (fst (TransitionIncident marshal env request c))"
| complete_recovery_step: "runs_with sha enc env \<Longrightarrow> core_step sha enc c (fst (CompleteIncidentRecovery marshal env request c))"
| seal_incidents_step: "runs_with sha enc env \<Longrightarrow> core_step sha enc c (fst (SealRunIncidents marshal env request c))"
| recover_incident_step: "runs_with sha enc env \<Longrightarrow> core_step sha enc c (fst (RecoverIncident marshal env request c))"
| read_step: "core_step sha enc c (fst (syncLocked senv c))"
| restart_step: "hashes_with sha enc senv \<Longrightarrow> NewCore senv (core_store c) = Inr c' \<Longrightarrow> core_step sha enc c c'"

inductive reachable :: "(bytes \<Rightarrow> bytes) \<Rightarrow> (payload \<Rightarrow> bytes) \<Rightarrow> Core \<Rightarrow> bool" for sha enc where
  boot: "hashes_with sha enc senv \<Longrightarrow> NewCore senv emptyStore = Inr c \<Longrightarrow> reachable sha enc c"
| step: "reachable sha enc c \<Longrightarrow> core_step sha enc c c' \<Longrightarrow> reachable sha enc c'"

lemma read_is_sync: "fst (query senv read c) = fst (syncLocked senv c)"
  by (auto simp: query_def split: prod.splits option.splits)

text \<open>The definitions of the operations, down to the frame they run in.\<close>

lemmas operation_defs =
  AcquireResearchSession_def RenewLease_def TransitionAgentGeneration_def BindAgentGenerationPlan_def
  CreateExec_def TransitionExec_def FinalizeExec_def CreateTarget_def StartTargetRun_def
  CreateTargetOperation_def TransitionTargetGeneration_def TransitionTargetRun_def
  TransitionTargetOperation_def QuarantineTarget_def FinalizeTargetRun_def ResetTarget_def
  BindTargetGenerationPlan_def BindTargetRunPlan_def BeginReleaseResearchSession_def
  BeginDueLeaseExpiry_def CompleteReleaseResearchSession_def CompleteLeaseTermination_def
  CreateIncident_def TransitionIncident_def CompleteIncidentRecovery_def transitionIncident_def
  SealRunIncidents_def RecoverIncident_def

section \<open>Restarting\<close>

lemma verify_hash_lengths:
  "verify_from sha enc h rs = None \<Longrightarrow> \<forall>r \<in> set rs. length (cr_PreviousHash r) = 32 \<and> length (cr_Hash r) = 32"
  by (induction rs arbitrary: h) auto

lemma NewCore_readable:
  assumes "journal_ok env (control_records s)" "NewCore env s = Inr c"
  shows "readable env (control_records s)"
proof -
  obtain rs where "Records env s 0 1000 = Inr rs"
    using assms(2) by (cases "Records env s 0 1000") (auto simp: NewCore_def syncLocked.simps emptyCore_def)
  then have "se_db env [''select records''] = None" by (simp add: Records_def Let_def)
  then show ?thesis using assms(1) verify_hash_lengths unfolding readable_def journal_ok_def by blast
qed

lemma restart_evolves:
  assumes "sound env c" "se_sha env' = se_sha env" "se_enc env' = se_enc env"
    and n: "NewCore env' (core_store c) = Inr c'"
  shows "evolves c c' \<and> sound env c'"
proof -
  have j: "journal_ok env' (control_records (core_store c))"
    using assms(1-3) by (simp add: sound_def store_ok_def journal_ok_def)
  obtain rs qs where rs: "control_records (core_store c) = rs @ qs"
      and b: "apply_batch (emptyCore (core_store c)) rs = (c, None)"
    using assms(1) by (auto simp: sound_def replayed_def)
  have "apply_batch (emptyCore (core_store c)) (rs @ qs) = (c', None)"
    using n NewCore_batch [OF NewCore_readable [OF j n]] rs
    by (auto simp: NewCore_def split: prod.splits option.splits)
  then have q: "apply_batch c qs = (c', None)" using b by (simp add: apply_batch_append)
  have st: "core_store c' = core_store c" using apply_batch_frame [of c qs] q by simp
  have "evolves c c'" using evolves_batch [OF evolves_refl, of c qs] q by simp
  moreover have "replayed c'"
    unfolding replayed_def using st rs q b by (intro exI [of _ "rs @ qs"] exI [of _ "[]"]) (simp add: apply_batch_append)
  ultimately show ?thesis using assms(1) st by (simp add: sound_def)
qed

section \<open>The invariant\<close>

definition plain :: "(bytes \<Rightarrow> bytes) \<Rightarrow> (payload \<Rightarrow> bytes) \<Rightarrow> payload store_env" where
  "plain sha enc = \<lparr>se_sha = sha, se_enc = enc, se_fault = (\<lambda>_. None), se_db = (\<lambda>_. None), se_now = 0\<rparr>"

lemma sound_plain: "hashes_with sha enc env \<Longrightarrow> sound env = sound (plain sha enc)"
  by (rule ext) (simp add: sound_def store_ok_def journal_ok_def hashes_with_def plain_def)

lemma hash32_plain: "hashes_with sha enc env \<Longrightarrow> hash32 env = (\<forall>x. length (sha x) = 32)"
  by (simp add: hash32_def hashes_with_def)

context mutation
begin

lemma frames_plain:
  assumes "runs_with sha enc env" "\<forall>x. length (sha x) = 32" "sound (plain sha enc) c"
  shows "sound (plain sha enc) (fst (transact env namespace key request tx finish c))"
    "sound (plain sha enc) (fst (runMutation env namespace key request tx finish c))"
  using transact_sound [of c] runMutation_sound [of c] assms sound_plain hash32_plain by metis+

end

lemmas operations_sound = acquire.frames_plain renew.frames_plain transition_agent.frames_plain
  bind_agent_plan.frames_plain create_exec.frames_plain transition_exec.frames_plain finalize_exec.frames_plain
  create_target.frames_plain start_run.frames_plain create_operation.frames_plain target_mutation.frames_plain
  quarantine.frames_plain finalize_run.frames_plain begin_release.frames_plain begin_expiry.frames_plain
  complete_release.frames_plain complete_termination.frames_plain create_incident.frames_plain
  transition_incident.frames_plain seal_incidents.frames_plain recover_incident.frames_plain

lemma step_evolves_or_restarts:
  "core_step sha enc c c' \<Longrightarrow>
     evolves c c' \<or> (\<exists>senv. hashes_with sha enc senv \<and> NewCore senv (core_store c) = Inr c')"
proof (induction rule: core_step.induct)
  case (restart_step senv c c')
  then show ?case by blast
qed (auto simp: operation_defs Let_def validated_fst split_beta
    intro: runMutation_evolves transact_evolves evolves_sync)

lemma step_sound:
  assumes "core_step sha enc c c'" "\<forall>x. length (sha x) = 32" "sound (plain sha enc) c"
  shows "sound (plain sha enc) c'"
  using assms
proof (induction rule: core_step.induct)
  case (read_step c senv)
  then show ?case by (simp add: sound_sync)
next
  case (restart_step senv c c')
  then show ?case using restart_evolves [of "plain sha enc" c senv c'] by (simp add: hashes_with_def plain_def)
qed (simp_all add: operation_defs Let_def validated_fst split_beta operations_sound)

lemma reachable_sound:
  assumes "reachable sha enc c" "\<forall>x. length (sha x) = 32"
  shows "sound (plain sha enc) c"
  using assms
proof (induction rule: reachable.induct)
  case (boot senv c)
  have "sound (plain sha enc) (emptyCore emptyStore)"
    by (simp add: sound_def store_ok_def journal_ok_def snapshots_current_def emptyCore_def emptyStore_def
        contiguous_def sequenced_def revisions_of_def replayed_empty [unfolded emptyCore_def])
  then have "sound (plain sha enc) (fst (syncLocked senv (emptyCore emptyStore)))" by (rule sound_sync)
  then show ?case using boot.hyps(2) by (auto simp: NewCore_def split: prod.splits option.splits)
next
  case (step c c')
  then show ?case using step_sound by blast
qed

section \<open>The theorems\<close>

text \<open>
  C2. The invariant of the running system.  Whatever operations run, in whatever order, with
  whatever clocks, request contents, injected faults and database failures, and across restarts:
  the projection is coherent and is exactly the replay of a prefix of its own journal, the hash
  chain of the journal verifies with revisions of every aggregate counting 1, 2, 3, and each
  snapshot is the payload of its aggregate's latest revision.
\<close>

theorem reachable_invariant:
  assumes "reachable sha enc c" "\<forall>x. length (sha x) = 32"
  shows "coherent c \<and> replayed c \<and> Verify (plain sha enc) (core_store c) = None \<and>
    contiguous (control_records (core_store c)) \<and> sequenced (control_records (core_store c)) \<and>
    snapshots_current (core_store c)"
  using reachable_sound [OF assms] replayed_coherent
  by (auto simp: sound_def store_ok_def journal_ok_def Verify_def plain_def)

lemma steps_evolve:
  assumes "(core_step sha enc)\<^sup>*\<^sup>* c c'" "sound (plain sha enc) c" "\<forall>x. length (sha x) = 32"
  shows "evolves c c' \<and> sound (plain sha enc) c'"
  using assms
proof (induction rule: rtranclp_induct)
  case (step d e)
  then have d: "evolves c d" "sound (plain sha enc) d" by blast+
  have "evolves d e"
    using step_evolves_or_restarts [OF step.hyps(2)] restart_evolves [OF d(2), of _ e]
    by (auto simp: hashes_with_def plain_def)
  then show ?case using d evolves_trans step_sound [OF step.hyps(2) step.prems(2) d(2)] by blast
qed simp

lemma sound_keyed: "sound env c \<Longrightarrow> keyed_tables c"
  using replayed_coherent by (simp add: sound_def coherent_def)

lemma lease_history:
  assumes "(core_step sha enc)\<^sup>*\<^sup>* c c'" "sound (plain sha enc) c" "\<forall>x. length (sha x) = 32"
    and "tbl_get (core_leases c) k = Some l"
  obtains l' where "tbl_get (core_leases c') k = Some l'" "lease_step\<^sup>*\<^sup>* l l'"
  using leases.evolves_history [of c c'] steps_evolve [OF assms(1-3)] sound_keyed [OF assms(2)] assms(4) that
  unfolding succeeds_def keyed_tables_def by blast

lemma incident_history:
  assumes "(core_step sha enc)\<^sup>*\<^sup>* c c'" "sound (plain sha enc) c" "\<forall>x. length (sha x) = 32"
    and "tbl_get (core_incidents c) k = Some i"
  obtains i' where "tbl_get (core_incidents c') k = Some i'" "incident_step\<^sup>*\<^sup>* i i'"
  using incidents.evolves_history [of c c'] steps_evolve [OF assms(1-3)] sound_keyed [OF assms(2)] assms(4) that
  unfolding succeeds_def keyed_tables_def by blast

lemma agent_history:
  assumes "(core_step sha enc)\<^sup>*\<^sup>* c c'" "sound (plain sha enc) c" "\<forall>x. length (sha x) = 32"
    and "tbl_get (core_agents c) k = Some a"
  obtains a' where "tbl_get (core_agents c') k = Some a'" "agent_step\<^sup>*\<^sup>* a a'"
  using agents.evolves_history [of c c'] steps_evolve [OF assms(1-3)] sound_keyed [OF assms(2)] assms(4) that
  unfolding succeeds_def keyed_tables_def by blast

lemma exec_history:
  assumes "(core_step sha enc)\<^sup>*\<^sup>* c c'" "sound (plain sha enc) c" "\<forall>x. length (sha x) = 32"
    and "tbl_get (core_execs c) k = Some e"
  obtains e' where "tbl_get (core_execs c') k = Some e'" "exec_step\<^sup>*\<^sup>* e e'"
  using execs.evolves_history [of c c'] steps_evolve [OF assms(1-3)] sound_keyed [OF assms(2)] assms(4) that
  unfolding succeeds_def keyed_tables_def by blast

lemma target_history:
  assumes "(core_step sha enc)\<^sup>*\<^sup>* c c'" "sound (plain sha enc) c" "\<forall>x. length (sha x) = 32"
    and "tbl_get (core_targets c) k = Some t"
  obtains t' where "tbl_get (core_targets c') k = Some t'" "target_step\<^sup>*\<^sup>* t t'"
  using targets.evolves_history [of c c'] steps_evolve [OF assms(1-3)] sound_keyed [OF assms(2)] assms(4) that
  unfolding succeeds_def keyed_tables_def by blast

text \<open>
  The histories below start in any core with that invariant.
\<close>

text \<open>
  C10. A lease whose termination has completed is final: no later sequence of operations, restarts
  included, changes any field of it.
\<close>

theorem terminated_lease_is_final:
  assumes "sound (plain sha enc) c" "\<forall>x. length (sha x) = 32" "(core_step sha enc)\<^sup>*\<^sup>* c c'"
    and "tbl_get (core_leases c) k = Some l" and t: "LeaseTermination_Terminal (lea_Termination l)"
  shows "tbl_get (core_leases c') k = Some l"
  using assms(3,1,2,4)
proof (rule lease_history)
  fix l' assume "tbl_get (core_leases c') k = Some l'" "lease_step\<^sup>*\<^sup>* l l'"
  then show ?thesis using terminal_lease_stuck [OF t] by (metis converse_rtranclpE)
qed

text \<open>
  C11. A lease never moves backwards: along every sequence of operations its identity and pins stay,
  its expiry, generation, revision and update time only grow, and once a termination has begun its
  kind, reason, initiating request and time are fixed, with the expiry and the generation frozen.
\<close>

theorem lease_only_advances:
  assumes "sound (plain sha enc) c" "\<forall>x. length (sha x) = 32" "(core_step sha enc)\<^sup>*\<^sup>* c c'"
    and "tbl_get (core_leases c) k = Some l"
  shows "\<exists>l'. tbl_get (core_leases c') k = Some l' \<and> lease_monotone l l'"
  using assms(3,1,2,4) by (rule lease_history) (use lease_history_monotone in blast)

text \<open>
  C12. Incident evidence is append-only until it is sealed and frozen afterwards: no sequence of
  operations drops an artifact, rebinds a bundle, changes the identity of an incident, or alters the
  evidence of an incident that has left the open state, to which it can never return.
\<close>

theorem incident_evidence_frozen:
  assumes "sound (plain sha enc) c" "\<forall>x. length (sha x) = 32" "(core_step sha enc)\<^sup>*\<^sup>* c c'"
    and "tbl_get (core_incidents c) k = Some i"
  shows "\<exists>i'. tbl_get (core_incidents c') k = Some i' \<and> evidence_frozen i i'"
  using assms(3,1,2,4) by (rule incident_history) (use incident_history_frozen in blast)

text \<open>Generation histories are append-only, and a bound plan stays.\<close>

definition plan_kept :: "AgentGenerationRecord \<Rightarrow> AgentGenerationRecord \<Rightarrow> bool" where
  "plan_kept g g' \<longleftrightarrow> agn_Generation g' = agn_Generation g \<and> agn_WorkspaceID g' = agn_WorkspaceID g \<and>
     (agentProvisioningBindingEmpty g \<or> sameAgentProvisioningBinding g g')"

definition plans_kept :: "AgentWorkspaceRecord \<Rightarrow> AgentWorkspaceRecord \<Rightarrow> bool" where
  "plans_kept a a' \<longleftrightarrow> length (agt_Generations a) \<le> length (agt_Generations a') \<and>
     (\<forall>i < length (agt_Generations a). plan_kept (agt_Generations a ! i) (agt_Generations a' ! i))"

lemma plan_kept_trans: "plan_kept g h \<Longrightarrow> plan_kept h k \<Longrightarrow> plan_kept g k"
  by (auto simp: plan_kept_def sameAgentProvisioningBinding_def agentProvisioningBindingEmpty_def)

lemma plans_kept_trans: "plans_kept a b \<Longrightarrow> plans_kept b d \<Longrightarrow> plans_kept a d"
  unfolding plans_kept_def using plan_kept_trans order_less_le_trans order_trans by blast

lemma agent_generation_step_kept: "agent_generation_step g g' \<Longrightarrow> plan_kept g g'"
  by (auto simp: agent_generation_step_def plan_kept_def)

lemma agent_history_plans: "agent_step\<^sup>*\<^sup>* a a' \<Longrightarrow> plans_kept a a'"
proof (induction rule: rtranclp_induct)
  case base
  show ?case by (simp add: plans_kept_def plan_kept_def sameAgentProvisioningBinding_def)
next
  case (step b d)
  have "plans_kept b d"
    using step.hyps(2) agent_generation_step_kept unfolding agent_step_def plans_kept_def by blast
  with step.IH show ?case by (rule plans_kept_trans)
qed

text \<open>
  C13. The generations of an agent workspace are append-only, and the provisioning plan bound to a
  generation, with its workspace and agent keys, is write-once.
\<close>

theorem agent_plan_write_once:
  assumes "sound (plain sha enc) c" "\<forall>x. length (sha x) = 32" "(core_step sha enc)\<^sup>*\<^sup>* c c'"
    and "tbl_get (core_agents c) k = Some a"
  shows "\<exists>a'. tbl_get (core_agents c') k = Some a' \<and> plans_kept a a'"
  using assms(3,1,2,4) by (rule agent_history) (use agent_history_plans in blast)

text \<open>Finished work stays finished.\<close>

lemma exec_history_terminal:
  "exec_step\<^sup>*\<^sup>* e e' \<Longrightarrow> ExecState_Terminal (exe_State e) \<Longrightarrow> exe_State e' = exe_State e"
  by (induction rule: rtranclp_induct) (auto simp: exec_step_def Exec_machine.absorbing)

definition run_kept :: "TargetRunRecord \<Rightarrow> TargetRunRecord \<Rightarrow> bool" where
  "run_kept r r' \<longleftrightarrow> run_ID r' = run_ID r \<and> run_Generation r' = run_Generation r \<and>
     run_MaterializationDigest r' = run_MaterializationDigest r \<and>
     (TargetRunState_Terminal (run_State r) \<longrightarrow> run_State r' = run_State r)"

definition runs_kept :: "TargetRecord \<Rightarrow> TargetRecord \<Rightarrow> bool" where
  "runs_kept t t' \<longleftrightarrow> (\<forall>r \<in> set (tgt_Runs t). \<exists>r' \<in> set (tgt_Runs t'). run_kept r r')"

lemma run_step_kept: "run_step r r' \<Longrightarrow> run_kept r r'"
  by (auto simp: run_step_def run_kept_def nested_step_def TargetRun_machine.absorbing)

lemma target_history_runs: "target_step\<^sup>*\<^sup>* t t' \<Longrightarrow> runs_kept t t'"
proof (induction rule: rtranclp_induct)
  case base
  show ?case by (auto simp: runs_kept_def run_kept_def)
next
  case (step u v)
  have "\<exists>r' \<in> set (tgt_Runs v). run_step r r'" if "r \<in> set (tgt_Runs u)" for r
    using step.hyps(2) that by (simp add: target_step_def)
  then have uv: "runs_kept u v" using run_step_kept unfolding runs_kept_def by blast
  show ?case unfolding runs_kept_def
  proof
    fix r assume "r \<in> set (tgt_Runs t)"
    then obtain q where q: "q \<in> set (tgt_Runs u)" "run_kept r q" using step.IH by (auto simp: runs_kept_def)
    then obtain p where "p \<in> set (tgt_Runs v)" "run_kept q p" using uv by (auto simp: runs_kept_def)
    then show "\<exists>p \<in> set (tgt_Runs v). run_kept r p" using q(2) by (auto simp: run_kept_def)
  qed
qed

text \<open>
  C14. Finished work stays finished: along every sequence of operations no run of a target disappears
  or changes its generation or materialisation, and a run or an exec in a terminal state keeps it.
\<close>

theorem finished_work_stays_finished:
  assumes "sound (plain sha enc) c" "\<forall>x. length (sha x) = 32" "(core_step sha enc)\<^sup>*\<^sup>* c c'"
  shows "(tbl_get (core_execs c) k = Some e \<and> ExecState_Terminal (exe_State e) \<longrightarrow>
      (\<exists>e'. tbl_get (core_execs c') k = Some e' \<and> exe_State e' = exe_State e)) \<and>
    (tbl_get (core_targets c) k = Some t \<longrightarrow> (\<exists>t'. tbl_get (core_targets c') k = Some t' \<and> runs_kept t t'))"
proof (intro conjI impI)
  assume e: "tbl_get (core_execs c) k = Some e \<and> ExecState_Terminal (exe_State e)"
  from assms(3,1,2) e [THEN conjunct1] show "\<exists>e'. tbl_get (core_execs c') k = Some e' \<and> exe_State e' = exe_State e"
    by (rule exec_history) (use exec_history_terminal e in blast)
next
  assume "tbl_get (core_targets c) k = Some t"
  from assms(3,1,2) this show "\<exists>t'. tbl_get (core_targets c') k = Some t' \<and> runs_kept t t'"
    by (rule target_history) (use target_history_runs in blast)
qed

end
