(* ===== verification/App_Progress.thy ===== *)
theory App_Progress
  imports App_System
begin

text \<open>
  Progress: when an operation of the core succeeds, and that what it commits is accepted by the
  synchronisation that follows.  The frame lemmas reduce this to two facts about a handler: which
  records it appends, and that the projection validators accept them.
\<close>

section \<open>Revisions in the journal and in the projection\<close>

text \<open>
  For an aggregate kind, the latest revision in the journal is the revision of the entry of the
  projection, and 0 when there is none.
\<close>

definition tracks :: "string \<Rightarrow> ('v \<Rightarrow> uint64) \<Rightarrow> 'v table \<Rightarrow> payload ControlRecord list \<Rightarrow> bool" where
  "tracks kind revision t rs \<longleftrightarrow>
     (\<forall>i. latest_revision rs (kind, i) = (case tbl_get t i of None \<Rightarrow> 0 | Some v \<Rightarrow> revision v))"

locale journalled = aggregate entries ident step
  for entries :: "Core \<Rightarrow> 'v table" and ident and step +
  fixes kind :: string and revision :: "'v \<Rightarrow> uint64"
  assumes applied: "apply_record c r = Inr c' \<Longrightarrow>
      (if cr_AggregateKind r = kind
       then (\<exists>v. entries c' = tbl_put (cr_AggregateID r) v (entries c) \<and> ident v = cr_AggregateID r \<and> revision v = cr_Revision r)
       else entries c' = entries c)"
    and revision_grows: "step v w \<Longrightarrow> revision v \<le> revision w"
begin

lemma tracks_snoc:
  assumes "tracks kind revision (entries c) rs" "keyed ident (entries c)" "apply_record c r = Inr c'"
  shows "tracks kind revision (entries c') (rs @ [r])"
proof (cases "cr_AggregateKind r = kind")
  case False
  then show ?thesis
    using assms(1) applied [OF assms(3)] by (auto simp: tracks_def latest_revision_snoc aggregate_of_def)
next
  case True
  then obtain v where v: "entries c' = tbl_put (cr_AggregateID r) v (entries c)" "ident v = cr_AggregateID r"
      "revision v = cr_Revision r"
    using applied [OF assms(3)] by auto
  have "latest_revision rs (kind, cr_AggregateID r) \<le> cr_Revision r"
  proof (cases "tbl_get (entries c) (cr_AggregateID r)")
    case None
    then show ?thesis using assms(1) by (simp add: tracks_def)
  next
    case (Some p)
    have "p = v \<or> step p v"
      using record_succeeds [OF assms(2,3), unfolded succeeds_def, rule_format, OF Some] v(1) by auto
    then have "revision p \<le> revision v" using revision_grows by auto
    then show ?thesis using assms(1) [unfolded tracks_def, rule_format, of "cr_AggregateID r"] Some v(3) by simp
  qed
  then show ?thesis using assms(1) v True
    by (auto simp: tracks_def latest_revision_snoc aggregate_of_def max_def)
qed

lemma tracks_batch:
  assumes "apply_batch (emptyCore s) rs = (c, None)" "entries (emptyCore s) = []"
  shows "tracks kind revision (entries c) rs"
  using assms(1)
proof (induction rs arbitrary: c rule: rev_induct)
  case Nil
  then show ?case using assms(2) by (simp add: tracks_def latest_revision_def)
next
  case (snoc r rs)
  obtain d where d: "apply_batch (emptyCore s) rs = (d, None)" and r: "apply_batch d [r] = (c, None)"
    using snoc.prems by (auto simp: apply_batch_append split: prod.splits option.splits)
  obtain c' where c': "apply_record d r = Inr c'" "c = c'\<lparr>core_lastSequence := cr_Sequence r\<rparr>"
    using r by (auto split: sum.splits)
  have "keyed ident (entries d)"
    using evolves_history [of "emptyCore s" d] evolves_batch [OF evolves_refl, of "emptyCore s" rs] d assms(2) by simp
  then show ?case using tracks_snoc [OF snoc.IH [OF d] _ c'(1)] c'(2) by (simp add: sequence_irrelevant)
qed

end

interpretation sessions_log: journalled core_sessions ses_ID session_step "''session''" ses_Revision
  by unfold_locales
    (auto elim!: apply_record_cases simp: session_step_def revision_step_def word_le_nat_alt)

interpretation leases_log: journalled core_leases lea_ID lease_step "''lease''" lea_Revision
  by unfold_locales
    (auto elim!: apply_record_cases simp: lease_step_def revision_step_def word_le_nat_alt)

interpretation agents_log: journalled core_agents agt_ID agent_step "''agent_workspace''" agt_Revision
  by unfold_locales
    (auto elim!: apply_record_cases simp: agent_step_def revision_step_def word_le_nat_alt)

interpretation execs_log: journalled core_execs exe_ID exec_step "''exec''" exe_Revision
  by unfold_locales
    (auto elim!: apply_record_cases simp: exec_step_def revision_step_def word_le_nat_alt)

interpretation targets_log: journalled core_targets tgt_ID target_step "''target''" tgt_Revision
  by unfold_locales
    (auto elim!: apply_record_cases simp: target_step_def revision_step_def word_le_nat_alt)

interpretation incidents_log: journalled core_incidents inc_ID incident_step "''incident''" inc_Revision
  by unfold_locales
    (auto elim!: apply_record_cases simp: incident_step_def revision_step_def word_le_nat_alt)

section \<open>A core in step with its store\<close>

definition synced :: "payload store_env \<Rightarrow> Core \<Rightarrow> bool" where
  "synced env c \<longleftrightarrow> store_ok env (core_store c) \<and>
     apply_batch (emptyCore (core_store c)) (control_records (core_store c)) = (c, None)"

lemma synced_sound: "synced env c \<Longrightarrow> sound env c"
  unfolding synced_def sound_def replayed_def by (metis append_Nil2)

lemma synced_coherent: "synced env c \<Longrightarrow> coherent c"
  using synced_sound replayed_coherent by (auto simp: sound_def)

lemma synced_tracks:
  assumes "synced env c"
  shows "tracks ''session'' ses_Revision (core_sessions c) (control_records (core_store c))"
    "tracks ''lease'' lea_Revision (core_leases c) (control_records (core_store c))"
    "tracks ''agent_workspace'' agt_Revision (core_agents c) (control_records (core_store c))"
    "tracks ''exec'' exe_Revision (core_execs c) (control_records (core_store c))"
    "tracks ''target'' tgt_Revision (core_targets c) (control_records (core_store c))"
    "tracks ''incident'' inc_Revision (core_incidents c) (control_records (core_store c))"
  using assms sessions_log.tracks_batch leases_log.tracks_batch agents_log.tracks_batch execs_log.tracks_batch
    targets_log.tracks_batch incidents_log.tracks_batch
  by (auto simp: synced_def emptyCore_def)

text \<open>The surroundings of a call in which nothing fails.\<close>

definition serviceable :: "payload store_env \<Rightarrow> bool" where
  "serviceable env \<longleftrightarrow> healthy env \<and> hash32 env \<and> (\<forall>p. se_enc env p \<noteq> [])"

lemma store_ok_readable: "store_ok env s \<Longrightarrow> healthy env \<Longrightarrow> readable env (control_records s)"
  using verify_hash_lengths [of "se_sha env" "se_enc env" zero_hash "control_records s"]
  by (simp add: store_ok_def journal_ok_def readable_def healthy_def)

lemma synced_last:
  assumes "synced env c"
  shows "core_lastSequence c = last_sequence (control_records (core_store c))"
  using apply_batch_last [of "emptyCore (core_store c)" "control_records (core_store c)" c] assms
  by (simp add: synced_def emptyCore_def last_sequence_def)

lemma synced_last_nonneg: "synced env c \<Longrightarrow> 0 \<le> core_lastSequence c"
  using synced_last [of env c]
  by (auto simp: synced_def store_ok_def journal_ok_def sequenced_def last_sequence_def less_imp_le)

text \<open>Synchronising applies exactly the records the store gained.\<close>

lemma sync_gained:
  assumes "synced env c" "healthy env" "store_ok env t" "control_records t = control_records (core_store c) @ rs"
    and "apply_batch c rs = (c', None)"
  shows "syncLocked env (c\<lparr>core_store := t\<rparr>) = (c'\<lparr>core_store := t\<rparr>, None)" "synced env (c'\<lparr>core_store := t\<rparr>)"
proof -
  have "sequenced (control_records (core_store c) @ rs)" using assms(3,4) by (simp add: store_ok_def journal_ok_def)
  then have new: "newer (core_lastSequence c) (control_records t) = rs"
    using newer_suffix synced_last [OF assms(1)] assms(4) by simp
  have b: "apply_batch (c\<lparr>core_store := t\<rparr>) rs = (c'\<lparr>core_store := t\<rparr>, None)"
    using assms(5) by (simp add: apply_batch_store)
  then show "syncLocked env (c\<lparr>core_store := t\<rparr>) = (c'\<lparr>core_store := t\<rparr>, None)"
    using syncLocked_one_pass_aux [of env "c\<lparr>core_store := t\<rparr>"] store_ok_readable [OF assms(3,2)]
      synced_last_nonneg [OF assms(1)] new by simp
  have "apply_batch (emptyCore t) (control_records (core_store c)) = (c\<lparr>core_store := t\<rparr>, None)"
    using assms(1) apply_batch_store [where c = "emptyCore (core_store c)" and s = t]
    by (simp add: synced_def emptyCore_store [of t "core_store c"])
  then show "synced env (c'\<lparr>core_store := t\<rparr>)"
    using assms(3,4) b by (simp add: synced_def apply_batch_append)
qed

lemma sync_idle: "synced env c \<Longrightarrow> healthy env \<Longrightarrow> syncLocked env c = (c, None)"
  using sync_gained(1) [of env c "core_store c" "[]" c] by (simp add: synced_def)

section \<open>Drafts\<close>

text \<open>
  What a handler hands to \<open>appendControl\<close>.  \<open>accept\<close> is the acceptance of a sequence of drafts by the
  projection: each carries the next revision of its aggregate and passes replay.
\<close>

record draft =
  dr_kind :: string
  dr_id :: string
  dr_event :: string
  dr_revision :: uint64
  dr_payload :: payload

definition envelope :: "draft \<Rightarrow> payload ControlRecord" where
  "envelope d = \<lparr>cr_Sequence = 0, cr_AggregateKind = dr_kind d, cr_AggregateID = dr_id d, cr_Revision = dr_revision d,
     cr_Kind = dr_event d, cr_Payload = dr_payload d, cr_AcceptedAt = zero_time, cr_PreviousHash = [], cr_Hash = []\<rparr>"

definition revision_in :: "('v \<Rightarrow> uint64) \<Rightarrow> 'v table \<Rightarrow> string \<Rightarrow> uint64" where
  "revision_in revision t i = (case tbl_get t i of None \<Rightarrow> 0 | Some v \<Rightarrow> revision v)"

definition current_revision :: "Core \<Rightarrow> string \<Rightarrow> string \<Rightarrow> uint64" where
  "current_revision c kind i =
    (if kind = ''session'' then revision_in ses_Revision (core_sessions c) i
     else if kind = ''lease'' then revision_in lea_Revision (core_leases c) i
     else if kind = ''agent_workspace'' then revision_in agt_Revision (core_agents c) i
     else if kind = ''exec'' then revision_in exe_Revision (core_execs c) i
     else if kind = ''target'' then revision_in tgt_Revision (core_targets c) i
     else revision_in inc_Revision (core_incidents c) i)"

fun accept :: "Core \<Rightarrow> draft list \<Rightarrow> Core option" where
  "accept c [] = Some c"
| "accept c (d # ds) =
    (if dr_id d \<noteq> [] \<and> dr_event d \<noteq> [] \<and> dr_revision d \<noteq> 0 \<and>
        dr_revision d = current_revision c (dr_kind d) (dr_id d) + 1
     then (case apply_record c (envelope d) of Inl _ \<Rightarrow> None | Inr c' \<Rightarrow> accept c' ds)
     else None)"

fun append_all :: "payload store_env \<Rightarrow> draft list \<Rightarrow> store \<Rightarrow> store result" where
  "append_all env [] s = Inr s"
| "append_all env (d # ds) s =
     bind_r (appendControl env (dr_kind d) (dr_id d) (dr_event d) (dr_revision d) (dr_payload d) s) (append_all env ds)"

lemma append_all_extends: "append_all env ds s = Inr u \<Longrightarrow> extends env s u"
proof (induction ds arbitrary: s)
  case (Cons d ds)
  then obtain t where "appendControl env (dr_kind d) (dr_id d) (dr_event d) (dr_revision d) (dr_payload d) s = Inr t"
      "append_all env ds t = Inr u"
    by (auto simp: bind_r_Inr)
  then show ?case using Cons.IH extends_append [OF extends_refl] extends_trans by blast
qed simp

subsection \<open>Replay reads only the draft\<close>

definition relocated :: "store \<Rightarrow> int \<Rightarrow> Core \<Rightarrow> Core" where
  "relocated s n c = c\<lparr>core_store := s, core_lastSequence := n\<rparr>"

lemma relocated_tables [simp]:
  "core_sessions (relocated s n c) = core_sessions c" "core_leases (relocated s n c) = core_leases c"
  "core_agents (relocated s n c) = core_agents c" "core_execs (relocated s n c) = core_execs c"
  "core_targets (relocated s n c) = core_targets c" "core_incidents (relocated s n c) = core_incidents c"
  "core_store (relocated s n c) = s" "core_lastSequence (relocated s n c) = n"
  "relocated t m (relocated s n c) = relocated t m c" "(relocated s n c)\<lparr>core_store := t\<rparr> = relocated t n c"
  by (simp_all add: relocated_def)

lemma relocated_same: "relocated (core_store c) (core_lastSequence c) c = (c :: Core)"
  by (simp add: relocated_def)

lemma validators_sequence [simp]:
  "validateReplaySessionProjection (c\<lparr>core_lastSequence := n\<rparr>) = validateReplaySessionProjection c"
  "validateReplayLeaseProjection (c\<lparr>core_lastSequence := n\<rparr>) = validateReplayLeaseProjection c"
  "validateReplayAgentWorkspaceProjection (c\<lparr>core_lastSequence := n\<rparr>) = validateReplayAgentWorkspaceProjection c"
  "validateReplayExecProjection (c\<lparr>core_lastSequence := n\<rparr>) = validateReplayExecProjection c"
  "validateReplayTargetProjection (c\<lparr>core_lastSequence := n\<rparr>) = validateReplayTargetProjection c"
  "validateReplayIncidentProjection (c\<lparr>core_lastSequence := n\<rparr>) = validateReplayIncidentProjection c"
  by (rule ext; simp add: validateReplaySessionProjection_def validateReplayLeaseProjection_def
      validateReplayAgentWorkspaceProjection_def validateReplayExecProjection_def exec_resolves_def
      exec_incident_linked_def validateReplayTargetProjection_def target_resolves_def run_resolves_def
      run_incident_linked_def validateReplayIncidentProjection_def cong: option.case_cong)+

lemma apply_record_relocated:
  "apply_record (relocated s n c) r =
     (case apply_record c r of Inl e \<Rightarrow> Inl e | Inr c' \<Rightarrow> Inr (relocated s n c'))"
  by (simp add: relocated_def apply_record_def bind_r_def split: sum.splits)

lemma current_revision_relocated [simp]: "current_revision (relocated s n c) = current_revision c"
  by (rule ext)+ (simp add: current_revision_def)

lemma accept_relocated: "accept (relocated s n c) ds = map_option (relocated s n) (accept c ds)"
  by (induction ds arbitrary: c) (auto simp: apply_record_relocated split: sum.splits)

lemma decodeReplayAggregate_cong:
  assumes "cr_AggregateID r = cr_AggregateID q" "cr_Revision r = cr_Revision q" "cr_Payload r = cr_Payload q"
  shows "decodeReplayAggregate dec r ident validate = decodeReplayAggregate dec q ident validate"
  unfolding decodeReplayAggregate_def assms ..

lemma apply_record_envelope:
  assumes "aggregate_of r = (dr_kind d, dr_id d)" "cr_Revision r = dr_revision d" "cr_Payload r = dr_payload d"
  shows "apply_record c r = apply_record c (envelope d)"
proof -
  have k: "cr_AggregateKind r = cr_AggregateKind (envelope d)" and
      f: "cr_AggregateID r = cr_AggregateID (envelope d)" "cr_Revision r = cr_Revision (envelope d)"
        "cr_Payload r = cr_Payload (envelope d)"
    using assms by (simp_all add: envelope_def aggregate_of_def)
  show ?thesis unfolding apply_record_def k decodeReplayAggregate_cong [OF f] ..
qed

lemma accept_store: "accept c ds = Some c' \<Longrightarrow> core_store c' = core_store c"
  by (induction ds arbitrary: c) (auto simp: apply_record_frame split: if_splits sum.splits)

lemma known_kind:
  assumes "apply_record c (envelope d) = Inr c'"
  shows "dr_kind d \<in> {''session'', ''lease'', ''agent_workspace'', ''exec'', ''target'', ''incident''}"
  using assms by (auto simp: apply_record_def envelope_def split: if_splits)

lemma synced_revision:
  assumes "synced env c" "apply_record c (envelope d) = Inr c'"
  shows "latest_revision (control_records (core_store c)) (dr_kind d, i) = current_revision c (dr_kind d) i"
  using synced_tracks [OF assms(1)] known_kind [OF assms(2)]
  unfolding tracks_def current_revision_def revision_in_def by auto

subsection \<open>Accepted drafts are committed and replayed\<close>

lemma appendControl_ok:
  assumes "serviceable env" "kind \<noteq> []" "i \<noteq> []" "event \<noteq> []" "revision \<noteq> 0"
    and "revision = latest_revision (control_records s) (kind, i) + 1"
  shows "\<exists>u. appendControl env kind i event revision payload s = Inr u"
  using assms
  by (simp add: appendControl_def bind_r_def AppendControl_def PutSnapshot_def Let_def checked_def aggregate_of_def
      serviceable_def healthy_def fail_if_def)

lemma accept_one:
  assumes "serviceable env" "synced env c" "dr_id d \<noteq> []" "dr_event d \<noteq> []" "dr_revision d \<noteq> 0"
    and "dr_revision d = current_revision c (dr_kind d) (dr_id d) + 1"
    and a: "apply_record c (envelope d) = Inr c'"
  obtains u r where "appendControl env (dr_kind d) (dr_id d) (dr_event d) (dr_revision d) (dr_payload d) (core_store c) = Inr u"
    "control_records u = control_records (core_store c) @ [r]" "idempotency u = idempotency (core_store c)"
    "apply_batch c [r] = (c'\<lparr>core_lastSequence := cr_Sequence r\<rparr>, None)" "synced env (relocated u (cr_Sequence r) c')"
proof -
  have "dr_revision d = latest_revision (control_records (core_store c)) (dr_kind d, dr_id d) + 1"
    using assms(6) synced_revision [OF assms(2) a] by simp
  moreover have "dr_kind d \<noteq> []" using known_kind [OF a] by auto
  ultimately obtain u where u: "appendControl env (dr_kind d) (dr_id d) (dr_event d) (dr_revision d) (dr_payload d)
      (core_store c) = Inr u"
    using appendControl_ok [OF assms(1)] assms(3-5) by blast
  then obtain r where r: "control_records u = control_records (core_store c) @ [r]" "idempotency u = idempotency (core_store c)"
      "aggregate_of r = (dr_kind d, dr_id d)" "cr_Revision r = dr_revision d" "cr_Payload r = dr_payload d"
    by (rule appendControl_Inr) auto
  have b: "apply_batch c [r] = (c'\<lparr>core_lastSequence := cr_Sequence r\<rparr>, None)"
    using apply_record_envelope [OF r(3-5), of c] a by simp
  have ok: "store_ok env u"
    using extends_store_ok [OF extends_append [OF extends_refl u]] assms(1,2) by (simp add: synced_def serviceable_def hash32_def)
  have h: "healthy env" using assms(1) by (simp add: serviceable_def)
  have eq: "c'\<lparr>core_lastSequence := cr_Sequence r, core_store := u\<rparr> = relocated u (cr_Sequence r) c'"
    by (simp add: relocated_def)
  have "synced env (relocated u (cr_Sequence r) c')"
    using sync_gained(2) [OF assms(2) h ok r(1) b] unfolding eq .
  with that u r b show thesis by blast
qed

lemma accepted:
  assumes "serviceable env" "synced env c" "accept c ds = Some c'"
  shows "\<exists>u n rs. append_all env ds (core_store c) = Inr u \<and> control_records u = control_records (core_store c) @ rs \<and>
    idempotency u = idempotency (core_store c) \<and> apply_batch c rs = (c'\<lparr>core_lastSequence := n\<rparr>, None) \<and>
    synced env (relocated u n c')"
  using assms(2,3)
proof (induction ds arbitrary: c c')
  case Nil
  then show ?case by (auto intro!: exI [of _ "core_store c"] exI [of _ "core_lastSequence c"] exI [of _ "[]"] simp: relocated_same)
next
  case (Cons d ds)
  let ?s = "core_store c"
  obtain d' where a: "apply_record c (envelope d) = Inr d'" and rest: "accept d' ds = Some c'"
      and ok: "dr_id d \<noteq> []" "dr_event d \<noteq> []" "dr_revision d \<noteq> 0"
        "dr_revision d = current_revision c (dr_kind d) (dr_id d) + 1"
    using Cons.prems(2) by (auto split: if_splits sum.splits)
  obtain t r where t: "appendControl env (dr_kind d) (dr_id d) (dr_event d) (dr_revision d) (dr_payload d) ?s = Inr t"
      "control_records t = control_records ?s @ [r]" "idempotency t = idempotency ?s"
      "apply_batch c [r] = (d'\<lparr>core_lastSequence := cr_Sequence r\<rparr>, None)" "synced env (relocated t (cr_Sequence r) d')"
    using accept_one [OF assms(1) Cons.prems(1) ok a] by blast
  have "accept (relocated t (cr_Sequence r) d') ds = Some (relocated t (cr_Sequence r) c')"
    using rest by (simp add: accept_relocated)
  from Cons.IH [OF t(5) this] obtain u n rs where u: "append_all env ds t = Inr u" "control_records u = control_records t @ rs"
      "idempotency u = idempotency t" "synced env (relocated u n c')"
      and b: "apply_batch (relocated t (cr_Sequence r) d') rs = ((relocated t (cr_Sequence r) c')\<lparr>core_lastSequence := n\<rparr>, None)"
    by auto
  have "apply_batch (d'\<lparr>core_lastSequence := cr_Sequence r\<rparr>) rs = (c'\<lparr>core_lastSequence := n\<rparr>, None)"
  proof -
    let ?d = "d'\<lparr>core_lastSequence := cr_Sequence r\<rparr>" and ?x = "fst (apply_batch (d'\<lparr>core_lastSequence := cr_Sequence r\<rparr>) rs)"
    have s: "core_store c' = core_store d'" using accept_store [OF rest] .
    have e: "?d\<lparr>core_store := t\<rparr> = relocated t (cr_Sequence r) d'" by (simp add: relocated_def)
    have "apply_batch (?d\<lparr>core_store := t\<rparr>) rs = (relocated t n c', None)"
      unfolding e b by (simp add: relocated_def)
    then have x: "?x\<lparr>core_store := t\<rparr> = relocated t n c'" "snd (apply_batch ?d rs) = None"
      unfolding apply_batch_store prod.inject by blast+
    have "?x = ?x\<lparr>core_store := t\<rparr>\<lparr>core_store := core_store d'\<rparr>" using apply_batch_frame [of ?d rs] by simp
    also have "\<dots> = c'\<lparr>core_lastSequence := n\<rparr>" using x(1) s by (simp add: relocated_def)
    finally show ?thesis using x(2) by (simp add: prod_eq_iff)
  qed
  then have "apply_batch c ([r] @ rs) = (c'\<lparr>core_lastSequence := n\<rparr>, None)"
    using t(4) by (simp only: apply_batch_append) simp
  then show ?case using t u by (intro exI [of _ u] exI [of _ n] exI [of _ "[r] @ rs"]) (simp add: bind_r_def)
qed

section \<open>The outcome of a mutation\<close>

text \<open>
  On a synchronised core in surroundings where nothing fails a mutation has three outcomes: a fresh
  key whose transaction appends drafts the projection accepts commits them; a fresh key whose
  transaction fails changes nothing; a known key with the same request replays the stored response.
\<close>

definition idempotency_entry :: "payload store_env \<Rightarrow> bytes \<Rightarrow> response \<Rightarrow> response idempotency_row" where
  "idempotency_entry env request response =
     \<lparr>idem_request_hash = se_sha env request, idem_response = response, idem_created_at = unixNano (se_now env)\<rparr>"

lemma RunIdempotent_commits:
  assumes "healthy env" "map_of (idempotency s) (namespace, key) = None" "namespace \<noteq> []" "key \<noteq> []" "request \<noteq> []"
    and "handler s = Inr (t, Some response)"
  shows "RunIdempotent env namespace key request handler s =
    (t\<lparr>idempotency := AList.update (namespace, key) (idempotency_entry env request response) (idempotency t)\<rparr>, Inr (response, False))"
  using assms by (simp add: RunIdempotent_def healthy_def fail_if_def bind_r_def checked_def idempotency_entry_def)

lemma RunIdempotent_rejects:
  assumes "healthy env" "map_of (idempotency s) (namespace, key) = None" "namespace \<noteq> []" "key \<noteq> []" "request \<noteq> []"
    and "handler s = Inl e"
  shows "RunIdempotent env namespace key request handler s = (s, Inl e)"
  using assms by (simp add: RunIdempotent_def healthy_def fail_if_def bind_r_def checked_def)

definition callable :: "env \<Rightarrow> string \<Rightarrow> string \<Rightarrow> bytes \<Rightarrow> Core \<Rightarrow> bool" where
  "callable env namespace key request c \<longleftrightarrow> serviceable (env_store env) \<and> synced (env_store env) c \<and>
     namespace \<noteq> [] \<and> key \<noteq> [] \<and> request \<noteq> []"

lemma callableD:
  assumes "callable env namespace key request c"
  shows "serviceable (env_store env)" "healthy (env_store env)" "synced (env_store env) c"
    "namespace \<noteq> []" "key \<noteq> []" "request \<noteq> []"
  using assms by (simp_all add: callable_def serviceable_def)

lemma runMutation_transact:
  "callable env namespace key request c \<Longrightarrow>
     runMutation env namespace key request tx finish c = transact env namespace key request tx finish c"
  using sync_idle callableD by (simp add: runMutation_def)

lemma transact_commits:
  assumes call: "callable env namespace key request c"
    and fresh: "map_of (idempotency (core_store c)) (namespace, key) = None"
    and acc: "accept c ds = Some c'"
    and tx: "\<And>u. append_all (env_store env) ds (core_store c) = Inr u \<Longrightarrow> tx c (core_store c) = Inr (u, Some response)"
  shows "\<exists>s n. transact env namespace key request tx finish c = (relocated s n c', finish (relocated s n c') response) \<and>
    synced (env_store env) (relocated s n c') \<and>
    map_of (idempotency s) (namespace, key) = Some (idempotency_entry (env_store env) request response)"
proof -
  let ?env = "env_store env"
  note d = callableD [OF call]
  obtain u n rs where u: "append_all ?env ds (core_store c) = Inr u" "control_records u = control_records (core_store c) @ rs"
      "idempotency u = idempotency (core_store c)" "apply_batch c rs = (c'\<lparr>core_lastSequence := n\<rparr>, None)"
      "synced ?env (relocated u n c')"
    using accepted [OF d(1,3) acc] by blast
  let ?s = "u\<lparr>idempotency := AList.update (namespace, key) (idempotency_entry ?env request response) (idempotency u)\<rparr>"
  have run: "RunIdempotent ?env namespace key request (tx c) (core_store c) = (?s, Inr (response, False))"
    using RunIdempotent_commits [OF d(2) fresh d(4-6), of "tx c"] tx [OF u(1)] by simp
  have ok: "store_ok ?env ?s" and rs: "control_records ?s = control_records (core_store c) @ rs"
    using u(2,5) by (simp_all add: synced_def)
  have e: "c'\<lparr>core_lastSequence := n, core_store := ?s\<rparr> = relocated ?s n c'" by (simp add: relocated_def)
  note g = sync_gained [OF d(3,2) ok rs u(4), unfolded e]
  have "transact env namespace key request tx finish c = (relocated ?s n c', finish (relocated ?s n c') response)"
    using run g(1) by (simp add: transact_def)
  then show ?thesis using g(2) by (intro exI [of _ ?s] exI [of _ n]) (simp add: update_conv')
qed

lemma transact_rejects:
  assumes "callable env namespace key request c" "map_of (idempotency (core_store c)) (namespace, key) = None" "tx c (core_store c) = Inl e"
  shows "transact env namespace key request tx finish c = (c, Inl e)"
  using RunIdempotent_rejects [OF callableD(2) [OF assms(1)] assms(2) callableD(4-6) [OF assms(1)], of "tx c"] assms(3) by (simp add: transact_def)

lemma transact_replays:
  assumes "callable env namespace key request c" "map_of (idempotency (core_store c)) (namespace, key) = Some row"
  shows "transact env namespace key request tx finish c =
    (c, if idem_request_hash row = se_sha (env_store env) request then finish c (idem_response row)
        else Inl ErrIdempotencyConflict)"
  using RunIdempotent_replay [OF assms(2) callableD(2,4-6) [OF assms(1)], of "tx c"] sync_idle [OF callableD(3,2) [OF assms(1)]]
  by (simp add: transact_def)

end
