(* ===== verification/App_Outcomes.thy ===== *)
theory App_Outcomes
  imports App_Progress
begin

text \<open>
  What the operations of the core achieve: under which conditions they succeed, what they then
  commit and return, and that the projection accepts it.  The conditions are about a synchronised
  core, a request that passes validation and a clock that does not run backwards.
\<close>

section \<open>Drafts of each kind\<close>

definition session_draft :: "string \<Rightarrow> SessionRecord \<Rightarrow> draft" where
  "session_draft event v = \<lparr>dr_kind = ''session'', dr_id = ses_ID v, dr_event = event, dr_revision = ses_Revision v,
     dr_payload = PSession v\<rparr>"

definition lease_draft :: "string \<Rightarrow> LeaseRecord \<Rightarrow> draft" where
  "lease_draft event v = \<lparr>dr_kind = ''lease'', dr_id = lea_ID v, dr_event = event, dr_revision = lea_Revision v,
     dr_payload = PLease v\<rparr>"

definition agent_draft :: "string \<Rightarrow> AgentWorkspaceRecord \<Rightarrow> draft" where
  "agent_draft event v = \<lparr>dr_kind = ''agent_workspace'', dr_id = agt_ID v, dr_event = event, dr_revision = agt_Revision v,
     dr_payload = PAgent v\<rparr>"

definition exec_draft :: "string \<Rightarrow> ExecRecord \<Rightarrow> draft" where
  "exec_draft event v = \<lparr>dr_kind = ''exec'', dr_id = exe_ID v, dr_event = event, dr_revision = exe_Revision v,
     dr_payload = PExec v\<rparr>"

definition target_draft :: "string \<Rightarrow> TargetRecord \<Rightarrow> draft" where
  "target_draft event v = \<lparr>dr_kind = ''target'', dr_id = tgt_ID v, dr_event = event, dr_revision = tgt_Revision v,
     dr_payload = PTarget v\<rparr>"

definition incident_draft :: "string \<Rightarrow> IncidentRecord \<Rightarrow> draft" where
  "incident_draft event v = \<lparr>dr_kind = ''incident'', dr_id = inc_ID v, dr_event = event, dr_revision = inc_Revision v,
     dr_payload = PIncident v\<rparr>"

lemmas draft_defs = session_draft_def lease_draft_def agent_draft_def exec_draft_def target_draft_def incident_draft_def

lemma decodeReplayAggregate_matching:
  assumes "dec (cr_Payload r) = Some v" "ident v = (cr_AggregateID r, cr_Revision r)" "validate v = None"
  shows "decodeReplayAggregate dec r ident validate = Inr v"
  using assms by (simp add: decodeReplayAggregate_def)

lemma accept_session:
  assumes "ses_ID v \<noteq> []" "event \<noteq> []" "ses_Revision v \<noteq> 0"
    and "ses_Revision v = revision_in ses_Revision (core_sessions c) (ses_ID v) + 1"
    and "validateReplaySessionProjection c v = None"
  shows "accept c (session_draft event v # ds) = accept (c\<lparr>core_sessions := tbl_put (ses_ID v) v (core_sessions c)\<rparr>) ds"
  using assms
  by (simp add: session_draft_def current_revision_def apply_record_def envelope_def
      decodeReplayAggregate_matching [where v = v])

lemma accept_lease:
  assumes "lea_ID v \<noteq> []" "event \<noteq> []" "lea_Revision v \<noteq> 0"
    and "lea_Revision v = revision_in lea_Revision (core_leases c) (lea_ID v) + 1"
    and "validateReplayLeaseProjection c v = None"
  shows "accept c (lease_draft event v # ds) = accept (c\<lparr>core_leases := tbl_put (lea_ID v) v (core_leases c)\<rparr>) ds"
  using assms
  by (simp add: lease_draft_def current_revision_def apply_record_def envelope_def
      decodeReplayAggregate_matching [where v = v])

lemma accept_agent:
  assumes "agt_ID v \<noteq> []" "event \<noteq> []" "agt_Revision v \<noteq> 0"
    and "agt_Revision v = revision_in agt_Revision (core_agents c) (agt_ID v) + 1"
    and "validateReplayAgentWorkspaceProjection c v = None"
  shows "accept c (agent_draft event v # ds) = accept (c\<lparr>core_agents := tbl_put (agt_ID v) v (core_agents c)\<rparr>) ds"
  using assms
  by (simp add: agent_draft_def current_revision_def apply_record_def envelope_def
      decodeReplayAggregate_matching [where v = v])

lemma accept_exec:
  assumes "exe_ID v \<noteq> []" "event \<noteq> []" "exe_Revision v \<noteq> 0"
    and "exe_Revision v = revision_in exe_Revision (core_execs c) (exe_ID v) + 1"
    and "validateReplayExecProjection c v = None"
  shows "accept c (exec_draft event v # ds) = accept (c\<lparr>core_execs := tbl_put (exe_ID v) v (core_execs c)\<rparr>) ds"
  using assms
  by (simp add: exec_draft_def current_revision_def apply_record_def envelope_def
      decodeReplayAggregate_matching [where v = v])

lemma accept_target:
  assumes "tgt_ID v \<noteq> []" "event \<noteq> []" "tgt_Revision v \<noteq> 0"
    and "tgt_Revision v = revision_in tgt_Revision (core_targets c) (tgt_ID v) + 1"
    and "validateReplayTargetProjection c v = None"
  shows "accept c (target_draft event v # ds) = accept (c\<lparr>core_targets := tbl_put (tgt_ID v) v (core_targets c)\<rparr>) ds"
  using assms
  by (simp add: target_draft_def current_revision_def apply_record_def envelope_def
      decodeReplayAggregate_matching [where v = v])

lemma accept_incident:
  assumes "inc_ID v \<noteq> []" "event \<noteq> []" "inc_Revision v \<noteq> 0"
    and "inc_Revision v = revision_in inc_Revision (core_incidents c) (inc_ID v) + 1"
    and "validateReplayIncidentProjection c v = None"
  shows "accept c (incident_draft event v # ds) = accept (c\<lparr>core_incidents := tbl_put (inc_ID v) v (core_incidents c)\<rparr>) ds"
  using assms
  by (simp add: incident_draft_def current_revision_def apply_record_def envelope_def
      decodeReplayAggregate_matching [where v = v])

declare accept.simps(2) [simp del]

section \<open>Committing\<close>

text \<open>
  The operation returned \<open>v\<close>, the projection is \<open>c'\<close>, and the core is synchronised with a store whose
  journal holds what was committed.
\<close>

definition commits :: "env \<Rightarrow> Core \<times> 'a result \<Rightarrow> Core \<Rightarrow> 'a \<Rightarrow> bool" where
  "commits env outcome c' v \<longleftrightarrow>
     (\<exists>s n. outcome = (relocated s n c', Inr v) \<and> synced (env_store env) (relocated s n c'))"

lemma mutation_commits:
  assumes "callable env namespace key request c" "map_of (idempotency (core_store c)) (namespace, key) = None"
    and "accept c ds = Some c'"
    and tx: "tx c (core_store c) = bind_r (append_all (env_store env) ds (core_store c)) (\<lambda>s. Inr (s, Some response))"
    and fin: "\<And>s n. finish (relocated s n c') response = Inr v"
  shows "commits env (transact env namespace key request tx finish c) c' v"
    "commits env (runMutation env namespace key request tx finish c) c' v"
proof -
  have "tx c (core_store c) = Inr (u, Some response)" if "append_all (env_store env) ds (core_store c) = Inr u" for u
    using tx that by simp
  from transact_commits [where tx = tx and response = response and finish = finish, OF assms(1-3) this] show "commits env (transact env namespace key request tx finish c) c' v"
    using fin by (auto simp: commits_def)
  then show "commits env (runMutation env namespace key request tx finish c) c' v"
    by (simp add: runMutation_transact [OF assms(1)])
qed

lemma validated_ok: "first_err checks = None \<Longrightarrow> validated checks run c = run c"
  by (simp add: validated_def)

lemma fail_if_eval [simp]: "fail_if True e = Some e" "fail_if False e = None"
  by (simp_all add: fail_if_def)

section \<open>Elementary replay checks\<close>

named_theorems replay_simps \<open>when the checks of replay pass\<close>

lemma parsePersisted_ok [replay_simps]:
  "parse x = Inr v \<Longrightarrow> parsePersisted field x parse = Inr v"
  "ParseDigest x = Inr d \<Longrightarrow> parsePersistedDigest field x = Inr d"
  by (simp_all add: parsePersisted_def parsePersistedDigest_def)

lemma parsed_nonzero [replay_simps]:
  "ParseResearchSessionID s = Inr sid \<Longrightarrow> \<not> ID_IsZero sid"
  "ParseLeaseID l = Inr lid \<Longrightarrow> \<not> ID_IsZero lid"
  "ParseAgentWorkspaceID a = Inr aid \<Longrightarrow> \<not> ID_IsZero aid"
  "ParseWorkspaceID w = Inr wid \<Longrightarrow> \<not> ID_IsZero wid"
  "ParseExecID e = Inr eid \<Longrightarrow> \<not> ID_IsZero eid"
  "ParseTargetID t = Inr tid \<Longrightarrow> \<not> ID_IsZero tid"
  "ParseTargetRunID r = Inr rid \<Longrightarrow> \<not> ID_IsZero rid"
  "ParseTargetOperationID q = Inr qid \<Longrightarrow> \<not> ID_IsZero qid"
  "ParseIncidentID i = Inr iid \<Longrightarrow> \<not> ID_IsZero iid"
  "ParseDigest d = Inr dv \<Longrightarrow> \<not> Digest_IsZero dv"
  "ParseInputViewID v = Inr ivid \<Longrightarrow> \<not> InputViewID_IsZero ivid"
  using parseID_ok
  by (auto simp: ParseID_defs ParseDigest_iff ParseInputViewID_iff wf_digest_def InputViewID_IsZero_def)

lemma zeroID_IsZero [replay_simps]: "ID_IsZero zeroID"
  by (simp add: zeroID_def ID_IsZero_def)

lemma wf_id_nonzero [replay_simps]: "wf_id i \<Longrightarrow> \<not> ID_IsZero i"
  using wf_uuid_nonzero by (auto simp: wf_id_def ID_IsZero_def)

lemmas state_valid = ResearchSessionState_IsValid_def sessionStates_def LeaseState_IsValid_def leaseStates_def
  AgentGenerationState_IsValid_def agentGenerationStates_def ExecState_IsValid_def execStates_def
  TargetGenerationState_IsValid_def targetGenerationStates_def TargetRunState_IsValid_def targetRunStates_def

lemma parsed_nonempty:
  "parseID p x = Inr i \<Longrightarrow> x \<noteq> []"
  by (auto simp: parseID_def HasPrefix_def Let_def split: if_splits)

lemma requirePersisted_None [replay_simps]:
  "requirePersistedState field valid = None \<longleftrightarrow> valid"
  "requirePersistedRevision field r = None \<longleftrightarrow> r \<noteq> 0"
  "requirePersistedTimes p n created updated = None \<longleftrightarrow> created \<noteq> 0 \<and> updated \<noteq> 0 \<and> created \<le> updated"
  "requireContainedTimes p pc pu created updated = None \<longleftrightarrow>
     created \<noteq> 0 \<and> updated \<noteq> 0 \<and> created \<le> updated \<and> pc \<le> created \<and> updated \<le> pu"
  "requireNonBlankPersisted field v = None \<longleftrightarrow> \<not> blank v"
  "violates field message (checked cs x) = None \<longleftrightarrow> first_err cs = None"
  by (auto simp: requirePersistedState_def requirePersistedRevision_def requirePersistedTimes_def
      requireContainedTimes_def requireNonBlankPersisted_def violates_def checked_def split: option.splits)

lemma validateReplaySession_ok:
  assumes "ParseResearchSessionID (ses_ID v) = Inr sid" "ParseLeaseID (ses_LeaseID v) = Inr lid"
    and "ParseAgentWorkspaceID (ses_AgentWorkspaceID v) = Inr aid" "ParseInputViewID (ses_InputViewID v) = Inr iv"
    and "ParseDigest (ses_PolicyDigest v) = Inr pd" "ParseDigest (ses_CapabilityDigest v) = Inr cd"
    and "\<not> blank (ses_OwnerSubject v)" "IsCanonicalIdempotencyKey (ses_AcquisitionIdempotencyKey v)"
    and "ses_CreatedAt v \<noteq> 0" "ResearchSessionState_IsValid (ses_State v)" "ses_Revision v \<noteq> 0"
    and "ses_UpdatedAt v \<noteq> 0" "ses_CreatedAt v \<le> ses_UpdatedAt v"
  shows "validateReplaySession v = None"
  using assms by (simp add: validateReplaySession_def Let_def NewResearchSession_def replay_simps err_simps)

lemma validateReplayLease_ok:
  assumes "ParseLeaseID (lea_ID v) = Inr lid" "ParseResearchSessionID (lea_SessionID v) = Inr sid"
    and "ParseAgentWorkspaceID (lea_AgentWorkspaceID v) = Inr aid" "ParseInputViewID (lea_InputViewID v) = Inr iv"
    and "ParseDigest (lea_PolicyDigest v) = Inr pd" "ParseDigest (lea_CapabilityDigest v) = Inr cd"
    and "lea_AgentGeneration v \<noteq> 0" "LeaseState_IsValid (lea_State v)" "lea_Revision v \<noteq> 0"
    and "lea_CreatedAt v \<noteq> 0" "lea_UpdatedAt v \<noteq> 0" "lea_CreatedAt v \<le> lea_UpdatedAt v"
    and "lea_CreatedAt v < lea_ExpiresAt v" "lea_ExpiresAt v \<noteq> 0"
    and "validateReplayLeaseTermination v = None"
  shows "validateReplayLease v = None"
  using assms by (simp add: validateReplayLease_def Let_def NewLease_def replay_simps err_simps)

lemma bind_r_assoc: "bind_r (bind_r m f) g = bind_r m (\<lambda>x. bind_r (f x) g)"
  by (cases m) simp_all

lemma first_err_single: "first_err [x] = x"
  by (cases x) simp_all

lemma validateReplayAgentWorkspace_single:
  assumes "ParseAgentWorkspaceID (agt_ID v) = Inr aid" "ParseResearchSessionID (agt_SessionID v) = Inr sid"
    and "agt_CurrentGeneration v = 1" "agt_Revision v \<noteq> 0"
    and "agt_CreatedAt v \<noteq> 0" "agt_UpdatedAt v \<noteq> 0" "agt_CreatedAt v \<le> agt_UpdatedAt v"
    and "agt_Generations v = [g]" "agn_Generation g = 1" "validateReplayAgentGeneration aid v 0 g = None"
  shows "validateReplayAgentWorkspace v = None"
  using assms
  by (simp add: validateReplayAgentWorkspace_def Let_def NewAgentWorkspace_def replay_simps err_simps
      validateGenerationSequence_def first_err_single)

lemma validateReplayAgentGeneration_initial:
  assumes "ParseWorkspaceID (agn_WorkspaceID g) = Inr wid" "ParseInputViewID (agn_InputViewID g) = Inr iv"
    and "ParseDigest (agn_PolicyDigest g) = Inr pd" "ParseDigest (agn_CapabilityDigest g) = Inr cd"
    and "\<And>prefix. validateAgentProvisioningBinding prefix g = None" "agn_RecoveryIncident g = []" "agn_Previous g = 0" "agn_Generation g = 1"
    and "AgentGenerationState_IsValid (agn_State g)" "agn_Revision g \<noteq> 0" "agn_CreatedAt g \<noteq> 0" "agn_UpdatedAt g \<noteq> 0"
    and "agn_CreatedAt g \<le> agn_UpdatedAt g" "agt_CreatedAt v \<le> agn_CreatedAt g" "agn_UpdatedAt g \<le> agt_UpdatedAt v"
    and "\<not> ID_IsZero aid"
  shows "validateReplayAgentGeneration aid v 0 g = None"
  using assms
  by (simp add: validateReplayAgentGeneration_def Let_def NewAgentWorkspaceGeneration_def replay_simps err_simps
      parseOptionalPersisted_def rememberPersistedID_def InitialAgentGeneration_def)

lemma NewLease_ok:
  assumes "\<not> ID_IsZero (lsp_ID spec)" "\<not> ID_IsZero (lsp_ResearchSessionID spec)" "\<not> ID_IsZero (lsp_AgentWorkspaceID spec)"
    and "lsp_AgentGeneration spec \<noteq> 0" "\<not> InputViewID_IsZero (lsp_InputViewID spec)" "\<not> Digest_IsZero (lsp_PolicyDigest spec)"
    and "\<not> Digest_IsZero (lsp_CapabilityFingerprintDigest spec)" "lsp_CreatedAt spec \<noteq> 0" "lsp_ExpiresAt spec \<noteq> 0"
    and "lsp_CreatedAt spec < lsp_ExpiresAt spec"
  shows "NewLease spec = Inr \<lparr>lem_spec = spec, lem_state = LeaseActive, lem_revision = 1, lem_updatedAt = lsp_CreatedAt spec\<rparr>"
  using assms by (simp add: NewLease_def err_simps InitialRevision_def)

lemma NewAgentWorkspace_ok:
  assumes "\<not> ID_IsZero i" "\<not> ID_IsZero sid" "g \<noteq> 0" "at \<noteq> 0"
  shows "NewAgentWorkspace i sid g at = Inr \<lparr>awm_id = i, awm_researchSessionID = sid, awm_currentGeneration = g,
    awm_revision = 1, awm_createdAt = at, awm_updatedAt = at\<rparr>"
  using assms by (simp add: NewAgentWorkspace_def err_simps InitialRevision_def)

lemma NewAgentWorkspaceGeneration_ok:
  assumes "\<not> ID_IsZero (ags_AgentWorkspaceID spec)" "\<not> ID_IsZero (ags_WorkspaceID spec)" "ags_Generation spec = 1"
    and "\<not> InputViewID_IsZero (ags_InputViewID spec)" "\<not> Digest_IsZero (ags_PolicyDigest spec)"
    and "\<not> Digest_IsZero (ags_CapabilityFingerprintDigest spec)" "ags_PreviousGeneration spec = 0"
    and "ID_IsZero (ags_RecoveryIncidentID spec)" "ags_CreatedAt spec \<noteq> 0"
  shows "NewAgentWorkspaceGeneration spec = Inr \<lparr>agm_spec = spec, agm_state = AgentGenerationProvisioning,
    agm_revision = 1, agm_updatedAt = ags_CreatedAt spec\<rparr>"
  using assms by (simp add: NewAgentWorkspaceGeneration_def err_simps InitialRevision_def InitialAgentGeneration_def)

section \<open>Acquisition\<close>

definition acquired_session :: "AcquireRequest \<Rightarrow> ResearchSessionID \<Rightarrow> LeaseID \<Rightarrow> AgentWorkspaceID \<Rightarrow> time \<Rightarrow>
    ResearchSessionState \<Rightarrow> uint64 \<Rightarrow> SessionRecord" where
  "acquired_session request sid lid aid now state revision =
     \<lparr>ses_ID = ID_String researchSessionPrefix_prefix sid, ses_OwnerSubject = acq_OwnerSubject request,
      ses_AcquisitionIdempotencyKey = meta_IdempotencyKey (acq_Meta request), ses_State = state, ses_Revision = revision,
      ses_LeaseID = ID_String leasePrefix_prefix lid, ses_AgentWorkspaceID = ID_String agentWorkspacePrefix_prefix aid,
      ses_InputViewID = acq_InputViewID request, ses_PolicyDigest = acq_PolicyDigest request,
      ses_CapabilityDigest = acq_CapabilityDigest request, ses_CreatedAt = now, ses_UpdatedAt = now\<rparr>"

definition acquired_lease :: "AcquireRequest \<Rightarrow> ResearchSessionID \<Rightarrow> LeaseID \<Rightarrow> AgentWorkspaceID \<Rightarrow> time \<Rightarrow> LeaseRecord" where
  "acquired_lease request sid lid aid now =
     \<lparr>lea_ID = ID_String leasePrefix_prefix lid, lea_SessionID = ID_String researchSessionPrefix_prefix sid,
      lea_AgentWorkspaceID = ID_String agentWorkspacePrefix_prefix aid, lea_AgentGeneration = 1,
      lea_InputViewID = acq_InputViewID request, lea_PolicyDigest = acq_PolicyDigest request,
      lea_CapabilityDigest = acq_CapabilityDigest request, lea_State = LeaseActive, lea_Revision = 1,
      lea_ExpiresAt = now + acq_TTL request, lea_Termination = no_termination, lea_CreatedAt = now, lea_UpdatedAt = now\<rparr>"

definition acquired_agent :: "AcquireRequest \<Rightarrow> ResearchSessionID \<Rightarrow> AgentWorkspaceID \<Rightarrow> WorkspaceID \<Rightarrow> time \<Rightarrow>
    AgentWorkspaceRecord" where
  "acquired_agent request sid aid wid now =
     \<lparr>agt_ID = ID_String agentWorkspacePrefix_prefix aid, agt_SessionID = ID_String researchSessionPrefix_prefix sid,
      agt_CurrentGeneration = 1, agt_Revision = 1, agt_CreatedAt = now, agt_UpdatedAt = now,
      agt_Generations = [\<lparr>agn_Generation = 1, agn_WorkspaceID = ID_String workspacePrefix_prefix wid,
        agn_InputViewID = acq_InputViewID request, agn_PolicyDigest = acq_PolicyDigest request,
        agn_CapabilityDigest = acq_CapabilityDigest request, agn_ProvisioningPlanDigest = [],
        agn_WorkspaceProvisioningKey = [], agn_AgentProvisioningKey = [], agn_Previous = 0,
        agn_RecoveryIncident = [], agn_State = AgentGenerationProvisioning, agn_Revision = 1,
        agn_CreatedAt = now, agn_UpdatedAt = now\<rparr>]\<rparr>"

lemma Acquire_tx_appends:
  assumes "case_prod GenerateResearchSessionID (env_ids env 0) = Inr sid"
    and "case_prod GenerateLeaseID (env_ids env 1) = Inr lid"
    and "case_prod GenerateAgentWorkspaceID (env_ids env 2) = Inr aid"
    and "case_prod GenerateWorkspaceID (env_ids env 3) = Inr wid"
    and "wf_id sid" "wf_id lid" "wf_id aid" "wf_id wid"
    and "ParseInputViewID (acq_InputViewID request) = Inr iv" "ParseDigest (acq_PolicyDigest request) = Inr pd"
    and "ParseDigest (acq_CapabilityDigest request) = Inr cd"
    and now: "now = env_clock env 1" "now \<noteq> 0" "now + acq_TTL request \<noteq> 0" "0 < acq_TTL request"
  shows "AcquireResearchSession_tx env request c s =
    bind_r (append_all (env_store env)
      [session_draft ''session.requested'' (acquired_session request sid lid aid now ResearchSessionRequested 1),
       session_draft ''session.admitted'' (acquired_session request sid lid aid now ResearchSessionAdmitted 2),
       session_draft ''session.leased'' (acquired_session request sid lid aid now ResearchSessionLeased 3),
       lease_draft ''lease.created'' (acquired_lease request sid lid aid now),
       agent_draft ''agent_workspace.created'' (acquired_agent request sid aid wid now)] s)
     (\<lambda>s. Inr (s, Some (RSessionID (ID_String researchSessionPrefix_prefix sid))))"
proof -
  have ids: "\<not> ID_IsZero sid" "\<not> ID_IsZero lid" "\<not> ID_IsZero aid" "\<not> ID_IsZero wid"
    using assms(5-8) by (simp_all add: replay_simps)
  have pins: "\<not> InputViewID_IsZero iv" "\<not> Digest_IsZero pd" "\<not> Digest_IsZero cd"
    using assms(9-11) by (simp_all add: replay_simps)
  have session: "NewResearchSession sid now = Inr \<lparr>rsm_id = sid, rsm_state = ResearchSessionRequested, rsm_revision = 1,
      rsm_createdAt = now, rsm_updatedAt = now\<rparr>"
    using now ids by (simp add: NewResearchSession_def err_simps InitialRevision_def)
  have moves: "rsm_revision m = e \<Longrightarrow> e = 1 \<or> e = 2 \<Longrightarrow> rsm_updatedAt m = now \<Longrightarrow> RequireResearchSessionTransition (rsm_state m) x = None \<Longrightarrow>
      ResearchSession_Transition m x e now = Inr (m\<lparr>rsm_state := x, rsm_revision := e + 1, rsm_updatedAt := now\<rparr>)" for m x e
    using now(2) by (auto simp: session_model.transition_Inr)
  show ?thesis
    unfolding AcquireResearchSession_tx_def Let_def now(1) [symmetric] assms(1-4) bind_r_simps session
    using ids pins assms(9-11) now(2-)
    by (simp add: bind_r_assoc draft_defs acquired_session_def acquired_lease_def acquired_agent_def moves
        RequireResearchSessionTransition_None NewLease_ok NewAgentWorkspace_ok NewAgentWorkspaceGeneration_ok
        InitialAgentGeneration_def replay_simps)
qed

text \<open>The four identities an acquisition draws, and that the projection has not seen them.\<close>

definition drawn_identities :: "env \<Rightarrow> Core \<Rightarrow> ResearchSessionID \<Rightarrow> LeaseID \<Rightarrow> AgentWorkspaceID \<Rightarrow> WorkspaceID \<Rightarrow> bool" where
  "drawn_identities env c sid lid aid wid \<longleftrightarrow>
     case_prod GenerateResearchSessionID (env_ids env 0) = Inr sid \<and> case_prod GenerateLeaseID (env_ids env 1) = Inr lid \<and>
     case_prod GenerateAgentWorkspaceID (env_ids env 2) = Inr aid \<and> case_prod GenerateWorkspaceID (env_ids env 3) = Inr wid \<and>
     wf_id sid \<and> wf_id lid \<and> wf_id aid \<and> wf_id wid \<and>
     tbl_get (core_sessions c) (ID_String researchSessionPrefix_prefix sid) = None \<and>
     tbl_get (core_leases c) (ID_String leasePrefix_prefix lid) = None \<and>
     tbl_get (core_agents c) (ID_String agentWorkspacePrefix_prefix aid) = None"

text \<open>A request whose parts parse, with a positive lifetime.\<close>

definition acquirable :: "AcquireRequest \<Rightarrow> time \<Rightarrow> bool" where
  "acquirable request now \<longleftrightarrow>
     (\<exists>iv. ParseInputViewID (acq_InputViewID request) = Inr iv) \<and> (\<exists>d. ParseDigest (acq_PolicyDigest request) = Inr d) \<and>
     (\<exists>d. ParseDigest (acq_CapabilityDigest request) = Inr d) \<and> 0 < acq_TTL request \<and>
     \<not> blank (acq_OwnerSubject request) \<and> IsCanonicalIdempotencyKey (meta_IdempotencyKey (acq_Meta request)) \<and>
     0 < now"

definition acquired_core :: "AcquireRequest \<Rightarrow> ResearchSessionID \<Rightarrow> LeaseID \<Rightarrow> AgentWorkspaceID \<Rightarrow> WorkspaceID \<Rightarrow> time \<Rightarrow> Core \<Rightarrow> Core" where
  "acquired_core request sid lid aid wid now c =
     c\<lparr>core_sessions := tbl_put (ID_String researchSessionPrefix_prefix sid)
         (acquired_session request sid lid aid now ResearchSessionLeased 3) (core_sessions c),
       core_leases := tbl_put (ID_String leasePrefix_prefix lid) (acquired_lease request sid lid aid now) (core_leases c),
       core_agents := tbl_put (ID_String agentWorkspacePrefix_prefix aid) (acquired_agent request sid aid wid now) (core_agents c)\<rparr>"

lemma Parse_String [replay_simps]:
  "wf_id sid \<Longrightarrow> ParseResearchSessionID (ID_String researchSessionPrefix_prefix sid) = Inr sid"
  "wf_id lid \<Longrightarrow> ParseLeaseID (ID_String leasePrefix_prefix lid) = Inr lid"
  "wf_id aid \<Longrightarrow> ParseAgentWorkspaceID (ID_String agentWorkspacePrefix_prefix aid) = Inr aid"
  "wf_id wid \<Longrightarrow> ParseWorkspaceID (ID_String workspacePrefix_prefix wid) = Inr wid"
  "wf_id eid \<Longrightarrow> ParseExecID (ID_String execPrefix_prefix eid) = Inr eid"
  "wf_id tid \<Longrightarrow> ParseTargetID (ID_String targetPrefix_prefix tid) = Inr tid"
  "wf_id rid \<Longrightarrow> ParseTargetRunID (ID_String targetRunPrefix_prefix rid) = Inr rid"
  "wf_id qid \<Longrightarrow> ParseTargetOperationID (ID_String targetOperationPrefix_prefix qid) = Inr qid"
  "wf_id iid \<Longrightarrow> ParseIncidentID (ID_String incidentPrefix_prefix iid) = Inr iid"
  by (simp_all add: ParseID_defs parseID_String)

lemma ID_String_nonempty [simp]: "wf_id i \<Longrightarrow> ID_String p i \<noteq> []"
  using wf_uuid_nonzero by (auto simp: ID_String_def ID_IsZero_def wf_id_def)

lemma acquisition_accepted:
  assumes "drawn_identities env c sid lid aid wid" "acquirable request now"
  shows "accept c
      [session_draft ''session.requested'' (acquired_session request sid lid aid now ResearchSessionRequested 1),
       session_draft ''session.admitted'' (acquired_session request sid lid aid now ResearchSessionAdmitted 2),
       session_draft ''session.leased'' (acquired_session request sid lid aid now ResearchSessionLeased 3),
       lease_draft ''lease.created'' (acquired_lease request sid lid aid now),
       agent_draft ''agent_workspace.created'' (acquired_agent request sid aid wid now)] =
    Some (acquired_core request sid lid aid wid now c)"
proof -
  note d = assms(1) [unfolded drawn_identities_def] and a = assms(2) [unfolded acquirable_def]
  obtain iv pd cd where p: "ParseInputViewID (acq_InputViewID request) = Inr iv" "ParseDigest (acq_PolicyDigest request) = Inr pd"
      "ParseDigest (acq_CapabilityDigest request) = Inr cd" using a by blast
  have s: "validateReplaySession (acquired_session request sid lid aid now state revision) = None"
    if "ResearchSessionState_IsValid state" "revision \<noteq> 0" for state revision
    using d a p that by (intro validateReplaySession_ok) (auto simp: acquired_session_def replay_simps)
  have l: "validateReplayLease (acquired_lease request sid lid aid now) = None"
    using d a p by (intro validateReplayLease_ok)
      (auto simp: acquired_lease_def replay_simps state_valid
        validateReplayLeaseTermination_def LeaseTermination_Empty_def)
  have g: "validateReplayAgentWorkspace (acquired_agent request sid aid wid now) = None"
    using d a p
    by (auto simp: acquired_agent_def replay_simps state_valid
        validateAgentProvisioningBinding_def agentProvisioningBindingEmpty_def
        intro!: validateReplayAgentWorkspace_single validateReplayAgentGeneration_initial)
  let ?s = "acquired_session request sid lid aid now" and ?sid = "ID_String researchSessionPrefix_prefix sid"
  have first: "validateReplaySessionProjection c (?s ResearchSessionRequested 1) = None"
    using d s by (simp add: validateReplaySessionProjection_def state_valid acquired_session_def)
  have later: "validateReplaySessionProjection (c\<lparr>core_sessions := tbl_put ?sid (?s x r) (core_sessions c)\<rparr>) (?s y (r + 1)) = None"
    if "RequireResearchSessionTransition x y = None" "r = 1 \<or> r = 2" "ResearchSessionState_IsValid y" for x y r
    using d s [of y "r + 1"] that
    by (auto simp: validateReplaySessionProjection_def acquired_session_def err_simps revision_step_def)
  let ?put = "\<lambda>x r. c\<lparr>core_sessions := tbl_put ?sid (?s x r) (core_sessions c)\<rparr>"
  let ?c4 = "(?put ResearchSessionLeased 3)\<lparr>core_leases := tbl_put (ID_String leasePrefix_prefix lid)
    (acquired_lease request sid lid aid now) (core_leases c)\<rparr>"
  have id: "ses_ID (?s x r) = ?sid" "ses_Revision (?s x r) = r" for x r by (simp_all add: acquired_session_def)
  have 1: "accept c (session_draft ''session.requested'' (?s ResearchSessionRequested 1) # ds) =
      accept (?put ResearchSessionRequested 1) ds" for ds
    using first d by (subst accept_session) (simp_all add: id revision_in_def)
  have 2: "accept (?put x r) (session_draft event (?s y (r + 1)) # ds) = accept (?put y (r + 1)) ds"
    if "RequireResearchSessionTransition x y = None" "r = 1 \<or> r = 2" "ResearchSessionState_IsValid y" "event \<noteq> []" for x y r event ds
    using later [OF that(1-3)] d that(2,4) by (subst accept_session) (auto simp: id revision_in_def)
  have 3: "accept (?put ResearchSessionLeased 3) (lease_draft ''lease.created'' (acquired_lease request sid lid aid now) # ds) = accept ?c4 ds" for ds
    using l d by (subst accept_lease)
      (simp_all add: revision_in_def validateReplayLeaseProjection_def acquired_lease_def acquired_session_def err_simps
        InitialRevision_def LeaseTermination_Empty_def)
  have 4: "accept ?c4 [agent_draft ''agent_workspace.created'' (acquired_agent request sid aid wid now)] =
      Some (acquired_core request sid lid aid wid now c)"
    using g d by (subst accept_agent)
      (simp_all add: revision_in_def validateReplayAgentWorkspaceProjection_def acquired_agent_def acquired_lease_def
        acquired_session_def err_simps acquired_core_def)
  show ?thesis
    using 2 [of ResearchSessionRequested ResearchSessionAdmitted 1] 2 [of ResearchSessionAdmitted ResearchSessionLeased 2]
    by (simp add: 1 3 4 RequireResearchSessionTransition_None state_valid)
qed

lemma sessionViewLocked_relocated [simp]: "sessionViewLocked (relocated s n c) = sessionViewLocked c"
  by (rule ext) (simp add: sessionViewLocked_def cong: option.case_cong)

text \<open>
  C15. Acquisition succeeds: on a synchronised core, with a valid request under a fresh key and fresh
  identities, \<open>AcquireResearchSession\<close> commits exactly a leased session at revision 3, an active
  lease that runs for the requested lifetime and an agent workspace whose first generation is being
  provisioned, all pinned to the request's view, policy and capabilities; it returns them, leaves
  every other entry alone, and the core stays synchronised with its store.
\<close>

theorem acquire_succeeds:
  assumes request_def: "request = request0\<lparr>acq_OwnerSubject := TrimSpace (acq_OwnerSubject request0)\<rparr>" and now_def: "now = env_clock env 1"
    and "MutationMeta_Validate (env_deadline env) (env_clock env 0) (acq_Meta request) = None"
    and "acquirable request now" "marshal request = Inr bytes"
    and "callable env ''acquire_research_session'' (meta_IdempotencyKey (acq_Meta request)) bytes c"
    and "map_of (idempotency (core_store c)) (''acquire_research_session'', meta_IdempotencyKey (acq_Meta request)) = None"
    and "drawn_identities env c sid lid aid wid"
  shows "\<exists>view. commits env (AcquireResearchSession marshal env request0 c) (acquired_core request sid lid aid wid now c) view \<and>
    view_Session view = acquired_session request sid lid aid now ResearchSessionLeased 3 \<and>
    view_Lease view = acquired_lease request sid lid aid now \<and> view_Agent view = acquired_agent request sid aid wid now"
proof -
  let ?c' = "acquired_core request sid lid aid wid now c" and ?sid = "ID_String researchSessionPrefix_prefix sid"
  note a = assms(4) [unfolded acquirable_def] and d = assms(8) [unfolded drawn_identities_def]
  have checks: "first_err [MutationMeta_Validate (env_deadline env) (env_clock env 0) (acq_Meta request),
        err_of (ParseInputViewID (acq_InputViewID request)), err_of (ParseDigest (acq_PolicyDigest request)),
        err_of (ParseDigest (acq_CapabilityDigest request)),
        fail_if (acq_TTL request \<le> 0) (invalidArgument ''research_session.acquire'' ''ttl'' ''must be positive'' None),
        fail_if (acq_OwnerSubject request = [])
          (invalidArgument ''research_session.acquire'' ''owner_subject'' ''is required'' None),
        err_of (marshal request)] = None"
    using assms(3,5) a by auto
  obtain iv pd cd where p: "ParseInputViewID (acq_InputViewID request) = Inr iv" "ParseDigest (acq_PolicyDigest request) = Inr pd"
      "ParseDigest (acq_CapabilityDigest request) = Inr cd" using a by blast
  obtain view where v: "sessionViewLocked ?c' ?sid = Inr view" and parts:
      "view_Session view = acquired_session request sid lid aid now ResearchSessionLeased 3"
      "view_Lease view = acquired_lease request sid lid aid now" "view_Agent view = acquired_agent request sid aid wid now"
    by (simp add: sessionViewLocked_def acquired_core_def acquired_session_def)
  have "AcquireResearchSession marshal env request0 c =
      transact env ''acquire_research_session'' (meta_IdempotencyKey (acq_Meta request)) bytes
        (AcquireResearchSession_tx env request) AcquireResearchSession_finish c"
    using checks assms(5) by (simp only: AcquireResearchSession_def Let_def request_def [symmetric] validated_def option.case val_or_simps)
  moreover note mutation_commits(1) [OF assms(6,7) acquisition_accepted [OF assms(8,4)],
      of "AcquireResearchSession_tx env request" "RSessionID ?sid" AcquireResearchSession_finish view]
    Acquire_tx_appends [of env sid lid aid wid request iv pd cd now c "core_store c"]
  ultimately show ?thesis using parts v d a p
    by (auto simp: AcquireResearchSession_finish_def now_def)
qed

section \<open>Accepted successors\<close>

lemma err_of_parsePersisted: "err_of (parsePersisted field x parse) = None \<longleftrightarrow> (\<exists>v. parse x = Inr v)"
  by (auto simp: parsePersisted_def split: sum.splits)

lemma revision_step_succ: "revision_step r r' u u' \<longleftrightarrow> r \<noteq> - 1 \<and> r' = r + 1 \<and> u \<le> u'"
  unfolding requireReplayRevisionAdvance_None [of "[]", symmetric] by (auto simp: requireReplayRevisionAdvance_def)

lemma plus_one_nonzero [replay_simps]: "r \<noteq> - 1 \<Longrightarrow> r + 1 \<noteq> (0 :: uint64)"
  by (simp add: eq_neg_iff_add_eq_0)

lemma revision_successor: "revision_step r r' u u' \<Longrightarrow> r' = r + 1 \<and> r' \<noteq> 0"
  by (auto simp: revision_step_succ plus_one_nonzero)

text \<open>The agent workspace a lease names, if there is one, belongs to the lease's session.\<close>

definition owns_agent :: "Core \<Rightarrow> LeaseRecord \<Rightarrow> bool" where
  "owns_agent c l \<longleftrightarrow> (\<forall>a. tbl_get (core_agents c) (lea_AgentWorkspaceID l) = Some a \<longrightarrow>
     agt_SessionID a = lea_SessionID l \<and> lea_AgentGeneration l \<le> agt_CurrentGeneration a \<and>
     hasAgentGeneration a (lea_AgentGeneration l))"

lemma coherent_lease_of: "coherent c \<Longrightarrow> tbl_get (core_leases c) i = Some l \<Longrightarrow> coherent_lease c l \<and> lea_ID l = i"
  by (simp add: coherent_def all_entries_def keyed_tables_def keyed_def)

lemma coherent_session_of:
  "coherent c \<Longrightarrow> tbl_get (core_sessions c) i = Some s \<Longrightarrow> validateReplaySession s = None \<and> ses_ID s = i"
  by (simp add: coherent_def all_entries_def keyed_tables_def keyed_def)

lemma lease_successor_valid:
  assumes "coherent c" "tbl_get (core_leases c) i = Some l" "owns_agent c l" "lease_step l l'"
    and "lea_AgentGeneration l' = lea_AgentGeneration l" "validateReplayLease l' = None"
  shows "validateReplayLeaseProjection c l' = None"
proof -
  note l = coherent_lease_of [OF assms(1,2)]
  obtain s where s: "tbl_get (core_sessions c) (lea_SessionID l) = Some s" "lease_matches s l"
    using l by (auto simp: coherent_lease_def)
  note step = assms(4) [unfolded lease_step_def]
  show ?thesis
    using step s assms(2,3,5,6) l
    by (auto simp: validateReplayLeaseProjection_def err_simps lease_matches_def owns_agent_def generation_advance_def
        not_less split: option.splits)
qed

lemma lease_accepted:
  assumes "coherent c" "tbl_get (core_leases c) i = Some l" "owns_agent c l" "lease_step l l'"
    and "lea_AgentGeneration l' = lea_AgentGeneration l" "validateReplayLease l' = None" "event \<noteq> []"
  shows "accept c (lease_draft event l' # ds) = accept (c\<lparr>core_leases := tbl_put i l' (core_leases c)\<rparr>) ds"
proof -
  have id: "lea_ID l' = i" using coherent_lease_of [OF assms(1,2)] assms(4) by (simp add: lease_step_def)
  have "\<exists>v. ParseLeaseID (lea_ID l') = Inr v"
    using assms(6) by (simp add: validateReplayLease_def Let_def err_of_parsePersisted)
  then have "lea_ID l' \<noteq> []" using parsed_nonempty by (auto simp: ParseID_defs)
  moreover have "lea_Revision l' = lea_Revision l + 1 \<and> lea_Revision l' \<noteq> 0"
    by (rule revision_successor [of _ _ "lea_UpdatedAt l" "lea_UpdatedAt l'"]) (use assms(4) in \<open>simp add: lease_step_def\<close>)
  ultimately show ?thesis
    using accept_lease [OF _ assms(7) _ _ lease_successor_valid [OF assms(1-6)], of ds] id assms(2)
    by (auto simp: revision_in_def)
qed

text \<open>The lease and the agent workspace a session names belong to it.\<close>

definition owns_parts :: "Core \<Rightarrow> SessionRecord \<Rightarrow> bool" where
  "owns_parts c s \<longleftrightarrow>
     (\<forall>l. tbl_get (core_leases c) (ses_LeaseID s) = Some l \<longrightarrow> lease_matches s l \<and> lea_SessionID l = ses_ID s) \<and>
     (\<forall>a. tbl_get (core_agents c) (ses_AgentWorkspaceID s) = Some a \<longrightarrow> agt_SessionID a = ses_ID s)"

lemma session_accepted:
  assumes "tbl_get (core_sessions c) i = Some s" "ses_ID s = i" "owns_parts c s" "session_step s s'"
    and "validateReplaySession s' = None" "event \<noteq> []"
  shows "accept c (session_draft event s' # ds) = accept (c\<lparr>core_sessions := tbl_put i s' (core_sessions c)\<rparr>) ds"
proof -
  have id: "ses_ID s' = i" using assms(2,4) by (simp add: session_step_def)
  have "\<exists>v. ParseResearchSessionID (ses_ID s') = Inr v"
    using assms(5) by (simp add: validateReplaySession_def Let_def err_of_parsePersisted)
  then have "ses_ID s' \<noteq> []" using parsed_nonempty by (auto simp: ParseID_defs)
  moreover have "ses_Revision s' = ses_Revision s + 1 \<and> ses_Revision s' \<noteq> 0"
    by (rule revision_successor [of _ _ "ses_UpdatedAt s" "ses_UpdatedAt s'"]) (use assms(4) in \<open>simp add: session_step_def\<close>)
  moreover have "validateReplaySessionProjection c s' = None"
    using assms(4) [unfolded session_step_def] assms(1-3,5)
    by (auto simp: validateReplaySessionProjection_def err_simps lease_matches_def owns_parts_def split: option.splits)
  ultimately show ?thesis
    using accept_session [OF _ assms(6), of s' c ds] id assms(1) by (auto simp: revision_in_def)
qed

section \<open>Renewal\<close>

definition renewed :: "LeaseRecord \<Rightarrow> duration \<Rightarrow> time \<Rightarrow> LeaseRecord" where
  "renewed l ttl now = l\<lparr>lea_Revision := lea_Revision l + 1, lea_ExpiresAt := now + ttl, lea_UpdatedAt := now\<rparr>"

lemma renewed_valid:
  assumes "validateReplayLease l = None" "LeaseTermination_Empty (lea_Termination l)"
    and "lea_ExpiresAt l < now + ttl" "lea_UpdatedAt l \<le> now" "lea_Revision l \<noteq> - 1" "0 < now" "0 < ttl"
  shows "validateReplayLease (renewed l ttl now) = None"
  using assms
  by (simp add: renewed_def validateReplayLease_def Let_def validateReplayLeaseTermination_def NewLease_def replay_simps err_simps)

lemma active_iff:
  "requireLeaseActive l now = None \<longleftrightarrow>
     lea_State l = LeaseActive \<and> LeaseTermination_Empty (lea_Termination l) \<and> now < lea_ExpiresAt l"
  by (auto simp: requireLeaseActive_def)

lemma renewed_step:
  assumes "LeaseTermination_Empty (lea_Termination l)" "lea_ExpiresAt l < now + ttl" "lea_UpdatedAt l \<le> now" "lea_Revision l \<noteq> - 1"
  shows "lease_step l (renewed l ttl now)"
  using assms by (simp add: lease_step_def renewed_def generation_advance_def termination_step_def revision_step_succ)

text \<open>
  C16. Renewal: under the expected revision, an unexpired lease without a termination gets exactly the
  new expiry, revision and update time; nothing else of it and nothing else in the core changes.
  The clock readings must not run backwards.
\<close>

theorem renew_succeeds:
  assumes "MutationMeta_Validate (env_deadline env) (env_clock env 0) (ren_Meta request) = None"
    and "callable env ''renew_lease'' (meta_IdempotencyKey (ren_Meta request)) (marshal request) c"
    and "map_of (idempotency (core_store c)) (''renew_lease'', meta_IdempotencyKey (ren_Meta request)) = None"
    and l: "tbl_get (core_leases c) (ren_LeaseID request) = Some l" and own: "owns_agent c l"
    and r: "ren_ExpectedRevision request = lea_Revision l" "lea_Revision l \<noteq> - 1" and ttl: "0 < ren_TTL request"
    and a: "requireLeaseActive l (env_clock env 1) = None"
    and t: "lea_ExpiresAt l < env_clock env 2 + ren_TTL request" "lea_UpdatedAt l \<le> env_clock env 2" "0 < env_clock env 2"
  shows "commits env (RenewLease marshal env request c)
    (c\<lparr>core_leases := tbl_put (ren_LeaseID request) (renewed l (ren_TTL request) (env_clock env 2)) (core_leases c)\<rparr>)
    (renewed l (ren_TTL request) (env_clock env 2))"
proof -
  let ?l = "renewed l (ren_TTL request) (env_clock env 2)"
  have co: "coherent c" using synced_coherent callableD(3) [OF assms(2)] .
  note v = coherent_lease_of [OF co l] and e = a [unfolded active_iff]
  have vl: "validateReplayLease l = None" using v by (simp add: coherent_lease_def)
  have "\<exists>i. ParseLeaseID (lea_ID l) = Inr i" using vl by (simp add: validateReplayLease_def Let_def err_of_parsePersisted)
  then have run: "RenewLease marshal env request c = runMutation env ''renew_lease'' (meta_IdempotencyKey (ren_Meta request))
      (marshal request) (RenewLease_tx env request) finish_lease c"
    using assms(1) ttl v by (auto simp: RenewLease_def intro!: validated_ok)
  have acc: "accept c [lease_draft ''lease.renewed'' ?l] = Some (c\<lparr>core_leases := tbl_put (ren_LeaseID request) ?l (core_leases c)\<rparr>)"
    using lease_accepted [OF co l own renewed_step _ renewed_valid [OF vl], of "env_clock env 2" "ren_TTL request" "''lease.renewed''" "[]"]
      e t r ttl by (simp add: renewed_def)
  have tx: "RenewLease_tx env request c (core_store c) =
      bind_r (append_all (env_store env) [lease_draft ''lease.renewed'' ?l] (core_store c)) (\<lambda>s. Inr (s, Some (RLease ?l)))"
    using l r t(1) a by (simp add: RenewLease_tx_def Let_def bind_r_assoc draft_defs renewed_def)
  show ?thesis
    unfolding run by (rule mutation_commits(2) [where tx = "RenewLease_tx env request", OF assms(2,3) acc tx]) (simp add: finish_lease_def)
qed

end
