(* ===== verification/App_Releases.thy ===== *)
theory App_Releases
  imports App_Outcomes
begin

text \<open>
  The two phases of a release (\<open>lease_termination.go\<close>): when beginning one succeeds, the race between
  its two clock readings and the lease deadline, and that a drained termination can be completed.
\<close>

section \<open>Beginning a release\<close>

definition releasing :: "LeaseRecord \<Rightarrow> string \<Rightarrow> string \<Rightarrow> string \<Rightarrow> time \<Rightarrow> LeaseRecord" where
  "releasing l reason key digest now = l\<lparr>lea_State := LeaseReleasing, lea_Revision := lea_Revision l + 1, lea_UpdatedAt := now,
     lea_Termination := \<lparr>ter_Kind = LeaseTerminationRelease, ter_State = LeaseTerminationReleasing, ter_Reason = reason,
       ter_BeginIdempotencyKey = key, ter_BeginRequestDigest = digest, ter_InitiatedLeaseRevision = lea_Revision l + 1,
       ter_InitiatedAt = now, ter_CompleteIdempotencyKey = [], ter_CompleteRequestDigest = [], ter_CompletedAt = zero_time\<rparr>\<rparr>"

definition releasing_session :: "SessionRecord \<Rightarrow> time \<Rightarrow> SessionRecord" where
  "releasing_session s now = s\<lparr>ses_State := ResearchSessionReleasing, ses_Revision := ses_Revision s + 1, ses_UpdatedAt := now\<rparr>"

text \<open>A request to release \<open>l\<close>, the lease of session \<open>s\<close>, that passes every check of the caller and of the transaction.\<close>

definition releasable :: "(stableReleaseRequest \<Rightarrow> bytes result) \<Rightarrow> env \<Rightarrow> ReleaseResearchSessionRequest \<Rightarrow> Core \<Rightarrow> bytes \<Rightarrow>
    LeaseRecord \<Rightarrow> SessionRecord \<Rightarrow> bool" where
  "releasable marshal env request c bytes l s \<longleftrightarrow>
     ReleaseResearchSessionRequest_validate (env_deadline env) (env_clock env 0) request = None \<and>
     marshal (stableRelease request) = Inr bytes \<and>
     callable env ''begin_release_research_session'' (meta_IdempotencyKey (rel_Meta request)) bytes c \<and>
     map_of (idempotency (core_store c)) (''begin_release_research_session'', meta_IdempotencyKey (rel_Meta request)) = None \<and>
     tbl_get (core_leases c) (rel_LeaseID request) = Some l \<and> tbl_get (core_sessions c) (lea_SessionID l) = Some s \<and>
     owns_agent c l \<and> rel_ExpectedRevision request = lea_Revision l \<and> lea_Revision l \<noteq> - 1 \<and> ses_Revision s \<noteq> - 1 \<and>
     requireLeaseActive l (env_clock env 1) = None \<and> ses_State s = ResearchSessionLeased \<and>
     lea_UpdatedAt l \<le> env_clock env 2 \<and> ses_UpdatedAt s \<le> env_clock env 2 \<and> 0 < env_clock env 2"

definition release_digest :: "env \<Rightarrow> bytes \<Rightarrow> string" where
  "release_digest env bytes = ''sha256:'' @ hex_encode (se_sha (env_store env) bytes)"

definition release_drafts :: "env \<Rightarrow> ReleaseResearchSessionRequest \<Rightarrow> bytes \<Rightarrow> LeaseRecord \<Rightarrow> SessionRecord \<Rightarrow> draft list" where
  "release_drafts env request bytes l s =
     [lease_draft ''lease.releasing'' (releasing l (srr_Reason (stableRelease request)) (meta_IdempotencyKey (rel_Meta request))
        (release_digest env bytes) (env_clock env 2)),
      session_draft ''session.releasing'' (releasing_session s (env_clock env 2))]"

lemma BeginRelease_runs:
  assumes "releasable marshal env request c bytes l s"
  shows "BeginReleaseResearchSession marshal env request c =
      runMutation env ''begin_release_research_session'' (meta_IdempotencyKey (rel_Meta request)) bytes
        (BeginRelease_tx env request (release_digest env bytes)) BeginRelease_finish c"
    "BeginRelease_tx env request (release_digest env bytes) c (core_store c) =
      bind_r (append_all (env_store env) (release_drafts env request bytes l s) (core_store c))
        (\<lambda>u. Inr (u, Some (RPreparation (ses_ID s) (lea_Revision l + 1))))"
proof -
  note r = assms [unfolded releasable_def]
  have co: "coherent c" using synced_coherent callableD(3) r by blast
  have ids: "lea_ID l = rel_LeaseID request" "ses_ID s = lea_SessionID l"
    using coherent_lease_of [OF co] coherent_session_of [OF co] r by blast+
  have legal: "RequireLeaseTransition LeaseActive LeaseReleasing = None"
      "RequireResearchSessionTransition ResearchSessionLeased ResearchSessionReleasing = None"
    by (simp_all add: RequireLeaseTransition_None RequireResearchSessionTransition_None)
  show "BeginReleaseResearchSession marshal env request c =
      runMutation env ''begin_release_research_session'' (meta_IdempotencyKey (rel_Meta request)) bytes
        (BeginRelease_tx env request (release_digest env bytes)) BeginRelease_finish c"
    using r by (simp add: BeginReleaseResearchSession_def canonicalRequest_def release_digest_def validated_ok)
  show "BeginRelease_tx env request (release_digest env bytes) c (core_store c) =
      bind_r (append_all (env_store env) (release_drafts env request bytes l s) (core_store c))
        (\<lambda>u. Inr (u, Some (RPreparation (ses_ID s) (lea_Revision l + 1))))"
    using r active_iff [of l "env_clock env 1"] ids
    by (simp add: BeginRelease_tx_def beginLeaseTermination_def Let_def bind_r_assoc release_drafts_def draft_defs
        releasing_def releasing_session_def legal numeral_2_eq_2)
qed

lemma latest_revision_other:
  "control_records t = control_records s @ [r] \<Longrightarrow> aggregate_of r \<noteq> a \<Longrightarrow>
     latest_revision (control_records t) a = latest_revision (control_records s) a"
  by (simp add: latest_revision_append_other)

lemma append_two_ok:
  assumes "serviceable env" "dr_kind d \<noteq> dr_kind e"
    and "\<forall>x \<in> {d, e}. dr_kind x \<noteq> [] \<and> dr_id x \<noteq> [] \<and> dr_event x \<noteq> [] \<and> dr_revision x \<noteq> 0 \<and>
      dr_revision x = latest_revision (control_records s) (dr_kind x, dr_id x) + 1"
  obtains u r q where "append_all env [d, e] s = Inr u" "control_records u = control_records s @ [r, q]"
    "aggregate_of r = (dr_kind d, dr_id d)" "cr_Revision r = dr_revision d" "cr_Payload r = dr_payload d"
proof -
  have "\<exists>t. appendControl env (dr_kind d) (dr_id d) (dr_event d) (dr_revision d) (dr_payload d) s = Inr t"
    using assms(3) by (intro appendControl_ok [OF assms(1)]) auto
  then obtain t where t: "appendControl env (dr_kind d) (dr_id d) (dr_event d) (dr_revision d) (dr_payload d) s = Inr t" ..
  then obtain r where r: "control_records t = control_records s @ [r]" "aggregate_of r = (dr_kind d, dr_id d)"
      "cr_Revision r = dr_revision d" "cr_Payload r = dr_payload d"
    by (rule appendControl_Inr) auto
  have "dr_revision e = latest_revision (control_records t) (dr_kind e, dr_id e) + 1"
    using assms(2,3) latest_revision_other [OF r(1), of "(dr_kind e, dr_id e)"] r(2) by simp
  then have "\<exists>u. appendControl env (dr_kind e) (dr_id e) (dr_event e) (dr_revision e) (dr_payload e) t = Inr u"
    using assms(3) by (intro appendControl_ok [OF assms(1)]) auto
  then obtain u where u: "appendControl env (dr_kind e) (dr_id e) (dr_event e) (dr_revision e) (dr_payload e) t = Inr u" ..
  then obtain q where "control_records u = control_records t @ [q]" by (rule appendControl_Inr) auto
  with t u r that show thesis by (simp add: bind_r_def)
qed

subsection \<open>In time\<close>

lemma releasing_valid:
  assumes "validateReplayLease l = None" "lea_Revision l \<noteq> - 1" "\<not> blank reason" "IsCanonicalIdempotencyKey key"
    and "ParseDigest digest = Inr d" "lea_UpdatedAt l \<le> now" "0 < now" "now < lea_ExpiresAt l"
  shows "validateReplayLease (releasing l reason key digest now) = None"
proof -
  have "lea_Revision l \<noteq> 0" using assms(1) by (simp add: validateReplayLease_def Let_def replay_simps)
  then have "\<not> lea_Revision l + 1 < 2" using assms(2)
    by (simp add: word_less_nat_alt unat_plus_one unat_gt_0)
  moreover have "lea_CreatedAt l \<le> lea_UpdatedAt l" using assms(1) by (simp add: validateReplayLease_def Let_def replay_simps)
  ultimately show ?thesis using assms
    by (simp add: releasing_def validateReplayLease_def Let_def validateReplayLeaseTermination_def NewLease_def replay_simps
        err_simps state_valid LeaseTermination_Empty_def no_termination_def LeaseTerminationKind_IsValid_def
        LeaseTerminationState_IsValid_def LeaseTerminationState_Terminal_def)
qed

lemma releasing_late:
  assumes "lea_ExpiresAt l \<le> now"
  shows "validateReplayLease (releasing l reason key digest now) \<noteq> None"
  using assms
  by (simp add: releasing_def validateReplayLease_def Let_def validateReplayLeaseTermination_def LeaseTermination_Empty_def
      no_termination_def)

lemma releasing_step:
  assumes "requireLeaseActive l at = None" "lea_Revision l \<noteq> - 1" "lea_UpdatedAt l \<le> now"
  shows "lease_step l (releasing l reason key digest now)"
  using assms
  by (auto simp: lease_step_def releasing_def generation_advance_def termination_step_def revision_step_succ active_iff
      RequireLeaseTransition_None LeaseTermination_InProgress_def)

lemma releasing_session_valid:
  assumes "validateReplaySession s = None" "ses_Revision s \<noteq> - 1" "ses_UpdatedAt s \<le> now" "0 < now"
  shows "validateReplaySession (releasing_session s now) = None"
  using assms by (auto simp: releasing_session_def validateReplaySession_def Let_def replay_simps state_valid)

lemma releasing_session_step:
  assumes "ses_State s = ResearchSessionLeased" "ses_Revision s \<noteq> - 1" "ses_UpdatedAt s \<le> now"
  shows "session_step s (releasing_session s now)"
  using assms by (simp add: session_step_def releasing_session_def revision_step_succ RequireResearchSessionTransition_None)

definition releasing_core :: "env \<Rightarrow> ReleaseResearchSessionRequest \<Rightarrow> bytes \<Rightarrow> LeaseRecord \<Rightarrow> SessionRecord \<Rightarrow> Core \<Rightarrow> Core" where
  "releasing_core env request bytes l s c =
     c\<lparr>core_leases := tbl_put (lea_ID l) (releasing l (srr_Reason (stableRelease request))
         (meta_IdempotencyKey (rel_Meta request)) (release_digest env bytes) (env_clock env 2)) (core_leases c),
       core_sessions := tbl_put (ses_ID s) (releasing_session s (env_clock env 2)) (core_sessions c)\<rparr>"

lemma releasable_parts:
  assumes "releasable marshal env request c bytes l s"
  shows "coherent c" "lea_ID l = rel_LeaseID request" "ses_ID s = lea_SessionID l" "lease_matches s l"
    "validateReplayLease l = None" "validateReplaySession s = None"
    "\<not> blank (srr_Reason (stableRelease request))" "IsCanonicalIdempotencyKey (meta_IdempotencyKey (rel_Meta request))"
proof -
  note r = assms [unfolded releasable_def]
  show co: "coherent c" using synced_coherent callableD(3) r by blast
  note l = coherent_lease_of [OF co] and s = coherent_session_of [OF co]
  show "lea_ID l = rel_LeaseID request" "ses_ID s = lea_SessionID l" using l s r by blast+
  have "coherent_lease c l" using l r by blast
  then show "lease_matches s l" "validateReplayLease l = None" using r by (auto simp: coherent_lease_def)
  show "validateReplaySession s = None" using s r by blast
  have "\<not> blank (rel_Reason request)" using r by (simp add: ReleaseResearchSessionRequest_validate_def)
  then show "\<not> blank (srr_Reason (stableRelease request))" by (simp add: stableRelease_def blank_def)
  show "IsCanonicalIdempotencyKey (meta_IdempotencyKey (rel_Meta request))"
    using r by (simp add: ReleaseResearchSessionRequest_validate_def MutationMeta_Validate_def)
qed

lemma releasing_accepted:
  assumes "releasable marshal env request c bytes l s" "ParseDigest (release_digest env bytes) = Inr d"
    and "env_clock env 2 < lea_ExpiresAt l"
  shows "accept c (release_drafts env request bytes l s) = Some (releasing_core env request bytes l s c)"
proof -
  note r = assms(1) [unfolded releasable_def] and p = releasable_parts [OF assms(1)]
  let ?now = "env_clock env 2"
  let ?l = "releasing l (srr_Reason (stableRelease request)) (meta_IdempotencyKey (rel_Meta request)) (release_digest env bytes) ?now"
  let ?c = "c\<lparr>core_leases := tbl_put (rel_LeaseID request) ?l (core_leases c)\<rparr>"
  have step: "lease_step l ?l" using r by (intro releasing_step) auto
  have val: "validateReplayLease ?l = None" using r p assms(2,3) by (intro releasing_valid) auto
  have "owns_parts ?c s"
    using r p by (auto simp: owns_parts_def owns_agent_def releasing_def lease_matches_def)
  then have "accept ?c [session_draft ''session.releasing'' (releasing_session s ?now)] =
      Some (?c\<lparr>core_sessions := tbl_put (lea_SessionID l) (releasing_session s ?now) (core_sessions ?c)\<rparr>)"
    using session_accepted [of ?c "lea_SessionID l" s, OF _ p(3) _ releasing_session_step releasing_session_valid [OF p(6)]] r by simp
  moreover have "accept c (lease_draft ''lease.releasing'' ?l # ds) = accept ?c ds" for ds
    using lease_accepted [OF p(1) _ _ step _ val] r by (simp add: releasing_def)
  ultimately show ?thesis using p by (simp add: release_drafts_def releasing_core_def)
qed

text \<open>
  C17. Beginning a release: when both clock readings of the operation fall before the lease deadline,
  it commits the releasing lease with the caller's intent together with the releasing session,
  which closes admission, and returns the lease's new revision.
\<close>

theorem begin_release_succeeds:
  assumes "releasable marshal env request c bytes l s" "ParseDigest (release_digest env bytes) = Inr d"
    and "env_clock env 2 < lea_ExpiresAt l" and a: "tbl_get (core_agents c) (ses_AgentWorkspaceID s) = Some a"
  shows "\<exists>preparation. commits env (BeginReleaseResearchSession marshal env request c)
      (releasing_core env request bytes l s c) preparation \<and> prep_ReleasingLeaseRevision preparation = lea_Revision l + 1 \<and>
    lea_State (view_Lease (prep_View preparation)) = LeaseReleasing \<and>
    requireLeaseActive (view_Lease (prep_View preparation)) now \<noteq> None"
proof -
  note r = assms(1) [unfolded releasable_def] and p = releasable_parts [OF assms(1)]
  let ?c = "releasing_core env request bytes l s c"
  obtain view where v: "sessionViewLocked ?c (ses_ID s) = Inr view" and l: "view_Lease view = releasing l
      (srr_Reason (stableRelease request)) (meta_IdempotencyKey (rel_Meta request)) (release_digest env bytes) (env_clock env 2)"
    using a p by (simp add: sessionViewLocked_def releasing_core_def releasing_session_def lease_matches_def)
  let ?prep = "\<lparr>prep_View = view, prep_ReleasingLeaseRevision = lea_Revision l + 1\<rparr>"
  have "commits env (BeginReleaseResearchSession marshal env request c) ?c ?prep"
    unfolding BeginRelease_runs(1) [OF assms(1)]
    by (rule mutation_commits(2) [where tx = "BeginRelease_tx env request (release_digest env bytes)",
          OF _ _ releasing_accepted [OF assms(1-3)] BeginRelease_runs(2) [OF assms(1)]])
      (use r v in \<open>auto simp: BeginRelease_finish_def\<close>)
  then show ?thesis using l by (intro exI [of _ ?prep]) (simp add: releasing_def active_iff)
qed

subsection \<open>Too late\<close>

text \<open>A core whose store holds a record that replay rejects: it cannot be read, changed or restarted.\<close>

definition poisoned :: "payload store_env \<Rightarrow> Core \<Rightarrow> bool" where
  "poisoned env c \<longleftrightarrow> snd (syncLocked env c) \<noteq> None \<and> (\<forall>c'. NewCore env (core_store c) \<noteq> Inr c')"

lemma rejected_poisons:
  assumes "synced env c" "healthy env" "store_ok env t" "control_records t = control_records (core_store c) @ r # rs"
    and "apply_record c r = Inl e"
  shows "\<exists>e. syncLocked env (c\<lparr>core_store := t\<rparr>) = (c\<lparr>core_store := t\<rparr>, Some e)" "poisoned env (c\<lparr>core_store := t\<rparr>)"
proof -
  note rd = store_ok_readable [OF assms(3,2)]
  have "sequenced (control_records (core_store c) @ r # rs)" using rd assms(4) by (simp add: readable_def)
  then have new: "newer (core_lastSequence c) (control_records t) = r # rs"
    unfolding assms(4) synced_last [OF assms(1)] by (rule newer_suffix)
  have bad: "\<exists>e. apply_batch (c\<lparr>core_store := t\<rparr>) (r # rs) = (c\<lparr>core_store := t\<rparr>, Some e)"
    using assms(5) by (simp add: apply_record_store)
  then show sync: "\<exists>e. syncLocked env (c\<lparr>core_store := t\<rparr>) = (c\<lparr>core_store := t\<rparr>, Some e)"
    using syncLocked_one_pass_aux [of env "c\<lparr>core_store := t\<rparr>"] rd synced_last_nonneg [OF assms(1)] new by simp
  have "apply_batch (emptyCore t) (control_records (core_store c)) = (c\<lparr>core_store := t\<rparr>, None)"
    using assms(1) apply_batch_store [where c = "emptyCore (core_store c)" and s = t]
    by (simp add: synced_def emptyCore_store [of t "core_store c"])
  then have "\<exists>e. syncLocked env (emptyCore t) = (c\<lparr>core_store := t\<rparr>, Some e)"
    using bad NewCore_batch [OF rd] assms(4) by (simp add: apply_batch_append del: apply_batch.simps)
  then show "poisoned env (c\<lparr>core_store := t\<rparr>)" using sync by (auto simp: poisoned_def NewCore_def)
qed

lemma synced_hashes:
  assumes "se_sha env' = se_sha env" "se_enc env' = se_enc env"
  shows "synced env' = synced env" "store_ok env' = store_ok env"
  by (rule ext, simp add: synced_def store_ok_def journal_ok_def assms)+

lemma apply_lease_invalid:
  assumes "aggregate_of r = (''lease'', lea_ID l)" "cr_Payload r = PLease l" "validateReplayLease l \<noteq> None"
  shows "\<exists>e. apply_record c r = Inl e"
proof (cases "apply_record c r")
  case (Inr c')
  then obtain v where v: "decodeReplayAggregate as_lease r (\<lambda>v. (lea_ID v, lea_Revision v)) (validateReplayLeaseProjection c) = Inr v"
    using assms(1) by (auto simp: apply_record_def aggregate_of_def bind_r_Inr)
  then have "validateReplayLeaseProjection c l = None" using decodeReplayAggregate_Inr [OF v] assms(2) by simp
  then have "validateReplayLease l = None" by (simp add: validateReplayLeaseProjection_def)
  then show ?thesis using assms(3) by simp
qed blast

lemma release_appends:
  assumes "releasable marshal env request c bytes l s"
  obtains u q q' where "append_all (env_store env) (release_drafts env request bytes l s) (core_store c) = Inr u"
    "control_records u = control_records (core_store c) @ [q, q']" "aggregate_of q = (''lease'', lea_ID l)"
    "cr_Payload q = PLease (releasing l (srr_Reason (stableRelease request)) (meta_IdempotencyKey (rel_Meta request))
       (release_digest env bytes) (env_clock env 2))"
proof -
  note r = assms [unfolded releasable_def] and p = releasable_parts [OF assms]
  let ?l = "releasing l (srr_Reason (stableRelease request)) (meta_IdempotencyKey (rel_Meta request))
       (release_digest env bytes) (env_clock env 2)"
  let ?d = "lease_draft ''lease.releasing'' ?l" and ?e = "session_draft ''session.releasing'' (releasing_session s (env_clock env 2))"
  have call: "callable env ''begin_release_research_session'' (meta_IdempotencyKey (rel_Meta request)) bytes c" using r by blast
  note tr = synced_tracks(1,2) [OF callableD(3) [OF call], unfolded tracks_def, rule_format]
  have latest: "latest_revision (control_records (core_store c)) (''lease'', lea_ID l) = lea_Revision l"
      "latest_revision (control_records (core_store c)) (''session'', ses_ID s) = ses_Revision s"
    using tr(2) [of "lea_ID l"] tr(1) [of "ses_ID s"] r p by simp_all
  have "(\<exists>i. ParseLeaseID (lea_ID l) = Inr i) \<and> (\<exists>i. ParseResearchSessionID (ses_ID s) = Inr i)"
    using p(5,6) by (simp add: validateReplayLease_def validateReplaySession_def Let_def err_of_parsePersisted)
  then have ne: "lea_ID l \<noteq> []" "ses_ID s \<noteq> []" using parsed_nonempty by (auto simp: ParseID_defs)
  show thesis
    by (rule append_two_ok [of "env_store env" ?d ?e "core_store c"])
      (use callableD(1) [OF call] latest ne r that in
        \<open>auto simp: draft_defs releasing_def releasing_session_def plus_one_nonzero release_drafts_def\<close>)
qed

text \<open>
  C20. The deadline race.  Beginning a release reads the clock twice: once to check that the lease has
  not expired, once more to stamp the termination.  If the lease expires between the two readings,
  the operation commits a lease and a session record and then fails, because replay rejects a
  release that was initiated at or after the deadline.  From then on the core can no longer be
  synchronised and no core can be started on its store.
\<close>

theorem release_deadline_race:
  assumes rel: "releasable marshal env request c bytes l s" and late: "lea_ExpiresAt l \<le> env_clock env 2"
  shows "\<exists>t e rs. BeginReleaseResearchSession marshal env request c = (c\<lparr>core_store := t\<rparr>, Inl e) \<and>
    control_records t = control_records (core_store c) @ rs \<and> length rs = 2 \<and>
    (\<forall>env'. healthy env' \<and> se_sha env' = se_sha (env_store env) \<and> se_enc env' = se_enc (env_store env) \<longrightarrow>
       poisoned env' (c\<lparr>core_store := t\<rparr>))"
proof -
  note r = rel [unfolded releasable_def] and p = releasable_parts [OF rel] and run = BeginRelease_runs [OF rel]
  let ?env = "env_store env" and ?key = "meta_IdempotencyKey (rel_Meta request)"
  let ?now = "env_clock env 2" and ?tx = "BeginRelease_tx env request (release_digest env bytes)"
  let ?l = "releasing l (srr_Reason (stableRelease request)) ?key (release_digest env bytes) ?now"
  have call: "callable env ''begin_release_research_session'' ?key bytes c" using r by blast
  note d = callableD [OF call]
  obtain u q q' where u: "append_all ?env (release_drafts env request bytes l s) (core_store c) = Inr u"
      "control_records u = control_records (core_store c) @ [q, q']" "aggregate_of q = (''lease'', lea_ID l)"
      "cr_Payload q = PLease ?l"
    by (rule release_appends [OF rel])
  let ?t = "u\<lparr>idempotency := AList.update (''begin_release_research_session'', ?key)
      (idempotency_entry ?env bytes (RPreparation (ses_ID s) (lea_Revision l + 1))) (idempotency u)\<rparr>"
  have ok: "store_ok ?env ?t"
    using extends_store_ok [OF append_all_extends [OF u(1)]] d(1,3) by (simp add: synced_def serviceable_def hash32_def)
  have rs: "control_records ?t = control_records (core_store c) @ q # [q']" using u(2) by simp
  obtain e where e: "apply_record c q = Inl e"
    using apply_lease_invalid [of q ?l c] u(3,4) releasing_late [OF late] by (auto simp: releasing_def)
  have "RunIdempotent ?env ''begin_release_research_session'' ?key bytes (?tx c) (core_store c) =
      (?t, Inr (RPreparation (ses_ID s) (lea_Revision l + 1), False))"
    by (rule RunIdempotent_commits [OF d(2) _ d(4-6)]) (use r run(2) u(1) in auto)
  then have "\<exists>e. BeginReleaseResearchSession marshal env request c = (c\<lparr>core_store := ?t\<rparr>, Inl e)"
    using rejected_poisons(1) [OF d(3,2) ok rs e] unfolding run(1) runMutation_transact [OF call]
    by (auto simp: transact_def)
  moreover have "poisoned env' (c\<lparr>core_store := ?t\<rparr>)"
    if "healthy env'" "se_sha env' = se_sha ?env" "se_enc env' = se_enc ?env" for env'
    using rejected_poisons(2) [of env' c ?t, OF _ that(1) _ rs e] synced_hashes [OF that(2,3)] d(3) ok by simp
  ultimately show ?thesis using rs by (metis length_Cons list.size(3) numeral_2_eq_2)
qed

end
