(* ===== verification/App_Retirement.thy ===== *)
theory App_Retirement
  imports App_Outcomes
begin

text \<open>
  Moving a generation of an agent workspace or a target to its next state, and retiring it along its
  path: the records written are the ones replay accepts.
\<close>

section \<open>Targets\<close>

definition moved_target :: "nat \<Rightarrow> time \<Rightarrow> TargetGenerationState \<Rightarrow> TargetRecord \<Rightarrow> TargetRecord" where
  "moved_target i now x t = t\<lparr>tgt_Generations := (tgt_Generations t)[i := (tgt_Generations t ! i)
       \<lparr>tgn_State := x, tgn_Revision := tgn_Revision (tgt_Generations t ! i) + 1, tgn_UpdatedAt := now\<rparr>],
     tgt_Revision := tgt_Revision t + 1, tgt_UpdatedAt := now\<rparr>"

lemma moved_target_fields [simp]:
  "tgt_ID (moved_target i now x t) = tgt_ID t" "tgt_SessionID (moved_target i now x t) = tgt_SessionID t"
  "tgt_LeaseID (moved_target i now x t) = tgt_LeaseID t" "tgt_Template (moved_target i now x t) = tgt_Template t"
  "tgt_CreationIdempotencyKey (moved_target i now x t) = tgt_CreationIdempotencyKey t"
  "tgt_Kind (moved_target i now x t) = tgt_Kind t" "tgt_CurrentGeneration (moved_target i now x t) = tgt_CurrentGeneration t"
  "tgt_Runs (moved_target i now x t) = tgt_Runs t" "tgt_Operations (moved_target i now x t) = tgt_Operations t"
  "tgt_CreatedAt (moved_target i now x t) = tgt_CreatedAt t" "tgt_UpdatedAt (moved_target i now x t) = now"
  "tgt_Revision (moved_target i now x t) = tgt_Revision t + 1"
  "length (tgt_Generations (moved_target i now x t)) = length (tgt_Generations t)"
  by (simp_all add: moved_target_def)

lemma validateReplayRun_later:
  assumes "validateReplayRun tid lid t index r = None" "tgt_Runs t' = tgt_Runs t"
    and "tgt_CurrentGeneration t' = tgt_CurrentGeneration t" "tgt_CreatedAt t' = tgt_CreatedAt t" "tgt_UpdatedAt t \<le> tgt_UpdatedAt t'"
  shows "validateReplayRun tid lid t' index r = None"
  using assms by (auto simp: validateReplayRun_def Let_def replay_simps)

lemma validateReplayOperation_later:
  assumes "validateReplayOperation tid lid t index q = None" "tgt_Runs t' = tgt_Runs t" "tgt_Operations t' = tgt_Operations t"
    and "tgt_CreatedAt t' = tgt_CreatedAt t" "tgt_UpdatedAt t \<le> tgt_UpdatedAt t'"
  shows "validateReplayOperation tid lid t' index q = None"
  using assms by (simp add: validateReplayOperation_def Let_def replay_simps runGenerations_def)

lemma validateReplayTargetGeneration_later:
  assumes "validateReplayTargetGeneration tid t index g = None"
    and "tgt_CreatedAt t' = tgt_CreatedAt t" "tgt_UpdatedAt t \<le> tgt_UpdatedAt t'"
  shows "validateReplayTargetGeneration tid t' index g = None"
  using assms by (simp add: validateReplayTargetGeneration_def Let_def replay_simps)

lemma bindings_moved [simp]:
  "validateTargetProvisioningBinding prefix (g\<lparr>tgn_State := x, tgn_Revision := r, tgn_UpdatedAt := u\<rparr>) =
     validateTargetProvisioningBinding prefix g"
  "validateAgentProvisioningBinding prefix (h\<lparr>agn_State := y, agn_Revision := r, agn_UpdatedAt := u\<rparr>) =
     validateAgentProvisioningBinding prefix h"
  by (simp_all add: validateTargetProvisioningBinding_def targetProvisioningBindingEmpty_def targetProvisioningBindingComplete_def
      validateAgentProvisioningBinding_def agentProvisioningBindingEmpty_def agentProvisioningBindingComplete_def)

lemma validateReplayTargetGeneration_moved:
  assumes "validateReplayTargetGeneration tid t index g = None"
    and "tgt_CreatedAt t' = tgt_CreatedAt t" "tgt_UpdatedAt t' = now" "tgt_UpdatedAt t \<le> now" "0 < now"
    and "TargetGenerationState_IsValid x" "tgn_Revision g \<noteq> - 1"
  shows "validateReplayTargetGeneration tid t' index (g\<lparr>tgn_State := x, tgn_Revision := tgn_Revision g + 1, tgn_UpdatedAt := now\<rparr>) = None"
  using assms by (simp add: validateReplayTargetGeneration_def Let_def replay_simps)

text \<open>The checks of a target: those of its own fields, of its generations, its runs and its operations.\<close>

definition parsed_target :: "TargetRecord \<Rightarrow> TargetID" where
  "parsed_target t = val_or zeroID (parsePersisted ''target.id'' (tgt_ID t) ParseTargetID)"

definition parsed_lease :: "TargetRecord \<Rightarrow> LeaseID" where
  "parsed_lease t = val_or zeroID (parsePersisted ''target.lease_id'' (tgt_LeaseID t) ParseLeaseID)"

definition target_fields_ok :: "TargetRecord \<Rightarrow> bool" where
  "target_fields_ok t \<longleftrightarrow> (\<exists>i. ParseTargetID (tgt_ID t) = Inr i) \<and> (\<exists>i. ParseResearchSessionID (tgt_SessionID t) = Inr i) \<and>
     (\<exists>i. ParseLeaseID (tgt_LeaseID t) = Inr i) \<and> \<not> blank (tgt_Template t) \<and>
     IsCanonicalIdempotencyKey (tgt_CreationIdempotencyKey t) \<and> TargetKind_IsValid (tgt_Kind t) \<and>
     tgt_CurrentGeneration t \<noteq> 0 \<and> tgt_Revision t \<noteq> 0 \<and> tgt_CreatedAt t \<noteq> 0 \<and> tgt_UpdatedAt t \<noteq> 0 \<and>
     tgt_CreatedAt t \<le> tgt_UpdatedAt t \<and> of_nat (length (tgt_Generations t)) = tgt_CurrentGeneration t"

lemma validateReplayTarget_iff:
  "validateReplayTarget t = None \<longleftrightarrow> target_fields_ok t \<and>
     (\<forall>j < length (tgt_Generations t). tgn_Generation (tgt_Generations t ! j) = of_nat (j + 1) \<and>
        validateReplayTargetGeneration (parsed_target t) t j (tgt_Generations t ! j) = None) \<and>
     (\<forall>j < length (tgt_Runs t). validateReplayRun (parsed_target t) (parsed_lease t) t j (tgt_Runs t ! j) = None) \<and>
     (\<forall>j < length (tgt_Operations t). validateReplayOperation (parsed_target t) (parsed_lease t) t j (tgt_Operations t ! j) = None)"
proof -
  have p: "(\<exists>i. ParseTargetID (tgt_ID t) = Inr i) \<and> (\<exists>i. ParseResearchSessionID (tgt_SessionID t) = Inr i) \<Longrightarrow>
      violates field message (NewTarget (parsed_target t)
        (val_or zeroID (parsePersisted f (tgt_SessionID t) ParseResearchSessionID)) k g at) = None \<longleftrightarrow>
      TargetKind_IsValid k \<and> g \<noteq> 0 \<and> at \<noteq> 0" for field message f k g at
    by (auto simp: parsed_target_def NewTarget_def replay_simps err_simps)
  show ?thesis
    unfolding validateReplayTarget_def Let_def first_err_append first_err_Cons_None first_err_upt_None
      parsed_target_def [symmetric] parsed_lease_def [symmetric] target_fields_ok_def
    using p by (auto simp: err_of_parsePersisted validateGenerationSequence_def err_simps replay_simps first_err_upt_None)
qed

lemma validateReplayTarget_moved:
  assumes "validateReplayTarget t = None" "i < length (tgt_Generations t)" "TargetGenerationState_IsValid x"
    and "tgt_Revision t \<noteq> - 1" "tgn_Revision (tgt_Generations t ! i) \<noteq> - 1" "tgt_UpdatedAt t \<le> now" "0 < now"
  shows "validateReplayTarget (moved_target i now x t) = None"
proof -
  let ?t = "moved_target i now x t"
  note v = assms(1) [unfolded validateReplayTarget_iff]
  have ids: "parsed_target ?t = parsed_target t" "parsed_lease ?t = parsed_lease t"
    by (simp_all add: parsed_target_def parsed_lease_def)
  have fields: "target_fields_ok ?t" using v assms(4,6,7) by (simp add: target_fields_ok_def plus_one_nonzero)
  have gens: "tgn_Generation (tgt_Generations ?t ! j) = of_nat (j + 1) \<and>
      validateReplayTargetGeneration (parsed_target t) ?t j (tgt_Generations ?t ! j) = None" if "j < length (tgt_Generations t)" for j
  proof (cases "j = i")
    case True
    then show ?thesis
      using validateReplayTargetGeneration_moved [of "parsed_target t" t j "tgt_Generations t ! j" ?t now x] v that assms
      by (simp add: moved_target_def)
  next
    case False
    then show ?thesis
      using validateReplayTargetGeneration_later [of "parsed_target t" t j "tgt_Generations t ! j" ?t] v that assms
      by (simp add: moved_target_def)
  qed
  have runs: "validateReplayRun (parsed_target t) (parsed_lease t) ?t j (tgt_Runs t ! j) = None" if "j < length (tgt_Runs t)" for j
    by (rule validateReplayRun_later [of _ _ t]) (use v that assms(6) in simp_all)
  have ops: "validateReplayOperation (parsed_target t) (parsed_lease t) ?t j (tgt_Operations t ! j) = None"
    if "j < length (tgt_Operations t)" for j
    by (rule validateReplayOperation_later [of _ _ t]) (use v that assms(6) in simp_all)
  show ?thesis unfolding validateReplayTarget_iff ids using fields gens runs ops by simp
qed

subsection \<open>Histories that keep what they had\<close>

lemma by_last_id_distinct:
  assumes "distinct (map ident xs)" "x \<in> set xs"
  shows "by_last_id ident xs (ident x) = Some x"
  using assms unfolding by_last_id_def
proof (induction xs rule: rev_induct)
  case (snoc y ys)
  then show ?case by (auto simp: find_Some_iff)
qed simp

lemma remembered_distinct:
  assumes "\<forall>j < length xs. rememberPersistedID (map ident (take j xs)) (field j) (ident (xs ! j)) = None"
  shows "distinct (map ident xs)"
proof -
  have "ident (xs ! j) \<notin> ident ` set (take j xs)" if "j < length xs" for j
    using assms that by (simp add: rememberPersistedID_def)
  then show ?thesis
    unfolding distinct_conv_nth length_map
    by (metis (no_types, lifting) image_eqI in_set_conv_nth length_take min_less_iff_conj nat_neq_iff nth_map nth_take)
qed

lemma valid_target_distinct:
  assumes "validateReplayTarget t = None"
  shows "distinct (map run_ID (tgt_Runs t))" "distinct (map ope_ID (tgt_Operations t))"
proof -
  note v = assms [unfolded validateReplayTarget_iff]
  have "\<forall>j < length (tgt_Runs t). rememberPersistedID (map run_ID (take j (tgt_Runs t))) (indexed ''target.runs'' j @ ''.id'') (run_ID (tgt_Runs t ! j)) = None"
    using v by (simp add: validateReplayRun_def Let_def)
  then show "distinct (map run_ID (tgt_Runs t))" by (rule remembered_distinct)
  have "\<forall>j < length (tgt_Operations t). rememberPersistedID (map ope_ID (take j (tgt_Operations t))) (indexed ''target.operations'' j @ ''.id'') (ope_ID (tgt_Operations t ! j)) = None"
    using v by (simp add: validateReplayOperation_def Let_def)
  then show "distinct (map ope_ID (tgt_Operations t))" by (rule remembered_distinct)
qed

lemma validateTargetRunHistory_same: "distinct (map run_ID rs) \<Longrightarrow> validateTargetRunHistory rs rs = None"
  by (simp add: validateTargetRunHistory_def Let_def err_simps by_last_id_distinct sameTargetRunProvisioningBinding_def nested_step_def)

lemma validateTargetOperationHistory_same: "distinct (map ope_ID qs) \<Longrightarrow> validateTargetOperationHistory qs qs = None"
  by (simp add: validateTargetOperationHistory_def Let_def err_simps by_last_id_distinct nested_step_def)

subsection \<open>A move is accepted\<close>

lemma coherent_target_of: "coherent c \<Longrightarrow> tbl_get (core_targets c) i = Some t \<Longrightarrow> coherent_target c t \<and> tgt_ID t = i"
  by (simp add: coherent_def all_entries_def keyed_tables_def keyed_def)

lemma coherent_agent_of: "coherent c \<Longrightarrow> tbl_get (core_agents c) i = Some a \<Longrightarrow> coherent_agent c a \<and> agt_ID a = i"
  by (simp add: coherent_def all_entries_def keyed_tables_def keyed_def)

text \<open>A move that the state machine allows, at a time not before the target's last update.\<close>

definition can_move_target :: "nat \<Rightarrow> time \<Rightarrow> TargetGenerationState \<Rightarrow> TargetRecord \<Rightarrow> bool" where
  "can_move_target i now x t \<longleftrightarrow> i < length (tgt_Generations t) \<and>
     RequireTargetGenerationTransition (tgn_State (tgt_Generations t ! i)) x = None \<and> tgt_Revision t \<noteq> - 1 \<and>
     tgn_Revision (tgt_Generations t ! i) \<noteq> - 1 \<and> tgt_UpdatedAt t \<le> now \<and> 0 < now"

lemma moved_target_projection:
  assumes "coherent c" "tbl_get (core_targets c) k = Some t" "can_move_target i now x t"
  shows "validateReplayTargetProjection c (moved_target i now x t) = None"
proof -
  let ?t = "moved_target i now x t"
  note m = assms(3) [unfolded can_move_target_def]
  have t: "coherent_target c t" "tgt_ID t = k" using coherent_target_of [OF assms(1,2)] by blast+
  then have v: "validateReplayTarget t = None" and res: "target_resolves c t"
      and runs: "r \<in> set (tgt_Runs t) \<Longrightarrow> run_resolves c t r \<and> (\<forall>i \<in> set (run_IncidentIDs r). run_incident_linked c t r i)" for r
    by (auto simp: coherent_target_def)
  have sv: "TargetGenerationState_IsValid x" using TargetGeneration_machine.require_valid m by blast
  have v': "validateReplayTarget ?t = None" using v m sv by (intro validateReplayTarget_moved) auto
  have same: "target_resolves c ?t = target_resolves c t" "run_resolves c ?t r = run_resolves c t r"
      "run_incident_linked c ?t r j = run_incident_linked c t r j" for r j
    by (simp_all add: target_resolves_def run_resolves_def run_incident_linked_def cong: option.case_cong)
  have "tgn_UpdatedAt (tgt_Generations t ! i) \<le> tgt_UpdatedAt t"
    using v m by (simp add: validateReplayTarget_iff validateReplayTargetGeneration_def Let_def replay_simps)
  then have step: "length (tgt_Generations t) = length (tgt_Generations ?t)"
      "\<forall>j < length (tgt_Generations t). target_generation_step (tgt_Generations t ! j) (tgt_Generations ?t ! j)"
    using m by (auto simp: moved_target_def target_generation_step_def nth_list_update sameTargetProvisioningBinding_def
        nested_step_def revision_step_succ)
  have prev: "tbl_get (core_targets c) (tgt_ID ?t) = Some t" using assms(2) t(2) by simp
  show ?thesis
    unfolding validateReplayTargetProjection_def Let_def first_err_append first_err_Cons_None first_err_upt_None prev option.case
      fail_if_None same
  proof (intro conjI)
    show "validateReplayTarget ?t = None" by (rule v')
    show "\<not> \<not> target_resolves c t" using res by simp
    show "\<forall>j < length (tgt_Runs ?t). \<not> \<not> run_resolves c t (tgt_Runs ?t ! j) \<and>
        (\<forall>n < length (run_IncidentIDs (tgt_Runs ?t ! j)). \<not> \<not> run_incident_linked c t (tgt_Runs ?t ! j) (run_IncidentIDs (tgt_Runs ?t ! j) ! n))"
      using runs by simp
    show "validateTargetGenerationHistory (tgt_Generations t) (tgt_Generations ?t) = None"
      using step by (simp add: err_simps)
  qed (use m valid_target_distinct [OF v] in \<open>simp_all add: err_simps generation_advance_def revision_step_succ
      validateTargetRunHistory_same validateTargetOperationHistory_same\<close>)
qed

lemma accept_coherent: "coherent c \<Longrightarrow> accept c ds = Some c' \<Longrightarrow> coherent c'"
  by (induction ds arbitrary: c)
    (auto simp: accept.simps(2) split: if_splits sum.splits intro: coherence.record_inv)

lemma parsed_target_nonempty: "validateReplayTarget t = None \<Longrightarrow> tgt_ID t \<noteq> []"
  using parsed_nonempty by (auto simp: validateReplayTarget_iff target_fields_ok_def ParseID_defs)

lemma target_move_accepted:
  assumes "coherent c" "tbl_get (core_targets c) k = Some t" "can_move_target i now x t" "event \<noteq> []"
  shows "accept c (target_draft event (moved_target i now x t) # ds) =
      accept (c\<lparr>core_targets := tbl_put k (moved_target i now x t) (core_targets c)\<rparr>) ds"
    "coherent (c\<lparr>core_targets := tbl_put k (moved_target i now x t) (core_targets c)\<rparr>)"
proof -
  have t: "coherent_target c t" "tgt_ID t = k" using coherent_target_of [OF assms(1,2)] by blast+
  have k: "k \<noteq> []" using parsed_target_nonempty t by (auto simp: coherent_target_def)
  have r: "tgt_Revision t + 1 \<noteq> 0" using assms(3) plus_one_nonzero by (auto simp: can_move_target_def)
  show acc: "accept c (target_draft event (moved_target i now x t) # ds) =
      accept (c\<lparr>core_targets := tbl_put k (moved_target i now x t) (core_targets c)\<rparr>) ds" for ds
    using accept_target [OF _ assms(4) _ _ moved_target_projection [OF assms(1-3)], of ds] k r t(2) assms(2)
    by (simp add: revision_in_def)
  show "coherent (c\<lparr>core_targets := tbl_put k (moved_target i now x t) (core_targets c)\<rparr>)"
    using accept_coherent [OF assms(1)] acc [of "[]"] by simp
qed

subsection \<open>A path of moves\<close>

fun can_move_target_along :: "nat \<Rightarrow> time \<Rightarrow> TargetGenerationState list \<Rightarrow> TargetRecord \<Rightarrow> bool" where
  "can_move_target_along i now [] t = True"
| "can_move_target_along i now (x # xs) t = (can_move_target i now x t \<and> can_move_target_along i now xs (moved_target i now x t))"

fun target_moves :: "nat \<Rightarrow> time \<Rightarrow> TargetGenerationState list \<Rightarrow> TargetRecord \<Rightarrow> TargetRecord list" where
  "target_moves i now [] t = []"
| "target_moves i now (x # xs) t = moved_target i now x t # target_moves i now xs (moved_target i now x t)"

lemma append_all_append: "append_all env (xs @ ys) s = bind_r (append_all env xs s) (append_all env ys)"
  by (induction xs arbitrary: s) (auto simp: bind_r_def split: sum.splits)

lemma appendTargetGenerationTransitions_drafts:
  "can_move_target_along i now xs t \<Longrightarrow> appendTargetGenerationTransitions env i xs event now t s =
     bind_r (append_all env (map (target_draft event) (target_moves i now xs t)) s) (\<lambda>s. Inr (fold (moved_target i now) xs t, s))"
proof (induction xs arbitrary: t s)
  case (Cons x xs)
  then have r: "RequireTargetGenerationTransition (tgn_State (tgt_Generations t ! i)) x = None"
      "can_move_target_along i now xs (moved_target i now x t)"
    by (simp_all add: can_move_target_def)
  show ?case using r(1) Cons.IH [OF r(2)]
    by (auto simp: Let_def target_draft_def moved_target_def bind_r_def split: sum.splits)
qed simp

lemma target_moves_accepted:
  assumes "coherent c" "tbl_get (core_targets c) k = Some t" "can_move_target_along i now xs t" "event \<noteq> []"
  shows "accept c (map (target_draft event) (target_moves i now xs t) @ ds) =
      accept (c\<lparr>core_targets := tbl_put k (fold (moved_target i now) xs t) (core_targets c)\<rparr>) ds \<and>
    coherent (c\<lparr>core_targets := tbl_put k (fold (moved_target i now) xs t) (core_targets c)\<rparr>)"
  using assms(1-3)
proof (induction xs arbitrary: c t)
  case Nil
  then show ?case by (simp add: update_triv)
next
  case (Cons x xs)
  let ?c = "c\<lparr>core_targets := tbl_put k (moved_target i now x t) (core_targets c)\<rparr>"
  have m: "can_move_target i now x t" "can_move_target_along i now xs (moved_target i now x t)" using Cons.prems(3) by simp_all
  note a = target_move_accepted [OF Cons.prems(1,2) m(1) assms(4)]
  show ?case using a(1) Cons.IH [OF a(2) _ m(2)] by simp
qed

section \<open>Agent workspaces\<close>

definition moved_agent :: "nat \<Rightarrow> time \<Rightarrow> AgentGenerationState \<Rightarrow> AgentWorkspaceRecord \<Rightarrow> AgentWorkspaceRecord" where
  "moved_agent i now x a = a\<lparr>agt_Generations := (agt_Generations a)[i := (agt_Generations a ! i)
       \<lparr>agn_State := x, agn_Revision := agn_Revision (agt_Generations a ! i) + 1, agn_UpdatedAt := now\<rparr>],
     agt_Revision := agt_Revision a + 1, agt_UpdatedAt := now\<rparr>"

lemma moved_agent_fields [simp]:
  "agt_ID (moved_agent i now x a) = agt_ID a" "agt_SessionID (moved_agent i now x a) = agt_SessionID a"
  "agt_CurrentGeneration (moved_agent i now x a) = agt_CurrentGeneration a"
  "agt_CreatedAt (moved_agent i now x a) = agt_CreatedAt a" "agt_UpdatedAt (moved_agent i now x a) = now"
  "agt_Revision (moved_agent i now x a) = agt_Revision a + 1"
  "length (agt_Generations (moved_agent i now x a)) = length (agt_Generations a)"
  by (simp_all add: moved_agent_def)

definition parsed_agent :: "AgentWorkspaceRecord \<Rightarrow> AgentWorkspaceID" where
  "parsed_agent a = val_or zeroID (parsePersisted ''agent_workspace.id'' (agt_ID a) ParseAgentWorkspaceID)"

definition agent_fields_ok :: "AgentWorkspaceRecord \<Rightarrow> bool" where
  "agent_fields_ok a \<longleftrightarrow> (\<exists>i. ParseAgentWorkspaceID (agt_ID a) = Inr i) \<and> (\<exists>i. ParseResearchSessionID (agt_SessionID a) = Inr i) \<and>
     agt_CurrentGeneration a \<noteq> 0 \<and> agt_Revision a \<noteq> 0 \<and> agt_CreatedAt a \<noteq> 0 \<and> agt_UpdatedAt a \<noteq> 0 \<and>
     agt_CreatedAt a \<le> agt_UpdatedAt a \<and> of_nat (length (agt_Generations a)) = agt_CurrentGeneration a"

lemma validateReplayAgentWorkspace_iff:
  "validateReplayAgentWorkspace a = None \<longleftrightarrow> agent_fields_ok a \<and>
     (\<forall>j < length (agt_Generations a). agn_Generation (agt_Generations a ! j) = of_nat (j + 1) \<and>
        validateReplayAgentGeneration (parsed_agent a) a j (agt_Generations a ! j) = None)"
proof -
  have p: "(\<exists>i. ParseAgentWorkspaceID (agt_ID a) = Inr i) \<and> (\<exists>i. ParseResearchSessionID (agt_SessionID a) = Inr i) \<Longrightarrow>
      violates field message (NewAgentWorkspace (parsed_agent a)
        (val_or zeroID (parsePersisted f (agt_SessionID a) ParseResearchSessionID)) g at) = None \<longleftrightarrow> g \<noteq> 0 \<and> at \<noteq> 0" for field message f g at
    by (auto simp: parsed_agent_def NewAgentWorkspace_def replay_simps err_simps)
  show ?thesis
    unfolding validateReplayAgentWorkspace_def Let_def first_err_append first_err_Cons_None first_err_upt_None
      parsed_agent_def [symmetric] agent_fields_ok_def
    using p by (auto simp: err_of_parsePersisted validateGenerationSequence_def err_simps replay_simps first_err_upt_None)
qed

lemma validateReplayAgentGeneration_later:
  assumes "validateReplayAgentGeneration aid a index g = None"
    and "map agn_WorkspaceID (agt_Generations a') = map agn_WorkspaceID (agt_Generations a)"
    and "agt_CreatedAt a' = agt_CreatedAt a" "agt_UpdatedAt a \<le> agt_UpdatedAt a'"
  shows "validateReplayAgentGeneration aid a' index g = None"
  using assms by (simp add: validateReplayAgentGeneration_def Let_def replay_simps take_map [symmetric])

lemma validateReplayAgentGeneration_moved:
  assumes "validateReplayAgentGeneration aid a index g = None"
    and "map agn_WorkspaceID (agt_Generations a') = map agn_WorkspaceID (agt_Generations a)"
    and "agt_CreatedAt a' = agt_CreatedAt a" "agt_UpdatedAt a' = now" "agt_UpdatedAt a \<le> now" "0 < now"
    and "AgentGenerationState_IsValid x" "agn_Revision g \<noteq> - 1"
  shows "validateReplayAgentGeneration aid a' index (g\<lparr>agn_State := x, agn_Revision := agn_Revision g + 1, agn_UpdatedAt := now\<rparr>) = None"
  using assms by (simp add: validateReplayAgentGeneration_def Let_def replay_simps take_map [symmetric])

definition can_move_agent :: "nat \<Rightarrow> time \<Rightarrow> AgentGenerationState \<Rightarrow> AgentWorkspaceRecord \<Rightarrow> bool" where
  "can_move_agent i now x a \<longleftrightarrow> i < length (agt_Generations a) \<and>
     RequireAgentGenerationTransition (agn_State (agt_Generations a ! i)) x = None \<and> agt_Revision a \<noteq> - 1 \<and>
     agn_Revision (agt_Generations a ! i) \<noteq> - 1 \<and> agt_UpdatedAt a \<le> now \<and> 0 < now"

lemma moved_workspaces: "map agn_WorkspaceID (agt_Generations (moved_agent i now x a)) = map agn_WorkspaceID (agt_Generations a)"
  by (cases "i < length (agt_Generations a)") (auto simp: moved_agent_def nth_list_update intro!: nth_equalityI)

lemma validateReplayAgentWorkspace_moved:
  assumes "validateReplayAgentWorkspace a = None" "can_move_agent i now x a"
  shows "validateReplayAgentWorkspace (moved_agent i now x a) = None"
proof -
  let ?a = "moved_agent i now x a"
  note v = assms(1) [unfolded validateReplayAgentWorkspace_iff] and m = assms(2) [unfolded can_move_agent_def]
  have ids: "parsed_agent ?a = parsed_agent a" by (simp add: parsed_agent_def)
  have sv: "AgentGenerationState_IsValid x" using AgentGeneration_machine.require_valid m by blast
  have fields: "agent_fields_ok ?a" using v m by (simp add: agent_fields_ok_def plus_one_nonzero)
  have "agn_Generation (agt_Generations ?a ! j) = of_nat (j + 1) \<and>
      validateReplayAgentGeneration (parsed_agent a) ?a j (agt_Generations ?a ! j) = None" if "j < length (agt_Generations a)" for j
  proof (cases "j = i")
    case True
    then show ?thesis
      using validateReplayAgentGeneration_moved [of "parsed_agent a" a j "agt_Generations a ! j" ?a now x, OF _ moved_workspaces] v that m sv
      by (simp add: moved_agent_def)
  next
    case False
    then show ?thesis
      using validateReplayAgentGeneration_later [of "parsed_agent a" a j "agt_Generations a ! j" ?a, OF _ moved_workspaces] v that m
      by (simp add: moved_agent_def)
  qed
  then show ?thesis unfolding validateReplayAgentWorkspace_iff ids using fields by simp
qed

lemma moved_agent_projection:
  assumes "coherent c" "tbl_get (core_agents c) k = Some a" "can_move_agent i now x a"
  shows "validateReplayAgentWorkspaceProjection c (moved_agent i now x a) = None"
proof -
  let ?a = "moved_agent i now x a"
  note m = assms(3) [unfolded can_move_agent_def]
  have a: "coherent_agent c a" "agt_ID a = k" using coherent_agent_of [OF assms(1,2)] by blast+
  then obtain s l where v: "validateReplayAgentWorkspace a = None" and s: "tbl_get (core_sessions c) (agt_SessionID a) = Some s"
      and l: "tbl_get (core_leases c) (ses_LeaseID s) = Some l" and match: "agent_matches s l a"
    by (auto simp: coherent_agent_def)
  have v': "validateReplayAgentWorkspace ?a = None" using validateReplayAgentWorkspace_moved [OF v assms(3)] .
  have "agn_UpdatedAt (agt_Generations a ! i) \<le> agt_UpdatedAt a"
    using v m by (simp add: validateReplayAgentWorkspace_iff validateReplayAgentGeneration_def Let_def replay_simps)
  then have step: "length (agt_Generations a) = length (agt_Generations ?a)"
      "\<forall>j < length (agt_Generations a). agent_generation_step (agt_Generations a ! j) (agt_Generations ?a ! j)"
    using m by (auto simp: moved_agent_def agent_generation_step_def nth_list_update sameAgentProvisioningBinding_def
        nested_step_def revision_step_succ)
  have pins: "agn_InputViewID (agt_Generations ?a ! j) = lea_InputViewID l \<and> agn_PolicyDigest (agt_Generations ?a ! j) = lea_PolicyDigest l \<and>
      agn_CapabilityDigest (agt_Generations ?a ! j) = lea_CapabilityDigest l" if "j < length (agt_Generations a)" for j
    using match that step(2) by (auto simp: agent_matches_def agent_generation_step_def)
  have prev: "tbl_get (core_agents c) (agt_ID ?a) = Some a" using assms(2) a(2) by simp
  have gap: "\<not> (agt_CurrentGeneration a < lea_AgentGeneration l \<or> 1 < agt_CurrentGeneration a - lea_AgentGeneration l)"
    using match by (simp add: agent_matches_def generation_advance_alt)
  have hist: "requireReplayGenerationAdvance p (agt_CurrentGeneration a) (agt_CurrentGeneration a) = None"
      "requireReplayRevisionAdvance p (agt_Revision a) (agt_Revision a + 1) (agt_UpdatedAt a) now = None"
      "validateAgentGenerationHistory (agt_Generations a) (agt_Generations ?a) = None" for p
    using m step(2) by (simp_all add: err_simps generation_advance_def revision_step_succ)
  show ?thesis
    unfolding validateReplayAgentWorkspaceProjection_def Let_def v' option.case moved_agent_fields s l first_err_append
      first_err_Cons_None first_err_upt_None prev [unfolded moved_agent_fields] fail_if_None hist
    using match gap pins by (simp add: agent_matches_def)
qed

lemma parsed_agent_nonempty: "validateReplayAgentWorkspace a = None \<Longrightarrow> agt_ID a \<noteq> []"
  using parsed_nonempty by (auto simp: validateReplayAgentWorkspace_iff agent_fields_ok_def ParseID_defs)

lemma agent_move_accepted:
  assumes "coherent c" "tbl_get (core_agents c) k = Some a" "can_move_agent i now x a" "event \<noteq> []"
  shows "accept c (agent_draft event (moved_agent i now x a) # ds) =
      accept (c\<lparr>core_agents := tbl_put k (moved_agent i now x a) (core_agents c)\<rparr>) ds"
    "coherent (c\<lparr>core_agents := tbl_put k (moved_agent i now x a) (core_agents c)\<rparr>)"
proof -
  have a: "coherent_agent c a" "agt_ID a = k" using coherent_agent_of [OF assms(1,2)] by blast+
  have k: "k \<noteq> []" using parsed_agent_nonempty a by (auto simp: coherent_agent_def)
  have r: "agt_Revision a + 1 \<noteq> 0" using assms(3) plus_one_nonzero by (auto simp: can_move_agent_def)
  show acc: "accept c (agent_draft event (moved_agent i now x a) # ds) =
      accept (c\<lparr>core_agents := tbl_put k (moved_agent i now x a) (core_agents c)\<rparr>) ds" for ds
    using accept_agent [OF _ assms(4) _ _ moved_agent_projection [OF assms(1-3)], of ds] k r a(2) assms(2)
    by (simp add: revision_in_def)
  show "coherent (c\<lparr>core_agents := tbl_put k (moved_agent i now x a) (core_agents c)\<rparr>)"
    using accept_coherent [OF assms(1)] acc [of "[]"] by simp
qed

fun can_move_agent_along :: "nat \<Rightarrow> time \<Rightarrow> AgentGenerationState list \<Rightarrow> AgentWorkspaceRecord \<Rightarrow> bool" where
  "can_move_agent_along i now [] a = True"
| "can_move_agent_along i now (x # xs) a = (can_move_agent i now x a \<and> can_move_agent_along i now xs (moved_agent i now x a))"

fun agent_moves :: "nat \<Rightarrow> time \<Rightarrow> AgentGenerationState list \<Rightarrow> AgentWorkspaceRecord \<Rightarrow> AgentWorkspaceRecord list" where
  "agent_moves i now [] a = []"
| "agent_moves i now (x # xs) a = moved_agent i now x a # agent_moves i now xs (moved_agent i now x a)"

lemma appendAgentGenerationTransitions_drafts:
  "can_move_agent_along i now xs a \<Longrightarrow> appendAgentGenerationTransitions env i xs event now a s =
     bind_r (append_all env (map (agent_draft event) (agent_moves i now xs a)) s) (\<lambda>s. Inr (fold (moved_agent i now) xs a, s))"
proof (induction xs arbitrary: a s)
  case (Cons x xs)
  then have r: "RequireAgentGenerationTransition (agn_State (agt_Generations a ! i)) x = None"
      "can_move_agent_along i now xs (moved_agent i now x a)"
    by (simp_all add: can_move_agent_def)
  show ?case using r(1) Cons.IH [OF r(2)]
    by (auto simp: Let_def agent_draft_def moved_agent_def bind_r_def split: sum.splits)
qed simp

lemma agent_moves_accepted:
  assumes "coherent c" "tbl_get (core_agents c) k = Some a" "can_move_agent_along i now xs a" "event \<noteq> []"
  shows "accept c (map (agent_draft event) (agent_moves i now xs a) @ ds) =
      accept (c\<lparr>core_agents := tbl_put k (fold (moved_agent i now) xs a) (core_agents c)\<rparr>) ds \<and>
    coherent (c\<lparr>core_agents := tbl_put k (fold (moved_agent i now) xs a) (core_agents c)\<rparr>)"
  using assms(1-3)
proof (induction xs arbitrary: c a)
  case Nil
  then show ?case by (simp add: update_triv)
next
  case (Cons x xs)
  have m: "can_move_agent i now x a" "can_move_agent_along i now xs (moved_agent i now x a)" using Cons.prems(3) by simp_all
  note a = agent_move_accepted [OF Cons.prems(1,2) m(1) assms(4)]
  show ?case using a(1) Cons.IH [OF a(2) _ m(2)] by simp
qed

section \<open>Retirement\<close>

text \<open>Two more revisions fit.\<close>

definition room :: "uint64 \<Rightarrow> bool" where
  "room r \<longleftrightarrow> r \<noteq> - 1 \<and> r + 1 \<noteq> - 1"

definition current_target_index :: "TargetRecord \<Rightarrow> nat" where
  "current_target_index t = val_or 0 (findTargetGeneration t (tgt_CurrentGeneration t))"

definition target_path :: "TargetRecord \<Rightarrow> TargetGenerationState list" where
  "target_path t = val_or [] (targetGenerationRetirementPath (tgn_State (tgt_Generations t ! current_target_index t)))"

definition retired_target :: "time \<Rightarrow> TargetRecord \<Rightarrow> TargetRecord" where
  "retired_target now t = fold (moved_target (current_target_index t) now) (target_path t) t"

definition retirable_target :: "time \<Rightarrow> TargetRecord \<Rightarrow> bool" where
  "retirable_target now t \<longleftrightarrow> tgt_UpdatedAt t \<le> now \<and> room (tgt_Revision t) \<and>
     (\<forall>g \<in> set (tgt_Generations t). room (tgn_Revision g))"

lemma find_index_ex: "x \<in> set xs \<Longrightarrow> P x \<Longrightarrow> \<exists>i. find_index P xs = Inr i"
  using find_index_Inl [of P xs] by (cases "find_index P xs") auto

lemma current_target_found:
  assumes "validateReplayTarget t = None"
  shows "findTargetGeneration t (tgt_CurrentGeneration t) = Inr (current_target_index t)"
    "current_target_index t < length (tgt_Generations t)"
    "tgn_Generation (tgt_Generations t ! current_target_index t) = tgt_CurrentGeneration t"
    "TargetGenerationState_IsValid (tgn_State (tgt_Generations t ! current_target_index t))"
proof -
  note v = assms [unfolded validateReplayTarget_iff]
  let ?n = "length (tgt_Generations t) - 1"
  have n: "0 < length (tgt_Generations t)" using v by (auto simp: target_fields_ok_def)
  then have "?n < length (tgt_Generations t)" "?n + 1 = length (tgt_Generations t)" by simp_all
  then have "tgn_Generation (tgt_Generations t ! ?n) = tgt_CurrentGeneration t"
    using v unfolding target_fields_ok_def by metis
  then obtain i where i: "findTargetGeneration t (tgt_CurrentGeneration t) = Inr i"
    using find_index_ex [of "tgt_Generations t ! ?n" "tgt_Generations t" "\<lambda>g. tgn_Generation g = tgt_CurrentGeneration t"] n
    by (auto simp: findTargetGeneration_def)
  then show f: "findTargetGeneration t (tgt_CurrentGeneration t) = Inr (current_target_index t)"
    by (simp add: current_target_index_def)
  then show l: "current_target_index t < length (tgt_Generations t)"
      and "tgn_Generation (tgt_Generations t ! current_target_index t) = tgt_CurrentGeneration t"
    by (auto simp: findTargetGeneration_def find_index_Inr)
  show "TargetGenerationState_IsValid (tgn_State (tgt_Generations t ! current_target_index t))"
    using v l by (simp add: validateReplayTargetGeneration_def Let_def replay_simps)
qed

lemma fold_moved_target:
  assumes "i < length (tgt_Generations t)"
  shows "length (tgt_Generations (fold (moved_target i now) xs t)) = length (tgt_Generations t)"
    "tgn_State (tgt_Generations (fold (moved_target i now) xs t) ! i) = last (tgn_State (tgt_Generations t ! i) # xs)"
    "tgn_Generation (tgt_Generations (fold (moved_target i now) xs t) ! i) = tgn_Generation (tgt_Generations t ! i)"
    "tgt_CurrentGeneration (fold (moved_target i now) xs t) = tgt_CurrentGeneration t"
    "tgt_LeaseID (fold (moved_target i now) xs t) = tgt_LeaseID t"
  using assms by (induction xs arbitrary: t) (auto simp: moved_target_def)

lemma target_retires:
  assumes "validateReplayTarget t = None" "retirable_target now t" "0 < now"
  shows "targetGenerationRetirementPath (tgn_State (tgt_Generations t ! current_target_index t)) = Inr (target_path t)"
    "can_move_target_along (current_target_index t) now (target_path t) t"
    "TargetGenerationState_Terminal (tgn_State (tgt_Generations (retired_target now t) ! current_target_index t))"
proof -
  let ?i = "current_target_index t"
  note f = current_target_found [OF assms(1)] and r = assms(2) [unfolded retirable_target_def room_def]
  have room: "tgn_Revision (tgt_Generations t ! ?i) \<noteq> - 1 \<and> tgn_Revision (tgt_Generations t ! ?i) + 1 \<noteq> - 1"
    using r f(2) nth_mem by blast
  define x where "x = tgn_State (tgt_Generations t ! ?i)"
  have x: "x \<in> set targetGenerationStates" using f(4) by (simp add: x_def TargetGenerationState_IsValid_def)
  then show p: "targetGenerationRetirementPath (tgn_State (tgt_Generations t ! ?i)) = Inr (target_path t)"
    unfolding target_path_def x_def [symmetric] by (auto simp: targetGenerationStates_def)
  show "can_move_target_along ?i now (target_path t) t"
    using x f(2) room r assms(3) unfolding target_path_def x_def [symmetric]
    by (auto simp: targetGenerationStates_def can_move_target_def x_def [symmetric] RequireTargetGenerationTransition_None)
      (auto simp: moved_target_def)
  show "TargetGenerationState_Terminal (tgn_State (tgt_Generations (retired_target now t) ! ?i))"
    unfolding retired_target_def fold_moved_target(2) [OF f(2)] target_path_def x_def [symmetric]
    using x by (auto simp: targetGenerationStates_def TargetGenerationState_Terminal_def)
qed

definition current_agent_index :: "AgentWorkspaceRecord \<Rightarrow> nat" where
  "current_agent_index a = val_or 0 (findAgentGeneration a (agt_CurrentGeneration a))"

definition agent_path :: "AgentWorkspaceRecord \<Rightarrow> AgentGenerationState list" where
  "agent_path a = val_or [] (agentGenerationRetirementPath (agn_State (agt_Generations a ! current_agent_index a)))"

definition retired_agent :: "time \<Rightarrow> AgentWorkspaceRecord \<Rightarrow> AgentWorkspaceRecord" where
  "retired_agent now a = fold (moved_agent (current_agent_index a) now) (agent_path a) a"

definition retirable_agent :: "time \<Rightarrow> AgentWorkspaceRecord \<Rightarrow> bool" where
  "retirable_agent now a \<longleftrightarrow> agt_UpdatedAt a \<le> now \<and> room (agt_Revision a) \<and>
     (\<forall>g \<in> set (agt_Generations a). room (agn_Revision g))"

lemma current_agent_found:
  assumes "validateReplayAgentWorkspace a = None"
  shows "findAgentGeneration a (agt_CurrentGeneration a) = Inr (current_agent_index a)"
    "current_agent_index a < length (agt_Generations a)"
    "agn_Generation (agt_Generations a ! current_agent_index a) = agt_CurrentGeneration a"
    "AgentGenerationState_IsValid (agn_State (agt_Generations a ! current_agent_index a))"
proof -
  note v = assms [unfolded validateReplayAgentWorkspace_iff]
  let ?n = "length (agt_Generations a) - 1"
  have n: "0 < length (agt_Generations a)" using v by (auto simp: agent_fields_ok_def)
  then have "?n < length (agt_Generations a)" "?n + 1 = length (agt_Generations a)" by simp_all
  then have "agn_Generation (agt_Generations a ! ?n) = agt_CurrentGeneration a"
    using v unfolding agent_fields_ok_def by metis
  then obtain i where i: "findAgentGeneration a (agt_CurrentGeneration a) = Inr i"
    using find_index_ex [of "agt_Generations a ! ?n" "agt_Generations a" "\<lambda>g. agn_Generation g = agt_CurrentGeneration a"] n
    by (auto simp: findAgentGeneration_def)
  then show f: "findAgentGeneration a (agt_CurrentGeneration a) = Inr (current_agent_index a)"
    by (simp add: current_agent_index_def)
  then show l: "current_agent_index a < length (agt_Generations a)"
      and "agn_Generation (agt_Generations a ! current_agent_index a) = agt_CurrentGeneration a"
    by (auto simp: findAgentGeneration_def find_index_Inr)
  show "AgentGenerationState_IsValid (agn_State (agt_Generations a ! current_agent_index a))"
    using v l by (simp add: validateReplayAgentGeneration_def Let_def replay_simps)
qed

lemma fold_moved_agent:
  assumes "i < length (agt_Generations a)"
  shows "length (agt_Generations (fold (moved_agent i now) xs a)) = length (agt_Generations a)"
    "agn_State (agt_Generations (fold (moved_agent i now) xs a) ! i) = last (agn_State (agt_Generations a ! i) # xs)"
    "agn_Generation (agt_Generations (fold (moved_agent i now) xs a) ! i) = agn_Generation (agt_Generations a ! i)"
    "agt_CurrentGeneration (fold (moved_agent i now) xs a) = agt_CurrentGeneration a"
  using assms by (induction xs arbitrary: a) (auto simp: moved_agent_def)

lemma agent_retires:
  assumes "validateReplayAgentWorkspace a = None" "retirable_agent now a" "0 < now"
  shows "agentGenerationRetirementPath (agn_State (agt_Generations a ! current_agent_index a)) = Inr (agent_path a)"
    "can_move_agent_along (current_agent_index a) now (agent_path a) a"
    "AgentGenerationState_Terminal (agn_State (agt_Generations (retired_agent now a) ! current_agent_index a))"
proof -
  let ?i = "current_agent_index a"
  note f = current_agent_found [OF assms(1)] and r = assms(2) [unfolded retirable_agent_def room_def]
  have room: "agn_Revision (agt_Generations a ! ?i) \<noteq> - 1 \<and> agn_Revision (agt_Generations a ! ?i) + 1 \<noteq> - 1"
    using r f(2) nth_mem by blast
  define x where "x = agn_State (agt_Generations a ! ?i)"
  have x: "x \<in> set agentGenerationStates" using f(4) by (simp add: x_def AgentGenerationState_IsValid_def)
  then show p: "agentGenerationRetirementPath (agn_State (agt_Generations a ! ?i)) = Inr (agent_path a)"
    unfolding agent_path_def x_def [symmetric] by (auto simp: agentGenerationStates_def)
  show "can_move_agent_along ?i now (agent_path a) a"
    using x f(2) room r assms(3) unfolding agent_path_def x_def [symmetric]
    by (auto simp: agentGenerationStates_def can_move_agent_def x_def [symmetric] RequireAgentGenerationTransition_None)
      (auto simp: moved_agent_def)
  show "AgentGenerationState_Terminal (agn_State (agt_Generations (retired_agent now a) ! ?i))"
    unfolding retired_agent_def fold_moved_agent(2) [OF f(2)] agent_path_def x_def [symmetric]
    using x by (auto simp: agentGenerationStates_def AgentGenerationState_Terminal_def)
qed

end
