(* ===== verification/App_Completion.thy ===== *)
theory App_Completion
  imports App_Releases App_Retirement
begin

text \<open>
  Completing a termination: a lease whose work is finalised can always be ended, by one transaction
  that retires its targets and its agent generation and closes the lease and its session.
\<close>

section \<open>The targets of the lease\<close>

interpretation target_keys: replay_invariant "\<lambda>c. distinct (map fst (core_targets c))"
  by unfold_locales (auto elim!: apply_record_cases simp: distinct_update)

lemma synced_target_keys: "synced env c \<Longrightarrow> distinct (map fst (core_targets c))"
  using target_keys.batch_inv [of "emptyCore (core_store c)" "control_records (core_store c)"]
  by (auto simp: synced_def emptyCore_def)

lemma targetIDsForLease_entries:
  assumes "distinct (map fst (core_targets c))"
  shows "distinct (targetIDsForLease c leaseID)"
    "k \<in> set (targetIDsForLease c leaseID) \<longleftrightarrow> (\<exists>t. tbl_get (core_targets c) k = Some t \<and> tgt_LeaseID t = leaseID)"
  using assms
  by (auto simp: targetIDsForLease_def distinct_map_filter intro!: image_eqI)

definition retire_drafts :: "time \<Rightarrow> TargetRecord \<Rightarrow> draft list" where
  "retire_drafts now t = map (target_draft ''target.termination_transition'') (target_moves (current_target_index t) now (target_path t) t)"

definition retire_one :: "time \<Rightarrow> string \<Rightarrow> Core \<Rightarrow> Core" where
  "retire_one now k c = (case tbl_get (core_targets c) k of
     None \<Rightarrow> c | Some t \<Rightarrow> c\<lparr>core_targets := tbl_put k (retired_target now t) (core_targets c)\<rparr>)"

definition all_retirable :: "time \<Rightarrow> string list \<Rightarrow> Core \<Rightarrow> bool" where
  "all_retirable now ids c \<longleftrightarrow> (\<forall>k \<in> set ids. \<exists>t. tbl_get (core_targets c) k = Some t \<and> retirable_target now t)"

definition drafts_of :: "time \<Rightarrow> Core \<Rightarrow> string \<Rightarrow> draft list" where
  "drafts_of now c k = retire_drafts now (the (tbl_get (core_targets c) k))"

lemma retire_targets_drafts:
  assumes "coherent c" "0 < now" "all_retirable now ids c"
  shows "retire_targets env c now ids s = append_all env (concat (map (drafts_of now c) ids)) s"
  using assms(3)
proof (induction ids arbitrary: s)
  case (Cons k ids)
  then obtain t where t: "tbl_get (core_targets c) k = Some t" "retirable_target now t" by (auto simp: all_retirable_def)
  have v: "validateReplayTarget t = None" using coherent_target_of [OF assms(1) t(1)] by (simp add: coherent_target_def)
  note r = target_retires [OF v t(2) assms(2)] and f = current_target_found [OF v]
  have rest: "all_retirable now ids c" using Cons.prems by (simp add: all_retirable_def)
  show ?case
    using t(1) f(1) r(1) Cons.IH [OF rest]
    by (simp add: appendTargetGenerationTransitions_drafts [OF r(2)] append_all_append drafts_of_def retire_drafts_def bind_r_assoc)
qed simp

lemma retire_one_tables [simp]:
  "core_sessions (retire_one now k c) = core_sessions c" "core_leases (retire_one now k c) = core_leases c"
  "core_agents (retire_one now k c) = core_agents c" "core_execs (retire_one now k c) = core_execs c"
  "core_incidents (retire_one now k c) = core_incidents c"
  by (simp_all add: retire_one_def split: option.splits)

lemma retire_one_get: "tbl_get (core_targets (retire_one now k c)) j =
    (if j = k then map_option (retired_target now) (tbl_get (core_targets c) k) else tbl_get (core_targets c) j)"
  by (simp add: retire_one_def split: option.splits)

lemma fold_retire_tables [simp]:
  "core_sessions (fold (retire_one now) ids c) = core_sessions c" "core_leases (fold (retire_one now) ids c) = core_leases c"
  "core_agents (fold (retire_one now) ids c) = core_agents c" "core_execs (fold (retire_one now) ids c) = core_execs c"
  by (induction ids arbitrary: c) simp_all

lemma fold_retire_get:
  "distinct ids \<Longrightarrow> tbl_get (core_targets (fold (retire_one now) ids c)) k =
     (if k \<in> set ids then map_option (retired_target now) (tbl_get (core_targets c) k) else tbl_get (core_targets c) k)"
  by (induction ids arbitrary: c) (auto simp: retire_one_get)

lemma retire_accepted:
  assumes "coherent c" "0 < now" "all_retirable now ids c" "distinct ids"
  shows "accept c (concat (map (drafts_of now c) ids) @ ds) = accept (fold (retire_one now) ids c) ds \<and>
    coherent (fold (retire_one now) ids c)"
  using assms(1,3,4)
proof (induction ids arbitrary: c)
  case (Cons k ids)
  then obtain t where t: "tbl_get (core_targets c) k = Some t" "retirable_target now t" by (auto simp: all_retirable_def)
  have v: "validateReplayTarget t = None" using coherent_target_of [OF Cons.prems(1) t(1)] by (simp add: coherent_target_def)
  have one: "accept c (drafts_of now c k @ ds) = accept (retire_one now k c) ds \<and> coherent (retire_one now k c)" for ds
    using target_moves_accepted [OF Cons.prems(1) t(1) target_retires(2) [OF v t(2) assms(2)], of "''target.termination_transition''" ds] t(1)
    by (simp add: drafts_of_def retire_drafts_def retire_one_def retired_target_def)
  have same: "map (drafts_of now (retire_one now k c)) ids = map (drafts_of now c) ids"
    using Cons.prems(3) by (auto simp: drafts_of_def retire_one_get)
  have "all_retirable now ids (retire_one now k c)"
    using Cons.prems(2,3) by (auto simp: all_retirable_def retire_one_get)
  then show ?case using Cons.IH [of "retire_one now k c"] one Cons.prems(3) by (simp add: same)
qed simp

section \<open>The lease and its session\<close>

abbreviation final_state :: "LeaseRecord \<Rightarrow> LeaseState" where
  "final_state l \<equiv> (if ter_Kind (lea_Termination l) = LeaseTerminationExpiry then LeaseExpired else LeaseReleased)"

definition completed :: "LeaseRecord \<Rightarrow> completionIdentity \<Rightarrow> time \<Rightarrow> LeaseRecord" where
  "completed l identity now = l\<lparr>lea_State := final_state l, lea_Revision := lea_Revision l + 1, lea_UpdatedAt := now,
     lea_Termination := (lea_Termination l)\<lparr>
       ter_State := (if ter_Kind (lea_Termination l) = LeaseTerminationExpiry then LeaseTerminationExpired else LeaseTerminationReleased),
       ter_CompleteIdempotencyKey := cid_IdempotencyKey identity, ter_CompleteRequestDigest := cid_RequestDigest identity,
       ter_CompletedAt := now\<rparr>\<rparr>"

definition released_session :: "SessionRecord \<Rightarrow> time \<Rightarrow> SessionRecord" where
  "released_session s now = s\<lparr>ses_State := ResearchSessionReleased, ses_Revision := ses_Revision s + 1, ses_UpdatedAt := now\<rparr>"

definition completion_known :: "completionIdentity \<Rightarrow> bool" where
  "completion_known identity \<longleftrightarrow> IsCanonicalIdempotencyKey (cid_IdempotencyKey identity) \<and>
     (\<exists>d. ParseDigest (cid_RequestDigest identity) = Inr d)"

lemma in_progress_lease:
  assumes "validateReplayLease l = None" "LeaseTermination_InProgress (lea_Termination l)"
  shows "ter_CompleteIdempotencyKey (lea_Termination l) = []" "ter_CompleteRequestDigest (lea_Termination l) = []"
    "ter_InitiatedLeaseRevision (lea_Termination l) = lea_Revision l" "ter_InitiatedAt (lea_Termination l) \<le> lea_UpdatedAt l"
    "RequireLeaseTransition (lea_State l) (final_state l) = None"
    "ter_State (lea_Termination l) = LeaseTerminationExpiring \<longleftrightarrow> ter_Kind (lea_Termination l) = LeaseTerminationExpiry"
proof -
  have ne: "\<not> LeaseTermination_Empty (lea_Termination l)" using in_progress_not_empty [OF assms(2)] .
  have v: "validateReplayLeaseTermination l = None"
    using assms(1) by (simp add: validateReplayLease_def Let_def)
  note c = v [unfolded validateReplayLeaseTermination_def Let_def, simplified ne if_False]
  show "ter_CompleteIdempotencyKey (lea_Termination l) = []" "ter_CompleteRequestDigest (lea_Termination l) = []"
      "ter_InitiatedLeaseRevision (lea_Termination l) = lea_Revision l" "ter_InitiatedAt (lea_Termination l) \<le> lea_UpdatedAt l"
    using c assms(2) by (auto simp: LeaseTermination_InProgress_def LeaseTerminationState_Terminal_def)
  show "RequireLeaseTransition (lea_State l) (final_state l) = None"
    using c assms(2) by (auto simp: LeaseTermination_InProgress_def LeaseTerminationKind_IsValid_def RequireLeaseTransition_None)
  show "ter_State (lea_Termination l) = LeaseTerminationExpiring \<longleftrightarrow> ter_Kind (lea_Termination l) = LeaseTerminationExpiry"
    using c assms(2) by (auto simp: LeaseTermination_InProgress_def LeaseTerminationKind_IsValid_def)
qed

lemma completed_terminal: "LeaseTermination_Terminal (lea_Termination (completed l identity now))"
  by (simp add: completed_def LeaseTermination_Terminal_def LeaseTerminationState_Terminal_def)

lemma completed_valid:
  assumes "validateReplayLease l = None" "LeaseTermination_InProgress (lea_Termination l)" "completion_known identity"
    and "lea_Revision l \<noteq> - 1" "lea_UpdatedAt l \<le> now" "0 < now"
  shows "validateReplayLease (completed l identity now) = None"
proof -
  note p = in_progress_lease [OF assms(1,2)]
  have ne: "\<not> LeaseTermination_Empty (lea_Termination l)" using in_progress_not_empty [OF assms(2)] .
  have v: "validateReplayLeaseTermination l = None" and t: "lea_CreatedAt l \<le> lea_UpdatedAt l"
    using assms(1) by (simp_all add: validateReplayLease_def Let_def replay_simps)
  note c = v [unfolded validateReplayLeaseTermination_def Let_def, simplified ne if_False]
  have "lea_Revision l \<le> lea_Revision l + 1" using assms(4) by (simp add: word_le_nat_alt unat_plus_one)
  then have "\<not> lea_Revision l + 1 < lea_Revision l" by simp
  moreover have "\<not> LeaseTermination_Empty (lea_Termination (completed l identity now))"
    using terminal_not_empty [OF completed_terminal] .
  ultimately have "validateReplayLeaseTermination (completed l identity now) = None"
    using c p assms(3,5,6) t
    unfolding validateReplayLeaseTermination_def Let_def completion_known_def
    by (auto simp: completed_def LeaseTerminationKind_IsValid_def LeaseTerminationState_IsValid_def
        LeaseTerminationState_Terminal_def replay_simps)
  moreover have "LeaseState_IsValid (lea_State (completed l identity now))" by (simp add: completed_def state_valid)
  ultimately show ?thesis using assms t
    by (simp add: validateReplayLease_def Let_def replay_simps completed_def)
qed

lemma completed_step:
  assumes "validateReplayLease l = None" "LeaseTermination_InProgress (lea_Termination l)" "lea_Revision l \<noteq> - 1" "lea_UpdatedAt l \<le> now"
  shows "lease_step l (completed l identity now)"
  using assms in_progress_lease [OF assms(1,2)] in_progress_not_empty [OF assms(2)] in_progress_not_terminal [OF assms(2)]
    completed_terminal [of l identity now] terminal_not_empty [OF completed_terminal, of l identity now]
  unfolding lease_step_def termination_step_def
  by (auto simp: completed_def generation_advance_def revision_step_succ LeaseTermination_Terminal_def)

lemma released_session_valid:
  assumes "validateReplaySession s = None" "ses_Revision s \<noteq> - 1" "ses_UpdatedAt s \<le> now" "0 < now"
  shows "validateReplaySession (released_session s now) = None"
  using assms by (auto simp: released_session_def validateReplaySession_def Let_def replay_simps state_valid)

lemma released_session_step:
  assumes "ses_State s = ResearchSessionReleasing" "ses_Revision s \<noteq> - 1" "ses_UpdatedAt s \<le> now"
  shows "session_step s (released_session s now)"
  using assms by (simp add: session_step_def released_session_def revision_step_succ RequireResearchSessionTransition_None)

section \<open>The transaction\<close>

text \<open>
  Lease \<open>l\<close> of session \<open>s\<close> and agent workspace \<open>a\<close> is terminating, its work is finalised, and neither
  the clock nor a revision counter is in the way.
\<close>

definition completable :: "time \<Rightarrow> Core \<Rightarrow> completionIdentity \<Rightarrow> LeaseRecord \<Rightarrow> SessionRecord \<Rightarrow> AgentWorkspaceRecord \<Rightarrow> bool" where
  "completable now c identity l s a \<longleftrightarrow>
     LeaseTermination_InProgress (lea_Termination l) \<and> cid_ExpectedRevision identity = lea_Revision l \<and>
     requireLeaseWorkFinalized c (cid_Operation identity) (lea_ID l) = None \<and> completion_known identity \<and>
     tbl_get (core_leases c) (lea_ID l) = Some l \<and> tbl_get (core_sessions c) (lea_SessionID l) = Some s \<and>
     tbl_get (core_agents c) (lea_AgentWorkspaceID l) = Some a \<and> owns_agent c l \<and> ses_State s = ResearchSessionReleasing \<and>
     lea_Revision l \<noteq> - 1 \<and> ses_Revision s \<noteq> - 1 \<and> lea_UpdatedAt l \<le> now \<and> ses_UpdatedAt s \<le> now \<and> 0 < now \<and>
     retirable_agent now a \<and> all_retirable now (targetIDsForLease c (lea_ID l)) c"

definition completion_drafts :: "time \<Rightarrow> Core \<Rightarrow> completionIdentity \<Rightarrow> LeaseRecord \<Rightarrow> SessionRecord \<Rightarrow> AgentWorkspaceRecord \<Rightarrow> draft list" where
  "completion_drafts now c identity l s a =
     concat (map (drafts_of now c) (targetIDsForLease c (lea_ID l))) @
     map (agent_draft ''agent_generation.termination_transition'') (agent_moves (current_agent_index a) now (agent_path a) a) @
     [lease_draft (''lease.'' @ LeaseState_String (final_state l)) (completed l identity now),
      session_draft ''session.released'' (released_session s now)]"

definition completed_core :: "time \<Rightarrow> completionIdentity \<Rightarrow> LeaseRecord \<Rightarrow> SessionRecord \<Rightarrow> AgentWorkspaceRecord \<Rightarrow> Core \<Rightarrow> Core" where
  "completed_core now identity l s a c = (fold (retire_one now) (targetIDsForLease c (lea_ID l)) c)
     \<lparr>core_agents := tbl_put (lea_AgentWorkspaceID l) (retired_agent now a) (core_agents c),
      core_leases := tbl_put (lea_ID l) (completed l identity now) (core_leases c),
      core_sessions := tbl_put (lea_SessionID l) (released_session s now) (core_sessions c)\<rparr>"

lemma completeLeaseTermination_drafts:
  assumes co: "coherent c" and "completable now c identity l s a" "now = env_clock env n"
  shows "completeLeaseTermination env n l identity c u =
    bind_r (append_all (env_store env) (completion_drafts now c identity l s a) u) (\<lambda>u. Inr (u,
      \<lparr>lto_SessionID = lea_SessionID l, lto_LeaseID = lea_ID l, lto_Kind = ter_Kind (lea_Termination l),
       lto_LeaseState = final_state l, lto_CompletedAt = now\<rparr>))"
proof -
  note k = assms(2) [unfolded completable_def]
  have vl: "validateReplayLease l = None" using coherent_lease_of [OF co, of "lea_ID l" l] k by (simp add: coherent_lease_def)
  have va: "validateReplayAgentWorkspace a = None" "agt_ID a = lea_AgentWorkspaceID l"
    using coherent_agent_of [OF co, of "lea_AgentWorkspaceID l" a] k by (auto simp: coherent_agent_def)
  have sid: "ses_ID s = lea_SessionID l" using coherent_session_of [OF co] k by blast
  note p = in_progress_lease [OF vl] and f = current_agent_found [OF va(1)] and r = agent_retires [OF va(1), of now]
  have legal: "RequireResearchSessionTransition ResearchSessionReleasing ResearchSessionReleased = None"
    by (simp add: RequireResearchSessionTransition_None)
  show ?thesis
    using k p f(1) r sid legal assms(3)
    by (simp add: completeLeaseTermination_def Let_def retire_targets_drafts [OF co] appendAgentGenerationTransitions_drafts
        completion_drafts_def append_all_append bind_r_assoc draft_defs completed_def released_session_def)
qed

lemma hasAgentGeneration_moved: "hasAgentGeneration (moved_agent i now x a) g = hasAgentGeneration a g"
  by (cases "i < length (agt_Generations a)")
    (auto simp: hasAgentGeneration_def moved_agent_def nth_list_update list_update_beyond)

lemma retired_agent_fields:
  "agt_SessionID (retired_agent now a) = agt_SessionID a" "agt_CurrentGeneration (retired_agent now a) = agt_CurrentGeneration a"
  "hasAgentGeneration (retired_agent now a) g = hasAgentGeneration a g"
proof -
  have "agt_SessionID (fold (moved_agent i now) xs a) = agt_SessionID a \<and>
      agt_CurrentGeneration (fold (moved_agent i now) xs a) = agt_CurrentGeneration a \<and>
      hasAgentGeneration (fold (moved_agent i now) xs a) g = hasAgentGeneration a g" for i xs
    by (induction xs arbitrary: a) (simp_all add: hasAgentGeneration_moved)
  then show "agt_SessionID (retired_agent now a) = agt_SessionID a" "agt_CurrentGeneration (retired_agent now a) = agt_CurrentGeneration a"
      "hasAgentGeneration (retired_agent now a) g = hasAgentGeneration a g"
    by (simp_all add: retired_agent_def)
qed

lemma completion_accepted:
  assumes co: "coherent c" and "completable now c identity l s a" and keys: "distinct (map fst (core_targets c))"
  shows "accept c (completion_drafts now c identity l s a) = Some (completed_core now identity l s a c)"
proof -
  note k = assms(2) [unfolded completable_def]
  let ?ids = "targetIDsForLease c (lea_ID l)" and ?i = "lea_AgentWorkspaceID l" and ?l = "completed l identity now"
  let ?c1 = "fold (retire_one now) ?ids c"
  let ?c2 = "?c1\<lparr>core_agents := tbl_put ?i (retired_agent now a) (core_agents ?c1)\<rparr>"
  let ?c3 = "?c2\<lparr>core_leases := tbl_put (lea_ID l) ?l (core_leases ?c2)\<rparr>"
  have l: "validateReplayLease l = None" and sl: "lease_matches s l"
    using coherent_lease_of [OF co, of "lea_ID l" l] k by (auto simp: coherent_lease_def)
  have va: "validateReplayAgentWorkspace a = None"
    using coherent_agent_of [OF co, of ?i a] k by (auto simp: coherent_agent_def)
  have vs: "validateReplaySession s = None" "ses_ID s = lea_SessionID l" using coherent_session_of [OF co] k by blast+
  have c1: "accept c (concat (map (drafts_of now c) ?ids) @ ds) = accept ?c1 ds" "coherent ?c1" for ds
    using retire_accepted [OF co _ _ targetIDsForLease_entries(1) [OF keys]] k by blast+
  have c2: "accept ?c1 (map (agent_draft ''agent_generation.termination_transition'')
      (agent_moves (current_agent_index a) now (agent_path a) a) @ ds) = accept ?c2 ds" "coherent ?c2" for ds
    using agent_moves_accepted [OF c1(2) _ agent_retires(2) [OF va], of ?i now "''agent_generation.termination_transition''" ds] k
    by (simp_all add: retired_agent_def)
  have own: "owns_agent ?c2 l" using k by (simp add: owns_agent_def retired_agent_fields)
  have gen: "lea_AgentGeneration ?l = lea_AgentGeneration l" by (simp add: completed_def)
  have c3: "accept ?c2 (lease_draft (''lease.'' @ LeaseState_String (final_state l)) ?l # ds) = accept ?c3 ds" for ds
    by (rule lease_accepted [OF c2(2) _ own completed_step [OF l] gen completed_valid [OF l]]) (use k in simp_all)
  have "owns_parts ?c3 s"
    using k sl vs(2) by (auto simp: owns_parts_def lease_matches_def completed_def retired_agent_fields owns_agent_def)
  then have "accept ?c3 [session_draft ''session.released'' (released_session s now)] =
      Some (?c3\<lparr>core_sessions := tbl_put (lea_SessionID l) (released_session s now) (core_sessions ?c3)\<rparr>)"
    using session_accepted [of ?c3 "lea_SessionID l" s, OF _ vs(2) _ released_session_step released_session_valid [OF vs(1)]] k
    by simp
  then show ?thesis unfolding completion_drafts_def c1(1) c2(1) c3 by (simp add: completed_core_def)
qed

section \<open>The operations\<close>

definition release_completion :: "env \<Rightarrow> ReleaseResearchSessionRequest \<Rightarrow> bytes \<Rightarrow> completionIdentity" where
  "release_completion env request bytes =
     \<lparr>cid_Operation = ''research_session.complete_release'', cid_ExpectedRevision = rel_ExpectedRevision request,
      cid_IdempotencyKey = meta_IdempotencyKey (rel_Meta request), cid_RequestDigest = release_digest env bytes\<rparr>"

text \<open>What a completed termination leaves of the lease, the session, the agent workspace and the targets.\<close>

definition terminated :: "Core \<Rightarrow> LeaseRecord \<Rightarrow> bool" where
  "terminated c l \<longleftrightarrow>
     (\<exists>l'. tbl_get (core_leases c) (lea_ID l) = Some l' \<and> lea_State l' = final_state l \<and> LeaseTermination_Terminal (lea_Termination l')) \<and>
     (\<exists>s'. tbl_get (core_sessions c) (lea_SessionID l) = Some s' \<and> ses_State s' = ResearchSessionReleased) \<and>
     (\<exists>a' i. tbl_get (core_agents c) (lea_AgentWorkspaceID l) = Some a' \<and> i < length (agt_Generations a') \<and>
        agn_Generation (agt_Generations a' ! i) = agt_CurrentGeneration a' \<and>
        AgentGenerationState_Terminal (agn_State (agt_Generations a' ! i))) \<and>
     (\<forall>k t'. tbl_get (core_targets c) k = Some t' \<and> tgt_LeaseID t' = lea_ID l \<longrightarrow>
        (\<exists>i < length (tgt_Generations t'). tgn_Generation (tgt_Generations t' ! i) = tgt_CurrentGeneration t' \<and>
           TargetGenerationState_Terminal (tgn_State (tgt_Generations t' ! i))))"

lemma retired_target_current:
  assumes co: "coherent c" and keys: "distinct (map fst (core_targets c))"
    and "0 < now" "all_retirable now (targetIDsForLease c leaseID) c"
    and "tbl_get (core_targets (fold (retire_one now) (targetIDsForLease c leaseID) c)) j = Some t'" "tgt_LeaseID t' = leaseID"
  shows "\<exists>i < length (tgt_Generations t'). tgn_Generation (tgt_Generations t' ! i) = tgt_CurrentGeneration t' \<and>
    TargetGenerationState_Terminal (tgn_State (tgt_Generations t' ! i))"
proof -
  note e = targetIDsForLease_entries(1) [OF keys, of leaseID] targetIDsForLease_entries(2) [OF keys, of _ leaseID]
  have j: "j \<in> set (targetIDsForLease c leaseID)"
    using assms(5,6) e by (auto simp: fold_retire_get split: if_splits)
  then obtain t where t: "tbl_get (core_targets c) j = Some t" "retirable_target now t" "t' = retired_target now t"
    using assms(4,5) e(1) by (auto simp: all_retirable_def fold_retire_get)
  have v: "validateReplayTarget t = None" using coherent_target_of [OF co t(1)] by (simp add: coherent_target_def)
  note f = current_target_found [OF v]
  show ?thesis
    by (rule exI [of _ "current_target_index t"])
      (use f target_retires(3) [OF v t(2) assms(3)] fold_moved_target [OF f(2)] in \<open>simp add: t(3) retired_target_def\<close>)
qed

lemma completed_core_terminated:
  assumes co: "coherent c" and "completable now c identity l s a" and keys: "distinct (map fst (core_targets c))"
  shows "terminated (completed_core now identity l s a c) l"
proof -
  note k = assms(2) [unfolded completable_def]
  let ?c = "completed_core now identity l s a c" and ?ids = "targetIDsForLease c (lea_ID l)"
  have va: "validateReplayAgentWorkspace a = None"
    using coherent_agent_of [OF co, of "lea_AgentWorkspaceID l" a] k by (auto simp: coherent_agent_def)
  have agent: "current_agent_index a < length (agt_Generations (retired_agent now a))"
      "agn_Generation (agt_Generations (retired_agent now a) ! current_agent_index a) = agt_CurrentGeneration (retired_agent now a)"
      "AgentGenerationState_Terminal (agn_State (agt_Generations (retired_agent now a) ! current_agent_index a))"
    using current_agent_found [OF va] agent_retires(3) [OF va, of now] k
    by (simp_all add: retired_agent_def fold_moved_agent)
  have target: "\<exists>i < length (tgt_Generations t'). tgn_Generation (tgt_Generations t' ! i) = tgt_CurrentGeneration t' \<and>
      TargetGenerationState_Terminal (tgn_State (tgt_Generations t' ! i))"
    if t': "tbl_get (core_targets ?c) j = Some t'" "tgt_LeaseID t' = lea_ID l" for j t'
    by (rule retired_target_current [OF co keys _ _ _ t'(2)]) (use k t'(1) in \<open>simp_all add: completed_core_def\<close>)
  show ?thesis
    unfolding terminated_def using agent target
    by (auto simp: completed_core_def completed_terminal released_session_def) (simp_all add: completed_def)
qed

text \<open>
  C6. A release can be completed: once every exec, run and operation of a releasing lease is terminal,
  \<open>CompleteReleaseResearchSession\<close> under the lease's revision and the original reason succeeds.  The
  lease is then terminally released, its session released, the current generation of its agent
  workspace and of each of its targets is in a terminal state, and the core is synchronised.
\<close>

theorem complete_release_succeeds:
  assumes "ReleaseResearchSessionRequest_validate (env_deadline env) (env_clock env 0) request = None"
    and "marshal (stableRelease request) = Inr bytes"
    and call: "callable env ''complete_release_research_session'' (meta_IdempotencyKey (rel_Meta request)) bytes c"
    and "map_of (idempotency (core_store c)) (''complete_release_research_session'', meta_IdempotencyKey (rel_Meta request)) = None"
    and "rel_LeaseID request = lea_ID l" "ter_Kind (lea_Termination l) = LeaseTerminationRelease"
    and "ter_Reason (lea_Termination l) = srr_Reason (stableRelease request)"
    and ready: "completable (env_clock env 1) c (release_completion env request bytes) l s a"
  shows "\<exists>c'. commits env (CompleteReleaseResearchSession marshal env request c) c'
      \<lparr>out_SessionID = lea_SessionID l, out_LeaseID = lea_ID l, out_ReleasedAt = env_clock env 1\<rparr> \<and> terminated c' l"
proof -
  let ?tx = "CompleteRelease_tx env request (release_digest env bytes)" and ?now = "env_clock env 1"
  let ?id = "release_completion env request bytes" and ?c = "completed_core (env_clock env 1) (release_completion env request bytes) l s a c"
  have sy: "synced (env_store env) c" using callableD(3) [OF call] .
  note co = synced_coherent [OF sy] and keys = synced_target_keys [OF sy]
  have run: "CompleteReleaseResearchSession marshal env request c =
      runMutation env ''complete_release_research_session'' (meta_IdempotencyKey (rel_Meta request)) bytes ?tx CompleteRelease_finish c"
    using assms(1,2) by (simp add: CompleteReleaseResearchSession_def canonicalRequest_def release_digest_def validated_ok)
  have tx: "?tx c (core_store c) = bind_r (append_all (env_store env) (completion_drafts ?now c ?id l s a) (core_store c))
      (\<lambda>u. Inr (u, Some (RReleaseOutcome (lea_SessionID l) (lea_ID l) ?now)))"
    using assms(5-7) ready completeLeaseTermination_drafts [OF co ready refl, of "core_store c"]
    by (simp add: CompleteRelease_tx_def completable_def release_completion_def bind_r_assoc)
  have "commits env (CompleteReleaseResearchSession marshal env request c) ?c
      \<lparr>out_SessionID = lea_SessionID l, out_LeaseID = lea_ID l, out_ReleasedAt = ?now\<rparr>"
    unfolding run
    by (rule mutation_commits(2) [where tx = ?tx, OF call assms(4) completion_accepted [OF co ready keys] tx])
      (simp add: CompleteRelease_finish_def)
  then show ?thesis using completed_core_terminated [OF co ready keys] by blast
qed

end
