(* ===== verification/App_Scenario.thy ===== *)
theory App_Scenario
  imports App_Completion
begin

text \<open>
  One concrete deployment: a fixed clock, entropy and hash, an acquisition request, and cores started
  on journals of known drafts.  The hypotheses of the theorems about the core are discharged here on
  these inputs.
\<close>

section \<open>Surroundings\<close>

definition demo_hash :: bytes where
  "demo_hash = replicate 32 (CHR ''h'')"

definition demo_store_env :: "payload store_env" where
  "demo_store_env = \<lparr>se_sha = (\<lambda>_. demo_hash), se_enc = (\<lambda>_. ''payload''), se_fault = (\<lambda>_. None), se_db = (\<lambda>_. None), se_now = 0\<rparr>"

text \<open>The clock ticks one nanosecond per reading, from the instant \<open>at\<close> on; \<open>demo_start\<close> lies in 2026.\<close>

definition demo_start :: time where
  "demo_start = 63900000000000000000"

definition demo_env :: "time \<Rightarrow> env" where
  "demo_env at = \<lparr>env_store = demo_store_env, env_clock = (\<lambda>i. at + int i),
     env_ids = (\<lambda>i. (demo_start, Some (replicate 10 (char_of i)))), env_deadline = None\<rparr>"

definition demo_id :: "nat \<Rightarrow> 'p typedID" where
  "demo_id i = val_or zeroID (generateID demo_start (Some (replicate 10 (char_of i))))"

definition demo_digest :: string where
  "demo_digest = Digest_String (Digest demo_hash)"

definition demo_view :: string where
  "demo_view = InputViewID_String (InputViewID (Digest demo_hash))"

definition demo_meta :: "string \<Rightarrow> MutationMeta" where
  "demo_meta key = \<lparr>meta_IdempotencyKey = key, meta_CorrelationID = ID_String correlationPrefix_prefix (demo_id 0 :: CorrelationID),
     meta_CausationID = [], meta_AuthorizedPolicyReference = ''policy'', meta_Deadline = demo_start + 1000000000\<rparr>"

definition demo_request :: AcquireRequest where
  "demo_request = \<lparr>acq_Meta = demo_meta ''acquire'', acq_OwnerSubject = ''analyst'', acq_InputViewID = demo_view,
     acq_InputSelection = \<lparr>isr_FrozenSelectionRef = [], isr_OccurrenceRefs = [], isr_PathMappings = [], isr_AllowedSidecars = [],
       isr_SecurityScope = [], isr_RequireZeroCopy = False\<rparr>,
     acq_PolicyDigest = demo_digest, acq_CapabilityDigest = demo_digest, acq_TTL = 1000\<rparr>"

lemma demo_env_simps [simp]:
  "env_store (demo_env at) = demo_store_env" "env_clock (demo_env at) i = at + int i" "env_deadline (demo_env at) = None"
  "se_sha demo_store_env = (\<lambda>_. demo_hash)" "se_enc demo_store_env = (\<lambda>_. ''payload'')" "length demo_hash = 32"
  by (simp_all add: demo_env_def demo_store_env_def demo_hash_def)

lemma demo_generated [simp]: "generateID demo_start (Some (replicate 10 (char_of i))) = Inr (demo_id i)"
  by (simp add: demo_id_def generateID_def Let_def demo_start_def UnixMilli_def unixNano_def)

lemma demo_id_wf [simp]: "wf_id (demo_id i)"
  by (rule generateID_wf [OF demo_generated]) simp

lemma demo_digest_wf: "wf_digest (Digest demo_hash)"
  by (simp add: wf_digest_def Digest_IsZero_def) (simp add: demo_hash_def)

lemma demo_digest_nonzero [simp]: "\<not> Digest_IsZero (Digest demo_hash)"
  using demo_digest_wf by (simp add: wf_digest_def)

lemma demo_digest_parses [simp]: "ParseDigest demo_digest = Inr (Digest demo_hash)"
  unfolding ParseDigest_iff using demo_digest_wf by (simp add: demo_digest_def)

lemma demo_view_parses [simp]: "ParseInputViewID demo_view = Inr (InputViewID (Digest demo_hash))"
  unfolding ParseInputViewID_iff using demo_digest_wf by (simp add: demo_view_def)

lemma demo_serviceable [simp]: "serviceable demo_store_env" "healthy demo_store_env"
  by (simp_all add: serviceable_def healthy_def hash32_def) (simp_all add: demo_store_env_def)

lemma demo_texts [simp]: "\<not> blank ''policy''" "\<not> blank ''analyst''" "TrimSpace ''analyst'' = ''analyst''" "\<not> blank ''done''" "TrimSpace ''done'' = ''done''"
  by code_simp+

lemma demo_meta_key [simp]: "meta_IdempotencyKey (demo_meta key) = key"
  by (simp add: demo_meta_def)

lemma demo_meta_valid [simp]:
  assumes "IsCanonicalIdempotencyKey key" "at < demo_start + 1000000000"
  shows "MutationMeta_Validate None at (demo_meta key) = None"
  using assms
  by (simp_all add: MutationMeta_Validate_def demo_meta_def ParseID_defs parseID_String err_simps demo_start_def)

lemma demo_keys [simp]:
  "IsCanonicalIdempotencyKey ''acquire''" "IsCanonicalIdempotencyKey ''renew''" "IsCanonicalIdempotencyKey ''release''"
  by code_simp+

section \<open>Started cores\<close>

text \<open>The core that starts on the journal of the given drafts.\<close>

definition demo_store :: "draft list \<Rightarrow> store" where
  "demo_store ds = val_or emptyStore (append_all demo_store_env ds emptyStore)"

definition demo_core :: "draft list \<Rightarrow> Core" where
  "demo_core ds = fst (syncLocked demo_store_env (emptyCore (demo_store ds)))"

lemma empty_synced: "synced env (emptyCore emptyStore)"
  by (simp add: synced_def store_ok_def journal_ok_def emptyStore_def emptyCore_def snapshots_current_def
      contiguous_def sequenced_def revisions_of_def)

lemma demo_core_synced:
  assumes "accept (emptyCore emptyStore) ds = Some c"
  shows "\<exists>n. demo_core ds = relocated (demo_store ds) n c" "synced demo_store_env (demo_core ds)"
    "idempotency (demo_store ds) = []"
proof -
  obtain u n rs where u: "append_all demo_store_env ds emptyStore = Inr u" "control_records u = rs"
      "idempotency u = []" "apply_batch (emptyCore emptyStore) rs = (c\<lparr>core_lastSequence := n\<rparr>, None)"
      "synced demo_store_env (relocated u n c)"
    using accepted [OF demo_serviceable(1) empty_synced assms] by (auto simp: emptyStore_def emptyCore_def)
  have s: "demo_store ds = u" using u(1) by (simp add: demo_store_def)
  have e: "c\<lparr>core_lastSequence := n, core_store := u\<rparr> = relocated u n c"  "(emptyCore emptyStore)\<lparr>core_store := u\<rparr> = emptyCore u"
    by (simp_all add: relocated_def emptyCore_def)
  have "store_ok demo_store_env u" using u(5) by (simp add: synced_def)
  then have "syncLocked demo_store_env (emptyCore u) = (relocated u n c, None)"
    using sync_gained(1) [OF empty_synced demo_serviceable(2) _ _ u(4), of u] u(2) unfolding e
    by (simp add: emptyStore_def emptyCore_def)
  then show "\<exists>n. demo_core ds = relocated (demo_store ds) n c" "synced demo_store_env (demo_core ds)"
      "idempotency (demo_store ds) = []"
    using u(3,5) s by (auto simp: demo_core_def)
qed

section \<open>After the acquisition\<close>

abbreviation demo_sid :: ResearchSessionID where "demo_sid \<equiv> demo_id 0"
abbreviation demo_lid :: LeaseID where "demo_lid \<equiv> demo_id 1"
abbreviation demo_aid :: AgentWorkspaceID where "demo_aid \<equiv> demo_id 2"
abbreviation demo_wid :: WorkspaceID where "demo_wid \<equiv> demo_id 3"

definition demo_session :: SessionRecord where
  "demo_session = acquired_session demo_request demo_sid demo_lid demo_aid (demo_start + 1) ResearchSessionLeased 3"

definition demo_lease :: LeaseRecord where
  "demo_lease = acquired_lease demo_request demo_sid demo_lid demo_aid (demo_start + 1)"

definition demo_agent :: AgentWorkspaceRecord where
  "demo_agent = acquired_agent demo_request demo_sid demo_aid demo_wid (demo_start + 1)"

definition demo_acquisition :: "draft list" where
  "demo_acquisition =
     [session_draft ''session.requested'' (acquired_session demo_request demo_sid demo_lid demo_aid (demo_start + 1) ResearchSessionRequested 1),
      session_draft ''session.admitted'' (acquired_session demo_request demo_sid demo_lid demo_aid (demo_start + 1) ResearchSessionAdmitted 2),
      session_draft ''session.leased'' demo_session, lease_draft ''lease.created'' demo_lease,
      agent_draft ''agent_workspace.created'' demo_agent]"

definition demo_leased :: Core where
  "demo_leased = (emptyCore emptyStore)
     \<lparr>core_sessions := [(ses_ID demo_session, demo_session)], core_leases := [(lea_ID demo_lease, demo_lease)],
      core_agents := [(agt_ID demo_agent, demo_agent)]\<rparr>"

lemma demo_acquirable: "acquirable demo_request (demo_start + 1)"
  by (simp add: acquirable_def demo_request_def) (simp add: demo_start_def demo_meta_def)

lemma demo_drawn: "drawn_identities (demo_env at) (emptyCore s) demo_sid demo_lid demo_aid demo_wid"
  unfolding drawn_identities_def demo_env_def
  by (simp add: GenerateResearchSessionID_def GenerateLeaseID_def GenerateAgentWorkspaceID_def GenerateWorkspaceID_def emptyCore_def)

lemma accept_append: "accept c (ds @ es) = Option.bind (accept c ds) (\<lambda>c'. accept c' es)"
  by (induction ds arbitrary: c) (simp_all add: accept.simps split: sum.split)

lemma demo_acquired: "accept (emptyCore emptyStore) (demo_acquisition @ ds) = accept demo_leased ds"
proof -
  have "acquired_core demo_request demo_sid demo_lid demo_aid demo_wid (demo_start + 1) (emptyCore emptyStore) = demo_leased"
    by (simp add: acquired_core_def demo_leased_def demo_session_def demo_lease_def demo_agent_def emptyCore_def
        acquired_session_def acquired_lease_def acquired_agent_def)
  then have "accept (emptyCore emptyStore) demo_acquisition = Some demo_leased"
    using acquisition_accepted [OF demo_drawn demo_acquirable, of emptyStore]
    by (simp add: demo_acquisition_def demo_session_def demo_lease_def demo_agent_def)
  then show ?thesis by (simp add: accept_append)
qed

section \<open>With work\<close>

definition demo_exec :: ExecRecord where
  "demo_exec = \<lparr>exe_ID = ID_String execPrefix_prefix (demo_id 4 :: ExecID), exe_SessionID = ses_ID demo_session, exe_LeaseID = lea_ID demo_lease,
     exe_AgentWorkspaceID = agt_ID demo_agent, exe_AgentGeneration = 1, exe_Kind = ExecTool, exe_Executable = ''/bin/true'',
     exe_Argv = [''true''], exe_WorkingDirectory = ''work'', exe_State = ExecLost, exe_Revision = 1, exe_ExitCode = None, exe_Signal = [],
     exe_IncidentIDs = [], exe_CleanupConfirmed = False, exe_Error = [], exe_CreatedAt = demo_start + 10, exe_UpdatedAt = demo_start + 10\<rparr>"

definition demo_run :: TargetRunRecord where
  "demo_run = \<lparr>run_ID = ID_String targetRunPrefix_prefix (demo_id 6 :: TargetRunID), run_Generation = 1, run_AgentWorkspaceID = agt_ID demo_agent,
     run_AgentGeneration = 1, run_MaterializationDigest = demo_digest, run_ProvisioningPlanDigest = [], run_ProvisioningKey = [],
     run_State = TargetRunLost, run_Revision = 1, run_BundleID = [], run_BundleArtifact = [], run_BundleDigest = [], run_IncidentIDs = [],
     run_CreatedAt = demo_start + 11, run_UpdatedAt = demo_start + 11\<rparr>"

definition demo_target :: TargetRecord where
  "demo_target = \<lparr>tgt_ID = ID_String targetPrefix_prefix (demo_id 5 :: TargetID), tgt_SessionID = ses_ID demo_session, tgt_LeaseID = lea_ID demo_lease,
     tgt_CreationIdempotencyKey = ''target'', tgt_Template = ''linux'', tgt_Kind = TargetLinuxContainer, tgt_CurrentGeneration = 1,
     tgt_Revision = 1, tgt_CreatedAt = demo_start + 11, tgt_UpdatedAt = demo_start + 11,
     tgt_Generations = [\<lparr>tgn_Generation = 1, tgn_PolicyDigest = demo_digest, tgn_CapabilityDigest = demo_digest,
       tgn_ProvisioningPlanDigest = [], tgn_ProvisioningKey = [], tgn_Previous = 0, tgn_RecoveryIncident = [],
       tgn_State = TargetGenerationProvisioning, tgn_Revision = 1, tgn_CreatedAt = demo_start + 11, tgn_UpdatedAt = demo_start + 11\<rparr>],
     tgt_Runs = [demo_run], tgt_Operations = []\<rparr>"

definition demo_incident :: IncidentRecord where
  "demo_incident = \<lparr>inc_ID = ID_String incidentPrefix_prefix (demo_id 7 :: IncidentID), inc_Classification = IncidentAgentExecFailure,
     inc_SessionID = ses_ID demo_session, inc_LeaseID = lea_ID demo_lease, inc_AgentWorkspaceID = agt_ID demo_agent, inc_AgentGeneration = 1,
     inc_ExecID = exe_ID demo_exec, inc_TargetID = [], inc_TargetGeneration = 0, inc_TargetRunID = [], inc_Trigger = ''exit'',
     inc_LastKnownState = ''running'', inc_Cause = \<lparr>crc_Kind = CauseUnknown, crc_Summary = ''unknown'', crc_Method = [], crc_Confidence = FFinite 0 0\<rparr>,
     inc_HighWaterMetrics = [], inc_FirstRelevantCursor = 0, inc_LastRelevantCursor = 0, inc_Coverage = [], inc_ObservationBundleID = [],
     inc_Artifacts = [\<lparr>iar_Reference = ''log'', iar_Digest = demo_digest, iar_Size = 1, iar_Role = ''log'', iar_Sensitivity = SensitivityInternal\<rparr>],
     inc_RecoveryActions = [], inc_VisibilityAcknowledgements = [], inc_State = IncidentEvidenceSealed, inc_Revision = 1,
     inc_OccurredAt = demo_start + 12, inc_UpdatedAt = demo_start + 12\<rparr>"

lemma demo_ids [simp]:
  "ses_ID demo_session = ID_String researchSessionPrefix_prefix demo_sid" "lea_ID demo_lease = ID_String leasePrefix_prefix demo_lid"
  "agt_ID demo_agent = ID_String agentWorkspacePrefix_prefix demo_aid"
  "ses_LeaseID demo_session = lea_ID demo_lease" "lea_SessionID demo_lease = ses_ID demo_session"
  "ses_AgentWorkspaceID demo_session = agt_ID demo_agent"
  "lea_AgentWorkspaceID demo_lease = agt_ID demo_agent" "agt_SessionID demo_agent = ses_ID demo_session"
  "hasAgentGeneration demo_agent 1"
  by (simp_all add: demo_session_def demo_lease_def demo_agent_def acquired_session_def acquired_lease_def acquired_agent_def
      hasAgentGeneration_def)

definition demo_work :: "draft list" where
  "demo_work = [exec_draft ''exec.lost'' demo_exec, target_draft ''target.created'' demo_target,
     incident_draft ''incident.created'' demo_incident]"

definition demo_busy :: Core where
  "demo_busy = demo_leased\<lparr>core_execs := [(exe_ID demo_exec, demo_exec)], core_targets := [(tgt_ID demo_target, demo_target)],
     core_incidents := [(inc_ID demo_incident, demo_incident)]\<rparr>"

lemma demo_positive [simp]: "demo_start + numeral k \<noteq> 0" "demo_start + 1 \<noteq> 0" "0 < demo_start"
  by (simp_all add: demo_start_def)

lemma demo_commands [simp]: "\<not> blank ''/bin/true''" "\<not> blank ''linux''" "\<not> blank ''exit''" "\<not> blank ''running''"
  "\<not> blank ''unknown''" "\<not> blank ''log''" "IsCanonicalIdempotencyKey ''target''"
  by code_simp+

lemma demo_exec_valid: "validateReplayExec demo_exec = None"
proof -
  have "requireRelativePath ''working_directory'' ''work'' True = None" by code_simp
  moreover have "validateExecCommand ''/bin/true'' [''true''] ''work'' = None"
    by (simp add: validateExecCommand_def err_simps nul_def)
  ultimately show ?thesis
    by (simp add: validateReplayExec_def Let_def demo_exec_def replay_simps err_simps NewExec_def state_valid ExecKind_IsValid_def
        validatePersistedIncidentIDs_def)
qed

lemma demo_target_valid: "validateReplayTarget demo_target = None"
  unfolding validateReplayTarget_iff
  by (simp add: target_fields_ok_def parsed_target_def parsed_lease_def validateReplayTargetGeneration_def validateReplayRun_def
      NewTargetGeneration_def NewTargetRun_def Let_def replay_simps err_simps state_valid TargetKind_IsValid_def
      demo_target_def demo_run_def parseOptionalPersisted_def rememberPersistedID_def validateTargetProvisioningBinding_def
      targetProvisioningBindingEmpty_def validateTargetRunProvisioningBinding_def targetRunProvisioningBindingEmpty_def
      validatePersistedIncidentIDs_def InitialTargetGeneration_def)

lemma demo_incident_valid: "validateReplayIncident demo_incident = None"
proof -
  have cause: "NewCauseAssessment \<lparr>cau_Kind = CauseUnknown, cau_Summary = ''unknown'', cau_Method = [], cau_Confidence = FFinite 0 0\<rparr> =
      Inr (CauseAssessment \<lparr>cau_Kind = CauseUnknown, cau_Summary = ''unknown'', cau_Method = [], cau_Confidence = FFinite 0 0\<rparr>)"
    by (simp add: NewCauseAssessment_def CauseKind_IsValid_def err_simps)
  have artifact: "incidentArtifactModels (inc_Artifacts demo_incident) = Inr [ArtifactReference \<lparr>art_Reference = ''log'',
      art_Digest = Digest demo_hash, art_Size = 1, art_Role = ''log'', art_Sensitivity = SensitivityInternal\<rparr>]"
    by (simp add: incidentArtifactModels_def incidentArtifactModel_def demo_incident_def wrap_err_def NewArtifactReference_def
        Sensitivity_IsValid_def requireNonBlank_def requireNonNegative_def checked_def fail_if_def)
  have ok: "violates field message (Inr v) = None" for field message and v :: 'v by (simp add: violates_def)
  show ?thesis
    unfolding validateReplayIncident_def Let_def artifact
    by (simp add: demo_incident_def demo_exec_def replay_simps err_simps NewIncident_def ok IncidentState_IsValid_def incidentStates_def
        cause CauseKind_IsValid_def parseOptionalPersisted_def IncidentClassification_IsValid_def
        incidentMetricModels_def incidentCoverageModels_def validateConstructedEvidence_def
        each_indexed_def uniqueNonBlank_def)
qed

lemma demo_accepted: "accept demo_leased demo_work = Some demo_busy"
proof -
  have 1: "accept demo_leased (exec_draft ''exec.lost'' demo_exec # ds) = accept (demo_leased\<lparr>core_execs := [(exe_ID demo_exec, demo_exec)]\<rparr>) ds" for ds
    using demo_exec_valid
    by (subst accept_exec)
     (simp_all add: validateReplayExecProjection_def err_simps exec_resolves_def, simp_all add: demo_leased_def emptyCore_def demo_exec_def revision_in_def)
  let ?c = "demo_leased\<lparr>core_execs := [(exe_ID demo_exec, demo_exec)]\<rparr>"
  have 2: "accept ?c (target_draft ''target.created'' demo_target # ds) =
      accept (?c\<lparr>core_targets := [(tgt_ID demo_target, demo_target)]\<rparr>) ds" for ds
    using demo_target_valid
    by (subst accept_target)
      (simp_all add: validateReplayTargetProjection_def err_simps target_resolves_def,
       simp_all add: demo_leased_def emptyCore_def demo_target_def demo_run_def revision_in_def run_resolves_def)
  have 3: "accept (?c\<lparr>core_targets := [(tgt_ID demo_target, demo_target)]\<rparr>) [incident_draft ''incident.created'' demo_incident] = Some demo_busy"
    using demo_incident_valid
    by (subst accept_incident)
      (simp_all add: validateReplayIncidentProjection_def err_simps,
       simp_all add: demo_leased_def emptyCore_def demo_incident_def demo_exec_def revision_in_def demo_busy_def)
  show ?thesis by (simp add: demo_work_def 1 2 3)
qed

section \<open>The demonstration core\<close>

definition demo :: Core where
  "demo = demo_core (demo_acquisition @ demo_work)"

lemma demo_accepts: "accept (emptyCore emptyStore) (demo_acquisition @ demo_work) = Some demo_busy"
  by (simp add: demo_acquired demo_accepted)

lemma demo_synced [simp]: "synced demo_store_env demo" "idempotency (core_store demo) = []"
  using demo_core_synced [OF demo_accepts] by (auto simp: demo_def)

lemma demo_tables [simp]:
  "core_sessions demo = [(ses_ID demo_session, demo_session)]" "core_leases demo = [(lea_ID demo_lease, demo_lease)]"
  "core_agents demo = [(agt_ID demo_agent, demo_agent)]" "core_execs demo = [(exe_ID demo_exec, demo_exec)]"
  "core_targets demo = [(tgt_ID demo_target, demo_target)]" "core_incidents demo = [(inc_ID demo_incident, demo_incident)]"
  using demo_core_synced(1) [OF demo_accepts] by (auto simp: demo_def demo_busy_def demo_leased_def)

lemma demo_callable [simp]: "callable (demo_env at) namespace key bytes demo \<longleftrightarrow> namespace \<noteq> [] \<and> key \<noteq> [] \<and> bytes \<noteq> []"
  by (simp add: callable_def)

lemma demo_store_extends:
  assumes "accept (emptyCore emptyStore) (ds @ es) = Some c"
  shows "\<exists>qs. control_records (demo_store (ds @ es)) = control_records (demo_store ds) @ qs"
proof -
  obtain u where "append_all demo_store_env (ds @ es) emptyStore = Inr u"
    using accepted [OF demo_serviceable(1) empty_synced assms] by (auto simp: emptyCore_def)
  then obtain t where t: "append_all demo_store_env ds emptyStore = Inr t" "append_all demo_store_env es t = Inr u"
    by (auto simp: append_all_append bind_r_Inr)
  obtain rs where "grown t u rs" using extends_grown [OF append_all_extends [OF t(2)]] by blast
  then show ?thesis using t by (auto simp: demo_store_def append_all_append grown_def)
qed

lemma demo_readable:
  assumes "accept (emptyCore emptyStore) ds = Some c"
  shows "readable demo_store_env (control_records (demo_store ds))" "core_store (demo_core ds) = demo_store ds"
proof -
  show st: "core_store (demo_core ds) = demo_store ds" using demo_core_synced(1) [OF assms] by auto
  show "readable demo_store_env (control_records (demo_store ds))"
    using demo_core_synced(2) [OF assms] store_ok_readable st by (simp add: synced_def)
qed

lemma demo_started:
  assumes "accept (emptyCore emptyStore) ds = Some c"
  shows "NewCore demo_store_env (demo_store ds) = Inr (demo_core ds)"
  using demo_core_synced(2) [OF assms] NewCore_batch [OF demo_readable(1) [OF assms]] demo_readable(2) [OF assms]
  by (simp add: NewCore_def synced_def)

lemma demo_at: "core_store demo = demo_store (demo_acquisition @ demo_work)"
  using demo_readable(2) [OF demo_accepts] by (simp add: demo_def)

text \<open>Synchronisation on the journal of the demonstration core.\<close>

theorem syncLocked_one_pass_witness:
  "syncLocked demo_store_env (emptyCore (core_store demo)) =
     apply_batch (emptyCore (core_store demo)) (newer 0 (control_records (core_store demo)))"
  using syncLocked_one_pass [of demo_store_env "emptyCore (core_store demo)"] demo_readable(1) [OF demo_accepts]
  by (simp add: demo_at) (simp add: emptyCore_def)

theorem restart_agrees_witness:
  "NewCore demo_store_env (demo_store demo_acquisition) = Inr (demo_core demo_acquisition) \<and>
   syncLocked demo_store_env ((demo_core demo_acquisition)\<lparr>core_store := core_store demo\<rparr>) =
     syncLocked demo_store_env (emptyCore (core_store demo))"
proof -
  have a: "accept (emptyCore emptyStore) demo_acquisition = Some demo_leased" using demo_acquired [of "[]"] by simp
  obtain qs where q: "control_records (core_store demo) = control_records (demo_store demo_acquisition) @ qs"
    using demo_store_extends [OF demo_accepts] by (auto simp: demo_at)
  show ?thesis
    using demo_started [OF a] restart_agrees [OF demo_started [OF a] demo_readable(1) [OF a] q]
      demo_readable(1) [OF demo_accepts] by (simp add: demo_at)
qed

theorem NewCore_coherent_witness: "NewCore demo_store_env (core_store demo) = Inr demo \<and> coherent demo"
  using NewCore_coherent [OF demo_started [OF demo_accepts]] demo_started [OF demo_accepts] by (simp add: demo_at) (simp add: demo_def)

theorem reachable_invariant_witness:
  "Verify (plain (\<lambda>_. demo_hash) (\<lambda>_. ''payload''))
     (core_store (fst (AcquireResearchSession (\<lambda>_. Inr ''request'') (demo_env demo_start) demo_request (emptyCore emptyStore)))) = None"
proof -
  have "NewCore demo_store_env emptyStore = Inr (emptyCore emptyStore)"
    using sync_idle [OF empty_synced demo_serviceable(2)] by (simp add: NewCore_def)
  then have "reachable (\<lambda>_. demo_hash) (\<lambda>_. ''payload'') (emptyCore emptyStore)"
    by (rule boot [rotated]) (simp add: hashes_with_def)
  from reachable_invariant [OF reachable.step [OF this acquire_step [of _ _ "demo_env demo_start"]]]
  show ?thesis by (simp add: hashes_with_def)
qed

section \<open>Operations on it\<close>

definition demo_renewal :: RenewLeaseRequest where
  "demo_renewal = \<lparr>ren_Meta = demo_meta ''renew'', ren_LeaseID = lea_ID demo_lease, ren_ExpectedRevision = 1, ren_TTL = 1000\<rparr>"

definition demo_release :: ReleaseResearchSessionRequest where
  "demo_release = \<lparr>rel_Meta = demo_meta ''release'', rel_LeaseID = lea_ID demo_lease, rel_ExpectedRevision = 1, rel_Reason = ''done''\<rparr>"

theorem acquire_succeeds_witness:
  "\<exists>c view. commits (demo_env demo_start) (AcquireResearchSession (\<lambda>_. Inr ''request'') (demo_env demo_start) demo_request
       (emptyCore emptyStore)) c view \<and> view_Lease view = demo_lease"
proof -
  have "callable (demo_env demo_start) ''acquire_research_session'' ''acquire'' ''request'' (emptyCore emptyStore)"
    using empty_synced by (simp add: callable_def)
  then show ?thesis
    using acquire_succeeds [where ?request0.0 = demo_request and request = demo_request and env = "demo_env demo_start"
        and now = "demo_start + 1" and c = "emptyCore emptyStore" and marshal = "\<lambda>_. Inr ''request''" and bytes = "''request''",
        OF _ _ _ demo_acquirable _ _ _ demo_drawn]
    by (auto simp: demo_request_def demo_lease_def emptyCore_def emptyStore_def)
qed

lemma demo_lease_fields [simp]:
  "lea_Revision demo_lease = 1" "lea_ExpiresAt demo_lease = demo_start + 1001" "lea_UpdatedAt demo_lease = demo_start + 1"
  "lea_State demo_lease = LeaseActive" "lea_Termination demo_lease = no_termination" "lea_AgentGeneration demo_lease = 1"
  "agt_CurrentGeneration demo_agent = 1" "ses_Revision demo_session = 3" "ses_UpdatedAt demo_session = demo_start + 1"
  "ses_State demo_session = ResearchSessionLeased"
  by (simp_all add: demo_lease_def demo_agent_def demo_session_def acquired_lease_def acquired_agent_def acquired_session_def demo_request_def)

lemma demo_owns: "owns_agent demo demo_lease"
  by (simp add: owns_agent_def)

theorem renew_succeeds_witness:
  "\<exists>c. commits (demo_env (demo_start + 100)) (RenewLease (\<lambda>_. ''request'') (demo_env (demo_start + 100)) demo_renewal demo) c
     (demo_lease\<lparr>lea_Revision := 2, lea_ExpiresAt := demo_start + 1102, lea_UpdatedAt := demo_start + 102\<rparr>)"
proof -
  have "renewed demo_lease 1000 (demo_start + 102) =
      demo_lease\<lparr>lea_Revision := 2, lea_ExpiresAt := demo_start + 1102, lea_UpdatedAt := demo_start + 102\<rparr>"
    by (simp add: renewed_def)
  then show ?thesis
    using renew_succeeds [of "demo_env (demo_start + 100)" demo_renewal "\<lambda>_. ''request''" demo demo_lease] demo_owns
    by (auto simp: demo_renewal_def active_iff demo_start_def)
qed

lemma demo_releasable:
  assumes "demo_start + 1 \<le> at" "at \<le> demo_start + 999"
  shows "releasable (\<lambda>_. Inr ''request'') (demo_env at) demo_release demo ''request'' demo_lease demo_session"
  using assms demo_owns
  by (simp add: releasable_def demo_release_def ReleaseResearchSessionRequest_validate_def err_simps replay_simps active_iff)
    (simp add: demo_start_def)

lemma demo_release_digest: "release_digest (demo_env at) bytes = demo_digest"
  by (simp add: release_digest_def demo_digest_def Digest_String_def)

theorem begin_release_succeeds_witness:
  "\<exists>c preparation. commits (demo_env (demo_start + 100))
     (BeginReleaseResearchSession (\<lambda>_. Inr ''request'') (demo_env (demo_start + 100)) demo_release demo) c preparation \<and>
     prep_ReleasingLeaseRevision preparation = 2"
  using begin_release_succeeds [OF demo_releasable [of "demo_start + 100"], of "Digest demo_hash" demo_agent 0]
  by (auto simp: demo_release_digest)

theorem release_deadline_race_witness:
  "\<exists>t e. BeginReleaseResearchSession (\<lambda>_. Inr ''request'') (demo_env (demo_start + 999)) demo_release demo = (demo\<lparr>core_store := t\<rparr>, Inl e) \<and>
     poisoned demo_store_env (demo\<lparr>core_store := t\<rparr>)"
  using release_deadline_race [OF demo_releasable [of "demo_start + 999"]] by auto

section \<open>Termination of its lease\<close>

abbreviation demo_releasing_lease :: LeaseRecord where
  "demo_releasing_lease \<equiv> releasing demo_lease ''done'' ''release'' demo_digest (demo_start + 102)"

definition demo_releasing :: Core where
  "demo_releasing = demo_core (demo_acquisition @ demo_work @ release_drafts (demo_env (demo_start + 100)) demo_release ''request'' demo_lease demo_session)"

lemma accept_sequence: "accept c ds = Some c' \<Longrightarrow> core_lastSequence c' = core_lastSequence c"
  by (induction ds arbitrary: c) (auto simp: accept.simps apply_record_frame split: if_splits sum.splits)

lemma demo_core_grows:
  assumes "accept (emptyCore emptyStore) ds = Some c" "accept (demo_core ds) es = Some d"
  shows "accept (emptyCore emptyStore) (ds @ es) = Some (relocated (core_store c) (core_lastSequence c) d)"
proof -
  obtain n z where z: "accept c es = Some z" "d = relocated (demo_store ds) n z"
    using demo_core_synced(1) [OF assms(1)] assms(2) by (auto simp: accept_relocated)
  then show ?thesis
    using assms(1) accept_store [OF z(1)] accept_sequence [OF z(1)] relocated_same [of z] by (simp add: accept_append)
qed

lemma demo_releasing_accepted:
  "accept (emptyCore emptyStore) (demo_acquisition @ demo_work @ release_drafts (demo_env (demo_start + 100)) demo_release ''request'' demo_lease demo_session) =
     Some (relocated emptyStore 0 (releasing_core (demo_env (demo_start + 100)) demo_release ''request'' demo_lease demo_session demo))"
  using demo_core_grows [OF demo_accepts, folded demo_def, OF releasing_accepted [OF demo_releasable [of "demo_start + 100"]],
      of "Digest demo_hash"]
  by (simp add: demo_release_digest demo_busy_def demo_leased_def emptyCore_def)

lemma demo_releasing_tables:
  "synced demo_store_env demo_releasing" "idempotency (core_store demo_releasing) = []"
  "core_leases demo_releasing = [(lea_ID demo_lease, demo_releasing_lease)]"
  "core_sessions demo_releasing = [(ses_ID demo_session, releasing_session demo_session (demo_start + 102))]"
  "core_agents demo_releasing = [(agt_ID demo_agent, demo_agent)]" "core_execs demo_releasing = [(exe_ID demo_exec, demo_exec)]"
  "core_targets demo_releasing = [(tgt_ID demo_target, demo_target)]"
  using demo_core_synced [OF demo_releasing_accepted]
  by (auto simp: demo_releasing_def releasing_core_def demo_release_def stableRelease_def demo_release_digest
      add.commute [of demo_start])

lemma demo_completable:
  "completable (demo_start + 201) demo_releasing (release_completion (demo_env (demo_start + 200)) (demo_release\<lparr>rel_ExpectedRevision := 2\<rparr>) bytes)
     demo_releasing_lease (releasing_session demo_session (demo_start + 102)) demo_agent"
proof -
  have parts: "lea_ID demo_releasing_lease = lea_ID demo_lease" "lea_SessionID demo_releasing_lease = ses_ID demo_session"
      "lea_AgentWorkspaceID demo_releasing_lease = agt_ID demo_agent" "lea_AgentGeneration demo_releasing_lease = 1"
    by (simp_all add: releasing_def)
  have ids: "targetIDsForLease demo_releasing (lea_ID demo_lease) = [tgt_ID demo_target]"
      "execIDsForLease demo_releasing (lea_ID demo_lease) = [exe_ID demo_exec]"
    by (simp_all add: targetIDsForLease_def execIDsForLease_def demo_releasing_tables) (simp_all add: demo_target_def demo_exec_def)
  have "requireLeaseWorkFinalized demo_releasing operation (lea_ID demo_lease) = None" for operation
    unfolding requireLeaseWorkFinalized_def ids
    by (simp add: exec_or_zero_def target_or_zero_def demo_releasing_tables)
      (simp add: demo_exec_def demo_target_def demo_run_def ExecState_Terminal_def TargetRunState_Terminal_def)
  moreover have "all_retirable (demo_start + 201) [tgt_ID demo_target] demo_releasing"
    by (simp add: all_retirable_def demo_releasing_tables retirable_target_def) (simp add: demo_target_def room_def)
  moreover have "retirable_agent (demo_start + 201) demo_agent"
    by (simp add: retirable_agent_def demo_agent_def acquired_agent_def room_def)
  moreover have "owns_agent demo_releasing demo_releasing_lease" by (simp add: owns_agent_def parts demo_releasing_tables)
  ultimately show ?thesis
    unfolding completable_def parts ids
    by (simp add: demo_releasing_tables release_completion_def completion_known_def demo_release_def demo_release_digest)
      (simp add: releasing_def releasing_session_def LeaseTermination_InProgress_def demo_start_def)
qed

theorem complete_release_succeeds_witness:
  "\<exists>c. commits (demo_env (demo_start + 200))
     (CompleteReleaseResearchSession (\<lambda>_. Inr ''request'') (demo_env (demo_start + 200)) (demo_release\<lparr>rel_ExpectedRevision := 2\<rparr>) demo_releasing) c
     \<lparr>out_SessionID = ses_ID demo_session, out_LeaseID = lea_ID demo_lease, out_ReleasedAt = demo_start + 201\<rparr> \<and>
     terminated c demo_releasing_lease"
proof -
  let ?env = "demo_env (demo_start + 200)" and ?request = "demo_release\<lparr>rel_ExpectedRevision := 2\<rparr>"
  have call: "callable ?env ''complete_release_research_session'' (meta_IdempotencyKey (rel_Meta ?request)) ''request'' demo_releasing"
    using demo_releasing_tables(1) by (simp add: callable_def demo_release_def)
  have "ReleaseResearchSessionRequest_validate None (demo_start + 200) ?request = None"
    by (simp add: demo_release_def ReleaseResearchSessionRequest_validate_def err_simps replay_simps)
  then show ?thesis
    using complete_release_succeeds [where marshal = "\<lambda>_. Inr ''request''", OF _ _ call, of demo_releasing_lease
        "releasing_session demo_session (demo_start + 102)" demo_agent] demo_releasing_tables(2) demo_completable [of "''request''"]
    by (auto simp: demo_release_def releasing_def stableRelease_def add.commute [of demo_start])
qed

section \<open>Histories\<close>

lemma demo_hash32: "\<forall>x :: bytes. length ((\<lambda>_. demo_hash) x) = 32" by simp

lemma demo_sound: "sound (plain (\<lambda>_. demo_hash) (\<lambda>_. ''payload'')) demo"
  using synced_sound [OF demo_synced(1)] sound_plain [of "\<lambda>_. demo_hash" "\<lambda>_. ''payload''" demo_store_env] by (simp add: hashes_with_def)

text \<open>The core after a renewal and an attempted release.\<close>

definition demo_later :: "Core \<Rightarrow> Core" where
  "demo_later c = fst (BeginReleaseResearchSession (\<lambda>_. Inr ''request'') (demo_env (demo_start + 300)) demo_release
     (fst (RenewLease (\<lambda>_. ''request'') (demo_env (demo_start + 100)) demo_renewal c)))"

lemma demo_history: "(core_step (\<lambda>_. demo_hash) (\<lambda>_. ''payload''))\<^sup>*\<^sup>* c (demo_later c)"
proof -
  let ?c = "fst (RenewLease (\<lambda>_. ''request'') (demo_env (demo_start + 100)) demo_renewal c)"
  have "core_step (\<lambda>_. demo_hash) (\<lambda>_. ''payload'') c ?c" by (rule renew_step) (simp add: hashes_with_def)
  moreover have "core_step (\<lambda>_. demo_hash) (\<lambda>_. ''payload'') ?c (demo_later c)"
    unfolding demo_later_def by (rule begin_release_step) (simp add: hashes_with_def)
  ultimately show ?thesis by (meson r_into_rtranclp rtranclp.rtrancl_into_rtrancl)
qed

theorem lease_only_advances_witness: "\<exists>l. tbl_get (core_leases (demo_later demo)) (lea_ID demo_lease) = Some l \<and> lease_monotone demo_lease l"
  using lease_only_advances [OF demo_sound demo_hash32 demo_history] by simp

theorem incident_evidence_frozen_witness:
  "\<exists>i. tbl_get (core_incidents (demo_later demo)) (inc_ID demo_incident) = Some i \<and> evidence_frozen demo_incident i"
  using incident_evidence_frozen [OF demo_sound demo_hash32 demo_history] by simp

theorem agent_plan_write_once_witness:
  "\<exists>a. tbl_get (core_agents (demo_later demo)) (agt_ID demo_agent) = Some a \<and> plans_kept demo_agent a"
  using agent_plan_write_once [OF demo_sound demo_hash32 demo_history] by simp

theorem finished_work_stays_finished_witness:
  "(\<exists>e. tbl_get (core_execs (demo_later demo)) (exe_ID demo_exec) = Some e \<and> exe_State e = ExecLost) \<and>
   (\<exists>t. tbl_get (core_targets (demo_later demo)) (tgt_ID demo_target) = Some t \<and> runs_kept demo_target t)"
proof -
  have "ExecState_Terminal (exe_State demo_exec)" "exe_State demo_exec = ExecLost" by (simp_all add: demo_exec_def ExecState_Terminal_def)
  then show ?thesis
    using finished_work_stays_finished [OF demo_sound demo_hash32 demo_history, where k = "exe_ID demo_exec" and e = demo_exec]
      finished_work_stays_finished [OF demo_sound demo_hash32 demo_history, where k = "tgt_ID demo_target" and t = demo_target]
    by simp
qed

text \<open>The core after its lease has been released.\<close>

definition demo_completion :: completionIdentity where
  "demo_completion = release_completion (demo_env (demo_start + 200)) (demo_release\<lparr>rel_ExpectedRevision := 2\<rparr>) ''request''"

definition demo_released :: Core where
  "demo_released = demo_core ((demo_acquisition @ demo_work @
     release_drafts (demo_env (demo_start + 100)) demo_release ''request'' demo_lease demo_session) @
     completion_drafts (demo_start + 201) demo_releasing demo_completion demo_releasing_lease
       (releasing_session demo_session (demo_start + 102)) demo_agent)"

lemma demo_released_lease:
  "sound (plain (\<lambda>_. demo_hash) (\<lambda>_. ''payload'')) demo_released"
  "tbl_get (core_leases demo_released) (lea_ID demo_lease) = Some (completed demo_releasing_lease demo_completion (demo_start + 201))"
proof -
  note d = demo_completable [of "''request''", folded demo_completion_def] and t = demo_releasing_tables
  have acc: "accept demo_releasing (completion_drafts (demo_start + 201) demo_releasing demo_completion demo_releasing_lease
       (releasing_session demo_session (demo_start + 102)) demo_agent) = Some (completed_core (demo_start + 201) demo_completion
       demo_releasing_lease (releasing_session demo_session (demo_start + 102)) demo_agent demo_releasing)"
    using completion_accepted [OF synced_coherent [OF t(1)] d synced_target_keys [OF t(1)]] .
  note c = demo_core_synced [OF demo_core_grows [OF demo_releasing_accepted, folded demo_releasing_def, OF acc]]
  have id: "lea_ID demo_releasing_lease = lea_ID demo_lease" by (simp add: releasing_def)
  show "sound (plain (\<lambda>_. demo_hash) (\<lambda>_. ''payload'')) demo_released"
    using synced_sound [OF c(2)] sound_plain [of "\<lambda>_. demo_hash" "\<lambda>_. ''payload''" demo_store_env]
    by (simp add: hashes_with_def demo_released_def)
  show "tbl_get (core_leases demo_released) (lea_ID demo_lease) = Some (completed demo_releasing_lease demo_completion (demo_start + 201))"
    using c(1) id by (auto simp: demo_released_def completed_core_def)
qed

theorem terminated_lease_is_final_witness:
  "tbl_get (core_leases (demo_later demo_released)) (lea_ID demo_lease) = Some (completed demo_releasing_lease demo_completion (demo_start + 201))"
  by (rule terminated_lease_is_final [OF demo_released_lease(1) demo_hash32 demo_history demo_released_lease(2) completed_terminal])

end
