(* ===== verification/Framing.thy ===== *)
theory Framing
  imports Prelude
begin

text \<open>
  The bounded binary frame format of \<open>internal/framing/framing.go\<close>: big-endian integers, the CRC-32C
  checksum of \<open>hash/crc32\<close>, the decoder over a reader that may end early or fail, and the encoder.
  The lemmas show that decoding accepts exactly the encodings, that a torn frame is told apart from
  a corrupt one, and that the checksum catches every change of one byte.
\<close>

unbundle bit_operations_syntax

section \<open>Big-endian integers\<close>

text \<open>\<open>encoding/binary\<close>: \<open>BigEndian.PutUint16\<close> to \<open>PutUint64\<close> and their inverses.\<close>

fun be :: "nat \<Rightarrow> nat \<Rightarrow> bytes" where
  "be 0 k = []"
| "be (Suc n) k = be n (k div 256) @ [char_of (k mod 256)]"

definition be_val :: "bytes \<Rightarrow> nat" where
  "be_val bs = foldl (\<lambda>v b. v * 256 + byte_val b) 0 bs"

lemma be_length [simp]: "length (be n k) = n"
  by (induction n arbitrary: k) simp_all

lemma be_val_snoc [simp]: "be_val (bs @ [b]) = be_val bs * 256 + byte_val b"
  by (simp add: be_val_def)

lemma be_val_Nil [simp]: "be_val [] = 0"
  by (simp add: be_val_def)

lemma be_val_bound: "be_val bs < 256 ^ length bs"
proof (induction bs rule: rev_induct)
  case (snoc b bs)
  have "byte_val b < 256" by simp
  then have "be_val bs * 256 + byte_val b < (be_val bs + 1) * 256" by simp
  also have "\<dots> \<le> 256 ^ length bs * 256" using snoc by (intro mult_le_mono1) simp
  finally show ?case by (simp add: mult.commute)
qed simp

lemma be_val_be [simp]: "k < 256 ^ n \<Longrightarrow> be_val (be n k) = k"
proof (induction n arbitrary: k)
  case (Suc n)
  then have "k div 256 < 256 ^ n" by (simp add: div_less_iff_less_mult mult.commute)
  then show ?case using Suc.IH [of "k div 256"] by simp
qed simp

lemma be_be_val: "be (length bs) (be_val bs) = bs"
proof (induction bs rule: rev_induct)
  case (snoc b bs)
  have "(be_val bs * 256 + byte_val b) div 256 = be_val bs" "(be_val bs * 256 + byte_val b) mod 256 = byte_val b"
    by simp_all
  then show ?case using snoc by simp
qed simp

type_synonym uint16 = "16 word"

definition be16 :: "uint16 \<Rightarrow> bytes" where
  "be16 w = be 2 (unat w)"

definition be32 :: "uint32 \<Rightarrow> bytes" where
  "be32 w = be 4 (unat w)"

definition Uint16 :: "bytes \<Rightarrow> uint16" where
  "Uint16 bs = of_nat (be_val bs)"

definition Uint32 :: "bytes \<Rightarrow> uint32" where
  "Uint32 bs = of_nat (be_val bs)"

definition Uint64 :: "bytes \<Rightarrow> uint64" where
  "Uint64 bs = of_nat (be_val bs)"

lemma be_widths [simp]: "length (be16 v) = 2" "length (be32 w) = 4"
  by (simp_all add: be16_def be32_def)

lemma unat_width: "unat (v :: uint16) < 256 ^ 2" "unat (w :: uint32) < 256 ^ 4" "unat (x :: uint64) < 256 ^ 8"
  using unsigned_less [of v, where ?'a = nat] unsigned_less [of w, where ?'a = nat] unsigned_less [of x, where ?'a = nat]
  by simp_all

lemma be_digits: "be n k = map (\<lambda>i. char_of (k div 256 ^ i mod 256)) (rev [0..<n])"
proof (induction n arbitrary: k)
  case (Suc n)
  have "rev [0..<Suc n] = map Suc (rev [0..<n]) @ [0]"
    by (simp add: rev_map [symmetric] map_Suc_upt upt_conv_Cons del: upt_Suc)
  then show ?case using Suc by (simp add: div_mult2_eq)
qed simp

lemma be64_be: "be64 w = be 8 (unat w)"
proof -
  have "rev [0..<8] = [7, 6, 5, 4, 3, 2, 1, 0 :: nat]" by code_simp
  then show ?thesis by (simp only: be64_def be_digits)
qed

lemma Uint_be [simp]: "Uint16 (be16 v) = v" "Uint32 (be32 w) = w" "Uint64 (be64 x) = x"
  using unat_width(1) [of v] unat_width(2) [of w] unat_width(3) [of x] by (simp_all add: Uint16_def Uint32_def Uint64_def be16_def be32_def be64_be)

lemma be_Uint:
  "length bs = 2 \<Longrightarrow> be16 (Uint16 bs) = bs" "length bs = 4 \<Longrightarrow> be32 (Uint32 bs) = bs"
  "length bs = 8 \<Longrightarrow> be64 (Uint64 bs) = bs"
  using be_val_bound [of bs] be_be_val [of bs]
  by (simp_all add: Uint16_def Uint32_def Uint64_def be16_def be32_def be64_be unat_of_nat)

section \<open>CRC-32C\<close>

text \<open>
  \<open>hash/crc32\<close> with the Castagnoli polynomial, in the reflected bit order: the register starts with
  all ones, takes one byte at a time into its low end and is complemented at the end.
\<close>

definition castagnoli :: uint32 where
  "castagnoli = 0x82f63b78"

definition crc_shift :: "uint32 \<Rightarrow> uint32" where
  "crc_shift c = (if bit c 0 then drop_bit 1 c XOR castagnoli else drop_bit 1 c)"

definition crc_byte :: "uint32 \<Rightarrow> char \<Rightarrow> uint32" where
  "crc_byte c b = (crc_shift ^^ 8) (c XOR of_nat (byte_val b))"

definition crc_update :: "uint32 \<Rightarrow> bytes \<Rightarrow> uint32" where
  "crc_update c bs = foldl crc_byte c bs"

definition crc32c :: "bytes \<Rightarrow> uint32" where
  "crc32c bs = NOT (crc_update (NOT 0) bs)"

lemma castagnoli_top: "bit castagnoli 31"
  by (simp add: castagnoli_def)

lemma xor_cancel:
  assumes "(a :: uint32) XOR c = b XOR c"
  shows "a = b"
proof -
  have "(a XOR c) XOR c = (b XOR c) XOR c" by (simp only: assms)
  then show ?thesis unfolding xor.assoc by simp
qed

text \<open>The shift is invertible: its top bit tells which branch was taken.\<close>

lemma crc_shift_inj: "crc_shift a = crc_shift b \<Longrightarrow> a = b"
proof -
  assume eq: "crc_shift a = crc_shift b"
  have top: "bit (crc_shift c) 31 \<longleftrightarrow> bit c 0" for c
    using castagnoli_top by (auto simp: crc_shift_def bit_xor_iff bit_drop_bit_eq dest: bit_imp_le_length)
  have low: "bit a 0 \<longleftrightarrow> bit b 0" using eq top [of a] top [of b] by simp
  have drop: "drop_bit 1 a = drop_bit 1 b"
    using eq low by (auto simp: crc_shift_def split: if_splits dest: xor_cancel)
  have "bit (drop_bit 1 a) n = bit (drop_bit 1 b) n" for n by (simp only: drop)
  then have high: "bit a (Suc n) = bit b (Suc n)" for n by (simp add: bit_drop_bit_eq)
  show "a = b"
  proof (rule bit_word_eqI)
    show "bit a n = bit b n" for n using low high [of "n - 1"] by (cases n) simp_all
  qed
qed

lemma crc_shifts_inj: "(crc_shift ^^ n) a = (crc_shift ^^ n) b \<Longrightarrow> a = b"
  by (induction n) (auto dest: crc_shift_inj)

lemma crc_byte_inj: "crc_byte c b = crc_byte d b \<Longrightarrow> c = d"
  unfolding crc_byte_def by (rule xor_cancel, rule crc_shifts_inj)

lemma crc_update_inj: "crc_update c bs = crc_update d bs \<Longrightarrow> c = d"
  by (induction bs arbitrary: c d) (auto simp: crc_update_def dest: crc_byte_inj)

lemma crc_byte_differs: "a \<noteq> b \<Longrightarrow> crc_byte c a \<noteq> crc_byte c b"
proof
  assume "a \<noteq> b" "crc_byte c a = crc_byte c b"
  then have "of_nat (byte_val a) = (of_nat (byte_val b) :: uint32)"
    using crc_shifts_inj [of 8 "c XOR of_nat (byte_val a)" "c XOR of_nat (byte_val b)"]
      xor_cancel [of "of_nat (byte_val a)" c "of_nat (byte_val b)"] by (simp add: crc_byte_def xor.commute)
  then have "unat (of_nat (byte_val a) :: uint32) = unat (of_nat (byte_val b) :: uint32)" by simp
  moreover have "byte_val x mod 2 ^ 32 = byte_val x" for x
    by (rule mod_less, rule less_trans [of _ 256]) simp_all
  ultimately have "byte_val a = byte_val b" by (simp add: unat_of_nat)
  with \<open>a \<noteq> b\<close> show False by simp
qed

text \<open>Messages that differ in one byte have different checksums.\<close>

lemma crc32c_one_byte:
  assumes "a \<noteq> b"
  shows "crc32c (xs @ a # ys) \<noteq> crc32c (xs @ b # ys)"
proof
  assume "crc32c (xs @ a # ys) = crc32c (xs @ b # ys)"
  then have "NOT (NOT (crc_update (NOT 0) (xs @ a # ys))) = NOT (NOT (crc_update (NOT 0) (xs @ b # ys)))"
    unfolding crc32c_def by simp
  then have "crc_update (crc_byte (crc_update (NOT 0) xs) a) ys = crc_update (crc_byte (crc_update (NOT 0) xs) b) ys"
    by (simp add: crc_update_def)
  then show False using crc_update_inj crc_byte_differs [OF assms] by blast
qed

section \<open>Readers\<close>

text \<open>
  What a reader still has to deliver and how it ends: with \<open>io.EOF\<close>, or with the error of a failing
  \<open>Read\<close>.  \<open>io.ReadFull\<close> delivers all the bytes asked for or, with an error, all that is left.
\<close>

datatype read_error = EOF | UnexpectedEOF | ReadFailure string

record reader =
  rd_data :: bytes
  rd_failure :: "string option"

abbreviation reader_of :: "bytes \<Rightarrow> reader" where
  "reader_of bs \<equiv> \<lparr>rd_data = bs, rd_failure = None\<rparr>"

definition ReadFull :: "nat \<Rightarrow> reader \<Rightarrow> bytes \<times> read_error option \<times> reader" where
  "ReadFull n r =
    (if n \<le> length (rd_data r) then (take n (rd_data r), None, r\<lparr>rd_data := drop n (rd_data r)\<rparr>)
     else (rd_data r,
       Some (case rd_failure r of Some e \<Rightarrow> ReadFailure e | None \<Rightarrow> if rd_data r = [] then EOF else UnexpectedEOF),
       r\<lparr>rd_data := []\<rparr>))"

section \<open>Frames\<close>

record Frame =
  fr_Version :: uint16
  fr_Flags :: uint16
  fr_Payload :: bytes

datatype frame_error =
    FrameEOF | ErrIncompleteFrame string read_error | ErrInvalidMagic | ErrChecksum uint32 uint32
  | ErrFrameTooLarge nat nat | ErrInvalidVersion

definition HeaderSize :: nat where "HeaderSize = 12"
definition TrailerSize :: nat where "TrailerSize = 4"

definition magic :: bytes where "magic = ''GWFR''"

text \<open>\<open>Decoder.Read\<close>: the frame or the error, the number of bytes consumed, and the rest of the reader.\<close>

definition read_body :: "uint32 \<Rightarrow> bytes \<Rightarrow> reader \<Rightarrow> (frame_error + Frame) \<times> nat \<times> reader" where
  "read_body maxPayload header r =
    (let version = Uint16 (take 2 (drop 4 header));
         flags = Uint16 (take 2 (drop 6 header));
         payloadLength = Uint32 (take 4 (drop 8 header)) in
     if take 4 header \<noteq> magic then (Inl ErrInvalidMagic, length header, r)
     else if version = 0 then (Inl ErrInvalidVersion, length header, r)
     else if payloadLength > maxPayload
     then (Inl (ErrFrameTooLarge (unat payloadLength) (unat maxPayload)), length header, r)
     else case ReadFull (unat payloadLength) r of
       (payload, Some e, r') \<Rightarrow> (Inl (ErrIncompleteFrame ''payload'' e), length header + length payload, r')
     | (payload, None, r') \<Rightarrow>
       (case ReadFull TrailerSize r' of
          (trailer, Some e, r'') \<Rightarrow>
            (Inl (ErrIncompleteFrame ''checksum'' e), length header + length payload + length trailer, r'')
        | (trailer, None, r'') \<Rightarrow>
            (if crc32c (header @ payload) \<noteq> Uint32 trailer
             then Inl (ErrChecksum (crc32c (header @ payload)) (Uint32 trailer))
             else Inr \<lparr>fr_Version = version, fr_Flags = flags, fr_Payload = payload\<rparr>,
             length header + length payload + length trailer, r'')))"

definition Decoder_Read :: "uint32 \<Rightarrow> reader \<Rightarrow> (frame_error + Frame) \<times> nat \<times> reader" where
  "Decoder_Read maxPayload r =
    (if maxPayload = 0 then (Inl (ErrFrameTooLarge 0 0), 0, r)
     else case ReadFull HeaderSize r of
       (header, Some e, r') \<Rightarrow>
         if e = EOF \<and> header = [] then (Inl FrameEOF, 0, r')
         else (Inl (ErrIncompleteFrame ''header'' e), length header, r')
     | (header, None, r') \<Rightarrow> read_body maxPayload header r')"

definition frame_header :: "Frame \<Rightarrow> bytes" where
  "frame_header f = magic @ be16 (fr_Version f) @ be16 (fr_Flags f) @ be32 (of_nat (length (fr_Payload f)))"

definition Marshal :: "Frame \<Rightarrow> uint32 \<Rightarrow> frame_error + bytes" where
  "Marshal f maxPayload =
    (if fr_Version f = 0 then Inl ErrInvalidVersion
     else if length (fr_Payload f) > unat maxPayload
     then Inl (ErrFrameTooLarge (length (fr_Payload f)) (unat maxPayload))
     else Inr (frame_header f @ fr_Payload f @ be32 (crc32c (frame_header f @ fr_Payload f))))"

subsection \<open>The frames a decoder accepts are the encodings\<close>

lemma header_length [simp]: "length (frame_header f) = HeaderSize"
  by (simp add: frame_header_def magic_def HeaderSize_def)

lemma header_nonempty [simp]: "frame_header f \<noteq> []"
  using header_length [of f] by (auto simp: HeaderSize_def simp del: header_length)

lemma header_parts:
  "take 4 (frame_header f) = magic" "take 2 (drop 4 (frame_header f)) = be16 (fr_Version f)"
  "take 2 (drop 6 (frame_header f)) = be16 (fr_Flags f)"
  "take 4 (drop 8 (frame_header f)) = be32 (of_nat (length (fr_Payload f)))"
  by (simp_all add: frame_header_def magic_def)

lemma ReadFull_split: "n = length a \<Longrightarrow> ReadFull n \<lparr>rd_data = a @ b, rd_failure = e\<rparr> = (a, None, \<lparr>rd_data = b, rd_failure = e\<rparr>)"
  by (simp add: ReadFull_def)

lemma Marshal_Inr:
  "Marshal f m = Inr bs \<longleftrightarrow> fr_Version f \<noteq> 0 \<and> length (fr_Payload f) \<le> unat m \<and>
     bs = frame_header f @ fr_Payload f @ be32 (crc32c (frame_header f @ fr_Payload f))"
  by (auto simp: Marshal_def)

lemma small_length:
  assumes "length xs \<le> unat (m :: uint32)"
  shows "unat (of_nat (length xs) :: uint32) = length xs" "(of_nat (length xs) :: uint32) \<le> m"
proof -
  show u: "unat (of_nat (length xs) :: uint32) = length xs"
    using assms unat_width(2) [of m] by (simp add: unat_of_nat)
  show "(of_nat (length xs) :: uint32) \<le> m" using assms u by (simp add: word_le_nat_alt)
qed

lemma Decoder_Read_Marshal:
  assumes "Marshal f m = Inr bs" "m \<noteq> 0"
  shows "Decoder_Read m \<lparr>rd_data = bs @ rest, rd_failure = e\<rparr> = (Inr f, length bs, \<lparr>rd_data = rest, rd_failure = e\<rparr>)"
proof -
  note bs = assms(1) [unfolded Marshal_Inr]
  note s = small_length [of "fr_Payload f" m]
  show ?thesis
    using bs assms(2) s
    by (simp add: Decoder_Read_def read_body_def Let_def ReadFull_split header_parts TrailerSize_def not_less)
qed

lemma ReadFull_None:
  "ReadFull n r = (bs, None, r') \<longleftrightarrow> length bs = n \<and> rd_data r = bs @ rd_data r' \<and> rd_failure r' = rd_failure r"
  by (cases r; cases r') (auto simp: ReadFull_def min_def)

lemma header_of_parts:
  assumes "length h = HeaderSize" "take 4 h = magic" "unat (Uint32 (take 4 (drop 8 h))) = length p"
  shows "frame_header \<lparr>fr_Version = Uint16 (take 2 (drop 4 h)), fr_Flags = Uint16 (take 2 (drop 6 h)), fr_Payload = p\<rparr> = h"
proof -
  have len: "length h = 12" using assms(1) by (simp add: HeaderSize_def)
  have "take 4 (drop 8 h) = drop 8 h" by (simp add: len)
  moreover have "take 2 (drop 6 h) @ drop 8 h = drop 6 h" using append_take_drop_id [of 2 "drop 6 h"] by simp
  moreover have "take 2 (drop 4 h) @ drop 6 h = drop 4 h" using append_take_drop_id [of 2 "drop 4 h"] by simp
  ultimately have "take 4 h @ take 2 (drop 4 h) @ take 2 (drop 6 h) @ take 4 (drop 8 h) = h"
    by (simp only: append_take_drop_id)
  moreover have "of_nat (length p) = Uint32 (take 4 (drop 8 h))" unfolding assms(3) [symmetric] by simp
  ultimately show ?thesis
    using len assms(2) by (simp add: frame_header_def be_Uint)
qed

lemma Decoder_Read_Inr:
  assumes "Decoder_Read m r = (Inr f, n, r')"
  shows "\<exists>bs. Marshal f m = Inr bs \<and> n = length bs \<and> rd_data r = bs @ rd_data r' \<and> rd_failure r' = rd_failure r"
proof -
  obtain h r1 where h: "ReadFull HeaderSize r = (h, None, r1)" and b: "read_body m h r1 = (Inr f, n, r')"
    using assms by (auto simp: Decoder_Read_def split: prod.splits option.splits if_splits)
  let ?n = "Uint32 (take 4 (drop 8 h))"
  obtain p r2 t where p: "ReadFull (unat ?n) r1 = (p, None, r2)" and t: "ReadFull TrailerSize r2 = (t, None, r')"
      and ok: "take 4 h = magic" "Uint16 (take 2 (drop 4 h)) \<noteq> 0" "\<not> ?n > m" "crc32c (h @ p) = Uint32 t"
      and f: "f = \<lparr>fr_Version = Uint16 (take 2 (drop 4 h)), fr_Flags = Uint16 (take 2 (drop 6 h)), fr_Payload = p\<rparr>"
      and n: "n = length h + length p + length t"
    using b by (auto simp: read_body_def Let_def split: prod.splits option.splits if_splits)
  note rh = h [unfolded ReadFull_None] and rp = p [unfolded ReadFull_None] and rt = t [unfolded ReadFull_None]
  have fh: "frame_header f = h" unfolding f using header_of_parts [of h p] rh ok(1) rp by simp
  have "be32 (crc32c (h @ p)) = t" using ok(4) rt by (simp add: be_Uint TrailerSize_def)
  moreover have "length p \<le> unat m" using ok(3) rp by (simp add: word_le_nat_alt not_less)
  ultimately have "Marshal f m = Inr (h @ p @ t)" unfolding Marshal_Inr fh using ok(2) f by simp
  then show ?thesis using rh rp rt n by (intro exI [of _ "h @ p @ t"]) simp
qed

text \<open>
  C27. Framing is exact: encoding a frame and decoding it gives the frame back, with exactly its bytes
  consumed whatever follows, and whatever a decoder accepts is the encoding of the frame it returns.
\<close>

theorem frame_codec_exact:
  "m \<noteq> 0 \<Longrightarrow> Decoder_Read m r = (Inr f, n, r') \<longleftrightarrow>
     (\<exists>bs. Marshal f m = Inr bs \<and> n = length bs \<and> rd_data r = bs @ rd_data r' \<and> rd_failure r' = rd_failure r)"
proof
  assume m: "m \<noteq> 0" and "\<exists>bs. Marshal f m = Inr bs \<and> n = length bs \<and> rd_data r = bs @ rd_data r' \<and> rd_failure r' = rd_failure r"
  then obtain bs where bs: "Marshal f m = Inr bs" "n = length bs" "rd_data r = bs @ rd_data r'" "rd_failure r' = rd_failure r" by blast
  from bs(3,4) have "r = \<lparr>rd_data = bs @ rd_data r', rd_failure = rd_failure r'\<rparr>" by (cases r) simp
  with Decoder_Read_Marshal [OF bs(1) m, of "rd_data r'" "rd_failure r'"] bs(2)
  show "Decoder_Read m r = (Inr f, n, r')" by (cases r') simp
qed (rule Decoder_Read_Inr)

definition demo_frame :: Frame where
  "demo_frame = \<lparr>fr_Version = 1, fr_Flags = 0, fr_Payload = ''abc''\<rparr>"

lemma demo_frame_bytes: "\<exists>bs. Marshal demo_frame 8 = Inr bs"
  by (simp add: Marshal_def demo_frame_def)

theorem frame_codec_exact_witness:
  "\<exists>bs n. Decoder_Read 8 (reader_of (bs @ ''next'')) = (Inr demo_frame, n, reader_of ''next'')"
proof -
  obtain bs where "Marshal demo_frame 8 = Inr bs" using demo_frame_bytes ..
  with frame_codec_exact [of 8 "reader_of (bs @ ''next'')" demo_frame "length bs" "reader_of ''next''"] show ?thesis by auto
qed

subsection \<open>Torn and damaged frames\<close>

lemma ReadFull_short:
  "length (rd_data r) < n \<Longrightarrow> \<exists>e. ReadFull n r = (rd_data r, Some e, r\<lparr>rd_data := []\<rparr>) \<and> (e = EOF \<longleftrightarrow> rd_data r = [] \<and> rd_failure r = None)"
  by (auto simp: ReadFull_def split: option.splits)

lemma read_body_short:
  assumes "fr_Version f \<noteq> 0" "length (fr_Payload f) \<le> unat m" "d @ rest = fr_Payload f @ c"
    and "length d < length (fr_Payload f) + TrailerSize"
  shows "\<exists>w e. read_body m (frame_header f) \<lparr>rd_data = d, rd_failure = x\<rparr> =
    (Inl (ErrIncompleteFrame w e), HeaderSize + length d, \<lparr>rd_data = [], rd_failure = x\<rparr>)"
proof -
  let ?p = "fr_Payload f"
  note s = small_length [OF assms(2)]
  show ?thesis
  proof (cases "length d < length ?p")
    case True
    then obtain e where "ReadFull (length ?p) \<lparr>rd_data = d, rd_failure = x\<rparr> = (d, Some e, \<lparr>rd_data = [], rd_failure = x\<rparr>)"
      using ReadFull_short [of "\<lparr>rd_data = d, rd_failure = x\<rparr>" "length ?p"] by auto
    then show ?thesis using assms(1) s by (auto simp: read_body_def Let_def header_parts)
  next
    case False
    then have "take (length ?p) d = ?p" using arg_cong [OF assms(3), of "take (length ?p)"] by simp
    then obtain q where q: "d = ?p @ q" by (metis append_take_drop_id)
    then obtain e where "ReadFull TrailerSize \<lparr>rd_data = q, rd_failure = x\<rparr> = (q, Some e, \<lparr>rd_data = [], rd_failure = x\<rparr>)"
      using ReadFull_short [of "\<lparr>rd_data = q, rd_failure = x\<rparr>" TrailerSize] assms(4) by auto
    then show ?thesis using assms(1) s q by (auto simp: read_body_def Let_def header_parts ReadFull_split)
  qed
qed

lemma Decoder_Read_torn:
  assumes "Marshal f m = Inr (torn @ lost)" "m \<noteq> 0" "lost \<noteq> []"
  shows "if torn = [] then Decoder_Read m (reader_of torn) = (Inl FrameEOF, 0, reader_of [])
    else \<exists>w e. Decoder_Read m (reader_of torn) = (Inl (ErrIncompleteFrame w e), length torn, reader_of [])"
proof (cases "length torn < HeaderSize")
  case True
  then show ?thesis
    using ReadFull_short [of "reader_of torn" HeaderSize] assms(2) by (auto simp: Decoder_Read_def)
next
  case False
  let ?c = "be32 (crc32c (frame_header f @ fr_Payload f))"
  have eq: "torn @ lost = frame_header f @ fr_Payload f @ ?c" and f: "fr_Version f \<noteq> 0" "length (fr_Payload f) \<le> unat m"
    using assms(1) by (simp_all add: Marshal_Inr)
  have "take HeaderSize torn = frame_header f" using False arg_cong [OF eq, of "take HeaderSize"] by simp
  then obtain d where d: "torn = frame_header f @ d" by (metis append_take_drop_id)
  have "d @ lost = fr_Payload f @ ?c" using eq d by simp
  moreover from arg_cong [OF this, of length] assms(3) have "length d < length (fr_Payload f) + TrailerSize"
    by (cases lost) (simp_all add: TrailerSize_def)
  ultimately obtain w e where "read_body m (frame_header f) (reader_of d) = (Inl (ErrIncompleteFrame w e), HeaderSize + length d, reader_of [])"
    using read_body_short [OF f, of d lost ?c None] by blast
  then show ?thesis using d assms(2) False by (auto simp: Decoder_Read_def ReadFull_split HeaderSize_def)
qed

text \<open>
  C28. A torn frame is recognised as such: cutting the encoding of a frame short, as a crash in the middle
  of an append does, yields the incomplete-frame error, with everything consumed; it is never taken
  for a frame, for corruption or, unless nothing at all was written, for the end of the stream.
\<close>

theorem torn_frame_incomplete:
  assumes "Marshal f m = Inr (torn @ lost)" "m \<noteq> 0" "lost \<noteq> []"
  shows "if torn = [] then Decoder_Read m (reader_of torn) = (Inl FrameEOF, 0, reader_of [])
    else \<exists>w e. Decoder_Read m (reader_of torn) = (Inl (ErrIncompleteFrame w e), length torn, reader_of [])"
  using assms by (rule Decoder_Read_torn)

theorem torn_frame_incomplete_witness:
  "\<exists>w e. Decoder_Read 8 (reader_of (frame_header demo_frame @ ''ab'')) = (Inl (ErrIncompleteFrame w e), 14, reader_of [])"
  using torn_frame_incomplete [of demo_frame 8 "frame_header demo_frame @ ''ab''"
      "CHR ''c'' # be32 (crc32c (frame_header demo_frame @ ''abc''))"]
  by (simp add: Marshal_Inr) (simp add: demo_frame_def HeaderSize_def)

text \<open>
  C29. One damaged byte is always noticed: overwriting any byte of the payload of an encoded frame with
  another value makes decoding report a checksum error.
\<close>

theorem damaged_payload_detected:
  assumes "Marshal f m = Inr (frame_header f @ xs @ a # ys @ c)" "fr_Payload f = xs @ a # ys" "a \<noteq> b" "m \<noteq> 0"
  shows "\<exists>u v. fst (Decoder_Read m (reader_of (frame_header f @ xs @ b # ys @ c @ rest))) = Inl (ErrChecksum u v)"
proof -
  have f: "fr_Version f \<noteq> 0" "length (fr_Payload f) \<le> unat m" and c: "c = be32 (crc32c (frame_header f @ fr_Payload f))"
    using assms(1,2) by (simp_all add: Marshal_Inr)
  note s = small_length [OF f(2)]
  have "crc32c ((frame_header f @ xs) @ b # ys) \<noteq> crc32c ((frame_header f @ xs) @ a # ys)"
    using crc32c_one_byte [of b a] assms(3) by blast
  moreover have "ReadFull (length (fr_Payload f)) (reader_of (xs @ b # ys @ c @ rest)) = (xs @ b # ys, None, reader_of (c @ rest))"
    using ReadFull_split [of "length (fr_Payload f)" "xs @ b # ys" "c @ rest" None] assms(2) by simp
  ultimately show ?thesis
    using f s assms(2,4) c
    by (simp add: Decoder_Read_def read_body_def Let_def ReadFull_split header_parts not_less TrailerSize_def)
qed

theorem damaged_payload_detected_witness:
  "\<exists>c u v. fst (Decoder_Read 8 (reader_of (frame_header demo_frame @ ''aXc'' @ c))) = Inl (ErrChecksum u v)"
proof -
  let ?c = "be32 (crc32c (frame_header demo_frame @ ''abc''))"
  have "Marshal demo_frame 8 = Inr (frame_header demo_frame @ ''a'' @ CHR ''b'' # ''c'' @ ?c)"
    by (simp add: Marshal_Inr) (simp add: demo_frame_def)
  from damaged_payload_detected [OF this, of "CHR ''X''" "[]"] show ?thesis by (auto simp: demo_frame_def)
qed

section \<open>Writing\<close>

text \<open>
  The write loop of \<open>Write\<close>, and of \<open>writeAll\<close> in the ledger: a writer may take fewer bytes than it is
  given; taking none without an error is a short write.
\<close>

datatype write_error = ErrShortWrite | WriteFailure string

type_synonym 'w writer = "'w \<Rightarrow> bytes \<Rightarrow> 'w \<times> nat \<times> string option"

function write_all :: "'w writer \<Rightarrow> bytes \<Rightarrow> 'w \<Rightarrow> nat \<Rightarrow> 'w \<times> nat \<times> write_error option" where
  "write_all write encoded w written =
    (if written < length encoded then
       (case write w (drop written encoded) of (w', n, err) \<Rightarrow>
          (case err of
             Some e \<Rightarrow> (w', written + n, Some (WriteFailure e))
           | None \<Rightarrow> if n = 0 then (w', written, Some ErrShortWrite) else write_all write encoded w' (written + n)))
     else (w, written, None))"
  by pat_completeness auto

termination
  by (relation "measure (\<lambda>(write, encoded, w, written). length encoded - written)") auto

declare write_all.simps [simp del]

definition Write :: "'w writer \<Rightarrow> Frame \<Rightarrow> uint32 \<Rightarrow> 'w \<Rightarrow> 'w \<times> nat \<times> (frame_error + write_error) option" where
  "Write write f maxPayload w =
    (case Marshal f maxPayload of
       Inl e \<Rightarrow> (w, 0, Some (Inl e))
     | Inr encoded \<Rightarrow> (case write_all write encoded w 0 of (w', n, err) \<Rightarrow> (w', n, map_option Inr err)))"

text \<open>What a writer promises: it appends a prefix of what it is given and counts it.\<close>

locale appending =
  fixes put :: "'w writer" and out :: "'w \<Rightarrow> bytes"
  assumes appends: "put w bs = (w', n, err) \<Longrightarrow> n \<le> length bs \<and> out w' = out w @ take n bs"
begin

lemma write_all_appends:
  assumes "write_all put bs w k = (w', n, err)" "k \<le> length bs"
  shows "k \<le> n \<and> n \<le> length bs \<and> out w' = out w @ take (n - k) (drop k bs) \<and> (err = None \<longrightarrow> n = length bs)"
  using assms
proof (induction "length bs - k" arbitrary: w k rule: less_induct)
  case less
  obtain w1 m e where p: "put w (drop k bs) = (w1, m, e)" by (cases "put w (drop k bs)")
  note a = appends [OF p]
  note step = less.prems(1) [unfolded write_all.simps [of put bs w k] p]
  show ?case
  proof (cases "k < length bs \<and> e = None \<and> m \<noteq> 0")
    case True
    then have rest: "write_all put bs w1 (k + m) = (w', n, err)" using step by simp
    have "length bs - (k + m) < length bs - k" "k + m \<le> length bs" using True a by auto
    note ih = less.hyps [OF this(1) rest this(2)]
    then have "take (n - k) (drop k bs) = take m (drop k bs) @ take (n - (k + m)) (drop (k + m) bs)"
      using take_add [of m "n - (k + m)" "drop k bs"] by (simp add: add.commute)
    with ih a show ?thesis by simp
  next
    case False
    then show ?thesis using step a less.prems(2) by (auto split: option.splits if_splits)
  qed
qed

end

end
