(* ===== verification/Ledger_Codec.thy ===== *)
theory Ledger_Codec
  imports Framing "HOL-Library.State_Monad"
begin

text \<open>
  The records of the observation ledger and their binary form (\<open>internal/ledger/types.go\<close> and
  \<open>codec.go\<close>).  The encoder and the decoder are stateful objects that stop at their first error; they
  are state monads here.  The codec of a field is an interface that every primitive and every
  composite implements, so that the codec of the record is exact.
\<close>

section \<open>Records\<close>

type_synonym uint8 = "8 word"

text \<open>An \<open>int64\<close> is a 64-bit word read by \<^const>\<open>sint\<close>; a \<open>float64\<close> is its IEEE 754 bit pattern.\<close>

type_synonym float64_bits = "64 word"
type_synonym Cursor = uint64

record Identity =
  li_ResearchSessionID :: string
  li_LeaseID :: string
  li_AgentWorkspaceID :: string
  li_AgentGeneration :: uint64
  li_ExecID :: string
  li_TargetID :: string
  li_TargetGeneration :: uint64
  li_TargetRunID :: string
  li_TargetOperationID :: string

record CollectorContext =
  lc_ID :: string
  lc_Placement :: uint8
  lc_Coverage :: string

record ProcessIdentity =
  lp_ID :: int64
  lp_StartTimeUnixNano :: int64

record CausalContext =
  lk_CausationID :: string
  lk_CorrelationID :: string
  lk_CorrelationMethod :: string
  lk_Confidence :: float64_bits

record LedgerGap =
  lg_Cause :: uint8
  lg_Source :: string
  lg_SourceInstance :: string
  lg_FromSequence :: uint64
  lg_ThroughSequence :: uint64
  lg_FromCursor :: Cursor
  lg_ThroughCursor :: Cursor
  lg_Detail :: string

record Duplicate =
  ld_Source :: string
  ld_SourceInstance :: string
  ld_SourceSequence :: uint64
  ld_OriginalCursor :: Cursor
  ld_ConflictingPayload :: bool

record Record =
  lr_Kind :: uint8
  lr_Cursor :: Cursor
  lr_EventID :: string
  lr_Identity :: Identity
  lr_SignalFamily :: string
  lr_SubjectID :: string
  lr_Source :: string
  lr_SourceInstance :: string
  lr_HasSourceSequence :: bool
  lr_SourceSequence :: uint64
  lr_ObservedWallUnixNano :: int64
  lr_ObservedMonotonicNanos :: int64
  lr_ClockDomain :: string
  lr_ClockSyncEpoch :: uint64
  lr_Collector :: CollectorContext
  lr_Process :: ProcessIdentity
  lr_PolicyDigest :: string
  lr_CapabilityDigest :: string
  lr_Origin :: uint8
  lr_OriginEvidence :: string
  lr_Causal :: CausalContext
  lr_Payload :: bytes
  lr_Gap :: "LedgerGap option"
  lr_Duplicate :: "Duplicate option"
  lr_ChainHash :: bytes

abbreviation RecordObservation :: uint8 where "RecordObservation \<equiv> 1"
abbreviation RecordGap :: uint8 where "RecordGap \<equiv> 8"
abbreviation RecordDuplicate :: uint8 where "RecordDuplicate \<equiv> 9"
abbreviation GapSourceSequence :: uint8 where "GapSourceSequence \<equiv> 5"
abbreviation GapSubscriberOverflow :: uint8 where "GapSubscriberOverflow \<equiv> 6"
abbreviation GapSegmentRepair :: uint8 where "GapSegmentRepair \<equiv> 7"

datatype ledger_error =
    ErrClosed | ErrCursorOutOfRange | ErrCursorOrder Cursor Cursor | ErrHashChain
  | ErrUnsupportedVersion nat | ErrInvalidRecord string | ErrMultipleOpenSegments
  | ErrRecordTooLarge nat nat | ErrRecoveryRequired "ledger_error list" | ErrFrame frame_error
  | DecodeEOF | DecodeUnexpectedEOF | InvalidBoolean nat | FieldTooLong nat nat | TrailingBytes nat
  | FieldTooLarge nat | CorruptionError string nat ledger_error | OpenSegmentNotLast
  | IOFailure string | ContextDone | CapacityNotPositive

text \<open>
  \<open>validateRecordShape\<close> rejects a confidence that is NaN, below 0 or above 1.  On bit patterns: a NaN
  has all exponent bits and some fraction bit set; the magnitudes of the non-negative numbers are
  ordered like their bit patterns, and 1 is \<open>0x3ff0000000000000\<close>; minus zero is not below zero.
\<close>

definition float_magnitude :: "float64_bits \<Rightarrow> nat" where
  "float_magnitude w = unat w mod 2 ^ 63"

definition float_is_nan :: "float64_bits \<Rightarrow> bool" where
  "float_is_nan w \<longleftrightarrow> float_magnitude w > 0x7ff0000000000000"

definition float_negative :: "float64_bits \<Rightarrow> bool" where
  "float_negative w \<longleftrightarrow> unat w \<ge> 2 ^ 63 \<and> float_magnitude w \<noteq> 0"

definition float_above_one :: "float64_bits \<Rightarrow> bool" where
  "float_above_one w \<longleftrightarrow> unat w < 2 ^ 63 \<and> float_magnitude w > 0x3ff0000000000000"

definition validateRecordShape :: "Record \<Rightarrow> ledger_error option" where
  "validateRecordShape r = first_err
    [fail_if (lr_Kind r < RecordObservation \<or> lr_Kind r > RecordDuplicate) (ErrInvalidRecord ''unknown kind''),
     (if lr_Kind r = RecordGap
      then fail_if (lr_Gap r = None \<or> lr_Duplicate r \<noteq> None) (ErrInvalidRecord ''gap record requires only gap metadata'')
      else fail_if (lr_Gap r \<noteq> None) (ErrInvalidRecord ''non-gap record contains gap metadata'')),
     (if lr_Kind r = RecordDuplicate
      then fail_if (lr_Duplicate r = None \<or> lr_Gap r \<noteq> None)
        (ErrInvalidRecord ''duplicate record requires only duplicate metadata'')
      else fail_if (lr_Duplicate r \<noteq> None) (ErrInvalidRecord ''non-duplicate record contains duplicate metadata'')),
     fail_if (lk_CorrelationID (lr_Causal r) \<noteq> [] \<and>
         (lk_CorrelationMethod (lr_Causal r) = [] \<or> float_is_nan (lk_Confidence (lr_Causal r)) \<or>
          float_negative (lk_Confidence (lr_Causal r)) \<or> float_above_one (lk_Confidence (lr_Causal r))))
       (ErrInvalidRecord ''correlation requires method and confidence in [0,1]''),
     fail_if (lr_HasSourceSequence r \<and> (lr_Source r = [] \<or> lr_SourceInstance r = []))
       (ErrInvalidRecord ''source sequence requires source and source instance'')]"

definition Record_Validate :: "Record \<Rightarrow> ledger_error option" where
  "Record_Validate r = first_err
    [fail_if (lr_Cursor r \<noteq> 0 \<or> lr_ChainHash r \<noteq> replicate 32 (CHR 0x00))
       (ErrInvalidRecord ''cursor and chain hash are ledger-assigned''),
     validateRecordShape r]"

text \<open>A small record of one source's sequence, for examples.\<close>

definition demo_sha :: "bytes \<Rightarrow> bytes" where
  "demo_sha x = replicate 31 (CHR ''h'') @ [char_of (length x mod 256)]"

definition demo_record :: "uint64 \<Rightarrow> Record" where
  "demo_record sequence =
    \<lparr>lr_Kind = RecordObservation, lr_Cursor = 0, lr_EventID = ''event'',
     lr_Identity = \<lparr>li_ResearchSessionID = ''s'', li_LeaseID = ''l'', li_AgentWorkspaceID = [], li_AgentGeneration = 1,
       li_ExecID = [], li_TargetID = [], li_TargetGeneration = 0, li_TargetRunID = [], li_TargetOperationID = []\<rparr>,
     lr_SignalFamily = ''process'', lr_SubjectID = ''pid'', lr_Source = ''collector'', lr_SourceInstance = ''one'',
     lr_HasSourceSequence = True, lr_SourceSequence = sequence, lr_ObservedWallUnixNano = 5, lr_ObservedMonotonicNanos = 6,
     lr_ClockDomain = [], lr_ClockSyncEpoch = 0,
     lr_Collector = \<lparr>lc_ID = ''c'', lc_Placement = 1, lc_Coverage = []\<rparr>,
     lr_Process = \<lparr>lp_ID = 7, lp_StartTimeUnixNano = 4\<rparr>, lr_PolicyDigest = [], lr_CapabilityDigest = [], lr_Origin = 3,
     lr_OriginEvidence = [],
     lr_Causal = \<lparr>lk_CausationID = [], lk_CorrelationID = [], lk_CorrelationMethod = [], lk_Confidence = 0\<rparr>,
     lr_Payload = ''payload'', lr_Gap = None, lr_Duplicate = None, lr_ChainHash = replicate 32 (CHR 0x00)\<rparr>"

lemma demo_sha_length [simp]: "length (demo_sha x) = 32"
  by (simp add: demo_sha_def)

section \<open>Encoder\<close>

text \<open>A \<open>binaryEncoder\<close> is its buffer and its first error.\<close>

type_synonym encoder = "bytes \<times> ledger_error option"
type_synonym encoding = "(encoder, unit) state"

definition e_write :: "bytes \<Rightarrow> encoding" where
  "e_write bs = State (\<lambda>(buffer, err). ((), if err = None then (buffer @ bs, None) else (buffer, err)))"

definition e_uint8 :: "uint8 \<Rightarrow> encoding" where
  "e_uint8 v = e_write [char_of (unat v)]"

definition e_uint16 :: "uint16 \<Rightarrow> encoding" where
  "e_uint16 v = e_write (be16 v)"

definition e_uint32 :: "uint32 \<Rightarrow> encoding" where
  "e_uint32 v = e_write (be32 v)"

definition e_uint64 :: "uint64 \<Rightarrow> encoding" where
  "e_uint64 v = e_write (be64 v)"

definition e_boolean :: "bool \<Rightarrow> encoding" where
  "e_boolean v = e_uint8 (if v then 1 else 0)"

definition e_fail :: "ledger_error \<Rightarrow> encoding" where
  "e_fail e = State (\<lambda>(buffer, err). ((), buffer, Some e))"

definition e_bytes :: "bytes \<Rightarrow> encoding" where
  "e_bytes v =
    (if length v > 2 ^ 32 - 1 then e_fail (FieldTooLarge (length v))
     else do { e_uint32 (of_nat (length v)); e_write v })"

definition e_hash :: "bytes \<Rightarrow> encoding" where
  "e_hash v = e_write v"

definition encodeIdentity :: "Identity \<Rightarrow> encoding" where
  "encodeIdentity i = do {
     e_bytes (li_ResearchSessionID i); e_bytes (li_LeaseID i); e_bytes (li_AgentWorkspaceID i);
     e_uint64 (li_AgentGeneration i); e_bytes (li_ExecID i); e_bytes (li_TargetID i);
     e_uint64 (li_TargetGeneration i); e_bytes (li_TargetRunID i); e_bytes (li_TargetOperationID i) }"

definition encodeCausalContext :: "CausalContext \<Rightarrow> encoding" where
  "encodeCausalContext c = do {
     e_bytes (lk_CausationID c); e_bytes (lk_CorrelationID c); e_bytes (lk_CorrelationMethod c);
     e_uint64 (lk_Confidence c) }"

definition encodeGap :: "LedgerGap option \<Rightarrow> encoding" where
  "encodeGap gap = do {
     e_boolean (gap \<noteq> None);
     (case gap of
        None \<Rightarrow> State_Monad.return ()
      | Some g \<Rightarrow> do {
          e_uint8 (lg_Cause g); e_bytes (lg_Source g); e_bytes (lg_SourceInstance g);
          e_uint64 (lg_FromSequence g); e_uint64 (lg_ThroughSequence g);
          e_uint64 (lg_FromCursor g); e_uint64 (lg_ThroughCursor g); e_bytes (lg_Detail g) }) }"

definition encodeDuplicate :: "Duplicate option \<Rightarrow> encoding" where
  "encodeDuplicate duplicate = do {
     e_boolean (duplicate \<noteq> None);
     (case duplicate of
        None \<Rightarrow> State_Monad.return ()
      | Some d \<Rightarrow> do {
          e_bytes (ld_Source d); e_bytes (ld_SourceInstance d); e_uint64 (ld_SourceSequence d);
          e_uint64 (ld_OriginalCursor d); e_boolean (ld_ConflictingPayload d) }) }"

definition encodeCollector :: "CollectorContext \<Rightarrow> encoding" where
  "encodeCollector c = do { e_bytes (lc_ID c); e_uint8 (lc_Placement c); e_bytes (lc_Coverage c) }"

definition encodeRecord :: "Record \<Rightarrow> encoding" where
  "encodeRecord r = do {
     e_uint8 (lr_Kind r); e_uint64 (lr_Cursor r); e_bytes (lr_EventID r); encodeIdentity (lr_Identity r);
     e_bytes (lr_SignalFamily r); e_bytes (lr_SubjectID r); e_bytes (lr_Source r); e_bytes (lr_SourceInstance r);
     e_boolean (lr_HasSourceSequence r); e_uint64 (lr_SourceSequence r); e_uint64 (lr_ObservedWallUnixNano r);
     e_uint64 (lr_ObservedMonotonicNanos r); e_bytes (lr_ClockDomain r); e_uint64 (lr_ClockSyncEpoch r);
     encodeCollector (lr_Collector r); e_uint64 (lp_ID (lr_Process r)); e_uint64 (lp_StartTimeUnixNano (lr_Process r));
     e_bytes (lr_PolicyDigest r); e_bytes (lr_CapabilityDigest r); e_uint8 (lr_Origin r); e_bytes (lr_OriginEvidence r);
     encodeCausalContext (lr_Causal r); e_bytes (lr_Payload r); encodeGap (lr_Gap r); encodeDuplicate (lr_Duplicate r) }"

definition e_result :: "encoding \<Rightarrow> ledger_error + bytes" where
  "e_result e = (case run_state e ([], None) of (_, buffer, None) \<Rightarrow> Inr buffer | (_, _, Some err) \<Rightarrow> Inl err)"

definition marshalRecord :: "Record \<Rightarrow> ledger_error + bytes" where
  "marshalRecord r = e_result (encodeRecord r)"

section \<open>Decoder\<close>

text \<open>
  A \<open>binaryDecoder\<close> is the rest of its input and its first error.  \<open>bytes.Reader.Read\<close> reports the end of
  the input even when no byte is asked for, and fills a hash only as far as the input reaches.
\<close>

type_synonym decoder = "bytes \<times> ledger_error option"
type_synonym 'a decoding = "(decoder, 'a) state"

definition d_fixed :: "nat \<Rightarrow> bytes option decoding" where
  "d_fixed n = State (\<lambda>(bs, err).
     if err \<noteq> None then (None, bs, err)
     else if n \<le> length bs then (Some (take n bs), drop n bs, None)
     else (None, [], Some (if bs = [] then DecodeEOF else DecodeUnexpectedEOF)))"

definition d_uint8 :: "uint8 decoding" where
  "d_uint8 = State (\<lambda>(bs, err).
     if err \<noteq> None then (0, bs, err)
     else case bs of [] \<Rightarrow> (0, [], Some DecodeEOF) | b # rest \<Rightarrow> (of_nat (byte_val b), rest, None))"

definition d_uint16 :: "uint16 decoding" where
  "d_uint16 = do { v \<leftarrow> d_fixed 2; State_Monad.return (case v of None \<Rightarrow> 0 | Some bs \<Rightarrow> Uint16 bs) }"

definition d_uint32 :: "uint32 decoding" where
  "d_uint32 = do { v \<leftarrow> d_fixed 4; State_Monad.return (case v of None \<Rightarrow> 0 | Some bs \<Rightarrow> Uint32 bs) }"

definition d_uint64 :: "uint64 decoding" where
  "d_uint64 = do { v \<leftarrow> d_fixed 8; State_Monad.return (case v of None \<Rightarrow> 0 | Some bs \<Rightarrow> Uint64 bs) }"

definition d_fail_if :: "bool \<Rightarrow> ledger_error \<Rightarrow> unit decoding" where
  "d_fail_if bad e = State (\<lambda>(bs, err). ((), bs, if err = None \<and> bad then Some e else err))"

definition d_boolean :: "bool decoding" where
  "d_boolean = do { v \<leftarrow> d_uint8; d_fail_if (v > 1) (InvalidBoolean (unat v)); State_Monad.return (v = 1) }"

definition d_take :: "nat \<Rightarrow> bytes decoding" where
  "d_take n = State (\<lambda>(bs, err).
     if err \<noteq> None then ([], bs, err)
     else if n > length bs then ([], bs, Some (FieldTooLong n (length bs)))
     else if bs = [] then ([], [], Some DecodeEOF)
     else (take n bs, drop n bs, None))"

definition d_bytes :: "bytes decoding" where
  "d_bytes = do { n \<leftarrow> d_uint32; d_take (unat n) }"

definition zero_hash32 :: bytes where
  "zero_hash32 = replicate 32 (CHR 0x00)"

definition d_hash :: "bytes decoding" where
  "d_hash = State (\<lambda>(bs, err).
     if err \<noteq> None then (zero_hash32, bs, err)
     else if bs = [] then (zero_hash32, [], Some DecodeEOF)
     else (take 32 (take 32 bs @ zero_hash32), drop 32 bs, None))"

definition decodeIdentity :: "Identity decoding" where
  "decodeIdentity = do {
     session \<leftarrow> d_bytes; lease \<leftarrow> d_bytes; workspace \<leftarrow> d_bytes; agentGeneration \<leftarrow> d_uint64; exec \<leftarrow> d_bytes;
     target \<leftarrow> d_bytes; targetGeneration \<leftarrow> d_uint64; run \<leftarrow> d_bytes; op \<leftarrow> d_bytes;
     State_Monad.return \<lparr>li_ResearchSessionID = session, li_LeaseID = lease, li_AgentWorkspaceID = workspace,
       li_AgentGeneration = agentGeneration, li_ExecID = exec, li_TargetID = target,
       li_TargetGeneration = targetGeneration, li_TargetRunID = run, li_TargetOperationID = op\<rparr> }"

definition decodeCausalContext :: "CausalContext decoding" where
  "decodeCausalContext = do {
     causation \<leftarrow> d_bytes; correlation \<leftarrow> d_bytes; meth \<leftarrow> d_bytes; confidence \<leftarrow> d_uint64;
     State_Monad.return \<lparr>lk_CausationID = causation, lk_CorrelationID = correlation,
       lk_CorrelationMethod = meth, lk_Confidence = confidence\<rparr> }"

definition decodeGap :: "LedgerGap option decoding" where
  "decodeGap = do {
     present \<leftarrow> d_boolean;
     if \<not> present then State_Monad.return None
     else do {
       cause \<leftarrow> d_uint8; source \<leftarrow> d_bytes; inst \<leftarrow> d_bytes; fromSeq \<leftarrow> d_uint64; throughSeq \<leftarrow> d_uint64;
       fromCursor \<leftarrow> d_uint64; throughCursor \<leftarrow> d_uint64; detail \<leftarrow> d_bytes;
       State_Monad.return (Some \<lparr>lg_Cause = cause, lg_Source = source, lg_SourceInstance = inst,
         lg_FromSequence = fromSeq, lg_ThroughSequence = throughSeq, lg_FromCursor = fromCursor,
         lg_ThroughCursor = throughCursor, lg_Detail = detail\<rparr>) } }"

definition decodeDuplicate :: "Duplicate option decoding" where
  "decodeDuplicate = do {
     present \<leftarrow> d_boolean;
     if \<not> present then State_Monad.return None
     else do {
       source \<leftarrow> d_bytes; inst \<leftarrow> d_bytes; sequence \<leftarrow> d_uint64; original \<leftarrow> d_uint64; conflicting \<leftarrow> d_boolean;
       State_Monad.return (Some \<lparr>ld_Source = source, ld_SourceInstance = inst, ld_SourceSequence = sequence,
         ld_OriginalCursor = original, ld_ConflictingPayload = conflicting\<rparr>) } }"

definition decodeCollector :: "CollectorContext decoding" where
  "decodeCollector = do {
     i \<leftarrow> d_bytes; placement \<leftarrow> d_uint8; coverage \<leftarrow> d_bytes;
     State_Monad.return \<lparr>lc_ID = i, lc_Placement = placement, lc_Coverage = coverage\<rparr> }"

definition decodeRecord :: "Record decoding" where
  "decodeRecord = do {
     kind \<leftarrow> d_uint8; cursor \<leftarrow> d_uint64; event \<leftarrow> d_bytes; identity \<leftarrow> decodeIdentity;
     family \<leftarrow> d_bytes; subject \<leftarrow> d_bytes; source \<leftarrow> d_bytes; inst \<leftarrow> d_bytes;
     hasSequence \<leftarrow> d_boolean; sequence \<leftarrow> d_uint64; wall \<leftarrow> d_uint64; monotonic \<leftarrow> d_uint64;
     clock \<leftarrow> d_bytes; epoch \<leftarrow> d_uint64; collector \<leftarrow> decodeCollector;
     process \<leftarrow> d_uint64; start \<leftarrow> d_uint64; policy \<leftarrow> d_bytes; capability \<leftarrow> d_bytes;
     origin \<leftarrow> d_uint8; evidence \<leftarrow> d_bytes; causal \<leftarrow> decodeCausalContext; payload \<leftarrow> d_bytes;
     gap \<leftarrow> decodeGap; duplicate \<leftarrow> decodeDuplicate;
     State_Monad.return \<lparr>lr_Kind = kind, lr_Cursor = cursor, lr_EventID = event, lr_Identity = identity,
       lr_SignalFamily = family, lr_SubjectID = subject, lr_Source = source, lr_SourceInstance = inst,
       lr_HasSourceSequence = hasSequence, lr_SourceSequence = sequence, lr_ObservedWallUnixNano = wall,
       lr_ObservedMonotonicNanos = monotonic, lr_ClockDomain = clock, lr_ClockSyncEpoch = epoch,
       lr_Collector = collector, lr_Process = \<lparr>lp_ID = process, lp_StartTimeUnixNano = start\<rparr>,
       lr_PolicyDigest = policy, lr_CapabilityDigest = capability, lr_Origin = origin, lr_OriginEvidence = evidence,
       lr_Causal = causal, lr_Payload = payload, lr_Gap = gap, lr_Duplicate = duplicate,
       lr_ChainHash = zero_hash32\<rparr> }"

definition d_done :: "decoder \<Rightarrow> ledger_error option" where
  "d_done d = (case d of (bs, Some e) \<Rightarrow> Some e | (bs, None) \<Rightarrow> fail_if (bs \<noteq> []) (TrailingBytes (length bs)))"

definition unmarshalRecord :: "bytes \<Rightarrow> ledger_error + Record" where
  "unmarshalRecord encoded =
    (case run_state decodeRecord (encoded, None) of (r, d) \<Rightarrow>
       checked [d_done d, fail_if (lr_Cursor r = 0) (ErrInvalidRecord ''zero persisted cursor''), validateRecordShape r] r)"

section \<open>Chained records\<close>

definition recordEncodingVersion :: uint16 where "recordEncodingVersion = 1"

definition encodeWire :: "bytes \<Rightarrow> bytes \<Rightarrow> bytes \<Rightarrow> encoding" where
  "encodeWire previousHash chainHash recordBytes = do {
     e_uint16 recordEncodingVersion; e_hash previousHash; e_hash chainHash; e_bytes recordBytes }"

definition marshalWireRecord :: "(bytes \<Rightarrow> bytes) \<Rightarrow> Record \<Rightarrow> bytes \<Rightarrow> ledger_error + (bytes \<times> bytes)" where
  "marshalWireRecord sha r previousHash =
     bind_r (marshalRecord r) (\<lambda>recordBytes.
       let chainHash = sha (previousHash @ recordBytes) in
       bind_r (e_result (encodeWire previousHash chainHash recordBytes)) (\<lambda>wire. Inr (wire, chainHash)))"

definition decodeWire :: "(uint16 \<times> bytes \<times> bytes \<times> bytes) decoding" where
  "decodeWire = do {
     version \<leftarrow> d_uint16; previousHash \<leftarrow> d_hash; storedHash \<leftarrow> d_hash; recordBytes \<leftarrow> d_bytes;
     State_Monad.return (version, previousHash, storedHash, recordBytes) }"

definition unmarshalWireRecord :: "(bytes \<Rightarrow> bytes) \<Rightarrow> bytes \<Rightarrow> ledger_error + (Record \<times> bytes)" where
  "unmarshalWireRecord sha encoded =
    (case run_state decodeWire (encoded, None) of
       ((version, previousHash, storedHash, recordBytes), d) \<Rightarrow>
         guarded [d_done d, fail_if (version \<noteq> recordEncodingVersion) (ErrUnsupportedVersion (unat version)),
             fail_if (sha (previousHash @ recordBytes) \<noteq> storedHash) ErrHashChain]
           (bind_r (unmarshalRecord recordBytes) (\<lambda>r. Inr (r\<lparr>lr_ChainHash := storedHash\<rparr>, previousHash))))"

section \<open>Runs of an encoder or decoder\<close>

text \<open>
  \<open>runs m s v s'\<close>: started without error in \<open>s\<close>, the computation returns \<open>v\<close> and is left without error in
  \<open>s'\<close>.  A sticky computation never clears an error.
\<close>

definition runs :: "('s \<times> 'e option, 'a) state \<Rightarrow> 's \<Rightarrow> 'a \<Rightarrow> 's \<Rightarrow> bool" where
  "runs m s v s' \<longleftrightarrow> run_state m (s, None) = (v, s', None)"

definition sticky :: "('s \<times> 'e option, 'a) state \<Rightarrow> bool" where
  "sticky m \<longleftrightarrow> (\<forall>s e. snd (snd (run_state m (s, Some e))) \<noteq> None)"

lemma sticky_return [simp, intro]: "sticky (State_Monad.return v)"
  by (simp add: sticky_def)

lemma sticky_bind [simp, intro]:
  assumes m: "sticky m" and k: "\<And>v. sticky (k v)"
  shows "sticky (State_Monad.bind m k)"
  unfolding sticky_def
proof (intro allI)
  fix s e
  obtain v s' err where run: "run_state m (s, Some e) = (v, s', err)"
    by (cases "run_state m (s, Some e)") auto
  moreover obtain e' where "err = Some e'"
    using m run by (metis not_Some_eq snd_conv sticky_def)
  ultimately show "snd (snd (run_state (State_Monad.bind m k) (s, Some e))) \<noteq> None"
    using k [of v] by (simp add: sticky_def)
qed

lemma sticky_if [simp, intro]: "sticky a \<Longrightarrow> sticky b \<Longrightarrow> sticky (if c then a else b)"
  by simp

lemma sticky_case_option [simp, intro]:
  "sticky a \<Longrightarrow> (\<And>x. sticky (f x)) \<Longrightarrow> sticky (case v of None \<Rightarrow> a | Some x \<Rightarrow> f x)"
  by (cases v) simp_all

lemma runs_return [simp]: "runs (State_Monad.return v) s w s' \<longleftrightarrow> w = v \<and> s' = s"
  by (auto simp: runs_def)

lemma runs_bind [simp]:
  assumes k: "\<And>v. sticky (k v)"
  shows "runs (State_Monad.bind m k) s w s' \<longleftrightarrow> (\<exists>v t. runs m s v t \<and> runs (k v) t w s')"
proof -
  obtain v t err where run: "run_state m (s, None) = (v, t, err)"
    by (cases "run_state m (s, None)") auto
  show ?thesis
  proof (cases err)
    case None
    then show ?thesis
      using run by (simp add: runs_def)
  next
    case (Some e)
    then have "snd (snd (run_state (k v) (t, err))) \<noteq> None"
      using k [of v] by (simp add: sticky_def)
    then show ?thesis
      using run Some by (auto simp: runs_def)
  qed
qed

lemma runs_if [simp]: "runs (if c then a else b) s w s' \<longleftrightarrow> (if c then runs a s w s' else runs b s w s')"
  by simp

lemma e_result_runs: "e_result e = Inr b \<longleftrightarrow> runs e [] () b"
  by (auto simp: e_result_def runs_def split: prod.splits option.splits)

section \<open>The interface of a field codec\<close>

text \<open>
  A codec writes a value that \<open>fits\<close> as the bytes \<open>put v\<close> and fails on any other; its decoder accepts, in
  front of a non-empty rest, exactly the bytes \<open>put v\<close> of the values that fit and are \<open>plain\<close>, which
  says that they hold nothing but transported data.
\<close>

locale codec =
  fixes put :: "'a \<Rightarrow> bytes" and fits :: "'a \<Rightarrow> bool" and plain :: "'a \<Rightarrow> bool"
    and encode :: "'a \<Rightarrow> encoding" and decode :: "'a decoding"
  assumes encode_runs: "runs (encode v) buf u buf' \<longleftrightarrow> fits v \<and> buf' = buf @ put v"
    and encode_sticky: "sticky (encode v)"
    and decode_runs: "rest \<noteq> [] \<Longrightarrow> runs decode bs v rest \<longleftrightarrow> fits v \<and> plain v \<and> bs = put v @ rest"
    and decode_sticky: "sticky decode"
    and put_nonempty: "put v \<noteq> []"
begin

lemmas laws = encode_runs encode_sticky decode_runs decode_sticky put_nonempty

lemma encode_result: "e_result (encode v) = Inr b \<longleftrightarrow> fits v \<and> b = put v"
  by (simp add: e_result_runs encode_runs)

lemma decode_encode:
  "e_result (encode v) = Inr b \<Longrightarrow> plain v \<Longrightarrow> rest \<noteq> [] \<Longrightarrow> runs decode (b @ rest) v rest"
  by (simp add: encode_result decode_runs)

lemma encode_decode:
  "runs decode bs v rest \<Longrightarrow> rest \<noteq> [] \<Longrightarrow> \<exists>b. e_result (encode v) = Inr b \<and> bs = b @ rest"
  by (simp add: encode_result decode_runs)

lemma put_prefix_free:
  assumes "fits v" "fits w" "plain v" "plain w" "put v @ x = put w @ y" "x \<noteq> []" "y \<noteq> []"
  shows "v = w \<and> x = y"
proof -
  have "runs decode (put v @ x) v x" "runs decode (put v @ x) w y"
    using assms by (simp_all add: decode_runs)
  then show ?thesis
    by (simp add: runs_def)
qed

end

text \<open>A codec that also decodes its bytes at the end of the input.\<close>

locale closed_codec = codec +
  assumes decode_runs_end: "runs decode bs v [] \<longleftrightarrow> fits v \<and> plain v \<and> bs = put v"
begin

lemma decode_runs_any: "runs decode bs v rest \<longleftrightarrow> fits v \<and> plain v \<and> bs = put v @ rest"
  by (cases "rest = []") (simp_all add: decode_runs decode_runs_end)

lemma put_inj: "fits v \<Longrightarrow> fits w \<Longrightarrow> plain v \<Longrightarrow> plain w \<Longrightarrow> put v = put w \<Longrightarrow> v = w"
  by (metis decode_runs_end put_prefix_free runs_def prod.inject)

end

section \<open>Codecs of the fields\<close>

lemma e_write_runs [simp]: "runs (e_write bs) buf u buf' \<longleftrightarrow> buf' = buf @ bs"
  by (auto simp: e_write_def runs_def)

lemma e_write_sticky [simp]: "sticky (e_write bs)"
  by (simp add: e_write_def sticky_def)

lemma e_fail_runs [simp]: "\<not> runs (e_fail e) buf u buf'"
  by (simp add: e_fail_def runs_def)

lemma e_fail_sticky [simp]: "sticky (e_fail e)"
  by (simp add: e_fail_def sticky_def)

lemma d_fixed_runs [simp]:
  "runs (d_fixed n) bs v rest \<longleftrightarrow> (\<exists>h. v = Some h \<and> length h = n \<and> bs = h @ rest)"
  by (auto simp: d_fixed_def runs_def split: if_splits)

lemma d_fixed_sticky [simp]: "sticky (d_fixed n)"
  by (simp add: d_fixed_def sticky_def)

definition put_uint8 :: "uint8 \<Rightarrow> bytes" where
  "put_uint8 v = [char_of (unat v)]"

definition put_boolean :: "bool \<Rightarrow> bytes" where
  "put_boolean v = put_uint8 (if v then 1 else 0)"

definition put_bytes :: "bytes \<Rightarrow> bytes" where
  "put_bytes v = be32 (of_nat (length v)) @ v"

definition fits32 :: "bytes \<Rightarrow> bool" where
  "fits32 v \<longleftrightarrow> length v < 2 ^ 32"

abbreviation always :: "'a \<Rightarrow> bool" where
  "always \<equiv> \<lambda>_. True"

lemma unat_uint8_mod [simp]: "unat (v :: uint8) mod 256 = unat v"
  using unsigned_less [of v, where ?'a = nat] by simp

lemma d_uint8_runs: "runs d_uint8 bs v rest \<longleftrightarrow> bs = put_uint8 v @ rest"
  by (auto simp: d_uint8_def runs_def put_uint8_def unat_of_nat take_bit_eq_mod split: list.splits)

lemma d_uint8_sticky [simp]: "sticky d_uint8"
  by (simp add: d_uint8_def sticky_def)

interpretation u8: closed_codec put_uint8 always always e_uint8 d_uint8
  by unfold_locales (auto simp: e_uint8_def d_uint8_runs put_uint8_def)

lemma be_nonempty [simp]: "be16 v \<noteq> []" "be32 w \<noteq> []" "be64 x \<noteq> []"
  using be_widths be64_length by (metis list.size(3) zero_neq_numeral)+

lemma fixed_runs:
  "runs d_uint16 bs v rest \<longleftrightarrow> bs = be16 v @ rest"
  "runs d_uint32 bs w rest \<longleftrightarrow> bs = be32 w @ rest"
  "runs d_uint64 bs x rest \<longleftrightarrow> bs = be64 x @ rest"
proof -
  show "runs d_uint16 bs v rest \<longleftrightarrow> bs = be16 v @ rest"
    by (auto simp: d_uint16_def be_Uint(1))
  show "runs d_uint32 bs w rest \<longleftrightarrow> bs = be32 w @ rest"
    by (auto simp: d_uint32_def be_Uint(2))
  show "runs d_uint64 bs x rest \<longleftrightarrow> bs = be64 x @ rest"
    by (auto simp: d_uint64_def be_Uint(3))
qed

lemma fixed_sticky: "sticky d_uint16" "sticky d_uint32" "sticky d_uint64"
  by (simp_all add: d_uint16_def d_uint32_def d_uint64_def)

interpretation u16: closed_codec be16 always always e_uint16 d_uint16
  by unfold_locales (simp_all add: e_uint16_def fixed_runs fixed_sticky)

interpretation u32: closed_codec be32 always always e_uint32 d_uint32
  by unfold_locales (simp_all add: e_uint32_def fixed_runs fixed_sticky)

interpretation u64: closed_codec be64 always always e_uint64 d_uint64
  by unfold_locales (simp_all add: e_uint64_def fixed_runs fixed_sticky)

lemma d_fail_if_runs [simp]: "runs (d_fail_if bad e) bs u rest \<longleftrightarrow> \<not> bad \<and> rest = bs"
  by (auto simp: d_fail_if_def runs_def)

lemma d_fail_if_sticky [simp]: "sticky (d_fail_if bad e)"
  by (simp add: d_fail_if_def sticky_def)

lemma uint8_bit: "(1 < (v :: uint8)) = (v \<noteq> 0 \<and> v \<noteq> 1)"
  by unat_arith

lemma d_boolean_runs: "runs d_boolean bs v rest \<longleftrightarrow> bs = put_boolean v @ rest"
  by (auto simp: d_boolean_def u8.decode_runs_any uint8_bit put_boolean_def)

interpretation boolean: closed_codec put_boolean always always e_boolean d_boolean
proof unfold_locales
  show "sticky d_boolean"
    by (simp add: d_boolean_def)
qed (simp_all add: d_boolean_runs e_boolean_def u8.laws put_boolean_def)

lemma d_take_runs [simp]:
  "runs (d_take n) bs v rest \<longleftrightarrow> length v = n \<and> bs = v @ rest \<and> bs \<noteq> []"
  by (auto simp: d_take_def runs_def)

lemma d_take_sticky [simp]: "sticky (d_take n)"
  by (simp add: d_take_def sticky_def)

lemma fits32_word: "fits32 v \<Longrightarrow> unat (of_nat (length v) :: uint32) = length v"
  by (simp add: fits32_def unat_of_nat)

lemma fits32_unat: "length v = unat (n :: uint32) \<Longrightarrow> fits32 v \<and> of_nat (length v) = n"
  using unsigned_less [of n, where ?'a = nat] by (simp add: fits32_def)

lemma d_bytes_runs:
  "runs d_bytes bs v rest \<longleftrightarrow> fits32 v \<and> bs = put_bytes v @ rest \<and> v @ rest \<noteq> []"
  by (auto simp: d_bytes_def u32.decode_runs_any put_bytes_def fits32_word dest: fits32_unat)

lemma e_bytes_runs: "runs (e_bytes v) buf u buf' \<longleftrightarrow> fits32 v \<and> buf' = buf @ put_bytes v"
  by (auto simp: e_bytes_def fits32_def u32.laws put_bytes_def)

interpretation field: codec put_bytes fits32 always e_bytes d_bytes
proof unfold_locales
  show "sticky (e_bytes v)" for v
    by (simp add: e_bytes_def u32.laws)
  show "sticky d_bytes"
    by (simp add: d_bytes_def u32.laws)
qed (simp_all add: d_bytes_runs e_bytes_runs, simp_all add: put_bytes_def)

section \<open>Codecs of the parts of a record\<close>

lemmas field_laws = u8.laws u8.decode_runs_any u64.laws u64.decode_runs_any boolean.laws
  boolean.decode_runs_any field.laws

definition put_identity :: "Identity \<Rightarrow> bytes" where
  "put_identity i = put_bytes (li_ResearchSessionID i) @ put_bytes (li_LeaseID i) @
    put_bytes (li_AgentWorkspaceID i) @ be64 (li_AgentGeneration i) @ put_bytes (li_ExecID i) @
    put_bytes (li_TargetID i) @ be64 (li_TargetGeneration i) @ put_bytes (li_TargetRunID i) @
    put_bytes (li_TargetOperationID i)"

definition fits_identity :: "Identity \<Rightarrow> bool" where
  "fits_identity i \<longleftrightarrow> list_all fits32
    [li_ResearchSessionID i, li_LeaseID i, li_AgentWorkspaceID i, li_ExecID i, li_TargetID i,
     li_TargetRunID i, li_TargetOperationID i]"

lemma Identity_eq:
  "i = \<lparr>li_ResearchSessionID = a, li_LeaseID = b, li_AgentWorkspaceID = c, li_AgentGeneration = d, li_ExecID = e,
     li_TargetID = f, li_TargetGeneration = g, li_TargetRunID = h, li_TargetOperationID = j\<rparr> \<longleftrightarrow>
   a = li_ResearchSessionID i \<and> b = li_LeaseID i \<and> c = li_AgentWorkspaceID i \<and> d = li_AgentGeneration i \<and>
   e = li_ExecID i \<and> f = li_TargetID i \<and> g = li_TargetGeneration i \<and> h = li_TargetRunID i \<and>
   j = li_TargetOperationID i"
  by (cases i) auto

interpretation identity: codec put_identity fits_identity always encodeIdentity decodeIdentity
proof unfold_locales
  show "runs (encodeIdentity v) buf u buf' \<longleftrightarrow> fits_identity v \<and> buf' = buf @ put_identity v" for v buf u buf'
    by (auto simp: encodeIdentity_def field_laws put_identity_def fits_identity_def)
  show "rest \<noteq> [] \<Longrightarrow> runs decodeIdentity bs v rest \<longleftrightarrow> fits_identity v \<and> True \<and> bs = put_identity v @ rest" for bs v rest
    by (simp add: decodeIdentity_def field_laws Identity_eq put_identity_def fits_identity_def) blast
qed (simp_all add: encodeIdentity_def decodeIdentity_def put_identity_def field_laws)

definition put_causal :: "CausalContext \<Rightarrow> bytes" where
  "put_causal c = put_bytes (lk_CausationID c) @ put_bytes (lk_CorrelationID c) @
    put_bytes (lk_CorrelationMethod c) @ be64 (lk_Confidence c)"

definition fits_causal :: "CausalContext \<Rightarrow> bool" where
  "fits_causal c \<longleftrightarrow> list_all fits32 [lk_CausationID c, lk_CorrelationID c, lk_CorrelationMethod c]"

lemma CausalContext_eq:
  "x = \<lparr>lk_CausationID = a, lk_CorrelationID = b, lk_CorrelationMethod = c, lk_Confidence = d\<rparr> \<longleftrightarrow>
   a = lk_CausationID x \<and> b = lk_CorrelationID x \<and> c = lk_CorrelationMethod x \<and> d = lk_Confidence x"
  by (cases x) auto

interpretation causal: codec put_causal fits_causal always encodeCausalContext decodeCausalContext
proof unfold_locales
  show "runs (encodeCausalContext v) buf u buf' \<longleftrightarrow> fits_causal v \<and> buf' = buf @ put_causal v" for v buf u buf'
    by (auto simp: encodeCausalContext_def field_laws put_causal_def fits_causal_def)
  show "rest \<noteq> [] \<Longrightarrow> runs decodeCausalContext bs v rest \<longleftrightarrow> fits_causal v \<and> True \<and> bs = put_causal v @ rest" for bs v rest
    by (simp add: decodeCausalContext_def field_laws CausalContext_eq put_causal_def fits_causal_def) blast
qed (simp_all add: encodeCausalContext_def decodeCausalContext_def put_causal_def field_laws)

definition put_collector :: "CollectorContext \<Rightarrow> bytes" where
  "put_collector c = put_bytes (lc_ID c) @ put_uint8 (lc_Placement c) @ put_bytes (lc_Coverage c)"

definition fits_collector :: "CollectorContext \<Rightarrow> bool" where
  "fits_collector c \<longleftrightarrow> list_all fits32 [lc_ID c, lc_Coverage c]"

lemma CollectorContext_eq:
  "x = \<lparr>lc_ID = a, lc_Placement = b, lc_Coverage = c\<rparr> \<longleftrightarrow> a = lc_ID x \<and> b = lc_Placement x \<and> c = lc_Coverage x"
  by (cases x) auto

interpretation collector: codec put_collector fits_collector always encodeCollector decodeCollector
proof unfold_locales
  show "runs (encodeCollector v) buf u buf' \<longleftrightarrow> fits_collector v \<and> buf' = buf @ put_collector v" for v buf u buf'
    by (auto simp: encodeCollector_def field_laws put_collector_def fits_collector_def)
  show "rest \<noteq> [] \<Longrightarrow> runs decodeCollector bs v rest \<longleftrightarrow> fits_collector v \<and> True \<and> bs = put_collector v @ rest" for bs v rest
    by (simp add: decodeCollector_def field_laws CollectorContext_eq put_collector_def fits_collector_def) blast
qed (simp_all add: encodeCollector_def decodeCollector_def put_collector_def field_laws)

text \<open>Optional metadata: a presence byte, then the value.\<close>

definition put_gap :: "LedgerGap option \<Rightarrow> bytes" where
  "put_gap gap = (case gap of
      None \<Rightarrow> put_boolean False
    | Some g \<Rightarrow> put_boolean True @ put_uint8 (lg_Cause g) @ put_bytes (lg_Source g) @ put_bytes (lg_SourceInstance g) @
        be64 (lg_FromSequence g) @ be64 (lg_ThroughSequence g) @ be64 (lg_FromCursor g) @ be64 (lg_ThroughCursor g) @
        put_bytes (lg_Detail g))"

definition fits_gap :: "LedgerGap option \<Rightarrow> bool" where
  "fits_gap gap \<longleftrightarrow> (case gap of None \<Rightarrow> True | Some g \<Rightarrow> list_all fits32 [lg_Source g, lg_SourceInstance g, lg_Detail g])"

lemma LedgerGap_eq:
  "x = \<lparr>lg_Cause = a, lg_Source = b, lg_SourceInstance = c, lg_FromSequence = d, lg_ThroughSequence = e,
     lg_FromCursor = f, lg_ThroughCursor = g, lg_Detail = h\<rparr> \<longleftrightarrow>
   a = lg_Cause x \<and> b = lg_Source x \<and> c = lg_SourceInstance x \<and> d = lg_FromSequence x \<and> e = lg_ThroughSequence x \<and>
   f = lg_FromCursor x \<and> g = lg_ThroughCursor x \<and> h = lg_Detail x"
  by (cases x) auto

lemma decodeGap_runs:
  assumes "rest \<noteq> []"
  shows "runs decodeGap bs v rest \<longleftrightarrow> fits_gap v \<and> bs = put_gap v @ rest"
proof (cases v)
  case None
  then show ?thesis
    by (auto simp: decodeGap_def field_laws put_gap_def fits_gap_def)
next
  case (Some g)
  then show ?thesis
    using assms by (simp add: decodeGap_def field_laws LedgerGap_eq put_gap_def fits_gap_def) blast
qed

interpretation gap: codec put_gap fits_gap always encodeGap decodeGap
proof unfold_locales
  show "runs (encodeGap v) buf u buf' \<longleftrightarrow> fits_gap v \<and> buf' = buf @ put_gap v" for v buf u buf'
    by (cases v) (auto simp: encodeGap_def field_laws put_gap_def fits_gap_def)
qed (simp_all add: encodeGap_def decodeGap_runs, simp_all add: decodeGap_def put_gap_def field_laws split: option.split)

definition put_duplicate :: "Duplicate option \<Rightarrow> bytes" where
  "put_duplicate duplicate = (case duplicate of
      None \<Rightarrow> put_boolean False
    | Some d \<Rightarrow> put_boolean True @ put_bytes (ld_Source d) @ put_bytes (ld_SourceInstance d) @
        be64 (ld_SourceSequence d) @ be64 (ld_OriginalCursor d) @ put_boolean (ld_ConflictingPayload d))"

definition fits_duplicate :: "Duplicate option \<Rightarrow> bool" where
  "fits_duplicate duplicate \<longleftrightarrow>
    (case duplicate of None \<Rightarrow> True | Some d \<Rightarrow> list_all fits32 [ld_Source d, ld_SourceInstance d])"

lemma Duplicate_eq:
  "x = \<lparr>ld_Source = a, ld_SourceInstance = b, ld_SourceSequence = c, ld_OriginalCursor = d, ld_ConflictingPayload = e\<rparr> \<longleftrightarrow>
   a = ld_Source x \<and> b = ld_SourceInstance x \<and> c = ld_SourceSequence x \<and> d = ld_OriginalCursor x \<and>
   e = ld_ConflictingPayload x"
  by (cases x) auto

lemma decodeDuplicate_runs: "runs decodeDuplicate bs v rest \<longleftrightarrow> fits_duplicate v \<and> bs = put_duplicate v @ rest"
proof (cases v)
  case None
  then show ?thesis
    by (auto simp: decodeDuplicate_def field_laws put_duplicate_def fits_duplicate_def)
next
  case (Some d)
  then show ?thesis
    by (simp add: decodeDuplicate_def field_laws Duplicate_eq put_duplicate_def fits_duplicate_def) blast
qed

interpretation duplicate: closed_codec put_duplicate fits_duplicate always encodeDuplicate decodeDuplicate
proof unfold_locales
  show "runs (encodeDuplicate v) buf u buf' \<longleftrightarrow> fits_duplicate v \<and> buf' = buf @ put_duplicate v" for v buf u buf'
    by (cases v) (auto simp: encodeDuplicate_def field_laws put_duplicate_def fits_duplicate_def)
qed (simp_all add: encodeDuplicate_def decodeDuplicate_runs, simp_all add: decodeDuplicate_def put_duplicate_def field_laws split: option.split)

section \<open>The codec of a record\<close>

lemmas part_laws = field_laws identity.laws causal.laws collector.laws gap.laws duplicate.laws duplicate.decode_runs_any

definition put_record :: "Record \<Rightarrow> bytes" where
  "put_record r = put_uint8 (lr_Kind r) @ be64 (lr_Cursor r) @ put_bytes (lr_EventID r) @ put_identity (lr_Identity r) @
    put_bytes (lr_SignalFamily r) @ put_bytes (lr_SubjectID r) @ put_bytes (lr_Source r) @ put_bytes (lr_SourceInstance r) @
    put_boolean (lr_HasSourceSequence r) @ be64 (lr_SourceSequence r) @ be64 (lr_ObservedWallUnixNano r) @
    be64 (lr_ObservedMonotonicNanos r) @ put_bytes (lr_ClockDomain r) @ be64 (lr_ClockSyncEpoch r) @
    put_collector (lr_Collector r) @ be64 (lp_ID (lr_Process r)) @ be64 (lp_StartTimeUnixNano (lr_Process r)) @
    put_bytes (lr_PolicyDigest r) @ put_bytes (lr_CapabilityDigest r) @ put_uint8 (lr_Origin r) @
    put_bytes (lr_OriginEvidence r) @ put_causal (lr_Causal r) @ put_bytes (lr_Payload r) @ put_gap (lr_Gap r) @
    put_duplicate (lr_Duplicate r)"

definition fits_record :: "Record \<Rightarrow> bool" where
  "fits_record r \<longleftrightarrow> list_all fits32
     [lr_EventID r, lr_SignalFamily r, lr_SubjectID r, lr_Source r, lr_SourceInstance r, lr_ClockDomain r,
      lr_PolicyDigest r, lr_CapabilityDigest r, lr_OriginEvidence r, lr_Payload r] \<and>
    fits_identity (lr_Identity r) \<and> fits_collector (lr_Collector r) \<and> fits_causal (lr_Causal r) \<and>
    fits_gap (lr_Gap r) \<and> fits_duplicate (lr_Duplicate r)"

definition unchained :: "Record \<Rightarrow> bool" where
  "unchained r \<longleftrightarrow> lr_ChainHash r = zero_hash32"

lemma ProcessIdentity_eq:
  "x = \<lparr>lp_ID = a, lp_StartTimeUnixNano = b\<rparr> \<longleftrightarrow> a = lp_ID x \<and> b = lp_StartTimeUnixNano x"
  by (cases x) auto

lemma Record_eq:
  "r = \<lparr>lr_Kind = kind, lr_Cursor = cursor, lr_EventID = event, lr_Identity = identity,
       lr_SignalFamily = family, lr_SubjectID = subject, lr_Source = source, lr_SourceInstance = inst,
       lr_HasSourceSequence = hasSequence, lr_SourceSequence = sequence, lr_ObservedWallUnixNano = wall,
       lr_ObservedMonotonicNanos = monotonic, lr_ClockDomain = clock, lr_ClockSyncEpoch = epoch,
       lr_Collector = collector, lr_Process = process,
       lr_PolicyDigest = policy, lr_CapabilityDigest = capability, lr_Origin = origin, lr_OriginEvidence = evidence,
       lr_Causal = causal, lr_Payload = payload, lr_Gap = gap, lr_Duplicate = duplicate,
       lr_ChainHash = hash\<rparr> \<longleftrightarrow>
   kind = lr_Kind r \<and> cursor = lr_Cursor r \<and> event = lr_EventID r \<and> identity = lr_Identity r \<and>
   family = lr_SignalFamily r \<and> subject = lr_SubjectID r \<and> source = lr_Source r \<and> inst = lr_SourceInstance r \<and>
   hasSequence = lr_HasSourceSequence r \<and> sequence = lr_SourceSequence r \<and> wall = lr_ObservedWallUnixNano r \<and>
   monotonic = lr_ObservedMonotonicNanos r \<and> clock = lr_ClockDomain r \<and> epoch = lr_ClockSyncEpoch r \<and>
   collector = lr_Collector r \<and> lr_Process r = process \<and> policy = lr_PolicyDigest r \<and>
   capability = lr_CapabilityDigest r \<and> origin = lr_Origin r \<and> evidence = lr_OriginEvidence r \<and>
   causal = lr_Causal r \<and> payload = lr_Payload r \<and> gap = lr_Gap r \<and> duplicate = lr_Duplicate r \<and>
   lr_ChainHash r = hash"
  by (cases r) auto

lemma decodeRecord_runs:
  "runs decodeRecord bs r rest \<longleftrightarrow> fits_record r \<and> unchained r \<and> bs = put_record r @ rest"
  by (simp add: decodeRecord_def part_laws Record_eq ProcessIdentity_eq put_record_def fits_record_def unchained_def) blast

interpretation rec: closed_codec put_record fits_record unchained encodeRecord decodeRecord
proof unfold_locales
  show "runs (encodeRecord v) buf u buf' \<longleftrightarrow> fits_record v \<and> buf' = buf @ put_record v" for v buf u buf'
    by (simp add: encodeRecord_def part_laws put_record_def fits_record_def) blast
qed (simp_all add: decodeRecord_runs, simp_all add: encodeRecord_def decodeRecord_def put_record_def part_laws)

lemma marshalRecord_Inr: "marshalRecord r = Inr bs \<longleftrightarrow> fits_record r \<and> bs = put_record r"
  by (simp add: marshalRecord_def rec.encode_result)

lemma unmarshalRecord_Inr:
  "unmarshalRecord bs = Inr r \<longleftrightarrow>
    fits_record r \<and> unchained r \<and> bs = put_record r \<and> lr_Cursor r \<noteq> 0 \<and> validateRecordShape r = None"
proof -
  have "unmarshalRecord bs = Inr r \<longleftrightarrow> runs decodeRecord bs r [] \<and> lr_Cursor r \<noteq> 0 \<and> validateRecordShape r = None"
    by (auto simp: unmarshalRecord_def runs_def d_done_def split: prod.splits option.splits)
  then show ?thesis
    by (auto simp: rec.decode_runs_any)
qed

section \<open>The codec of a chained record\<close>

lemma d_hash_runs: "rest \<noteq> [] \<Longrightarrow> runs d_hash bs v rest \<longleftrightarrow> length v = 32 \<and> bs = v @ rest"
  by (auto simp: d_hash_def runs_def zero_hash32_def)

lemma d_hash_sticky [simp]: "sticky d_hash"
  by (simp add: d_hash_def sticky_def)

text \<open>The stored form of a record after a record with hash \<open>previousHash\<close>.\<close>

definition put_wire :: "(bytes \<Rightarrow> bytes) \<Rightarrow> bytes \<Rightarrow> Record \<Rightarrow> bytes" where
  "put_wire sha previousHash r =
    be16 recordEncodingVersion @ previousHash @ sha (previousHash @ put_record r) @ put_bytes (put_record r)"

definition fits_wire :: "Record \<Rightarrow> bool" where
  "fits_wire r \<longleftrightarrow> fits_record r \<and> fits32 (put_record r)"

definition storable :: "Record \<Rightarrow> bool" where
  "storable r \<longleftrightarrow> fits_wire r \<and> lr_Cursor r \<noteq> 0 \<and> validateRecordShape r = None"

lemma chain_hash_irrelevant [simp]:
  "put_record (r\<lparr>lr_ChainHash := h\<rparr>) = put_record r" "fits_record (r\<lparr>lr_ChainHash := h\<rparr>) = fits_record r"
  "validateRecordShape (r\<lparr>lr_ChainHash := h\<rparr>) = validateRecordShape r"
  by (simp_all add: put_record_def fits_record_def validateRecordShape_def)

lemma chain_hash_irrelevant_wire [simp]:
  "put_wire sha p (r\<lparr>lr_ChainHash := h\<rparr>) = put_wire sha p r" "storable (r\<lparr>lr_ChainHash := h\<rparr>) = storable r"
  "fits_wire (r\<lparr>lr_ChainHash := h\<rparr>) = fits_wire r"
  by (simp_all add: put_wire_def storable_def fits_wire_def)

lemma put_record_nonempty [simp]: "put_record r \<noteq> []"
  by (rule rec.put_nonempty)

lemma put_bytes_nonempty [simp]: "put_bytes v \<noteq> []"
  by (rule field.put_nonempty)

lemma decodeWire_runs:
  "runs decodeWire bs (version, p, h, b) [] \<longleftrightarrow>
    length p = 32 \<and> length h = 32 \<and> fits32 b \<and> b \<noteq> [] \<and> bs = be16 version @ p @ h @ put_bytes b"
  by (simp add: decodeWire_def u16.laws u16.decode_runs_any d_hash_runs d_bytes_runs field.laws) blast

lemma marshalWireRecord_Inr:
  "marshalWireRecord sha r p = Inr (wire, h) \<longleftrightarrow>
    fits_wire r \<and> h = sha (p @ put_record r) \<and> wire = put_wire sha p r"
  by (auto simp: marshalWireRecord_def bind_r_Inr marshalRecord_Inr e_result_runs encodeWire_def u16.laws e_hash_def
      field.laws put_wire_def fits_wire_def Let_def)

lemma unmarshalWireRecord_Inr:
  "unmarshalWireRecord sha bs = Inr (r, p) \<longleftrightarrow>
    storable r \<and> length p = 32 \<and> length (lr_ChainHash r) = 32 \<and> lr_ChainHash r = sha (p @ put_record r) \<and>
    bs = put_wire sha p r"
proof -
  obtain version prev stored b d where run: "run_state decodeWire (bs, None) = ((version, prev, stored, b), d)"
    by (metis surj_pair)
  have "unmarshalWireRecord sha bs = Inr (r, p) \<longleftrightarrow>
      d = ([], None) \<and> version = recordEncodingVersion \<and> sha (prev @ b) = stored \<and> p = prev \<and>
      (\<exists>r0. unmarshalRecord b = Inr r0 \<and> r = r0\<lparr>lr_ChainHash := stored\<rparr>)"
    using run by (auto simp: unmarshalWireRecord_def bind_r_Inr d_done_def split: prod.splits option.splits)
  also have "\<dots> \<longleftrightarrow> (\<exists>stored b. runs decodeWire bs (recordEncodingVersion, p, stored, b) [] \<and> sha (p @ b) = stored \<and>
      (\<exists>r0. unmarshalRecord b = Inr r0 \<and> r = r0\<lparr>lr_ChainHash := stored\<rparr>))"
    using run by (auto simp: runs_def)
  also have "\<dots> \<longleftrightarrow> storable r \<and> length p = 32 \<and> length (lr_ChainHash r) = 32 \<and>
      lr_ChainHash r = sha (p @ put_record r) \<and> bs = put_wire sha p r"
  proof
    assume R: "storable r \<and> length p = 32 \<and> length (lr_ChainHash r) = 32 \<and>
      lr_ChainHash r = sha (p @ put_record r) \<and> bs = put_wire sha p r"
    then have "(r\<lparr>lr_ChainHash := zero_hash32\<rparr>)\<lparr>lr_ChainHash := sha (p @ put_record r)\<rparr> = r"
      by (cases r) simp
    moreover have "unmarshalRecord (put_record r) = Inr (r\<lparr>lr_ChainHash := zero_hash32\<rparr>)"
      using R by (simp add: unmarshalRecord_Inr storable_def fits_wire_def unchained_def)
    moreover have "runs decodeWire bs (recordEncodingVersion, p, sha (p @ put_record r), put_record r) []"
      using R by (metis decodeWire_runs put_record_nonempty put_wire_def storable_def fits_wire_def)
    ultimately show "\<exists>stored b. runs decodeWire bs (recordEncodingVersion, p, stored, b) [] \<and> sha (p @ b) = stored \<and>
      (\<exists>r0. unmarshalRecord b = Inr r0 \<and> r = r0\<lparr>lr_ChainHash := stored\<rparr>)"
      by (intro exI conjI) (assumption, rule refl, assumption, erule sym)
  qed (auto simp: decodeWire_runs unmarshalRecord_Inr put_wire_def storable_def fits_wire_def)
  finally show ?thesis .
qed

text \<open>
  C23.
  The codec of the ledger's chained records is exact.  Given that SHA-256 digests have 32 bytes, the
  decoder accepts an input and returns a record and the hash before it precisely when the record is
  well formed, carries a position, and encoding it after that hash gives this very input and the chain
  hash the record carries.  Every record the ledger writes is read back unchanged, and no other byte
  string is ever accepted as a record.\<close>

theorem wire_codec_exact:
  assumes "\<And>x. length (sha x) = 32"
  shows "unmarshalWireRecord sha bs = Inr (r, previousHash) \<longleftrightarrow>
    marshalWireRecord sha r previousHash = Inr (bs, lr_ChainHash r) \<and> length previousHash = 32 \<and>
    lr_Cursor r \<noteq> 0 \<and> validateRecordShape r = None"
  using assms by (auto simp: unmarshalWireRecord_Inr marshalWireRecord_Inr storable_def)

lemma cursor_irrelevant [simp]: "validateRecordShape (r\<lparr>lr_Cursor := c\<rparr>) = validateRecordShape r"
  by (simp add: validateRecordShape_def)

lemma demo_record_shape [simp]: "validateRecordShape (demo_record n) = None"
  by (simp add: validateRecordShape_def demo_record_def)

lemma demo_record_fits: "fits_wire ((demo_record n)\<lparr>lr_Cursor := c\<rparr>)"
  by (simp add: fits_wire_def fits_record_def fits_identity_def fits_collector_def fits_causal_def fits_gap_def
      fits_duplicate_def fits32_def demo_record_def put_record_def put_identity_def put_collector_def put_causal_def
      put_gap_def put_duplicate_def put_bytes_def put_uint8_def put_boolean_def)

theorem wire_codec_exact_witness:
  "\<exists>bs r. lr_Cursor r = 1 \<and> unmarshalWireRecord demo_sha bs = Inr (r, zero_hash32)"
proof -
  define r0 where "r0 = (demo_record 1)\<lparr>lr_Cursor := 1\<rparr>"
  define r where "r = r0\<lparr>lr_ChainHash := demo_sha (zero_hash32 @ put_record r0)\<rparr>"
  have "validateRecordShape r0 = None"
    by (simp add: r0_def demo_record_shape)
  then have "unmarshalWireRecord demo_sha (put_wire demo_sha zero_hash32 r) = Inr (r, zero_hash32)"
    unfolding wire_codec_exact [of demo_sha, OF demo_sha_length]
    by (simp add: r_def marshalWireRecord_Inr, simp add: r0_def demo_record_fits zero_hash32_def)
  moreover have "lr_Cursor r = 1"
    by (simp add: r_def r0_def)
  ultimately show ?thesis
    by blast
qed

end
