(* ===== verification/Ledger_Segments.thy ===== *)
theory Ledger_Segments
  imports Ledger_Codec "HOL-Library.List_Lexorder" "HOL-Library.Char_ord" "HOL-Library.Sublist"
begin

text \<open>
  Segment files of the observation ledger (\<open>internal/ledger/segment.go\<close>): their names, and the scan that
  validates a file frame by frame against the chain.  A scan returns the records of every file that
  encodes a chain, up to a torn last frame, and whatever a scan returns is such a chain.
\<close>

section \<open>Metadata\<close>

record SegmentMetadata =
  sm_Path :: string
  sm_FirstCursor :: Cursor
  sm_LastCursor :: Cursor
  sm_FrameCount :: uint64
  sm_ByteSize :: nat
  sm_PreviousHash :: bytes
  sm_FirstHash :: bytes
  sm_LastHash :: bytes
  sm_Finalized :: bool

record scannedSegment =
  sc_metadata :: SegmentMetadata
  sc_records :: "Record list"
  sc_lastGoodOffset :: nat
  sc_incompleteTail :: bool
  sc_fileSize :: nat

abbreviation segmentFrameVersion :: uint16 where "segmentFrameVersion \<equiv> 1"

definition digit :: "nat \<Rightarrow> char" where
  "digit n = char_of (48 + n mod 10)"

primrec decimal :: "nat \<Rightarrow> nat \<Rightarrow> string" where
  "decimal 0 n = []"
| "decimal (Suc w) n = decimal w (n div 10) @ [digit n]"

text \<open>\<open>%020d\<close> of a 64-bit number: 20 decimal digits always suffice.\<close>

definition segmentName :: "Cursor \<Rightarrow> bool \<Rightarrow> string" where
  "segmentName first finalized = ''segment-'' @ decimal 20 (unat first) @ (if finalized then ''.seg'' else ''.open'')"

definition HasSuffix :: "string \<Rightarrow> string \<Rightarrow> bool" where
  "HasSuffix s e \<longleftrightarrow> length e \<le> length s \<and> drop (length s - length e) s = e"

definition TrimSuffix :: "string \<Rightarrow> string \<Rightarrow> string" where
  "TrimSuffix s e = (if HasSuffix s e then take (length s - length e) s else s)"

definition corruption :: "string \<Rightarrow> nat \<Rightarrow> ledger_error \<Rightarrow> ledger_error" where
  "corruption path offset e = CorruptionError path offset e"

section \<open>Scanning\<close>

definition note_record :: "Record \<Rightarrow> SegmentMetadata \<Rightarrow> SegmentMetadata" where
  "note_record r m =
    (let m' = (if sm_FrameCount m = 0 then m\<lparr>sm_FirstCursor := lr_Cursor r, sm_FirstHash := lr_ChainHash r\<rparr> else m) in
     m'\<lparr>sm_LastCursor := lr_Cursor r, sm_LastHash := lr_ChainHash r, sm_FrameCount := sm_FrameCount m + 1\<rparr>)"

definition scan_record :: "Record \<Rightarrow> nat \<Rightarrow> scannedSegment \<Rightarrow> scannedSegment" where
  "scan_record r offset result = result\<lparr>sc_metadata := note_record r (sc_metadata result),
     sc_records := sc_records result @ [r], sc_lastGoodOffset := offset\<rparr>"

lemma Marshal_nonempty: "Marshal f m = Inr bs \<Longrightarrow> bs \<noteq> []"
  by (auto simp: Marshal_Inr)

lemma Decoder_Read_shrinks:
  assumes "(Inr f, n, r') = Decoder_Read m r"
  shows "length (rd_data r') < length (rd_data r)"
proof -
  obtain bs where "Marshal f m = Inr bs" "rd_data r = bs @ rd_data r'"
    using Decoder_Read_Inr [OF assms [symmetric]] by blast
  then show ?thesis
    using Marshal_nonempty by (cases bs) auto
qed

function scan_loop ::
  "(bytes \<Rightarrow> bytes) \<Rightarrow> uint32 \<Rightarrow> string \<Rightarrow> reader \<Rightarrow> scannedSegment \<Rightarrow> bytes \<Rightarrow> nat \<Rightarrow> Cursor \<Rightarrow> ledger_error + scannedSegment" where
  "scan_loop sha maxFramePayload path rd result currentHash offset expectedCursor =
    (case Decoder_Read maxFramePayload rd of (out, consumed, rd') \<Rightarrow>
      (case out of
         Inl FrameEOF \<Rightarrow> Inr (result\<lparr>sc_lastGoodOffset := offset\<rparr>)
       | Inl (ErrIncompleteFrame what e) \<Rightarrow> Inr (result\<lparr>sc_lastGoodOffset := offset, sc_incompleteTail := True\<rparr>)
       | Inl e \<Rightarrow> Inl (corruption path offset (ErrFrame e))
       | Inr frame \<Rightarrow>
          (if fr_Version frame \<noteq> segmentFrameVersion
           then Inl (corruption path offset (ErrUnsupportedVersion (unat (fr_Version frame))))
           else (case unmarshalWireRecord sha (fr_Payload frame) of
              Inl e \<Rightarrow> Inl (corruption path offset e)
            | Inr (r, previousHash) \<Rightarrow>
               (if previousHash \<noteq> currentHash then Inl (corruption path offset ErrHashChain)
                else if lr_Cursor r \<noteq> expectedCursor
                then Inl (corruption path offset (ErrCursorOrder (lr_Cursor r) expectedCursor))
                else scan_loop sha maxFramePayload path rd' (scan_record r (offset + consumed) result) (lr_ChainHash r)
                       (offset + consumed) (expectedCursor + 1))))))"
  by pat_completeness auto

termination
  by (relation "measure (\<lambda>(sha, m, path, rd, result, hash, offset, cursor). length (rd_data rd))")
    (auto dest: Decoder_Read_shrinks)

declare scan_loop.simps [simp del]

definition empty_metadata :: "string \<Rightarrow> bytes \<Rightarrow> bool \<Rightarrow> SegmentMetadata" where
  "empty_metadata path previousHash finalized =
    \<lparr>sm_Path = path, sm_FirstCursor = 0, sm_LastCursor = 0, sm_FrameCount = 0, sm_ByteSize = 0,
     sm_PreviousHash = previousHash, sm_FirstHash = zero_hash32, sm_LastHash = zero_hash32, sm_Finalized = finalized\<rparr>"

definition set_byte_size :: "scannedSegment \<Rightarrow> scannedSegment" where
  "set_byte_size s = s\<lparr>sc_metadata := (sc_metadata s)\<lparr>sm_ByteSize := sc_lastGoodOffset s\<rparr>\<rparr>"

text \<open>
  \<open>scanSegment\<close> on an opened file: the bytes it delivers, the failure that may cut them short, and the
  size that \<open>Stat\<close> reports.
\<close>

definition scanSegment ::
  "(bytes \<Rightarrow> bytes) \<Rightarrow> string \<Rightarrow> ledger_error + (reader \<times> nat) \<Rightarrow> uint32 \<Rightarrow> Cursor \<Rightarrow> bytes \<Rightarrow> ledger_error + scannedSegment" where
  "scanSegment sha path file maxFramePayload expectedCursor expectedHash =
     bind_r file (\<lambda>(rd, size).
       bind_r (scan_loop sha maxFramePayload path rd
           \<lparr>sc_metadata = empty_metadata path expectedHash (HasSuffix path ''.seg''), sc_records = [],
            sc_lastGoodOffset = 0, sc_incompleteTail = False, sc_fileSize = size\<rparr> expectedHash 0 expectedCursor)
         (\<lambda>s. Inr (set_byte_size s)))"

section \<open>Chains of records\<close>

text \<open>The frame of a record that follows a record with hash \<open>h\<close>, and the bytes of a chain.\<close>

definition wire_frame :: "(bytes \<Rightarrow> bytes) \<Rightarrow> bytes \<Rightarrow> Record \<Rightarrow> Frame" where
  "wire_frame sha h r = \<lparr>fr_Version = segmentFrameVersion, fr_Flags = 0, fr_Payload = put_wire sha h r\<rparr>"

definition frame_bytes :: "Frame \<Rightarrow> bytes" where
  "frame_bytes f = frame_header f @ fr_Payload f @ be32 (crc32c (frame_header f @ fr_Payload f))"

primrec chain_bytes :: "(bytes \<Rightarrow> bytes) \<Rightarrow> bytes \<Rightarrow> Record list \<Rightarrow> bytes" where
  "chain_bytes sha h [] = []"
| "chain_bytes sha h (r # rs) = frame_bytes (wire_frame sha h r) @ chain_bytes sha (lr_ChainHash r) rs"

primrec chained :: "(bytes \<Rightarrow> bytes) \<Rightarrow> uint32 \<Rightarrow> bytes \<Rightarrow> Cursor \<Rightarrow> Record list \<Rightarrow> bool" where
  "chained sha m h c [] \<longleftrightarrow> True"
| "chained sha m h c (r # rs) \<longleftrightarrow>
     storable r \<and> lr_Cursor r = c \<and> lr_ChainHash r = sha (h @ put_record r) \<and> length (put_wire sha h r) \<le> unat m \<and>
     chained sha m (lr_ChainHash r) (c + 1) rs"

primrec last_hash :: "bytes \<Rightarrow> Record list \<Rightarrow> bytes" where
  "last_hash h [] = h"
| "last_hash h (r # rs) = last_hash (lr_ChainHash r) rs"

lemma last_hash_append [simp]: "last_hash h (rs @ ss) = last_hash (last_hash h rs) ss"
  by (induction rs arbitrary: h) simp_all

lemma chain_bytes_append [simp]:
  "chain_bytes sha h (rs @ ss) = chain_bytes sha h rs @ chain_bytes sha (last_hash h rs) ss"
  by (induction rs arbitrary: h) simp_all

lemma chained_append [simp]:
  "chained sha m h c (rs @ ss) \<longleftrightarrow> chained sha m h c rs \<and> chained sha m (last_hash h rs) (c + of_nat (length rs)) ss"
  by (induction rs arbitrary: h c) (auto simp: add.assoc)

lemma frame_bytes_Marshal: "Marshal f m = Inr (frame_bytes f) \<longleftrightarrow> fr_Version f \<noteq> 0 \<and> length (fr_Payload f) \<le> unat m"
  by (simp add: Marshal_Inr frame_bytes_def)

lemma frame_bytes_nonempty [simp]: "frame_bytes f \<noteq> []"
  by (simp add: frame_bytes_def)

text \<open>What is left of a file after its last complete frame: nothing, or a torn frame.\<close>

definition torn_tail :: "uint32 \<Rightarrow> reader \<Rightarrow> bool \<Rightarrow> bool" where
  "torn_tail m rd torn \<longleftrightarrow>
    (case fst (Decoder_Read m rd) of
       Inl FrameEOF \<Rightarrow> \<not> torn | Inl (ErrIncompleteFrame what e) \<Rightarrow> torn | _ \<Rightarrow> False)"

definition scan_records :: "Record list \<Rightarrow> nat \<Rightarrow> bool \<Rightarrow> scannedSegment \<Rightarrow> scannedSegment" where
  "scan_records rs offset torn result = result\<lparr>sc_metadata := fold note_record rs (sc_metadata result),
     sc_records := sc_records result @ rs, sc_lastGoodOffset := offset,
     sc_incompleteTail := sc_incompleteTail result \<or> torn\<rparr>"

lemma scan_loop_frame:
  assumes "m \<noteq> 0" "length h = 32" "\<And>x. length (sha x) = 32" "chained sha m h c [r]"
  shows "scan_loop sha m path \<lparr>rd_data = frame_bytes (wire_frame sha h r) @ rest, rd_failure = e\<rparr> result h offset c =
    scan_loop sha m path \<lparr>rd_data = rest, rd_failure = e\<rparr> (scan_record r (offset + length (frame_bytes (wire_frame sha h r))) result)
      (lr_ChainHash r) (offset + length (frame_bytes (wire_frame sha h r))) (c + 1)"
proof -
  have "Marshal (wire_frame sha h r) m = Inr (frame_bytes (wire_frame sha h r))"
    using assms(4) by (simp add: frame_bytes_Marshal) (simp add: wire_frame_def)
  note read = Decoder_Read_Marshal [OF this assms(1)]
  have "unmarshalWireRecord sha (put_wire sha h r) = Inr (r, h)"
    using assms by (simp add: unmarshalWireRecord_Inr)
  then show ?thesis
    using assms(4) by (simp add: scan_loop.simps [of sha m path _ result] read) (simp add: wire_frame_def)
qed

lemma scan_loop_complete:
  assumes "m \<noteq> 0" "\<And>x. length (sha x) = 32"
  shows "chained sha m h c rs \<Longrightarrow> length h = 32 \<Longrightarrow> torn_tail m \<lparr>rd_data = tail, rd_failure = e\<rparr> torn \<Longrightarrow>
    scan_loop sha m path \<lparr>rd_data = chain_bytes sha h rs @ tail, rd_failure = e\<rparr> result h offset c =
      Inr (scan_records rs (offset + length (chain_bytes sha h rs)) torn result)"
proof (induction rs arbitrary: h c result offset)
  case Nil
  then show ?case
    by (auto simp: scan_loop.simps [of sha m path _ result] torn_tail_def scan_records_def
        split: prod.splits sum.splits frame_error.splits)
next
  case (Cons r rs)
  let ?o = "offset + length (frame_bytes (wire_frame sha h r))"
  have r: "chained sha m h c [r]" "length (lr_ChainHash r) = 32" "chained sha m (lr_ChainHash r) (c + 1) rs"
    using Cons.prems assms(2) [of "h @ put_record r"] by auto
  note frame = scan_loop_frame [OF assms(1) Cons.prems(2) assms(2) r(1)]
  show ?case
    by (simp add: frame Cons.IH [OF r(3) r(2) Cons.prems(3)] del: chained.simps)
      (simp add: scan_records_def scan_record_def)
qed

text \<open>
  What a successful scan found is a chain, whatever the bytes and wherever reading them broke off; and the
  bytes up to its last good offset alone are scanned to the same chain.\<close>

lemma scan_loop_sound:
  assumes "scan_loop sha m path rd result h offset c = Inr s" "m \<noteq> 0"
  shows "\<exists>rs k torn. chained sha m h c rs \<and> k \<le> length (rd_data rd) \<and> s = scan_records rs (offset + k) torn result \<and>
    (\<forall>result'. scan_loop sha m path (reader_of (take k (rd_data rd))) result' h offset c =
       Inr (scan_records rs (offset + k) False result'))"
  using assms
proof (induction sha m path rd result h offset c rule: scan_loop.induct)
  case (1 sha m path rd result h offset c)
  obtain out n rd' where read: "Decoder_Read m rd = (out, n, rd')"
    by (cases "Decoder_Read m rd")
  show ?case
  proof (cases out)
    case (Inl e)
    with "1.prems" read have "s = scan_records [] offset (e \<noteq> FrameEOF) result"
      by (auto simp: scan_loop.simps [of sha m path rd] scan_records_def split: frame_error.splits)
    moreover have "scan_loop sha m path (reader_of []) result' h offset c = Inr (scan_records [] offset False result')" for result'
      using "1.prems"(2) by (simp add: scan_loop.simps [of sha m path "reader_of []"] Decoder_Read_def ReadFull_def HeaderSize_def scan_records_def)
    ultimately show ?thesis
      by (intro exI [of _ "[]"] exI [of _ 0] exI) auto
  next
    case (Inr f)
    with "1.prems" read obtain r where
      wire: "fr_Version f = segmentFrameVersion" "unmarshalWireRecord sha (fr_Payload f) = Inr (r, h)" "lr_Cursor r = c" and
      rest: "scan_loop sha m path rd' (scan_record r (offset + n) result) (lr_ChainHash r) (offset + n) (c + 1) = Inr s"
      by (auto simp: scan_loop.simps [of sha m path rd] split: sum.splits if_splits)
    obtain rs k torn where ih: "chained sha m (lr_ChainHash r) (c + 1) rs" "k \<le> length (rd_data rd')"
        "s = scan_records rs (offset + n + k) torn (scan_record r (offset + n) result)"
        "\<And>result'. scan_loop sha m path (reader_of (take k (rd_data rd'))) result' (lr_ChainHash r) (offset + n) (c + 1) =
          Inr (scan_records rs (offset + n + k) False result')"
      using "1.IH" [OF read [symmetric] refl Inr _ wire(2) refl] wire rest "1.prems"(2) by auto
    obtain bs where bs: "Marshal f m = Inr bs" "n = length bs" "rd_data rd = bs @ rd_data rd'"
      using Decoder_Read_Inr read Inr by blast
    have "chained sha m h c (r # rs)"
      using wire ih(1) bs(1) by (auto simp: unmarshalWireRecord_Inr Marshal_Inr)
    moreover have "scan_loop sha m path (reader_of (take (n + k) (rd_data rd))) result' h offset c =
        Inr (scan_records (r # rs) (offset + (n + k)) False result')" for result'
      using Decoder_Read_Marshal [OF bs(1) "1.prems"(2), of "take k (rd_data rd')" None] bs(2,3) wire
        ih(4) [of "scan_record r (offset + n) result'"]
      by (simp add: scan_loop.simps [of sha m path "reader_of (bs @ _)"] scan_records_def scan_record_def add.assoc)
    moreover have "s = scan_records (r # rs) (offset + (n + k)) torn result"
      by (simp add: ih(3) scan_records_def scan_record_def add.assoc)
    ultimately show ?thesis
      using ih(2) bs(2,3) by (intro exI [of _ "r # rs"] exI [of _ "n + k"] exI [of _ torn]) (simp del: chained.simps)
  qed
qed

text \<open>
  What a scan returns for a file that holds a chain, and the metadata of such a segment.\<close>

definition seg_meta :: "(bytes \<Rightarrow> bytes) \<Rightarrow> bytes \<Rightarrow> string \<Rightarrow> bool \<Rightarrow> Record list \<Rightarrow> SegmentMetadata" where
  "seg_meta sha h path finalized rs =
    (fold note_record rs (empty_metadata path h finalized))\<lparr>sm_ByteSize := length (chain_bytes sha h rs)\<rparr>"

lemma scanSegment_chain:
  assumes "m \<noteq> 0" "\<And>x. length (sha x) = 32" "chained sha m h c rs" "length h = 32"
    "torn_tail m \<lparr>rd_data = tail, rd_failure = e\<rparr> torn"
  shows "scanSegment sha path (Inr (\<lparr>rd_data = chain_bytes sha h rs @ tail, rd_failure = e\<rparr>, n)) m c h =
    Inr \<lparr>sc_metadata = seg_meta sha h path (HasSuffix path ''.seg'') rs, sc_records = rs,
         sc_lastGoodOffset = length (chain_bytes sha h rs), sc_incompleteTail = torn, sc_fileSize = n\<rparr>"
  using scan_loop_complete [OF assms]
  by (simp add: scanSegment_def scan_records_def set_byte_size_def seg_meta_def)

lemma torn_tail_end: "m \<noteq> 0 \<Longrightarrow> torn_tail m (reader_of []) False"
  by (simp add: torn_tail_def Decoder_Read_def ReadFull_def HeaderSize_def)

text \<open>A reader that fails is never at a clean end, so a scan through it is incomplete or an error.\<close>

lemma failing_reader:
  assumes "scan_loop sha m path rd result h offset c = Inr s" "rd_failure rd \<noteq> None"
  shows "sc_incompleteTail s"
  using assms
proof (induction sha m path rd result h offset c rule: scan_loop.induct)
  case (1 sha m path rd result h offset c)
  obtain out n rd' where read: "Decoder_Read m rd = (out, n, rd')"
    by (cases "Decoder_Read m rd")
  show ?case
  proof (cases out)
    case (Inl e)
    have "e \<noteq> FrameEOF"
      using read Inl "1.prems"(2) by (auto simp: Decoder_Read_def read_body_def ReadFull_def Let_def split: if_splits option.splits prod.splits)
    then show ?thesis
      using "1.prems"(1) read Inl by (auto simp: scan_loop.simps [of sha m path rd] split: frame_error.splits)
  next
    case (Inr f)
    with "1.prems" read obtain r where
      wire: "fr_Version f = segmentFrameVersion" "unmarshalWireRecord sha (fr_Payload f) = Inr (r, h)" "lr_Cursor r = c" and
      rest: "scan_loop sha m path rd' (scan_record r (offset + n) result) (lr_ChainHash r) (offset + n) (c + 1) = Inr s"
      by (auto simp: scan_loop.simps [of sha m path rd] split: sum.splits if_splits)
    have "rd_failure rd' \<noteq> None"
      using Decoder_Read_Inr read Inr "1.prems"(2) by force
    then show ?thesis
      using "1.IH" [OF read [symmetric] refl Inr _ wire(2) refl] wire rest by auto
  qed
qed

text \<open>Cutting the bytes of a chain anywhere leaves a shorter chain and a torn frame.\<close>

lemma prefix_of_chain:
  assumes "m \<noteq> 0"
  shows "chained sha m h c rs \<Longrightarrow> prefix p (chain_bytes sha h rs) \<Longrightarrow>
    \<exists>k torn. p = chain_bytes sha h (take k rs) @ torn \<and> torn_tail m (reader_of torn) (torn \<noteq> [])"
proof (induction rs arbitrary: h c p)
  case Nil
  then show ?case
    using torn_tail_end [OF assms] by simp
next
  case (Cons r rs)
  let ?f = "frame_bytes (wire_frame sha h r)"
  show ?case
  proof (cases "prefix ?f p")
    case True
    then obtain q where q: "p = ?f @ q" "prefix q (chain_bytes sha (lr_ChainHash r) rs)"
      using Cons.prems(2) by (auto elim!: prefixE)
    then obtain k torn where "q = chain_bytes sha (lr_ChainHash r) (take k rs) @ torn" "torn_tail m (reader_of torn) (torn \<noteq> [])"
      using Cons.IH [of "lr_ChainHash r" "c + 1" q] Cons.prems(1) by auto
    then show ?thesis
      using q(1) by (intro exI [of _ "Suc k"] exI [of _ torn]) simp
  next
    case False
    then obtain lost where lost: "?f = p @ lost" "lost \<noteq> []"
      using Cons.prems(2) by (auto simp: prefix_append elim!: prefixE)
    have "Marshal (wire_frame sha h r) m = Inr (p @ lost)"
      unfolding lost(1) [symmetric] using Cons.prems(1) by (simp add: frame_bytes_Marshal) (simp add: wire_frame_def)
    from Decoder_Read_torn [OF this assms lost(2)] have "torn_tail m (reader_of p) (p \<noteq> [])"
      by (auto simp: torn_tail_def split: if_splits)
    then show ?thesis
      by (intro exI [of _ 0] exI [of _ p]) simp
  qed
qed

section \<open>Metadata of a chain\<close>

lemma chained_hashes: "chained sha m h c rs \<Longrightarrow> \<forall>x. length (sha x) = 32 \<Longrightarrow> length h = 32 \<Longrightarrow> length (last_hash h rs) = 32"
  by (induction rs arbitrary: h c) auto

lemma fold_note_record:
  "sm_Path (fold note_record rs m) = sm_Path m" "sm_Finalized (fold note_record rs m) = sm_Finalized m"
  "sm_FrameCount (fold note_record rs m) = sm_FrameCount m + of_nat (length rs)"
  "sm_ByteSize (fold note_record rs m) = sm_ByteSize m" "sm_PreviousHash (fold note_record rs m) = sm_PreviousHash m"
  by (induction rs arbitrary: m) (simp_all add: note_record_def Let_def algebra_simps)

lemma fold_note_last:
  "rs \<noteq> [] \<Longrightarrow> sm_LastCursor (fold note_record rs m) = lr_Cursor (last rs) \<and> sm_LastHash (fold note_record rs m) = lr_ChainHash (last rs)"
  by (cases rs rule: rev_cases) (simp_all add: note_record_def Let_def)

lemma note_record_size: "note_record r (m\<lparr>sm_ByteSize := n\<rparr>) = (note_record r m)\<lparr>sm_ByteSize := n\<rparr>"
  by (simp add: note_record_def Let_def)

lemma fold_note_size: "fold note_record rs (m\<lparr>sm_ByteSize := n\<rparr>) = (fold note_record rs m)\<lparr>sm_ByteSize := n\<rparr>"
  by (induction rs arbitrary: m) (simp_all add: note_record_size)

lemma seg_meta_simps [simp]:
  "sm_Path (seg_meta sha h path fin rs) = path" "sm_Finalized (seg_meta sha h path fin rs) = fin"
  "sm_ByteSize (seg_meta sha h path fin rs) = length (chain_bytes sha h rs)"
  "sm_FrameCount (seg_meta sha h path fin rs) = of_nat (length rs)"
  "seg_meta sha h path fin [] = empty_metadata path h fin"
  by (simp_all add: seg_meta_def fold_note_record empty_metadata_def)

lemma last_hash_last: "rs \<noteq> [] \<Longrightarrow> last_hash h rs = lr_ChainHash (last rs)"
  by (cases rs rule: rev_cases) simp_all

lemma chained_last: "chained sha m h c rs \<Longrightarrow> rs \<noteq> [] \<Longrightarrow> lr_Cursor (last rs) + 1 = c + of_nat (length rs)"
  by (cases rs rule: rev_cases) (simp_all add: algebra_simps)

lemma seg_meta_last:
  "rs \<noteq> [] \<Longrightarrow> sm_LastCursor (seg_meta sha h path fin rs) = lr_Cursor (last rs) \<and>
    sm_LastHash (seg_meta sha h path fin rs) = last_hash h rs"
  by (simp add: seg_meta_def fold_note_last last_hash_last)

text \<open>Committing a batch to the metadata of a segment, and giving the segment its final name.\<close>

lemma seg_meta_append:
  "(fold note_record ss (seg_meta sha h path fin rs))\<lparr>sm_ByteSize := length (chain_bytes sha h rs) + length (chain_bytes sha (last_hash h rs) ss)\<rparr>
   = seg_meta sha h path fin (rs @ ss)"
  by (simp add: seg_meta_def fold_note_size)

lemma note_record_name:
  "note_record r (m\<lparr>sm_Path := p, sm_Finalized := f\<rparr>) = (note_record r m)\<lparr>sm_Path := p, sm_Finalized := f\<rparr>"
  by (simp add: note_record_def Let_def)

lemma fold_note_name:
  "fold note_record rs (m\<lparr>sm_Path := p, sm_Finalized := f\<rparr>) = (fold note_record rs m)\<lparr>sm_Path := p, sm_Finalized := f\<rparr>"
  by (induction rs arbitrary: m) (simp_all add: note_record_name)

lemma seg_meta_rename:
  "(seg_meta sha h path fin rs)\<lparr>sm_Path := p, sm_Finalized := f\<rparr> = seg_meta sha h p f rs"
  using fold_note_name [where rs = rs and m = "empty_metadata path h fin" and p = p and f = f] by (simp add: seg_meta_def empty_metadata_def)

section \<open>Names\<close>

lemma decimal_length [simp]: "length (decimal w n) = w"
  by (induction w arbitrary: n) simp_all

lemma digit_less: "m mod 10 < n mod 10 \<Longrightarrow> digit m < digit n"
  by (simp add: digit_def less_char_def)

lemma append_less_same_length:
  fixes xs ys :: string
  shows "xs < ys \<Longrightarrow> length xs = length ys \<Longrightarrow> xs @ us < ys @ vs"
  unfolding list_less_def by (rule lexord_sufI) simp_all

lemma append_less_right [simp]: "(xs @ us :: string) < xs @ vs \<longleftrightarrow> us < vs"
  by (induction xs) simp_all

lemma decimal_less: "m < n \<Longrightarrow> n < 10 ^ w \<Longrightarrow> decimal w m < decimal w n"
proof (induction w arbitrary: m n)
  case (Suc w)
  show ?case
  proof (cases "m div 10 < n div 10")
    case True
    then have "decimal w (m div 10) < decimal w (n div 10)"
      using Suc by (simp add: less_mult_imp_div_less)
    then show ?thesis
      by (simp add: append_less_same_length)
  next
    case False
    then have "m div 10 = n div 10"
      using Suc.prems(1) by (meson div_le_mono le_antisym less_imp_le not_le)
    moreover from this have "m mod 10 < n mod 10"
      using Suc.prems(1) by (metis div_mod_decomp nat_add_left_cancel_less)
    ultimately show ?thesis
      by (simp add: digit_less)
  qed
qed simp

lemma segmentName_less: "a < b \<Longrightarrow> segmentName a f < segmentName b g"
proof -
  assume "a < b"
  then have "decimal 20 (unat a) < decimal 20 (unat b)"
    using unsigned_less [of b, where ?'a = nat] by (intro decimal_less) (simp_all add: word_less_nat_alt)
  then show ?thesis
    by (simp add: segmentName_def append_less_same_length del: decimal.simps)
qed

lemma segmentName_inj: "segmentName a f = segmentName b g \<Longrightarrow> a = b"
  by (metis less_irrefl linorder_neqE segmentName_less)

lemma HasSuffix_append [simp]: "HasSuffix (xs @ e) e"
  by (simp add: HasSuffix_def)

lemma TrimSuffix_append [simp]: "TrimSuffix (xs @ e) e = xs"
  by (simp add: TrimSuffix_def)

lemma other_suffix: "\<not> HasSuffix (xs @ ''.open'') ''.seg''" "\<not> HasSuffix (xs @ ''.seg'') ''.open''"
  by (simp_all add: HasSuffix_def)

definition segmentStem :: "Cursor \<Rightarrow> string" where
  "segmentStem c = ''segment-'' @ decimal 20 (unat c)"

lemma segmentName_stem:
  "segmentName c True = segmentStem c @ ''.seg''" "segmentName c False = segmentStem c @ ''.open''"
  by (simp_all add: segmentName_def segmentStem_def)

lemma segmentName_suffix [simp]:
  "HasSuffix (segmentName c f) ''.seg'' = f" "HasSuffix (segmentName c f) ''.open'' = (\<not> f)"
  by (cases f; simp only: segmentName_stem HasSuffix_append other_suffix not_True_eq_False not_False_eq_True)+

section \<open>The last hash determines the chain\<close>

primrec chain_inputs :: "bytes \<Rightarrow> Record list \<Rightarrow> bytes set" where
  "chain_inputs h [] = {}"
| "chain_inputs h (r # rs) = insert (h @ put_record r) (chain_inputs (lr_ChainHash r) rs)"

lemma chain_inputs_append [simp]:
  "chain_inputs h (rs @ ss) = chain_inputs h rs \<union> chain_inputs (last_hash h rs) ss"
  by (induction rs arbitrary: h) auto

lemma record_determined:
  assumes "storable r" "storable s" "put_record r = put_record s" "lr_ChainHash r = lr_ChainHash s"
  shows "r = s"
proof -
  have "r\<lparr>lr_ChainHash := zero_hash32\<rparr> = s\<lparr>lr_ChainHash := zero_hash32\<rparr>"
    by (rule rec.put_inj) (use assms in \<open>simp_all add: storable_def fits_wire_def unchained_def\<close>)
  with assms(4) show ?thesis
    by (cases r; cases s) simp
qed

lemma chain_determined:
  assumes "\<And>x. length (sha x) = 32" "length h = 32"
  shows "length rs = length ss \<Longrightarrow> chained sha m h c rs \<Longrightarrow> chained sha m' h c ss \<Longrightarrow> last_hash h rs = last_hash h ss \<Longrightarrow>
    inj_on sha (chain_inputs h rs \<union> chain_inputs h ss) \<Longrightarrow> rs = ss"
proof (induction rs arbitrary: ss rule: rev_induct)
  case (snoc r rs)
  then obtain s ss' where ss: "ss = ss' @ [s]" "length rs = length ss'"
    by (cases ss rule: rev_cases) auto
  let ?x = "last_hash h rs @ put_record r" and ?y = "last_hash h ss' @ put_record s"
  have "sha ?x = sha ?y"
    using snoc.prems ss by simp
  then have "?x = ?y"
    by (rule inj_onD [OF snoc.prems(5)]) (simp_all add: ss)
  moreover have "length (last_hash h rs) = 32" "length (last_hash h ss') = 32"
    using snoc.prems(2,3) ss(1) assms by (auto intro: chained_hashes)
  ultimately have eq: "last_hash h rs = last_hash h ss'" "put_record r = put_record s"
    by (auto simp: append_eq_append_conv)
  have "rs = ss'"
    by (rule snoc.IH) (use snoc.prems ss eq in \<open>auto intro: inj_on_subset\<close>)
  moreover have "r = s"
    by (rule record_determined) (use snoc.prems ss eq in auto)
  ultimately show ?case
    by (simp add: ss)
qed simp

text \<open>Positions of stored records are not zero, so a chain ends before they wrap around.\<close>

lemma chained_nth: "chained sha m h c rs \<Longrightarrow> i < length rs \<Longrightarrow> storable (rs ! i) \<and> lr_Cursor (rs ! i) = c + of_nat i"
  by (induction rs arbitrary: h c i) (auto simp: nth_Cons' algebra_simps of_nat_diff)

lemma chained_bound:
  assumes "chained sha m h c rs"
  shows "length rs < 2 ^ 64"
proof (rule ccontr)
  assume "\<not> length rs < 2 ^ 64"
  then have "unat (- c) < length rs"
    using unsigned_less [of "- c", where ?'a = nat] by simp
  with chained_nth [OF assms this] show False
    by (auto simp: storable_def)
qed

section \<open>A first record\<close>

text \<open>The first record of a ledger, with a payload.\<close>

definition demo_first :: "bytes \<Rightarrow> Record" where
  "demo_first payload =
    (let r = (demo_record 1)\<lparr>lr_Cursor := 1, lr_Payload := payload\<rparr> in
     r\<lparr>lr_ChainHash := demo_sha (zero_hash32 @ put_record r)\<rparr>)"

lemma payload_irrelevant [simp]: "validateRecordShape (r\<lparr>lr_Payload := p\<rparr>) = validateRecordShape r"
  by (simp add: validateRecordShape_def)

lemmas put_defs = put_record_def put_identity_def put_collector_def put_causal_def put_gap_def put_duplicate_def
  put_bytes_def put_uint8_def put_boolean_def

lemma demo_first_length: "length (put_record (demo_first p)) = 204 + length p"
  by (simp add: demo_first_def Let_def demo_record_def put_defs)

lemma demo_first_chained:
  assumes "length p < 100"
  shows "chained demo_sha 1000 zero_hash32 1 [demo_first p]"
proof -
  have "fits_record (demo_first p)"
    using assms by (simp add: fits_record_def fits_identity_def fits_collector_def fits_causal_def fits_gap_def
        fits_duplicate_def fits32_def demo_first_def Let_def demo_record_def)
  then have "storable (demo_first p)"
    using assms by (simp add: storable_def fits_wire_def fits32_def demo_first_length)
      (simp add: demo_first_def Let_def validateRecordShape_def demo_record_def)
  moreover have "length (put_wire demo_sha zero_hash32 (demo_first p)) \<le> 1000"
    using assms by (simp add: put_wire_def put_bytes_def demo_first_length zero_hash32_def)
  moreover have "lr_Cursor (demo_first p) = 1" "lr_ChainHash (demo_first p) = demo_sha (zero_hash32 @ put_record (demo_first p))"
    by (simp_all add: demo_first_def Let_def)
  ultimately show ?thesis
    by simp
qed

end
