(* ===== verification/Ledger_Subscription.thy ===== *)
theory Ledger_Subscription
  imports Ledger_Codec
begin

text \<open>
  Live fan-out of the ledger (\<open>internal/ledger/subscription.go\<close>): bounded queues that producers never
  wait for, and the hub that publishes to them.  An overflow replaces the queue by one gap; the
  deliveries of a subscription nevertheless account for every position, in order and once.
\<close>

section \<open>Deliveries and queues\<close>

text \<open>A \<open>Delivery\<close> has a record or a gap; the pointers are optional values.\<close>

record Delivery =
  dl_Record :: "Record option"
  dl_Gap :: "LedgerGap option"

record Subscription =
  sb_queue :: "Delivery list"
  sb_capacity :: nat
  sb_notified :: bool
  sb_closed :: bool
  sb_err :: "ledger_error option"

definition newSubscription :: "nat \<Rightarrow> Subscription" where
  "newSubscription capacity = \<lparr>sb_queue = [], sb_capacity = capacity, sb_notified = False, sb_closed = False, sb_err = None\<rparr>"

definition deliveryRange :: "Delivery \<Rightarrow> Cursor \<times> Cursor" where
  "deliveryRange d = (case dl_Gap d of
      Some g \<Rightarrow> (lg_FromCursor g, lg_ThroughCursor g)
    | None \<Rightarrow> (case dl_Record d of Some r \<Rightarrow> (lr_Cursor r, lr_Cursor r) | None \<Rightarrow> (0, 0)))"

abbreviation record_delivery :: "Record \<Rightarrow> Delivery" where
  "record_delivery r \<equiv> \<lparr>dl_Record = Some r, dl_Gap = None\<rparr>"

definition gap_delivery :: "Cursor \<Rightarrow> Cursor \<Rightarrow> Delivery" where
  "gap_delivery from through = \<lparr>dl_Record = None, dl_Gap = Some
     \<lparr>lg_Cause = GapSubscriberOverflow, lg_Source = [], lg_SourceInstance = [], lg_FromSequence = 0, lg_ThroughSequence = 0,
      lg_FromCursor = from, lg_ThroughCursor = through,
      lg_Detail = ''slow subscriber queue overflow; durable replay remains available''\<rparr>\<rparr>"

text \<open>The channel \<open>notify\<close> has room for one token: signalling puts one there unless there is one.\<close>

definition signalLocked :: "Subscription \<Rightarrow> Subscription" where
  "signalLocked s = s\<lparr>sb_notified := True\<rparr>"

definition widest :: "Delivery list \<Rightarrow> Cursor \<Rightarrow> Cursor" where
  "widest ds through = fold (\<lambda>d t. if snd (deliveryRange d) > t then snd (deliveryRange d) else t) ds through"

definition enqueueRecord :: "Record \<Rightarrow> Subscription \<Rightarrow> Subscription" where
  "enqueueRecord r s =
    (if sb_closed s then s
     else if length (sb_queue s) < sb_capacity s
     then signalLocked (s\<lparr>sb_queue := sb_queue s @ [record_delivery r]\<rparr>)
     else
       let (from, through) = deliveryRange (hd (sb_queue s));
           through' = widest (tl (sb_queue s) @ [record_delivery r]) through in
       signalLocked (s\<lparr>sb_queue := [gap_delivery from through']\<rparr>))"

definition terminate :: "ledger_error \<Rightarrow> Subscription \<Rightarrow> Subscription" where
  "terminate e s = (if sb_closed s then s else s\<lparr>sb_closed := True, sb_err := Some e\<rparr>)"

text \<open>
  One round of the loop of \<open>Next\<close>: a delivery, the end of the subscription, or waiting for a token, the
  end or the cancellation of the caller.  Taking the token is part of the next round.
\<close>

datatype next_result = Delivered Delivery | Ended ledger_error | Waiting

abbreviation SubscriptionEOF :: ledger_error where "SubscriptionEOF \<equiv> DecodeEOF"

definition Next :: "Subscription \<Rightarrow> next_result \<times> Subscription" where
  "Next s = (case sb_queue s of
      d # rest \<Rightarrow> (Delivered d, (if rest \<noteq> [] then signalLocked else id) (s\<lparr>sb_queue := rest\<rparr>))
    | [] \<Rightarrow> if sb_closed s then (Ended (case sb_err s of Some e \<Rightarrow> e | None \<Rightarrow> SubscriptionEOF), s)
            else (Waiting, s))"

text \<open>
  The select of \<open>Next\<close> takes the token or sees the end, and any of them when both are ready; without either it
  blocks until the caller gives up.
\<close>

definition wake :: "Subscription \<Rightarrow> Subscription list" where
  "wake s = (if sb_notified s then [s\<lparr>sb_notified := False\<rparr>] else []) @ (if sb_closed s then [s] else [])"

section \<open>The hub\<close>

text \<open>
  \<open>hb_objects\<close> are the subscriptions that were ever registered, by number, which their clients keep using;
  \<open>hb_members\<close> are the numbers in the hub's map.
\<close>

record fanoutHub =
  hb_nextID :: nat
  hb_objects :: "(nat \<times> Subscription) list"
  hb_members :: "nat list"
  hb_closed :: bool
  hb_closeErr :: "ledger_error option"

definition newFanoutHub :: fanoutHub where
  "newFanoutHub = \<lparr>hb_nextID = 0, hb_objects = [], hb_members = [], hb_closed = False, hb_closeErr = None\<rparr>"

definition hub_update :: "(Subscription \<Rightarrow> Subscription) \<Rightarrow> nat list \<Rightarrow> fanoutHub \<Rightarrow> fanoutHub" where
  "hub_update f ids hub = hub\<lparr>hb_objects := map (\<lambda>(i, s). (i, if i \<in> set ids then f s else s)) (hb_objects hub)\<rparr>"

definition hub_add :: "Subscription \<Rightarrow> fanoutHub \<Rightarrow> (ledger_error + nat) \<times> fanoutHub" where
  "hub_add s hub =
    (if hb_closed hub then (Inl (case hb_closeErr hub of Some e \<Rightarrow> e | None \<Rightarrow> ErrClosed), hub)
     else let i = hb_nextID hub + 1 in
       (Inr i, hub\<lparr>hb_nextID := i, hb_objects := (i, s) # hb_objects hub, hb_members := i # hb_members hub\<rparr>))"

definition hub_remove :: "nat \<Rightarrow> fanoutHub \<Rightarrow> fanoutHub" where
  "hub_remove i hub = hub\<lparr>hb_members := removeAll i (hb_members hub)\<rparr>"

definition publish :: "Record \<Rightarrow> fanoutHub \<Rightarrow> fanoutHub" where
  "publish r hub = (if hb_closed hub then hub else hub_update (enqueueRecord r) (hb_members hub) hub)"

definition hub_close :: "ledger_error \<Rightarrow> fanoutHub \<Rightarrow> fanoutHub" where
  "hub_close e hub =
    (if hb_closed hub then hub
     else (hub_update (terminate e) (hb_members hub) hub)\<lparr>hb_closed := True, hb_closeErr := Some e, hb_members := []\<rparr>)"

definition Subscription_Close :: "nat \<Rightarrow> fanoutHub \<Rightarrow> fanoutHub" where
  "Subscription_Close i hub = hub_update (terminate SubscriptionEOF) [i] (hub_remove i hub)"

definition Subscription_Next :: "nat \<Rightarrow> fanoutHub \<Rightarrow> next_result option \<times> fanoutHub" where
  "Subscription_Next i hub = (case map_of (hb_objects hub) i of
      None \<Rightarrow> (None, hub)
    | Some s \<Rightarrow> (Some (fst (Next s)), hub_update (\<lambda>_. snd (Next s)) [i] hub))"

section \<open>Accounting for every position\<close>

text \<open>
  \<open>tiles after ds through\<close>: the ranges of the deliveries follow each other without hole or overlap, from
  the position behind \<open>after\<close> to \<open>through\<close>.
\<close>

primrec tiles :: "Cursor \<Rightarrow> Delivery list \<Rightarrow> Cursor \<Rightarrow> bool" where
  "tiles after [] through \<longleftrightarrow> after = through"
| "tiles after (d # ds) through \<longleftrightarrow>
     fst (deliveryRange d) = after + 1 \<and> after < fst (deliveryRange d) \<and>
     fst (deliveryRange d) \<le> snd (deliveryRange d) \<and> tiles (snd (deliveryRange d)) ds through"

lemma deliveryRange_simps [simp]:
  "deliveryRange (record_delivery r) = (lr_Cursor r, lr_Cursor r)"
  "deliveryRange (gap_delivery from through) = (from, through)"
  by (simp_all add: deliveryRange_def gap_delivery_def)

lemma tiles_append: "tiles a (ds @ es) c \<longleftrightarrow> (\<exists>b. tiles a ds b \<and> tiles b es c)"
  by (induction ds arbitrary: a) auto

lemma tiles_le: "tiles a ds b \<Longrightarrow> a \<le> b"
  by (induction ds arbitrary: a) (auto dest: less_imp_le order_trans)

lemma widest_tiles: "tiles a ds b \<Longrightarrow> widest ds a = b"
proof (induction ds arbitrary: a)
  case (Cons d ds)
  then have "a < snd (deliveryRange d)"
    by (auto dest: less_le_trans)
  with Cons show ?case
    by (simp add: widest_def)
qed (simp add: widest_def)

lemma widest_append: "widest (ds @ es) a = widest es (widest ds a)"
  by (simp add: widest_def)

lemma tiles_gap:
  assumes "tiles a (d # ds) b" "fst (deliveryRange d) = from"
  shows "tiles a [gap_delivery from b] b"
  using assms tiles_le [of "snd (deliveryRange d)" ds b] by auto

lemma enqueue_tiles:
  assumes tiles: "tiles a (sb_queue s) b" and r: "lr_Cursor r = b + 1" "b < lr_Cursor r"
    and s: "\<not> sb_closed s" "0 < sb_capacity s"
  shows "tiles a (sb_queue (enqueueRecord r s)) (lr_Cursor r)"
proof (cases "length (sb_queue s) < sb_capacity s")
  case True
  then show ?thesis
    using assms by (simp add: enqueueRecord_def signalLocked_def tiles_append)
next
  case False
  then obtain d ds where q: "sb_queue s = d # ds"
    using s(2) by (cases "sb_queue s") auto
  let ?new = "record_delivery r"
  have all: "tiles a (d # ds @ [?new]) (lr_Cursor r)"
    using tiles r q tiles_append [of a "d # ds" "[?new]"] by auto
  then have "widest (ds @ [?new]) (snd (deliveryRange d)) = lr_Cursor r"
    by (auto intro: widest_tiles)
  then show ?thesis
    using tiles_gap [OF all refl] False s(1) q
    by (auto simp: enqueueRecord_def signalLocked_def split: prod.split)
qed

section \<open>A subscription and its consumers\<close>

text \<open>
  Producers, the callers of \<open>Next\<close> and the end of the subscription interleave.  \<open>sw_checking\<close> callers are
  about to look at the queue and \<open>sw_waiting\<close> callers are in the select; \<open>sw_delivered\<close> is what callers
  were handed so far and \<open>sw_published\<close> what producers enqueued.
\<close>

record sub_world =
  sw_sub :: Subscription
  sw_delivered :: "Delivery list"
  sw_published :: "Record list"
  sw_head :: Cursor
  sw_checking :: nat
  sw_waiting :: nat

definition sub_start :: "Cursor \<Rightarrow> nat \<Rightarrow> sub_world" where
  "sub_start after capacity = \<lparr>sw_sub = newSubscription capacity, sw_delivered = [], sw_published = [],
     sw_head = after, sw_checking = 0, sw_waiting = 0\<rparr>"

text \<open>What the callers do by themselves.\<close>

inductive consume :: "sub_world \<Rightarrow> sub_world \<Rightarrow> bool" where
  delivered: "sw_checking w = Suc k \<Longrightarrow> Next (sw_sub w) = (Delivered d, s) \<Longrightarrow>
    consume w (w\<lparr>sw_sub := s, sw_delivered := sw_delivered w @ [d], sw_checking := k\<rparr>)"
| ended: "sw_checking w = Suc k \<Longrightarrow> Next (sw_sub w) = (Ended e, s) \<Longrightarrow> consume w (w\<lparr>sw_sub := s, sw_checking := k\<rparr>)"
| blocked: "sw_checking w = Suc k \<Longrightarrow> Next (sw_sub w) = (Waiting, s) \<Longrightarrow>
    consume w (w\<lparr>sw_sub := s, sw_checking := k, sw_waiting := sw_waiting w + 1\<rparr>)"
| woken: "sw_waiting w = Suc k \<Longrightarrow> s \<in> set (wake (sw_sub w)) \<Longrightarrow>
    consume w (w\<lparr>sw_sub := s, sw_waiting := k, sw_checking := sw_checking w + 1\<rparr>)"

inductive sub_step :: "sub_world \<Rightarrow> sub_world \<Rightarrow> bool" where
  enqueued: "\<not> sb_closed (sw_sub w) \<Longrightarrow> lr_Cursor r = sw_head w + 1 \<Longrightarrow> sw_head w < lr_Cursor r \<Longrightarrow>
    sub_step w (w\<lparr>sw_sub := enqueueRecord r (sw_sub w), sw_published := sw_published w @ [r], sw_head := lr_Cursor r\<rparr>)"
| called: "sub_step w (w\<lparr>sw_checking := sw_checking w + 1\<rparr>)"
| consumed: "consume w w' \<Longrightarrow> sub_step w w'"
| cancelled: "sw_waiting w = Suc k \<Longrightarrow> sub_step w (w\<lparr>sw_waiting := k\<rparr>)"
| terminated: "sub_step w (w\<lparr>sw_sub := terminate e (sw_sub w)\<rparr>)"

inductive sub_reach :: "Cursor \<Rightarrow> nat \<Rightarrow> sub_world \<Rightarrow> bool" for after capacity where
  start: "sub_reach after capacity (sub_start after capacity)"
| step: "sub_reach after capacity w \<Longrightarrow> sub_step w w' \<Longrightarrow> sub_reach after capacity w'"

definition faithful :: "Record list \<Rightarrow> Delivery \<Rightarrow> bool" where
  "faithful published d \<longleftrightarrow> dl_Gap d = None \<longrightarrow> (\<exists>r \<in> set published. d = record_delivery r)"

definition sub_inv :: "Cursor \<Rightarrow> nat \<Rightarrow> sub_world \<Rightarrow> bool" where
  "sub_inv after capacity w \<longleftrightarrow>
    tiles after (sw_delivered w @ sb_queue (sw_sub w)) (sw_head w) \<and>
    sb_capacity (sw_sub w) = capacity \<and> length (sb_queue (sw_sub w)) \<le> capacity \<and>
    (\<forall>d \<in> set (sw_delivered w @ sb_queue (sw_sub w)). faithful (sw_published w) d) \<and>
    (sb_queue (sw_sub w) \<noteq> [] \<longrightarrow> sb_notified (sw_sub w) \<or> 0 < sw_checking w)"

lemma Next_queue:
  "sb_queue s = d # rest \<Longrightarrow> Next s = (Delivered d, (if rest \<noteq> [] then signalLocked else id) (s\<lparr>sb_queue := rest\<rparr>))"
  "sb_queue s = [] \<Longrightarrow> Next s = (if sb_closed s then Ended (case sb_err s of Some e \<Rightarrow> e | None \<Rightarrow> SubscriptionEOF) else Waiting, s)"
  by (simp_all add: Next_def)

lemma Next_cases:
  "Next s = (Delivered d, s') \<longleftrightarrow> (\<exists>rest. sb_queue s = d # rest \<and>
     s' = (if rest \<noteq> [] then signalLocked else id) (s\<lparr>sb_queue := rest\<rparr>))"
  "Next s = (Ended e, s') \<Longrightarrow> s' = s \<and> sb_queue s = [] \<and> sb_closed s"
  "Next s = (Waiting, s') \<Longrightarrow> s' = s \<and> sb_queue s = [] \<and> \<not> sb_closed s"
  by (cases "sb_queue s"; auto simp: Next_queue split: if_splits)+

lemma faithful_more: "faithful published d \<Longrightarrow> faithful (published @ rs) d"
  by (auto simp: faithful_def)

lemma faithful_new:
  "faithful (published @ [r]) (record_delivery r)" "faithful published (gap_delivery from through)"
  by (auto simp: faithful_def gap_delivery_def)

lemma enqueue_inv:
  assumes inv: "sub_inv after capacity w" and cap: "0 < capacity" and alive: "\<not> sb_closed (sw_sub w)"
    and r: "lr_Cursor r = sw_head w + 1" "sw_head w < lr_Cursor r"
  shows "sub_inv after capacity
    (w\<lparr>sw_sub := enqueueRecord r (sw_sub w), sw_published := sw_published w @ [r], sw_head := lr_Cursor r\<rparr>)"
proof -
  let ?s = "sw_sub w"
  have "\<exists>b. tiles after (sw_delivered w) b \<and> tiles b (sb_queue (enqueueRecord r ?s)) (lr_Cursor r)"
    using inv enqueue_tiles [of _ ?s "sw_head w" r] alive cap r by (auto simp: sub_inv_def tiles_append)
  moreover have "d \<in> set (sb_queue (enqueueRecord r ?s)) \<Longrightarrow> faithful (sw_published w @ [r]) d" for d
    using inv alive by (auto simp: sub_inv_def enqueueRecord_def signalLocked_def faithful_new faithful_more
        split: if_splits prod.splits)
  moreover have "sb_capacity (enqueueRecord r ?s) = sb_capacity ?s" "sb_notified (enqueueRecord r ?s)"
      "length (sb_queue (enqueueRecord r ?s)) \<le> max 1 (sb_capacity ?s)"
    using alive by (auto simp: enqueueRecord_def signalLocked_def split: prod.splits)
  ultimately show ?thesis
    using inv cap by (auto simp: sub_inv_def tiles_append faithful_more max_def split: if_splits)
qed

lemma consume_inv:
  assumes "consume w w'" "sub_inv after capacity w"
  shows "sub_inv after capacity w'"
  using assms(1)
proof (cases rule: consume.cases)
  case (delivered k d s)
  then show ?thesis
    using assms(2) by (auto simp: sub_inv_def Next_cases signalLocked_def split: if_splits)
next
  case (woken k s)
  then show ?thesis
    using assms(2) by (auto simp: sub_inv_def wake_def split: if_splits)
qed (use assms(2) in \<open>auto simp: sub_inv_def dest!: Next_cases(2,3)\<close>)

lemma sub_step_inv:
  assumes "sub_step w w'" "sub_inv after capacity w" "0 < capacity"
  shows "sub_inv after capacity w'"
  using assms(1)
proof (cases rule: sub_step.cases)
  case (enqueued r)
  then show ?thesis
    using enqueue_inv assms(2,3) by simp
next
  case consumed
  then show ?thesis
    using consume_inv assms(2) by simp
qed (use assms(2) in \<open>auto simp: sub_inv_def terminate_def\<close>)

lemma sub_reach_inv:
  assumes "sub_reach after capacity w" "0 < capacity"
  shows "sub_inv after capacity w"
  using assms(1)
proof induction
  case start
  then show ?case
    by (simp add: sub_start_def newSubscription_def sub_inv_def)
next
  case (step w w')
  then show ?case
    using sub_step_inv assms(2) by blast
qed

text \<open>
  C25.
  A subscription accounts for everything.  However producers, consumers and the end of the
  subscription interleave, what consumers were handed followed by what is queued covers every position
  from the one behind the start to the last published one, in order, without hole or overlap; every
  delivery that is not a gap is a published record; and the queue never exceeds its capacity.\<close>

theorem subscription_accounts:
  assumes "sub_reach after capacity w" "0 < capacity"
  shows "tiles after (sw_delivered w @ sb_queue (sw_sub w)) (sw_head w) \<and> length (sb_queue (sw_sub w)) \<le> capacity \<and>
    (\<forall>d \<in> set (sw_delivered w @ sb_queue (sw_sub w)).
       dl_Gap d = None \<longrightarrow> (\<exists>r \<in> set (sw_published w). d = record_delivery r))"
  using sub_reach_inv [OF assms] by (auto simp: sub_inv_def faithful_def)

section \<open>Callers are answered\<close>

abbreviation callers :: "sub_world \<Rightarrow> nat" where
  "callers w \<equiv> sw_checking w + sw_waiting w"

text \<open>
  Every step of a caller spends some of this effort: answering a caller more than the token it may leave,
  waking one more than it takes to look, and looking in vain what waking gave.
\<close>

definition effort :: "sub_world \<Rightarrow> nat" where
  "effort w = 4 * callers w + (if sb_notified (sw_sub w) then 2 else 0) + (if sb_closed (sw_sub w) then sw_waiting w else sw_checking w)"

lemma consume_effort:
  assumes "consume w w'"
  shows "effort w' < effort w"
  using assms
proof (cases rule: consume.cases)
  case (delivered k d s)
  then show ?thesis
    by (auto simp: effort_def Next_cases signalLocked_def split: if_splits)
next
  case (woken k s)
  then show ?thesis
    by (auto simp: effort_def wake_def split: if_splits)
qed (auto simp: effort_def dest!: Next_cases(2,3))

text \<open>What the callers will have been handed, what will be left, and who will wait, is the same all along.\<close>

definition outlook :: "sub_world \<Rightarrow> Delivery list \<times> Delivery list \<times> bool \<times> nat" where
  "outlook w = (let q = sb_queue (sw_sub w) in
    (sw_delivered w @ take (callers w) q, drop (callers w) q, sb_closed (sw_sub w),
     if sb_closed (sw_sub w) then 0 else callers w - length q))"

lemma consume_outlook:
  assumes "consume w w'"
  shows "outlook w' = outlook w"
  using assms
proof (cases rule: consume.cases)
  case (delivered k d s)
  then show ?thesis
    by (auto simp: outlook_def Let_def Next_cases signalLocked_def split: if_splits)
next
  case (woken k s)
  then show ?thesis
    by (auto simp: outlook_def Let_def wake_def split: if_splits)
qed (auto simp: outlook_def Let_def dest!: Next_cases(2,3))

lemma consume_run:
  assumes "(consume ^^ k) w w'" "sub_inv after capacity w"
  shows "k + effort w' \<le> effort w \<and> outlook w' = outlook w \<and> sub_inv after capacity w'"
  using assms(1)
proof (induction k arbitrary: w')
  case (Suc k)
  then obtain v where v: "(consume ^^ k) w v" "consume v w'"
    by auto
  then show ?case
    using Suc.IH [OF v(1)] consume_effort [OF v(2)] consume_outlook [OF v(2)] consume_inv [OF v(2)] by fastforce
qed (simp add: assms(2))

text \<open>When no caller can go on, those who wait do so for a reason.\<close>

lemma consume_final:
  assumes "\<nexists>w'. consume w w'" "sub_inv after capacity w"
  shows "sw_checking w = 0 \<and> (sw_waiting w = 0 \<or> sb_queue (sw_sub w) = [] \<and> \<not> sb_closed (sw_sub w))"
proof -
  have "sw_checking w = 0"
  proof (rule ccontr)
    assume "sw_checking w \<noteq> 0"
    then obtain k where k: "sw_checking w = Suc k"
      by (cases "sw_checking w") auto
    obtain out s where out: "Next (sw_sub w) = (out, s)"
      by (cases "Next (sw_sub w)")
    show False
      using assms(1) consume.delivered [OF k] consume.ended [OF k] consume.blocked [OF k] out by (cases out) blast+
  qed
  moreover have "wake (sw_sub w) = []" if "sw_waiting w = Suc k" for k
    using assms(1) consume.woken [OF that] by (meson hd_in_set)
  ultimately show ?thesis
    using assms(2) by (cases "sw_waiting w") (auto simp: wake_def sub_inv_def split: if_splits)
qed

text \<open>
  C26.
  No wake-up is lost.  In any reachable state let the callers inside \<open>Next\<close> run on by themselves, in any order.
  They come to rest after a bounded number of steps, and then every caller has its answer or nothing is left
  to answer it with: as many deliveries as there were callers have been handed out, from the front of the
  queue and in its order; callers still wait only if the queue had fewer deliveries than there were
  callers and the subscription has not ended, and once it has ended no caller waits.\<close>

theorem no_lost_wakeup:
  assumes "sub_reach after capacity w" "0 < capacity" "(consume ^^ k) w w'"
  shows "k \<le> 5 * callers w + 2 \<and>
    ((\<nexists>w''. consume w' w'') \<longrightarrow>
      sw_checking w' = 0 \<and>
      sw_waiting w' = (if sb_closed (sw_sub w) then 0 else callers w - length (sb_queue (sw_sub w))) \<and>
      sw_delivered w' = sw_delivered w @ take (callers w) (sb_queue (sw_sub w)) \<and>
      sb_queue (sw_sub w') = drop (callers w) (sb_queue (sw_sub w)))"
proof -
  note run = consume_run [OF assms(3) sub_reach_inv [OF assms(1,2)]]
  have "effort w \<le> 5 * callers w + 2"
    by (simp add: effort_def)
  then have "k \<le> 5 * callers w + 2"
    using run by linarith
  moreover {
    assume "\<nexists>w''. consume w' w''"
    note final = consume_final [OF this, of after capacity]
    have "outlook w' = (sw_delivered w', sb_queue (sw_sub w'), sb_closed (sw_sub w'), sw_waiting w')"
      using final run by (auto simp: outlook_def Let_def)
    then have "outlook w = (sw_delivered w', sb_queue (sw_sub w'), sb_closed (sw_sub w'), sw_waiting w')" "sw_checking w' = 0"
      using final run by simp_all
  }
  ultimately show ?thesis
    by (auto simp: outlook_def Let_def)
qed

section \<open>An overflowing subscription\<close>

text \<open>A subscription with room for one delivery: two callers wait, then two records arrive.\<close>

definition demo_position :: "Cursor \<Rightarrow> Record" where
  "demo_position c = (demo_record c)\<lparr>lr_Cursor := c\<rparr>"

definition demo_world :: sub_world where
  "demo_world = \<lparr>sw_sub = \<lparr>sb_queue = [gap_delivery 1 2], sb_capacity = 1, sb_notified = True, sb_closed = False, sb_err = None\<rparr>,
     sw_delivered = [], sw_published = [demo_position 1, demo_position 2], sw_head = 2, sw_checking = 0, sw_waiting = 2\<rparr>"

lemma sub_reach_waiter:
  assumes "sub_reach after capacity w" "sw_checking w = 0" "sb_queue (sw_sub w) = []" "\<not> sb_closed (sw_sub w)"
  shows "sub_reach after capacity (w\<lparr>sw_waiting := sw_waiting w + 1\<rparr>)"
proof -
  let ?w = "w\<lparr>sw_checking := sw_checking w + 1\<rparr>"
  have "consume ?w (?w\<lparr>sw_sub := sw_sub ?w, sw_checking := 0, sw_waiting := sw_waiting ?w + 1\<rparr>)"
    by (rule consume.blocked) (use assms(2-4) in \<open>simp_all add: Next_def\<close>)
  then have "sub_reach after capacity (?w\<lparr>sw_sub := sw_sub ?w, sw_checking := 0, sw_waiting := sw_waiting ?w + 1\<rparr>)"
    using sub_reach.step [OF sub_reach.step [OF assms(1) sub_step.called] sub_step.consumed] by blast
  also have "?w\<lparr>sw_sub := sw_sub ?w, sw_checking := 0, sw_waiting := sw_waiting ?w + 1\<rparr> = w\<lparr>sw_waiting := sw_waiting w + 1\<rparr>"
    using assms(2) by (cases w) simp
  finally show ?thesis .
qed

lemma demo_world_reached: "sub_reach 0 1 demo_world"
proof -
  let ?w2 = "(sub_start 0 1)\<lparr>sw_waiting := 2\<rparr>"
  let ?w3 = "?w2\<lparr>sw_sub := enqueueRecord (demo_position 1) (sw_sub ?w2),
    sw_published := sw_published ?w2 @ [demo_position 1], sw_head := lr_Cursor (demo_position 1)\<rparr>"
  let ?w4 = "?w3\<lparr>sw_sub := enqueueRecord (demo_position 2) (sw_sub ?w3),
    sw_published := sw_published ?w3 @ [demo_position 2], sw_head := lr_Cursor (demo_position 2)\<rparr>"
  have "sub_reach 0 1 ((sub_start 0 1)\<lparr>sw_waiting := 1\<rparr>)"
    using sub_reach_waiter [OF sub_reach.start, of 0 1] by (simp add: sub_start_def newSubscription_def)
  then have "sub_reach 0 1 ?w2"
    using sub_reach_waiter [of 0 1 "(sub_start 0 1)\<lparr>sw_waiting := 1\<rparr>"] by (simp add: sub_start_def newSubscription_def numeral_2_eq_2)
  then have "sub_reach 0 1 ?w3"
    by (rule sub_reach.step) (rule sub_step.enqueued; simp add: sub_start_def newSubscription_def demo_position_def)
  then have "sub_reach 0 1 ?w4"
    by (rule sub_reach.step)
      (rule sub_step.enqueued; simp add: sub_start_def newSubscription_def demo_position_def enqueueRecord_def signalLocked_def)
  also have "?w4 = demo_world"
    by (simp add: demo_world_def sub_start_def newSubscription_def demo_position_def enqueueRecord_def signalLocked_def widest_def)
  finally show ?thesis .
qed

theorem subscription_accounts_witness: "tiles 0 (sw_delivered demo_world @ sb_queue (sw_sub demo_world)) 2"
  using subscription_accounts [OF demo_world_reached] by (simp add: demo_world_def)

text \<open>One of the two callers takes the token and is handed the gap; the other one waits for more.\<close>

definition demo_rest :: sub_world where
  "demo_rest = demo_world\<lparr>sw_sub := (sw_sub demo_world)\<lparr>sb_queue := [], sb_notified := False\<rparr>,
     sw_delivered := [gap_delivery 1 2], sw_waiting := 1\<rparr>"

lemma demo_run: "(consume ^^ 2) demo_world demo_rest"
proof -
  let ?w = "demo_world\<lparr>sw_sub := (sw_sub demo_world)\<lparr>sb_notified := False\<rparr>, sw_waiting := 1, sw_checking := sw_checking demo_world + 1\<rparr>"
  have "consume demo_world ?w"
    by (rule consume.woken) (simp_all add: demo_world_def wake_def)
  moreover have "consume ?w (?w\<lparr>sw_sub := (sw_sub ?w)\<lparr>sb_queue := []\<rparr>, sw_delivered := sw_delivered ?w @ [gap_delivery 1 2], sw_checking := 0\<rparr>)"
    by (rule consume.delivered) (simp_all add: demo_world_def Next_def)
  moreover have "?w\<lparr>sw_sub := (sw_sub ?w)\<lparr>sb_queue := []\<rparr>, sw_delivered := sw_delivered ?w @ [gap_delivery 1 2], sw_checking := 0\<rparr> = demo_rest"
    by (simp add: demo_rest_def demo_world_def)
  ultimately show ?thesis
    by (auto simp: numeral_2_eq_2)
qed

theorem no_lost_wakeup_witness:
  "(\<nexists>w. consume demo_rest w) \<and> sw_waiting demo_rest = callers demo_world - 1 \<and>
    sw_delivered demo_rest = take (callers demo_world) [gap_delivery 1 2]"
proof -
  have "\<nexists>w. consume demo_rest w"
    by (auto simp: demo_rest_def demo_world_def wake_def elim: consume.cases)
  then show ?thesis
    using no_lost_wakeup [OF demo_world_reached _ demo_run] by (simp add: demo_world_def)
qed

end
