(* ===== verification/Ledger_Store.thy ===== *)
theory Ledger_Store
  imports Ledger_Segments Ledger_Subscription "HOL-Library.List_Lexorder" "HOL-Library.Char_ord"
begin

text \<open>
  The observation ledger (\<open>internal/ledger/store.go\<close>): opening a directory of segments, appending batches
  with rollback, rotation, reading back, and the index of source sequences.  The files of the directory
  are part of the state; the outcome of every call to the operating system is a parameter.
\<close>

section \<open>Environment\<close>

text \<open>
  \<open>ledger_io\<close> decides the outcome of each call of one operation: \<open>io_write\<close> how much of a write reaches a
  file of the given size, \<open>io_read\<close> where reading a file breaks off, and the others whether the call at
  the named stage fails.  The \<open>ledgerHooks\<close> of the tests replace the same calls.
\<close>

record ledger_io =
  io_write :: "nat \<Rightarrow> bytes \<Rightarrow> nat \<times> string option"
  io_read :: "string \<Rightarrow> (nat \<times> string) option"
  io_open :: "string \<Rightarrow> string option"
  io_close :: "string \<Rightarrow> string option"
  io_sync :: "string \<Rightarrow> string option"
  io_truncate :: "string option"
  io_rename :: "string option"
  io_index :: "nat \<Rightarrow> string option"

type_synonym directory = "bytes table"

text \<open>The result of the successive checks of \<open>ctx.Err()\<close> in one call.\<close>

type_synonym ctx = "nat \<Rightarrow> ledger_error option"

abbreviation io_err :: "string option \<Rightarrow> ledger_error option" where
  "io_err e \<equiv> map_option IOFailure e"

text \<open>\<open>errors.Join\<close>: nil when every error is nil.\<close>

definition join_errors :: "ledger_error option list \<Rightarrow> ledger_error list" where
  "join_errors es = map the (filter (\<lambda>e. e \<noteq> None) es)"

definition open_segment :: "ledger_io \<Rightarrow> directory \<Rightarrow> string \<Rightarrow> ledger_error + (reader \<times> nat)" where
  "open_segment io files name =
    (case tbl_get files name of
       None \<Rightarrow> Inl (IOFailure ''no such file'')
     | Some content \<Rightarrow>
        (case io_open io ''scan'' of
           Some e \<Rightarrow> Inl (IOFailure e)
         | None \<Rightarrow> Inr
            ((case io_read io name of
                None \<Rightarrow> reader_of content
              | Some (n, e) \<Rightarrow> \<lparr>rd_data = take n content, rd_failure = Some e\<rparr>), length content)))"

definition truncate_bytes :: "nat \<Rightarrow> bytes \<Rightarrow> bytes" where
  "truncate_bytes n bs = take n bs @ replicate (n - length bs) (CHR 0x00)"

text \<open>Writing to a file opened for appending.\<close>

definition file_put :: "ledger_io \<Rightarrow> bytes writer" where
  "file_put io content bs =
    (case io_write io (length content) bs of (n, e) \<Rightarrow>
       (content @ take n bs, min n (length bs), e))"

definition writeAll :: "ledger_io \<Rightarrow> bytes \<Rightarrow> bytes \<Rightarrow> bytes \<times> nat \<times> write_error option" where
  "writeAll io content value = write_all (file_put io) value content 0"

interpretation active_file: appending "file_put io" "\<lambda>content. content" for io
  by unfold_locales (auto simp: file_put_def min_def split: prod.splits)

section \<open>State\<close>

record Options =
  op_Directory :: string
  op_MaxSegmentBytes :: int
  op_MaxFramePayload :: uint32
  op_SubscriberBuffer :: int
  op_MaxSourceSequences :: int

record sourceOccurrence =
  so_cursor :: Cursor
  so_fingerprint :: bytes

record sourceState =
  ss_hasMaximum :: bool
  ss_maximum :: uint64
  ss_seen :: "(uint64 \<times> sourceOccurrence) list"
  ss_order :: "uint64 list"
  ss_next :: nat

type_synonym sourceKey = "string \<times> string"

record Repair =
  rp_Segment :: string
  rp_Offset :: nat
  rp_RemovedBytes :: nat
  rp_Cause :: uint8

record Ledger =
  l_options :: Options
  l_segments :: "SegmentMetadata list"
  l_active :: "nat option"
  l_head :: Cursor
  l_lastHash :: bytes
  l_sources :: "(sourceKey \<times> sourceState) list"
  l_repairs :: "Repair list"
  l_hub :: fanoutHub
  l_indexErr :: "ledger_error option"
  l_failed :: "ledger_error option"
  l_closed :: bool
  l_files :: directory

definition normalizeOptions :: "(string \<Rightarrow> ledger_error + string) \<Rightarrow> Options \<Rightarrow> ledger_error + Options" where
  "normalizeOptions abspath options =
    (if op_Directory options = [] then Inl (IOFailure ''ledger directory is required'')
     else
       let options = (if op_MaxSegmentBytes options = 0 then options\<lparr>op_MaxSegmentBytes := 67108864\<rparr> else options);
           options = (if op_MaxFramePayload options = 0 then options\<lparr>op_MaxFramePayload := 8388608\<rparr> else options);
           options = (if op_SubscriberBuffer options = 0 then options\<lparr>op_SubscriberBuffer := 128\<rparr> else options);
           options = (if op_MaxSourceSequences options = 0 then options\<lparr>op_MaxSourceSequences := 4096\<rparr> else options) in
       if op_MaxSegmentBytes options \<le> 0 \<or> op_MaxFramePayload options = 0 \<or> op_SubscriberBuffer options \<le> 0 \<or>
          op_MaxSourceSequences options \<le> 0
       then Inl (IOFailure ''ledger bounds must be positive'')
       else bind_r (abspath (op_Directory options)) (\<lambda>d. Inr (options\<lparr>op_Directory := d\<rparr>)))"

section \<open>Source sequences\<close>

definition empty_source :: sourceState where
  "empty_source = \<lparr>ss_hasMaximum = False, ss_maximum = 0, ss_seen = [], ss_order = [], ss_next = 0\<rparr>"

definition sourceState :: "(sourceKey \<times> sourceState) list \<Rightarrow> sourceKey \<Rightarrow> sourceState" where
  "sourceState sources key = (case map_of sources key of None \<Rightarrow> empty_source | Some s \<Rightarrow> s)"

text \<open>\<open>sourceState\<close> also registers the state it makes for a new source.\<close>

definition touch_source :: "sourceKey \<Rightarrow> (sourceKey \<times> sourceState) list \<Rightarrow> (sourceKey \<times> sourceState) list" where
  "touch_source key sources = AList.update key (sourceState sources key) sources"

definition sequenced :: "Record \<Rightarrow> bool" where
  "sequenced r \<longleftrightarrow> lr_HasSourceSequence r \<and> lr_Kind r \<noteq> RecordDuplicate \<and> lr_Kind r \<noteq> RecordGap"

definition remember :: "nat \<Rightarrow> uint64 \<Rightarrow> sourceState \<Rightarrow> sourceState" where
  "remember maxSourceSequences sequence s =
    (if map_of (ss_seen s) sequence \<noteq> None then s
     else if length (ss_order s) < maxSourceSequences then s\<lparr>ss_order := ss_order s @ [sequence]\<rparr>
     else s\<lparr>ss_seen := AList.delete (ss_order s ! ss_next s) (ss_seen s),
            ss_order := (ss_order s)[ss_next s := sequence],
            ss_next := (ss_next s + 1) mod length (ss_order s)\<rparr>)"

definition occurrence_of :: "(bytes \<Rightarrow> bytes) \<Rightarrow> Record \<Rightarrow> sourceOccurrence" where
  "occurrence_of sha r = \<lparr>so_cursor = lr_Cursor r, so_fingerprint = sha (lr_Payload r)\<rparr>"

definition index_state :: "(bytes \<Rightarrow> bytes) \<Rightarrow> nat \<Rightarrow> Record \<Rightarrow> sourceState \<Rightarrow> sourceState" where
  "index_state sha maxSourceSequences r s =
    (let s = remember maxSourceSequences (lr_SourceSequence r) s;
         s = s\<lparr>ss_seen := AList.update (lr_SourceSequence r) (occurrence_of sha r) (ss_seen s)\<rparr> in
     if \<not> ss_hasMaximum s \<or> lr_SourceSequence r > ss_maximum s
     then s\<lparr>ss_hasMaximum := True, ss_maximum := lr_SourceSequence r\<rparr> else s)"

abbreviation source_key :: "Record \<Rightarrow> sourceKey" where
  "source_key r \<equiv> (lr_Source r, lr_SourceInstance r)"

definition indexSourceRecord ::
  "(bytes \<Rightarrow> bytes) \<Rightarrow> nat \<Rightarrow> Record \<Rightarrow> (sourceKey \<times> sourceState) list \<Rightarrow> (sourceKey \<times> sourceState) list" where
  "indexSourceRecord sha maxSourceSequences r sources =
    (if \<not> sequenced r then sources
     else AList.update (source_key r) (index_state sha maxSourceSequences r (sourceState sources (source_key r))) sources)"

definition makeDuplicateRecord :: "(bytes \<Rightarrow> bytes) \<Rightarrow> Record \<Rightarrow> sourceOccurrence \<Rightarrow> Record" where
  "makeDuplicateRecord sha input occurrence = input\<lparr>lr_Kind := RecordDuplicate, lr_HasSourceSequence := False,
     lr_SourceSequence := 0, lr_Payload := [], lr_Gap := None,
     lr_Duplicate := Some \<lparr>ld_Source = lr_Source input, ld_SourceInstance = lr_SourceInstance input,
       ld_SourceSequence = lr_SourceSequence input, ld_OriginalCursor = so_cursor occurrence,
       ld_ConflictingPayload = (so_fingerprint occurrence \<noteq> sha (lr_Payload input))\<rparr>\<rparr>"

definition makeSequenceGapRecord :: "Record \<Rightarrow> uint64 \<Rightarrow> uint64 \<Rightarrow> Record" where
  "makeSequenceGapRecord input from through =
    \<lparr>lr_Kind = RecordGap, lr_Cursor = 0, lr_EventID = [], lr_Identity = lr_Identity input,
     lr_SignalFamily = lr_SignalFamily input, lr_SubjectID = lr_SubjectID input, lr_Source = lr_Source input,
     lr_SourceInstance = lr_SourceInstance input, lr_HasSourceSequence = False, lr_SourceSequence = 0,
     lr_ObservedWallUnixNano = lr_ObservedWallUnixNano input, lr_ObservedMonotonicNanos = lr_ObservedMonotonicNanos input,
     lr_ClockDomain = lr_ClockDomain input, lr_ClockSyncEpoch = lr_ClockSyncEpoch input, lr_Collector = lr_Collector input,
     lr_Process = \<lparr>lp_ID = 0, lp_StartTimeUnixNano = 0\<rparr>, lr_PolicyDigest = lr_PolicyDigest input,
     lr_CapabilityDigest = lr_CapabilityDigest input, lr_Origin = lr_Origin input, lr_OriginEvidence = lr_OriginEvidence input,
     lr_Causal = \<lparr>lk_CausationID = [], lk_CorrelationID = [], lk_CorrelationMethod = [], lk_Confidence = 0\<rparr>,
     lr_Payload = [],
     lr_Gap = Some \<lparr>lg_Cause = GapSourceSequence, lg_Source = lr_Source input, lg_SourceInstance = lr_SourceInstance input,
       lg_FromSequence = from, lg_ThroughSequence = through, lg_FromCursor = 0, lg_ThroughCursor = 0,
       lg_Detail = ''source-local sequence discontinuity''\<rparr>,
     lr_Duplicate = None, lr_ChainHash = zero_hash32\<rparr>"

section \<open>Reading the segments\<close>

definition segment_step :: "scannedSegment \<Rightarrow> Cursor \<Rightarrow> bytes \<Rightarrow> Cursor \<times> bytes" where
  "segment_step s expectedCursor expectedHash =
    (if sm_FrameCount (sc_metadata s) > 0 then (sm_LastCursor (sc_metadata s) + 1, sm_LastHash (sc_metadata s))
     else (expectedCursor, expectedHash))"

text \<open>A segment that is read must be complete.\<close>

definition scan_complete ::
  "(bytes \<Rightarrow> bytes) \<Rightarrow> ledger_io \<Rightarrow> directory \<Rightarrow> uint32 \<Rightarrow> string \<Rightarrow> Cursor \<Rightarrow> bytes \<Rightarrow> ledger_error + scannedSegment" where
  "scan_complete sha io files m path expectedCursor expectedHash =
    bind_r (scanSegment sha path (open_segment io files path) m expectedCursor expectedHash) (\<lambda>s.
      if sc_incompleteTail s
      then Inl (corruption path (sc_lastGoodOffset s) (ErrFrame (ErrIncompleteFrame ''tail'' UnexpectedEOF))) else Inr s)"

text \<open>The records of one segment that a reader wants, stopping at its limit.\<close>

fun take_wanted :: "Cursor \<Rightarrow> Cursor \<Rightarrow> int \<Rightarrow> Record list \<Rightarrow> Record list \<Rightarrow> bool \<times> Record list" where
  "take_wanted after through limit records [] = (False, records)"
| "take_wanted after through limit records (r # rs) =
    (if lr_Cursor r > after \<and> lr_Cursor r \<le> through then
       (if limit > 0 \<and> int (length (records @ [r])) \<ge> limit then (True, records @ [r])
        else take_wanted after through limit (records @ [r]) rs)
     else take_wanted after through limit records rs)"

fun read_segments ::
  "(bytes \<Rightarrow> bytes) \<Rightarrow> ledger_io \<Rightarrow> directory \<Rightarrow> uint32 \<Rightarrow> Cursor \<Rightarrow> Cursor \<Rightarrow> int \<Rightarrow> SegmentMetadata list \<Rightarrow> Cursor \<Rightarrow> bytes
   \<Rightarrow> Record list \<Rightarrow> ledger_error + Record list" where
  "read_segments sha io files m after through limit [] expectedCursor expectedHash records = Inr records"
| "read_segments sha io files m after through limit (metadata # rest) expectedCursor expectedHash records =
    bind_r (scan_complete sha io files m (sm_Path metadata) expectedCursor expectedHash) (\<lambda>s.
      case take_wanted after through limit records (sc_records s) of
        (True, records') \<Rightarrow> Inr records'
      | (False, records') \<Rightarrow>
          (case segment_step s expectedCursor expectedHash of (c, h) \<Rightarrow>
             read_segments sha io files m after through limit rest c h records'))"

definition readAfterLocked :: "(bytes \<Rightarrow> bytes) \<Rightarrow> ledger_io \<Rightarrow> Ledger \<Rightarrow> Cursor \<Rightarrow> Cursor \<Rightarrow> int \<Rightarrow> ledger_error + Record list" where
  "readAfterLocked sha io l after through limit =
    read_segments sha io (l_files l) (op_MaxFramePayload (l_options l)) after through limit (l_segments l) 1 zero_hash32 []"

definition ReadAfter :: "(bytes \<Rightarrow> bytes) \<Rightarrow> ledger_io \<Rightarrow> Ledger \<Rightarrow> Cursor \<Rightarrow> int \<Rightarrow> ledger_error + Record list" where
  "ReadAfter sha io l after limit =
    guarded [fail_if (after > l_head l) ErrCursorOutOfRange, l_failed l] (readAfterLocked sha io l after (l_head l) limit)"

definition is_occurrence :: "sourceKey \<Rightarrow> uint64 \<Rightarrow> Record \<Rightarrow> bool" where
  "is_occurrence key sequence r \<longleftrightarrow> sequenced r \<and> source_key r = key \<and> lr_SourceSequence r = sequence"

fun find_in_segments ::
  "(bytes \<Rightarrow> bytes) \<Rightarrow> ledger_io \<Rightarrow> ctx \<Rightarrow> nat \<Rightarrow> directory \<Rightarrow> uint32 \<Rightarrow> sourceKey \<Rightarrow> uint64 \<Rightarrow> SegmentMetadata list \<Rightarrow> Cursor \<Rightarrow> bytes
   \<Rightarrow> ledger_error + sourceOccurrence option" where
  "find_in_segments sha io ctx k files m key sequence [] expectedCursor expectedHash = Inr None"
| "find_in_segments sha io ctx k files m key sequence (metadata # rest) expectedCursor expectedHash =
    guarded [ctx k]
      (bind_r (scan_complete sha io files m (sm_Path metadata) expectedCursor expectedHash) (\<lambda>s.
        case find (is_occurrence key sequence) (sc_records s) of
          Some r \<Rightarrow> Inr (Some (occurrence_of sha r))
        | None \<Rightarrow>
            (case segment_step s expectedCursor expectedHash of (c, h) \<Rightarrow>
               find_in_segments sha io ctx (Suc k) files m key sequence rest c h)))"

definition findSourceOccurrenceLocked ::
  "(bytes \<Rightarrow> bytes) \<Rightarrow> ledger_io \<Rightarrow> ctx \<Rightarrow> Ledger \<Rightarrow> sourceKey \<Rightarrow> uint64 \<Rightarrow> ledger_error + sourceOccurrence option" where
  "findSourceOccurrenceLocked sha io ctx l key sequence =
    find_in_segments sha io ctx 2 (l_files l) (op_MaxFramePayload (l_options l)) key sequence (l_segments l) 1 zero_hash32"

section \<open>Writing\<close>

definition flushIndexLocked :: "ledger_io \<Rightarrow> nat \<Rightarrow> Ledger \<Rightarrow> ledger_error option \<times> Ledger" where
  "flushIndexLocked io attempt l =
    (let err = (case io_index io attempt of Some e \<Rightarrow> Some (IOFailure e) | None \<Rightarrow> io_err (io_sync io ''index'')) in
     (err, l\<lparr>l_indexErr := err\<rparr>))"

definition finalized_name :: "string \<Rightarrow> string" where
  "finalized_name path = TrimSuffix path ''.open'' @ ''.seg''"

definition metadataWithFinalizedName :: "SegmentMetadata \<Rightarrow> SegmentMetadata" where
  "metadataWithFinalizedName m = m\<lparr>sm_Path := finalized_name (sm_Path m), sm_Finalized := True\<rparr>"

definition rename_file :: "string \<Rightarrow> string \<Rightarrow> directory \<Rightarrow> directory" where
  "rename_file old new files =
    (case tbl_get files old of None \<Rightarrow> files | Some content \<Rightarrow> tbl_put new content (AList.delete old files))"

definition finalizeActiveLocked :: "ledger_io \<Rightarrow> Ledger \<Rightarrow> ledger_error option \<times> Ledger" where
  "finalizeActiveLocked io l =
    (case l_active l of
       None \<Rightarrow> (None, l)
     | Some i \<Rightarrow>
        (let metadata = l_segments l ! i; old = sm_Path metadata; new = finalized_name old in
         case io_sync io ''finalize'' of
           Some e \<Rightarrow> (Some (IOFailure e), l)
         | None \<Rightarrow>
            (case io_close io ''finalize'' of
               Some e \<Rightarrow> (let f = ErrRecoveryRequired [IOFailure e] in (Some f, l\<lparr>l_failed := Some f\<rparr>))
             | None \<Rightarrow>
                (case io_rename io of
                   Some e \<Rightarrow>
                     (case io_open io ''reopen'' of
                        None \<Rightarrow> (Some (IOFailure e), l)
                      | Some e' \<Rightarrow> (let f = ErrRecoveryRequired [IOFailure e, IOFailure e'] in (Some f, l\<lparr>l_failed := Some f\<rparr>)))
                 | None \<Rightarrow>
                     (None, snd (flushIndexLocked io 0
                        (l\<lparr>l_segments := (l_segments l)[i := metadata\<lparr>sm_Path := new, sm_Finalized := True\<rparr>], l_active := None,
                          l_files := rename_file old new (l_files l)\<rparr>)))))))"

definition Rotate :: "ledger_io \<Rightarrow> Ledger \<Rightarrow> (ledger_error + SegmentMetadata option) \<times> Ledger" where
  "Rotate io l =
    (if l_closed l then (Inl ErrClosed, l)
     else case l_failed l of
       Some e \<Rightarrow> (Inl e, l)
     | None \<Rightarrow>
        (case l_active l of
           None \<Rightarrow>
             if l_indexErr l \<noteq> None
             then (case flushIndexLocked io 1 l of (Some e, l') \<Rightarrow> (Inl e, l') | (None, l') \<Rightarrow> (Inr None, l'))
             else (Inr None, l)
         | Some i \<Rightarrow>
             (case finalizeActiveLocked io l of
                (Some e, l') \<Rightarrow> (Inl e, l')
              | (None, l') \<Rightarrow> (Inr (Some (metadataWithFinalizedName (l_segments l ! i))), l'))))"

definition ensureActiveLocked :: "ledger_io \<Rightarrow> Cursor \<Rightarrow> Ledger \<Rightarrow> ledger_error option \<times> Ledger" where
  "ensureActiveLocked io first l =
    (if l_active l \<noteq> None then (None, l)
     else
       let name = segmentName first False in
       if tbl_get (l_files l) name \<noteq> None then (Some (IOFailure ''file exists''), l)
       else case io_open io ''create'' of
         Some e \<Rightarrow> (Some (IOFailure e), l)
       | None \<Rightarrow>
          (case io_sync io ''segment-create'' of
             Some e \<Rightarrow> (Some (IOFailure e), l)
           | None \<Rightarrow> (None, l\<lparr>l_segments := l_segments l @ [empty_metadata name (l_lastHash l) False],
               l_active := Some (length (l_segments l)), l_files := tbl_put name [] (l_files l)\<rparr>)))"

text \<open>
  A new file whose directory entry cannot be made durable is removed again; \<open>os.Remove\<close> of a file that was
  just created is taken to succeed.

  Taking back the bytes behind \<open>offset\<close>.  The errors are those of closing the file, opening it again,
  truncating, syncing and closing it, and of opening it for the next append.
\<close>

definition rollbackActiveLocked :: "ledger_io \<Rightarrow> nat \<Rightarrow> string \<Rightarrow> Ledger \<Rightarrow> ledger_error list \<times> Ledger" where
  "rollbackActiveLocked io offset path l =
    (let closeErr = io_err (io_close io ''rollback'') in
     case io_open io ''rollback'' of
       Some e \<Rightarrow> (join_errors [closeErr, Some (IOFailure e)], l)
     | None \<Rightarrow>
        (let truncateErr = io_err (io_truncate io);
             content = the (tbl_get (l_files l) path);
             l' = (if truncateErr = None then l\<lparr>l_files := tbl_put path (truncate_bytes offset content) (l_files l)\<rparr> else l);
             syncErr = (if truncateErr = None then io_err (io_sync io ''rollback'') else None);
             fileCloseErr = io_err (io_close io ''rollback-file'');
             reopenErr = io_err (io_open io ''rollback-reopen'') in
         (join_errors [closeErr, truncateErr, syncErr, fileCloseErr, reopenErr], l')))"

definition failAfterRollbackLocked :: "ledger_io \<Rightarrow> nat \<Rightarrow> string \<Rightarrow> ledger_error \<Rightarrow> Ledger \<Rightarrow> ledger_error \<times> Ledger" where
  "failAfterRollbackLocked io offset path appendErr l =
    (case rollbackActiveLocked io offset path l of
       ([], l') \<Rightarrow> (appendErr, l')
     | (es, l') \<Rightarrow> (let f = ErrRecoveryRequired (appendErr # es) in (f, l'\<lparr>l_failed := Some f\<rparr>)))"

text \<open>The encoding loop of \<open>appendBatchLocked\<close>: the stored records and their bytes.\<close>

fun encode_batch ::
  "(bytes \<Rightarrow> bytes) \<Rightarrow> Options \<Rightarrow> Cursor \<Rightarrow> bytes \<Rightarrow> Record list \<Rightarrow> Record list \<Rightarrow> bytes \<Rightarrow> ledger_error + (Record list \<times> bytes)" where
  "encode_batch sha options cursor previousHash [] stored encoded = Inr (stored, encoded)"
| "encode_batch sha options cursor previousHash (r # rs) stored encoded =
    (let r = r\<lparr>lr_Cursor := cursor\<rparr> in
     bind_r (marshalWireRecord sha r previousHash) (\<lambda>(wire, chainHash).
       case Marshal \<lparr>fr_Version = segmentFrameVersion, fr_Flags = 0, fr_Payload = wire\<rparr> (op_MaxFramePayload options) of
         Inl e \<Rightarrow> Inl (ErrFrame e)
       | Inr frame \<Rightarrow>
          if int (length encoded + length frame) > op_MaxSegmentBytes options
          then Inl (ErrRecordTooLarge (length encoded + length frame) (nat (op_MaxSegmentBytes options)))
          else encode_batch sha options (cursor + 1) chainHash rs (stored @ [r\<lparr>lr_ChainHash := chainHash\<rparr>]) (encoded @ frame)))"

definition rotate_if_full :: "ledger_io \<Rightarrow> nat \<Rightarrow> Ledger \<Rightarrow> ledger_error option \<times> Ledger" where
  "rotate_if_full io added l =
    (case l_active l of
       None \<Rightarrow> (None, l)
     | Some i \<Rightarrow>
        (let metadata = l_segments l ! i in
         if sm_FrameCount metadata > 0 \<and> int (sm_ByteSize metadata + added) > op_MaxSegmentBytes (l_options l)
         then finalizeActiveLocked io l else (None, l)))"

definition write_io_error :: "write_error \<Rightarrow> ledger_error" where
  "write_io_error e = (case e of ErrShortWrite \<Rightarrow> IOFailure ''short write'' | WriteFailure s \<Rightarrow> IOFailure s)"

text \<open>What a durable write changes: the metadata, the index, the head, and the subscribers.\<close>

definition commit_batch :: "(bytes \<Rightarrow> bytes) \<Rightarrow> ledger_io \<Rightarrow> nat \<Rightarrow> nat \<Rightarrow> Record list \<Rightarrow> Ledger \<Rightarrow> Ledger" where
  "commit_batch sha io i written stored l =
    (let metadata = fold note_record stored (l_segments l ! i);
         l = l\<lparr>l_segments := (l_segments l)[i := metadata\<lparr>sm_ByteSize := sm_ByteSize metadata + written\<rparr>],
               l_sources := fold (indexSourceRecord sha (nat (op_MaxSourceSequences (l_options l)))) stored (l_sources l),
               l_head := lr_Cursor (last stored), l_lastHash := lr_ChainHash (last stored)\<rparr>;
         l = snd (flushIndexLocked io 1 l) in
     l\<lparr>l_hub := fold publish stored (l_hub l)\<rparr>)"

definition write_batch ::
  "(bytes \<Rightarrow> bytes) \<Rightarrow> ledger_io \<Rightarrow> Record list \<Rightarrow> bytes \<Rightarrow> Ledger \<Rightarrow> (ledger_error + Record list) \<times> Ledger" where
  "write_batch sha io stored encoded l =
    (let i = the (l_active l); path = sm_Path (l_segments l ! i); offset = sm_ByteSize (l_segments l ! i) in
     case writeAll io (the (tbl_get (l_files l) path)) encoded of (content, written, err) \<Rightarrow>
       (let l = l\<lparr>l_files := tbl_put path content (l_files l)\<rparr>;
            err = (case err of Some e \<Rightarrow> Some (write_io_error e)
                   | None \<Rightarrow> fail_if (written \<noteq> length encoded) (IOFailure ''short write''));
            err = (case err of Some e \<Rightarrow> Some e | None \<Rightarrow> io_err (io_sync io ''append'')) in
        case err of
          Some e \<Rightarrow> (case failAfterRollbackLocked io offset path e l of (e', l') \<Rightarrow> (Inl e', l'))
        | None \<Rightarrow> (Inr stored, commit_batch sha io i written stored l)))"

definition appendBatchLocked ::
  "(bytes \<Rightarrow> bytes) \<Rightarrow> ledger_io \<Rightarrow> Record list \<Rightarrow> Ledger \<Rightarrow> (ledger_error + Record list) \<times> Ledger" where
  "appendBatchLocked sha io records l =
    (if records = [] then (Inr [], l)
     else case encode_batch sha (l_options l) (l_head l + 1) (l_lastHash l) records [] [] of
       Inl e \<Rightarrow> (Inl e, l)
     | Inr (stored, encoded) \<Rightarrow>
        (case rotate_if_full io (length encoded) l of
           (Some e, l) \<Rightarrow> (Inl e, l)
         | (None, l) \<Rightarrow>
            (case ensureActiveLocked io (lr_Cursor (hd stored)) l of
               (Some e, l) \<Rightarrow> (Inl e, l)
             | (None, l) \<Rightarrow> write_batch sha io stored encoded l)))"

section \<open>Operations\<close>

record AppendResult =
  ar_Records :: "Record list"
  ar_Duplicate :: bool

text \<open>The records that one input turns into.\<close>

definition plan_append ::
  "(bytes \<Rightarrow> bytes) \<Rightarrow> ledger_io \<Rightarrow> ctx \<Rightarrow> Record \<Rightarrow> Ledger \<Rightarrow> ledger_error + (Record list \<times> bool)" where
  "plan_append sha io ctx input l =
    (if \<not> lr_HasSourceSequence input then Inr ([input], False)
     else
       let state = sourceState (l_sources l) (source_key input); sequence = lr_SourceSequence input in
       bind_r
         (case map_of (ss_seen state) sequence of
            Some occurrence \<Rightarrow> Inr (Some occurrence)
          | None \<Rightarrow>
              if ss_hasMaximum state \<and> sequence \<le> ss_maximum state
              then findSourceOccurrenceLocked sha io ctx l (source_key input) sequence
              else Inr None)
         (\<lambda>found. case found of
            Some occurrence \<Rightarrow> Inr ([makeDuplicateRecord sha input occurrence], True)
          | None \<Rightarrow>
              Inr ((if ss_hasMaximum state \<and> ss_maximum state < - 1 \<and> sequence > ss_maximum state + 1
                    then [makeSequenceGapRecord input (ss_maximum state + 1) (sequence - 1)] else []) @ [input], False)))"

definition touch_input :: "Record \<Rightarrow> Ledger \<Rightarrow> Ledger" where
  "touch_input input l =
    (if lr_HasSourceSequence input then l\<lparr>l_sources := touch_source (source_key input) (l_sources l)\<rparr> else l)"

definition Append ::
  "(bytes \<Rightarrow> bytes) \<Rightarrow> ledger_io \<Rightarrow> ctx \<Rightarrow> Record \<Rightarrow> Ledger \<Rightarrow> (ledger_error + AppendResult) \<times> Ledger" where
  "Append sha io ctx input l =
    (case first_err [Record_Validate input, ctx 0, fail_if (l_closed l) ErrClosed, l_failed l, ctx 1] of
       Some e \<Rightarrow> (Inl e, l)
     | None \<Rightarrow>
        (let l = touch_input input l in
         case plan_append sha io ctx input l of
           Inl e \<Rightarrow> (Inl e, l)
         | Inr (records, duplicate) \<Rightarrow>
            (case appendBatchLocked sha io records l of
               (Inl e, l) \<Rightarrow> (Inl e, l)
             | (Inr stored, l) \<Rightarrow> (Inr \<lparr>ar_Records = stored, ar_Duplicate = duplicate\<rparr>, l))))"

definition AppendGap ::
  "(bytes \<Rightarrow> bytes) \<Rightarrow> ledger_io \<Rightarrow> ctx \<Rightarrow> Record \<Rightarrow> LedgerGap \<Rightarrow> Ledger \<Rightarrow> (ledger_error + Record) \<times> Ledger" where
  "AppendGap sha io ctx envelope gap l =
    (case Append sha io ctx (envelope\<lparr>lr_Kind := RecordGap, lr_Cursor := 0, lr_ChainHash := zero_hash32,
         lr_HasSourceSequence := False, lr_SourceSequence := 0, lr_Payload := [], lr_Duplicate := None, lr_Gap := Some gap\<rparr>) l of
       (Inl e, l) \<Rightarrow> (Inl e, l)
     | (Inr result, l) \<Rightarrow> (Inr (last (ar_Records result)), l))"

definition Ledger_Close :: "ledger_io \<Rightarrow> Ledger \<Rightarrow> ledger_error list \<times> Ledger" where
  "Ledger_Close io l =
    (if l_closed l then ([], l)
     else case l_failed l of
       Some f \<Rightarrow>
         (let closeErr = (if l_active l \<noteq> None then io_err (io_close io ''close'') else None) in
          (join_errors [Some f, closeErr], l\<lparr>l_active := None, l_closed := True, l_hub := hub_close f (l_hub l)\<rparr>))
     | None \<Rightarrow>
        (case finalizeActiveLocked io l of
           (Some e, l) \<Rightarrow> ([e], l)
         | (None, l) \<Rightarrow>
            (case (if l_indexErr l \<noteq> None then flushIndexLocked io 1 l else (None, l)) of
               (Some e, l) \<Rightarrow> ([e], l)
             | (None, l) \<Rightarrow> ([], l\<lparr>l_closed := True, l_hub := hub_close ErrClosed (l_hub l)\<rparr>))))"

definition Subscribe :: "(bytes \<Rightarrow> bytes) \<Rightarrow> ledger_io \<Rightarrow> Cursor \<Rightarrow> int \<Rightarrow> Ledger \<Rightarrow> (ledger_error + nat) \<times> Ledger" where
  "Subscribe sha io after capacity l =
    (let capacity = (if capacity = 0 then op_SubscriberBuffer (l_options l) else capacity) in
     case guarded [fail_if (capacity < 1) CapacityNotPositive, fail_if (l_closed l) ErrClosed, l_failed l,
         fail_if (after > l_head l) ErrCursorOutOfRange] (readAfterLocked sha io l after (l_head l) 0) of
       Inl e \<Rightarrow> (Inl e, l)
     | Inr history \<Rightarrow>
        (case hub_add (fold enqueueRecord history (newSubscription (nat capacity))) (l_hub l) of
           (result, hub) \<Rightarrow> (result, l\<lparr>l_hub := hub\<rparr>)))"

section \<open>Opening\<close>

definition is_segment_name :: "string \<Rightarrow> bool" where
  "is_segment_name name \<longleftrightarrow> HasPrefix name ''segment-'' \<and> (HasSuffix name ''.open'' \<or> HasSuffix name ''.seg'')"

definition discoverSegmentPaths :: "directory \<Rightarrow> ledger_error + string list" where
  "discoverSegmentPaths files =
    (let paths = filter is_segment_name (map fst files) in
     if length (filter (\<lambda>p. HasSuffix p ''.open'') paths) > 1 then Inl ErrMultipleOpenSegments else Inr (sort paths))"

text \<open>The outcome of repairing the tail of the open segment.\<close>

definition truncateAndSync :: "ledger_io \<Rightarrow> string \<Rightarrow> nat \<Rightarrow> directory \<Rightarrow> ledger_error + directory" where
  "truncateAndSync io path n files =
    guarded [io_err (io_open io ''repair''), io_err (io_truncate io), io_err (io_sync io ''repair'')]
      (Inr (tbl_put path (truncate_bytes n (the (tbl_get files path))) files))"

definition repair_tail :: "ledger_io \<Rightarrow> string \<Rightarrow> scannedSegment \<Rightarrow> Ledger \<Rightarrow> ledger_error + Ledger" where
  "repair_tail io path s l =
    (if \<not> sc_incompleteTail s then Inr l
     else if \<not> HasSuffix path ''.open''
     then Inl (corruption path (sc_lastGoodOffset s) (ErrFrame (ErrIncompleteFrame ''tail'' UnexpectedEOF)))
     else bind_r (truncateAndSync io path (sc_lastGoodOffset s) (l_files l)) (\<lambda>files.
       Inr (l\<lparr>l_files := files, l_repairs := l_repairs l @
         [\<lparr>rp_Segment = path, rp_Offset = sc_lastGoodOffset s, rp_RemovedBytes = sc_fileSize s - sc_lastGoodOffset s,
           rp_Cause = GapSegmentRepair\<rparr>]\<rparr>)))"

definition load_segment :: "(bytes \<Rightarrow> bytes) \<Rightarrow> string \<Rightarrow> scannedSegment \<Rightarrow> Ledger \<Rightarrow> Ledger" where
  "load_segment sha path s l =
    (let m = sc_metadata s;
         l = l\<lparr>l_segments := l_segments l @ [m],
               l_sources := fold (indexSourceRecord sha (nat (op_MaxSourceSequences (l_options l)))) (sc_records s) (l_sources l)\<rparr>;
         l = (if sm_FrameCount m > 0 then l\<lparr>l_head := sm_LastCursor m, l_lastHash := sm_LastHash m\<rparr> else l) in
     if HasSuffix path ''.open'' then l\<lparr>l_active := Some (length (l_segments l) - 1)\<rparr> else l)"

fun open_segments ::
  "(bytes \<Rightarrow> bytes) \<Rightarrow> ledger_io \<Rightarrow> string list \<Rightarrow> Cursor \<Rightarrow> bytes \<Rightarrow> Ledger \<Rightarrow> ledger_error + Ledger" where
  "open_segments sha io [] expectedCursor expectedHash l = Inr l"
| "open_segments sha io (path # rest) expectedCursor expectedHash l =
    (if HasSuffix path ''.open'' \<and> rest \<noteq> [] then Inl OpenSegmentNotLast
     else
       bind_r (scanSegment sha path (open_segment io (l_files l) path) (op_MaxFramePayload (l_options l)) expectedCursor expectedHash)
         (\<lambda>s. bind_r (repair_tail io path s l)
           (\<lambda>l. guarded [if HasSuffix path ''.open'' then io_err (io_open io ''append'') else None]
             (case segment_step s expectedCursor expectedHash of (c, h) \<Rightarrow>
                open_segments sha io rest c h (load_segment sha path s l)))))"

definition new_ledger :: "Options \<Rightarrow> directory \<Rightarrow> Ledger" where
  "new_ledger options files =
    \<lparr>l_options = options, l_segments = [], l_active = None, l_head = 0, l_lastHash = zero_hash32, l_sources = [],
     l_repairs = [], l_hub = newFanoutHub, l_indexErr = None, l_failed = None, l_closed = False, l_files = files\<rparr>"

text \<open>
  \<open>Open\<close> returns the directory as part of the ledger.  When it fails after it has truncated the tail of the open
  segment, the truncation stays on the disk, which the error value does not show.
\<close>

definition Open :: "(bytes \<Rightarrow> bytes) \<Rightarrow> (string \<Rightarrow> ledger_error + string) \<Rightarrow> ledger_io \<Rightarrow> Options \<Rightarrow> directory \<Rightarrow> ledger_error + Ledger" where
  "Open sha abspath io options files =
    bind_r (normalizeOptions abspath options) (\<lambda>options.
      guarded [io_err (io_open io ''directory'')]
        (bind_r (discoverSegmentPaths files) (\<lambda>paths.
          bind_r (open_segments sha io paths 1 zero_hash32 (new_ledger options files)) (\<lambda>l.
            case flushIndexLocked io 1 l of (Some e, l) \<Rightarrow> Inl e | (None, l) \<Rightarrow> Inr l))))"

end
