(* ===== verification/Ledger_Layout.thy ===== *)
theory Ledger_Layout
  imports Ledger_Store
begin

text \<open>
  How the segments of a ledger hold its history, and that reading them back is exact: whatever the
  operating system does, a read returns the requested stretch of the history or an error.
\<close>

section \<open>Segments that hold a history\<close>

text \<open>
  \<open>laid sha slack files h c segments hs\<close>: the segments hold the records \<open>hs\<close>, one list for each, behind a record
  with hash \<open>h\<close> and from position \<open>c\<close> on; behind its records a file may have the bytes \<open>slack\<close> gives for it.
\<close>

fun laid ::
  "(bytes \<Rightarrow> bytes) \<Rightarrow> (string \<Rightarrow> bytes) \<Rightarrow> directory \<Rightarrow> bytes \<Rightarrow> Cursor \<Rightarrow> SegmentMetadata list \<Rightarrow> Record list list \<Rightarrow> bool" where
  "laid sha slack files h c [] [] \<longleftrightarrow> True"
| "laid sha slack files h c (md # mds) (rs # hs) \<longleftrightarrow>
     (\<exists>fin. md = seg_meta sha h (segmentName c fin) fin rs) \<and>
     tbl_get files (sm_Path md) = Some (chain_bytes sha h rs @ slack (sm_Path md)) \<and>
     laid sha slack files (last_hash h rs) (c + of_nat (length rs)) mds hs"
| "laid sha slack files h c mds hs \<longleftrightarrow> False"

abbreviation no_slack :: "string \<Rightarrow> bytes" where
  "no_slack \<equiv> \<lambda>_. []"

lemma laid_length: "laid sha slack files h c mds hs \<Longrightarrow> length mds = length hs"
  by (induction sha slack files h c mds hs rule: laid.induct) auto

lemma laid_append:
  assumes "length mds = length hs"
  shows "laid sha slack files h c (mds @ mds') (hs @ hs') \<longleftrightarrow>
    laid sha slack files h c mds hs \<and>
    laid sha slack files (last_hash h (concat hs)) (c + of_nat (length (concat hs))) mds' hs'"
  using assms by (induction mds hs arbitrary: h c rule: list_induct2) (auto simp: add.assoc)

section \<open>Scanning a segment\<close>

lemma segment_step_records:
  assumes "chained sha m h c rs" "sc_metadata s = (fold note_record rs (empty_metadata path h fin))\<lparr>sm_ByteSize := n\<rparr>"
  shows "segment_step s c h = (c + of_nat (length rs), last_hash h rs)"
proof (cases "rs = []")
  case True
  then show ?thesis
    using assms(2) by (simp add: segment_step_def empty_metadata_def)
next
  case False
  then have "(0 :: uint64) < of_nat (length rs)"
    using chained_bound [OF assms(1)] by (simp add: word_less_nat_alt unat_of_nat)
  then show ?thesis
    using False assms chained_last [OF assms(1)]
    by (simp add: segment_step_def fold_note_record fold_note_last last_hash_last empty_metadata_def)
qed

lemma segment_step_chain:
  assumes "chained sha m h c rs" "sc_metadata s = seg_meta sha h path fin rs"
  shows "segment_step s c h = (c + of_nat (length rs), last_hash h rs)"
  using segment_step_records [OF assms(1)] assms(2) by (simp add: seg_meta_def)

definition scanned :: "(bytes \<Rightarrow> bytes) \<Rightarrow> bytes \<Rightarrow> string \<Rightarrow> Record list \<Rightarrow> bytes \<Rightarrow> scannedSegment" where
  "scanned sha h path rs tail =
    \<lparr>sc_metadata = seg_meta sha h path (HasSuffix path ''.seg'') rs, sc_records = rs,
     sc_lastGoodOffset = length (chain_bytes sha h rs), sc_incompleteTail = (tail \<noteq> []),
     sc_fileSize = length (chain_bytes sha h rs @ tail)\<rparr>"

text \<open>\<open>clean io\<close>: no call fails.\<close>

definition clean :: "ledger_io \<Rightarrow> bool" where
  "clean io \<longleftrightarrow> io_read io = (\<lambda>_. None) \<and> io_open io = (\<lambda>_. None) \<and> io_close io = (\<lambda>_. None) \<and> io_sync io = (\<lambda>_. None) \<and>
    io_truncate io = None \<and> io_rename io = None \<and> io_index io = (\<lambda>_. None) \<and>
    (\<forall>n bs. io_write io n bs = (length bs, None))"

definition readable :: "ledger_io \<Rightarrow> bool" where
  "readable io \<longleftrightarrow> io_read io = (\<lambda>_. None) \<and> io_open io ''scan'' = None"

definition readable_file :: "ledger_io \<Rightarrow> string \<Rightarrow> bool" where
  "readable_file io path \<longleftrightarrow> io_read io path = None \<and> io_open io ''scan'' = None"

lemma readable_files: "readable io \<Longrightarrow> readable_file io path"
  by (simp add: readable_def readable_file_def)

lemma clean_readable: "clean io \<Longrightarrow> readable io"
  by (simp add: clean_def readable_def)

lemma scan_readable:
  assumes "m \<noteq> 0" "\<And>x. length (sha x) = 32" "chained sha m h c rs" "length h = 32" "readable_file io path"
    "tbl_get files path = Some (chain_bytes sha h rs @ tail)" "torn_tail m (reader_of tail) (tail \<noteq> [])"
  shows "scanSegment sha path (open_segment io files path) m c h = Inr (scanned sha h path rs tail)"
  using scanSegment_chain [OF assms(1-4,7)] assms(5,6)
  by (simp add: open_segment_def readable_file_def scanned_def)

lemma scan_complete_readable:
  assumes "m \<noteq> 0" "\<And>x. length (sha x) = 32" "chained sha m h c rs" "length h = 32" "readable io"
    "tbl_get files path = Some (chain_bytes sha h rs)"
  shows "scan_complete sha io files m path c h = Inr (scanned sha h path rs [])"
proof -
  have "scanSegment sha path (open_segment io files path) m c h = Inr (scanned sha h path rs [])"
    using scan_readable [where sha = sha and tail = "[]"] assms torn_tail_end [OF assms(1)] readable_files by simp
  then show ?thesis
    by (simp add: scan_complete_def) (simp add: scanned_def)
qed

text \<open>A scan that is cut short by a failing read never passes for a complete one.\<close>

lemma scan_complete_exact:
  assumes "m \<noteq> 0" "\<And>x. length (sha x) = 32" "chained sha m h c rs" "length h = 32"
    "tbl_get files path = Some (chain_bytes sha h rs)" "scan_complete sha io files m path c h = Inr s"
  shows "s = scanned sha h path rs []"
proof (cases "readable (io\<lparr>io_read := (\<lambda>_. io_read io path)\<rparr>)")
  case True
  then have "open_segment io files path = open_segment (io\<lparr>io_read := (\<lambda>_. None)\<rparr>) files path"
    by (auto simp: open_segment_def readable_def fun_eq_iff split: option.splits)
  moreover have "readable (io\<lparr>io_read := (\<lambda>_. None)\<rparr>)"
    using True by (simp add: readable_def)
  ultimately have "scan_complete sha io files m path c h = Inr (scanned sha h path rs [])"
    using scan_complete_readable [where sha = sha and io = "io\<lparr>io_read := (\<lambda>_. None)\<rparr>"] assms by (simp add: scan_complete_def)
  then show ?thesis
    using assms(6) by simp
next
  case False
  show ?thesis
  proof (cases "io_open io ''scan''")
    case (Some e)
    then show ?thesis
      using assms(5,6) by (simp add: scan_complete_def open_segment_def scanSegment_def)
  next
    case None
    then obtain n e where cut: "io_read io path = Some (n, e)"
      using False by (auto simp: readable_def fun_eq_iff)
    then obtain s0 where loop: "scan_loop sha m path \<lparr>rd_data = take n (chain_bytes sha h rs), rd_failure = Some e\<rparr>
        \<lparr>sc_metadata = empty_metadata path h (HasSuffix path ''.seg''), sc_records = [], sc_lastGoodOffset = 0,
         sc_incompleteTail = False, sc_fileSize = length (chain_bytes sha h rs)\<rparr> h 0 c = Inr s0"
      and s0: "\<not> sc_incompleteTail s0"
      using None assms(5,6)
      by (auto simp: scan_complete_def open_segment_def scanSegment_def bind_r_Inr set_byte_size_def split: if_splits)
    then show ?thesis
      using failing_reader [OF loop] by simp
  qed
qed

section \<open>Reading the history\<close>

lemma take_wanted_append:
  "take_wanted a t l records (xs @ ys) =
    (case take_wanted a t l records xs of (True, records') \<Rightarrow> (True, records') | (False, records') \<Rightarrow> take_wanted a t l records' ys)"
  by (induction a t l records xs rule: take_wanted.induct) auto

lemma take_wanted_filter:
  "snd (take_wanted a t l records rs) =
    (let wanted = filter (\<lambda>r. a < lr_Cursor r \<and> lr_Cursor r \<le> t) rs in
     records @ (if l > 0 then take (max 1 (nat l - length records)) wanted else wanted))"
proof (induction a t l records rs rule: take_wanted.induct)
  case (2 a t l records r rs)
  then show ?case
    by (auto simp: Let_def take_Cons' max_def)
qed simp

text \<open>The facts about sizes that reading and opening need.\<close>

definition sound_chain :: "(bytes \<Rightarrow> bytes) \<Rightarrow> uint32 \<Rightarrow> bytes \<Rightarrow> Cursor \<Rightarrow> Record list \<Rightarrow> bool" where
  "sound_chain sha m h c rs \<longleftrightarrow> m \<noteq> 0 \<and> (\<forall>x. length (sha x) = 32) \<and> length h = 32 \<and> length rs < 2 ^ 64 \<and> chained sha m h c rs"

lemma sound_chain_append:
  "sound_chain sha m h c (rs @ ss) \<Longrightarrow>
    sound_chain sha m h c rs \<and> sound_chain sha m (last_hash h rs) (c + of_nat (length rs)) ss"
  by (auto simp: sound_chain_def intro: chained_hashes)

lemma read_segments_readable:
  assumes "laid sha no_slack files h c mds hs" "sound_chain sha m h c (concat hs)" "readable io"
  shows "read_segments sha io files m after through limit mds c h records =
    Inr (snd (take_wanted after through limit records (concat hs)))"
  using laid_length [OF assms(1)] assms(1,2)
proof (induction mds hs arbitrary: h c records rule: list_induct2)
  case (Cons md mds rs hs)
  note sc = sound_chain_append [of sha m h c rs "concat hs"]
  have scan: "scan_complete sha io files m (sm_Path md) c h = Inr (scanned sha h (sm_Path md) rs [])"
    by (rule scan_complete_readable) (use Cons.prems assms(3) sc in \<open>auto simp: sound_chain_def\<close>)
  have "segment_step (scanned sha h (sm_Path md) rs []) c h = (c + of_nat (length rs), last_hash h rs)"
    by (rule segment_step_chain) (use Cons.prems sc in \<open>auto simp: sound_chain_def scanned_def\<close>)
  then show ?case
    using Cons sc scan by (auto simp: take_wanted_append scanned_def split: prod.splits bool.splits)
qed simp

lemma read_segments_exact:
  assumes "laid sha no_slack files h c mds hs" "sound_chain sha m h c (concat hs)"
    "read_segments sha io files m after through limit mds c h records = Inr out"
  shows "out = snd (take_wanted after through limit records (concat hs))"
  using laid_length [OF assms(1)] assms
proof (induction mds hs arbitrary: h c records rule: list_induct2)
  case (Cons md mds rs hs)
  note sc = sound_chain_append [of sha m h c rs "concat hs"]
  obtain s where s: "scan_complete sha io files m (sm_Path md) c h = Inr s"
    using Cons.prems(3) by (auto simp: bind_r_Inr)
  have "s = scanned sha h (sm_Path md) rs []"
    by (rule scan_complete_exact [OF _ _ _ _ _ s]) (use Cons.prems sc in \<open>auto simp: sound_chain_def\<close>)
  moreover have "segment_step (scanned sha h (sm_Path md) rs []) c h = (c + of_nat (length rs), last_hash h rs)"
    by (rule segment_step_chain) (use Cons.prems sc in \<open>auto simp: sound_chain_def scanned_def\<close>)
  ultimately show ?case
    using Cons sc s by (auto simp: take_wanted_append scanned_def split: prod.splits bool.splits)
qed simp

lemma find_append: "find P (xs @ ys) = (case find P xs of Some x \<Rightarrow> Some x | None \<Rightarrow> find P ys)"
  by (induction xs) simp_all

lemma find_in_segments_exact:
  assumes "laid sha no_slack files h c mds hs" "sound_chain sha m h c (concat hs)"
    "find_in_segments sha io ctx k files m key sequence mds c h = Inr out"
  shows "out = map_option (occurrence_of sha) (find (is_occurrence key sequence) (concat hs))"
  using laid_length [OF assms(1)] assms
proof (induction mds hs arbitrary: h c k rule: list_induct2)
  case (Cons md mds rs hs)
  note sc = sound_chain_append [of sha m h c rs "concat hs"]
  obtain s where s: "scan_complete sha io files m (sm_Path md) c h = Inr s"
    using Cons.prems(3) by (auto simp: bind_r_Inr)
  have "s = scanned sha h (sm_Path md) rs []"
    by (rule scan_complete_exact [OF _ _ _ _ _ s]) (use Cons.prems sc in \<open>auto simp: sound_chain_def\<close>)
  moreover have "segment_step (scanned sha h (sm_Path md) rs []) c h = (c + of_nat (length rs), last_hash h rs)"
    by (rule segment_step_chain) (use Cons.prems sc in \<open>auto simp: sound_chain_def scanned_def\<close>)
  ultimately show ?case
    using Cons sc s by (auto simp: find_append scanned_def split: prod.splits option.splits)
qed simp

lemma find_in_segments_readable:
  assumes "laid sha no_slack files h c mds hs" "sound_chain sha m h c (concat hs)" "readable io" "ctx = (\<lambda>_. None)"
  shows "find_in_segments sha io ctx k files m key sequence mds c h =
    Inr (map_option (occurrence_of sha) (find (is_occurrence key sequence) (concat hs)))"
  using laid_length [OF assms(1)] assms(1,2)
proof (induction mds hs arbitrary: h c k rule: list_induct2)
  case (Cons md mds rs hs)
  note sc = sound_chain_append [of sha m h c rs "concat hs"]
  have scan: "scan_complete sha io files m (sm_Path md) c h = Inr (scanned sha h (sm_Path md) rs [])"
    by (rule scan_complete_readable) (use Cons.prems assms(3) sc in \<open>auto simp: sound_chain_def\<close>)
  have "segment_step (scanned sha h (sm_Path md) rs []) c h = (c + of_nat (length rs), last_hash h rs)"
    by (rule segment_step_chain) (use Cons.prems sc in \<open>auto simp: sound_chain_def scanned_def\<close>)
  then show ?case
    using Cons sc scan assms(4) by (auto simp: find_append scanned_def split: prod.splits option.splits)
qed simp

text \<open>The records behind a position are a suffix of the history.\<close>

lemma filter_after:
  assumes "chained sha m h c rs" "unat c + length rs < 2 ^ 64"
  shows "filter (\<lambda>r. after < lr_Cursor r) rs = drop (unat after + 1 - unat c) rs"
  using assms
proof (induction rs arbitrary: h c)
  case (Cons r rs)
  have "unat (c + 1) = unat c + 1"
    using Cons.prems(2) by (simp add: unat_word_ariths)
  then have "filter (\<lambda>r. after < lr_Cursor r) rs = drop (unat after - unat c) rs"
    using Cons.IH [of "lr_ChainHash r" "c + 1"] Cons.prems by auto
  then show ?case
    using Cons.prems(1) by (cases "unat after < unat c") (auto simp: word_less_nat_alt Suc_diff_le not_less)
qed simp

lemma history_after:
  assumes "chained sha m h 1 rs" "length rs + 1 < 2 ^ 64"
  shows "filter (\<lambda>r. after < lr_Cursor r) rs = drop (unat after) rs"
  using filter_after [OF assms(1)] assms(2) by simp

lemma cursor_le_head:
  assumes "chained sha m h 1 rs" "length rs < 2 ^ 64" "r \<in> set rs"
  shows "lr_Cursor r \<le> of_nat (length rs)"
proof -
  obtain i where i: "i < length rs" "r = rs ! i"
    using assms(3) by (auto simp: in_set_conv_nth)
  then have "lr_Cursor r = of_nat (Suc i)"
    using chained_nth [OF assms(1) i(1)] by simp
  then show ?thesis
    using i(1) assms(2) by (simp only: word_le_nat_alt unat_of_nat) (simp add: take_bit_nat_eq_self)
qed

end
