(* ===== verification/Ledger_Sources.thy ===== *)
theory Ledger_Sources
  imports Ledger_Layout
begin

text \<open>
  The index of source sequences and its specification.  The index remembers a bounded window of the
  sequences of each source and falls back to the segments for older ones; together they decide exactly
  whether a sequence was stored before.
\<close>

section \<open>What the index knows\<close>

definition occurrences :: "sourceKey \<Rightarrow> Record list \<Rightarrow> Record list" where
  "occurrences key history = filter (\<lambda>r. sequenced r \<and> source_key r = key) history"

definition window_ok :: "nat \<Rightarrow> sourceState \<Rightarrow> bool" where
  "window_ok n s \<longleftrightarrow> distinct (ss_order s) \<and> set (ss_order s) = dom (map_of (ss_seen s)) \<and>
    length (ss_order s) \<le> n \<and> ss_next s < n"

definition maximum_ok :: "Record list \<Rightarrow> sourceState \<Rightarrow> bool" where
  "maximum_ok occ s \<longleftrightarrow> (ss_hasMaximum s \<longleftrightarrow> occ \<noteq> []) \<and>
    (ss_hasMaximum s \<longrightarrow> ss_maximum s = Max (lr_SourceSequence ` set occ))"

definition seen_ok :: "(bytes \<Rightarrow> bytes) \<Rightarrow> Record list \<Rightarrow> sourceState \<Rightarrow> bool" where
  "seen_ok sha occ s \<longleftrightarrow>
    (\<forall>q x. map_of (ss_seen s) q = Some x \<longrightarrow> (\<exists>r \<in> set occ. lr_SourceSequence r = q \<and> x = occurrence_of sha r))"

definition sources_ok :: "(bytes \<Rightarrow> bytes) \<Rightarrow> nat \<Rightarrow> Record list \<Rightarrow> (sourceKey \<times> sourceState) list \<Rightarrow> bool" where
  "sources_ok sha n history sources \<longleftrightarrow>
    (\<forall>key. let s = sourceState sources key; occ = occurrences key history in
       window_ok n s \<and> maximum_ok occ s \<and> seen_ok sha occ s)"

text \<open>No source sequence is stored twice.\<close>

definition stored_once :: "Record list \<Rightarrow> bool" where
  "stored_once history \<longleftrightarrow> (\<forall>key. distinct (map lr_SourceSequence (occurrences key history)))"

lemma occurrences_append [simp]: "occurrences key (xs @ ys) = occurrences key xs @ occurrences key ys"
  by (simp add: occurrences_def)

lemma sourceState_update [simp]:
  "sourceState (AList.update k s sources) key = (if key = k then s else sourceState sources key)"
  by (simp add: sourceState_def update_conv')

lemma sourceState_touch [simp]: "sourceState (touch_source k sources) key = sourceState sources key"
  by (simp add: touch_source_def)

lemma sources_okD:
  assumes "sources_ok sha n history sources"
  shows "window_ok n (sourceState sources key)" "maximum_ok (occurrences key history) (sourceState sources key)"
    "seen_ok sha (occurrences key history) (sourceState sources key)"
  using assms unfolding sources_ok_def Let_def by blast+

lemma stored_onceD: "stored_once history \<Longrightarrow> distinct (map lr_SourceSequence (occurrences key history))"
  unfolding stored_once_def by blast

lemma sources_ok_touch: "sources_ok sha n history sources \<Longrightarrow> sources_ok sha n history (touch_source k sources)"
  by (simp add: sources_ok_def)

lemma sources_ok_empty: "0 < n \<Longrightarrow> sources_ok sha n [] []"
  by (simp add: sources_ok_def sourceState_def empty_source_def window_ok_def maximum_ok_def seen_ok_def occurrences_def)

lemma set_list_update_distinct:
  "distinct xs \<Longrightarrow> i < length xs \<Longrightarrow> set (xs[i := x]) = insert x (set xs - {xs ! i})"
  by (simp add: set_update_distinct)

lemma window_remember:
  assumes "window_ok n s" "map_of (ss_seen s) q = None"
  shows "window_ok n ((remember n q s)\<lparr>ss_seen := AList.update q x (ss_seen (remember n q s))\<rparr>)"
proof (cases "length (ss_order s) < n")
  case True
  then show ?thesis
    using assms by (auto simp: window_ok_def remember_def update_conv')
next
  case False
  have w: "distinct (ss_order s)" "set (ss_order s) = dom (map_of (ss_seen s))" "length (ss_order s) = n" "ss_next s < n"
    using assms(1) False by (auto simp: window_ok_def)
  have q: "q \<notin> set (ss_order s)"
    using assms(2) w(2) by auto
  let ?old = "ss_order s ! ss_next s"
  have "set ((ss_order s)[ss_next s := q]) = insert q (set (ss_order s) - {?old})"
    using w by (simp add: set_list_update_distinct)
  moreover have "dom (map_of (AList.update q x (AList.delete ?old (ss_seen s)))) = insert q (set (ss_order s) - {?old})"
    using w(2) by (auto simp: update_conv' delete_conv' split: if_splits)
  moreover have "distinct ((ss_order s)[ss_next s := q])"
    using w(1) q by (simp add: distinct_list_update)
  ultimately show ?thesis
    using w False assms(2) by (simp add: window_ok_def remember_def)
qed

lemma window_known:
  assumes "window_ok n s" "map_of (ss_seen s) q \<noteq> None"
  shows "window_ok n ((remember n q s)\<lparr>ss_seen := AList.update q x (ss_seen (remember n q s))\<rparr>)"
  using assms by (auto simp: window_ok_def remember_def update_conv')

lemma window_index: "window_ok n s \<Longrightarrow> window_ok n (index_state sha n r s)"
  using window_remember [of n s "lr_SourceSequence r" "occurrence_of sha r"]
    window_known [of n s "lr_SourceSequence r" "occurrence_of sha r"]
  by (cases "map_of (ss_seen s) (lr_SourceSequence r)") (auto simp: index_state_def Let_def window_ok_def)

lemma remember_maximum: "ss_hasMaximum (remember n q s) = ss_hasMaximum s" "ss_maximum (remember n q s) = ss_maximum s"
  by (simp_all add: remember_def)

lemma remember_seen: "map_of (ss_seen (remember n q s)) p = Some x \<Longrightarrow> map_of (ss_seen s) p = Some x"
  by (auto simp: remember_def delete_conv' split: if_splits)

lemma maximum_index:
  assumes "maximum_ok occ s"
  shows "maximum_ok (occ @ [r]) (index_state sha n r s)"
proof (cases "occ = []")
  case True
  then show ?thesis
    using assms by (simp add: maximum_ok_def index_state_def Let_def remember_maximum)
next
  case False
  then have "Max (lr_SourceSequence ` set (occ @ [r])) = max (lr_SourceSequence r) (Max (lr_SourceSequence ` set occ))"
    by simp
  then show ?thesis
    using False assms
    by (simp add: maximum_ok_def index_state_def Let_def remember_maximum del: set_append Max_less_iff Max_ge_iff)
qed

lemma seen_index: "seen_ok sha occ s \<Longrightarrow> seen_ok sha (occ @ [r]) (index_state sha n r s)"
  by (auto simp: seen_ok_def index_state_def Let_def update_conv' split: if_splits dest!: remember_seen)

lemma sources_ok_index:
  assumes "sources_ok sha n history sources"
  shows "sources_ok sha n (history @ [r]) (indexSourceRecord sha n r sources)"
  using assms
  by (auto simp: sources_ok_def Let_def indexSourceRecord_def window_index maximum_index seen_index)
    (simp_all add: occurrences_def window_index maximum_index seen_index)

lemma sources_ok_fold:
  "sources_ok sha n history sources \<Longrightarrow> sources_ok sha n (history @ rs) (fold (indexSourceRecord sha n) rs sources)"
proof (induction rs arbitrary: history sources)
  case (Cons r rs)
  then show ?case
    using sources_ok_index [of sha n history sources r] by fastforce
qed simp

section \<open>What an input turns into\<close>

text \<open>
  The specification of planning an append: over the whole history, a sequence that was stored becomes a
  duplicate that points to its record, a jump beyond the largest stored sequence is preceded by a gap
  that names what is missing, and everything else is stored as it is.
\<close>

definition spec_plan :: "(bytes \<Rightarrow> bytes) \<Rightarrow> Record list \<Rightarrow> Record \<Rightarrow> Record list \<times> bool" where
  "spec_plan sha history input =
    (let key = source_key input; q = lr_SourceSequence input; known = lr_SourceSequence ` set (occurrences key history) in
     if \<not> lr_HasSourceSequence input then ([input], False)
     else case find (is_occurrence key q) history of
       Some r \<Rightarrow> ([makeDuplicateRecord sha input (occurrence_of sha r)], True)
     | None \<Rightarrow>
        ((if known \<noteq> {} \<and> unat (Max known) + 1 < unat q then [makeSequenceGapRecord input (Max known + 1) (q - 1)] else []) @ [input],
         False))"

lemma find_occurrence: "find (is_occurrence key q) history = find (\<lambda>r. lr_SourceSequence r = q) (occurrences key history)"
  by (induction history) (simp_all add: is_occurrence_def occurrences_def)

lemma find_distinct: "distinct (map f xs) \<Longrightarrow> x \<in> set xs \<Longrightarrow> find (\<lambda>y. f y = f x) xs = Some x"
  by (induction xs) auto

lemma find_stored:
  assumes "stored_once history" "r \<in> set (occurrences key history)"
  shows "find (is_occurrence key (lr_SourceSequence r)) history = Some r"
  using find_distinct [OF stored_onceD [OF assms(1)] assms(2)] by (simp add: find_occurrence)

lemma seen_known:
  assumes "sources_ok sha n history sources" "stored_once history" "map_of (ss_seen (sourceState sources key)) q = Some x"
  shows "\<exists>r. find (is_occurrence key q) history = Some r \<and> x = occurrence_of sha r"
proof -
  obtain r where "r \<in> set (occurrences key history)" "lr_SourceSequence r = q" "x = occurrence_of sha r"
    using sources_okD(3) [OF assms(1), of key] assms(3) unfolding seen_ok_def by blast
  then show ?thesis
    using find_stored [OF assms(2)] by blast
qed

lemma beyond_maximum:
  assumes "sources_ok sha n history sources" "\<not> (ss_hasMaximum (sourceState sources key) \<and> q \<le> ss_maximum (sourceState sources key))"
  shows "find (is_occurrence key q) history = None"
proof -
  have "maximum_ok (occurrences key history) (sourceState sources key)"
    using assms(1) by (rule sources_okD)
  then have "q \<notin> lr_SourceSequence ` set (occurrences key history)"
    using assms(2) by (cases "occurrences key history = []") (auto simp: maximum_ok_def)
  then show ?thesis
    by (auto simp: find_occurrence find_None_iff)
qed

lemma after_maximum:
  "(m < (- 1 :: uint64) \<and> m + 1 < q) \<longleftrightarrow> unat m + 1 < unat q"
proof (cases "m = - 1")
  case True
  then show ?thesis
    using unsigned_less [of q, where ?'a = nat] by (simp add: unsigned_minus_1_eq_mask mask_eq_exp_minus_1)
next
  case False
  then have "unat (m + 1) = unat m + 1"
    by (metis add.commute max_word_max order_le_less unatSuc plus_1_eq_Suc word_order.extremum_strict add_eq_0_iff2)
  moreover have "m < - 1"
    using False by (simp add: word_order.not_eq_extremum)
  ultimately show ?thesis
    by (simp add: word_less_nat_alt)
qed

text \<open>The detailed planning, with its window and the segments, meets the specification.\<close>

lemma plan_append_refines:
  assumes ok: "sources_ok sha n history (l_sources l)" "stored_once history"
    and lookup: "\<And>key q out. findSourceOccurrenceLocked sha io ctx l key q = Inr out \<Longrightarrow>
      out = map_option (occurrence_of sha) (find (is_occurrence key q) history)"
    and plan: "plan_append sha io ctx input l = Inr out"
  shows "out = spec_plan sha history input"
proof (cases "lr_HasSourceSequence input")
  case True
  let ?key = "source_key input" and ?q = "lr_SourceSequence input"
  let ?s = "sourceState (l_sources l) ?key" and ?found = "find (is_occurrence ?key ?q) history"
  have max: "ss_hasMaximum ?s = (occurrences ?key history \<noteq> [])"
      "occurrences ?key history \<noteq> [] \<Longrightarrow> ss_maximum ?s = Max (lr_SourceSequence ` set (occurrences ?key history))"
    using sources_okD(2) [OF ok(1), of ?key] by (auto simp: maximum_ok_def)
  define found where "found = (case map_of (ss_seen ?s) ?q of Some occurrence \<Rightarrow> Inr (Some occurrence)
      | None \<Rightarrow> if ss_hasMaximum ?s \<and> ?q \<le> ss_maximum ?s then findSourceOccurrenceLocked sha io ctx l ?key ?q else Inr None)"
  obtain v where v: "found = Inr v"
    using plan True by (auto simp: plan_append_def Let_def bind_r_Inr found_def)
  have "v = map_option (occurrence_of sha) ?found"
  proof (cases "map_of (ss_seen ?s) ?q")
    case None
    then show ?thesis
      using v lookup beyond_maximum [OF ok(1)] by (auto simp: found_def split: if_splits)
  next
    case (Some x)
    then show ?thesis
      using v seen_known [OF ok Some] by (auto simp: found_def)
  qed
  then show ?thesis
    using plan True v max after_maximum [of "ss_maximum ?s" ?q]
    by (cases ?found) (auto simp: plan_append_def spec_plan_def Let_def found_def [symmetric])
qed (use plan in \<open>simp add: plan_append_def spec_plan_def\<close>)

lemma not_sequenced:
  "\<not> sequenced (makeDuplicateRecord sha r x)" "\<not> sequenced (makeSequenceGapRecord r a b)"
  by (simp_all add: sequenced_def makeDuplicateRecord_def makeSequenceGapRecord_def)

lemma same_sequences:
  assumes "map (\<lambda>r. (sequenced r, source_key r, lr_SourceSequence r)) xs = map (\<lambda>r. (sequenced r, source_key r, lr_SourceSequence r)) ys"
  shows "map lr_SourceSequence (occurrences key xs) = map lr_SourceSequence (occurrences key ys)"
  using map_eq_imp_length_eq [OF assms] assms
  by (induction xs ys rule: list_induct2) (auto simp: occurrences_def)

lemma occurrences_Cons: "occurrences key (r # rs) = (if sequenced r \<and> source_key r = key then [r] else []) @ occurrences key rs"
  by (simp add: occurrences_def)

lemma occurrences_Nil [simp]: "occurrences key [] = []"
  by (simp add: occurrences_def)

lemma occurrences_plan:
  "occurrences key (fst (spec_plan sha history input)) =
    (if sequenced input \<and> source_key input = key \<and> find (is_occurrence key (lr_SourceSequence input)) history = None
     then [input] else [])"
proof -
  have "\<not> lr_HasSourceSequence input \<Longrightarrow> \<not> sequenced input"
    by (simp add: sequenced_def)
  then show ?thesis
    by (auto simp: spec_plan_def Let_def occurrences_Cons not_sequenced split: option.splits)
qed

lemma stored_once_plan:
  assumes "stored_once history"
    and same: "map (\<lambda>r. (sequenced r, source_key r, lr_SourceSequence r)) stored =
      map (\<lambda>r. (sequenced r, source_key r, lr_SourceSequence r)) (fst (spec_plan sha history input))"
  shows "stored_once (history @ stored)"
  unfolding stored_once_def
proof
  fix key
  let ?plan = "fst (spec_plan sha history input)"
  have seqs: "map lr_SourceSequence (occurrences key stored) = map lr_SourceSequence (occurrences key ?plan)"
    using same by (rule same_sequences)
  show "distinct (map lr_SourceSequence (occurrences key (history @ stored)))"
  proof (cases "occurrences key ?plan")
    case Nil
    then show ?thesis
      using seqs stored_onceD [OF assms(1), of key] by simp
  next
    case (Cons r rs)
    then have r: "r = input" "rs = []" "key = source_key input" "find (is_occurrence key (lr_SourceSequence input)) history = None"
      by (auto simp: occurrences_plan split: if_splits)
    then have "lr_SourceSequence input \<notin> lr_SourceSequence ` set (occurrences key history)"
      by (auto simp: find_occurrence find_None_iff)
    then show ?thesis
      using seqs Cons r stored_onceD [OF assms(1), of key] by simp
  qed
qed

end
