(* ===== verification/Ledger_Invariant.thy ===== *)
theory Ledger_Invariant
  imports Ledger_Sources
begin

text \<open>
  The invariant of an open ledger, which relates its segments, files, head and index to the history they
  stand for, and that appending refines the specification: a successful append extends the history by
  exactly what the specification plans, and a failed one leaves the history as it was.
\<close>

section \<open>Directories that hold a history\<close>

text \<open>
  The directory holds the histories \<open>hs\<close> in the segments \<open>mds\<close> and no other segment file.  Only the last
  segment may be open, a finalized one is not empty and has no bytes behind its records.
\<close>

definition disk_ok :: "(bytes \<Rightarrow> bytes) \<Rightarrow> (string \<Rightarrow> bytes) \<Rightarrow> directory \<Rightarrow> SegmentMetadata list \<Rightarrow> Record list list \<Rightarrow> bool" where
  "disk_ok sha slack files mds hs \<longleftrightarrow>
    laid sha slack files zero_hash32 1 mds hs \<and>
    (\<forall>(md, rs) \<in> set (zip mds hs). sm_Finalized md \<longrightarrow> rs \<noteq> [] \<and> slack (sm_Path md) = []) \<and>
    (\<forall>md \<in> set (butlast mds). sm_Finalized md) \<and>
    distinct (map fst files) \<and>
    {p \<in> fst ` set files. is_segment_name p} = sm_Path ` set mds"

lemma segmentName_is_segment [simp]: "is_segment_name (segmentName c f)"
proof -
  have "HasPrefix (segmentName c f) ''segment-''"
    unfolding segmentName_def by (rule HasPrefix_append)
  then show ?thesis
    by (cases f) (simp_all add: is_segment_name_def)
qed

lemma laid_paths:
  assumes "laid sha slack files h c mds hs" "md \<in> set mds"
  shows "\<exists>d fin. sm_Path md = segmentName d fin \<and> sm_Finalized md = fin"
  using assms by (induction sha slack files h c mds hs rule: laid.induct) auto

lemma laid_paths_after:
  assumes "laid sha slack files h c mds hs" "md \<in> set mds" "unat c + length (concat hs) < 2 ^ 64"
  shows "\<exists>d fin. sm_Path md = segmentName d fin \<and> c \<le> d"
  using assms
proof (induction sha slack files h c mds hs rule: laid.induct)
  case (2 sha slack files h c md' mds rs hs)
  have u: "unat (c + of_nat (length rs)) = unat c + length rs"
    using "2.prems"(3) by (simp add: unat_word_ariths unat_of_nat)
  show ?case
  proof (cases "md = md'")
    case True
    then show ?thesis
      using "2.prems"(1) by (auto intro!: exI [of _ c])
  next
    case False
    then obtain d fin where "sm_Path md = segmentName d fin" "c + of_nat (length rs) \<le> d"
      using 2 u by auto
    moreover have "c \<le> c + of_nat (length rs)"
      by (simp add: word_le_nat_alt u)
    ultimately show ?thesis
      by (meson order_trans)
  qed
qed auto

lemma laid_sorted:
  assumes "laid sha slack files h c mds hs" "unat c + length (concat hs) < 2 ^ 64"
    "\<forall>rs \<in> set (butlast hs). rs \<noteq> []"
  shows "sorted_wrt (<) (map sm_Path mds)"
  using assms
proof (induction sha slack files h c mds hs rule: laid.induct)
  case (2 sha slack files h c md mds rs hs)
  show ?case
  proof (cases "mds = []")
    case False
    then have "hs \<noteq> []"
      using "2.prems"(1) laid_length by fastforce
    then have rs: "rs \<noteq> []" "\<forall>rs \<in> set (butlast hs). rs \<noteq> []"
      using "2.prems"(3) by auto
    have u: "unat (c + of_nat (length rs)) = unat c + length rs"
      using "2.prems"(2) by (simp add: unat_word_ariths unat_of_nat)
    have rest: "laid sha slack files (last_hash h rs) (c + of_nat (length rs)) mds hs"
        "unat (c + of_nat (length rs)) + length (concat hs) < 2 ^ 64"
      using "2.prems" u by auto
    have less: "c < c + of_nat (length rs)"
      using rs(1) u by (simp add: word_less_nat_alt)
    have "sm_Path md < sm_Path md'" if md': "md' \<in> set mds" for md'
    proof -
      obtain d fin where d: "sm_Path md' = segmentName d fin" "c < d"
        using laid_paths_after [OF rest(1) md' rest(2)] less by (auto dest: less_le_trans)
      then show ?thesis
        using "2.prems"(1) segmentName_less [OF d(2)] by auto
    qed
    then have "\<forall>p \<in> set (map sm_Path mds). sm_Path md < p"
      by auto
    then show ?thesis
      using "2.IH" rest rs(2) by simp
  qed simp
qed auto

lemma zip_butlast: "length xs = length ys \<Longrightarrow> zip (butlast xs) (butlast ys) = butlast (zip xs ys)"
  by (induction xs ys rule: list_induct2) auto

lemma disk_nonempty:
  assumes "disk_ok sha slack files mds hs"
  shows "\<forall>rs \<in> set (butlast hs). rs \<noteq> []"
proof
  fix rs assume "rs \<in> set (butlast hs)"
  moreover have len: "length mds = length hs"
    using assms laid_length by (auto simp: disk_ok_def)
  ultimately obtain md where md: "(md, rs) \<in> set (zip (butlast mds) (butlast hs))"
    by (metis length_butlast in_set_impl_in_set_zip2)
  then have "sm_Finalized md"
    using assms by (auto simp: disk_ok_def dest: set_zip_leftD)
  moreover have "(md, rs) \<in> set (zip mds hs)"
    using md len by (auto simp: zip_butlast dest: in_set_butlastD)
  ultimately show "rs \<noteq> []"
    using assms by (auto simp: disk_ok_def)
qed

lemma disk_sorted:
  assumes "disk_ok sha slack files mds hs" "length (concat hs) + 1 < 2 ^ 64"
  shows "sorted_wrt (<) (map sm_Path mds)"
  using laid_sorted [OF _ _ disk_nonempty [OF assms(1)], of sha slack files zero_hash32 1] assms
  by (simp add: disk_ok_def)

lemma length_filter_sort: "sort xs = ys \<Longrightarrow> length (filter P xs) = length (filter P ys)"
  using filter_sort [of P "\<lambda>x. x" xs] by auto

text \<open>The segments are discovered in their order.\<close>

lemma disk_discovered:
  assumes "disk_ok sha slack files mds hs" "length (concat hs) + 1 < 2 ^ 64"
  shows "discoverSegmentPaths files = Inr (map sm_Path mds)"
proof -
  let ?paths = "filter is_segment_name (map fst files)"
  have strict: "sorted_wrt (<) (map sm_Path mds)"
    by (rule disk_sorted [OF assms])
  have set: "set ?paths = set (map sm_Path mds)" and dist: "distinct ?paths"
    using assms(1) by (auto simp: disk_ok_def)
  have sort: "sort ?paths = map sm_Path mds"
    using strict set dist by (intro sorted_distinct_set_unique) (auto simp: strict_sorted_iff)
  have "length (filter (\<lambda>p. HasSuffix p ''.open'') ?paths) = length (filter (\<lambda>p. HasSuffix p ''.open'') (map sm_Path mds))"
    by (rule length_filter_sort [OF sort])
  also have "\<dots> = length (filter (\<lambda>md. \<not> sm_Finalized md) mds)"
  proof -
    have "HasSuffix (sm_Path md) ''.open'' = (\<not> sm_Finalized md)" if "md \<in> set mds" for md
      using laid_paths [of sha slack files zero_hash32 1 mds hs md] assms(1) that by (auto simp: disk_ok_def)
    then show ?thesis
      by (simp add: filter_map comp_def cong: filter_cong)
  qed
  also have "\<dots> \<le> 1"
  proof (cases mds rule: rev_cases)
    case (snoc ys y)
    then have "filter (\<lambda>md. \<not> sm_Finalized md) ys = []"
      using assms(1) by (simp add: disk_ok_def filter_empty_conv)
    then show ?thesis
      by (simp add: snoc)
  qed simp
  finally show ?thesis
    using sort by (simp add: discoverSegmentPaths_def Let_def)
qed

section \<open>The invariant\<close>

text \<open>\<open>tail_at mds torn\<close>: only the last segment has bytes behind its records, namely \<open>torn\<close>.\<close>

definition tail_at :: "SegmentMetadata list \<Rightarrow> bytes \<Rightarrow> string \<Rightarrow> bytes" where
  "tail_at mds torn = (\<lambda>p. if mds \<noteq> [] \<and> p = sm_Path (last mds) then torn else [])"

lemma tail_at_Nil [simp]: "tail_at mds [] = no_slack"
  by (auto simp: tail_at_def)

text \<open>
  The ledger stands for the history \<open>concat hs\<close>, laid out as \<open>hs\<close>, with \<open>torn\<close> bytes of an append that failed
  and could not be taken back.
\<close>

definition ledger_inv :: "(bytes \<Rightarrow> bytes) \<Rightarrow> Ledger \<Rightarrow> Record list list \<Rightarrow> bytes \<Rightarrow> bool" where
  "ledger_inv sha l hs torn \<longleftrightarrow>
    sound_chain sha (op_MaxFramePayload (l_options l)) zero_hash32 1 (concat hs) \<and>
    length (concat hs) + 1 < 2 ^ 64 \<and> 0 < op_MaxSourceSequences (l_options l) \<and>
    disk_ok sha (tail_at (l_segments l) torn) (l_files l) (l_segments l) hs \<and>
    l_active l = (if l_segments l \<noteq> [] \<and> \<not> sm_Finalized (last (l_segments l)) then Some (length (l_segments l) - 1) else None) \<and>
    l_head l = of_nat (length (concat hs)) \<and> l_lastHash l = last_hash zero_hash32 (concat hs) \<and>
    sources_ok sha (nat (op_MaxSourceSequences (l_options l))) (concat hs) (l_sources l) \<and> stored_once (concat hs) \<and>
    (l_segments l = [] \<longrightarrow> torn = [])"

lemma ledger_invD:
  assumes "ledger_inv sha l hs torn"
  shows "sound_chain sha (op_MaxFramePayload (l_options l)) zero_hash32 1 (concat hs)"
    "length (concat hs) + 1 < 2 ^ 64" "0 < op_MaxSourceSequences (l_options l)"
    "disk_ok sha (tail_at (l_segments l) torn) (l_files l) (l_segments l) hs"
    "l_active l = (if l_segments l \<noteq> [] \<and> \<not> sm_Finalized (last (l_segments l)) then Some (length (l_segments l) - 1) else None)"
    "l_head l = of_nat (length (concat hs))" "l_lastHash l = last_hash zero_hash32 (concat hs)"
    "sources_ok sha (nat (op_MaxSourceSequences (l_options l))) (concat hs) (l_sources l)" "stored_once (concat hs)"
    "laid sha (tail_at (l_segments l) torn) (l_files l) zero_hash32 1 (l_segments l) hs"
    "length (l_segments l) = length hs" "l_segments l = [] \<Longrightarrow> torn = []"
  using assms laid_length by (auto simp: ledger_inv_def disk_ok_def)

text \<open>Nothing but the listed fields matters.\<close>

lemma ledger_inv_cong:
  assumes "l_options l' = l_options l" "l_segments l' = l_segments l" "l_active l' = l_active l" "l_head l' = l_head l"
    "l_lastHash l' = l_lastHash l" "l_sources l' = l_sources l" "l_files l' = l_files l"
  shows "ledger_inv sha l' hs torn = ledger_inv sha l hs torn"
  using assms by (simp add: ledger_inv_def)

section \<open>Reading an open ledger\<close>

definition history_from :: "Record list \<Rightarrow> Cursor \<Rightarrow> int \<Rightarrow> Record list" where
  "history_from history after limit =
    (let rest = drop (unat after) history in if limit > 0 then take (nat limit) rest else rest)"

lemma wanted_history:
  assumes "ledger_inv sha l hs torn"
  shows "snd (take_wanted after (l_head l) limit [] (concat hs)) = history_from (concat hs) after limit"
proof -
  note inv = ledger_invD [OF assms]
  let ?H = "concat hs"
  have ch: "chained sha (op_MaxFramePayload (l_options l)) zero_hash32 1 ?H"
    using inv(1) by (simp add: sound_chain_def)
  have "filter (\<lambda>r. after < lr_Cursor r \<and> lr_Cursor r \<le> l_head l) ?H = filter (\<lambda>r. after < lr_Cursor r) ?H"
    using cursor_le_head [OF ch] inv(2) by (intro filter_cong) (simp_all add: inv(6))
  also have "\<dots> = drop (unat after) ?H"
    using history_after [OF ch inv(2)] .
  finally show ?thesis
    by (auto simp: take_wanted_filter history_from_def Let_def max_def nat_less_iff)
qed

lemma inv_read_exact:
  assumes "ledger_inv sha l hs []" "readAfterLocked sha io l after (l_head l) limit = Inr out"
  shows "out = history_from (concat hs) after limit"
proof -
  note inv = ledger_invD [OF assms(1)]
  have "out = snd (take_wanted after (l_head l) limit [] (concat hs))"
    using read_segments_exact [OF _ inv(1)] assms(2) inv(10) by (simp add: readAfterLocked_def)
  then show ?thesis
    by (simp only: wanted_history [OF assms(1)])
qed

lemma inv_read_readable:
  assumes "ledger_inv sha l hs []" "readable io"
  shows "readAfterLocked sha io l after (l_head l) limit = Inr (history_from (concat hs) after limit)"
proof -
  note inv = ledger_invD [OF assms(1)]
  have "readAfterLocked sha io l after (l_head l) limit = Inr (snd (take_wanted after (l_head l) limit [] (concat hs)))"
    using read_segments_readable [OF _ inv(1) assms(2)] inv(10) by (simp add: readAfterLocked_def)
  then show ?thesis
    by (simp only: wanted_history [OF assms(1)])
qed

text \<open>
  C19.
  Reading is exact.  On a ledger that stands for a history, a read after a position returns, whatever
  reads of files fail underway, either an error or exactly the records behind that position in order,
  cut off at the limit when there is one; when the files can be read it returns them.\<close>

theorem read_after_exact:
  assumes "ledger_inv sha l hs []"
  shows "(\<forall>out. ReadAfter sha io l after limit = Inr out \<longrightarrow> out = history_from (concat hs) after limit) \<and>
    (readable io \<and> l_failed l = None \<and> unat after \<le> length (concat hs) \<longrightarrow>
      ReadAfter sha io l after limit = Inr (history_from (concat hs) after limit))"
proof (intro conjI allI impI)
  show "ReadAfter sha io l after limit = Inr out \<Longrightarrow> out = history_from (concat hs) after limit" for out
    using inv_read_exact [OF assms, of io after limit] by (auto simp: ReadAfter_def)
  assume io: "readable io \<and> l_failed l = None \<and> unat after \<le> length (concat hs)"
  then have "after \<le> l_head l"
    using ledger_invD(2,6) [OF assms] by (simp add: word_le_nat_alt unat_of_nat)
  then show "ReadAfter sha io l after limit = Inr (history_from (concat hs) after limit)"
    using io inv_read_readable [OF assms, of io after limit] by (simp add: ReadAfter_def)
qed

section \<open>Encoding a batch\<close>

text \<open>The records of a batch with the positions and hashes the ledger gives them.\<close>

fun number :: "(bytes \<Rightarrow> bytes) \<Rightarrow> bytes \<Rightarrow> Cursor \<Rightarrow> Record list \<Rightarrow> Record list" where
  "number sha h c [] = []"
| "number sha h c (r # rs) =
    (let r = r\<lparr>lr_Cursor := c\<rparr>; r = r\<lparr>lr_ChainHash := sha (h @ put_record r)\<rparr> in r # number sha (lr_ChainHash r) (c + 1) rs)"

lemma number_length [simp]: "length (number sha h c rs) = length rs"
  by (induction sha h c rs rule: number.induct) (simp_all add: Let_def)

lemma number_Nil_iff [simp]: "number sha h c rs = [] \<longleftrightarrow> rs = []"
  by (metis length_0_conv number_length)

lemma number_hd: "rs \<noteq> [] \<Longrightarrow> lr_Cursor (hd (number sha h c rs)) = c"
  by (cases rs) (simp_all add: Let_def)

lemma number_sequences:
  "map (\<lambda>r. (sequenced r, source_key r, lr_SourceSequence r)) (number sha h c rs) =
    map (\<lambda>r. (sequenced r, source_key r, lr_SourceSequence r)) rs"
  by (induction sha h c rs rule: number.induct) (simp_all add: Let_def sequenced_def)

lemma encode_batch_exact:
  assumes "encode_batch sha options c h rs stored encoded = Inr (stored', encoded')"
    "\<forall>r \<in> set rs. validateRecordShape r = None" "c \<noteq> 0" "unat c + length rs \<le> 2 ^ 64"
  shows "stored' = stored @ number sha h c rs \<and> encoded' = encoded @ chain_bytes sha h (number sha h c rs) \<and>
    chained sha (op_MaxFramePayload options) h c (number sha h c rs)"
  using assms
proof (induction sha options c h rs stored encoded rule: encode_batch.induct)
  case (2 sha options c h r rs stored encoded)
  let ?m = "op_MaxFramePayload options"
  let ?at = "r\<lparr>lr_Cursor := c\<rparr>"
  let ?h = "sha (h @ put_record ?at)"
  let ?r = "?at\<lparr>lr_ChainHash := ?h\<rparr>"
  let ?f = "frame_bytes (wire_frame sha h ?r)"
  obtain wire ch where w: "marshalWireRecord sha ?at h = Inr (wire, ch)"
    using "2.prems"(1) by (auto simp: Let_def bind_r_Inr)
  then have wire: "fits_wire ?at" "ch = ?h" "wire = put_wire sha h ?r"
    by (simp_all add: marshalWireRecord_Inr)
  obtain frame where f: "Marshal \<lparr>fr_Version = segmentFrameVersion, fr_Flags = 0, fr_Payload = wire\<rparr> ?m = Inr frame"
    using "2.prems"(1) w by (auto simp: Let_def split: sum.splits)
  then have frame: "frame = ?f" "length (put_wire sha h ?r) \<le> unat ?m"
    using wire(3) by (simp_all add: Marshal_Inr wire_frame_def frame_bytes_def)
  have rest: "encode_batch sha options (c + 1) ?h rs (stored @ [?r]) (encoded @ ?f) = Inr (stored', encoded')"
    and small: "\<not> op_MaxSegmentBytes options < int (length encoded + length frame)"
    using "2.prems"(1) w f wire(2) frame(1) by (auto simp: Let_def split: if_splits)
  have next_cursor: "rs \<noteq> [] \<Longrightarrow> c + 1 \<noteq> 0 \<and> unat (c + 1) + length rs \<le> 2 ^ 64"
    using "2.prems"(4) by (cases rs) (auto simp: unat_word_ariths unat_eq_0 [symmetric])
  have "stored' = stored @ ?r # number sha ?h (c + 1) rs \<and>
      encoded' = encoded @ ?f @ chain_bytes sha ?h (number sha ?h (c + 1) rs) \<and>
      chained sha ?m ?h (c + 1) (number sha ?h (c + 1) rs)"
  proof (cases "rs = []")
    case True
    then show ?thesis
      using rest by simp
  next
    case False
    have "stored' = (stored @ [?r]) @ number sha ?h (c + 1) rs \<and>
        encoded' = (encoded @ ?f) @ chain_bytes sha ?h (number sha ?h (c + 1) rs) \<and>
        chained sha ?m ?h (c + 1) (number sha ?h (c + 1) rs)"
      using "2.IH" [OF refl f small, of ?h] rest frame(1) "2.prems"(2) next_cursor [OF False]
      by simp
    then show ?thesis
      by simp
  qed
  moreover have "storable ?r"
    using wire(1) "2.prems"(2,3) by (simp add: storable_def)
  ultimately show ?case
    using frame(2) by (simp add: Let_def)
qed simp

section \<open>Changing the last segment\<close>

text \<open>The finalized segments that precede the last one.\<close>

definition filed :: "(bytes \<Rightarrow> bytes) \<Rightarrow> directory \<Rightarrow> SegmentMetadata list \<Rightarrow> Record list list \<Rightarrow> bool" where
  "filed sha files ys gs \<longleftrightarrow> laid sha no_slack files zero_hash32 1 ys gs \<and> (\<forall>rs \<in> set gs. rs \<noteq> []) \<and> (\<forall>md \<in> set ys. sm_Finalized md)"

abbreviation next_position :: "Record list list \<Rightarrow> Cursor" where
  "next_position gs \<equiv> 1 + of_nat (length (concat gs))"

abbreviation next_meta :: "(bytes \<Rightarrow> bytes) \<Rightarrow> Record list list \<Rightarrow> bool \<Rightarrow> Record list \<Rightarrow> SegmentMetadata" where
  "next_meta sha gs fin rs \<equiv> seg_meta sha (last_hash zero_hash32 (concat gs)) (segmentName (next_position gs) fin) fin rs"

lemma laid_cong:
  assumes "length mds = length hs" "\<forall>md \<in> set mds. tbl_get files' (sm_Path md) = tbl_get files (sm_Path md)"
    "\<forall>md \<in> set mds. slack' (sm_Path md) = slack (sm_Path md)"
  shows "laid sha slack' files' h c mds hs = laid sha slack files h c mds hs"
  using assms by (induction mds hs arbitrary: h c rule: list_induct2) auto

lemma laid_positions:
  assumes "laid sha slack files h c mds hs" "\<forall>rs \<in> set hs. rs \<noteq> []" "unat c + length (concat hs) < 2 ^ 64" "md \<in> set mds"
  shows "\<exists>d fin. sm_Path md = segmentName d fin \<and> d < c + of_nat (length (concat hs))"
  using assms
proof (induction sha slack files h c mds hs rule: laid.induct)
  case (2 sha slack files h c md' mds rs hs)
  have u: "unat (c + of_nat (length rs)) = unat c + length rs" "unat (c + of_nat (length rs + length (concat hs))) = unat c + length rs + length (concat hs)"
    using "2.prems"(3) by (simp_all add: unat_word_ariths unat_of_nat)
  show ?case
  proof (cases "md \<in> set mds")
    case True
    then show ?thesis
      using 2 u(1) by (auto simp: add.assoc)
  next
    case False
    moreover have "c < c + of_nat (length rs + length (concat hs))"
      using "2.prems"(2) by (simp only: word_less_nat_alt u(2)) (cases rs; simp)
    ultimately show ?thesis
      using "2.prems"(1,4) by (auto intro!: exI [of _ c])
  qed
qed auto

lemma filed_paths:
  assumes "filed sha files ys gs" "length (concat gs) + 1 < 2 ^ 64" "md \<in> set ys"
  shows "sm_Path md \<noteq> segmentName (next_position gs) fin"
proof -
  have "laid sha no_slack files zero_hash32 1 ys gs" "\<forall>rs \<in> set gs. rs \<noteq> []"
    using assms(1) by (simp_all add: filed_def)
  then obtain d fin' where "sm_Path md = segmentName d fin'" "d < 1 + of_nat (length (concat gs))"
    using laid_positions [of sha no_slack files zero_hash32 1 ys gs md] assms(2,3) by auto
  then show ?thesis
    using segmentName_inj by fastforce
qed

lemma filed_cong:
  assumes "filed sha files ys gs" "\<forall>md \<in> set ys. tbl_get files' (sm_Path md) = tbl_get files (sm_Path md)"
  shows "filed sha files' ys gs"
  using assms laid_cong [of ys gs files' files no_slack no_slack sha zero_hash32 1] laid_length by (auto simp: filed_def)

lemma disk_snocI:
  assumes filed: "filed sha files ys gs" "length (concat gs) + 1 < 2 ^ 64"
    and y: "y = next_meta sha gs fin rs" "tbl_get files (sm_Path y) = Some (chain_bytes sha (last_hash zero_hash32 (concat gs)) rs @ torn)"
      "fin \<longrightarrow> rs \<noteq> [] \<and> torn = []"
    and keys: "distinct (map fst files)" "{p \<in> fst ` set files. is_segment_name p} = insert (sm_Path y) (sm_Path ` set ys)"
  shows "disk_ok sha (tail_at (ys @ [y]) torn) files (ys @ [y]) (gs @ [rs])"
proof -
  let ?slack = "tail_at (ys @ [y]) torn"
  have len: "length ys = length gs"
    using filed(1) laid_length by (auto simp: filed_def)
  have none: "?slack (sm_Path md) = []" if "md \<in> set ys" for md
    using filed_paths [OF filed that] y(1) by (simp add: tail_at_def)
  have "laid sha ?slack files zero_hash32 1 ys gs"
    using filed(1) none laid_cong [OF len, of files files ?slack no_slack] by (simp add: filed_def)
  moreover have "laid sha ?slack files (last_hash zero_hash32 (concat gs)) (next_position gs) [y] [rs]"
    using y(1,2) by (auto simp: tail_at_def)
  ultimately have "laid sha ?slack files zero_hash32 1 (ys @ [y]) (gs @ [rs])"
    by (simp add: laid_append [OF len])
  moreover have "\<forall>(md, rs) \<in> set (zip (ys @ [y]) (gs @ [rs])). sm_Finalized md \<longrightarrow> rs \<noteq> [] \<and> ?slack (sm_Path md) = []"
    using filed(1) none y(1,3) len by (auto simp: filed_def tail_at_def dest: set_zip_leftD set_zip_rightD)
  ultimately show ?thesis
    using filed(1) keys by (simp add: disk_ok_def filed_def)
qed

lemma disk_snocD:
  assumes "disk_ok sha slack files (ys @ [y]) hs"
  obtains gs rs fin where "hs = gs @ [rs]" "filed sha files ys gs" "y = next_meta sha gs fin rs"
    "tbl_get files (sm_Path y) = Some (chain_bytes sha (last_hash zero_hash32 (concat gs)) rs @ slack (sm_Path y))"
    "fin \<longrightarrow> rs \<noteq> [] \<and> slack (sm_Path y) = []" "distinct (map fst files)"
    "{p \<in> fst ` set files. is_segment_name p} = insert (sm_Path y) (sm_Path ` set ys)"
proof -
  have laid: "laid sha slack files zero_hash32 1 (ys @ [y]) hs"
    using assms by (simp add: disk_ok_def)
  then obtain gs rs where hs: "hs = gs @ [rs]" "length ys = length gs"
    using laid_length [OF laid] by (cases hs rule: rev_cases) auto
  have parts: "laid sha slack files zero_hash32 1 ys gs"
      "laid sha slack files (last_hash zero_hash32 (concat gs)) (next_position gs) [y] [rs]"
    using laid hs by (simp_all add: laid_append)
  have zip: "\<forall>(md, rs) \<in> set (zip ys gs). sm_Finalized md \<longrightarrow> rs \<noteq> [] \<and> slack (sm_Path md) = []"
      "sm_Finalized y \<longrightarrow> rs \<noteq> [] \<and> slack (sm_Path y) = []"
    using assms hs by (auto simp: disk_ok_def)
  have fin: "\<forall>md \<in> set ys. sm_Finalized md"
    using assms by (simp add: disk_ok_def)
  have each: "rs' \<noteq> [] \<and> slack (sm_Path md) = []" if "(md, rs') \<in> set (zip ys gs)" for md rs'
    using zip(1) fin that set_zip_leftD [OF that] by auto
  have "slack (sm_Path md) = []" if "md \<in> set ys" for md
    using in_set_impl_in_set_zip1 [OF hs(2) that] each by blast
  then have "laid sha no_slack files zero_hash32 1 ys gs"
    using parts(1) laid_cong [OF hs(2), of files files no_slack slack] by simp
  moreover have "\<forall>rs \<in> set gs. rs \<noteq> []"
    using in_set_impl_in_set_zip2 [OF hs(2)] each by blast
  ultimately have filed: "filed sha files ys gs"
    using fin by (simp add: filed_def)
  obtain f where y: "y = next_meta sha gs f rs"
    using parts(2) by auto
  have content: "tbl_get files (sm_Path y) = Some (chain_bytes sha (last_hash zero_hash32 (concat gs)) rs @ slack (sm_Path y))"
    using parts(2) unfolding laid.simps by blast
  have "f = sm_Finalized y"
    by (simp only: y seg_meta_simps)
  moreover have "distinct (map fst files)" "{p \<in> fst ` set files. is_segment_name p} = insert (sm_Path y) (sm_Path ` set ys)"
    using assms unfolding disk_ok_def by simp_all
  ultimately show thesis
    using that [OF hs(1) filed y content] zip(2) by blast
qed

lemma disk_finalized:
  assumes "disk_ok sha slack files mds hs" "mds = [] \<or> sm_Finalized (last mds)"
  shows "filed sha files mds hs"
proof (cases mds rule: rev_cases)
  case Nil
  then show ?thesis
    using assms(1) laid_length by (fastforce simp: disk_ok_def filed_def)
next
  case (snoc ys y)
  obtain gs rs fin where g: "hs = gs @ [rs]" "filed sha files ys gs" "y = next_meta sha gs fin rs"
    "tbl_get files (sm_Path y) = Some (chain_bytes sha (last_hash zero_hash32 (concat gs)) rs @ slack (sm_Path y))"
    "fin \<longrightarrow> rs \<noteq> [] \<and> slack (sm_Path y) = []"
    by (rule disk_snocD [OF assms(1) [unfolded snoc]]) (rule that; assumption)
  moreover have "length ys = length gs" "fin"
    using g(2,3) laid_length assms(2) snoc by (auto simp: filed_def)
  ultimately show ?thesis
    by (auto simp: filed_def snoc laid_append)
qed

end
