(* ===== verification/Ledger_Append.thy ===== *)
theory Ledger_Append
  imports Ledger_Invariant
begin

text \<open>
  Appending refines its specification: every step of an append keeps the invariant of the ledger,
  whatever calls of the operating system fail.
\<close>

section \<open>The active segment\<close>

lemma finalized_name_segment: "finalized_name (segmentName c False) = segmentName c True"
  unfolding finalized_name_def segmentName_stem by simp

lemma segment_keys_put:
  "is_segment_name k \<Longrightarrow> {p \<in> fst ` set (tbl_put k v t). is_segment_name p} = insert k {p \<in> fst ` set t. is_segment_name p}"
  unfolding tbl_put_keys by auto

lemma inv_active:
  assumes "ledger_inv sha l hs torn" "l_active l = Some i"
  obtains ys y gs rs where "l_segments l = ys @ [y]" "i = length ys" "hs = gs @ [rs]" "filed sha (l_files l) ys gs"
    "y = next_meta sha gs False rs"
    "tbl_get (l_files l) (sm_Path y) = Some (chain_bytes sha (last_hash zero_hash32 (concat gs)) rs @ torn)"
    "distinct (map fst (l_files l))"
    "{p \<in> fst ` set (l_files l). is_segment_name p} = insert (sm_Path y) (sm_Path ` set ys)"
proof -
  note inv = ledger_invD [OF assms(1)]
  have ne: "l_segments l \<noteq> []" "\<not> sm_Finalized (last (l_segments l))" "i = length (l_segments l) - 1"
    using inv(5) assms(2) by (auto split: if_splits)
  then obtain ys y where segs: "l_segments l = ys @ [y]"
    by (cases "l_segments l" rule: rev_cases) auto
  have slack: "tail_at (l_segments l) torn (sm_Path y) = torn"
    by (simp add: tail_at_def segs)
  show thesis
  proof (rule disk_snocD [OF inv(4) [unfolded segs]], goal_cases)
    case (1 gs rs fin)
    moreover have "\<not> fin"
      using 1(3) ne(2) segs by (metis last_snoc seg_meta_simps(2))
    ultimately show thesis
      using that [of ys y gs rs] segs ne(3) slack by simp
  qed
qed

lemma inv_inactive:
  assumes "ledger_inv sha l hs torn" "l_active l = None"
  shows "filed sha (l_files l) (l_segments l) hs"
proof -
  note inv = ledger_invD [OF assms(1)]
  have "l_segments l = [] \<or> sm_Finalized (last (l_segments l))"
    using inv(5) assms(2) by (auto split: if_splits)
  then show ?thesis
    by (rule disk_finalized [OF inv(4)])
qed

text \<open>The invariant of a state with a new last segment.\<close>

lemma inv_snocI:
  assumes "filed sha (l_files l) ys gs" "l_segments l = ys @ [next_meta sha gs fin rs]"
    "tbl_get (l_files l) (segmentName (next_position gs) fin) =
      Some (chain_bytes sha (last_hash zero_hash32 (concat gs)) rs @ torn)"
    "fin \<longrightarrow> rs \<noteq> [] \<and> torn = []" "distinct (map fst (l_files l))"
    "{p \<in> fst ` set (l_files l). is_segment_name p} = insert (segmentName (next_position gs) fin) (sm_Path ` set ys)"
    "l_active l = (if fin then None else Some (length ys))"
    "l_head l = of_nat (length (concat gs @ rs))" "l_lastHash l = last_hash zero_hash32 (concat gs @ rs)"
    "sound_chain sha (op_MaxFramePayload (l_options l)) zero_hash32 1 (concat gs @ rs)"
    "length (concat gs @ rs) + 1 < 2 ^ 64" "0 < op_MaxSourceSequences (l_options l)"
    "sources_ok sha (nat (op_MaxSourceSequences (l_options l))) (concat gs @ rs) (l_sources l)" "stored_once (concat gs @ rs)"
  shows "ledger_inv sha l (gs @ [rs]) torn"
proof -
  have "disk_ok sha (tail_at (l_segments l) torn) (l_files l) (l_segments l) (gs @ [rs])"
    unfolding assms(2) by (rule disk_snocI [OF assms(1) _ refl _ assms(4,5)]) (use assms in simp_all)
  then show ?thesis
    using assms by (simp add: ledger_inv_def)
qed

section \<open>Finalizing\<close>

lemma finalize_inv:
  assumes inv: "ledger_inv sha l hs []" and active: "l_active l = Some i" and "last hs \<noteq> []"
    and fin: "finalizeActiveLocked io l = (e, l')"
  shows "ledger_inv sha l' hs [] \<and> l_options l' = l_options l \<and> l_closed l' = l_closed l \<and> l_hub l' = l_hub l \<and>
    l_sources l' = l_sources l \<and>
    (if e = None then l_active l' = None \<and> l_failed l' = l_failed l else l_failed l' = l_failed l \<or> l_failed l' = e)"
proof (rule inv_active [OF inv active], goal_cases)
  case (1 ys y gs rs)
  note I = ledger_invD [OF inv]
  let ?old = "segmentName (next_position gs) False" and ?new = "segmentName (next_position gs) True"
  let ?content = "chain_bytes sha (last_hash zero_hash32 (concat gs)) rs"
  let ?files = "tbl_put ?new ?content (AList.delete ?old (l_files l))"
  let ?l = "l\<lparr>l_segments := ys @ [next_meta sha gs True rs], l_active := None, l_files := ?files\<rparr>"
  have path: "sm_Path y = ?old"
    using 1(5) by simp
  have nth: "l_segments l ! i = y" "(l_segments l)[i := next_meta sha gs True rs] = ys @ [next_meta sha gs True rs]"
    using 1(1,2) by simp_all
  have meta: "y\<lparr>sm_Path := ?new, sm_Finalized := True\<rparr> = next_meta sha gs True rs"
    unfolding 1(5) by (rule seg_meta_rename)
  have files: "rename_file ?old ?new (l_files l) = ?files"
    using 1(6) path by (simp add: rename_file_def)
  have bound: "length (concat gs) + 1 < 2 ^ 64"
    using I(2) 1(3) by simp
  have other: "tbl_get ?files (sm_Path md) = tbl_get (l_files l) (sm_Path md)" if "md \<in> set ys" for md
    using filed_paths [OF 1(4) bound that] by (simp add: delete_conv')
  have keys: "fst ` set ?files = insert ?new (fst ` set (l_files l) - {?old})"
    by (simp add: tbl_put_keys tbl_delete_keys)
  have old_fresh: "?old \<notin> sm_Path ` set ys" "?old \<noteq> ?new"
    using filed_paths [OF 1(4) bound] by (auto dest: sym) (simp add: segmentName_stem)
  have "ledger_inv sha ?l (gs @ [rs]) []"
  proof (rule inv_snocI [where ys = ys and fin = True])
    show "filed sha (l_files ?l) ys gs"
      using filed_cong [OF 1(4), of ?files] other by simp
    show "{p \<in> fst ` set (l_files ?l). is_segment_name p} = insert ?new (sm_Path ` set ys)"
    proof -
      have "{p \<in> fst ` set ?files. is_segment_name p} = insert ?new ({p \<in> fst ` set (l_files l). is_segment_name p} - {?old})"
        by (auto simp: keys)
      then show ?thesis
        using 1(8) path old_fresh(1) by simp
    qed
    show "distinct (map fst (l_files ?l))"
      using 1(7) by (simp add: distinct_update distinct_delete)
  qed (use I 1(3) assms(3) in simp_all)
  then have ok: "ledger_inv sha (?l\<lparr>l_indexErr := x\<rparr>) hs []" for x
    using 1(3) ledger_inv_cong [of "?l\<lparr>l_indexErr := x\<rparr>" ?l] by simp
  have same: "ledger_inv sha (l\<lparr>l_failed := x\<rparr>) hs []" for x
    using inv ledger_inv_cong [of "l\<lparr>l_failed := x\<rparr>" l] by simp
  show ?thesis
    using fin active ok same inv nth meta files path
    by (auto simp: finalizeActiveLocked_def Let_def finalized_name_segment flushIndexLocked_def split: option.splits)
qed

section \<open>A new segment\<close>

lemma ensure_inv:
  assumes inv: "ledger_inv sha l hs []" and ensure: "ensureActiveLocked io (l_head l + 1) l = (e, l')"
  shows "if e = None
    then \<exists>hs' i. concat hs' = concat hs \<and> ledger_inv sha l' hs' [] \<and> l_active l' = Some i \<and> l_options l' = l_options l \<and>
      l_closed l' = l_closed l \<and> l_hub l' = l_hub l \<and> l_failed l' = l_failed l \<and> l_sources l' = l_sources l
    else l' = l"
proof (cases "l_active l")
  case (Some i)
  then show ?thesis
    using ensure inv by (auto simp: ensureActiveLocked_def)
next
  case None
  note I = ledger_invD [OF inv]
  let ?name = "segmentName (next_position hs) False"
  let ?l = "l\<lparr>l_segments := l_segments l @ [empty_metadata ?name (l_lastHash l) False],
    l_active := Some (length (l_segments l)), l_files := tbl_put ?name [] (l_files l)\<rparr>"
  have position: "l_head l + 1 = next_position hs"
    using I(6) by simp
  have filed: "filed sha (l_files l) (l_segments l) hs"
    by (rule inv_inactive [OF inv None])
  have "ledger_inv sha ?l (hs @ [[]]) []"
  proof (rule inv_snocI [where ys = "l_segments l" and fin = False])
    show "filed sha (l_files ?l) (l_segments l) hs"
      using filed_cong [OF filed, of "tbl_put ?name [] (l_files l)"] filed_paths [OF filed I(2)] by simp
    show "{p \<in> fst ` set (l_files ?l). is_segment_name p} = insert ?name (sm_Path ` set (l_segments l))"
      using I(4) segment_keys_put [of ?name "[]" "l_files l"] by (simp add: disk_ok_def)
    show "distinct (map fst (l_files ?l))"
      using I(4) by (simp add: disk_ok_def distinct_update)
  qed (use I in simp_all)
  then show ?thesis
    using ensure None position
    by (auto simp: ensureActiveLocked_def Let_def intro!: exI [of _ "hs @ [[]]"] split: option.splits if_splits)
qed

section \<open>Writing\<close>

lemma writeAll_appends:
  assumes "writeAll io content bs = (content', n, err)"
  shows "n \<le> length bs \<and> content' = content @ take n bs \<and> (err = None \<longrightarrow> n = length bs)"
  using active_file.write_all_appends [of io bs content 0] assms by (simp add: writeAll_def)

lemma truncate_append: "truncate_bytes (length xs) (xs @ ys) = xs"
  by (simp add: truncate_bytes_def)

lemma join_errors_Some: "join_errors (a # Some b # es) \<noteq> []"
  by (simp add: join_errors_def)

lemma rollback_cases:
  assumes "l = k\<lparr>l_files := tbl_put path (content @ part) (l_files k)\<rparr>"
    "rollbackActiveLocked io (length content) path l = (es, l')"
  shows "l' = k\<lparr>l_files := tbl_put path content (l_files k)\<rparr> \<or> l' = l \<and> es \<noteq> []"
proof (cases "io_open io ''rollback''")
  case None
  then show ?thesis
    using assms join_errors_Some by (cases "io_truncate io") (auto simp: rollbackActiveLocked_def Let_def truncate_append)
next
  case (Some e)
  then show ?thesis
    using assms(2) join_errors_Some by (auto simp: rollbackActiveLocked_def Let_def)
qed

lemma failAfterRollback_cases:
  assumes l: "l = k\<lparr>l_files := tbl_put path (content @ part) (l_files k)\<rparr>"
    and fail: "failAfterRollbackLocked io (length content) path e l = (e', l')"
  obtains torn f where "torn = part \<or> torn = []" "l' = k\<lparr>l_files := tbl_put path (content @ torn) (l_files k), l_failed := f\<rparr>"
    "torn \<noteq> [] \<longrightarrow> f \<noteq> None" "f = l_failed k \<or> f = Some e'"
proof -
  obtain es m where roll: "rollbackActiveLocked io (length content) path l = (es, m)"
    by (cases "rollbackActiveLocked io (length content) path l")
  then obtain torn where torn: "torn = part \<or> torn = []" "torn \<noteq> [] \<longrightarrow> es \<noteq> []"
      and m: "m = k\<lparr>l_files := tbl_put path (content @ torn) (l_files k)\<rparr>"
    using rollback_cases [OF l roll] l by (metis append_Nil2)
  show thesis
  proof (cases es)
    case Nil
    then have "l' = m"
      using fail roll by (simp add: failAfterRollbackLocked_def)
    moreover have "m = k\<lparr>l_files := tbl_put path (content @ torn) (l_files k), l_failed := l_failed k\<rparr>"
      by (cases k) (simp add: m)
    ultimately show thesis
      using that torn Nil by blast
  next
    case (Cons x xs)
    then have "l' = k\<lparr>l_files := tbl_put path (content @ torn) (l_files k), l_failed := Some e'\<rparr>"
      using fail roll m by (auto simp: failAfterRollbackLocked_def Let_def)
    then show thesis
      using that [OF torn(1)] by blast
  qed
qed

text \<open>A failed write leaves a torn prefix at most, and none unless the ledger refuses further work.\<close>

lemma rollback_inv:
  assumes inv: "ledger_inv sha l hs []" and active: "l_active l = Some i"
    and path: "path = sm_Path (l_segments l ! i)" "offset = sm_ByteSize (l_segments l ! i)"
    and content: "tbl_get (l_files l) path = Some content"
    and fail: "failAfterRollbackLocked io offset path e (l\<lparr>l_files := tbl_put path (content @ part) (l_files l)\<rparr>) = (e', l')"
  shows "\<exists>torn. prefix torn part \<and> ledger_inv sha l' hs torn \<and> (torn \<noteq> [] \<longrightarrow> l_failed l' \<noteq> None) \<and> l_options l' = l_options l \<and>
    l_closed l' = l_closed l \<and> l_hub l' = l_hub l \<and> l_sources l' = l_sources l \<and>
    (l_failed l' = l_failed l \<or> l_failed l' = Some e')"
proof (rule inv_active [OF inv active], goal_cases)
  case (1 ys y gs rs)
  note I = ledger_invD [OF inv]
  have y: "l_segments l ! i = y" "path = segmentName (next_position gs) False" "content = chain_bytes sha (last_hash zero_hash32 (concat gs)) rs"
      "offset = length content"
    using 1(1,2,5,6) path content by simp_all
  have bound: "length (concat gs) + 1 < 2 ^ 64"
    using I(2) 1(3) by simp
  have ok: "ledger_inv sha (l\<lparr>l_files := tbl_put path (content @ torn) (l_files l), l_failed := f\<rparr>) hs torn"
    if "prefix torn part" for torn f
    unfolding 1(3)
  proof (rule inv_snocI [where ys = ys and fin = False])
    let ?files = "tbl_put path (content @ torn) (l_files l)"
    show "filed sha (l_files (l\<lparr>l_files := ?files, l_failed := f\<rparr>)) ys gs"
      using filed_cong [OF 1(4), of ?files] filed_paths [OF 1(4) bound] y(2) by simp
    show "{p \<in> fst ` set (l_files (l\<lparr>l_files := ?files, l_failed := f\<rparr>)). is_segment_name p} =
        insert (segmentName (next_position gs) False) (sm_Path ` set ys)"
      using 1(5,8) y(2) segment_keys_put [of path "content @ torn" "l_files l"] by simp
    show "distinct (map fst (l_files (l\<lparr>l_files := ?files, l_failed := f\<rparr>)))"
      using 1(7) by (simp add: distinct_update)
  qed (use I 1 y in simp_all)
  obtain torn f where "torn = part \<or> torn = []" and l': "l' = l\<lparr>l_files := tbl_put path (content @ torn) (l_files l), l_failed := f\<rparr>"
    and f: "torn \<noteq> [] \<longrightarrow> f \<noteq> None" "f = l_failed l \<or> f = Some e'"
    using fail unfolding y(4) by (rule failAfterRollback_cases [OF refl])
  then have "prefix torn part"
    by auto
  then show ?thesis
    using ok [of torn f] f by (intro exI [of _ torn]) (simp add: l')
qed

text \<open>A successful write extends the last segment.\<close>

lemma commit_inv:
  assumes inv: "ledger_inv sha l hs []" and active: "l_active l = Some i"
    and path: "path = sm_Path (l_segments l ! i)" and content: "tbl_get (l_files l) path = Some content"
    and stored: "stored \<noteq> []" "chained sha (op_MaxFramePayload (l_options l)) (l_lastHash l) (l_head l + 1) stored"
      "stored_once (concat hs @ stored)" "length (concat hs) + length stored + 1 < 2 ^ 64"
    and encoded: "encoded = chain_bytes sha (l_lastHash l) stored"
  shows "\<exists>hs'. concat hs' = concat hs @ stored \<and>
    ledger_inv sha (commit_batch sha io i (length encoded) stored (l\<lparr>l_files := tbl_put path (content @ encoded) (l_files l)\<rparr>)) hs' []"
proof (rule inv_active [OF inv active], goal_cases)
  case (1 ys y gs rs)
  note I = ledger_invD [OF inv]
  let ?h = "last_hash zero_hash32 (concat gs)"
  have y: "l_segments l ! i = y" "path = segmentName (next_position gs) False" "content = chain_bytes sha ?h rs"
    using 1(1,2,5,6) path content by simp_all
  have H: "concat hs = concat gs @ rs" "l_lastHash l = last_hash ?h rs"
    using 1(3) I(7) by simp_all
  have bound: "length (concat gs) + 1 < 2 ^ 64"
    using I(2) H(1) by simp
  have bytes: "content @ encoded = chain_bytes sha ?h (rs @ stored)"
    by (simp add: y(3) encoded H(2))
  let ?files = "tbl_put path (content @ encoded) (l_files l)"
  have meta: "(fold note_record stored y)\<lparr>sm_ByteSize := sm_ByteSize (fold note_record stored y) + length encoded\<rparr> =
      next_meta sha gs False (rs @ stored)"
    using seg_meta_append [where ss = stored and rs = rs and h = ?h and sha = sha]
    by (simp add: fold_note_record 1(5) encoded H(2))
  have last_cursor: "lr_Cursor (last stored) = of_nat (length (concat hs @ stored))"
    using chained_last [OF stored(2,1)] I(6) by (simp add: algebra_simps)
  have sound: "sound_chain sha (op_MaxFramePayload (l_options l)) zero_hash32 1 (concat gs @ rs @ stored)"
    using I(1) stored(2,4) H I(6) by (simp add: sound_chain_def ac_simps)
  have sources: "sources_ok sha (nat (op_MaxSourceSequences (l_options l))) (concat gs @ rs @ stored)
      (fold (indexSourceRecord sha (nat (op_MaxSourceSequences (l_options l)))) stored (l_sources l))"
    using sources_ok_fold [OF I(8), of stored] H(1) by simp
  have "ledger_inv sha (commit_batch sha io i (length encoded) stored (l\<lparr>l_files := ?files\<rparr>)) (gs @ [rs @ stored]) []"
  proof (rule inv_snocI [where ys = ys and fin = False])
    show "filed sha (l_files (commit_batch sha io i (length encoded) stored (l\<lparr>l_files := ?files\<rparr>))) ys gs"
      using filed_cong [OF 1(4), of ?files] filed_paths [OF 1(4) bound] y(2)
      by (simp add: commit_batch_def Let_def flushIndexLocked_def)
    show "{p \<in> fst ` set (l_files (commit_batch sha io i (length encoded) stored (l\<lparr>l_files := ?files\<rparr>))). is_segment_name p} =
        insert (segmentName (next_position gs) False) (sm_Path ` set ys)"
      using 1(5,8) y(2) segment_keys_put [of path "content @ encoded" "l_files l"]
      by (simp add: commit_batch_def Let_def flushIndexLocked_def)
    show "distinct (map fst (l_files (commit_batch sha io i (length encoded) stored (l\<lparr>l_files := ?files\<rparr>))))"
      using 1(7) by (simp add: commit_batch_def Let_def flushIndexLocked_def distinct_update)
    show "l_segments (commit_batch sha io i (length encoded) stored (l\<lparr>l_files := ?files\<rparr>)) = ys @ [next_meta sha gs False (rs @ stored)]"
      using 1(1,2) y(1) meta by (simp add: commit_batch_def Let_def flushIndexLocked_def)
    show "tbl_get (l_files (commit_batch sha io i (length encoded) stored (l\<lparr>l_files := ?files\<rparr>))) (segmentName (next_position gs) False) =
        Some (chain_bytes sha ?h (rs @ stored) @ [])"
      using bytes y(2) by (simp add: commit_batch_def Let_def flushIndexLocked_def)
  qed (use I H active 1(2) stored sound sources last_cursor in
      \<open>simp_all add: commit_batch_def Let_def flushIndexLocked_def last_hash_last\<close>)
  moreover have "concat (gs @ [rs @ stored]) = concat hs @ stored"
    by (simp add: H(1))
  ultimately show ?thesis
    by blast
qed

text \<open>What a failed step of an append leaves: the history, and torn bytes only in a ledger that refuses work.\<close>

definition well_formed_history :: "(bytes \<Rightarrow> bytes) \<Rightarrow> uint32 \<Rightarrow> Record list \<Rightarrow> bool" where
  "well_formed_history sha m history \<longleftrightarrow>
    sound_chain sha m zero_hash32 1 history \<and> length history + 1 < 2 ^ 64 \<and> stored_once history"

definition keeps_history :: "(bytes \<Rightarrow> bytes) \<Rightarrow> Ledger \<Rightarrow> Record list list \<Rightarrow> Record list \<Rightarrow> Ledger \<Rightarrow> bool" where
  "keeps_history sha l hs batch l' \<longleftrightarrow>
    (\<exists>hs' torn. concat hs' = concat hs \<and> ledger_inv sha l' hs' torn \<and>
       prefix torn (chain_bytes sha (last_hash zero_hash32 (concat hs)) batch) \<and>
       (torn \<noteq> [] \<longrightarrow> l_failed l' \<noteq> None \<and> well_formed_history sha (op_MaxFramePayload (l_options l)) (concat hs @ batch))) \<and>
    l_hub l' = l_hub l \<and> l_closed l' = l_closed l \<and> l_options l' = l_options l"

lemma write_inv:
  assumes inv: "ledger_inv sha l hs []" and active: "l_active l = Some i"
    and stored: "stored \<noteq> []" "chained sha (op_MaxFramePayload (l_options l)) (l_lastHash l) (l_head l + 1) stored"
      "stored_once (concat hs @ stored)" "length (concat hs) + length stored + 1 < 2 ^ 64"
    and encoded: "encoded = chain_bytes sha (l_lastHash l) stored"
    and run: "write_batch sha io stored encoded l = (out, l')"
  shows "case out of
      Inr recs \<Rightarrow> recs = stored \<and> (\<exists>hs'. concat hs' = concat hs @ stored \<and> ledger_inv sha l' hs' []) \<and>
        l_hub l' = fold publish stored (l_hub l) \<and> l_failed l' = l_failed l
    | Inl e \<Rightarrow> keeps_history sha l hs stored l'"
proof -
  note I = ledger_invD [OF inv]
  let ?path = "sm_Path (l_segments l ! i)" and ?offset = "sm_ByteSize (l_segments l ! i)"
  obtain content where content: "tbl_get (l_files l) ?path = Some content"
    using inv_active [OF inv active] by (metis nth_append_length)
  obtain content' n werr where w: "writeAll io content encoded = (content', n, werr)"
    by (cases "writeAll io content encoded")
  note n = writeAll_appends [OF w]
  let ?l = "l\<lparr>l_files := tbl_put ?path (content @ take n encoded) (l_files l)\<rparr>"
  define err where "err = (case werr of Some e \<Rightarrow> Some (write_io_error e) | None \<Rightarrow> io_err (io_sync io ''append''))"
  have run': "write_batch sha io stored encoded l = (case err of
      Some e \<Rightarrow> (case failAfterRollbackLocked io ?offset ?path e ?l of (e', l') \<Rightarrow> (Inl e', l'))
    | None \<Rightarrow> (Inr stored, commit_batch sha io i n stored ?l))"
    using active content w n
    by (cases werr; cases "io_sync io ''append''") (simp_all add: write_batch_def Let_def err_def fail_if_def)
  show ?thesis
  proof (cases err)
    case None
    then have full: "n = length encoded"
      using n by (auto simp: err_def split: option.splits)
    have "l_hub (commit_batch sha io i n stored ?l) = fold publish stored (l_hub l)"
        "l_failed (commit_batch sha io i n stored ?l) = l_failed l"
      by (simp_all add: commit_batch_def Let_def flushIndexLocked_def)
    then show ?thesis
      using run run' None full commit_inv [OF inv active refl content stored encoded, of io] by auto
  next
    case (Some e)
    obtain e' m where fail: "failAfterRollbackLocked io ?offset ?path e ?l = (e', m)"
      by (cases "failAfterRollbackLocked io ?offset ?path e ?l")
    obtain torn where torn: "prefix torn (take n encoded)" "ledger_inv sha m hs torn" "torn \<noteq> [] \<longrightarrow> l_failed m \<noteq> None"
        "l_options m = l_options l" "l_closed m = l_closed l" "l_hub m = l_hub l"
      using rollback_inv [OF inv active refl refl content fail] by blast
    have "prefix torn encoded"
      using torn(1) take_is_prefix by (rule prefix_order.trans)
    moreover have "well_formed_history sha (op_MaxFramePayload (l_options l)) (concat hs @ stored)"
      using I stored by (simp add: well_formed_history_def sound_chain_def ac_simps)
    ultimately have "keeps_history sha l hs stored m"
      using torn unfolding keeps_history_def encoded I(7) by blast
    then show ?thesis
      using run run' Some fail by auto
  qed
qed

section \<open>Appending a batch\<close>

lemma rotate_if_full_inv:
  assumes inv: "ledger_inv sha l hs []" and run: "rotate_if_full io n l = (e, l')"
  shows "ledger_inv sha l' hs [] \<and> l_options l' = l_options l \<and> l_closed l' = l_closed l \<and> l_hub l' = l_hub l \<and>
    (e = None \<longrightarrow> l_failed l' = l_failed l)"
proof (cases "l_active l")
  case None
  then show ?thesis
    using assms by (simp add: rotate_if_full_def)
next
  case (Some i)
  show ?thesis
  proof (rule inv_active [OF inv Some], goal_cases)
    case (1 ys y gs rs)
    then have count: "sm_FrameCount (l_segments l ! i) = of_nat (length rs)"
      by simp
    show ?case
    proof (cases "sm_FrameCount (l_segments l ! i) > 0 \<and>
        int (sm_ByteSize (l_segments l ! i) + n) > op_MaxSegmentBytes (l_options l)")
      case True
      then have "last hs \<noteq> []"
        using count 1(3) by auto
      then show ?thesis
        using finalize_inv [OF inv Some, of io e l'] run Some True by (simp add: rotate_if_full_def Let_def split: if_splits)
    next
      case False
      then show ?thesis
        using run inv Some by (auto simp: rotate_if_full_def Let_def)
    qed
  qed
qed

lemma keeps_historyI:
  assumes "ledger_inv sha l' hs []" "l_hub l' = l_hub l" "l_closed l' = l_closed l" "l_options l' = l_options l"
  shows "keeps_history sha l hs batch l'"
  using assms unfolding keeps_history_def by (intro conjI exI [of _ hs] exI [of _ "[]"]) simp_all

lemma appendBatch_inv:
  assumes inv: "ledger_inv sha l hs []"
    and records: "records \<noteq> []" "\<forall>r \<in> set records. validateRecordShape r = None"
      "stored_once (concat hs @ number sha (l_lastHash l) (l_head l + 1) records)" "length (concat hs) + length records + 1 < 2 ^ 64"
    and run: "appendBatchLocked sha io records l = (out, l')"
  shows "case out of
      Inr recs \<Rightarrow> recs = number sha (l_lastHash l) (l_head l + 1) records \<and>
        (\<exists>hs'. concat hs' = concat hs @ recs \<and> ledger_inv sha l' hs' []) \<and>
        l_hub l' = fold publish recs (l_hub l) \<and> l_failed l' = l_failed l
    | Inl e \<Rightarrow> keeps_history sha l hs (number sha (l_lastHash l) (l_head l + 1) records) l'"
proof -
  let ?h = "l_lastHash l" and ?stored = "number sha (l_lastHash l) (l_head l + 1) records"
  note I = ledger_invD [OF inv]
  have head: "unat (l_head l + 1) = length (concat hs) + 1"
    using I(2,6) by (simp add: unat_word_ariths unat_of_nat)
  show ?thesis
  proof (cases "encode_batch sha (l_options l) (l_head l + 1) ?h records [] []")
    case (Inl e)
    then show ?thesis
      using run records(1) keeps_historyI [OF inv] by (auto simp: appendBatchLocked_def)
  next
    case (Inr se)
    obtain stored encoded where se: "se = (stored, encoded)"
      by (cases se)
    have "l_head l + 1 \<noteq> 0"
      using head by (metis Suc_eq_plus1 nat.simps(3) unat_0)
    then have enc: "stored = ?stored" "encoded = chain_bytes sha ?h ?stored"
        "chained sha (op_MaxFramePayload (l_options l)) ?h (l_head l + 1) ?stored"
      using encode_batch_exact [OF Inr [unfolded se] records(2)] head records(4) by simp_all
    have first: "lr_Cursor (hd stored) = l_head l + 1"
      using enc(1) records(1) by (simp add: number_hd)
    obtain e1 l1 where r1: "rotate_if_full io (length encoded) l = (e1, l1)"
      by (cases "rotate_if_full io (length encoded) l")
    note inv1 = rotate_if_full_inv [OF inv r1]
    note I1 = ledger_invD [OF inv1 [THEN conjunct1]]
    obtain e2 l2 where r2: "ensureActiveLocked io (l_head l + 1) l1 = (e2, l2)"
      by (cases "ensureActiveLocked io (l_head l + 1) l1")
    have head1: "l_head l1 = l_head l" "l_lastHash l1 = ?h"
      using I(6,7) I1(6,7) by simp_all
    note run' = run [unfolded appendBatchLocked_def]
    show ?thesis
    proof (cases "e1 = None \<and> e2 = None")
      case True
      then obtain hs2 i where inv2: "concat hs2 = concat hs" "ledger_inv sha l2 hs2 []" "l_active l2 = Some i"
          "l_options l2 = l_options l" "l_closed l2 = l_closed l" "l_hub l2 = l_hub l" "l_failed l2 = l_failed l"
        using ensure_inv [OF inv1 [THEN conjunct1], of io e2 l2] r2 head1(1) inv1 by auto
      note I2 = ledger_invD [OF inv2(2)]
      have head2: "l_head l2 = l_head l" "l_lastHash l2 = ?h"
        using I(6,7) I2(6,7) inv2(1) by simp_all
      have "write_batch sha io stored encoded l2 = (out, l')"
        using run' records(1) Inr se r1 r2 True first by simp
      moreover have "stored \<noteq> []" "stored_once (concat hs2 @ stored)" "length (concat hs2) + length stored + 1 < 2 ^ 64"
        using records enc(1) inv2(1) by simp_all
      ultimately have "case out of
          Inr recs \<Rightarrow> recs = stored \<and> (\<exists>hs'. concat hs' = concat hs2 @ stored \<and> ledger_inv sha l' hs' []) \<and>
            l_hub l' = fold publish stored (l_hub l2) \<and> l_failed l' = l_failed l2
        | Inl e \<Rightarrow> keeps_history sha l2 hs2 stored l'"
        using write_inv [OF inv2(2,3), of stored encoded io out l'] enc head2 inv2(4) by simp
      then show ?thesis
        using inv2 enc(1,2) by (simp add: keeps_history_def split: sum.splits)
    next
      case False
      then have "l' = l1 \<and> (\<exists>e. out = Inl e)"
        using run' records(1) Inr se r1 r2 first ensure_inv [OF inv1 [THEN conjunct1], of io e2 l2] head1(1)
        by (auto split: option.splits)
      moreover have "keeps_history sha l hs x l1" for x
        using inv1 by (simp add: keeps_historyI)
      ultimately show ?thesis
        by auto
    qed
  qed
qed

section \<open>Appending\<close>

lemma plan_shapes:
  assumes "Record_Validate input = None"
  shows "\<forall>r \<in> set (fst (spec_plan sha history input)). validateRecordShape r = None"
proof -
  have "validateRecordShape input = None"
    using assms by (simp add: Record_Validate_def)
  moreover from this have "validateRecordShape (makeDuplicateRecord sha input x) = None" for x
    by (simp add: validateRecordShape_def makeDuplicateRecord_def)
  moreover have "validateRecordShape (makeSequenceGapRecord input a b) = None" for a b
    by (simp add: validateRecordShape_def makeSequenceGapRecord_def)
  ultimately show ?thesis
    by (auto simp: spec_plan_def Let_def split: option.splits)
qed

lemma plan_size: "fst (spec_plan sha history input) \<noteq> []" "length (fst (spec_plan sha history input)) \<le> 2"
  by (auto simp: spec_plan_def Let_def split: option.splits)

lemma touch_inv: "ledger_inv sha l hs torn \<Longrightarrow> ledger_inv sha (touch_input input l) hs torn"
  by (simp add: touch_input_def ledger_inv_def sources_ok_touch)

lemma touch_fields [simp]:
  "l_options (touch_input input l) = l_options l" "l_files (touch_input input l) = l_files l"
  "l_segments (touch_input input l) = l_segments l" "l_hub (touch_input input l) = l_hub l"
  "l_closed (touch_input input l) = l_closed l" "l_failed (touch_input input l) = l_failed l"
  "l_head (touch_input input l) = l_head l" "l_lastHash (touch_input input l) = l_lastHash l"
  by (simp_all add: touch_input_def)

lemma inv_plan:
  assumes inv: "ledger_inv sha l hs []" and plan: "plan_append sha io ctx input l = Inr out"
  shows "out = spec_plan sha (concat hs) input"
proof -
  note I = ledger_invD [OF inv]
  have "v = map_option (occurrence_of sha) (find (is_occurrence key q) (concat hs))"
    if "findSourceOccurrenceLocked sha io ctx l key q = Inr v" for key q v
    using find_in_segments_exact [OF _ I(1)] I(10) that by (simp add: findSourceOccurrenceLocked_def)
  then show ?thesis
    by (rule plan_append_refines [OF I(8,9) _ plan])
qed

text \<open>The records an append adds to a history.\<close>

definition spec_append :: "(bytes \<Rightarrow> bytes) \<Rightarrow> Record list \<Rightarrow> Record \<Rightarrow> Record list" where
  "spec_append sha history input =
    number sha (last_hash zero_hash32 history) (of_nat (length history) + 1) (fst (spec_plan sha history input))"

lemma append_outcome:
  assumes "ledger_inv sha l hs []" "length (concat hs) + 3 < 2 ^ 64" "Append sha io ctx input l = (out, l')"
  shows "case out of
      Inr result \<Rightarrow> ar_Records result = spec_append sha (concat hs) input \<and>
        ar_Duplicate result = snd (spec_plan sha (concat hs) input) \<and>
        l_hub l' = fold publish (ar_Records result) (l_hub l) \<and> l_failed l' = l_failed l \<and>
        (\<exists>hs'. concat hs' = concat hs @ ar_Records result \<and> ledger_inv sha l' hs' [])
    | Inl e \<Rightarrow> keeps_history sha l hs (spec_append sha (concat hs) input) l'"
proof -
  let ?l = "touch_input input l"
  let ?plan = "spec_plan sha (concat hs) input"
  note I = ledger_invD [OF assms(1)]
  have same: "keeps_history sha l hs x l" "keeps_history sha l hs x ?l" for x
    using keeps_historyI [OF assms(1)] keeps_historyI [OF touch_inv [OF assms(1)]] by simp_all
  have spec: "spec_append sha (concat hs) input = number sha (l_lastHash ?l) (l_head ?l + 1) (fst ?plan)"
    using I(6,7) by (simp add: spec_append_def)
  show ?thesis
  proof (cases "first_err [Record_Validate input, ctx 0, fail_if (l_closed l) ErrClosed, l_failed l, ctx 1]")
    case (Some e)
    then show ?thesis
      using assms(3) same by (auto simp: Append_def)
  next
    case None
    then have valid: "Record_Validate input = None"
      by (simp add: first_err_None_iff)
    have go: "Append sha io ctx input l = (case plan_append sha io ctx input ?l of
        Inl e \<Rightarrow> (Inl e, ?l)
      | Inr (records, duplicate) \<Rightarrow> (case appendBatchLocked sha io records ?l of
          (Inl e, l) \<Rightarrow> (Inl e, l)
        | (Inr stored, l) \<Rightarrow> (Inr \<lparr>ar_Records = stored, ar_Duplicate = duplicate\<rparr>, l)))"
      unfolding Append_def None by (simp add: Let_def)
    show ?thesis
    proof (cases "plan_append sha io ctx input ?l")
      case (Inl e)
      then show ?thesis
        using assms(3) same go by auto
    next
      case (Inr plan)
      then have plan: "plan = ?plan"
        by (rule inv_plan [OF touch_inv [OF assms(1)]])
      obtain res m where batch: "appendBatchLocked sha io (fst ?plan) ?l = (res, m)"
        by (cases "appendBatchLocked sha io (fst ?plan) ?l")
      have once: "stored_once (concat hs @ number sha (l_lastHash ?l) (l_head ?l + 1) (fst ?plan))"
        by (rule stored_once_plan [OF I(9) number_sequences])
      have small: "length (concat hs) + length (fst ?plan) + 1 < 2 ^ 64"
        using assms(2) plan_size(2) [of sha "concat hs" input] by linarith
      note batched = appendBatch_inv [OF touch_inv [OF assms(1)] plan_size(1) plan_shapes [OF valid] once small batch]
      have "Append sha io ctx input l =
          (case res of Inl e \<Rightarrow> (Inl e, m) | Inr stored \<Rightarrow> (Inr \<lparr>ar_Records = stored, ar_Duplicate = snd ?plan\<rparr>, m))"
        using go Inr plan batch by (cases ?plan; cases res) simp_all
      then show ?thesis
        using assms(3) batched spec by (auto simp: keeps_history_def split: sum.splits)
    qed
  qed
qed

text \<open>
  C5.
  Appending refines its specification.  On a ledger that stands for a history, whatever calls of the
  operating system fail and whenever the caller gives up, an append either succeeds, extends the
  history by exactly the records that the specification plans for the input (a duplicate notice, a gap
  notice and the record, or the record), numbers and chains them, returns them and publishes them to
  every subscriber; or it fails, leaves the history and the subscribers as they were, and leaves
  bytes of the failed batch on disk only if the ledger refuses all further work.\<close>

theorem append_refines:
  assumes "ledger_inv sha l hs []" "length (concat hs) + 3 < 2 ^ 64" "Append sha io ctx input l = (out, l')"
  shows "case out of
      Inr result \<Rightarrow> ar_Records result = spec_append sha (concat hs) input \<and>
        ar_Duplicate result = snd (spec_plan sha (concat hs) input) \<and>
        l_hub l' = fold publish (ar_Records result) (l_hub l) \<and> l_failed l' = l_failed l \<and>
        (\<exists>hs'. concat hs' = concat hs @ ar_Records result \<and> ledger_inv sha l' hs' [])
    | Inl e \<Rightarrow> keeps_history sha l hs (spec_append sha (concat hs) input) l'"
  by (rule append_outcome [OF assms])

section \<open>Appends succeed\<close>

lemma cleanD:
  assumes "clean io"
  shows "io_read io = (\<lambda>_. None)" "io_open io = (\<lambda>_. None)" "io_close io = (\<lambda>_. None)" "io_sync io = (\<lambda>_. None)"
    "io_truncate io = None" "io_rename io = None" "io_index io = (\<lambda>_. None)" "io_write io n bs = (length bs, None)"
  using assms by (simp_all add: clean_def)

lemma writeAll_clean: "clean io \<Longrightarrow> writeAll io content bs = (content @ bs, length bs, None)"
  by (simp add: writeAll_def write_all.simps [of _ bs content 0] write_all.simps [of _ bs "content @ bs"] file_put_def cleanD)

lemma rotate_if_full_clean: "clean io \<Longrightarrow> fst (rotate_if_full io n l) = None"
  by (auto simp: rotate_if_full_def finalizeActiveLocked_def Let_def cleanD split: option.splits)

lemma fresh_segment:
  assumes "ledger_inv sha l hs torn" "l_active l = None"
  shows "tbl_get (l_files l) (segmentName (l_head l + 1) False) = None"
proof (rule ccontr)
  note I = ledger_invD [OF assms(1)]
  let ?name = "segmentName (next_position hs) False"
  have name: "segmentName (l_head l + 1) False = ?name"
    using I(6) by (simp add: add.commute)
  assume "tbl_get (l_files l) (segmentName (l_head l + 1) False) \<noteq> None"
  then have "?name \<in> {p \<in> fst ` set (l_files l). is_segment_name p}"
    using name by (auto simp: map_of_eq_None_iff)
  then obtain md where "md \<in> set (l_segments l)" "sm_Path md = ?name"
    using I(4) unfolding disk_ok_def by auto
  then show False
    using filed_paths [OF inv_inactive [OF assms] I(2)] by blast
qed

lemma ensure_clean: "ledger_inv sha l hs torn \<Longrightarrow> clean io \<Longrightarrow> fst (ensureActiveLocked io (l_head l + 1) l) = None"
  using fresh_segment [of sha l hs torn] by (auto simp: ensureActiveLocked_def Let_def cleanD)

lemma write_batch_clean: "clean io \<Longrightarrow> fst (write_batch sha io stored encoded l) = Inr stored"
  by (simp add: write_batch_def Let_def writeAll_clean cleanD fail_if_def)

lemma appendBatch_clean:
  assumes inv: "ledger_inv sha l hs []" and io: "clean io" and records: "records \<noteq> []"
    and enc: "encode_batch sha (l_options l) (l_head l + 1) (l_lastHash l) records [] [] = Inr (stored, encoded)"
    and first: "lr_Cursor (hd stored) = l_head l + 1"
  shows "fst (appendBatchLocked sha io records l) = Inr stored"
proof -
  obtain k where r1: "rotate_if_full io (length encoded) l = (None, k)"
    using rotate_if_full_clean [OF io, of "length encoded" l] by (cases "rotate_if_full io (length encoded) l") auto
  note inv1 = rotate_if_full_inv [OF inv r1, THEN conjunct1]
  have "l_head k = l_head l"
    using ledger_invD(6) [OF inv] ledger_invD(6) [OF inv1] by simp
  then obtain j where r2: "ensureActiveLocked io (l_head l + 1) k = (None, j)"
    using ensure_clean [OF inv1 io] by (cases "ensureActiveLocked io (l_head l + 1) k") auto
  show ?thesis
    using records enc r1 r2 first write_batch_clean [OF io] by (simp add: appendBatchLocked_def)
qed

lemma plan_readable:
  assumes inv: "ledger_inv sha l hs []" and io: "readable io" and ctx: "ctx = (\<lambda>_. None)"
  shows "plan_append sha io ctx input l = Inr (spec_plan sha (concat hs) input)"
proof -
  note I = ledger_invD [OF inv]
  let ?key = "source_key input" and ?q = "lr_SourceSequence input"
  have "findSourceOccurrenceLocked sha io ctx l ?key ?q =
      Inr (map_option (occurrence_of sha) (find (is_occurrence ?key ?q) (concat hs)))"
    using find_in_segments_readable [OF _ I(1) io ctx] I(10) by (simp add: findSourceOccurrenceLocked_def)
  then have "plan_append sha io ctx input l \<noteq> Inl e" for e
    by (auto simp: plan_append_def Let_def split: option.splits)
  then obtain out where "plan_append sha io ctx input l = Inr out"
    by (cases "plan_append sha io ctx input l") auto
  then show ?thesis
    using inv_plan [OF inv] by blast
qed

lemma append_ok:
  assumes "ledger_inv sha l hs []" "length (concat hs) + 3 < 2 ^ 64" "clean io" "ctx = (\<lambda>_. None)"
    and "\<not> l_closed l" "l_failed l = None" "Record_Validate input = None"
    and "encode_batch sha (l_options l) (l_head l + 1) (l_lastHash l) (fst (spec_plan sha (concat hs) input)) [] [] = Inr batch"
  shows "\<exists>l' hs'. Append sha io ctx input l =
      (Inr \<lparr>ar_Records = spec_append sha (concat hs) input, ar_Duplicate = snd (spec_plan sha (concat hs) input)\<rparr>, l') \<and>
    ledger_inv sha l' hs' [] \<and> l_failed l' = None \<and> concat hs' = concat hs @ spec_append sha (concat hs) input"
proof -
  let ?l = "touch_input input l" and ?plan = "spec_plan sha (concat hs) input"
  note inv = touch_inv [OF assms(1), of input]
  obtain stored encoded where batch: "batch = (stored, encoded)"
    by (cases batch)
  have head: "unat (l_head l + 1) = length (concat hs) + 1"
    using ledger_invD(2,6) [OF assms(1)] by (simp add: unat_word_ariths unat_of_nat)
  then have "l_head l + 1 \<noteq> 0"
    by (metis Suc_eq_plus1 nat.simps(3) unat_0)
  then have "stored = number sha (l_lastHash l) (l_head l + 1) (fst ?plan)"
    using encode_batch_exact [OF assms(8) [unfolded batch] plan_shapes [OF assms(7)]] head assms(2)
      plan_size(2) [of sha "concat hs" input] by simp
  then have "lr_Cursor (hd stored) = l_head l + 1"
    by (simp add: number_hd plan_size)
  then have "fst (appendBatchLocked sha io (fst ?plan) ?l) = Inr stored"
    using appendBatch_clean [OF inv assms(3) plan_size(1), of sha "concat hs" input stored encoded] assms(8) batch by simp
  then obtain l' where run: "appendBatchLocked sha io (fst ?plan) ?l = (Inr stored, l')"
    by (cases "appendBatchLocked sha io (fst ?plan) ?l") simp
  have plan: "plan_append sha io ctx input ?l = Inr ?plan"
    by (rule plan_readable [OF inv clean_readable [OF assms(3)] assms(4)])
  have guards: "first_err [Record_Validate input, ctx 0, fail_if (l_closed l) ErrClosed, l_failed l, ctx 1] = None"
    using assms(4-7) by (simp add: first_err_None_iff)
  have app: "Append sha io ctx input l = (Inr \<lparr>ar_Records = stored, ar_Duplicate = snd ?plan\<rparr>, l')"
    using plan run unfolding Append_def guards by (cases ?plan) (simp add: Let_def)
  then have "stored = spec_append sha (concat hs) input \<and> l_failed l' = None \<and> (\<exists>hs'. concat hs' = concat hs @ stored \<and> ledger_inv sha l' hs' [])"
    using append_outcome [OF assms(1,2) app] assms(6) by auto
  then show ?thesis
    using app by auto
qed

text \<open>
  C18.
  Appends succeed.  On an open ledger that stands for a history, when no call of the operating system fails
  and the caller does not give up, appending a valid record whose batch fits the limits on frames and
  segments succeeds, with exactly the records of the specification, and the ledger then stands for the
  extended history.\<close>

theorem append_succeeds:
  assumes "ledger_inv sha l hs []" "length (concat hs) + 3 < 2 ^ 64" "clean io" "ctx = (\<lambda>_. None)"
    and "\<not> l_closed l" "l_failed l = None" "Record_Validate input = None"
    and "encode_batch sha (l_options l) (l_head l + 1) (l_lastHash l) (fst (spec_plan sha (concat hs) input)) [] [] = Inr batch"
  shows "\<exists>l' hs'. Append sha io ctx input l =
      (Inr \<lparr>ar_Records = spec_append sha (concat hs) input, ar_Duplicate = snd (spec_plan sha (concat hs) input)\<rparr>, l') \<and>
    ledger_inv sha l' hs' [] \<and> l_failed l' = None \<and> concat hs' = concat hs @ spec_append sha (concat hs) input"
  by (rule append_ok [OF assms])

end
