(* ===== verification/Ledger_Recovery.thy ===== *)
theory Ledger_Recovery
  imports Ledger_Append
begin

text \<open>
  Opening a directory after a crash.  Whatever part of the last batch reached the disk, opening recovers
  the complete history before it together with the records of the batch that were written completely.
\<close>

section \<open>Loading segments\<close>

definition loaded :: "(bytes \<Rightarrow> bytes) \<Rightarrow> SegmentMetadata list \<Rightarrow> Record list \<Rightarrow> Ledger \<Rightarrow> Ledger" where
  "loaded sha mds records l = l\<lparr>l_segments := l_segments l @ mds,
     l_sources := fold (indexSourceRecord sha (nat (op_MaxSourceSequences (l_options l)))) records (l_sources l),
     l_head := l_head l + of_nat (length records), l_lastHash := last_hash (l_lastHash l) records\<rparr>"

lemma loaded_loaded: "loaded sha b y (loaded sha a x l) = loaded sha (a @ b) (x @ y) l"
  by (simp add: loaded_def)

lemma loaded_Nil: "loaded sha [] [] l = l"
  by (cases l) (simp add: loaded_def)

lemma loaded_fields [simp]:
  "l_options (loaded sha mds rs l) = l_options l" "l_files (loaded sha mds rs l) = l_files l"
  "l_lastHash (loaded sha mds rs l) = last_hash (l_lastHash l) rs" "l_head (loaded sha mds rs l) = l_head l + of_nat (length rs)"
  by (simp_all add: loaded_def)

lemma load_segment_chain:
  assumes "chained sha m h c rs" "length rs < 2 ^ 64" "l_lastHash l = h" "l_head l + 1 = c"
    "sc_metadata s = seg_meta sha h path fin rs" "sc_records s = rs"
  shows "load_segment sha path s l =
    (let l' = loaded sha [sc_metadata s] rs l in if HasSuffix path ''.open'' then l'\<lparr>l_active := Some (length (l_segments l))\<rparr> else l')"
proof (cases "rs = []")
  case True
  then show ?thesis
    using assms by (cases l) (simp add: load_segment_def loaded_def Let_def empty_metadata_def)
next
  case False
  then have "(0 :: uint64) < of_nat (length rs)"
    using assms(2) by (simp add: word_less_nat_alt unat_of_nat)
  moreover have "lr_Cursor (last rs) = l_head l + of_nat (length rs)"
    using chained_last [OF assms(1) False] unfolding assms(4) [symmetric] by (simp add: algebra_simps)
  ultimately show ?thesis
    using assms False seg_meta_last [OF False, of sha h path fin]
    by (simp add: load_segment_def loaded_def Let_def)
qed

lemma open_filed:
  assumes "laid sha no_slack (l_files l) h c ys gs" "\<forall>md \<in> set ys. sm_Finalized md"
    "sound_chain sha (op_MaxFramePayload (l_options l)) h c (concat gs)" "\<forall>md \<in> set ys. readable_file io (sm_Path md)" "l_lastHash l = h" "l_head l + 1 = c"
  shows "open_segments sha io (map sm_Path ys @ rest) c h l =
    open_segments sha io rest (c + of_nat (length (concat gs))) (last_hash h (concat gs)) (loaded sha ys (concat gs) l)"
  using laid_length [OF assms(1)] assms
proof (induction ys gs arbitrary: h c l rule: list_induct2)
  case Nil
  then show ?case
    by (simp add: loaded_Nil)
next
  case (Cons md ys rs gs)
  let ?m = "op_MaxFramePayload (l_options l)"
  note sc = sound_chain_append [of sha ?m h c rs "concat gs"]
  have rs: "sound_chain sha ?m h c rs" "sound_chain sha ?m (last_hash h rs) (c + of_nat (length rs)) (concat gs)"
    using sc Cons.prems(3) by simp_all
  obtain fin where md: "md = seg_meta sha h (segmentName c fin) fin rs" "fin"
    using Cons.prems(1,2) by auto
  let ?path = "segmentName c True" and ?s = "scanned sha h (segmentName c True) rs []"
  have scan: "scanSegment sha ?path (open_segment io (l_files l) ?path) ?m c h = Inr ?s"
    by (rule scan_readable) (use Cons.prems rs(1) md torn_tail_end in \<open>auto simp: sound_chain_def\<close>)
  have meta: "sc_metadata ?s = md" "sc_records ?s = rs" "\<not> sc_incompleteTail ?s"
    using md by (simp_all add: scanned_def)
  have step: "segment_step ?s c h = (c + of_nat (length rs), last_hash h rs)"
    by (rule segment_step_chain) (use rs(1) in \<open>auto simp: sound_chain_def scanned_def\<close>)
  have load: "load_segment sha ?path ?s l = loaded sha [md] rs l"
    using load_segment_chain [of sha ?m h c rs l ?s ?path True] rs(1) Cons.prems(5,6) meta md
    by (simp add: sound_chain_def)
  have "open_segments sha io (map sm_Path (md # ys) @ rest) c h l =
      open_segments sha io (map sm_Path ys @ rest) (c + of_nat (length rs)) (last_hash h rs) (loaded sha [md] rs l)"
    using md scan meta(3) step load by (simp add: repair_tail_def)
  also have "\<dots> = open_segments sha io rest (c + of_nat (length rs) + of_nat (length (concat gs))) (last_hash (last_hash h rs) (concat gs))
      (loaded sha ys (concat gs) (loaded sha [md] rs l))"
    by (rule Cons.IH) (use Cons.prems rs(2) in \<open>auto simp: ac_simps\<close>)
  finally show ?case
    by (simp add: loaded_loaded ac_simps)
qed

text \<open>
  The open segment: the records a scan found complete are kept, and what it did not is cut off.\<close>

lemma open_last_segment:
  assumes chain: "sound_chain sha (op_MaxFramePayload (l_options l)) h c rs" "l_lastHash l = h" "l_head l + 1 = c"
    and scan: "scanSegment sha path (open_segment io (l_files l) path) (op_MaxFramePayload (l_options l)) c h = Inr s"
    and s: "sc_metadata s = seg_meta sha h path False rs" "sc_records s = rs" "sc_lastGoodOffset s = length (chain_bytes sha h rs)"
    and content: "tbl_get (l_files l) path = Some (chain_bytes sha h rs @ tail)" "sc_incompleteTail s \<or> tail = []"
    and path: "HasSuffix path ''.open''"
    and io: "io_open io = (\<lambda>_. None)" "io_truncate io = None" "io_sync io = (\<lambda>_. None)"
  obtains repairs where "open_segments sha io [path] c h l =
    Inr ((loaded sha [seg_meta sha h path False rs] rs l)\<lparr>l_active := Some (length (l_segments l)),
      l_files := tbl_put path (chain_bytes sha h rs) (l_files l), l_repairs := repairs\<rparr>)"
proof -
  have step: "segment_step s c h = (c + of_nat (length rs), last_hash h rs)"
    by (rule segment_step_chain) (use chain(1) s(1) in \<open>auto simp: sound_chain_def\<close>)
  have load: "load_segment sha path s k = (loaded sha [seg_meta sha h path False rs] rs k)\<lparr>l_active := Some (length (l_segments k))\<rparr>"
    if "l_lastHash k = h" "l_head k + 1 = c" "l_options k = l_options l" for k
    using load_segment_chain [of sha "op_MaxFramePayload (l_options l)" h c rs k s path False] chain(1) that s path
    by (simp add: sound_chain_def Let_def)
  have unchanged: "tail = [] \<Longrightarrow> tbl_put path (chain_bytes sha h rs) (l_files l) = l_files l"
    using content(1) by (simp add: update_triv)
  show thesis
  proof (cases "sc_incompleteTail s")
    case True
    then obtain rp where "repair_tail io path s l = Inr (l\<lparr>l_files := tbl_put path (chain_bytes sha h rs) (l_files l), l_repairs := rp\<rparr>)"
      using path io content(1) s(3) by (simp add: repair_tail_def truncateAndSync_def truncate_append)
    then show thesis
      using that [of rp] scan step load [of "l\<lparr>l_files := tbl_put path (chain_bytes sha h rs) (l_files l), l_repairs := rp\<rparr>"] chain(2,3) io(1)
      by (simp add: loaded_def)
  next
    case False
    then have "open_segments sha io [path] c h l = Inr ((loaded sha [seg_meta sha h path False rs] rs l)\<lparr>l_active := Some (length (l_segments l))\<rparr>)"
      using scan step load [of l] chain(2,3) io(1) by (simp add: repair_tail_def)
    then show thesis
      using that [of "l_repairs l"] unchanged content(2) False by (cases l) (simp add: loaded_def)
  qed
qed

section \<open>Opening a directory\<close>

text \<open>The options of an opened ledger have positive bounds.\<close>

lemma normalizeOptions_positive:
  assumes "normalizeOptions abspath options = Inr o'"
  shows "op_MaxFramePayload o' \<noteq> 0" "0 < op_MaxSourceSequences o'" "0 < op_MaxSegmentBytes o'"
  using assms by (auto simp: normalizeOptions_def Let_def bind_r_Inr split: if_splits)

lemma new_ledger_fields [simp]:
  "l_options (new_ledger o' files) = o'" "l_files (new_ledger o' files) = files" "l_lastHash (new_ledger o' files) = zero_hash32"
  "l_head (new_ledger o' files) = 0" "l_segments (new_ledger o' files) = []" "l_sources (new_ledger o' files) = []"
  "l_active (new_ledger o' files) = None" "l_failed (new_ledger o' files) = None" "l_closed (new_ledger o' files) = False"
  by (simp_all add: new_ledger_def)

text \<open>
  Opening a directory whose finalized segments hold \<open>gs\<close> and whose open segment a scan finds to hold \<open>rs\<close>, in
  full or up to an incomplete tail.\<close>

lemma Open_with_open_segment:
  fixes gs rs sha
  defines "h \<equiv> last_hash zero_hash32 (concat gs)" and "path \<equiv> segmentName (next_position gs) False"
  assumes opts: "normalizeOptions abspath options = Inr o'" and H: "well_formed_history sha (op_MaxFramePayload o') (concat gs @ rs)"
    and filed: "filed sha files ys gs"
    and discovered: "discoverSegmentPaths files = Inr (map sm_Path ys @ [path])"
    and keys: "distinct (map fst files)" "{p \<in> fst ` set files. is_segment_name p} = insert path (sm_Path ` set ys)"
    and content: "tbl_get files path = Some (chain_bytes sha h rs @ tail)"
    and scan: "scanSegment sha path (open_segment io files path) (op_MaxFramePayload o') (next_position gs) h = Inr s"
    and s: "sc_metadata s = seg_meta sha h path False rs" "sc_records s = rs" "sc_lastGoodOffset s = length (chain_bytes sha h rs)"
      "sc_incompleteTail s \<or> tail = []"
    and io: "clean (io\<lparr>io_read := (\<lambda>_. None)\<rparr>)" "\<forall>md \<in> set ys. io_read io (sm_Path md) = None"
  shows "\<exists>l. Open sha abspath io options files = Inr l \<and> ledger_inv sha l (gs @ [rs]) [] \<and> l_failed l = None \<and> \<not> l_closed l \<and>
    tbl_get (l_files l) path = Some (chain_bytes sha h rs)"
proof -
  let ?new = "new_ledger o' files" and ?m = "op_MaxFramePayload o'"
  let ?mid = "loaded sha ys (concat gs) ?new"
  let ?files = "tbl_put path (chain_bytes sha h rs) files"
  have calls: "io_open io = (\<lambda>_. None)" "io_truncate io = None" "io_sync io = (\<lambda>_. None)" "io_index io = (\<lambda>_. None)"
    using io(1) by (simp_all add: clean_def)
  have sound: "sound_chain sha ?m zero_hash32 1 (concat gs)" "sound_chain sha ?m h (next_position gs) rs"
    using H sound_chain_append [of sha ?m zero_hash32 1 "concat gs" rs] by (simp_all add: well_formed_history_def h_def)
  have bound: "length (concat gs) + 1 < 2 ^ 64"
    using H by (simp add: well_formed_history_def)
  have "open_segments sha io (map sm_Path ys @ [path]) 1 zero_hash32 ?new =
      open_segments sha io [path] (next_position gs) h ?mid"
    unfolding h_def
    by (rule open_filed) (use filed sound(1) io(2) calls in \<open>auto simp: filed_def readable_file_def\<close>)
  moreover obtain repairs where "open_segments sha io [path] (next_position gs) h ?mid =
    Inr ((loaded sha [seg_meta sha h path False rs] rs ?mid)\<lparr>l_active := Some (length (l_segments ?mid)),
      l_files := tbl_put path (chain_bytes sha h rs) (l_files ?mid), l_repairs := repairs\<rparr>)"
    by (rule open_last_segment [of sha ?mid h "next_position gs" rs path io s tail])
      (use sound(2) scan s content calls in \<open>simp_all add: h_def path_def add.commute\<close>)
  moreover define l where "l = (loaded sha [seg_meta sha h path False rs] rs ?mid)\<lparr>l_active := Some (length (l_segments ?mid)),
      l_files := tbl_put path (chain_bytes sha h rs) (l_files ?mid), l_repairs := repairs, l_indexErr := None\<rparr>"
  ultimately have "Open sha abspath io options files = Inr l"
    using opts discovered calls by (simp add: Open_def flushIndexLocked_def)
  moreover have "ledger_inv sha l (gs @ [rs]) []"
  proof (rule inv_snocI [where ys = ys and fin = False])
    show "filed sha (l_files l) ys gs"
      using filed_cong [OF filed, of ?files] filed_paths [OF filed bound] by (simp add: l_def path_def)
    show "{p \<in> fst ` set (l_files l). is_segment_name p} = insert (segmentName (next_position gs) False) (sm_Path ` set ys)"
      using keys(2) segment_keys_put [of path "chain_bytes sha h rs" files] by (simp add: l_def path_def)
    show "sources_ok sha (nat (op_MaxSourceSequences (l_options l))) (concat gs @ rs) (l_sources l)"
      using sources_ok_fold [OF sources_ok_empty, of "nat (op_MaxSourceSequences o')" sha "concat gs @ rs"]
        normalizeOptions_positive(2) [OF opts] by (simp add: l_def loaded_def)
  qed (use H keys normalizeOptions_positive(2) [OF opts] in
      \<open>simp_all add: l_def loaded_def h_def path_def well_formed_history_def distinct_update\<close>)
  moreover have "l_failed l = None" "\<not> l_closed l" "tbl_get (l_files l) path = Some (chain_bytes sha h rs)"
    by (simp_all add: l_def loaded_def)
  ultimately show ?thesis
    by blast
qed

text \<open>Opening a directory without an open segment.\<close>

lemma Open_finalized:
  assumes opts: "normalizeOptions abspath options = Inr o'" and H: "well_formed_history sha (op_MaxFramePayload o') (concat hs)"
    and disk: "disk_ok sha slack files mds hs" "mds = [] \<or> sm_Finalized (last mds)" and io: "clean io"
  shows "\<exists>l. Open sha abspath io options files = Inr l \<and> ledger_inv sha l hs [] \<and> l_failed l = None \<and> \<not> l_closed l"
proof -
  let ?new = "new_ledger o' files" and ?m = "op_MaxFramePayload o'"
  have filed: "filed sha files mds hs"
    by (rule disk_finalized [OF disk])
  define l where "l = (loaded sha mds (concat hs) ?new)\<lparr>l_indexErr := None\<rparr>"
  have "open_segments sha io (map sm_Path mds @ []) 1 zero_hash32 ?new = Inr (loaded sha mds (concat hs) ?new)"
    using open_filed [of sha ?new zero_hash32 1 mds hs io "[]"] filed H io
    by (simp add: filed_def well_formed_history_def clean_def readable_file_def)
  moreover have "discoverSegmentPaths files = Inr (map sm_Path mds)"
    using disk_discovered [OF disk(1)] H by (simp add: well_formed_history_def)
  ultimately have "Open sha abspath io options files = Inr l"
    using opts io by (simp add: Open_def flushIndexLocked_def clean_def l_def)
  moreover have "disk_ok sha (tail_at mds []) files mds hs"
    using disk filed by (auto simp: disk_ok_def filed_def)
  then have "ledger_inv sha l hs []"
    using H normalizeOptions_positive(2) [OF opts] disk(2)
      sources_ok_fold [OF sources_ok_empty, of "nat (op_MaxSourceSequences o')" sha "concat hs"]
    by (auto simp: ledger_inv_def l_def loaded_def well_formed_history_def)
  moreover have "l_failed l = None" "\<not> l_closed l"
    by (simp_all add: l_def loaded_def)
  ultimately show ?thesis
    by blast
qed

section \<open>Recovery after a crash\<close>

text \<open>The directory holds a history and, behind it, \<open>torn\<close> bytes.\<close>

definition on_disk :: "(bytes \<Rightarrow> bytes) \<Rightarrow> directory \<Rightarrow> Record list list \<Rightarrow> bytes \<Rightarrow> bool" where
  "on_disk sha files hs torn \<longleftrightarrow> (\<exists>mds. disk_ok sha (tail_at mds torn) files mds hs \<and> (mds = [] \<longrightarrow> torn = []))"

lemma inv_on_disk: "ledger_inv sha l hs torn \<Longrightarrow> on_disk sha (l_files l) hs torn"
  unfolding on_disk_def using ledger_invD(4,12) by blast

text \<open>A torn tail holds no complete frame.\<close>

lemma torn_tail_no_frame:
  assumes "torn_tail m (reader_of t) b" "m \<noteq> 0" "chained sha m h c [r]"
  shows "\<not> prefix (frame_bytes (wire_frame sha h r)) t"
proof
  assume "prefix (frame_bytes (wire_frame sha h r)) t"
  then obtain rest where t: "t = frame_bytes (wire_frame sha h r) @ rest"
    by (auto elim: prefixE)
  have "Marshal (wire_frame sha h r) m = Inr (frame_bytes (wire_frame sha h r))"
    using assms(3) by (simp add: frame_bytes_Marshal) (simp add: wire_frame_def)
  from Decoder_Read_Marshal [OF this assms(2), of rest None] assms(1) show False
    by (simp add: torn_tail_def t)
qed

lemma complete_records:
  assumes "chained sha m h c rs" "m \<noteq> 0" "torn = chain_bytes sha h (take k rs) @ t" "torn_tail m (reader_of t) b"
    "j \<le> length rs" "prefix (chain_bytes sha h (take j rs)) torn"
  shows "j \<le> k"
proof (rule ccontr)
  assume "\<not> j \<le> k"
  then have k: "k < j" "k < length rs"
    using assms(5) by simp_all
  then have "take j rs = take k rs @ [rs ! k] @ take (j - Suc k) (drop (Suc k) rs)"
    by (metis (no_types, lifting) Cons_nth_drop_Suc append_Cons append_Nil le_add_diff_inverse less_imp_le_nat take_Suc_Cons take_add Suc_diff_Suc)
  then have "prefix (frame_bytes (wire_frame sha (last_hash h (take k rs)) (rs ! k))) t"
    using assms(3,6) by (auto simp: prefix_def)
  moreover have "chained sha m (last_hash h (take k rs)) (c + of_nat k) [rs ! k]"
  proof -
    have "rs = take k rs @ rs ! k # drop (Suc k) rs"
      using k(2) by (rule id_take_nth_drop)
    then have "chained sha m h c (take k rs @ rs ! k # drop (Suc k) rs)"
      using assms(1) by simp
    then show ?thesis
      using k(2) by (simp add: min_def)
  qed
  ultimately show False
    using torn_tail_no_frame [OF assms(4,2)] by blast
qed

lemma disk_recovered:
  assumes disk: "on_disk sha files hs torn" and m: "m \<noteq> 0"
    and H: "torn \<noteq> [] \<longrightarrow> chained sha m (last_hash zero_hash32 (concat hs)) c batch"
    and torn: "prefix torn (chain_bytes sha (last_hash zero_hash32 (concat hs)) batch)"
    and bound: "length (concat hs @ batch) + 1 < 2 ^ 64"
  obtains mds hs' k t where "disk_ok sha (tail_at mds t) files mds hs'" "concat hs' = concat hs @ take k batch"
    "torn = chain_bytes sha (last_hash zero_hash32 (concat hs)) (take k batch) @ t" "torn_tail m (reader_of t) (t \<noteq> [])"
proof -
  obtain mds where mds: "disk_ok sha (tail_at mds torn) files mds hs" "mds = [] \<longrightarrow> torn = []"
    using disk by (auto simp: on_disk_def)
  show thesis
  proof (cases "torn = []")
    case True
    then show thesis
      using that [of mds "[]" hs 0] mds(1) torn_tail_end [OF m] by simp
  next
    case False
    let ?H = "last_hash zero_hash32 (concat hs)"
    obtain k t where k: "torn = chain_bytes sha ?H (take k batch) @ t" "torn_tail m (reader_of t) (t \<noteq> [])"
      using prefix_of_chain [OF m _ torn] H False by blast
    obtain ys y where snoc: "mds = ys @ [y]"
      using mds(2) False by (cases mds rule: rev_cases) auto
    have slack: "tail_at (ys @ [y]) torn (sm_Path y) = torn"
      by (simp add: tail_at_def)
    show thesis
    proof (rule disk_snocD [OF mds(1) [unfolded snoc]], goal_cases)
      case (1 gs rs fin)
      let ?rs = "rs @ take k batch" and ?y = "next_meta sha gs False (rs @ take k batch)"
      have fin: "\<not> fin"
        using 1(5) slack False by simp
      then have y: "sm_Path y = sm_Path ?y"
        using 1(3) by simp
      have "disk_ok sha (tail_at (ys @ [?y]) t) files (ys @ [?y]) (gs @ [?rs])"
      proof (rule disk_snocI [OF 1(2) _ refl])
        show "length (concat gs) + 1 < 2 ^ 64"
          using bound 1(1) by simp
        show "tbl_get files (sm_Path ?y) = Some (chain_bytes sha (last_hash zero_hash32 (concat gs)) ?rs @ t)"
          using 1(1,4) slack k(1) y by simp
        show "{p \<in> fst ` set files. is_segment_name p} = insert (sm_Path ?y) (sm_Path ` set ys)"
          using 1(7) y by simp
      qed (use 1(6) in simp_all)
      then show thesis
        using that [of "ys @ [?y]" t "gs @ [?rs]" k] 1(1) k by simp
    qed
  qed
qed

text \<open>Opening a directory that holds a history and a torn tail.\<close>

lemma Open_recovers:
  assumes opts: "normalizeOptions abspath options = Inr o'" and io: "clean io"
    and H: "well_formed_history sha (op_MaxFramePayload o') (concat hs)"
    and disk: "disk_ok sha (tail_at mds t) files mds hs"
    and torn: "torn_tail (op_MaxFramePayload o') (reader_of t) (t \<noteq> [])"
  shows "\<exists>l. Open sha abspath io options files = Inr l \<and> ledger_inv sha l hs [] \<and> l_failed l = None \<and> \<not> l_closed l"
proof (cases "mds = [] \<or> sm_Finalized (last mds)")
  case True
  then show ?thesis
    by (rule Open_finalized [OF opts H disk _ io])
next
  case False
  then obtain ys y where snoc: "mds = ys @ [y]"
    by (cases mds rule: rev_cases) auto
  let ?m = "op_MaxFramePayload o'"
  have slack: "tail_at (ys @ [y]) t (sm_Path y) = t"
    by (simp add: tail_at_def)
  show ?thesis
  proof (rule disk_snocD [OF disk [unfolded snoc]], goal_cases)
    case (1 gs rs fin)
    let ?path = "segmentName (next_position gs) False" and ?h = "last_hash zero_hash32 (concat gs)"
    have y: "\<not> fin" "sm_Path y = ?path"
      using 1(3) False snoc by (auto simp: seg_meta_simps(1,2))
    have sound: "sound_chain sha ?m ?h (next_position gs) rs"
      using H 1(1) sound_chain_append [of sha ?m zero_hash32 1 "concat gs" rs] by (simp add: well_formed_history_def)
    have content: "tbl_get files ?path = Some (chain_bytes sha ?h rs @ t)"
      using 1(4) slack y(2) by simp
    have scan: "scanSegment sha ?path (open_segment io files ?path) ?m (next_position gs) ?h = Inr (scanned sha ?h ?path rs t)"
      by (rule scan_readable) (use sound content torn io in \<open>auto simp: sound_chain_def readable_file_def clean_def\<close>)
    have "\<exists>l. Open sha abspath io options files = Inr l \<and> ledger_inv sha l (gs @ [rs]) [] \<and> l_failed l = None \<and> \<not> l_closed l \<and>
        tbl_get (l_files l) ?path = Some (chain_bytes sha ?h rs)"
    proof (rule Open_with_open_segment [OF opts _ 1(2) _ 1(6) _ content scan])
      show "discoverSegmentPaths files = Inr (map sm_Path ys @ [?path])"
        using disk_discovered [OF disk] H y(2) snoc by (simp add: well_formed_history_def)
    qed (use H 1(1,7) y(2) io in \<open>simp_all add: scanned_def clean_def\<close>)
    then show ?case
      using 1(1) by blast
  qed
qed

lemma stored_once_prefix: "stored_once (xs @ ys) \<Longrightarrow> stored_once xs"
  unfolding stored_once_def by auto

lemma well_formed_prefix:
  assumes "well_formed_history sha m (history @ batch)"
  shows "well_formed_history sha m (history @ take k batch)"
proof -
  have split: "history @ batch = (history @ take k batch) @ drop k batch"
    by simp
  have "sound_chain sha m zero_hash32 1 (history @ take k batch)" "stored_once (history @ take k batch)"
    using assms sound_chain_append stored_once_prefix unfolding well_formed_history_def split by blast+
  moreover have "length (take k batch) \<le> length batch"
    by simp
  ultimately show ?thesis
    using assms unfolding well_formed_history_def length_append by linarith
qed

text \<open>
  C4.
  No crash loses or corrupts a durable record.  Let a directory hold a history and, at the end of its open
  segment, any part of the bytes of a further batch, as a crash in the middle of an append leaves it.
  Opening it succeeds and yields a ledger that stands for that history followed by the records of
  the batch whose bytes are all there: every completely written record is recovered, and nothing else
  is.\<close>

theorem crash_recovery:
  assumes "normalizeOptions abspath options = Inr o'" "clean io" "on_disk sha files hs torn"
    and "well_formed_history sha (op_MaxFramePayload o') (concat hs @ batch)"
    and "prefix torn (chain_bytes sha (last_hash zero_hash32 (concat hs)) batch)"
  shows "\<exists>l hs' k. Open sha abspath io options files = Inr l \<and> ledger_inv sha l hs' [] \<and> l_failed l = None \<and> \<not> l_closed l \<and>
    concat hs' = concat hs @ take k batch \<and> prefix (chain_bytes sha (last_hash zero_hash32 (concat hs)) (take k batch)) torn \<and>
    (\<forall>j \<le> length batch. prefix (chain_bytes sha (last_hash zero_hash32 (concat hs)) (take j batch)) torn \<longrightarrow> j \<le> k)"
proof -
  let ?m = "op_MaxFramePayload o'"
  have m: "?m \<noteq> 0"
    using normalizeOptions_positive(1) [OF assms(1)] .
  have chained: "chained sha ?m (last_hash zero_hash32 (concat hs)) (1 + of_nat (length (concat hs))) batch"
    using assms(4) by (simp add: well_formed_history_def sound_chain_def)
  obtain mds hs' k t where r: "disk_ok sha (tail_at mds t) files mds hs'" "concat hs' = concat hs @ take k batch"
      "torn = chain_bytes sha (last_hash zero_hash32 (concat hs)) (take k batch) @ t" "torn_tail ?m (reader_of t) (t \<noteq> [])"
    using assms(4) chained by (rule_tac disk_recovered [OF assms(3) m _ assms(5)]) (auto simp: well_formed_history_def)
  have "well_formed_history sha ?m (concat hs')"
    using well_formed_prefix [OF assms(4)] r(2) by simp
  then obtain l where "Open sha abspath io options files = Inr l" "ledger_inv sha l hs' []" "l_failed l = None" "\<not> l_closed l"
    using Open_recovers [OF assms(1,2) _ r(1,4)] by blast
  moreover have "prefix (chain_bytes sha (last_hash zero_hash32 (concat hs)) (take k batch)) torn"
    by (simp add: r(3))
  moreover have "\<forall>j \<le> length batch. prefix (chain_bytes sha (last_hash zero_hash32 (concat hs)) (take j batch)) torn \<longrightarrow> j \<le> k"
    using complete_records [OF chained m r(3,4)] by blast
  ultimately show ?thesis
    using r(2) by blast
qed

end
