(* ===== verification/Ledger_Faults.thy ===== *)
theory Ledger_Faults
  imports Ledger_Recovery
begin

text \<open>
  Two situations in which the ledger does not keep its promises: a transient read error while opening
  destroys durable records, and finalizing an empty segment makes the directory impossible to open.
\<close>

section \<open>A read error while opening\<close>

lemma torn_tail_failing: "m \<noteq> 0 \<Longrightarrow> torn_tail m \<lparr>rd_data = [], rd_failure = Some e\<rparr> True"
  by (simp add: torn_tail_def Decoder_Read_def ReadFull_def HeaderSize_def)

lemma take_chain: "take (length (chain_bytes sha h (take k rs))) (chain_bytes sha h rs) = chain_bytes sha h (take k rs)"
  by (metis append_eq_conv_conj append_take_drop_id chain_bytes_append)

text \<open>
  C21.
  A read error while opening destroys durable records.  Let a ledger stand for a history, and let reading
  its open segment fail, once, right behind the \<open>k\<close>-th record of that segment while it is being opened.
  Opening reports success, with a history that lacks every later record, and it has cut these records off
  the file, although each was reported as durable: the frame decoder reports every read error as an
  incomplete frame, which opening takes for the trace of a crash.\<close>

theorem read_error_truncates:
  assumes "ledger_inv sha l (gs @ [rs]) []" "l_active l = Some i" "path = sm_Path (l_segments l ! i)"
    and "normalizeOptions abspath options = Inr (l_options l)" "clean (io\<lparr>io_read := (\<lambda>_. None)\<rparr>)"
    and "io_read io = (\<lambda>p. if p = path then Some (length (chain_bytes sha (last_hash zero_hash32 (concat gs)) (take k rs)), e) else None)"
  shows "\<exists>l'. Open sha abspath io options (l_files l) = Inr l' \<and> ledger_inv sha l' (gs @ [take k rs]) [] \<and> l_failed l' = None \<and>
    tbl_get (l_files l') path = Some (chain_bytes sha (last_hash zero_hash32 (concat gs)) (take k rs))"
proof -
  note I = ledger_invD [OF assms(1)]
  let ?m = "op_MaxFramePayload (l_options l)" and ?h = "last_hash zero_hash32 (concat gs)" and ?rs = "take k rs"
  have wf: "well_formed_history sha ?m ((concat gs @ []) @ rs)"
    using I(1,2,9) by (simp add: well_formed_history_def)
  have wf': "well_formed_history sha ?m (concat gs @ ?rs)"
    using well_formed_prefix [OF wf] by simp
  have sound: "sound_chain sha ?m ?h (next_position gs) ?rs"
    using wf' sound_chain_append [of sha ?m zero_hash32 1 "concat gs" ?rs] by (simp add: well_formed_history_def)
  show ?thesis
  proof (rule inv_active [OF assms(1,2)], goal_cases)
    case (1 ys y gs' rs')
    then have [simp]: "gs' = gs" "rs' = rs"
      by simp_all
    have path: "path = segmentName (next_position gs) False" "sm_Path y = path"
      using 1(1,2,5) assms(3) by simp_all
    have content: "tbl_get (l_files l) path = Some (chain_bytes sha ?h ?rs @ chain_bytes sha (last_hash ?h ?rs) (drop k rs))"
      using 1(6) path(2) by (simp add: chain_bytes_append [symmetric])
    let ?s = "\<lparr>sc_metadata = seg_meta sha ?h path False ?rs, sc_records = ?rs, sc_lastGoodOffset = length (chain_bytes sha ?h ?rs),
      sc_incompleteTail = True, sc_fileSize = length (chain_bytes sha ?h rs)\<rparr>"
    have open_ok: "open_segment io (l_files l) path =
        Inr (\<lparr>rd_data = chain_bytes sha ?h ?rs @ [], rd_failure = Some e\<rparr>, length (chain_bytes sha ?h rs))"
      using 1(6) path(2) assms(5,6) by (simp add: open_segment_def clean_def take_chain)
    have seg: "HasSuffix path ''.seg'' = False"
      by (simp add: path(1))
    have "scanSegment sha path (open_segment io (l_files l) path) ?m (next_position gs) ?h =
        Inr (?s\<lparr>sc_metadata := seg_meta sha ?h path (HasSuffix path ''.seg'') ?rs\<rparr>)"
      using scanSegment_chain [of ?m sha ?h "next_position gs" ?rs "[]" "Some e" True path "length (chain_bytes sha ?h rs)"]
        sound torn_tail_failing [of ?m e]
      by (simp add: sound_chain_def open_ok)
    then have scan: "scanSegment sha path (open_segment io (l_files l) path) ?m (next_position gs) ?h = Inr ?s"
      by (simp add: seg)
    have bound: "length (concat gs) + 1 < 2 ^ 64" "length (concat (gs @ [rs])) + 1 < 2 ^ 64"
      using I(2) by simp_all
    have "discoverSegmentPaths (l_files l) = Inr (map sm_Path ys @ [path])"
      using disk_discovered [OF I(4) bound(2)] 1(1) path(2) by simp
    moreover have "\<forall>md \<in> set ys. io_read io (sm_Path md) = None"
      using filed_paths [OF 1(4)] bound(1) path(1) assms(6) by simp
    ultimately have "\<exists>l'. Open sha abspath io options (l_files l) = Inr l' \<and> ledger_inv sha l' (gs @ [?rs]) [] \<and>
        l_failed l' = None \<and> \<not> l_closed l' \<and>
        tbl_get (l_files l') (segmentName (next_position gs) False) = Some (chain_bytes sha ?h ?rs)"
      by (intro Open_with_open_segment [OF assms(4) wf' _ _ 1(7) _ content [unfolded path(1)], where ys = ys and io = io and s = ?s])
        (use 1(4,8) path scan assms(5) in simp_all)
    then show ?case
      unfolding path(1) by blast
  qed
qed

section \<open>Finalizing an empty segment\<close>

lemma write_batch_files:
  assumes "write_batch sha io stored encoded l = (Inr recs, l')"
  shows "\<exists>content. l_files l' = tbl_put (sm_Path (l_segments l ! the (l_active l))) content (l_files l)"
proof -
  let ?path = "sm_Path (l_segments l ! the (l_active l))"
  obtain content n err where "writeAll io (the (tbl_get (l_files l) ?path)) encoded = (content, n, err)"
    by (cases "writeAll io (the (tbl_get (l_files l) ?path)) encoded")
  then have "l_files l' = tbl_put ?path content (l_files l)"
    using assms by (auto simp: write_batch_def Let_def commit_batch_def flushIndexLocked_def split: option.splits prod.splits)
  then show ?thesis
    by blast
qed

lemma ensure_creates:
  assumes "l_active l = None" "ensureActiveLocked io c l = (None, l')"
  shows "l_files l' = tbl_put (segmentName c False) [] (l_files l)" "sm_Path (l_segments l' ! the (l_active l')) = segmentName c False"
  using assms by (auto simp: ensureActiveLocked_def Let_def empty_metadata_def split: if_splits option.splits)

lemma encode_batch_Cons:
  assumes "encode_batch sha options c h (r # rs) stored encoded = Inr x"
  shows "\<exists>ch frame. encode_batch sha options (c + 1) ch rs (stored @ [r\<lparr>lr_Cursor := c, lr_ChainHash := ch\<rparr>]) (encoded @ frame) = Inr x"
proof -
  obtain wire ch where w: "marshalWireRecord sha (r\<lparr>lr_Cursor := c\<rparr>) h = Inr (wire, ch)"
    using assms by (auto simp: Let_def bind_r_Inr)
  obtain frame where "Marshal \<lparr>fr_Version = segmentFrameVersion, fr_Flags = 0, fr_Payload = wire\<rparr> (op_MaxFramePayload options) = Inr frame"
    using assms w by (auto simp: Let_def split: sum.splits)
  then show ?thesis
    using assms w by (auto simp: Let_def split: if_splits)
qed

lemma encode_head:
  "encode_batch sha options c h rs stored encoded = Inr (stored', encoded') \<Longrightarrow> stored \<noteq> [] \<Longrightarrow> hd stored' = hd stored"
proof (induction rs arbitrary: c h stored encoded)
  case (Cons r rs)
  then show ?case
    using encode_batch_Cons [OF Cons.prems(1)] by fastforce
qed simp

lemma encode_first:
  assumes "encode_batch sha options c h rs [] [] = Inr (stored, encoded)" "rs \<noteq> []"
  shows "lr_Cursor (hd stored) = c"
proof -
  obtain r rs' where rs: "rs = r # rs'"
    using assms(2) by (cases rs) auto
  obtain ch frame where "encode_batch sha options (c + 1) ch rs' [r\<lparr>lr_Cursor := c, lr_ChainHash := ch\<rparr>] frame = Inr (stored, encoded)"
    using encode_batch_Cons [OF assms(1) [unfolded rs]] by auto
  from encode_head [OF this] show ?thesis
    by simp
qed

lemma appendBatch_creates:
  assumes "l_active l = None" "appendBatchLocked sha io records l = (Inr recs, l')" "records \<noteq> []"
  shows "\<exists>content. l_files l' = tbl_put (segmentName (l_head l + 1) False) content (l_files l)"
proof -
  obtain stored encoded where enc: "encode_batch sha (l_options l) (l_head l + 1) (l_lastHash l) records [] [] = Inr (stored, encoded)"
    using assms(2,3) by (auto simp: appendBatchLocked_def split: sum.splits)
  have first: "lr_Cursor (hd stored) = l_head l + 1"
    using encode_first [OF enc assms(3)] .
  obtain e k where r2: "ensureActiveLocked io (l_head l + 1) l = (e, k)"
    by (cases "ensureActiveLocked io (l_head l + 1) l")
  then have e: "e = None" "write_batch sha io stored encoded k = (Inr recs, l')"
    using assms enc first by (auto simp: appendBatchLocked_def rotate_if_full_def split: option.splits)
  then show ?thesis
    using write_batch_files [OF e(2)] ensure_creates [OF assms(1), of io "l_head l + 1" k] r2 by auto
qed

lemma Append_creates:
  assumes "l_active l = None" "Append sha io ctx input l = (Inr result, l')"
  shows "\<exists>content. l_files l' = tbl_put (segmentName (l_head l + 1) False) content (l_files l)"
proof -
  let ?l = "touch_input input l"
  have guards: "first_err [Record_Validate input, ctx 0, fail_if (l_closed l) ErrClosed, l_failed l, ctx 1] = None"
    using assms(2) unfolding Append_def by (auto split: option.splits)
  obtain records dup where plan: "plan_append sha io ctx input ?l = Inr (records, dup)"
    using assms(2) unfolding Append_def guards by (auto simp: Let_def split: sum.splits)
  then have ne: "records \<noteq> []"
    by (auto simp: plan_append_def Let_def bind_r_Inr split: if_splits option.splits)
  obtain res m where batch: "appendBatchLocked sha io records ?l = (res, m)"
    by (cases "appendBatchLocked sha io records ?l")
  then obtain recs where recs: "res = Inr recs" "m = l'"
    using assms(2) plan unfolding Append_def guards by (cases res) (simp_all add: Let_def)
  show ?thesis
    using appendBatch_creates [of ?l sha io records recs l'] assms(1) batch recs ne by (simp add: touch_input_def split: if_splits)
qed

lemma open_before_finalized: "segmentName c False < segmentName c True"
  unfolding segmentName_stem append_less_right by simp

lemma filed_sorted:
  assumes "filed sha files ys gs" "length (concat gs) + 1 < 2 ^ 64"
  shows "sorted_wrt (<) (map sm_Path ys @ [segmentName (next_position gs) False, segmentName (next_position gs) True])"
proof -
  have laid: "laid sha no_slack files zero_hash32 1 ys gs" "\<forall>rs \<in> set gs. rs \<noteq> []"
    using assms(1) by (simp_all add: filed_def)
  have "sorted_wrt (<) (map sm_Path ys)"
    using laid_sorted [OF laid(1)] laid(2) assms(2) by (auto dest: in_set_butlastD)
  moreover have "sm_Path md < segmentName (next_position gs) f" if "md \<in> set ys" for md f
    using laid_positions [OF laid _ that] assms(2) by (auto intro: segmentName_less)
  ultimately show ?thesis
    using open_before_finalized by (auto simp: sorted_wrt_append)
qed

lemma Rotate_empties:
  assumes inv: "ledger_inv sha l hs []" and active: "l_active l = Some i" and run: "Rotate io l = (Inr md, l')"
    and y: "sm_Path (l_segments l ! i) = segmentName c False" and content: "tbl_get (l_files l) (segmentName c False) = Some content"
  shows "l_active l' = None \<and> l_head l' = l_head l \<and>
    l_files l' = tbl_put (segmentName c True) content (AList.delete (segmentName c False) (l_files l))"
proof -
  obtain e m where fin: "finalizeActiveLocked io l = (e, m)"
    by (cases "finalizeActiveLocked io l")
  then have "e = None" "m = l'"
    using run active by (auto simp: Rotate_def split: option.splits if_splits)
  then show ?thesis
    using fin active y content
    by (auto simp: finalizeActiveLocked_def Let_def flushIndexLocked_def finalized_name_segment rename_file_def split: option.splits)
qed

text \<open>
  C22.
  Finalizing an empty segment makes the ledger impossible to open.  If the open segment holds no record,
  as after an append that created it, failed and was taken back, then a rotation followed by a
  successful append leaves a finalized and an open segment with the same first position; the open
  one sorts first, so every later attempt to open the directory after a crash fails with the error that
  the open segment is not the last one, and the records of the whole ledger are out of reach.\<close>

theorem empty_segment_blocks_reopen:
  assumes "ledger_inv sha l hs []" "l_active l = Some i" "sm_FrameCount (l_segments l ! i) = 0"
    and "Rotate io1 l = (Inr md, l1)" "Append sha io2 ctx input l1 = (Inr result, l2)"
    and "normalizeOptions abspath options = Inr (l_options l)" "clean io3"
  shows "Open sha abspath io3 options (l_files l2) = Inl OpenSegmentNotLast"
proof -
  note I = ledger_invD [OF assms(1)]
  show ?thesis
  proof (rule inv_active [OF assms(1,2)], goal_cases)
    case (1 ys y gs rs)
    let ?old = "segmentName (next_position gs) False" and ?new = "segmentName (next_position gs) True"
    have y: "l_segments l ! i = y" "sm_Path y = ?old"
      using 1(1,2,5) by simp_all
    have "length rs < 2 ^ 64"
      using I(2) 1(3) by simp
    moreover have "(of_nat (length rs) :: uint64) = 0"
      using assms(3) 1(5) y(1) by simp
    then have "unat (of_nat (length rs) :: uint64) = 0"
      by (simp only: unsigned_0)
    ultimately have rs: "rs = []"
      by (simp add: unat_of_nat)
    have bound: "length (concat gs) + 1 < 2 ^ 64"
      using I(2) 1(3) by simp
    have head: "l_head l + 1 = next_position gs"
      using I(6) 1(3) rs by (simp add: add.commute)
    have rot: "l_active l1 = None" "l_head l1 = l_head l" "l_files l1 = tbl_put ?new [] (AList.delete ?old (l_files l))"
      using Rotate_empties [OF assms(1,2,4), of "next_position gs" "[]"] y 1(6) rs by simp_all
    obtain content where files: "l_files l2 = tbl_put ?old content (l_files l1)"
      using Append_creates [OF rot(1) assms(5)] rot(2) head by auto
    have keys: "fst ` set (l_files l2) = insert ?new (fst ` set (l_files l))"
      using 1(8) y(2) by (auto simp: files rot(3) tbl_put_keys tbl_delete_keys)
    have filed: "filed sha (l_files l2) ys gs"
      using filed_paths [OF 1(4) bound] by (intro filed_cong [OF 1(4)]) (simp add: files rot(3) delete_conv')
    let ?names = "map sm_Path ys @ [?old, ?new]"
    have sort: "sort (filter is_segment_name (map fst (l_files l2))) = ?names"
    proof (rule sorted_distinct_set_unique)
      show "sorted ?names" "distinct ?names"
        using filed_sorted [OF 1(4) bound] by (simp_all add: strict_sorted_iff)
      have "set (filter is_segment_name (map fst (l_files l2))) = insert ?new {p \<in> fst ` set (l_files l). is_segment_name p}"
        using keys by auto
      then show "set (sort (filter is_segment_name (map fst (l_files l2)))) = set ?names"
        using 1(8) y(2) by auto
      show "distinct (sort (filter is_segment_name (map fst (l_files l2))))"
        using 1(7) by (simp add: files rot(3) distinct_update distinct_delete)
    qed simp
    have suffix: "\<not> HasSuffix (sm_Path md) ''.open''" if "md \<in> set ys" for md
      using 1(4) that laid_paths [of sha no_slack "l_files l" zero_hash32 1 ys gs md] by (auto simp: filed_def)
    have "length (filter (\<lambda>p. HasSuffix p ''.open'') (filter is_segment_name (map fst (l_files l2)))) =
        length (filter (\<lambda>p. HasSuffix p ''.open'') ?names)"
      by (rule length_filter_sort [OF sort])
    also have "\<dots> = 1"
      using suffix by (simp add: filter_map comp_def)
    finally have "discoverSegmentPaths (l_files l2) = Inr ?names"
      using sort by (simp add: discoverSegmentPaths_def Let_def)
    moreover have "open_segments sha io3 ?names 1 zero_hash32 (new_ledger (l_options l) (l_files l2)) = Inl OpenSegmentNotLast"
    proof -
      have "sound_chain sha (op_MaxFramePayload (l_options l)) zero_hash32 1 (concat gs)"
        using I(1) 1(3) rs by simp
      then show ?thesis
        using open_filed [of sha "new_ledger (l_options l) (l_files l2)" zero_hash32 1 ys gs io3 "[?old, ?new]"] filed assms(7)
        by (simp add: filed_def readable_file_def clean_def)
    qed
    ultimately show ?case
      using assms(6,7) by (simp add: Open_def clean_def)
  qed
qed

end
