(* ===== verification/Ledger_Integrity.thy ===== *)
theory Ledger_Integrity
  imports Ledger_Layout
begin

text \<open>
  What a ledger opened on an arbitrary directory vouches for.  Nothing is assumed of the files, which may
  have been exchanged or altered: opening them succeeds only on a chain of records, and the position and
  hash it computes for the head determine every record that can be read from it.
\<close>

section \<open>Scanning an arbitrary file\<close>

lemma scanSegment_sound:
  assumes "scanSegment sha path (Inr (rd, n)) m c h = Inr s" "m \<noteq> 0"
  obtains k where "chained sha m h c (sc_records s)" "k \<le> length (rd_data rd)" "sc_lastGoodOffset s = k"
    "sc_metadata s = (fold note_record (sc_records s) (empty_metadata path h (HasSuffix path ''.seg'')))\<lparr>sm_ByteSize := k\<rparr>"
    "\<And>n. scanSegment sha path (Inr (reader_of (take k (rd_data rd)), n)) m c h = Inr (s\<lparr>sc_incompleteTail := False, sc_fileSize := n\<rparr>)"
proof -
  let ?start = "\<lambda>n. \<lparr>sc_metadata = empty_metadata path h (HasSuffix path ''.seg''), sc_records = [],
    sc_lastGoodOffset = 0, sc_incompleteTail = False, sc_fileSize = n\<rparr>"
  obtain s0 where s0: "scan_loop sha m path rd (?start n) h 0 c = Inr s0" "s = set_byte_size s0"
    using assms(1) by (auto simp: scanSegment_def bind_r_Inr)
  obtain rs k torn where rs: "chained sha m h c rs" "k \<le> length (rd_data rd)" "s0 = scan_records rs k torn (?start n)"
      "\<forall>result. scan_loop sha m path (reader_of (take k (rd_data rd))) result h 0 c = Inr (scan_records rs k False result)"
    using scan_loop_sound [OF s0(1) assms(2)] by auto
  show thesis
    by (rule that [of k]) (use rs s0(2) in \<open>simp_all add: scanSegment_def scan_records_def set_byte_size_def\<close>)
qed

text \<open>A failing read turns a complete scan into an error and never into another scan.\<close>

lemma scan_complete_any:
  assumes "scan_complete sha io files m path c h = Inr s" "readable io'"
  shows "scan_complete sha io' files m path c h = Inr s"
proof -
  obtain rd n where opened: "open_segment io files path = Inr (rd, n)" and scan: "scanSegment sha path (Inr (rd, n)) m c h = Inr s"
    and s: "\<not> sc_incompleteTail s"
    using assms(1) by (cases "open_segment io files path") (auto simp: scan_complete_def scanSegment_def bind_r_Inr split: if_splits)
  have "rd_failure rd = None"
    using scan s failing_reader by (fastforce simp: scanSegment_def bind_r_Inr set_byte_size_def)
  then have "open_segment io' files path = Inr (rd, n)"
    using opened assms(2) by (auto simp: open_segment_def readable_def split: option.splits prod.splits)
  then show ?thesis
    using scan s by (simp add: scan_complete_def)
qed

lemma read_segments_any:
  assumes "read_segments sha io files m after through limit mds c h records = Inr out" "readable io'"
  shows "read_segments sha io' files m after through limit mds c h records = Inr out"
  using assms(1)
proof (induction mds arbitrary: c h records)
  case (Cons md mds)
  obtain s where s: "scan_complete sha io files m (sm_Path md) c h = Inr s"
    using Cons.prems by (auto simp: bind_r_Inr)
  then show ?case
    using Cons scan_complete_any [OF s assms(2)] by (auto split: prod.splits bool.splits)
qed simp

section \<open>Opening an arbitrary directory\<close>

text \<open>Reading the segment that was just scanned, and repaired if its tail was incomplete, finds the same records.\<close>

lemma rescan:
  assumes "scanSegment sha path (open_segment io (l_files l) path) m c h = Inr s" "repair_tail io path s l = Inr l1"
    "m \<noteq> 0" "readable io'"
  shows "\<exists>s'. scan_complete sha io' (l_files l1) m path c h = Inr s' \<and> sc_records s' = sc_records s \<and> sc_metadata s' = sc_metadata s"
proof (cases "sc_incompleteTail s")
  case False
  then have "scan_complete sha io (l_files l1) m path c h = Inr s"
    using assms(1,2) by (simp add: scan_complete_def repair_tail_def)
  then show ?thesis
    using scan_complete_any [OF _ assms(4)] by blast
next
  case True
  obtain rd n where opened: "open_segment io (l_files l) path = Inr (rd, n)"
    using assms(1) by (cases "open_segment io (l_files l) path") (auto simp: scanSegment_def)
  obtain content where content: "tbl_get (l_files l) path = Some content" "prefix (rd_data rd) content"
    using opened by (cases "tbl_get (l_files l) path") (auto simp: open_segment_def take_is_prefix split: option.splits prod.splits)
  obtain k where k: "k \<le> length (rd_data rd)" "sc_lastGoodOffset s = k"
      "\<And>n. scanSegment sha path (Inr (reader_of (take k (rd_data rd)), n)) m c h = Inr (s\<lparr>sc_incompleteTail := False, sc_fileSize := n\<rparr>)"
    using scanSegment_sound [OF assms(1) [unfolded opened] assms(3)] by metis
  have "truncate_bytes k content = take k (rd_data rd)"
    using content(2) k(1) by (auto simp: truncate_bytes_def elim!: prefixE)
  then have "tbl_get (l_files l1) path = Some (take k (rd_data rd))"
    using assms(2) True content(1) k(2) by (auto simp: repair_tail_def truncateAndSync_def bind_r_Inr split: if_splits)
  then have "open_segment io' (l_files l1) path = Inr (reader_of (take k (rd_data rd)), length (take k (rd_data rd)))"
    using assms(4) by (simp add: open_segment_def readable_def)
  then show ?thesis
    using k(3) by (simp add: scan_complete_def)
qed

lemma repair_tail_files:
  assumes "repair_tail io path s l = Inr l1"
  shows "\<not> HasSuffix p ''.open'' \<Longrightarrow> tbl_get (l_files l1) p = tbl_get (l_files l) p"
    "l_options l1 = l_options l" "l_head l1 = l_head l" "l_lastHash l1 = l_lastHash l" "l_segments l1 = l_segments l"
  using assms by (auto simp: repair_tail_def truncateAndSync_def bind_r_Inr split: if_splits)

lemma load_segment_fields [simp]:
  "l_files (load_segment sha path s l) = l_files l" "l_options (load_segment sha path s l) = l_options l"
  "l_segments (load_segment sha path s l) = l_segments l @ [sc_metadata s]"
  by (simp_all add: load_segment_def Let_def)

lemma load_segment_head:
  assumes "l_head l + 1 = c" "l_lastHash l = h"
  shows "segment_step s c h = (l_head (load_segment sha path s l) + 1, l_lastHash (load_segment sha path s l))"
  using assms by (auto simp: load_segment_def segment_step_def Let_def)

lemma open_segments_step:
  assumes "open_segments sha io (path # rest) c h l = Inr l'"
  obtains s l1 where "scanSegment sha path (open_segment io (l_files l) path) (op_MaxFramePayload (l_options l)) c h = Inr s"
    "repair_tail io path s l = Inr l1" "HasSuffix path ''.open'' \<Longrightarrow> rest = []"
    "open_segments sha io rest (fst (segment_step s c h)) (snd (segment_step s c h)) (load_segment sha path s l1) = Inr l'"
  using assms by (auto simp: bind_r_Inr split_beta split: if_splits)

text \<open>Only an open segment is ever repaired.\<close>

lemma open_segments_files:
  assumes "open_segments sha io paths c h l = Inr l'" "\<not> HasSuffix p ''.open''"
  shows "tbl_get (l_files l') p = tbl_get (l_files l) p"
  using assms(1)
proof (induction paths arbitrary: c h l)
  case (Cons path rest)
  then show ?case
    by (elim open_segments_step) (use repair_tail_files(1) assms(2) in fastforce)
qed simp

lemma open_segments_sound:
  assumes "open_segments sha io paths c h l = Inr l'" "op_MaxFramePayload (l_options l) = m" "m \<noteq> 0"
    "l_head l + 1 = c" "l_lastHash l = h" "readable io'"
  shows "\<exists>mds rs. l_segments l' = l_segments l @ mds \<and> l_options l' = l_options l \<and> chained sha m h c rs \<and>
    l_head l' + 1 = c + of_nat (length rs) \<and> l_lastHash l' = last_hash h rs \<and>
    (\<forall>after through limit records. read_segments sha io' (l_files l') m after through limit mds c h records =
       Inr (snd (take_wanted after through limit records rs)))"
  using assms(1,2,4,5)
proof (induction paths arbitrary: c h l)
  case Nil
  then show ?case
    by (intro exI [of _ "[]"]) auto
next
  case (Cons path rest)
  obtain s l1 where s: "scanSegment sha path (open_segment io (l_files l) path) m c h = Inr s" and l1: "repair_tail io path s l = Inr l1"
    and last: "HasSuffix path ''.open'' \<Longrightarrow> rest = []"
    and tl: "open_segments sha io rest (fst (segment_step s c h)) (snd (segment_step s c h)) (load_segment sha path s l1) = Inr l'"
    using Cons.prems(1,2) by (metis open_segments_step)
  note same = repair_tail_files [OF l1]
  obtain rd n where opened: "open_segment io (l_files l) path = Inr (rd, n)"
    using s by (cases "open_segment io (l_files l) path") (auto simp: scanSegment_def)
  obtain k where ch: "chained sha m h c (sc_records s)"
    and md: "sc_metadata s = (fold note_record (sc_records s) (empty_metadata path h (HasSuffix path ''.seg'')))\<lparr>sm_ByteSize := k\<rparr>"
    by (rule scanSegment_sound [OF s [unfolded opened] assms(3)])
  let ?rs = "sc_records s" and ?l = "load_segment sha path s l1"
  have step: "segment_step s c h = (c + of_nat (length ?rs), last_hash h ?rs)"
    by (rule segment_step_records [OF ch md])
  have "segment_step s c h = (l_head ?l + 1, l_lastHash ?l)"
    using load_segment_head [of l1 c h s sha path] Cons.prems(3,4) same by simp
  then have head: "l_head ?l + 1 = c + of_nat (length ?rs)" "l_lastHash ?l = last_hash h ?rs"
    using step by simp_all
  have tl': "open_segments sha io rest (c + of_nat (length ?rs)) (last_hash h ?rs) ?l = Inr l'"
    using tl step by simp
  obtain mds rs where ih: "l_segments l' = l_segments ?l @ mds" "l_options l' = l_options ?l"
      "chained sha m (last_hash h ?rs) (c + of_nat (length ?rs)) rs" "l_head l' + 1 = c + of_nat (length ?rs) + of_nat (length rs)"
      "l_lastHash l' = last_hash (last_hash h ?rs) rs"
      "\<And>after through limit records. read_segments sha io' (l_files l') m after through limit mds
         (c + of_nat (length ?rs)) (last_hash h ?rs) records = Inr (snd (take_wanted after through limit records rs))"
    using Cons.IH [OF tl' _ head] Cons.prems(2) same(2) by auto
  have "tbl_get (l_files l') path = tbl_get (l_files l1) path"
    using last tl' open_segments_files [OF tl', of path] by (cases "HasSuffix path ''.open''") auto
  moreover obtain s' where "scan_complete sha io' (l_files l1) m path c h = Inr s'" and s': "sc_records s' = ?rs" "sc_metadata s' = sc_metadata s"
    using rescan [OF s l1 assms(3,6)] by blast
  ultimately have scan: "scan_complete sha io' (l_files l') m path c h = Inr s'"
    by (simp add: scan_complete_def open_segment_def)
  have path: "sm_Path (sc_metadata s) = path"
    by (simp add: md fold_note_record empty_metadata_def)
  have "read_segments sha io' (l_files l') m after through limit (sc_metadata s # mds) c h records =
      Inr (snd (take_wanted after through limit records (?rs @ rs)))" for after through limit records
    using scan s' step path ih(6)
    by (auto simp: take_wanted_append segment_step_def split: prod.splits bool.splits)
  then show ?case
    using ih ch same by (intro exI [of _ "sc_metadata s # mds"] exI [of _ "?rs @ rs"]) (simp add: ac_simps)
qed

text \<open>An opened ledger stands for a chain that leads to its head, and its reads return parts of it.\<close>

lemma Open_sound:
  assumes "Open sha abspath io options files = Inr l"
  obtains m rs where "chained sha m zero_hash32 1 rs" "l_head l = of_nat (length rs)" "l_lastHash l = last_hash zero_hash32 rs"
    "\<And>io after limit out. ReadAfter sha io l after limit = Inr out \<Longrightarrow> out = snd (take_wanted after (l_head l) limit [] rs)"
proof -
  obtain o' paths l0 where o': "normalizeOptions abspath options = Inr o'" and
    l0: "open_segments sha io paths 1 zero_hash32 (new_ledger o' files) = Inr l0" "l = l0\<lparr>l_indexErr := None\<rparr>"
    using assms by (auto simp: Open_def bind_r_Inr flushIndexLocked_def Let_def split: option.splits)
  have m: "op_MaxFramePayload o' \<noteq> 0"
    using o' by (auto simp: normalizeOptions_def Let_def bind_r_Inr split: if_splits)
  define ok :: ledger_io where "ok = io\<lparr>io_read := (\<lambda>_. None), io_open := (\<lambda>_. None)\<rparr>"
  have ok: "readable ok"
    by (simp add: ok_def readable_def)
  obtain rs where rs: "l_options l0 = o'" "chained sha (op_MaxFramePayload o') zero_hash32 1 rs" "l_head l0 + 1 = 1 + of_nat (length rs)"
      "l_lastHash l0 = last_hash zero_hash32 rs"
      "\<And>after through limit. read_segments sha ok (l_files l0) (op_MaxFramePayload o') after through limit (l_segments l0) 1 zero_hash32 [] =
         Inr (snd (take_wanted after through limit [] rs))"
    using open_segments_sound [OF l0(1) refl _ _ _ ok] m by (auto simp: new_ledger_def)
  show thesis
  proof (rule that [OF rs(2)])
    show "l_head l = of_nat (length rs)" "l_lastHash l = last_hash zero_hash32 rs"
      using rs(3,4) l0(2) by simp_all
    show "out = snd (take_wanted after (l_head l) limit [] rs)" if "ReadAfter sha io l after limit = Inr out" for io after limit out
    proof -
      have "read_segments sha io (l_files l0) (op_MaxFramePayload o') after (l_head l) limit (l_segments l0) 1 zero_hash32 [] = Inr out"
        using that rs(1) l0(2) by (simp add: ReadAfter_def readAfterLocked_def)
      from read_segments_any [OF this ok] show ?thesis
        by (simp add: rs(5))
    qed
  qed
qed

lemma whole_history:
  assumes "chained sha m h 1 rs"
  shows "snd (take_wanted 0 (of_nat (length rs)) 0 [] rs) = rs"
proof -
  have "0 < lr_Cursor r \<and> lr_Cursor r \<le> of_nat (length rs)" if "r \<in> set rs" for r
    using that cursor_le_head [OF assms chained_bound [OF assms] that] chained_nth [OF assms]
    by (auto simp: in_set_conv_nth storable_def word_gt_0)
  then show ?thesis
    by (simp add: take_wanted_filter Let_def)
qed

text \<open>
  C24.
  The head of a ledger stands for its whole history.  Open two directories whose files are arbitrary, under
  any options and whatever calls of the operating system fail underway, and let both ledgers report the same
  head position and the same last chain hash.  If reading each from its beginning succeeds, both reads return
  the same records, as many as the head position says, unless two different inputs that were hashed for
  these records collide under SHA-256; and no read of any part of the two ledgers differs.  No stored record
  can be altered, exchanged, reordered, dropped or inserted so that the ledger opens with the same head.\<close>

theorem head_fixes_history:
  assumes "\<And>x. length (sha x) = 32"
    and "Open sha abspath io options files = Inr l" "Open sha abspath' io' options' files' = Inr l'"
    and "l_head l = l_head l'" "l_lastHash l = l_lastHash l'"
    and "ReadAfter sha rio l 0 0 = Inr rs" "ReadAfter sha rio' l' 0 0 = Inr rs'"
    and "inj_on sha (chain_inputs zero_hash32 rs \<union> chain_inputs zero_hash32 rs')"
  shows "rs = rs' \<and> length rs = unat (l_head l) \<and>
    (\<forall>io io' after limit out out'. ReadAfter sha io l after limit = Inr out \<and> ReadAfter sha io' l' after limit = Inr out' \<longrightarrow> out = out')"
proof -
  obtain m xs where xs: "chained sha m zero_hash32 1 xs" "l_head l = of_nat (length xs)" "l_lastHash l = last_hash zero_hash32 xs"
      "\<And>io after limit out. ReadAfter sha io l after limit = Inr out \<Longrightarrow> out = snd (take_wanted after (l_head l) limit [] xs)"
    using Open_sound [OF assms(2)] by metis
  obtain m' ys where ys: "chained sha m' zero_hash32 1 ys" "l_head l' = of_nat (length ys)" "l_lastHash l' = last_hash zero_hash32 ys"
      "\<And>io after limit out. ReadAfter sha io l' after limit = Inr out \<Longrightarrow> out = snd (take_wanted after (l_head l') limit [] ys)"
    using Open_sound [OF assms(3)] by metis
  have read: "rs = xs" "rs' = ys"
    using xs(4) [OF assms(6)] ys(4) [OF assms(7)] whole_history [OF xs(1)] whole_history [OF ys(1)] xs(2) ys(2) by simp_all
  have len: "unat (of_nat (length zs) :: uint64) = length zs" if "length zs < 2 ^ 64" for zs :: "Record list"
    using that by (simp add: unat_of_nat)
  have "length xs = length ys"
    using len [OF chained_bound [OF xs(1)]] len [OF chained_bound [OF ys(1)]] assms(4) xs(2) ys(2) by metis
  then have "xs = ys"
    using chain_determined [where sha = sha, OF assms(1) _ _ xs(1) ys(1)] xs(3) ys(3) assms(5,8) read
    by (simp add: zero_hash32_def)
  moreover have "out = out'" if "ReadAfter sha io l after limit = Inr out" "ReadAfter sha io' l' after limit = Inr out'" for io io' after limit out out'
    using xs(4) [OF that(1)] ys(4) [OF that(2)] assms(4) calculation by simp
  ultimately show ?thesis
    using read xs(2) len [OF chained_bound [OF xs(1)]] by auto
qed

end
