(* ===== verification/Ledger_Scenario.thy ===== *)
theory Ledger_Scenario
  imports Ledger_Faults Ledger_Integrity
begin

text \<open>Small ledgers on which the theorems of the ledger apply.\<close>

section \<open>Surroundings\<close>

definition demo_options :: Options where
  "demo_options = \<lparr>op_Directory = ''/ledger'', op_MaxSegmentBytes = 10000, op_MaxFramePayload = 1000,
     op_SubscriberBuffer = 4, op_MaxSourceSequences = 2\<rparr>"

definition demo_io :: ledger_io where
  "demo_io = \<lparr>io_write = (\<lambda>n bs. (length bs, None)), io_read = (\<lambda>_. None), io_open = (\<lambda>_. None), io_close = (\<lambda>_. None),
     io_sync = (\<lambda>_. None), io_truncate = None, io_rename = None, io_index = (\<lambda>_. None)\<rparr>"

text \<open>A full disk.\<close>

definition full_io :: ledger_io where
  "full_io = demo_io\<lparr>io_write := (\<lambda>n bs. (0, Some ''no space left on device''))\<rparr>"

definition demo_new :: Ledger where
  "demo_new = new_ledger demo_options []"

lemma demo_io_clean [simp]: "clean demo_io"
  by (simp add: clean_def demo_io_def)

lemma demo_options_normal: "normalizeOptions Inr demo_options = Inr demo_options"
  by (simp add: normalizeOptions_def demo_options_def)

lemma demo_fields [simp]: "op_MaxFramePayload demo_options = 1000" "op_MaxSegmentBytes demo_options = 10000" "op_MaxSourceSequences demo_options = 2"
  by (simp_all add: demo_options_def)

lemma zero_hash_length [simp]: "length zero_hash32 = 32"
  by (simp add: zero_hash32_def)

lemma demo_new_inv: "ledger_inv demo_sha demo_new [] []"
  by (simp add: ledger_inv_def demo_new_def sound_chain_def disk_ok_def stored_once_def occurrences_def sources_ok_empty)

section \<open>Encoding one record\<close>

lemma demo_wire_length: "length (put_wire demo_sha zero_hash32 ((demo_record n)\<lparr>lr_Cursor := c\<rparr>)) = 281"
  by (simp add: put_wire_def put_defs demo_record_def)

lemma demo_valid: "Record_Validate (demo_record n) = None"
  by (simp add: Record_Validate_def) (simp add: demo_record_def)

definition demo_stored :: Record where
  "demo_stored = hd (number demo_sha zero_hash32 1 [demo_record 1])"

lemma demo_number: "number demo_sha zero_hash32 1 [demo_record 1] = [demo_stored]"
  unfolding demo_stored_def number.simps Let_def by simp

lemma demo_encodes:
  "\<exists>encoded. encode_batch demo_sha demo_options 1 zero_hash32 [demo_record 1] [] [] = Inr ([demo_stored], encoded)"
proof -
  let ?r = "(demo_record 1)\<lparr>lr_Cursor := 1\<rparr>"
  let ?w = "put_wire demo_sha zero_hash32 ?r" and ?h = "demo_sha (zero_hash32 @ put_record ?r)"
  have wire: "marshalWireRecord demo_sha ?r zero_hash32 = Inr (?w, ?h)"
    by (simp add: marshalWireRecord_Inr demo_record_fits)
  obtain frame where frame: "Marshal \<lparr>fr_Version = segmentFrameVersion, fr_Flags = 0, fr_Payload = ?w\<rparr> 1000 = Inr frame"
    by (simp add: Marshal_def demo_wire_length)
  then have "length frame = 297"
    by (simp add: Marshal_Inr demo_wire_length HeaderSize_def)
  then have "encode_batch demo_sha demo_options 1 zero_hash32 [demo_record 1] [] [] = Inr ([?r\<lparr>lr_ChainHash := ?h\<rparr>], frame)"
    using wire frame by (simp add: Let_def)
  moreover have "demo_stored = ?r\<lparr>lr_ChainHash := ?h\<rparr>"
    by (simp add: demo_stored_def Let_def)
  ultimately show ?thesis
    by simp
qed

lemma demo_spec: "spec_plan demo_sha [] (demo_record n) = ([demo_record n], False)"
  by (simp add: spec_plan_def occurrences_def Let_def)

lemma demo_spec_append: "spec_append demo_sha [] (demo_record 1) = [demo_stored]"
  by (simp add: spec_append_def demo_spec demo_number del: number.simps)

theorem append_refines_witness:
  "case fst (Append demo_sha full_io (\<lambda>_. None) (demo_record 1) demo_new) of
     Inr result \<Rightarrow> ar_Records result = [demo_stored]
   | Inl e \<Rightarrow> keeps_history demo_sha demo_new [] [demo_stored] (snd (Append demo_sha full_io (\<lambda>_. None) (demo_record 1) demo_new))"
  using append_refines [OF demo_new_inv, of full_io "\<lambda>_. None" "demo_record 1"]
  by (cases "Append demo_sha full_io (\<lambda>_. None) (demo_record 1) demo_new") (auto simp: demo_spec_append split: sum.splits)

theorem append_succeeds_witness:
  "\<exists>l' hs'. Append demo_sha demo_io (\<lambda>_. None) (demo_record 1) demo_new = (Inr \<lparr>ar_Records = [demo_stored], ar_Duplicate = False\<rparr>, l') \<and>
    ledger_inv demo_sha l' hs' [] \<and> concat hs' = [demo_stored]"
proof -
  obtain encoded where "encode_batch demo_sha demo_options 1 zero_hash32 [demo_record 1] [] [] = Inr ([demo_stored], encoded)"
    using demo_encodes by blast
  then show ?thesis
    using append_succeeds [OF demo_new_inv, of demo_io "\<lambda>_. None" "demo_record 1" "([demo_stored], encoded)"]
    by (auto simp: demo_spec demo_spec_append demo_valid demo_new_def)
qed

section \<open>A ledger with an open segment\<close>

lemma demo_stored_first: "demo_stored = demo_first ''payload''"
  by (simp add: demo_stored_def demo_first_def Let_def demo_record_def)

lemma demo_chain_sound: "sound_chain demo_sha 1000 zero_hash32 1 [demo_stored]"
  using demo_first_chained [of "''payload''"] by (simp add: sound_chain_def demo_stored_first)

lemma demo_once: "stored_once [demo_stored]"
  by (auto simp: stored_once_def occurrences_def)

definition demo_ledger :: "Record list \<Rightarrow> bytes \<Rightarrow> Ledger" where
  "demo_ledger rs torn =
    demo_new\<lparr>l_segments := [next_meta demo_sha [] False rs], l_active := Some 0, l_head := of_nat (length rs),
      l_lastHash := last_hash zero_hash32 rs, l_sources := fold (indexSourceRecord demo_sha 2) rs [],
      l_files := [(segmentName 1 False, chain_bytes demo_sha zero_hash32 rs @ torn)]\<rparr>"

lemma demo_ledger_fields [simp]:
  "l_options (demo_ledger rs torn) = demo_options" "l_failed (demo_ledger rs torn) = None" "\<not> l_closed (demo_ledger rs torn)"
  "l_active (demo_ledger rs torn) = Some 0" "l_segments (demo_ledger rs torn) = [next_meta demo_sha [] False rs]"
  "l_files (demo_ledger rs torn) = [(segmentName 1 False, chain_bytes demo_sha zero_hash32 rs @ torn)]"
  "l_head (demo_ledger rs torn) = of_nat (length rs)" "l_lastHash (demo_ledger rs torn) = last_hash zero_hash32 rs"
  by (simp_all add: demo_ledger_def demo_new_def new_ledger_def)

lemma demo_ledger_inv:
  assumes "rs = [] \<or> rs = [demo_stored]"
  shows "ledger_inv demo_sha (demo_ledger rs torn) [rs] torn"
proof -
  have "sources_ok demo_sha 2 ([] @ rs) (fold (indexSourceRecord demo_sha 2) rs [])"
    by (intro sources_ok_fold sources_ok_empty) simp
  then have "sources_ok demo_sha 2 rs (l_sources (demo_ledger rs torn))"
    by (simp add: demo_ledger_def)
  moreover have "stored_once rs" "sound_chain demo_sha 1000 zero_hash32 1 rs"
    using assms demo_once demo_chain_sound by (auto simp: stored_once_def occurrences_def sound_chain_def)
  moreover have "length rs + 1 < 2 ^ 64"
    using assms by auto
  moreover have "{p \<in> {segmentName 1 False}. is_segment_name p} = {segmentName 1 False}"
    by auto
  ultimately have "ledger_inv demo_sha (demo_ledger rs torn) ([] @ [rs]) torn"
    by (intro inv_snocI [where ys = "[]" and fin = False]) (simp_all add: filed_def)
  then show ?thesis
    by simp
qed

theorem read_after_exact_witness:
  "ReadAfter demo_sha demo_io (demo_ledger [demo_stored] []) 0 7 = Inr [demo_stored]"
  using read_after_exact [OF demo_ledger_inv, of "[demo_stored]" demo_io 0 7]
  by (simp add: readable_def demo_io_def history_from_def)

text \<open>The same record in an open segment and in a finalized one.\<close>

definition demo_files :: "bool \<Rightarrow> directory" where
  "demo_files fin = [(segmentName 1 fin, chain_bytes demo_sha zero_hash32 [demo_stored])]"

lemma demo_files_open:
  "\<exists>l. Open demo_sha Inr demo_io demo_options (demo_files fin) = Inr l \<and> l_head l = 1 \<and> l_lastHash l = lr_ChainHash demo_stored \<and>
    ReadAfter demo_sha demo_io l 0 0 = Inr [demo_stored]"
proof -
  let ?md = "next_meta demo_sha [] fin [demo_stored]"
  have "{p \<in> {segmentName 1 fin}. is_segment_name p} = {segmentName 1 fin}"
    by auto
  then have "disk_ok demo_sha (tail_at ([] @ [?md]) []) (demo_files fin) ([] @ [?md]) ([] @ [[demo_stored]])"
    by (intro disk_snocI) (simp_all add: filed_def demo_files_def)
  moreover have "well_formed_history demo_sha 1000 [demo_stored]"
    using demo_chain_sound demo_once by (simp add: well_formed_history_def)
  moreover have "torn_tail 1000 (reader_of []) False"
    by (rule torn_tail_end) simp
  ultimately obtain l where l: "Open demo_sha Inr demo_io demo_options (demo_files fin) = Inr l" "ledger_inv demo_sha l [[demo_stored]] []"
      "l_failed l = None"
    using Open_recovers [OF demo_options_normal demo_io_clean, of demo_sha "[[demo_stored]]" "[?md]" "[]" "demo_files fin"] by auto
  moreover have "ReadAfter demo_sha demo_io l 0 0 = Inr [demo_stored]"
    using inv_read_readable [OF l(2) clean_readable [OF demo_io_clean], of 0 0] l(3) by (simp add: ReadAfter_def history_from_def)
  ultimately show ?thesis
    using ledger_invD(6,7) [OF l(2)] by auto
qed

theorem head_fixes_history_witness:
  "\<exists>l l' rs. Open demo_sha Inr demo_io demo_options (demo_files False) = Inr l \<and>
    Open demo_sha Inr demo_io demo_options (demo_files True) = Inr l' \<and> ReadAfter demo_sha demo_io l 0 0 = Inr rs \<and>
    ReadAfter demo_sha demo_io l' 0 0 = Inr rs \<and> length rs = 1"
proof -
  obtain l l' where l: "Open demo_sha Inr demo_io demo_options (demo_files False) = Inr l" "ReadAfter demo_sha demo_io l 0 0 = Inr [demo_stored]"
    "Open demo_sha Inr demo_io demo_options (demo_files True) = Inr l'" "ReadAfter demo_sha demo_io l' 0 0 = Inr [demo_stored]"
    "l_head l = 1" "l_head l' = 1" "l_lastHash l = l_lastHash l'"
    using demo_files_open [of False] demo_files_open [of True] by auto
  have "length [demo_stored] = unat (l_head l)"
    using head_fixes_history [OF _ l(1,3) _ l(7,2,4)] l(5,6) by simp
  then show ?thesis
    using l by auto
qed

text \<open>A crash after ten bytes of the first record.\<close>

theorem crash_recovery_witness:
  "\<exists>l hs'. Open demo_sha Inr demo_io demo_options
      [(segmentName 1 False, take 10 (chain_bytes demo_sha zero_hash32 [demo_stored]))] = Inr l \<and>
    ledger_inv demo_sha l hs' [] \<and> concat hs' = []"
proof -
  let ?torn = "take 10 (chain_bytes demo_sha zero_hash32 [demo_stored])"
  have disk: "on_disk demo_sha [(segmentName 1 False, ?torn)] [[]] ?torn"
    using inv_on_disk [OF demo_ledger_inv, of "[]" ?torn] by simp
  have "well_formed_history demo_sha 1000 [demo_stored]"
    using demo_chain_sound demo_once by (simp add: well_formed_history_def)
  then obtain l hs' k where run: "Open demo_sha Inr demo_io demo_options [(segmentName 1 False, ?torn)] = Inr l"
      "ledger_inv demo_sha l hs' []" "concat hs' = take k [demo_stored]"
      "prefix (chain_bytes demo_sha zero_hash32 (take k [demo_stored])) ?torn"
    using crash_recovery [OF demo_options_normal demo_io_clean disk, of "[demo_stored]"]
      take_is_prefix [of 10 "chain_bytes demo_sha zero_hash32 [demo_stored]"] by auto
  have "length (chain_bytes demo_sha zero_hash32 (take k [demo_stored])) \<le> 10"
    using prefix_length_le [OF run(4)] by simp
  then have "k = 0"
    by (cases k) (simp_all add: frame_bytes_def HeaderSize_def)
  then show ?thesis
    using run by auto
qed

definition faulty_io :: ledger_io where
  "faulty_io = demo_io\<lparr>io_read := (\<lambda>p. if p = segmentName 1 False then Some (0, ''input/output error'') else None)\<rparr>"

theorem read_error_truncates_witness:
  "\<exists>l'. Open demo_sha Inr faulty_io demo_options (l_files (demo_ledger [demo_stored] [])) = Inr l' \<and>
    ledger_inv demo_sha l' [[]] [] \<and> tbl_get (l_files l') (segmentName 1 False) = Some []"
proof -
  have inv: "ledger_inv demo_sha (demo_ledger [demo_stored] []) ([] @ [[demo_stored]]) []"
    using demo_ledger_inv by simp
  have io: "clean (faulty_io\<lparr>io_read := (\<lambda>_. None)\<rparr>)"
      "io_read faulty_io = (\<lambda>p. if p = segmentName 1 False
        then Some (length (chain_bytes demo_sha (last_hash zero_hash32 (concat [])) (take 0 [demo_stored])), ''input/output error'') else None)"
    using demo_io_clean by (simp_all add: faulty_io_def clean_def fun_eq_iff)
  show ?thesis
    using read_error_truncates [OF inv _ _ _ io, of 0 Inr demo_options] demo_options_normal by auto
qed

lemma demo_append_fresh:
  assumes "l_active l = None" "l_sources l = []" "l_options l = demo_options" "l_head l = 0" "l_lastHash l = zero_hash32"
    "\<not> l_closed l" "l_failed l = None" "tbl_get (l_files l) (segmentName 1 False) = None"
  shows "\<exists>result l'. Append demo_sha demo_io (\<lambda>_. None) (demo_record 1) l = (Inr result, l')"
proof -
  let ?l = "touch_input (demo_record 1) l"
  have "plan_append demo_sha demo_io (\<lambda>_. None) (demo_record 1) ?l = Inr ([demo_record 1], False)"
    using assms(2) by (simp add: plan_append_def touch_input_def Let_def sourceState_def empty_source_def touch_source_def)
  moreover have "fst (appendBatchLocked demo_sha demo_io [demo_record 1] ?l) = Inr [demo_stored]"
  proof -
    obtain encoded where "encode_batch demo_sha demo_options 1 zero_hash32 [demo_record 1] [] [] = Inr ([demo_stored], encoded)"
      using demo_encodes by blast
    moreover have "lr_Cursor demo_stored = 1"
      by (simp add: demo_stored_first demo_first_def Let_def)
    ultimately show ?thesis
      using assms write_batch_clean [OF demo_io_clean]
      by (simp add: appendBatchLocked_def rotate_if_full_def ensureActiveLocked_def Let_def cleanD [OF demo_io_clean] touch_input_def
          del: encode_batch.simps)
  qed
  ultimately show ?thesis
    using assms by (cases "appendBatchLocked demo_sha demo_io [demo_record 1] ?l") (auto simp: Append_def demo_valid fail_if_def Let_def)
qed

lemma demo_rotate:
  "\<exists>md l1. Rotate demo_io (demo_ledger [] []) = (Inr md, l1) \<and> l_active l1 = None \<and> l_sources l1 = [] \<and> l_options l1 = demo_options \<and>
    l_head l1 = 0 \<and> l_lastHash l1 = zero_hash32 \<and> \<not> l_closed l1 \<and> l_failed l1 = None \<and>
    tbl_get (l_files l1) (segmentName 1 False) = None"
proof -
  have "l_sources (demo_ledger [] []) = []"
    by (simp add: demo_ledger_def demo_new_def new_ledger_def)
  then show ?thesis
    by (simp add: Rotate_def finalizeActiveLocked_def Let_def cleanD [OF demo_io_clean] flushIndexLocked_def rename_file_def
        finalized_name_segment empty_metadata_def open_before_finalized [of 1, THEN less_imp_neq])
qed

theorem empty_segment_blocks_reopen_witness:
  "Open demo_sha Inr demo_io demo_options
    (l_files (snd (Append demo_sha demo_io (\<lambda>_. None) (demo_record 1) (snd (Rotate demo_io (demo_ledger [] [])))))) = Inl OpenSegmentNotLast"
proof -
  obtain md l1 where rotate: "Rotate demo_io (demo_ledger [] []) = (Inr md, l1)" and l1: "l_active l1 = None" "l_sources l1 = []"
      "l_options l1 = demo_options" "l_head l1 = 0" "l_lastHash l1 = zero_hash32" "\<not> l_closed l1" "l_failed l1 = None"
      "tbl_get (l_files l1) (segmentName 1 False) = None"
    using demo_rotate by blast
  obtain result l2 where append: "Append demo_sha demo_io (\<lambda>_. None) (demo_record 1) l1 = (Inr result, l2)"
    using demo_append_fresh [OF l1] by blast
  show ?thesis
    using empty_segment_blocks_reopen [OF demo_ledger_inv _ _ rotate append, of 0 Inr demo_options demo_io] demo_options_normal
    by (simp add: rotate append empty_metadata_def)
qed

end
