(* ===== verification/Admission_Resources.thy ===== *)
theory Admission_Resources
  imports Domain_Evidence
begin

text \<open>
  Resource vectors and capacity admission, \<open>src/internal/admission/resources.go\<close>.  Amounts are 64-bit
  words read as signed numbers, so that the overflow checks are those of the code; the lemmas
  relate every operation to the exact integer amounts of each dimension.
\<close>

section \<open>Floating-point addition\<close>

text \<open>
  The pressure check adds two \<open>float64\<close> values.  The sum is exact, then rounded to 53 significant
  bits (fewer below the smallest normal exponent), ties to even, and beyond the largest finite value
  to an infinity.
\<close>

fun bit_length :: "nat \<Rightarrow> nat" where
  "bit_length n = (if n = 0 then 0 else Suc (bit_length (n div 2)))"

declare bit_length.simps [simp del]

definition round_half_even :: "int \<Rightarrow> nat \<Rightarrow> int" where
  "round_half_even m k =
    (let q = m div 2 ^ k; r = m mod 2 ^ k in
     if 2 * r > 2 ^ k \<or> 2 * r = 2 ^ k \<and> odd q then q + 1 else q)"

definition round_float :: "int \<Rightarrow> int \<Rightarrow> float64" where
  "round_float m e =
    (let k = max (int (bit_length (nat \<bar>m\<bar>)) - 53) (- 1074 - e);
         (m', e') = (if k \<le> 0 then (m, e) else (round_half_even m (nat k), e + k)) in
     if int (bit_length (nat \<bar>m'\<bar>)) + e' > 1024 then (if m' < 0 then FNegInf else FPosInf)
     else FFinite m' e')"

fun f_add :: "float64 \<Rightarrow> float64 \<Rightarrow> float64" where
  "f_add (FFinite m e) (FFinite n f) =
    (let g = min e f in round_float (m * 2 ^ nat (e - g) + n * 2 ^ nat (f - g)) g)"
| "f_add FNaN _ = FNaN"
| "f_add _ FNaN = FNaN"
| "f_add FPosInf FNegInf = FNaN"
| "f_add FNegInf FPosInf = FNaN"
| "f_add FPosInf _ = FPosInf"
| "f_add FNegInf _ = FNegInf"
| "f_add _ FPosInf = FPosInf"
| "f_add _ FNegInf = FNegInf"

definition f_ge :: "float64 \<Rightarrow> float64 \<Rightarrow> bool" where
  "f_ge a b \<longleftrightarrow> f_less b a \<or> f_eq a b"

definition f_irregular :: "float64 \<Rightarrow> bool" where
  "f_irregular x \<longleftrightarrow> x = FNaN \<or> x = FPosInf \<or> x = FNegInf"

section \<open>Resource vectors\<close>

text \<open>
  Errors carry no detail beyond their kind: which of several violations the code names depends on the
  iteration order of a Go map.
\<close>

datatype adm_error =
    ErrInvalidResources | ErrRequestOverLimit | ErrInsufficient | ErrPressure
  | InvalidPressure | InvalidThreshold | InvalidStage "8 word" | AgingNotPositive | EncodingFailed string

record Resources =
  CPUMilli :: int64
  MemoryBytes :: int64
  SwapBytes :: int64
  StorageBytes :: int64
  CaptureBytes :: int64
  Inodes :: int64
  PIDs :: int64
  Devices :: "int64 table"

definition zero_resources :: Resources where
  "zero_resources = \<lparr>CPUMilli = 0, MemoryBytes = 0, SwapBytes = 0, StorageBytes = 0, CaptureBytes = 0, Inodes = 0, PIDs = 0, Devices = []\<rparr>"

definition scalars :: "Resources \<Rightarrow> int64 list" where
  "scalars r = [CPUMilli r, MemoryBytes r, SwapBytes r, StorageBytes r, CaptureBytes r, Inodes r, PIDs r]"

text \<open>Reading a missing key of a Go map gives zero.\<close>

definition device :: "int64 table \<Rightarrow> string \<Rightarrow> int64" where
  "device t name = (case tbl_get t name of None \<Rightarrow> 0 | Some v \<Rightarrow> v)"

definition Resources_Validate :: "Resources \<Rightarrow> adm_error option" where
  "Resources_Validate r =
    first_err [fail_if (\<exists>v \<in> set (scalars r). sint v < 0) ErrInvalidResources,
      fail_if (\<exists>(name, v) \<in> set (Devices r). name = [] \<or> sint v < 0) ErrInvalidResources]"

definition MaxInt64 :: int64 where
  "MaxInt64 = 0x7FFFFFFFFFFFFFFF"

definition add_checked :: "int64 \<Rightarrow> int64 \<Rightarrow> adm_error + int64" where
  "add_checked destination v =
    (if sint v > sint (MaxInt64 - destination) then Inl ErrInvalidResources else Inr (destination + v))"

fun add_devices :: "int64 table \<Rightarrow> int64 table \<Rightarrow> adm_error + int64 table" where
  "add_devices [] t = Inr t"
| "add_devices ((name, v) # rest) t = bind_r (add_checked (device t name) v) (\<lambda>x. add_devices rest (tbl_put name x t))"

definition Resources_Add :: "Resources \<Rightarrow> Resources \<Rightarrow> adm_error + Resources" where
  "Resources_Add r other =
    guarded [Resources_Validate r, Resources_Validate other]
      (bind_r (add_checked (CPUMilli r) (CPUMilli other)) (\<lambda>cpu.
       bind_r (add_checked (MemoryBytes r) (MemoryBytes other)) (\<lambda>memory.
       bind_r (add_checked (SwapBytes r) (SwapBytes other)) (\<lambda>swap.
       bind_r (add_checked (StorageBytes r) (StorageBytes other)) (\<lambda>storage.
       bind_r (add_checked (CaptureBytes r) (CaptureBytes other)) (\<lambda>capture.
       bind_r (add_checked (Inodes r) (Inodes other)) (\<lambda>inodes.
       bind_r (add_checked (PIDs r) (PIDs other)) (\<lambda>pids.
       bind_r (add_devices (Devices other) (Devices r)) (\<lambda>devices.
         Inr \<lparr>CPUMilli = cpu, MemoryBytes = memory, SwapBytes = swap, StorageBytes = storage, CaptureBytes = capture,
           Inodes = inodes, PIDs = pids, Devices = devices\<rparr>)))))))))"

definition FitsWithin :: "Resources \<Rightarrow> Resources \<Rightarrow> bool" where
  "FitsWithin r limit \<longleftrightarrow>
    \<not> (Resources_Validate r \<noteq> None \<or> Resources_Validate limit \<noteq> None) \<and>
    \<not> (sint (CPUMilli r) > sint (CPUMilli limit) \<or> sint (MemoryBytes r) > sint (MemoryBytes limit) \<or>
       sint (SwapBytes r) > sint (SwapBytes limit) \<or> sint (StorageBytes r) > sint (StorageBytes limit) \<or>
       sint (CaptureBytes r) > sint (CaptureBytes limit) \<or> sint (Inodes r) > sint (Inodes limit) \<or>
       sint (PIDs r) > sint (PIDs limit)) \<and>
    (\<forall>(name, v) \<in> set (Devices r). \<not> sint v > sint (device (Devices limit) name))"

definition subtract_devices :: "int64 table \<Rightarrow> int64 table \<Rightarrow> int64 table" where
  "subtract_devices others t = fold (\<lambda>(name, v) t. tbl_put name (device t name - v) t) others t"

definition Resources_Subtract :: "Resources \<Rightarrow> Resources \<Rightarrow> adm_error + Resources" where
  "Resources_Subtract r other =
    (if \<not> FitsWithin other r then Inl ErrInsufficient
     else Inr \<lparr>CPUMilli = CPUMilli r - CPUMilli other, MemoryBytes = MemoryBytes r - MemoryBytes other,
       SwapBytes = SwapBytes r - SwapBytes other, StorageBytes = StorageBytes r - StorageBytes other,
       CaptureBytes = CaptureBytes r - CaptureBytes other, Inodes = Inodes r - Inodes other, PIDs = PIDs r - PIDs other,
       Devices = subtract_devices (Devices other) (Devices r)\<rparr>)"

definition IsZero :: "Resources \<Rightarrow> bool" where
  "IsZero r \<longleftrightarrow> (\<forall>v \<in> set (scalars r). v = 0) \<and> (\<forall>(name, v) \<in> set (Devices r). v = 0)"

section \<open>Pressure\<close>

record PSI =
  psi_Current :: float64
  psi_Trend :: float64

definition PSI_invalid :: "PSI \<Rightarrow> bool" where
  "PSI_invalid p \<longleftrightarrow> f_irregular (psi_Current p) \<or> f_less (psi_Current p) (f_of_int 0) \<or> f_less (f_of_int 1) (psi_Current p) \<or>
    f_irregular (psi_Trend p)"

record Pressure =
  MemoryFull :: PSI
  IOFull :: PSI
  CPUFull :: PSI
  FreeDiskPercent :: float64
  FreeInodesPercent :: float64

record PressureThresholds =
  MemoryPSIFull :: float64
  IOPSIFull :: float64
  CPUPSIFull :: float64
  MinimumFreeDiskPercent :: float64
  MinimumFreeInodesPercent :: float64

definition out_of_range :: "int \<Rightarrow> float64 \<Rightarrow> bool" where
  "out_of_range upper x \<longleftrightarrow> f_irregular x \<or> f_less x (f_of_int 0) \<or> f_less (f_of_int upper) x"

definition Pressure_Validate :: "Pressure \<Rightarrow> adm_error option" where
  "Pressure_Validate p =
    first_err [fail_if (\<exists>x \<in> set [MemoryFull p, IOFull p, CPUFull p]. PSI_invalid x) InvalidPressure,
      fail_if (\<exists>x \<in> set [FreeDiskPercent p, FreeInodesPercent p]. out_of_range 100 x) InvalidPressure]"

definition Thresholds_Validate :: "PressureThresholds \<Rightarrow> adm_error option" where
  "Thresholds_Validate t =
    first_err [fail_if (\<exists>x \<in> set [MemoryPSIFull t, IOPSIFull t, CPUPSIFull t]. out_of_range 1 x) InvalidThreshold,
      fail_if (\<exists>x \<in> set [MinimumFreeDiskPercent t, MinimumFreeInodesPercent t]. out_of_range 100 x) InvalidThreshold]"

definition stalled :: "float64 \<Rightarrow> PSI \<Rightarrow> bool" where
  "stalled threshold p \<longleftrightarrow> f_less (f_of_int 0) threshold \<and>
    (f_ge (psi_Current p) threshold \<or> f_ge (f_add (psi_Current p) (psi_Trend p)) threshold)"

definition exhausted :: "float64 \<Rightarrow> float64 \<Rightarrow> bool" where
  "exhausted minimum free \<longleftrightarrow> f_less (f_of_int 0) minimum \<and> f_ge minimum free"

definition unsafe :: "Pressure \<Rightarrow> PressureThresholds \<Rightarrow> string list" where
  "unsafe p t =
    (if stalled (MemoryPSIFull t) (MemoryFull p) then [''memory PSI''] else []) @
    (if stalled (IOPSIFull t) (IOFull p) then [''I/O PSI''] else []) @
    (if stalled (CPUPSIFull t) (CPUFull p) then [''CPU PSI''] else []) @
    (if exhausted (MinimumFreeDiskPercent t) (FreeDiskPercent p) then [''free disk''] else []) @
    (if exhausted (MinimumFreeInodesPercent t) (FreeInodesPercent p) then [''free inodes''] else [])"

fun join_sorted :: "string list \<Rightarrow> string" where
  "join_sorted [] = []"
| "join_sorted [v] = v"
| "join_sorted (v # vs) = v @ '', '' @ join_sorted vs"

definition joinReasons :: "string list \<Rightarrow> string" where
  "joinReasons values = join_sorted (sort values)"

section \<open>Admission\<close>

record LeaseRequest =
  rq_LeaseKey :: string
  rq_Requests :: Resources
  rq_Limits :: Resources
  rq_ObserverCost :: Resources
  rq_SnapshotCost :: Resources
  rq_Priority :: int64
  rq_Preemptible :: bool
  rq_TTL :: duration

record CapacitySnapshot =
  cs_Allocatable :: Resources
  cs_Reserved :: Resources
  cs_WarmPoolCost :: Resources
  cs_ControlReserve :: Resources
  cs_Pressure :: Pressure
  cs_ObservedAt :: time

record AdmissionDecision =
  ad_Admitted :: bool
  ad_Reason :: string
  ad_InputsDigest :: string
  ad_EffectiveBudget :: Resources
  ad_AvailableBefore :: Resources
  ad_AvailableAfter :: Resources
  ad_DecidedAt :: time

text \<open>The parameters are \<open>json.Marshal\<close> on the inputs of a decision and SHA-256.\<close>

definition decisionDigest :: "('a \<Rightarrow> string + bytes) \<Rightarrow> (bytes \<Rightarrow> bytes) \<Rightarrow> 'a \<Rightarrow> adm_error + string" where
  "decisionDigest json sha values =
    (case json values of
       Inl e \<Rightarrow> Inl (EncodingFailed e)
     | Inr encoded \<Rightarrow> Inr (''sha256:'' @ hex_encode (sha (''world-admission-decision-v1'' @ [CHR 0x00] @ encoded))))"

definition all_resources :: "LeaseRequest \<Rightarrow> CapacitySnapshot \<Rightarrow> Resources list" where
  "all_resources request snapshot =
    [rq_Requests request, rq_Limits request, rq_ObserverCost request, rq_SnapshotCost request,
     cs_Allocatable snapshot, cs_Reserved snapshot, cs_WarmPoolCost snapshot, cs_ControlReserve snapshot]"

definition evaluate_capacity :: "LeaseRequest \<Rightarrow> CapacitySnapshot \<Rightarrow> AdmissionDecision \<Rightarrow> AdmissionDecision \<times> adm_error option" where
  "evaluate_capacity request snapshot decision =
    (case bind_r (Resources_Add (cs_Reserved snapshot) (cs_WarmPoolCost snapshot))
        (\<lambda>unavailable. Resources_Add unavailable (cs_ControlReserve snapshot)) of
       Inl e \<Rightarrow> (decision, Some e)
     | Inr unavailable \<Rightarrow>
        (case Resources_Subtract (cs_Allocatable snapshot) unavailable of
           Inl e \<Rightarrow> (decision\<lparr>ad_Reason := ''control reserve or existing work exceeds allocatable capacity''\<rparr>, Some ErrInsufficient)
         | Inr available \<Rightarrow>
            (let decision = decision\<lparr>ad_AvailableBefore := available\<rparr> in
             case bind_r (Resources_Add (rq_Requests request) (rq_ObserverCost request))
                 (\<lambda>required. Resources_Add required (rq_SnapshotCost request)) of
               Inl e \<Rightarrow> (decision, Some e)
             | Inr required \<Rightarrow>
                if \<not> FitsWithin required available
                then (decision\<lparr>ad_Reason := ''insufficient allocatable capacity''\<rparr>, Some ErrInsufficient)
                else (decision\<lparr>ad_AvailableAfter := val_or zero_resources (Resources_Subtract available required),
                    ad_EffectiveBudget := rq_Limits request, ad_Admitted := True,
                    ad_Reason := ''request, observer, snapshot, and control-plane headroom fit''\<rparr>, None))))"

definition Evaluate ::
  "(LeaseRequest \<times> CapacitySnapshot \<times> PressureThresholds \<Rightarrow> string + bytes) \<Rightarrow> (bytes \<Rightarrow> bytes) \<Rightarrow>
    LeaseRequest \<Rightarrow> CapacitySnapshot \<Rightarrow> PressureThresholds \<Rightarrow> time \<Rightarrow> AdmissionDecision \<times> adm_error option" where
  "Evaluate json sha request snapshot thresholds now =
    (let decision = \<lparr>ad_Admitted = False, ad_Reason = [], ad_InputsDigest = [], ad_EffectiveBudget = zero_resources,
           ad_AvailableBefore = zero_resources, ad_AvailableAfter = zero_resources, ad_DecidedAt = now\<rparr> in
     case decisionDigest json sha (request, snapshot, thresholds) of
       Inl e \<Rightarrow> (decision, Some e)
     | Inr digest \<Rightarrow>
        (let decision = decision\<lparr>ad_InputsDigest := digest\<rparr> in
         case first_err [Pressure_Validate (cs_Pressure snapshot), Thresholds_Validate thresholds] of
           Some e \<Rightarrow> (decision, Some e)
         | None \<Rightarrow>
            if rq_LeaseKey request = [] \<or> rq_TTL request \<le> 0 \<or> IsZero (rq_Requests request)
            then (decision\<lparr>ad_Reason := ''invalid lease resource contract''\<rparr>, Some ErrInvalidResources)
            else (case first_err (map Resources_Validate (all_resources request snapshot)) of
               Some e \<Rightarrow> (decision, Some e)
             | None \<Rightarrow>
                if \<not> FitsWithin (rq_Requests request) (rq_Limits request)
                then (decision\<lparr>ad_Reason := ''resource request exceeds its hard limit''\<rparr>, Some ErrRequestOverLimit)
                else
                  let reasons = unsafe (cs_Pressure snapshot) thresholds in
                  if reasons \<noteq> [] then (decision\<lparr>ad_Reason := ''pressure: '' @ joinReasons reasons\<rparr>, Some ErrPressure)
                  else evaluate_capacity request snapshot decision)))"

end
