(* ===== verification/Admission.thy ===== *)
theory Admission
  imports Admission_Resources
begin

text \<open>
  What the resource arithmetic of \<open>src/internal/admission/resources.go\<close> computes: exact integer amounts in
  each dimension, with every overflow reported; and with it, that admission never promises more than
  the host has and never refuses what fits.
\<close>

section \<open>Amounts\<close>

datatype dimension = CPU | Memory | Swap | Storage | Capture | Inode | PID | Device string

fun amount :: "Resources \<Rightarrow> dimension \<Rightarrow> int" where
  "amount r CPU = sint (CPUMilli r)"
| "amount r Memory = sint (MemoryBytes r)"
| "amount r Swap = sint (SwapBytes r)"
| "amount r Storage = sint (StorageBytes r)"
| "amount r Capture = sint (CaptureBytes r)"
| "amount r Inode = sint (Inodes r)"
| "amount r PID = sint (PIDs r)"
| "amount r (Device name) = sint (device (Devices r) name)"

lemma all_dimensions:
  "(\<forall>d. P d) \<longleftrightarrow> P CPU \<and> P Memory \<and> P Swap \<and> P Storage \<and> P Capture \<and> P Inode \<and> P PID \<and> (\<forall>name. P (Device name))"
  by (metis dimension.exhaust)

text \<open>A valid vector; a Go map has each key once.\<close>

definition sound_vector :: "Resources \<Rightarrow> bool" where
  "sound_vector r \<longleftrightarrow> Resources_Validate r = None \<and> distinct (map fst (Devices r))"

lemma amount_less: "amount r d < 2 ^ 63"
  by (cases d) (use sint_lt [where ?'a = 64] in simp_all)

lemma device_simps [simp]:
  "device [] name = 0" "device ((k, v) # t) name = (if name = k then v else device t name)"
  "device (tbl_put k v t) name = (if name = k then v else device t name)"
  by (simp_all add: device_def)

lemma device_absent: "name \<notin> fst ` set t \<Longrightarrow> device t name = 0"
  by (simp add: device_def map_of_eq_None_iff [THEN iffD2])

lemma device_present: "distinct (map fst t) \<Longrightarrow> (name, v) \<in> set t \<Longrightarrow> device t name = v"
  by (simp add: device_def)

lemma all_devices:
  assumes "distinct (map fst t)" "\<And>name. P name 0"
  shows "(\<forall>(name, v) \<in> set t. P name v) \<longleftrightarrow> (\<forall>name. P name (device t name))"
proof (intro iffI allI)
  fix name
  assume "\<forall>(name, v) \<in> set t. P name v"
  then show "P name (device t name)"
    using assms(2) by (auto simp: device_def split: option.splits dest: map_of_SomeD)
next
  assume all: "\<forall>name. P name (device t name)"
  have "P name v" if "(name, v) \<in> set t" for name v
    using all device_present [OF assms(1) that] by metis
  then show "\<forall>(name, v) \<in> set t. P name v"
    by blast
qed

lemma sound_vector_iff:
  "sound_vector r \<longleftrightarrow> (\<forall>d. 0 \<le> amount r d) \<and> [] \<notin> fst ` set (Devices r) \<and> distinct (map fst (Devices r))"
proof (cases "distinct (map fst (Devices r))")
  case True
  have "(\<forall>(name, v) \<in> set (Devices r). \<not> (name = [] \<or> sint v < 0)) \<longleftrightarrow>
      [] \<notin> fst ` set (Devices r) \<and> (\<forall>(name, v) \<in> set (Devices r). 0 \<le> sint v)"
    by force
  then show ?thesis
    using True all_devices [OF True, of "\<lambda>_ v. 0 \<le> sint v"]
    by (auto simp: sound_vector_def Resources_Validate_def scalars_def all_dimensions)
qed (simp add: sound_vector_def)

lemma sound_vectorD:
  assumes "sound_vector r"
  shows "0 \<le> amount r d" "[] \<notin> fst ` set (Devices r)" "distinct (map fst (Devices r))" "Resources_Validate r = None"
  using assms assms [unfolded sound_vector_def] by (auto simp: sound_vector_iff)

section \<open>Addition and subtraction are exact\<close>

lemma sint_add: "- (2 ^ 63) \<le> sint a + sint b \<Longrightarrow> sint a + sint b < 2 ^ 63 \<Longrightarrow> sint (a + b) = sint a + sint (b :: int64)"
  by (simp add: sint_word_ariths signed_take_bit_int_eq_self)

lemma sint_sub: "- (2 ^ 63) \<le> sint a - sint b \<Longrightarrow> sint a - sint b < 2 ^ 63 \<Longrightarrow> sint (a - b) = sint a - sint (b :: int64)"
  by (simp add: sint_word_ariths signed_take_bit_int_eq_self)

lemma add_checked_exact:
  assumes "0 \<le> sint d" "0 \<le> sint v"
  shows "add_checked d v = (if sint d + sint v < 2 ^ 63 then Inr (d + v) else Inl ErrInvalidResources)"
    "sint d + sint v < 2 ^ 63 \<Longrightarrow> sint (d + v) = sint d + sint v"
proof -
  have "sint MaxInt64 = 2 ^ 63 - 1"
    by (simp add: MaxInt64_def)
  then have "sint (MaxInt64 - d) = 2 ^ 63 - 1 - sint d"
    using assms(1) sint_lt [of d] by (simp add: sint_sub)
  then show "add_checked d v = (if sint d + sint v < 2 ^ 63 then Inr (d + v) else Inl ErrInvalidResources)"
    by (auto simp: add_checked_def)
qed (use assms in \<open>simp add: sint_add\<close>)

lemma add_devices_exact:
  assumes "distinct (map fst xs)" "\<forall>(name, v) \<in> set xs. 0 \<le> sint v" "\<forall>name. 0 \<le> sint (device t name)"
  shows "case add_devices xs t of
     Inr out \<Rightarrow> (\<forall>name. sint (device out name) = sint (device t name) + sint (device xs name)) \<and>
       fst ` set out = fst ` set t \<union> fst ` set xs \<and> (distinct (map fst t) \<longrightarrow> distinct (map fst out))
   | Inl e \<Rightarrow> \<exists>name. 2 ^ 63 \<le> sint (device t name) + sint (device xs name)"
  using assms
proof (induction xs t rule: add_devices.induct)
  case (2 k v rest t)
  have rest: "device rest k = 0"
    using 2(2) by (intro device_absent) auto
  have nonneg: "0 \<le> sint v" "0 \<le> sint (device t k)"
    using 2(3,4) by auto
  show ?case
  proof (cases "sint (device t k) + sint v < 2 ^ 63")
    case True
    let ?x = "device t k + v"
    have x: "add_checked (device t k) v = Inr ?x" "sint ?x = sint (device t k) + sint v"
      using add_checked_exact [OF nonneg(2,1)] True by simp_all
    have "\<forall>name. 0 \<le> sint (device (tbl_put k ?x t) name)"
      using 2(4) x(2) nonneg by simp
    then have IH: "case add_devices rest (tbl_put k ?x t) of
       Inr out \<Rightarrow> (\<forall>name. sint (device out name) = sint (device (tbl_put k ?x t) name) + sint (device rest name)) \<and>
         fst ` set out = fst ` set (tbl_put k ?x t) \<union> fst ` set rest \<and>
         (distinct (map fst (tbl_put k ?x t)) \<longrightarrow> distinct (map fst out))
     | Inl e \<Rightarrow> \<exists>name. 2 ^ 63 \<le> sint (device (tbl_put k ?x t) name) + sint (device rest name)"
      using 2(1) [of ?x] 2(2,3) by simp
    show ?thesis
    proof (cases "add_devices rest (tbl_put k ?x t)")
      case (Inl e)
      then obtain name where "2 ^ 63 \<le> sint (device (tbl_put k ?x t) name) + sint (device rest name)"
        using IH by auto
      then show ?thesis
        using Inl x rest by (auto split: if_splits intro!: exI [of _ name])
    next
      case (Inr out)
      then show ?thesis
        using IH x rest by (auto simp: tbl_put_keys tbl_put_distinct)
    qed
  next
    case False
    then show ?thesis
      using add_checked_exact(1) [OF nonneg(2,1)] by (auto intro!: exI [of _ k])
  qed
qed simp

lemma sound_devices:
  assumes "sound_vector r"
  shows "\<forall>name. 0 \<le> sint (device (Devices r) name)" "\<forall>(name, v) \<in> set (Devices r). 0 \<le> sint v"
  using all_devices [of "Devices r" "\<lambda>_ v. 0 \<le> sint v"] sound_vectorD(1) [OF assms, of "Device _"] sound_vectorD(3) [OF assms]
  by simp_all

lemma Add_sum:
  assumes "sound_vector r" "sound_vector s" "Resources_Add r s = Inr t"
  shows "sound_vector t" "amount t d = amount r d + amount s d"
proof -
  note nonneg = sound_vectorD(1) [OF assms(1)] sound_vectorD(1) [OF assms(2)]
  have one: "sint x = sint a + sint b \<and> 0 \<le> sint x" if "add_checked a b = Inr x" "0 \<le> sint a" "0 \<le> sint b" for a b x
    using that add_checked_exact [of a b] by (simp split: if_splits)
  obtain devices where devices: "add_devices (Devices s) (Devices r) = Inr devices" "Devices t = devices"
    using assms(3) by (auto simp: Resources_Add_def bind_r_Inr)
  note sum = add_devices_exact [OF sound_vectorD(3) [OF assms(2)] sound_devices(2) [OF assms(2)] sound_devices(1) [OF assms(1)],
      unfolded devices(1), simplified]
  have "amount t d = amount r d + amount s d" for d
  proof (cases d)
    case (Device name)
    then show ?thesis
      using sum devices(2) by simp
  qed (use assms(3) one nonneg [of CPU] nonneg [of Memory] nonneg [of Swap] nonneg [of Storage] nonneg [of Capture]
      nonneg [of Inode] nonneg [of PID] in \<open>auto simp: Resources_Add_def bind_r_Inr\<close>)
  then show "amount t d = amount r d + amount s d" "sound_vector t"
    using nonneg sum devices(2) sound_vectorD(2,3) [OF assms(1)] sound_vectorD(2) [OF assms(2)]
    by (simp_all add: sound_vector_iff)
qed

lemma Add_overflow:
  assumes "sound_vector r" "sound_vector s" "Resources_Add r s = Inl e"
  shows "\<exists>d. 2 ^ 63 \<le> amount r d + amount s d"
proof (rule ccontr)
  assume "\<not> ?thesis"
  then have small: "amount r d + amount s d < 2 ^ 63" for d
    by (simp add: not_le)
  note nonneg = sound_vectorD(1) [OF assms(1)] sound_vectorD(1) [OF assms(2)]
  have ok: "add_checked a b = Inr (a + b)" if "sint a + sint b < 2 ^ 63" "0 \<le> sint a" "0 \<le> sint b" for a b
    using that add_checked_exact(1) [of a b] by simp
  have "\<exists>devices. add_devices (Devices s) (Devices r) = Inr devices"
    using add_devices_exact [OF sound_vectorD(3) [OF assms(2)] sound_devices(2) [OF assms(2)] sound_devices(1) [OF assms(1)]]
      small [of "Device _"]
    by (auto simp: not_le [symmetric] split: sum.splits)
  then show False
    using assms(3) ok small [of CPU] small [of Memory] small [of Swap] small [of Storage] small [of Capture] small [of Inode]
      small [of PID] nonneg [of CPU] nonneg [of Memory] nonneg [of Swap] nonneg [of Storage] nonneg [of Capture]
      nonneg [of Inode] nonneg [of PID] sound_vectorD(4) [OF assms(1)] sound_vectorD(4) [OF assms(2)]
    by (auto simp: Resources_Add_def)
qed

lemma FitsWithin_iff:
  assumes "sound_vector r" "sound_vector s"
  shows "FitsWithin r s \<longleftrightarrow> (\<forall>d. amount r d \<le> amount s d)"
proof -
  have "(\<forall>(name, v) \<in> set (Devices r). \<not> sint v > sint (device (Devices s) name)) \<longleftrightarrow>
      (\<forall>name. \<not> sint (device (Devices r) name) > sint (device (Devices s) name))"
    by (rule all_devices [OF sound_vectorD(3) [OF assms(1)]]) (use sound_devices(1) [OF assms(2)] in \<open>simp add: not_less\<close>)
  then show ?thesis
    using sound_vectorD(4) [OF assms(1)] sound_vectorD(4) [OF assms(2)]
    by (simp add: FitsWithin_def all_dimensions not_less conj_assoc)
qed

lemma subtract_devices_exact:
  "distinct (map fst xs) \<Longrightarrow> device (subtract_devices xs t) name = device t name - device xs name"
proof (induction xs arbitrary: t)
  case (Cons x xs)
  obtain k v where x: "x = (k, v)"
    by (cases x)
  have "device xs k = 0"
    using Cons.prems x by (intro device_absent) auto
  then show ?case
    using Cons x by (simp add: subtract_devices_def)
qed (simp add: subtract_devices_def)

lemma subtract_devices_keys:
  "fst ` set (subtract_devices xs t) = fst ` set t \<union> fst ` set xs"
  "distinct (map fst t) \<Longrightarrow> distinct (map fst (subtract_devices xs t))"
  unfolding subtract_devices_def
  by (induction xs arbitrary: t) (auto simp: tbl_put_keys tbl_put_distinct split: prod.splits)

lemma Subtract_exact:
  assumes "sound_vector r" "sound_vector s" "\<forall>d. amount s d \<le> amount r d"
  shows "\<exists>t. Resources_Subtract r s = Inr t \<and> sound_vector t \<and> (\<forall>d. amount t d = amount r d - amount s d)"
proof -
  note nonneg = sound_vectorD(1) [OF assms(2)]
  obtain t where t: "Resources_Subtract r s = Inr t"
    using assms FitsWithin_iff [OF assms(2,1)] by (simp add: Resources_Subtract_def)
  have one: "sint (a - b) = sint a - sint b" if "sint b \<le> sint a" "0 \<le> sint b" for a b :: int64
    using that sint_lt [of a] by (simp add: sint_sub)
  have le: "amount s d \<le> amount r d" for d
    using assms(3) by simp
  have exact: "amount t d = amount r d - amount s d" for d
  proof (cases d)
    case (Device name)
    then show ?thesis
      using t le [of d] nonneg [of d] subtract_devices_exact [OF sound_vectorD(3) [OF assms(2)], of "Devices r" name] one
      by (auto simp: Resources_Subtract_def split: if_splits)
  qed (use t le [of d] nonneg [of d] one in \<open>auto simp: Resources_Subtract_def split: if_splits\<close>)
  moreover have "Devices t = subtract_devices (Devices s) (Devices r)"
    using t by (auto simp: Resources_Subtract_def split: if_splits)
  ultimately have "sound_vector t"
    using le sound_vectorD(2,3) [OF assms(1)] sound_vectorD(2) [OF assms(2)] by (simp add: sound_vector_iff subtract_devices_keys)
  then show ?thesis
    using t exact by blast
qed

lemma IsZero_iff: "sound_vector r \<Longrightarrow> IsZero r \<longleftrightarrow> (\<forall>d. amount r d = 0)"
  using all_devices [of "Devices r" "\<lambda>_ v. v = 0"] sound_vectorD(3) [of r]
  by (simp add: IsZero_def scalars_def all_dimensions signed_eq_0_iff)

text \<open>
  C34.
  Resource arithmetic never wraps.  Adding two valid vectors either gives the exact sum in every dimension,
  named devices included, as a valid vector again, or is refused, and then the exact sum of some
  dimension exceeds the largest 64-bit integer.\<close>

theorem resource_addition_exact:
  assumes "sound_vector r" "sound_vector s"
  shows "case Resources_Add r s of
     Inr t \<Rightarrow> sound_vector t \<and> (\<forall>d. amount t d = amount r d + amount s d)
   | Inl e \<Rightarrow> \<exists>d. 2 ^ 63 \<le> amount r d + amount s d"
  using Add_sum [OF assms] Add_overflow [OF assms] by (simp split: sum.splits)

section \<open>Capacity accounting\<close>

definition add3 :: "('r \<Rightarrow> 'r \<Rightarrow> 'e + 'r) \<Rightarrow> 'r \<Rightarrow> 'r \<Rightarrow> 'r \<Rightarrow> 'e + 'r" where
  "add3 add a b c = bind_r (add a b) (\<lambda>x. add x c)"

text \<open>
  What admission relies on: vectors with bounded, exactly measured amounts.  Sums that do not
  fit a vector exceed every vector.
\<close>

locale accounting =
  fixes ok :: "'r \<Rightarrow> bool" and amt :: "'r \<Rightarrow> 'd \<Rightarrow> int" and add :: "'r \<Rightarrow> 'r \<Rightarrow> 'e + 'r"
    and sub :: "'r \<Rightarrow> 'r \<Rightarrow> 'e + 'r" and fits :: "'r \<Rightarrow> 'r \<Rightarrow> bool" and cap :: int
  assumes amt_less: "amt r d < cap"
    and nonneg: "ok r \<Longrightarrow> 0 \<le> amt r d"
    and add_sum: "ok r \<Longrightarrow> ok s \<Longrightarrow> add r s = Inr t \<Longrightarrow> ok t \<and> (\<forall>d. amt t d = amt r d + amt s d)"
    and add_over: "ok r \<Longrightarrow> ok s \<Longrightarrow> add r s = Inl e \<Longrightarrow> \<exists>d. cap \<le> amt r d + amt s d"
    and fits_iff: "ok r \<Longrightarrow> ok s \<Longrightarrow> fits r s \<longleftrightarrow> (\<forall>d. amt r d \<le> amt s d)"
    and sub_exact: "ok r \<Longrightarrow> ok s \<Longrightarrow> fits s r \<Longrightarrow> \<exists>t. sub r s = Inr t \<and> ok t \<and> (\<forall>d. amt t d = amt r d - amt s d)"
    and sub_refuses: "\<not> fits s r \<Longrightarrow> \<exists>e. sub r s = Inl e"
begin

lemma add3_sum:
  assumes "ok a" "ok b" "ok c" "add3 add a b c = Inr t"
  shows "ok t" "amt t d = amt a d + amt b d + amt c d"
proof -
  obtain x where x: "add a b = Inr x" "add x c = Inr t"
    using assms(4) by (auto simp: add3_def bind_r_Inr)
  show "ok t" "amt t d = amt a d + amt b d + amt c d"
    using add_sum [OF assms(1,2) x(1)] add_sum [OF _ assms(3) x(2)] by auto
qed

lemma add3_over:
  assumes "ok a" "ok b" "ok c" "add3 add a b c = Inl e"
  shows "\<exists>d. cap \<le> amt a d + amt b d + amt c d"
proof (cases "add a b")
  case (Inl e')
  then obtain d where "cap \<le> amt a d + amt b d"
    using add_over assms by blast
  then show ?thesis
    using nonneg [OF assms(3), of d] by (intro exI [of _ d]) linarith
next
  case (Inr x)
  then have "add x c = Inl e"
    using assms(4) by (simp add: add3_def)
  then show ?thesis
    using add_sum [OF assms(1,2) Inr] add_over [OF _ assms(3), of x e] by auto
qed

text \<open>Taking \<open>a + b + c\<close> and then \<open>u + v + w\<close> out of \<open>r\<close> succeeds exactly when their sum fits.\<close>

lemma headroom:
  assumes "ok r" "ok a" "ok b" "ok c" "ok u" "ok v" "ok w"
  shows "(\<exists>taken left wanted. add3 add a b c = Inr taken \<and> sub r taken = Inr left \<and> add3 add u v w = Inr wanted \<and> fits wanted left) \<longleftrightarrow>
    (\<forall>d. amt a d + amt b d + amt c d + (amt u d + amt v d + amt w d) \<le> amt r d)"
proof
  assume "\<exists>taken left wanted. add3 add a b c = Inr taken \<and> sub r taken = Inr left \<and> add3 add u v w = Inr wanted \<and> fits wanted left"
  then obtain taken left wanted where
    run: "add3 add a b c = Inr taken" "sub r taken = Inr left" "add3 add u v w = Inr wanted" "fits wanted left"
    by blast
  have "fits taken r"
    using sub_refuses run(2) by fastforce
  then have "ok left" "amt left d = amt r d - amt taken d" for d
    using sub_exact [OF assms(1) add3_sum(1) [OF assms(2,3,4) run(1)]] run(2) by auto
  moreover have "amt wanted d \<le> amt left d" for d
    using fits_iff [OF add3_sum(1) [OF assms(5,6,7) run(3)], of left] run(4) calculation(1) by simp
  ultimately show "\<forall>d. amt a d + amt b d + amt c d + (amt u d + amt v d + amt w d) \<le> amt r d"
    using add3_sum(2) [OF assms(2,3,4) run(1)] add3_sum(2) [OF assms(5,6,7) run(3)]
    by (metis add.commute le_diff_eq)
next
  assume all: "\<forall>d. amt a d + amt b d + amt c d + (amt u d + amt v d + amt w d) \<le> amt r d"
  have pos: "0 \<le> amt a d + amt b d + amt c d" "0 \<le> amt u d + amt v d + amt w d" for d
    using nonneg assms by simp_all
  then have le: "amt a d + amt b d + amt c d < cap" "amt u d + amt v d + amt w d < cap" "amt a d + amt b d + amt c d \<le> amt r d" for d
    using spec [OF all, of d] pos [of d] amt_less [of r d] by linarith+
  obtain taken wanted where run: "add3 add a b c = Inr taken" "add3 add u v w = Inr wanted"
    using add3_over [OF assms(2,3,4)] add3_over [OF assms(5,6,7)] le(1,2)
    by (metis linorder_not_less sum.exhaust)
  note sums = add3_sum [OF assms(2,3,4) run(1)] add3_sum [OF assms(5,6,7) run(2)]
  have "fits taken r"
    using fits_iff [OF sums(1) assms(1)] sums(2) le(3) by simp
  then obtain left where left: "sub r taken = Inr left" "ok left" "\<forall>d. amt left d = amt r d - amt taken d"
    using sub_exact [OF assms(1) sums(1)] by blast
  have "fits wanted left"
    using fits_iff [OF sums(3) left(2)] left(3) sums(2,4) all by (simp add: algebra_simps)
  then show "\<exists>taken left wanted. add3 add a b c = Inr taken \<and> sub r taken = Inr left \<and> add3 add u v w = Inr wanted \<and> fits wanted left"
    using run left by blast
qed

end

interpretation vectors: accounting sound_vector amount Resources_Add Resources_Subtract FitsWithin "2 ^ 63"
proof unfold_locales
  show "amount r d < 2 ^ 63" for r d
    by (rule amount_less)
  show "sound_vector r \<Longrightarrow> 0 \<le> amount r d" for r d
    by (rule sound_vectorD)
  show "sound_vector r \<Longrightarrow> sound_vector s \<Longrightarrow> Resources_Add r s = Inr t \<Longrightarrow>
      sound_vector t \<and> (\<forall>d. amount t d = amount r d + amount s d)" for r s t
    using Add_sum by blast
  show "sound_vector r \<Longrightarrow> sound_vector s \<Longrightarrow> Resources_Add r s = Inl e \<Longrightarrow> \<exists>d. 2 ^ 63 \<le> amount r d + amount s d" for r s e
    by (rule Add_overflow)
  show "sound_vector r \<Longrightarrow> sound_vector s \<Longrightarrow> FitsWithin r s \<longleftrightarrow> (\<forall>d. amount r d \<le> amount s d)" for r s
    by (rule FitsWithin_iff)
  show "sound_vector r \<Longrightarrow> sound_vector s \<Longrightarrow> FitsWithin s r \<Longrightarrow>
      \<exists>t. Resources_Subtract r s = Inr t \<and> sound_vector t \<and> (\<forall>d. amount t d = amount r d - amount s d)" for r s
    using Subtract_exact FitsWithin_iff by blast
  show "\<not> FitsWithin s r \<Longrightarrow> \<exists>e. Resources_Subtract r s = Inl e" for r s
    by (simp add: Resources_Subtract_def)
qed

section \<open>Admission\<close>

definition committed :: "CapacitySnapshot \<Rightarrow> dimension \<Rightarrow> int" where
  "committed cs d = amount (cs_Reserved cs) d + amount (cs_WarmPoolCost cs) d + amount (cs_ControlReserve cs) d"

definition demanded :: "LeaseRequest \<Rightarrow> dimension \<Rightarrow> int" where
  "demanded rq d = amount (rq_Requests rq) d + amount (rq_ObserverCost rq) d + amount (rq_SnapshotCost rq) d"

lemma capacity_exact:
  assumes "\<forall>r \<in> set (all_resources rq cs). sound_vector r" "evaluate_capacity rq cs dec = (decision, err)" "\<not> ad_Admitted dec"
  shows "err = None \<longleftrightarrow> (\<forall>d. committed cs d + demanded rq d \<le> amount (cs_Allocatable cs) d)"
    "ad_Admitted decision \<longleftrightarrow> err = None"
    "err = None \<Longrightarrow> amount (ad_AvailableAfter decision) d = amount (cs_Allocatable cs) d - committed cs d - demanded rq d"
proof -
  let ?taken = "add3 Resources_Add (cs_Reserved cs) (cs_WarmPoolCost cs) (cs_ControlReserve cs)"
    and ?wanted = "add3 Resources_Add (rq_Requests rq) (rq_ObserverCost rq) (rq_SnapshotCost rq)"
  have ok: "sound_vector (cs_Allocatable cs)" "sound_vector (cs_Reserved cs)" "sound_vector (cs_WarmPoolCost cs)"
      "sound_vector (cs_ControlReserve cs)" "sound_vector (rq_Requests rq)" "sound_vector (rq_ObserverCost rq)" "sound_vector (rq_SnapshotCost rq)"
    using assms(1) by (simp_all add: all_resources_def)
  have iff: "err = None \<longleftrightarrow> (\<exists>taken left wanted. ?taken = Inr taken \<and> Resources_Subtract (cs_Allocatable cs) taken = Inr left \<and>
      ?wanted = Inr wanted \<and> FitsWithin wanted left)" and "ad_Admitted decision \<longleftrightarrow> err = None"
    using assms(2,3) unfolding evaluate_capacity_def add3_def by (auto simp: Let_def split: sum.splits if_splits)
  then show "ad_Admitted decision \<longleftrightarrow> err = None" "err = None \<longleftrightarrow> (\<forall>d. committed cs d + demanded rq d \<le> amount (cs_Allocatable cs) d)"
    using vectors.headroom [OF ok] by (simp_all add: committed_def demanded_def)
  show "amount (ad_AvailableAfter decision) d = amount (cs_Allocatable cs) d - committed cs d - demanded rq d" if none: "err = None"
  proof -
    obtain taken left wanted where run: "?taken = Inr taken" "Resources_Subtract (cs_Allocatable cs) taken = Inr left"
        "?wanted = Inr wanted" "FitsWithin wanted left"
      using iff none by blast
    note sums = vectors.add3_sum [OF ok(2,3,4) run(1)] vectors.add3_sum [OF ok(5,6,7) run(3)]
    have "FitsWithin taken (cs_Allocatable cs)"
      using run(2) by (simp add: Resources_Subtract_def split: if_splits)
    then have left: "sound_vector left" "amount left d = amount (cs_Allocatable cs) d - amount taken d" for d
      using vectors.sub_exact [OF ok(1) sums(1)] run(2) by auto
    obtain rest where rest: "Resources_Subtract left wanted = Inr rest" "amount rest d = amount left d - amount wanted d"
      using vectors.sub_exact [OF left(1) sums(3) run(4)] by blast
    have "ad_AvailableAfter decision = rest"
      using assms(2) run rest(1) unfolding evaluate_capacity_def add3_def by auto
    then show ?thesis
      using rest(2) left(2) sums(2,4) by (simp add: committed_def demanded_def)
  qed
qed

text \<open>
  C33.
  Admission is exact.  A request is admitted if and only if its inputs are valid, it asks for something and
  for no more than its limits, no pressure signal is at its threshold, and in every dimension the
  capacity already promised (reserved, warm pool, control reserve) and the full cost of the request
  (with observers and snapshots) fit the allocatable capacity, computed on exact integers; what is
  reported as left is exactly the difference.\<close>

theorem admission_exact:
  assumes "json (rq, cs, th) = Inr encoded" "\<forall>r \<in> set (all_resources rq cs). distinct (map fst (Devices r))"
    and "Evaluate json sha rq cs th now = (decision, err)"
  shows "(ad_Admitted decision \<longleftrightarrow>
      Pressure_Validate (cs_Pressure cs) = None \<and> Thresholds_Validate th = None \<and> rq_LeaseKey rq \<noteq> [] \<and> 0 < rq_TTL rq \<and>
      (\<forall>r \<in> set (all_resources rq cs). Resources_Validate r = None) \<and>
      (\<exists>d. 0 < amount (rq_Requests rq) d) \<and> (\<forall>d. amount (rq_Requests rq) d \<le> amount (rq_Limits rq) d) \<and>
      unsafe (cs_Pressure cs) th = [] \<and> (\<forall>d. committed cs d + demanded rq d \<le> amount (cs_Allocatable cs) d)) \<and>
    (ad_Admitted decision \<longleftrightarrow> err = None) \<and>
    (ad_Admitted decision \<longrightarrow> (\<forall>d. amount (ad_AvailableAfter decision) d = amount (cs_Allocatable cs) d - committed cs d - demanded rq d))"
proof -
  obtain digest where digest: "decisionDigest json sha (rq, cs, th) = Inr digest"
    using assms(1) by (simp add: decisionDigest_def)
  have valid: "first_err (map Resources_Validate (all_resources rq cs)) = None \<longleftrightarrow>
      (\<forall>r \<in> set (all_resources rq cs). Resources_Validate r = None)"
    by (rule first_err_map_None)
  let ?guards = "first_err [Pressure_Validate (cs_Pressure cs), Thresholds_Validate th] = None \<and> rq_LeaseKey rq \<noteq> [] \<and> 0 < rq_TTL rq \<and>
    \<not> IsZero (rq_Requests rq) \<and> first_err (map Resources_Validate (all_resources rq cs)) = None \<and>
    FitsWithin (rq_Requests rq) (rq_Limits rq) \<and> unsafe (cs_Pressure cs) th = []"
  have guards: "?guards \<longleftrightarrow> Pressure_Validate (cs_Pressure cs) = None \<and> Thresholds_Validate th = None \<and> rq_LeaseKey rq \<noteq> [] \<and>
      0 < rq_TTL rq \<and> (\<forall>r \<in> set (all_resources rq cs). Resources_Validate r = None) \<and>
      (\<exists>d. 0 < amount (rq_Requests rq) d) \<and> (\<forall>d. amount (rq_Requests rq) d \<le> amount (rq_Limits rq) d) \<and>
      unsafe (cs_Pressure cs) th = []"
  proof (cases "\<forall>r \<in> set (all_resources rq cs). Resources_Validate r = None")
    case True
    then have rq: "sound_vector (rq_Requests rq)" "sound_vector (rq_Limits rq)"
      using assms(2) by (simp_all add: sound_vector_def all_resources_def)
    have "IsZero (rq_Requests rq) \<longleftrightarrow> \<not> (\<exists>d. 0 < amount (rq_Requests rq) d)"
      using IsZero_iff [OF rq(1)] sound_vectorD(1) [OF rq(1)] by (simp add: not_less order.eq_iff)
    then show ?thesis
      using True valid FitsWithin_iff [OF rq] by auto
  qed (use valid in auto)
  show ?thesis
  proof (cases ?guards)
    case True
    then have "\<forall>r \<in> set (all_resources rq cs). sound_vector r"
      using assms(2) valid by (simp add: sound_vector_def)
    moreover obtain dec where "evaluate_capacity rq cs dec = (decision, err)" "\<not> ad_Admitted dec"
      using assms(3) True by (auto simp: Evaluate_def digest Let_def)
    ultimately show ?thesis
      using capacity_exact [of rq cs dec decision err] True guards by blast
  next
    case False
    then have "err \<noteq> None \<and> \<not> ad_Admitted decision"
      using assms(3) unfolding Evaluate_def digest Let_def
      by (cases "first_err [Pressure_Validate (cs_Pressure cs), Thresholds_Validate th]";
          cases "first_err (map Resources_Validate (all_resources rq cs))") (fastforce split: if_splits)+
    then show ?thesis
      using False guards by blast
  qed
qed

end
