(* ===== verification/Admission_Pressure.thy ===== *)
theory Admission_Pressure
  imports Admission "HOL-Library.Multiset"
begin

text \<open>
  The fixed order of pressure decisions and the lease queue, \<open>src/internal/admission/pressure.go\<close>.
\<close>

section \<open>Package \<open>sort\<close>\<close>

text \<open>
  \<open>sort.SliceStable\<close> is insertion into a sorted list.  \<open>sort.Slice\<close> promises less, no order among
  elements of which neither is less; the same function models it, and \<open>least_first\<close> below shows what does not
  depend on that choice.
\<close>

primrec insert_by :: "('a \<Rightarrow> 'a \<Rightarrow> bool) \<Rightarrow> 'a \<Rightarrow> 'a list \<Rightarrow> 'a list" where
  "insert_by lt x [] = [x]"
| "insert_by lt x (y # ys) = (if lt y x then y # insert_by lt x ys else x # y # ys)"

definition sort_slice :: "('a \<Rightarrow> 'a \<Rightarrow> bool) \<Rightarrow> 'a list \<Rightarrow> 'a list" where
  "sort_slice lt xs = foldr (insert_by lt) xs []"

section \<open>Pressure stages\<close>

type_synonym PressureStage = "8 word"

abbreviation StageNormal :: PressureStage where "StageNormal \<equiv> 0"
abbreviation StageRaiseObservation :: PressureStage where "StageRaiseObservation \<equiv> 1"
abbreviation StageStopAdmission :: PressureStage where "StageStopAdmission \<equiv> 2"
abbreviation StageExpireReservations :: PressureStage where "StageExpireReservations \<equiv> 3"
abbreviation StageShrinkWarmPools :: PressureStage where "StageShrinkWarmPools \<equiv> 4"
abbreviation StageQuiesceIdleTargets :: PressureStage where "StageQuiesceIdleTargets \<equiv> 5"
abbreviation StageRevokeTargetRuns :: PressureStage where "StageRevokeTargetRuns \<equiv> 6"
abbreviation StageRevokeAgentWorkspaces :: PressureStage where "StageRevokeAgentWorkspaces \<equiv> 7"
abbreviation StageQuarantineNode :: PressureStage where "StageQuarantineNode \<equiv> 8"

definition PressureStage_String :: "PressureStage \<Rightarrow> string" where
  "PressureStage_String s =
    (let names = [''normal'', ''raise_observation'', ''stop_admission'', ''expire_reservations'', ''shrink_warm_pools'',
       ''quiesce_idle_targets'', ''revoke_target_runs'', ''revoke_agent_workspaces'', ''quarantine_node''] in
     if unat s \<ge> length names then ''unknown'' else names ! unat s)"

datatype CandidateKind = CandidateTargetRun | CandidateAgentWorkspace | CandidateOther string

record RevocationCandidate =
  rc_LeaseKey :: string
  rc_ResourceKey :: string
  rc_Kind :: CandidateKind
  rc_Priority :: int64
  rc_Preemptible :: bool
  rc_Idle :: bool
  rc_StartedAt :: time

record PressureInput =
  pi_Stage :: PressureStage
  pi_Pressure :: Pressure
  pi_Thresholds :: PressureThresholds
  pi_UnusedReservations :: int64
  pi_WarmPoolTargets :: int64
  pi_Candidates :: "RevocationCandidate list"
  pi_ObservedAt :: time

record PressureDecision =
  pd_Stage :: PressureStage
  pd_Action :: string
  pd_ResourceKey :: string
  pd_Reason :: string
  pd_InputsDigest :: string
  pd_CreatesResourceEvictionIncident :: bool
  pd_StopsAdmission :: bool

definition candidate_less :: "RevocationCandidate \<Rightarrow> RevocationCandidate \<Rightarrow> bool" where
  "candidate_less a b =
    (if rc_Priority a \<noteq> rc_Priority b then sint (rc_Priority a) < sint (rc_Priority b)
     else if rc_StartedAt a \<noteq> rc_StartedAt b then rc_StartedAt a > rc_StartedAt b
     else rc_ResourceKey a < rc_ResourceKey b)"

definition eligible_candidates :: "RevocationCandidate list \<Rightarrow> CandidateKind \<Rightarrow> bool \<Rightarrow> RevocationCandidate list" where
  "eligible_candidates candidates kind idleOnly =
    filter (\<lambda>c. rc_Kind c = kind \<and> rc_Preemptible c \<and> (\<not> idleOnly \<or> rc_Idle c)) candidates"

definition selectCandidate :: "RevocationCandidate list \<Rightarrow> CandidateKind \<Rightarrow> bool \<Rightarrow> string" where
  "selectCandidate candidates kind idleOnly =
    (case sort_slice candidate_less (eligible_candidates candidates kind idleOnly) of
       [] \<Rightarrow> []
     | c # _ \<Rightarrow> rc_ResourceKey c)"

definition empty_decision :: PressureDecision where
  "empty_decision = \<lparr>pd_Stage = 0, pd_Action = [], pd_ResourceKey = [], pd_Reason = [], pd_InputsDigest = [],
     pd_CreatesResourceEvictionIncident = False, pd_StopsAdmission = False\<rparr>"

definition stage_action :: "PressureInput \<Rightarrow> PressureStage \<Rightarrow> PressureDecision \<Rightarrow> PressureDecision" where
  "stage_action input stage d =
    (if stage = StageRaiseObservation then d\<lparr>pd_Action := ''increase_metric_resolution''\<rparr>
     else if stage = StageStopAdmission then d\<lparr>pd_Action := ''stop_admission'', pd_StopsAdmission := True\<rparr>
     else if stage = StageExpireReservations then
       d\<lparr>pd_Action := ''expire_unused_reservations'',
         pd_Reason := pd_Reason d @ (if pi_UnusedReservations input = 0 then ''; no unused reservation is currently eligible'' else [])\<rparr>
     else if stage = StageShrinkWarmPools then
       d\<lparr>pd_Action := ''shrink_unleased_warm_pools'',
         pd_Reason := pd_Reason d @ (if pi_WarmPoolTargets input = 0 then ''; no warm target is currently eligible'' else [])\<rparr>
     else if stage = StageQuiesceIdleTargets then
       d\<lparr>pd_Action := ''quiesce_idle_preemptible_target'',
         pd_ResourceKey := selectCandidate (pi_Candidates input) CandidateTargetRun True\<rparr>
     else if stage = StageRevokeTargetRuns then
       (let key = selectCandidate (pi_Candidates input) CandidateTargetRun False in
        d\<lparr>pd_Action := ''revoke_preemptible_target_run'', pd_ResourceKey := key, pd_CreatesResourceEvictionIncident := key \<noteq> []\<rparr>)
     else if stage = StageRevokeAgentWorkspaces then
       (let key = selectCandidate (pi_Candidates input) CandidateAgentWorkspace False in
        d\<lparr>pd_Action := ''revoke_preemptible_agent_workspace'', pd_ResourceKey := key, pd_CreatesResourceEvictionIncident := key \<noteq> []\<rparr>)
     else if stage = StageQuarantineNode then d\<lparr>pd_Action := ''quarantine_node''\<rparr>
     else d)"

definition DecidePressure ::
  "(PressureInput \<Rightarrow> string + bytes) \<Rightarrow> (bytes \<Rightarrow> bytes) \<Rightarrow> PressureInput \<Rightarrow> PressureDecision \<times> adm_error option" where
  "DecidePressure json sha input =
    (case decisionDigest json sha input of
       Inl e \<Rightarrow> (empty_decision, Some e)
     | Inr digest \<Rightarrow>
        (let decision = empty_decision\<lparr>pd_InputsDigest := digest\<rparr> in
         case first_err [Pressure_Validate (pi_Pressure input), Thresholds_Validate (pi_Thresholds input)] of
           Some e \<Rightarrow> (decision, Some e)
         | None \<Rightarrow>
            (let reasons = unsafe (pi_Pressure input) (pi_Thresholds input) in
             if reasons = [] then
               (decision\<lparr>pd_Stage := StageNormal, pd_Action := ''resume_admission'',
                  pd_Reason := ''pressure is below configured thresholds''\<rparr>, None)
             else if pi_Stage input > StageQuarantineNode then (decision, Some (InvalidStage (pi_Stage input)))
             else
               let stage = (if pi_Stage input = StageNormal then StageRaiseObservation else pi_Stage input + 1) in
               (stage_action input stage (decision\<lparr>pd_Stage := stage, pd_Reason := ''verified pressure: '' @ joinReasons reasons\<rparr>), None))))"

section \<open>The lease queue\<close>

record QueuedLease =
  ql_LeaseKey :: string
  ql_Priority :: int64
  ql_EnqueuedAt :: time

text \<open>\<open>Time.Sub\<close> saturates at the bounds of a 64-bit duration.\<close>

definition time_Sub :: "time \<Rightarrow> time \<Rightarrow> duration" where
  "time_Sub t u = max (- (2 ^ 63)) (min (2 ^ 63 - 1) (t - u))"

definition queue_score :: "time \<Rightarrow> duration \<Rightarrow> QueuedLease \<Rightarrow> int64" where
  "queue_score now agingInterval item =
    (let age = time_Sub now (ql_EnqueuedAt item); age = (if age < 0 then 0 else age) in
     ql_Priority item + word_of_int (age div agingInterval))"

definition queue_less :: "time \<Rightarrow> duration \<Rightarrow> QueuedLease \<Rightarrow> QueuedLease \<Rightarrow> bool" where
  "queue_less now agingInterval a b =
    (let left = queue_score now agingInterval a; right = queue_score now agingInterval b in
     if left \<noteq> right then sint left > sint right
     else if ql_EnqueuedAt a \<noteq> ql_EnqueuedAt b then ql_EnqueuedAt a < ql_EnqueuedAt b
     else ql_LeaseKey a < ql_LeaseKey b)"

definition OrderQueue :: "QueuedLease list \<Rightarrow> time \<Rightarrow> duration \<Rightarrow> adm_error + QueuedLease list" where
  "OrderQueue items now agingInterval =
    (if agingInterval \<le> 0 then Inl AgingNotPositive else Inr (sort_slice (queue_less now agingInterval) items))"

section \<open>Sorting\<close>

lemma insert_by_mset [simp]: "mset (insert_by lt x xs) = add_mset x (mset xs)"
  by (induction xs) auto

lemma sort_slice_mset [simp]: "mset (sort_slice lt xs) = mset xs"
  by (induction xs) (auto simp: sort_slice_def)

lemma sort_slice_set [simp]: "set (sort_slice lt xs) = set xs"
  using sort_slice_mset by (rule mset_eq_setD)

text \<open>The order given by a Go comparison function: irreflexive, with transitive complement.\<close>

locale slice_order =
  fixes lt :: "'a \<Rightarrow> 'a \<Rightarrow> bool"
  assumes asym: "lt x y \<Longrightarrow> \<not> lt y x"
    and not_trans: "\<not> lt y x \<Longrightarrow> \<not> lt z y \<Longrightarrow> \<not> lt z x"
begin

lemma insert_sorted: "sorted_wrt (\<lambda>x y. \<not> lt y x) xs \<Longrightarrow> sorted_wrt (\<lambda>x y. \<not> lt y x) (insert_by lt x xs)"
proof (induction xs)
  case (Cons y ys)
  have set: "set (insert_by lt x ys) = insert x (set ys)"
    using set_mset_mset [of "insert_by lt x ys"] by (simp flip: set_mset_mset)
  show ?case
  proof (cases "lt y x")
    case True
    then show ?thesis
      using Cons asym set by auto
  next
    case False
    then show ?thesis
      using Cons.prems not_trans [OF False] by auto
  qed
qed simp

lemma slice_sorted: "sorted_wrt (\<lambda>x y. \<not> lt y x) (sort_slice lt xs)"
  by (induction xs) (auto simp: sort_slice_def insert_sorted)

text \<open>However equal elements are ordered, a sorted permutation begins with a least element.\<close>

lemma least_first:
  assumes "mset ys = mset xs" "sorted_wrt (\<lambda>x y. \<not> lt y x) ys" "ys = y # rest"
  shows "y \<in> set xs" "x \<in> set xs \<Longrightarrow> \<not> lt x y"
proof -
  have set: "set xs = insert y (set rest)"
    using mset_eq_setD [OF assms(1)] assms(3) by simp
  then show "y \<in> set xs"
    by simp
  show "\<not> lt x y" if "x \<in> set xs"
    using that set assms(2,3) asym [of y y] by auto
qed

end

lemma sint_eq [simp]: "sint (a :: int64) = sint b \<longleftrightarrow> a = b"
  by (auto intro: signed_word_eqI)

interpretation candidates: slice_order candidate_less
  by unfold_locales (auto simp: candidate_less_def not_less split: if_splits)

interpretation queue: slice_order "queue_less now agingInterval" for now agingInterval
  by unfold_locales (auto simp: queue_less_def Let_def not_less split: if_splits)

section \<open>Whom pressure hits\<close>

text \<open>The choice does not depend on how the sort orders candidates of equal rank.\<close>

lemma selectCandidate_least:
  assumes "mset ys = mset (eligible_candidates cs kind idle)" "sorted_wrt (\<lambda>x y. \<not> candidate_less y x) ys" "ys = y # rest"
  shows "selectCandidate cs kind idle = rc_ResourceKey y"
proof -
  let ?xs = "eligible_candidates cs kind idle"
  obtain z zs where z: "sort_slice candidate_less ?xs = z # zs"
    using assms(1,3) sort_slice_mset [of candidate_less ?xs] by (cases "sort_slice candidate_less ?xs") auto
  note least = candidates.least_first [OF sort_slice_mset candidates.slice_sorted z] candidates.least_first [OF assms]
  have "\<not> candidate_less y z" "\<not> candidate_less z y"
    using least by blast+
  then have "rc_ResourceKey y = rc_ResourceKey z"
    by (auto simp: candidate_less_def split: if_splits)
  then show ?thesis
    by (simp add: selectCandidate_def z)
qed

lemma selectCandidate_sound:
  assumes "selectCandidate cs kind idle \<noteq> []"
  shows "\<exists>c \<in> set cs. rc_ResourceKey c = selectCandidate cs kind idle \<and> rc_Kind c = kind \<and> rc_Preemptible c \<and> (idle \<longrightarrow> rc_Idle c) \<and>
    (\<forall>c' \<in> set cs. rc_Kind c' = kind \<and> rc_Preemptible c' \<and> (idle \<longrightarrow> rc_Idle c') \<longrightarrow> sint (rc_Priority c) \<le> sint (rc_Priority c'))"
proof -
  let ?xs = "eligible_candidates cs kind idle"
  obtain z zs where z: "sort_slice candidate_less ?xs = z # zs"
    using assms by (auto simp: selectCandidate_def split: list.splits)
  note least = candidates.least_first [OF sort_slice_mset candidates.slice_sorted z]
  have "sint (rc_Priority z) \<le> sint (rc_Priority c')" if "c' \<in> set ?xs" for c'
    using least(2) [OF that] by (auto simp: candidate_less_def not_less split: if_splits)
  moreover have "rc_ResourceKey z = selectCandidate cs kind idle"
    by (simp add: selectCandidate_def z)
  ultimately show ?thesis
    using least(1) by (intro bexI [of _ z]) (auto simp: eligible_candidates_def)
qed

text \<open>
  C36.
  Pressure only ever hits work that may be preempted.  A resource that a pressure decision names belongs to a
  candidate of the input that is preemptible and, unless the decision is a quiescing one, is
  revoked with an incident; it is a target run unless the stage is that of agent workspaces, it
  is idle when it is only quiesced, and no candidate that could be named instead has a lower priority.\<close>

theorem pressure_hits_preemptible:
  assumes "DecidePressure json sha input = (d, None)" "pd_ResourceKey d \<noteq> []"
  shows "\<exists>c \<in> set (pi_Candidates input). rc_ResourceKey c = pd_ResourceKey d \<and> rc_Preemptible c \<and>
    rc_Kind c = (if pd_Stage d = StageRevokeAgentWorkspaces then CandidateAgentWorkspace else CandidateTargetRun) \<and>
    (pd_CreatesResourceEvictionIncident d \<longleftrightarrow> pd_Stage d \<noteq> StageQuiesceIdleTargets) \<and>
    (pd_Stage d = StageQuiesceIdleTargets \<longrightarrow> rc_Idle c) \<and>
    (\<forall>c' \<in> set (pi_Candidates input). rc_Kind c' = rc_Kind c \<and> rc_Preemptible c' \<and> (pd_Stage d = StageQuiesceIdleTargets \<longrightarrow> rc_Idle c') \<longrightarrow>
      sint (rc_Priority c) \<le> sint (rc_Priority c'))"
proof -
  obtain stage d0 where d: "d = stage_action input stage d0" "pd_ResourceKey d0 = []" "pd_Stage d0 = stage"
      "\<not> pd_CreatesResourceEvictionIncident d0"
    using assms by (auto simp: DecidePressure_def Let_def empty_decision_def split: sum.splits option.splits if_splits)
  then consider "stage = StageQuiesceIdleTargets" | "stage = StageRevokeTargetRuns" | "stage = StageRevokeAgentWorkspaces"
    using assms(2) by (auto simp: stage_action_def split: if_splits)
  then show ?thesis
  proof cases
    case 1
    then show ?thesis
      using selectCandidate_sound [of "pi_Candidates input" CandidateTargetRun True] assms(2) d by (auto simp: stage_action_def)
  next
    case 2
    then show ?thesis
      using selectCandidate_sound [of "pi_Candidates input" CandidateTargetRun False] assms(2) d by (auto simp: stage_action_def Let_def)
  next
    case 3
    then show ?thesis
      using selectCandidate_sound [of "pi_Candidates input" CandidateAgentWorkspace False] assms(2) d by (auto simp: stage_action_def Let_def)
  qed
qed

section \<open>Stages are not skipped\<close>

text \<open>
  The protocol of the callers: each decision is taken at the stage the previous one reported, beginning
  at the normal stage.  The inputs seen so far are listed with the latest first.
\<close>

inductive pressed :: "(PressureInput \<Rightarrow> string + bytes) \<Rightarrow> (bytes \<Rightarrow> bytes) \<Rightarrow> PressureInput list \<Rightarrow> PressureStage \<Rightarrow> bool"
  for json sha where
  start: "pressed json sha [] StageNormal"
| decide: "pressed json sha inputs stage \<Longrightarrow> DecidePressure json sha (input\<lparr>pi_Stage := stage\<rparr>) = (d, None) \<Longrightarrow>
    pressed json sha (input # inputs) (pd_Stage d)"

lemma stage_action_stage [simp]: "pd_Stage (stage_action input stage d) = pd_Stage d"
  by (simp add: stage_action_def Let_def)

lemma decide_stage:
  assumes "DecidePressure json sha input = (d, None)"
  shows "if unsafe (pi_Pressure input) (pi_Thresholds input) = [] then pd_Stage d = StageNormal
    else unat (pi_Stage input) \<le> 8 \<and> pd_Stage d = pi_Stage input + 1 \<and> unat (pd_Stage d) = unat (pi_Stage input) + 1"
proof -
  have "unat (pi_Stage input + 1) = unat (pi_Stage input) + 1 \<and> unat (pi_Stage input) \<le> 8" if "\<not> pi_Stage input > StageQuarantineNode"
    using that by (simp add: word_less_nat_alt unat_word_ariths)
  then show ?thesis
    using assms by (auto simp: DecidePressure_def Let_def split: sum.splits option.splits if_splits)
qed

text \<open>
  C35.
  No stage is skipped.  When callers follow the protocol, a decision of stage \<open>k\<close> is only reached after \<open>k\<close>
  consecutive observations, each with a pressure signal at its threshold; in particular work is
  revoked only after six of them, and one safe observation starts over.\<close>

theorem no_stage_skipped:
  assumes "pressed json sha inputs stage"
  shows "unat stage \<le> length inputs \<and>
    (\<forall>input \<in> set (take (unat stage) inputs). unsafe (pi_Pressure input) (pi_Thresholds input) \<noteq> [])"
  using assms
proof induction
  case (decide inputs stage input d)
  then show ?case
    using decide_stage [OF decide.hyps(2)] by (auto split: if_splits)
qed simp

text \<open>
  C38.
  There is no stage after the quarantine.  When pressure persists at the last stage, the decision is reported
  as successful with a stage that has no name and with no action at all, and the one after it is an
  error, until the pressure ends.\<close>

theorem nothing_after_quarantine:
  assumes "json input = Inr encoded" "json (input\<lparr>pi_Stage := 9\<rparr>) = Inr encoded'" "pi_Stage input = StageQuarantineNode"
    and "Pressure_Validate (pi_Pressure input) = None" "Thresholds_Validate (pi_Thresholds input) = None"
    and "unsafe (pi_Pressure input) (pi_Thresholds input) \<noteq> []"
  shows "\<exists>d. DecidePressure json sha input = (d, None) \<and> pd_Stage d = 9 \<and> PressureStage_String (pd_Stage d) = ''unknown'' \<and>
    pd_Action d = [] \<and> snd (DecidePressure json sha (input\<lparr>pi_Stage := pd_Stage d\<rparr>)) = Some (InvalidStage 9)"
  using assms
  by (simp add: DecidePressure_def decisionDigest_def Let_def stage_action_def empty_decision_def PressureStage_String_def)

section \<open>The queue\<close>

lemma queue_score_exact:
  assumes "0 < i" "ql_EnqueuedAt q \<le> now" "now - ql_EnqueuedAt q < 2 ^ 63"
    "sint (ql_Priority q) + (now - ql_EnqueuedAt q) div i < 2 ^ 63"
  shows "sint (queue_score now i q) = sint (ql_Priority q) + (now - ql_EnqueuedAt q) div i"
proof -
  let ?n = "(now - ql_EnqueuedAt q) div i"
  have n: "0 \<le> ?n" "?n \<le> now - ql_EnqueuedAt q"
    using assms zdiv_mono2 [of "now - ql_EnqueuedAt q" 1 i] by (simp_all add: pos_imp_zdiv_nonneg_iff)
  have "sint (word_of_int ?n :: int64) = ?n"
    unfolding sint_sbintrunc' by (rule signed_take_bit_int_eq_self) (use n assms(3) in simp_all)
  moreover have "time_Sub now (ql_EnqueuedAt q) = now - ql_EnqueuedAt q"
    using assms(2,3) by (simp add: time_Sub_def)
  ultimately show ?thesis
    using assms n sint_ge [of "ql_Priority q"] by (simp add: queue_score_def sint_add)
qed

text \<open>
  C37.
  Waiting leases are not starved.  Ordering keeps every item of the queue, and an item that has waited
  longer than another by more aging intervals than the other's priority exceeds its own comes
  before it, whatever else is in the queue (priorities and ages within what 64 bits hold).\<close>

theorem queue_not_starved:
  assumes "0 < i" "OrderQueue items now i = Inr ys" "a \<in> set items" "ys = us @ b # vs"
    and "ql_EnqueuedAt a \<le> now" "now - ql_EnqueuedAt a < 2 ^ 63" "sint (ql_Priority a) + (now - ql_EnqueuedAt a) div i < 2 ^ 63"
    and "ql_EnqueuedAt b \<le> now" "now - ql_EnqueuedAt b < 2 ^ 63" "sint (ql_Priority b) + (now - ql_EnqueuedAt b) div i < 2 ^ 63"
    and "(sint (ql_Priority b) - sint (ql_Priority a) + 1) * i \<le> ql_EnqueuedAt b - ql_EnqueuedAt a"
  shows "mset ys = mset items \<and> a \<in> set us"
proof -
  let ?k = "sint (ql_Priority b) - sint (ql_Priority a) + 1"
  have ys: "ys = sort_slice (queue_less now i) items"
    using assms(1,2) by (simp add: OrderQueue_def)
  have "?k + (now - ql_EnqueuedAt b) div i = (?k * i + (now - ql_EnqueuedAt b)) div i"
    using assms(1) by simp
  also have "\<dots> \<le> (now - ql_EnqueuedAt a) div i"
    using assms(1,11) by (intro zdiv_mono1) simp_all
  finally have "sint (queue_score now i b) < sint (queue_score now i a)"
    using queue_score_exact [OF assms(1,5,6,7)] queue_score_exact [OF assms(1,8,9,10)] by linarith
  then have less: "queue_less now i a b"
    by (auto simp: queue_less_def Let_def)
  have "sorted_wrt (\<lambda>x y. \<not> queue_less now i y x) (us @ b # vs)"
    using queue.slice_sorted [of now i items] ys assms(4) by simp
  then have "a \<notin> set vs" "a \<noteq> b"
    using less queue.asym [OF less] by (auto simp: sorted_wrt_append)
  moreover have "a \<in> set ys"
    using assms(3) ys by simp
  ultimately show ?thesis
    using assms(4) sort_slice_mset [of "queue_less now i" items] ys by simp
qed

section \<open>Small instances\<close>

definition demo_psi :: "float64 \<Rightarrow> PSI" where
  "demo_psi x = \<lparr>psi_Current = x, psi_Trend = f_of_int 0\<rparr>"

definition demo_pressure :: "float64 \<Rightarrow> Pressure" where
  "demo_pressure x = \<lparr>MemoryFull = demo_psi x, IOFull = demo_psi (f_of_int 0), CPUFull = demo_psi (f_of_int 0),
     FreeDiskPercent = f_of_int 50, FreeInodesPercent = f_of_int 50\<rparr>"

definition demo_thresholds :: PressureThresholds where
  "demo_thresholds = \<lparr>MemoryPSIFull = FFinite 1 (- 1), IOPSIFull = FFinite 1 (- 1), CPUPSIFull = f_of_int 0,
     MinimumFreeDiskPercent = f_of_int 10, MinimumFreeInodesPercent = f_of_int 10\<rparr>"

lemma demo_valid_pressure: "Pressure_Validate (demo_pressure (f_of_int 1)) = None" "Pressure_Validate (demo_pressure (FFinite 1 (- 2))) = None"
  "Thresholds_Validate demo_thresholds = None"
  by code_simp+

lemma demo_unsafe: "unsafe (demo_pressure (f_of_int 1)) demo_thresholds = [''memory PSI'']" "unsafe (demo_pressure (FFinite 1 (- 2))) demo_thresholds = []"
  by code_simp+

definition demo_vector :: "int64 \<Rightarrow> Resources" where
  "demo_vector n = \<lparr>CPUMilli = n, MemoryBytes = n, SwapBytes = n, StorageBytes = n, CaptureBytes = n, Inodes = n, PIDs = n,
     Devices = [(''gpu'', n)]\<rparr>"

lemma demo_vector_sound: "0 \<le> sint n \<Longrightarrow> sound_vector (demo_vector n)"
  by (simp add: sound_vector_def Resources_Validate_def scalars_def demo_vector_def)

lemma demo_amount: "amount (demo_vector n) d = (if d \<in> range Device - {Device ''gpu''} then 0 else sint n)"
  by (cases d) (auto simp: demo_vector_def)

theorem resource_addition_exact_witness:
  "case Resources_Add (demo_vector 1) (demo_vector 2) of Inr t \<Rightarrow> amount t (Device ''gpu'') = 3 | Inl e \<Rightarrow> False"
  using resource_addition_exact [OF demo_vector_sound demo_vector_sound, of 1 2]
  by (auto simp: demo_amount split: sum.splits if_splits)

definition lease_request :: LeaseRequest where
  "lease_request = \<lparr>rq_LeaseKey = ''lease'', rq_Requests = demo_vector 2, rq_Limits = demo_vector 4, rq_ObserverCost = demo_vector 1,
     rq_SnapshotCost = demo_vector 1, rq_Priority = 0, rq_Preemptible = True, rq_TTL = 1\<rparr>"

definition demo_capacity :: CapacitySnapshot where
  "demo_capacity = \<lparr>cs_Allocatable = demo_vector 10, cs_Reserved = demo_vector 1, cs_WarmPoolCost = demo_vector 1,
     cs_ControlReserve = demo_vector 1, cs_Pressure = demo_pressure (FFinite 1 (- 2)), cs_ObservedAt = 1\<rparr>"

theorem admission_exact_witness:
  "ad_Admitted (fst (Evaluate (\<lambda>_. Inr []) id lease_request demo_capacity demo_thresholds 1)) \<and>
   amount (ad_AvailableAfter (fst (Evaluate (\<lambda>_. Inr []) id lease_request demo_capacity demo_thresholds 1))) (Device ''gpu'') = 3"
proof -
  obtain decision err where run: "Evaluate (\<lambda>_. Inr []) id lease_request demo_capacity demo_thresholds 1 = (decision, err)"
    by fastforce
  have resources: "\<forall>r \<in> set (all_resources lease_request demo_capacity). distinct (map fst (Devices r)) \<and> Resources_Validate r = None"
    by (simp add: all_resources_def lease_request_def demo_capacity_def demo_vector_def Resources_Validate_def scalars_def)
  have amounts: "committed demo_capacity d + demanded lease_request d \<le> amount (cs_Allocatable demo_capacity) d"
      "amount (rq_Requests lease_request) d \<le> amount (rq_Limits lease_request) d" for d
    by (simp_all add: committed_def demanded_def lease_request_def demo_capacity_def demo_amount)
  have "0 < amount (rq_Requests lease_request) CPU" "rq_LeaseKey lease_request \<noteq> []" "0 < rq_TTL lease_request"
      "cs_Pressure demo_capacity = demo_pressure (FFinite 1 (- 2))"
    by (auto simp: lease_request_def demo_capacity_def demo_vector_def)
  then have "ad_Admitted decision" "amount (ad_AvailableAfter decision) (Device ''gpu'') =
      amount (cs_Allocatable demo_capacity) (Device ''gpu'') - committed demo_capacity (Device ''gpu'') - demanded lease_request (Device ''gpu'')"
    using admission_exact [OF refl _ run] resources demo_unsafe(2) demo_valid_pressure(2,3) amounts by metis+
  then show ?thesis
    unfolding run by (simp add: committed_def demanded_def lease_request_def demo_capacity_def demo_amount del: amount.simps)
qed

definition demo_candidate :: RevocationCandidate where
  "demo_candidate = \<lparr>rc_LeaseKey = ''lease'', rc_ResourceKey = ''run'', rc_Kind = CandidateTargetRun, rc_Priority = 1,
     rc_Preemptible = True, rc_Idle = False, rc_StartedAt = 1\<rparr>"

definition demo_input :: "PressureStage \<Rightarrow> PressureInput" where
  "demo_input stage = \<lparr>pi_Stage = stage, pi_Pressure = demo_pressure (f_of_int 1), pi_Thresholds = demo_thresholds,
     pi_UnusedReservations = 0, pi_WarmPoolTargets = 0, pi_Candidates = [demo_candidate], pi_ObservedAt = 1\<rparr>"

theorem pressure_hits_preemptible_witness:
  "\<exists>d c. DecidePressure (\<lambda>_. Inr []) id (demo_input 5) = (d, None) \<and> c \<in> set (pi_Candidates (demo_input 5)) \<and>
    rc_ResourceKey c = pd_ResourceKey d \<and> rc_Preemptible c"
proof -
  obtain d where d: "DecidePressure (\<lambda>_. Inr []) id (demo_input 5) = (d, None)" "pd_ResourceKey d = ''run''"
    by (simp add: DecidePressure_def decisionDigest_def Let_def demo_input_def demo_unsafe demo_valid_pressure stage_action_def
        selectCandidate_def eligible_candidates_def demo_candidate_def sort_slice_def)
  then show ?thesis
    using pressure_hits_preemptible [OF d(1)] by (metis list.distinct(1))
qed

theorem no_stage_skipped_witness:
  "pressed (\<lambda>_. Inr []) id [demo_input 0] 1 \<and> unsafe (pi_Pressure (demo_input 0)) (pi_Thresholds (demo_input 0)) \<noteq> []"
proof -
  have "demo_input 0\<lparr>pi_Stage := StageNormal\<rparr> = demo_input 0"
    by (simp add: demo_input_def)
  then obtain d where "DecidePressure (\<lambda>_. Inr []) id (demo_input 0\<lparr>pi_Stage := StageNormal\<rparr>) = (d, None)" "pd_Stage d = 1"
    by (simp add: DecidePressure_def decisionDigest_def Let_def demo_input_def demo_unsafe demo_valid_pressure)
  then have "pressed (\<lambda>_. Inr []) id [demo_input 0] 1"
    using pressed.decide [OF pressed.start] by metis
  then show ?thesis
    using no_stage_skipped [of "\<lambda>_. Inr []" id "[demo_input 0]" 1] by simp
qed

theorem nothing_after_quarantine_witness:
  "\<exists>d. DecidePressure (\<lambda>_. Inr []) id (demo_input 8) = (d, None) \<and> pd_Stage d = 9 \<and> pd_Action d = []"
  using nothing_after_quarantine [of "\<lambda>_. Inr []" "demo_input 8" "[]" "[]" id] demo_unsafe demo_valid_pressure
  by (auto simp: demo_input_def)

theorem queue_not_starved_witness:
  "mset [\<lparr>ql_LeaseKey = ''a'', ql_Priority = 1, ql_EnqueuedAt = 0\<rparr>, \<lparr>ql_LeaseKey = ''b'', ql_Priority = 3, ql_EnqueuedAt = 30\<rparr>] =
   mset [\<lparr>ql_LeaseKey = ''b'', ql_Priority = 3, ql_EnqueuedAt = 30\<rparr>, \<lparr>ql_LeaseKey = ''a'', ql_Priority = 1, ql_EnqueuedAt = 0\<rparr>] \<and>
   OrderQueue [\<lparr>ql_LeaseKey = ''b'', ql_Priority = 3, ql_EnqueuedAt = 30\<rparr>, \<lparr>ql_LeaseKey = ''a'', ql_Priority = 1, ql_EnqueuedAt = 0\<rparr>] 30 10 =
     Inr [\<lparr>ql_LeaseKey = ''a'', ql_Priority = 1, ql_EnqueuedAt = 0\<rparr>, \<lparr>ql_LeaseKey = ''b'', ql_Priority = 3, ql_EnqueuedAt = 30\<rparr>]"
proof -
  let ?a = "\<lparr>ql_LeaseKey = ''a'', ql_Priority = 1, ql_EnqueuedAt = 0\<rparr>" and ?b = "\<lparr>ql_LeaseKey = ''b'', ql_Priority = 3, ql_EnqueuedAt = 30\<rparr>"
  have run: "OrderQueue [?b, ?a] 30 10 = Inr [?a, ?b]"
    by (simp add: OrderQueue_def sort_slice_def queue_less_def queue_score_def time_Sub_def Let_def)
  then show ?thesis
    using queue_not_starved [OF _ run, of ?a "[?a]" ?b "[]"] by simp
qed

end
