(* ===== verification/Observation.thy ===== *)
theory Observation
  imports Domain_Evidence Ledger_Codec
begin

text \<open>
  The live snapshot of \<open>src/internal/observation\<close>: the reducer that folds observation events into the current
  topology of subjects with their metrics, coverage, incidents and pressure, and the projection of a
  snapshot to what a caller is authorized to see.  A Go map is an association list; copies made for
  aliasing only are not visible in values.
\<close>

section \<open>Types\<close>

datatype obs_error = ErrCursorOrder | ErrInvalidEvent string | ErrUnknownSubject string | ErrSubjectCycle

datatype EventKind =
    EventCheckpoint | EventSubjectUpsert | EventSubjectRemove | EventMetricSet | EventCoverageSet
  | EventIncidentSet | EventIncidentRemove | EventPressureSet | EventPressureRemove | EventOther uint8

datatype MetricStateKind = MetricPresent | MetricMissing | MetricUnsupported | MetricStale | MetricGap | MetricStateOther uint8

record MetricState =
  ms_Kind :: MetricStateKind
  ms_Value :: "float64 option"
  ms_LastValue :: "float64 option"
  ms_CollectedAt :: time
  ms_SampleAge :: duration
  ms_Gap :: "LedgerGap option"
  ms_Detail :: string
  ms_UpdatedCursor :: Cursor

definition empty_metric :: "MetricStateKind \<Rightarrow> MetricState" where
  "empty_metric kind = \<lparr>ms_Kind = kind, ms_Value = None, ms_LastValue = None, ms_CollectedAt = zero_time, ms_SampleAge = 0, ms_Gap = None,
     ms_Detail = [], ms_UpdatedCursor = 0\<rparr>"

definition Present :: "float64 \<Rightarrow> time \<Rightarrow> MetricState" where
  "Present value collectedAt = (empty_metric MetricPresent)\<lparr>ms_Value := Some value, ms_CollectedAt := collectedAt\<rparr>"

definition Missing :: "string \<Rightarrow> MetricState" where
  "Missing detail = (empty_metric MetricMissing)\<lparr>ms_Detail := detail\<rparr>"

definition Unsupported :: "string \<Rightarrow> MetricState" where
  "Unsupported detail = (empty_metric MetricUnsupported)\<lparr>ms_Detail := detail\<rparr>"

definition Stale :: "float64 option \<Rightarrow> duration \<Rightarrow> string \<Rightarrow> MetricState" where
  "Stale lastValue age detail = (empty_metric MetricStale)\<lparr>ms_LastValue := lastValue, ms_SampleAge := age, ms_Detail := detail\<rparr>"

definition GapState :: "LedgerGap \<Rightarrow> string \<Rightarrow> MetricState" where
  "GapState gap detail = (empty_metric MetricGap)\<lparr>ms_Gap := Some gap, ms_Detail := detail\<rparr>"

definition finite_float :: "float64 \<Rightarrow> bool" where
  "finite_float x \<longleftrightarrow> x \<noteq> FNaN \<and> x \<noteq> FPosInf \<and> x \<noteq> FNegInf"

definition MetricState_validate :: "MetricState \<Rightarrow> obs_error option" where
  "MetricState_validate state =
    (case ms_Kind state of
       MetricPresent \<Rightarrow>
         fail_if ((case ms_Value state of None \<Rightarrow> True | Some x \<Rightarrow> \<not> finite_float x) \<or> ms_LastValue state \<noteq> None \<or> ms_Gap state \<noteq> None)
           (ErrInvalidEvent ''present metric requires one finite value'')
     | MetricMissing \<Rightarrow>
         fail_if (ms_Value state \<noteq> None \<or> ms_LastValue state \<noteq> None \<or> ms_Gap state \<noteq> None)
           (ErrInvalidEvent ''unavailable metric cannot carry a value or gap'')
     | MetricUnsupported \<Rightarrow>
         fail_if (ms_Value state \<noteq> None \<or> ms_LastValue state \<noteq> None \<or> ms_Gap state \<noteq> None)
           (ErrInvalidEvent ''unavailable metric cannot carry a value or gap'')
     | MetricStale \<Rightarrow>
         fail_if (ms_Value state \<noteq> None \<or> ms_Gap state \<noteq> None \<or> ms_SampleAge state < 0 \<or>
             (case ms_LastValue state of None \<Rightarrow> False | Some x \<Rightarrow> \<not> finite_float x))
           (ErrInvalidEvent ''invalid stale metric'')
     | MetricGap \<Rightarrow>
         fail_if (ms_Value state \<noteq> None \<or> ms_LastValue state \<noteq> None \<or> ms_Gap state = None)
           (ErrInvalidEvent ''gap metric requires gap metadata and no value'')
     | MetricStateOther k \<Rightarrow> Some (ErrInvalidEvent ''metric state''))"

record Subject =
  sub_ID :: SubjectID
  sub_ParentID :: SubjectID
  sub_LeaseID :: LeaseID
  sub_Kind :: SubjectKind
  sub_SignalFamily :: string
  sub_Labels :: "string table"

record MetricKey =
  mk_SubjectID :: SubjectID
  mk_Name :: string

record MetricView =
  mv_LeaseID :: LeaseID
  mv_SignalFamily :: string
  mv_SubjectID :: SubjectID
  mv_Name :: string
  mv_State :: MetricState

record CoverageKey =
  ck_CollectorID :: CollectorID
  ck_SubjectID :: SubjectID
  ck_SignalFamily :: string

record CoverageView =
  cv_LeaseID :: LeaseID
  cv_CollectorID :: CollectorID
  cv_SubjectID :: SubjectID
  cv_SignalFamily :: string
  cv_Placement :: CollectorPlacement
  cv_Level :: CoverageLevel
  cv_Status :: CoverageStatus
  cv_Required :: bool
  cv_Dropped :: uint64
  cv_Gap :: "LedgerGap option"
  cv_UpdatedCursor :: Cursor

record IncidentView =
  iv_ID :: IncidentID
  iv_LeaseID :: LeaseID
  iv_SubjectID :: SubjectID
  iv_SignalFamily :: string
  iv_State :: IncidentState
  iv_Summary :: string
  iv_UpdatedCursor :: Cursor

datatype PressureLevel = PressureNormal | PressureObserved | PressureAdmissionStopped | PressureShedding | PressureCritical | PressureLevelOther uint8

record PressureKey =
  pk_SubjectID :: SubjectID
  pk_Resource :: string

record PressureView =
  pv_LeaseID :: LeaseID
  pv_SubjectID :: SubjectID
  pv_SignalFamily :: string
  pv_Resource :: string
  pv_Level :: PressureLevel
  pv_Value :: float64
  pv_Detail :: string
  pv_UpdatedCursor :: Cursor

record Event =
  ev_Cursor :: Cursor
  ev_Kind :: EventKind
  ev_LeaseID :: LeaseID
  ev_SignalFamily :: string
  ev_SubjectID :: SubjectID
  ev_Subject :: "Subject option"
  ev_MetricName :: string
  ev_Metric :: "MetricState option"
  ev_Coverage :: "CoverageView option"
  ev_Incident :: "IncidentView option"
  ev_Pressure :: "PressureView option"

type_synonym subjects = "(SubjectID \<times> Subject) list"

record LiveSnapshot =
  ls_Cursor :: Cursor
  ls_Subjects :: subjects
  ls_Metrics :: "(MetricKey \<times> MetricView) list"
  ls_Coverage :: "(CoverageKey \<times> CoverageView) list"
  ls_Incidents :: "(IncidentID \<times> IncidentView) list"
  ls_Pressure :: "(PressureKey \<times> PressureView) list"

definition newSnapshot :: LiveSnapshot where
  "newSnapshot = \<lparr>ls_Cursor = 0, ls_Subjects = [], ls_Metrics = [], ls_Coverage = [], ls_Incidents = [], ls_Pressure = []\<rparr>"

section \<open>Validation\<close>

definition requireSubject :: "SubjectID \<Rightarrow> LeaseID \<Rightarrow> LiveSnapshot \<Rightarrow> obs_error option" where
  "requireSubject i lease snap =
    (if ID_IsZero i then Some (ErrUnknownSubject ''zero subject ID'')
     else case map_of (ls_Subjects snap) i of
       None \<Rightarrow> Some (ErrUnknownSubject [])
     | Some subject \<Rightarrow> fail_if (sub_LeaseID subject \<noteq> lease) (ErrInvalidEvent ''subject belongs to another lease''))"

text \<open>
  The walk from the new parent to the root: whether it meets the subject.  On a cyclic topology it would
  never return, which is the value \<^const>\<open>None\<close>.
\<close>

partial_function (option) climb :: "subjects \<Rightarrow> SubjectID \<Rightarrow> SubjectID \<Rightarrow> bool option" where
  [code]: "climb subs target current =
    (if ID_IsZero current then Some False
     else if current = target then Some True
     else case map_of subs current of
       None \<Rightarrow> Some False
     | Some node \<Rightarrow> climb subs target (sub_ParentID node))"

definition validateSubjectUpsert :: "Event \<Rightarrow> LiveSnapshot \<Rightarrow> obs_error option option" where
  "validateSubjectUpsert event snap =
    (case ev_Subject event of
       None \<Rightarrow> Some (Some (ErrInvalidEvent ''subject is required''))
     | Some subject \<Rightarrow>
        (case first_err
            [fail_if (ID_IsZero (sub_ID subject) \<or> sub_LeaseID subject \<noteq> ev_LeaseID event \<or> sub_SignalFamily subject \<noteq> ev_SignalFamily event)
               (ErrInvalidEvent ''subject identity/envelope mismatch''),
             fail_if (\<not> SubjectKind_IsValid (sub_Kind subject)) (ErrInvalidEvent ''invalid subject kind''),
             fail_if (\<exists>(key, v) \<in> set (sub_Labels subject). TrimSpace key = []) (ErrInvalidEvent ''subject label key is blank''),
             fail_if (case map_of (ls_Subjects snap) (sub_ID subject) of
                 None \<Rightarrow> False | Some existing \<Rightarrow> sub_LeaseID existing \<noteq> sub_LeaseID subject) (ErrInvalidEvent ''subject lease cannot change'')] of
           Some e \<Rightarrow> Some (Some e)
         | None \<Rightarrow>
            if ID_IsZero (sub_ParentID subject) then Some None
            else (case map_of (ls_Subjects snap) (sub_ParentID subject) of
               None \<Rightarrow> Some (Some (ErrUnknownSubject ''parent''))
             | Some parent \<Rightarrow>
                if sub_LeaseID parent \<noteq> sub_LeaseID subject then Some (Some (ErrInvalidEvent ''parent belongs to another lease''))
                else map_option (\<lambda>cycle. fail_if cycle ErrSubjectCycle) (climb (ls_Subjects snap) (sub_ID subject) (sub_ParentID subject)))))"

definition validateCoverage :: "Event \<Rightarrow> LiveSnapshot \<Rightarrow> obs_error option" where
  "validateCoverage event snap =
    (case ev_Coverage event of
       None \<Rightarrow> Some (ErrInvalidEvent ''collector coverage is required'')
     | Some coverage \<Rightarrow> first_err
        [fail_if (ID_IsZero (cv_CollectorID coverage)) (ErrInvalidEvent ''collector coverage is required''),
         fail_if (cv_LeaseID coverage \<noteq> ev_LeaseID event \<or> cv_SignalFamily coverage \<noteq> ev_SignalFamily event \<or> cv_SubjectID coverage \<noteq> ev_SubjectID event)
           (ErrInvalidEvent ''coverage/envelope mismatch''),
         fail_if (\<not> CollectorPlacement_IsValid (cv_Placement coverage) \<or> \<not> CoverageLevel_IsValid (cv_Level coverage) \<or> \<not> CoverageStatus_IsValid (cv_Status coverage))
           (ErrInvalidEvent ''invalid coverage placement, level, or status''),
         (if \<not> ID_IsZero (cv_SubjectID coverage) then requireSubject (cv_SubjectID coverage) (cv_LeaseID coverage) snap else None),
         fail_if (cv_Status coverage = CoverageUnsupported \<and> cv_Level coverage \<noteq> CoverageLevelNone)
           (ErrInvalidEvent ''unsupported coverage must have level none''),
         fail_if (cv_Level coverage = CoverageLevelComplete \<and> (cv_Dropped coverage > 0 \<or> cv_Gap coverage \<noteq> None \<or> cv_Status coverage \<noteq> CoverageAvailable))
           (ErrInvalidEvent ''complete coverage cannot contain loss'')])"

definition validateIncident :: "Event \<Rightarrow> LiveSnapshot \<Rightarrow> obs_error option" where
  "validateIncident event snap =
    (case ev_Incident event of
       None \<Rightarrow> Some (ErrInvalidEvent ''incident is required'')
     | Some incident \<Rightarrow> first_err
        [fail_if (ID_IsZero (iv_ID incident)) (ErrInvalidEvent ''incident is required''),
         fail_if (iv_LeaseID incident \<noteq> ev_LeaseID event \<or> iv_SignalFamily incident \<noteq> ev_SignalFamily event \<or> iv_SubjectID incident \<noteq> ev_SubjectID event)
           (ErrInvalidEvent ''incident/envelope mismatch''),
         fail_if (ev_Kind event = EventIncidentSet \<and> \<not> IncidentState_IsValid (iv_State incident)) (ErrInvalidEvent ''invalid incident state''),
         (if \<not> ID_IsZero (iv_SubjectID incident) then requireSubject (iv_SubjectID incident) (iv_LeaseID incident) snap else None)])"

definition validatePressure :: "Event \<Rightarrow> LiveSnapshot \<Rightarrow> obs_error option" where
  "validatePressure event snap =
    (case ev_Pressure event of
       None \<Rightarrow> Some (ErrInvalidEvent ''pressure resource is required'')
     | Some pressure \<Rightarrow> first_err
        [fail_if (TrimSpace (pv_Resource pressure) = []) (ErrInvalidEvent ''pressure resource is required''),
         fail_if (pv_LeaseID pressure \<noteq> ev_LeaseID event \<or> pv_SignalFamily pressure \<noteq> ev_SignalFamily event \<or> pv_SubjectID pressure \<noteq> ev_SubjectID event)
           (ErrInvalidEvent ''pressure/envelope mismatch''),
         (if ev_Kind event = EventPressureSet then
            fail_if ((case pv_Level pressure of PressureLevelOther _ \<Rightarrow> True | _ \<Rightarrow> False) \<or> \<not> finite_float (pv_Value pressure))
              (ErrInvalidEvent ''invalid pressure state'')
          else None),
         (if \<not> ID_IsZero (pv_SubjectID pressure) then requireSubject (pv_SubjectID pressure) (pv_LeaseID pressure) snap else None)])"

definition validateEvent :: "Event \<Rightarrow> LiveSnapshot \<Rightarrow> obs_error option option" where
  "validateEvent event snap =
    (case ev_Kind event of
       EventOther k \<Rightarrow> Some (Some (ErrInvalidEvent ''kind''))
     | EventCheckpoint \<Rightarrow> Some None
     | kind \<Rightarrow>
        (case first_err
            [fail_if (ID_IsZero (ev_LeaseID event)) (ErrInvalidEvent ''lease ID is required''),
             fail_if (TrimSpace (ev_SignalFamily event) = []) (ErrInvalidEvent ''signal family is required'')] of
           Some e \<Rightarrow> Some (Some e)
         | None \<Rightarrow>
            (case kind of
               EventSubjectUpsert \<Rightarrow> validateSubjectUpsert event snap
             | EventSubjectRemove \<Rightarrow> Some (requireSubject (ev_SubjectID event) (ev_LeaseID event) snap)
             | EventMetricSet \<Rightarrow> Some (first_err
                 [requireSubject (ev_SubjectID event) (ev_LeaseID event) snap,
                  fail_if (TrimSpace (ev_MetricName event) = [] \<or> ev_Metric event = None) (ErrInvalidEvent ''metric name and state are required''),
                  (case ev_Metric event of None \<Rightarrow> None | Some metric \<Rightarrow> MetricState_validate metric)])
             | EventCoverageSet \<Rightarrow> Some (validateCoverage event snap)
             | EventIncidentSet \<Rightarrow> Some (validateIncident event snap)
             | EventIncidentRemove \<Rightarrow> Some (validateIncident event snap)
             | EventPressureSet \<Rightarrow> Some (validatePressure event snap)
             | EventPressureRemove \<Rightarrow> Some (validatePressure event snap)
             | _ \<Rightarrow> Some (Some (ErrInvalidEvent ''unsupported event kind'')))))"

section \<open>Removing a subtree\<close>

text \<open>One pass over the subjects, in place: subjects whose parent is already marked are marked.\<close>

definition mark_pass :: "subjects \<Rightarrow> SubjectID list \<Rightarrow> SubjectID list" where
  "mark_pass subs removed =
    fold (\<lambda>(i, subject) removed. if sub_ParentID subject \<in> set removed \<and> i \<notin> set removed then i # removed else removed) subs removed"

lemma mark_pass_grows:
  "set removed \<subseteq> set (mark_pass subs removed) \<and> set (mark_pass subs removed) \<subseteq> set removed \<union> fst ` set subs \<and>
    length removed \<le> length (mark_pass subs removed) \<and>
    (if length (mark_pass subs removed) = length removed then mark_pass subs removed = removed
     else \<not> set (mark_pass subs removed) \<subseteq> set removed) \<and>
    (distinct removed \<longrightarrow> distinct (mark_pass subs removed))"
proof (induction subs arbitrary: removed)
  case (Cons x subs)
  obtain i s where x: "x = (i, s)"
    by (cases x)
  show ?case
  proof (cases "sub_ParentID s \<in> set removed \<and> i \<notin> set removed")
    case True
    then have "mark_pass (x # subs) removed = mark_pass subs (i # removed)"
      by (simp add: mark_pass_def x)
    then show ?thesis
      using Cons.IH [of "i # removed"] True x by (auto split: if_splits)
  next
    case False
    then have "mark_pass (x # subs) removed = mark_pass subs removed"
      by (auto simp: mark_pass_def x)
    then show ?thesis
      using Cons.IH [of removed] x by (auto split: if_splits)
  qed
qed (simp add: mark_pass_def)

function mark :: "subjects \<Rightarrow> SubjectID list \<Rightarrow> SubjectID list" where
  "mark subs removed =
    (let removed' = mark_pass subs removed in if length removed' = length removed then removed else mark subs removed')"
  by pat_completeness auto

termination
proof (relation "measure (\<lambda>(subs, removed). card (fst ` set subs - set removed))")
  fix subs removed and removed' :: "SubjectID list"
  assume "removed' = mark_pass subs removed" "length removed' \<noteq> length removed"
  then show "((subs, removed'), (subs, removed)) \<in> measure (\<lambda>(subs, removed). card (fst ` set subs - set removed))"
    using mark_pass_grows [of removed subs] by (auto split: if_splits intro!: psubset_card_mono)
qed simp

definition removeSubjectTree :: "SubjectID \<Rightarrow> LiveSnapshot \<Rightarrow> LiveSnapshot" where
  "removeSubjectTree root snap =
    (let removed = mark (ls_Subjects snap) [root] in
     snap\<lparr>ls_Subjects := filter (\<lambda>(i, _). i \<notin> set removed) (ls_Subjects snap),
       ls_Metrics := filter (\<lambda>(key, _). mk_SubjectID key \<notin> set removed) (ls_Metrics snap),
       ls_Coverage := filter (\<lambda>(key, _). ck_SubjectID key \<notin> set removed) (ls_Coverage snap),
       ls_Pressure := filter (\<lambda>(key, _). pk_SubjectID key \<notin> set removed) (ls_Pressure snap)\<rparr>)"

section \<open>The reducer\<close>

text \<open>
  A valid event carries the part its kind needs; the other cases of the selection below would be a nil
  dereference and do not occur after validation.
\<close>

definition apply_event :: "Event \<Rightarrow> LiveSnapshot \<Rightarrow> LiveSnapshot" where
  "apply_event event snap =
    (case ev_Kind event of
       EventSubjectUpsert \<Rightarrow>
         (let subject = the (ev_Subject event) in snap\<lparr>ls_Subjects := AList.update (sub_ID subject) subject (ls_Subjects snap)\<rparr>)
     | EventSubjectRemove \<Rightarrow> removeSubjectTree (ev_SubjectID event) snap
     | EventMetricSet \<Rightarrow>
         snap\<lparr>ls_Metrics := AList.update \<lparr>mk_SubjectID = ev_SubjectID event, mk_Name = ev_MetricName event\<rparr>
           \<lparr>mv_LeaseID = ev_LeaseID event, mv_SignalFamily = ev_SignalFamily event, mv_SubjectID = ev_SubjectID event,
            mv_Name = ev_MetricName event, mv_State = (the (ev_Metric event))\<lparr>ms_UpdatedCursor := ev_Cursor event\<rparr>\<rparr> (ls_Metrics snap)\<rparr>
     | EventCoverageSet \<Rightarrow>
         (let coverage = (the (ev_Coverage event))\<lparr>cv_UpdatedCursor := ev_Cursor event\<rparr> in
          snap\<lparr>ls_Coverage := AList.update \<lparr>ck_CollectorID = cv_CollectorID coverage, ck_SubjectID = cv_SubjectID coverage,
            ck_SignalFamily = cv_SignalFamily coverage\<rparr> coverage (ls_Coverage snap)\<rparr>)
     | EventIncidentSet \<Rightarrow>
         (let incident = (the (ev_Incident event))\<lparr>iv_UpdatedCursor := ev_Cursor event\<rparr> in
          snap\<lparr>ls_Incidents := AList.update (iv_ID incident) incident (ls_Incidents snap)\<rparr>)
     | EventIncidentRemove \<Rightarrow> snap\<lparr>ls_Incidents := AList.delete (iv_ID (the (ev_Incident event))) (ls_Incidents snap)\<rparr>
     | EventPressureSet \<Rightarrow>
         (let pressure = (the (ev_Pressure event))\<lparr>pv_UpdatedCursor := ev_Cursor event\<rparr> in
          snap\<lparr>ls_Pressure := AList.update \<lparr>pk_SubjectID = pv_SubjectID pressure, pk_Resource = pv_Resource pressure\<rparr> pressure (ls_Pressure snap)\<rparr>)
     | EventPressureRemove \<Rightarrow>
         (let pressure = the (ev_Pressure event) in
          snap\<lparr>ls_Pressure := AList.delete \<lparr>pk_SubjectID = pv_SubjectID pressure, pk_Resource = pv_Resource pressure\<rparr> (ls_Pressure snap)\<rparr>)
     | _ \<Rightarrow> snap)"

definition Reducer_Apply :: "Event \<Rightarrow> LiveSnapshot \<Rightarrow> (obs_error + LiveSnapshot) option" where
  "Reducer_Apply event snap =
    (if ev_Cursor event = 0 \<or> ev_Cursor event \<le> ls_Cursor snap then Some (Inl ErrCursorOrder)
     else case validateEvent event snap of
       None \<Rightarrow> None
     | Some (Some e) \<Rightarrow> Some (Inl e)
     | Some None \<Rightarrow> Some (Inr ((apply_event event snap)\<lparr>ls_Cursor := ev_Cursor event\<rparr>)))"

fun reduce_from :: "LiveSnapshot \<Rightarrow> Event list \<Rightarrow> (obs_error + LiveSnapshot) option" where
  "reduce_from snap [] = Some (Inr snap)"
| "reduce_from snap (event # events) =
    (case Reducer_Apply event snap of
       None \<Rightarrow> None
     | Some (Inl e) \<Rightarrow> Some (Inl e)
     | Some (Inr snap') \<Rightarrow> reduce_from snap' events)"

definition Reduce :: "Event list \<Rightarrow> (obs_error + LiveSnapshot) option" where
  "Reduce events = reduce_from newSnapshot events"

section \<open>Authorization\<close>

record Authorization =
  au_leases :: "LeaseID list"
  au_signalFamilies :: "string list"

definition NewAuthorization :: "LeaseID list \<Rightarrow> string list \<Rightarrow> Authorization" where
  "NewAuthorization leases signalFamilies =
    \<lparr>au_leases = filter (\<lambda>l. \<not> ID_IsZero l) leases, au_signalFamilies = filter (\<lambda>f. f \<noteq> []) (map TrimSpace signalFamilies)\<rparr>"

definition Allows :: "Authorization \<Rightarrow> LeaseID \<Rightarrow> string \<Rightarrow> bool" where
  "Allows a lease signalFamily \<longleftrightarrow>
    lease \<in> set (au_leases a) \<and> (''*'' \<in> set (au_signalFamilies a) \<or> signalFamily \<in> set (au_signalFamilies a))"

text \<open>One pass, in place: subjects whose parent is not visible are deleted.\<close>

definition prune_pass :: "subjects \<Rightarrow> subjects" where
  "prune_pass subs =
    fold (\<lambda>(i, subject) t. if \<not> ID_IsZero (sub_ParentID subject) \<and> map_of t (sub_ParentID subject) = None then AList.delete i t else t) subs subs"

lemma prune_fold_filter:
  "\<exists>D. fold (\<lambda>(i, subject) t. if \<not> ID_IsZero (sub_ParentID subject) \<and> map_of t (sub_ParentID subject) = None then AList.delete i t else t) xs t =
    filter (\<lambda>(i, _). i \<notin> D) t"
proof (induction xs arbitrary: t)
  case Nil
  show ?case
    by (rule exI [of _ "{}"]) simp
next
  case (Cons x xs)
  obtain i s where x: "x = (i, s)"
    by (cases x)
  show ?case
  proof (cases "\<not> ID_IsZero (sub_ParentID s) \<and> map_of t (sub_ParentID s) = None")
    case True
    obtain D where "fold (\<lambda>(i, subject) t. if \<not> ID_IsZero (sub_ParentID subject) \<and> map_of t (sub_ParentID subject) = None then AList.delete i t else t)
        xs (AList.delete i t) = filter (\<lambda>(i, _). i \<notin> D) (AList.delete i t)"
      using Cons.IH by blast
    also have "\<dots> = filter (\<lambda>(j, _). j \<notin> insert i D) t"
      by (auto simp: AList.delete_eq intro!: filter_cong)
    finally show ?thesis
      using True by (intro exI [of _ "insert i D"]) (simp add: x)
  next
    case False
    then show ?thesis
      using Cons.IH [of t] x by auto
  qed
qed

lemma prune_pass_filter: "\<exists>D. prune_pass subs = filter (\<lambda>(i, _). i \<notin> D) subs"
  unfolding prune_pass_def by (rule prune_fold_filter)

function prune :: "subjects \<Rightarrow> subjects" where
  "prune subs = (let t = prune_pass subs in if length t = length subs then subs else prune t)"
  by pat_completeness auto

termination
proof (relation "measure length")
  fix subs and t :: subjects
  assume t: "t = prune_pass subs" "length t \<noteq> length subs"
  obtain D where "t = filter (\<lambda>(i, _). i \<notin> D) subs"
    using prune_pass_filter t(1) by blast
  then show "(t, subs) \<in> measure length"
    using length_filter_le [of "\<lambda>(i, _). i \<notin> D" subs] t(2) by (simp add: le_neq_implies_less)
qed simp

definition subjectVisible :: "LiveSnapshot \<Rightarrow> SubjectID \<Rightarrow> bool" where
  "subjectVisible snap subject \<longleftrightarrow> ID_IsZero subject \<or> map_of (ls_Subjects snap) subject \<noteq> None"

definition Project :: "LiveSnapshot \<Rightarrow> Authorization \<Rightarrow> LiveSnapshot" where
  "Project snap a =
    (let projected = newSnapshot\<lparr>ls_Cursor := ls_Cursor snap,
           ls_Subjects := prune (filter (\<lambda>(i, s). Allows a (sub_LeaseID s) (sub_SignalFamily s)) (ls_Subjects snap))\<rparr> in
     projected\<lparr>
       ls_Metrics := filter (\<lambda>(k, m). Allows a (mv_LeaseID m) (mv_SignalFamily m) \<and> subjectVisible projected (mv_SubjectID m)) (ls_Metrics snap),
       ls_Coverage := filter (\<lambda>(k, c). Allows a (cv_LeaseID c) (cv_SignalFamily c) \<and> subjectVisible projected (cv_SubjectID c)) (ls_Coverage snap),
       ls_Incidents := filter (\<lambda>(k, i). Allows a (iv_LeaseID i) (iv_SignalFamily i) \<and> subjectVisible projected (iv_SubjectID i)) (ls_Incidents snap),
       ls_Pressure := filter (\<lambda>(k, p). Allows a (pv_LeaseID p) (pv_SignalFamily p) \<and> subjectVisible projected (pv_SubjectID p)) (ls_Pressure snap)\<rparr>)"

end
