(* ===== verification/Observation_Safety.thy ===== *)
theory Observation_Safety
  imports Observation
begin

text \<open>
  What the live snapshot guarantees: the reducer always returns and keeps a forest of subjects with
  everything else attached to existing subjects of the same lease, and a projection shows exactly
  what its authorization covers.
\<close>

section \<open>The topology\<close>

definition links :: "subjects \<Rightarrow> (SubjectID \<times> SubjectID) set" where
  "links subs = {(sub_ParentID s, i) | i s. map_of subs i = Some s}"

definition has_subject :: "subjects \<Rightarrow> SubjectID \<Rightarrow> LeaseID \<Rightarrow> bool" where
  "has_subject subs i lease \<longleftrightarrow> (\<exists>s. map_of subs i = Some s \<and> sub_LeaseID s = lease)"

definition topology_ok :: "subjects \<Rightarrow> bool" where
  "topology_ok subs \<longleftrightarrow> distinct (map fst subs) \<and> acyclic (links subs) \<and>
    (\<forall>i s. map_of subs i = Some s \<longrightarrow> sub_ID s = i \<and> \<not> ID_IsZero i \<and>
      (ID_IsZero (sub_ParentID s) \<or> has_subject subs (sub_ParentID s) (sub_LeaseID s)))"

lemma topology_okD:
  assumes "topology_ok subs"
  shows "distinct (map fst subs)" "acyclic (links subs)"
    "map_of subs i = Some s \<Longrightarrow> sub_ID s = i" "map_of subs i = Some s \<Longrightarrow> \<not> ID_IsZero i"
    "map_of subs i = Some s \<Longrightarrow> \<not> ID_IsZero (sub_ParentID s) \<Longrightarrow> has_subject subs (sub_ParentID s) (sub_LeaseID s)"
  using assms unfolding topology_ok_def by blast+

lemma topology_okI:
  assumes "distinct (map fst subs)" "acyclic (links subs)" "\<And>i s. map_of subs i = Some s \<Longrightarrow> sub_ID s = i \<and> \<not> ID_IsZero i"
    and "\<And>i s. map_of subs i = Some s \<Longrightarrow> \<not> ID_IsZero (sub_ParentID s) \<Longrightarrow> has_subject subs (sub_ParentID s) (sub_LeaseID s)"
  shows "topology_ok subs"
  using assms unfolding topology_ok_def by blast

lemma links_finite: "finite (links subs)"
proof (rule finite_subset)
  show "links subs \<subseteq> (\<lambda>(i, s). (sub_ParentID s, i)) ` set subs"
    by (force simp: links_def dest: map_of_SomeD)
qed simp

lemma topology_wf: "topology_ok subs \<Longrightarrow> wf (links subs)"
  by (simp add: finite_acyclic_wf links_finite topology_okD)

text \<open>The walk to the root ends, and decides whether the target is the start or above it.\<close>

lemma above_iff:
  assumes "map_of subs i = Some s"
  shows "(t, i) \<in> (links subs)\<^sup>* \<longleftrightarrow> t = i \<or> (t, sub_ParentID s) \<in> (links subs)\<^sup>*"
proof
  assume "(t, i) \<in> (links subs)\<^sup>*"
  then show "t = i \<or> (t, sub_ParentID s) \<in> (links subs)\<^sup>*"
    using assms by (cases rule: rtranclE) (auto simp: links_def)
next
  have "(sub_ParentID s, i) \<in> links subs"
    using assms by (auto simp: links_def)
  then show "t = i \<or> (t, sub_ParentID s) \<in> (links subs)\<^sup>* \<Longrightarrow> (t, i) \<in> (links subs)\<^sup>*"
    by (auto intro: rtrancl_into_rtrancl)
qed

lemma above_unknown: "map_of subs i = None \<Longrightarrow> (t, i) \<in> (links subs)\<^sup>* \<longleftrightarrow> t = i"
  by (auto simp: links_def elim: rtranclE)

lemma climb_exact:
  assumes "topology_ok subs" "\<not> ID_IsZero t"
  shows "climb subs t i = Some ((t, i) \<in> (links subs)\<^sup>*)"
proof (induction i rule: wf_induct_rule [OF topology_wf [OF assms(1)]])
  case (1 i)
  show ?case
  proof (cases "map_of subs i")
    case None
    then show ?thesis
      using assms(2) above_unknown [OF None] by (auto simp: climb.simps [of subs t i])
  next
    case (Some s)
    then have "(sub_ParentID s, i) \<in> links subs"
      by (auto simp: links_def)
    from 1 [OF this] show ?thesis
      using Some above_iff [OF Some] topology_okD(4) [OF assms(1) Some] by (auto simp: climb.simps [of subs t i])
  qed
qed

section \<open>Marking a subtree\<close>

declare mark.simps [simp del] prune.simps [simp del]

lemma mark_pass_Cons:
  "mark_pass ((i, s) # subs) removed =
    mark_pass subs (if sub_ParentID s \<in> set removed \<and> i \<notin> set removed then i # removed else removed)"
  by (simp add: mark_pass_def)

lemma mark_pass_covers:
  "(i, s) \<in> set subs \<Longrightarrow> sub_ParentID s \<in> set removed \<Longrightarrow> i \<in> set (mark_pass subs removed)"
proof (induction subs arbitrary: removed)
  case (Cons x subs)
  obtain j t where x: "x = (j, t)"
    by (cases x)
  let ?removed = "if sub_ParentID t \<in> set removed \<and> j \<notin> set removed then j # removed else removed"
  show ?case
  proof (cases "x = (i, s)")
    case True
    then have "i \<in> set ?removed"
      using Cons.prems x by simp
    then show ?thesis
      using mark_pass_grows [of ?removed subs] by (auto simp: x mark_pass_Cons)
  next
    case False
    then have "(i, s) \<in> set subs" "sub_ParentID s \<in> set ?removed"
      using Cons.prems x by auto
    from Cons.IH [OF this] show ?thesis
      unfolding x mark_pass_Cons .
  qed
qed simp

lemma below_trans: "A \<subseteq> r\<^sup>* `` B \<Longrightarrow> r\<^sup>* `` A \<subseteq> r\<^sup>* `` B"
proof
  fix x
  assume sub: "A \<subseteq> r\<^sup>* `` B" and "x \<in> r\<^sup>* `` A"
  then obtain a b where "(a, x) \<in> r\<^sup>*" "(b, a) \<in> r\<^sup>*" "b \<in> B"
    by blast
  then show "x \<in> r\<^sup>* `` B"
    by (blast intro: rtrancl_trans)
qed

lemma mark_pass_below:
  assumes "\<And>i s. (i, s) \<in> set subs \<Longrightarrow> (sub_ParentID s, i) \<in> r"
  shows "set (mark_pass subs removed) \<subseteq> r\<^sup>* `` set removed"
  using assms
proof (induction subs arbitrary: removed)
  case (Cons x subs)
  obtain j t where x: "x = (j, t)"
    by (cases x)
  let ?removed = "if sub_ParentID t \<in> set removed \<and> j \<notin> set removed then j # removed else removed"
  have "(sub_ParentID t, j) \<in> r"
    using Cons.prems x by simp
  then have "set ?removed \<subseteq> r\<^sup>* `` set removed"
    by auto
  then have "r\<^sup>* `` set ?removed \<subseteq> r\<^sup>* `` set removed"
    by (rule below_trans)
  then show ?case
    using Cons.IH [of ?removed] Cons.prems by (auto simp: x mark_pass_Cons)
qed (auto simp: mark_pass_def)

lemma mark_closed:
  "(i, s) \<in> set subs \<Longrightarrow> sub_ParentID s \<in> set (mark subs removed) \<Longrightarrow> i \<in> set (mark subs removed)"
proof (induction subs removed rule: mark.induct)
  case (1 subs removed)
  show ?case
  proof (cases "length (mark_pass subs removed) = length removed")
    case True
    then show ?thesis
      using 1(2,3) mark_pass_grows [of removed subs] mark_pass_covers [of i s subs removed]
      by (simp add: mark.simps [of subs removed] Let_def)
  next
    case False
    then show ?thesis
      using 1 by (simp add: mark.simps [of subs removed] Let_def)
  qed
qed

lemma mark_contains: "set removed \<subseteq> set (mark subs removed)"
proof (induction subs removed rule: mark.induct)
  case (1 subs removed)
  then show ?case
    using mark_pass_grows [of removed subs] by (auto simp: mark.simps [of subs removed] Let_def)
qed

lemma mark_below:
  assumes "\<And>i s. (i, s) \<in> set subs \<Longrightarrow> (sub_ParentID s, i) \<in> r"
  shows "set (mark subs removed) \<subseteq> r\<^sup>* `` set removed"
  using assms
proof (induction subs removed rule: mark.induct)
  case (1 subs removed)
  have pass: "set (mark_pass subs removed) \<subseteq> r\<^sup>* `` set removed"
    using mark_pass_below [of subs r removed] 1(2) by blast
  then have "r\<^sup>* `` set (mark_pass subs removed) \<subseteq> r\<^sup>* `` set removed"
    by (rule below_trans)
  then show ?case
    using 1 by (auto simp: mark.simps [of subs removed] Let_def split: if_splits)
qed

text \<open>The marked subjects are the given ones and everything below them.\<close>

lemma mark_exact:
  assumes "topology_ok subs"
  shows "set (mark subs removed) = (links subs)\<^sup>* `` set removed"
proof
  have in_links: "(i, s) \<in> set subs \<Longrightarrow> (sub_ParentID s, i) \<in> links subs" for i s
    using topology_okD(1) [OF assms] by (auto simp: links_def)
  then show "set (mark subs removed) \<subseteq> (links subs)\<^sup>* `` set removed"
    by (rule mark_below)
  show "(links subs)\<^sup>* `` set removed \<subseteq> set (mark subs removed)"
  proof
    fix i
    assume "i \<in> (links subs)\<^sup>* `` set removed"
    then obtain r where "r \<in> set removed" "(r, i) \<in> (links subs)\<^sup>*"
      by blast
    from this(2,1) show "i \<in> set (mark subs removed)"
    proof (induction rule: rtrancl_induct)
      case base
      then show ?case
        using mark_contains by blast
    next
      case (step j k)
      then obtain s where "map_of subs k = Some s" "sub_ParentID s = j"
        by (auto simp: links_def)
      then show ?case
        using step mark_closed [of k s subs removed] map_of_SomeD by fastforce
    qed
  qed
qed

section \<open>The invariant of the snapshot\<close>

lemma map_of_without: "map_of (filter (\<lambda>(k, _). k \<notin> D) al) k = (if k \<in> D then None else map_of al k)"
  by (induction al) auto

lemma map_of_filter_pred:
  "map_of (filter (\<lambda>(k, _). P k) al) k = (if P k then map_of al k else None)"
  by (induction al) auto

definition attached :: "subjects \<Rightarrow> SubjectID \<Rightarrow> LeaseID \<Rightarrow> bool" where
  "attached subs i lease \<longleftrightarrow> ID_IsZero i \<or> has_subject subs i lease"

definition metrics_ok :: "LiveSnapshot \<Rightarrow> bool" where
  "metrics_ok snap \<longleftrightarrow> (\<forall>k m. map_of (ls_Metrics snap) k = Some m \<longrightarrow>
    mk_SubjectID k = mv_SubjectID m \<and> mk_Name k = mv_Name m \<and> has_subject (ls_Subjects snap) (mv_SubjectID m) (mv_LeaseID m) \<and>
    MetricState_validate (mv_State m) = None \<and> ms_UpdatedCursor (mv_State m) \<le> ls_Cursor snap)"

definition coverage_ok :: "LiveSnapshot \<Rightarrow> bool" where
  "coverage_ok snap \<longleftrightarrow> (\<forall>k c. map_of (ls_Coverage snap) k = Some c \<longrightarrow>
    ck_SubjectID k = cv_SubjectID c \<and> ck_CollectorID k = cv_CollectorID c \<and> ck_SignalFamily k = cv_SignalFamily c \<and>
    attached (ls_Subjects snap) (cv_SubjectID c) (cv_LeaseID c) \<and> cv_UpdatedCursor c \<le> ls_Cursor snap \<and>
    (cv_Level c = CoverageLevelComplete \<longrightarrow> cv_Dropped c = 0 \<and> cv_Gap c = None \<and> cv_Status c = CoverageAvailable))"

definition incidents_ok :: "LiveSnapshot \<Rightarrow> bool" where
  "incidents_ok snap \<longleftrightarrow> (\<forall>k v. map_of (ls_Incidents snap) k = Some v \<longrightarrow>
    iv_ID v = k \<and> IncidentState_IsValid (iv_State v) \<and> iv_UpdatedCursor v \<le> ls_Cursor snap)"

definition pressure_ok :: "LiveSnapshot \<Rightarrow> bool" where
  "pressure_ok snap \<longleftrightarrow> (\<forall>k p. map_of (ls_Pressure snap) k = Some p \<longrightarrow>
    pk_SubjectID k = pv_SubjectID p \<and> pk_Resource k = pv_Resource p \<and> finite_float (pv_Value p) \<and>
    attached (ls_Subjects snap) (pv_SubjectID p) (pv_LeaseID p) \<and> pv_UpdatedCursor p \<le> ls_Cursor snap)"

definition snapshot_ok :: "LiveSnapshot \<Rightarrow> bool" where
  "snapshot_ok snap \<longleftrightarrow> topology_ok (ls_Subjects snap) \<and> metrics_ok snap \<and> coverage_ok snap \<and> incidents_ok snap \<and> pressure_ok snap \<and>
    distinct (map fst (ls_Incidents snap))"

lemmas snapshot_parts = metrics_ok_def coverage_ok_def incidents_ok_def pressure_ok_def

text \<open>What every change of the subjects must keep for the rest.\<close>

lemma snapshot_okI:
  assumes "snapshot_ok snap" "topology_ok subs" "ls_Cursor snap \<le> c"
    and "\<And>i lease. has_subject (ls_Subjects snap) i lease \<Longrightarrow> i \<notin> D \<Longrightarrow> has_subject subs i lease"
    and "\<And>i. i \<in> D \<Longrightarrow> \<not> ID_IsZero i"
  shows "snapshot_ok (snap\<lparr>ls_Subjects := subs,
    ls_Metrics := filter (\<lambda>(k, _). mk_SubjectID k \<notin> D) (ls_Metrics snap),
    ls_Coverage := filter (\<lambda>(k, _). ck_SubjectID k \<notin> D) (ls_Coverage snap),
    ls_Pressure := filter (\<lambda>(k, _). pk_SubjectID k \<notin> D) (ls_Pressure snap), ls_Cursor := c\<rparr>)"
proof -
  let ?new = "snap\<lparr>ls_Subjects := subs, ls_Metrics := filter (\<lambda>(k, _). mk_SubjectID k \<notin> D) (ls_Metrics snap),
    ls_Coverage := filter (\<lambda>(k, _). ck_SubjectID k \<notin> D) (ls_Coverage snap),
    ls_Pressure := filter (\<lambda>(k, _). pk_SubjectID k \<notin> D) (ls_Pressure snap), ls_Cursor := c\<rparr>"
  have later: "x \<le> ls_Cursor snap \<Longrightarrow> x \<le> c" for x
    using assms(3) by (rule order_trans [rotated])
  have keep: "attached (ls_Subjects snap) i lease \<Longrightarrow> i \<notin> D \<Longrightarrow> attached subs i lease" for i lease
    using assms(4) unfolding attached_def by blast
  note old = assms(1) [unfolded snapshot_ok_def]
  have "metrics_ok ?new"
    using old later assms(4) unfolding metrics_ok_def by (auto simp: map_of_filter_pred split: if_splits)
  moreover have "coverage_ok ?new"
    using old later keep unfolding coverage_ok_def by (auto simp: map_of_filter_pred split: if_splits)
  moreover have "incidents_ok ?new"
    using old later unfolding incidents_ok_def by auto
  moreover have "pressure_ok ?new"
    using old later keep unfolding pressure_ok_def by (auto simp: map_of_filter_pred split: if_splits)
  ultimately show ?thesis
    using assms(2) old by (simp add: snapshot_ok_def)
qed

lemma upsert_topology:
  assumes "topology_ok subs" "\<not> ID_IsZero (sub_ID s)"
    and "\<And>old. map_of subs (sub_ID s) = Some old \<Longrightarrow> sub_LeaseID old = sub_LeaseID s"
    and "ID_IsZero (sub_ParentID s) \<or> has_subject subs (sub_ParentID s) (sub_LeaseID s)"
    and "(sub_ID s, sub_ParentID s) \<notin> (links subs)\<^sup>*"
  shows "topology_ok (AList.update (sub_ID s) s subs)"
    "has_subject subs i lease \<Longrightarrow> has_subject (AList.update (sub_ID s) s subs) i lease"
proof -
  let ?new = "AList.update (sub_ID s) s subs"
  show keep: "has_subject subs i lease \<Longrightarrow> has_subject ?new i lease" for i lease
    using assms(3) by (auto simp: has_subject_def update_conv')
  let ?old = "{(p, i) \<in> links subs. i \<noteq> sub_ID s}"
  have links: "links ?new = insert (sub_ParentID s, sub_ID s) ?old"
    by (auto simp: links_def update_conv')
  have "?old \<subseteq> links subs"
    by auto
  then have "?old\<^sup>* \<subseteq> (links subs)\<^sup>*" "acyclic ?old"
    using topology_okD(2) [OF assms(1)] by (auto intro: rtrancl_mono [THEN subsetD] acyclic_subset)
  then have "acyclic (links ?new)"
    unfolding links acyclic_insert using assms(5) by blast
  moreover have "distinct (map fst ?new)"
    using topology_okD(1) [OF assms(1)] by (rule distinct_update)
  moreover have "sub_ID t = i \<and> \<not> ID_IsZero i" if "map_of ?new i = Some t" for i t
    using that assms(2) topology_okD(3,4) [OF assms(1)] unfolding update_conv' by (auto split: if_splits)
  moreover have "has_subject ?new (sub_ParentID t) (sub_LeaseID t)" if "map_of ?new i = Some t" "\<not> ID_IsZero (sub_ParentID t)" for i t
  proof (cases "i = sub_ID s")
    case True
    then show ?thesis
      using that assms(4) keep by (auto simp: update_conv')
  next
    case False
    then have "map_of subs i = Some t"
      using that(1) by (simp add: update_conv')
    then show ?thesis
      using keep topology_okD(5) [OF assms(1)] that(2) by blast
  qed
  ultimately show "topology_ok ?new"
    by (intro topology_okI)
qed

lemma remove_topology:
  assumes "topology_ok subs"
  shows "topology_ok (filter (\<lambda>(i, _). i \<notin> set (mark subs [root])) subs)" (is "topology_ok ?new")
proof -
  let ?D = "set (mark subs [root])"
  have get: "map_of ?new i = (if i \<in> ?D then None else map_of subs i)" for i
    by (rule map_of_without)
  have "links ?new \<subseteq> links subs"
    by (auto simp: links_def get split: if_splits)
  then have "acyclic (links ?new)"
    using topology_okD(2) [OF assms] by (rule acyclic_subset [rotated])
  moreover have "distinct (map fst ?new)"
    using topology_okD(1) [OF assms] by (simp add: distinct_map_filter)
  moreover have "sub_ParentID s \<notin> ?D" if "map_of subs i = Some s" "i \<notin> ?D" for i s
    using that mark_closed [of i s subs "[root]"] map_of_SomeD by metis
  moreover have old: "map_of subs i = Some s" "i \<notin> ?D" if "map_of ?new i = Some s" for i s
    using that unfolding get by (auto split: if_splits)
  moreover have "has_subject ?new (sub_ParentID s) (sub_LeaseID s)" if "map_of ?new i = Some s" "\<not> ID_IsZero (sub_ParentID s)" for i s
    using topology_okD(5) [OF assms old(1) [OF that(1)] that(2)] calculation(3) [OF old [OF that(1)]] unfolding has_subject_def get by simp
  ultimately show ?thesis
    using topology_okD(3,4) [OF assms] by (intro topology_okI) blast+
qed

section \<open>Every event keeps the invariant\<close>

lemma later_ok: "snapshot_ok snap \<Longrightarrow> ls_Cursor snap \<le> c \<Longrightarrow> snapshot_ok (snap\<lparr>ls_Cursor := c\<rparr>)"
  using snapshot_okI [of snap "ls_Subjects snap" c "{}"] by (cases snap) (simp add: snapshot_ok_def)

lemma set_metric_ok:
  assumes "snapshot_ok snap" "has_subject (ls_Subjects snap) (mv_SubjectID m) (mv_LeaseID m)" "MetricState_validate (mv_State m) = None"
    "ms_UpdatedCursor (mv_State m) \<le> ls_Cursor snap"
  shows "snapshot_ok (snap\<lparr>ls_Metrics := AList.update \<lparr>mk_SubjectID = mv_SubjectID m, mk_Name = mv_Name m\<rparr> m (ls_Metrics snap)\<rparr>)"
  using assms unfolding snapshot_ok_def snapshot_parts by (simp add: update_conv')

lemma set_coverage_ok:
  assumes "snapshot_ok snap" "attached (ls_Subjects snap) (cv_SubjectID v) (cv_LeaseID v)" "cv_UpdatedCursor v \<le> ls_Cursor snap"
    "cv_Level v = CoverageLevelComplete \<longrightarrow> cv_Dropped v = 0 \<and> cv_Gap v = None \<and> cv_Status v = CoverageAvailable"
  shows "snapshot_ok (snap\<lparr>ls_Coverage := AList.update \<lparr>ck_CollectorID = cv_CollectorID v, ck_SubjectID = cv_SubjectID v,
    ck_SignalFamily = cv_SignalFamily v\<rparr> v (ls_Coverage snap)\<rparr>)"
  using assms unfolding snapshot_ok_def snapshot_parts by (simp add: update_conv')

lemma set_incident_ok:
  assumes "snapshot_ok snap" "IncidentState_IsValid (iv_State v)" "iv_UpdatedCursor v \<le> ls_Cursor snap"
  shows "snapshot_ok (snap\<lparr>ls_Incidents := AList.update (iv_ID v) v (ls_Incidents snap)\<rparr>)"
proof -
  have old: "incidents_ok snap" "distinct (map fst (ls_Incidents snap))"
    using assms(1) by (simp_all add: snapshot_ok_def)
  have "incidents_ok (snap\<lparr>ls_Incidents := AList.update (iv_ID v) v (ls_Incidents snap)\<rparr>)"
    using old(1) assms(2,3) by (simp add: incidents_ok_def update_conv')
  then show ?thesis
    using assms(1) distinct_update [OF old(2)] by (simp add: snapshot_ok_def metrics_ok_def coverage_ok_def pressure_ok_def)
qed

lemma delete_incident_ok:
  assumes "snapshot_ok snap"
  shows "snapshot_ok (snap\<lparr>ls_Incidents := AList.delete k (ls_Incidents snap)\<rparr>)"
proof -
  have old: "incidents_ok snap" "distinct (map fst (ls_Incidents snap))"
    using assms(1) by (simp_all add: snapshot_ok_def)
  have "incidents_ok (snap\<lparr>ls_Incidents := AList.delete k (ls_Incidents snap)\<rparr>)"
    using old(1) by (simp add: incidents_ok_def delete_conv')
  then show ?thesis
    using assms(1) distinct_delete [OF old(2)] by (simp add: snapshot_ok_def metrics_ok_def coverage_ok_def pressure_ok_def)
qed

lemma set_pressure_ok:
  assumes "snapshot_ok snap" "attached (ls_Subjects snap) (pv_SubjectID v) (pv_LeaseID v)" "finite_float (pv_Value v)"
    "pv_UpdatedCursor v \<le> ls_Cursor snap"
  shows "snapshot_ok (snap\<lparr>ls_Pressure := AList.update \<lparr>pk_SubjectID = pv_SubjectID v, pk_Resource = pv_Resource v\<rparr> v (ls_Pressure snap)\<rparr>)"
  using assms unfolding snapshot_ok_def snapshot_parts by (simp add: update_conv')

lemma delete_pressure_ok: "snapshot_ok snap \<Longrightarrow> snapshot_ok (snap\<lparr>ls_Pressure := AList.delete k (ls_Pressure snap)\<rparr>)"
  unfolding snapshot_ok_def snapshot_parts by (simp add: delete_conv')

lemma below_nonzero:
  assumes "topology_ok subs" "\<not> ID_IsZero root" "(root, i) \<in> (links subs)\<^sup>*"
  shows "\<not> ID_IsZero i"
  using assms(3)
proof (cases rule: rtranclE)
  case (step j)
  then obtain s where "map_of subs i = Some s"
    unfolding links_def by blast
  then show ?thesis
    by (rule topology_okD(4) [OF assms(1)])
qed (use assms(2) in simp)

lemma remove_ok:
  assumes "snapshot_ok snap" "\<not> ID_IsZero root"
  shows "snapshot_ok (removeSubjectTree root snap)"
proof -
  have top: "topology_ok (ls_Subjects snap)"
    using assms(1) by (simp add: snapshot_ok_def)
  let ?D = "set (mark (ls_Subjects snap) [root])"
  have "has_subject (filter (\<lambda>(i, _). i \<notin> ?D) (ls_Subjects snap)) i lease" if "has_subject (ls_Subjects snap) i lease" "i \<notin> ?D" for i lease
    using that unfolding has_subject_def map_of_without by simp
  moreover have "\<not> ID_IsZero i" if "i \<in> ?D" for i
    using that below_nonzero [OF top assms(2)] unfolding mark_exact [OF top] by simp
  ultimately show ?thesis
    using snapshot_okI [OF assms(1) remove_topology [OF top], of "ls_Cursor snap" ?D]
    by (simp add: removeSubjectTree_def Let_def)
qed

lemma requireSubject_ok: "requireSubject i lease snap = None \<longleftrightarrow> \<not> ID_IsZero i \<and> has_subject (ls_Subjects snap) i lease"
  by (auto simp: requireSubject_def has_subject_def split: option.splits)

lemma upsert_valid:
  assumes "topology_ok (ls_Subjects snap)" "validateSubjectUpsert event snap = Some None"
  shows "\<exists>s. ev_Subject event = Some s \<and> topology_ok (AList.update (sub_ID s) s (ls_Subjects snap)) \<and>
    (\<forall>i lease. has_subject (ls_Subjects snap) i lease \<longrightarrow> has_subject (AList.update (sub_ID s) s (ls_Subjects snap)) i lease)"
proof -
  obtain s where s: "ev_Subject event = Some s" "\<not> ID_IsZero (sub_ID s)"
      "\<And>old. map_of (ls_Subjects snap) (sub_ID s) = Some old \<Longrightarrow> sub_LeaseID old = sub_LeaseID s"
    using assms(2) by (auto simp: validateSubjectUpsert_def split: option.splits)
  note exact = climb_exact [OF assms(1) s(2), of "sub_ParentID s"]
  have "(ID_IsZero (sub_ParentID s) \<or> has_subject (ls_Subjects snap) (sub_ParentID s) (sub_LeaseID s)) \<and>
      (sub_ID s, sub_ParentID s) \<notin> (links (ls_Subjects snap))\<^sup>*"
  proof (cases "ID_IsZero (sub_ParentID s)")
    case True
    then have "climb (ls_Subjects snap) (sub_ID s) (sub_ParentID s) = Some False"
      by (simp add: climb.simps)
    then show ?thesis
      using exact True by simp
  next
    case False
    then show ?thesis
      using assms(2) s(1) exact
      by (auto simp: validateSubjectUpsert_def has_subject_def split: option.splits if_splits)
  qed
  then show ?thesis
    using upsert_topology [OF assms(1) s(2,3)] s(1) by blast
qed

lemma upsert_returns:
  assumes "topology_ok (ls_Subjects snap)"
  shows "validateSubjectUpsert event snap \<noteq> None"
proof (cases "ev_Subject event")
  case (Some s)
  show ?thesis
  proof (cases "ID_IsZero (sub_ID s)")
    case True
    then show ?thesis
      using Some by (simp add: validateSubjectUpsert_def fail_if_def)
  next
    case False
    then show ?thesis
      using climb_exact [OF assms False, of "sub_ParentID s"] Some
      by (simp add: validateSubjectUpsert_def split: option.split)
  qed
qed (simp add: validateSubjectUpsert_def)

lemma validate_returns: "topology_ok (ls_Subjects snap) \<Longrightarrow> validateEvent event snap \<noteq> None"
  using upsert_returns [of snap event] by (cases "ev_Kind event") (simp_all add: validateEvent_def split: option.split)

lemma MetricState_validate_cursor [simp]: "MetricState_validate (m\<lparr>ms_UpdatedCursor := c\<rparr>) = MetricState_validate m"
  by (cases "ms_Kind m") (simp_all add: MetricState_validate_def)

lemma coverage_valid:
  assumes "validateCoverage event snap = None"
  shows "\<exists>v. ev_Coverage event = Some v \<and> attached (ls_Subjects snap) (cv_SubjectID v) (cv_LeaseID v) \<and>
    (cv_Level v = CoverageLevelComplete \<longrightarrow> cv_Dropped v = 0 \<and> cv_Gap v = None \<and> cv_Status v = CoverageAvailable)"
proof -
  obtain v where "ev_Coverage event = Some v"
    using assms by (cases "ev_Coverage event") (simp_all add: validateCoverage_def)
  then show ?thesis
    using assms by (auto simp: validateCoverage_def attached_def requireSubject_ok word_gt_0 split: if_splits)
qed

lemma incident_valid:
  assumes "validateIncident event snap = None"
  shows "\<exists>v. ev_Incident event = Some v \<and> (ev_Kind event = EventIncidentSet \<longrightarrow> IncidentState_IsValid (iv_State v))"
  using assms by (cases "ev_Incident event") (simp_all add: validateIncident_def)

lemma pressure_valid:
  assumes "validatePressure event snap = None"
  shows "\<exists>v. ev_Pressure event = Some v \<and> attached (ls_Subjects snap) (pv_SubjectID v) (pv_LeaseID v) \<and>
    (ev_Kind event = EventPressureSet \<longrightarrow> finite_float (pv_Value v))"
  using assms by (cases "ev_Pressure event") (auto simp: validatePressure_def attached_def requireSubject_ok split: if_splits)

lemma apply_event_ok:
  assumes "snapshot_ok snap" "validateEvent event snap = Some None" "ls_Cursor snap \<le> ev_Cursor event"
  shows "snapshot_ok ((apply_event event snap)\<lparr>ls_Cursor := ev_Cursor event\<rparr>)"
proof -
  let ?c = "ev_Cursor event"
  let ?snap = "snap\<lparr>ls_Cursor := ?c\<rparr>"
  have ok: "snapshot_ok ?snap"
    using later_ok [OF assms(1,3)] .
  have top: "topology_ok (ls_Subjects snap)"
    using assms(1) by (simp add: snapshot_ok_def)
  note valid = assms(2) [unfolded validateEvent_def]
  show ?thesis
  proof (cases "ev_Kind event")
    case EventSubjectUpsert
    then have "validateSubjectUpsert event snap = Some None"
      using valid by (simp split: option.splits)
    then obtain s where s: "ev_Subject event = Some s" "topology_ok (AList.update (sub_ID s) s (ls_Subjects snap))"
        "\<And>i lease. has_subject (ls_Subjects snap) i lease \<Longrightarrow> has_subject (AList.update (sub_ID s) s (ls_Subjects snap)) i lease"
      using upsert_valid [OF top] by blast
    show ?thesis
      using snapshot_okI [OF assms(1) s(2) assms(3), of "{}"] s(1,3) EventSubjectUpsert by (cases snap) (simp add: apply_event_def)
  next
    case EventSubjectRemove
    then have "\<not> ID_IsZero (ev_SubjectID event)"
      using valid by (simp add: requireSubject_ok split: option.splits)
    from remove_ok [OF ok this] show ?thesis
      using EventSubjectRemove by (cases snap) (simp add: apply_event_def removeSubjectTree_def Let_def)
  next
    case EventMetricSet
    then obtain m where "has_subject (ls_Subjects snap) (ev_SubjectID event) (ev_LeaseID event)" "ev_Metric event = Some m" "MetricState_validate m = None"
      using valid by (cases "ev_Metric event") (simp_all add: requireSubject_ok split: option.splits)
    then show ?thesis
      using set_metric_ok [OF ok, of "\<lparr>mv_LeaseID = ev_LeaseID event, mv_SignalFamily = ev_SignalFamily event, mv_SubjectID = ev_SubjectID event,
            mv_Name = ev_MetricName event, mv_State = m\<lparr>ms_UpdatedCursor := ?c\<rparr>\<rparr>"] EventMetricSet
      by (cases snap) (simp add: apply_event_def)
  next
    case EventCoverageSet
    then obtain v where "ev_Coverage event = Some v" "attached (ls_Subjects snap) (cv_SubjectID v) (cv_LeaseID v)"
        "cv_Level v = CoverageLevelComplete \<longrightarrow> cv_Dropped v = 0 \<and> cv_Gap v = None \<and> cv_Status v = CoverageAvailable"
      using valid coverage_valid [of event snap] by (auto split: option.splits)
    then show ?thesis
      using set_coverage_ok [OF ok, of "v\<lparr>cv_UpdatedCursor := ?c\<rparr>"] EventCoverageSet by (cases snap) (simp add: apply_event_def Let_def)
  next
    case EventIncidentSet
    then obtain v where "ev_Incident event = Some v" "IncidentState_IsValid (iv_State v)"
      using valid incident_valid [of event snap] by (auto split: option.splits)
    then show ?thesis
      using set_incident_ok [OF ok, of "v\<lparr>iv_UpdatedCursor := ?c\<rparr>"] EventIncidentSet by (cases snap) (simp add: apply_event_def Let_def)
  next
    case EventIncidentRemove
    then show ?thesis
      using delete_incident_ok [OF ok] by (cases snap) (simp add: apply_event_def)
  next
    case EventPressureSet
    then obtain v where "ev_Pressure event = Some v" "attached (ls_Subjects snap) (pv_SubjectID v) (pv_LeaseID v)" "finite_float (pv_Value v)"
      using valid pressure_valid [of event snap] by (auto split: option.splits)
    then show ?thesis
      using set_pressure_ok [OF ok, of "v\<lparr>pv_UpdatedCursor := ?c\<rparr>"] EventPressureSet by (cases snap) (simp add: apply_event_def Let_def)
  next
    case EventPressureRemove
    then show ?thesis
      using delete_pressure_ok [OF ok] by (cases snap) (simp add: apply_event_def Let_def)
  qed (use ok valid in \<open>simp_all add: apply_event_def\<close>)
qed

lemma Reduce_cases:
  "case Reduce events of None \<Rightarrow> False | Some (Inl e) \<Rightarrow> True | Some (Inr snap) \<Rightarrow> snapshot_ok snap"
proof -
  have "case reduce_from snap events of None \<Rightarrow> False | Some (Inl e) \<Rightarrow> True | Some (Inr snap') \<Rightarrow> snapshot_ok snap'"
    if "snapshot_ok snap" for snap
    using that
  proof (induction events arbitrary: snap)
    case (Cons event events)
    have top: "topology_ok (ls_Subjects snap)"
      using Cons.prems by (simp add: snapshot_ok_def)
    have "Reducer_Apply event snap \<noteq> None"
      using validate_returns [OF top, of event] by (auto simp: Reducer_Apply_def split: option.splits)
    then obtain r where r: "Reducer_Apply event snap = Some r"
      by blast
    show ?case
    proof (cases r)
      case (Inr snap')
      then have "snapshot_ok snap'"
        using r apply_event_ok [OF Cons.prems] by (auto simp: Reducer_Apply_def not_le split: if_splits option.splits)
      then show ?thesis
        using Cons.IH r Inr by simp
    qed (simp add: r)
  qed simp
  moreover have "snapshot_ok newSnapshot"
    by (simp add: snapshot_ok_def snapshot_parts newSnapshot_def topology_ok_def links_def acyclic_def)
  ultimately show ?thesis
    by (simp add: Reduce_def)
qed

lemma Reduce_ok: "Reduce events = Some (Inr snap) \<Longrightarrow> snapshot_ok snap"
  using Reduce_cases [of events] by simp

text \<open>
  C30.
  The live snapshot is always sound.  Folding any sequence of events returns, in particular the walk that
  guards against cycles always ends, and every snapshot it yields is sound: the subjects form a
  forest in which parent and child belong to the same lease, every metric belongs to an existing
  subject of its lease and is in a consistent tagged state, coverage and pressure are attached to
  an existing subject of their lease or to none, complete coverage has no loss, and nothing carries a
  cursor beyond the snapshot's.\<close>

theorem snapshot_is_sound:
  "case Reduce events of None \<Rightarrow> False | Some (Inl e) \<Rightarrow> True | Some (Inr snap) \<Rightarrow> snapshot_ok snap"
  by (rule Reduce_cases)

end
