(* ===== verification/Observation_Projection.thy ===== *)
theory Observation_Projection
  imports Observation_Safety
begin

text \<open>
  What a caller sees: the projection of a live snapshot to an authorization shows a subject exactly when
  the authorization covers it and everything above it, and nothing whose subject is not shown.
\<close>

section \<open>Pruning subjects without a visible parent\<close>

lemma prune_filter: "\<exists>D. prune subs = filter (\<lambda>(i, _). i \<notin> D) subs"
proof (induction subs rule: prune.induct)
  case (1 subs)
  show ?case
  proof (cases "length (prune_pass subs) = length subs")
    case True
    then show ?thesis
      by (intro exI [of _ "{}"]) (simp add: prune.simps [of subs] Let_def)
  next
    case False
    obtain D where "prune (prune_pass subs) = filter (\<lambda>(i, _). i \<notin> D) (prune_pass subs)"
      using 1 False by blast
    moreover obtain E where "prune_pass subs = filter (\<lambda>(i, _). i \<notin> E) subs"
      using prune_pass_filter by blast
    ultimately have "prune (prune_pass subs) = filter (\<lambda>(i, _). i \<notin> D \<union> E) subs"
      by (auto intro!: filter_cong)
    then show ?thesis
      using False by (intro exI [of _ "D \<union> E"]) (simp add: prune.simps [of subs] Let_def)
  qed
qed

definition prune_step :: "SubjectID \<times> Subject \<Rightarrow> subjects \<Rightarrow> subjects" where
  "prune_step = (\<lambda>(i, subject) t. if \<not> ID_IsZero (sub_ParentID subject) \<and> map_of t (sub_ParentID subject) = None then AList.delete i t else t)"

lemma prune_pass_steps: "prune_pass subs = fold prune_step subs subs"
  by (simp add: prune_pass_def prune_step_def)

lemma prune_step_length: "length (prune_step x t) \<le> length t"
  by (cases x) (simp add: prune_step_def length_delete_le)

lemma prune_steps_length: "length (fold prune_step xs t) \<le> length t"
proof (induction xs arbitrary: t)
  case (Cons x xs)
  from Cons.IH [of "prune_step x t"] prune_step_length [of x t] show ?case
    by simp
qed simp

text \<open>A pass that deletes nothing has found nothing to delete.\<close>

lemma prune_step_same: "length (prune_step x t) = length t \<Longrightarrow> prune_step x t = t"
proof (cases x)
  case (Pair j r)
  assume len: "length (prune_step x t) = length t"
  have "AList.delete j t = t" if "length (AList.delete j t) = length t"
    using that length_filter_less [of _ t "\<lambda>(k', _). j \<noteq> k'"] unfolding AList.delete_eq by (auto simp: filter_id_conv)
  then show ?thesis
    using len Pair by (auto simp: prune_step_def split: if_splits)
qed

lemma prune_steps_fixed:
  assumes "length (fold prune_step xs t) = length t" "(i, s) \<in> set xs" "i \<in> fst ` set t"
  shows "ID_IsZero (sub_ParentID s) \<or> map_of t (sub_ParentID s) \<noteq> None"
  using assms
proof (induction xs)
  case (Cons x xs)
  have "length (fold prune_step xs (prune_step x t)) \<le> length (prune_step x t)"
    by (rule prune_steps_length)
  then have same: "prune_step x t = t"
    using Cons.prems(1) prune_step_length [of x t] by (intro prune_step_same) simp
  show ?case
  proof (cases "x = (i, s)")
    case True
    show ?thesis
    proof (rule ccontr)
      assume "\<not> ?thesis"
      then have "AList.delete i t = t"
        using same True by (simp add: prune_step_def)
      then have "map_of t i = None"
        using delete_conv' [of i t] by (metis fun_upd_same)
      then have "i \<notin> fst ` set t"
        by (simp add: map_of_eq_None_iff)
      then show False
        using Cons.prems(3) by simp
    qed
  next
    case False
    then show ?thesis
      using Cons same by auto
  qed
qed simp

lemma prune_closed:
  assumes "(i, s) \<in> set (prune subs)"
  shows "ID_IsZero (sub_ParentID s) \<or> map_of (prune subs) (sub_ParentID s) \<noteq> None"
  using assms
proof (induction subs rule: prune.induct)
  case (1 subs)
  show ?case
  proof (cases "length (prune_pass subs) = length subs")
    case True
    then have "prune subs = subs"
      by (simp add: prune.simps [of subs] Let_def)
    moreover from this have "i \<in> fst ` set subs"
      using 1(2) by force
    ultimately show ?thesis
      using prune_steps_fixed [of subs subs i s] True 1(2) by (simp add: prune_pass_steps)
  next
    case False
    then have "prune subs = prune (prune_pass subs)"
      by (simp add: prune.simps [of subs] Let_def)
    then show ?thesis
      using 1 False by simp
  qed
qed

text \<open>Subjects whose ancestors are all present are kept.\<close>

lemma prune_steps_keep:
  assumes "\<And>i. i \<in> K \<Longrightarrow> \<exists>s. map_of subs i = Some s \<and> (ID_IsZero (sub_ParentID s) \<or> sub_ParentID s \<in> K)"
    and "\<And>i. i \<in> K \<Longrightarrow> map_of t i = map_of subs i" "\<And>i s. (i, s) \<in> set xs \<Longrightarrow> map_of subs i = Some s" "i \<in> K"
  shows "map_of (fold prune_step xs t) i = map_of subs i"
  using assms(2,3,4)
proof (induction xs arbitrary: t)
  case (Cons x xs)
  obtain j r where x: "x = (j, r)"
    by (cases x)
  have r: "map_of subs j = Some r"
    using Cons.prems(2) x by simp
  have "map_of (prune_step x t) k = map_of subs k" if "k \<in> K" for k
  proof (cases "j = k")
    case True
    then have "ID_IsZero (sub_ParentID r) \<or> map_of t (sub_ParentID r) \<noteq> None"
      using assms(1) [OF that] assms(1) [of "sub_ParentID r"] Cons.prems(1) [of "sub_ParentID r"] r by auto
    then show ?thesis
      using Cons.prems(1) [OF that] x by (auto simp: prune_step_def)
  next
    case False
    then show ?thesis
      using Cons.prems(1) [OF that] x by (simp add: prune_step_def delete_conv')
  qed
  then show ?case
    using Cons.IH [of "prune_step x t"] Cons.prems(2,3) by simp
qed simp

lemma prune_keeps:
  assumes "distinct (map fst subs)" "\<And>i. i \<in> K \<Longrightarrow> \<exists>s. map_of subs i = Some s \<and> (ID_IsZero (sub_ParentID s) \<or> sub_ParentID s \<in> K)" "i \<in> K"
  shows "map_of (prune subs) i = map_of subs i"
  using assms
proof (induction subs rule: prune.induct)
  case (1 subs)
  have member: "map_of subs j = Some s" if "(j, s) \<in> set subs" for j s
    using "1.prems"(1) that by simp
  have pass: "map_of (prune_pass subs) j = map_of subs j" if "j \<in> K" for j
    unfolding prune_pass_steps by (rule prune_steps_keep [OF "1.prems"(2) refl member that])
  show ?case
  proof (cases "length (prune_pass subs) = length subs")
    case True
    then show ?thesis
      by (simp add: prune.simps [of subs] Let_def)
  next
    case False
    obtain D where "prune_pass subs = filter (\<lambda>(i, _). i \<notin> D) subs"
      using prune_pass_filter by blast
    then have "distinct (map fst (prune_pass subs))"
      using "1.prems"(1) by (simp add: distinct_map_filter)
    moreover have "\<exists>s. map_of (prune_pass subs) i = Some s \<and> (ID_IsZero (sub_ParentID s) \<or> sub_ParentID s \<in> K)" if "i \<in> K" for i
      using "1.prems"(2) [OF that] pass [OF that] by simp
    ultimately have "map_of (prune (prune_pass subs)) i = map_of (prune_pass subs) i"
      using "1.IH" False "1.prems"(3) by blast
    then show ?thesis
      using False pass [OF "1.prems"(3)] by (simp add: prune.simps [of subs] Let_def)
  qed
qed

section \<open>Visibility\<close>

text \<open>A subject is visible when the authorization covers it and all its ancestors.\<close>

inductive visible :: "Authorization \<Rightarrow> subjects \<Rightarrow> SubjectID \<Rightarrow> bool" for a subs where
  root: "map_of subs i = Some s \<Longrightarrow> Allows a (sub_LeaseID s) (sub_SignalFamily s) \<Longrightarrow> ID_IsZero (sub_ParentID s) \<Longrightarrow> visible a subs i"
| child: "map_of subs i = Some s \<Longrightarrow> Allows a (sub_LeaseID s) (sub_SignalFamily s) \<Longrightarrow> visible a subs (sub_ParentID s) \<Longrightarrow> visible a subs i"

lemma map_of_filter_values:
  "distinct (map fst al) \<Longrightarrow> map_of (filter (\<lambda>(k, v). P v) al) k = (case map_of al k of None \<Rightarrow> None | Some v \<Rightarrow> if P v then Some v else None)"
proof (induction al)
  case (Cons x al)
  obtain k' v where x: "x = (k', v)"
    by (cases x)
  have "map_of (filter (\<lambda>(k, v). P v) al) k' = None"
    using Cons.prems x by (force simp: map_of_eq_None_iff)
  then show ?case
    using Cons x by simp
qed simp

lemma prune_visible:
  assumes "topology_ok subs"
  shows "map_of (prune (filter (\<lambda>(i, s). Allows a (sub_LeaseID s) (sub_SignalFamily s)) subs)) i =
    (if visible a subs i then map_of subs i else None)"
proof -
  let ?allowed = "filter (\<lambda>(i, s). Allows a (sub_LeaseID s) (sub_SignalFamily s)) subs"
  have get: "map_of ?allowed i = (case map_of subs i of None \<Rightarrow> None | Some s \<Rightarrow> if Allows a (sub_LeaseID s) (sub_SignalFamily s) then Some s else None)" for i
    by (rule map_of_filter_values [OF topology_okD(1) [OF assms]])
  have distinct: "distinct (map fst ?allowed)"
    using topology_okD(1) [OF assms] by (simp add: distinct_map_filter)
  obtain D where D: "prune ?allowed = filter (\<lambda>(i, _). i \<notin> D) ?allowed"
    using prune_filter by blast
  have sub: "map_of subs i = Some s \<and> Allows a (sub_LeaseID s) (sub_SignalFamily s) \<and> (i, s) \<in> set (prune ?allowed)"
    if "map_of (prune ?allowed) i = Some s" for i s
    using that get [of i] map_of_SomeD [OF that] unfolding D map_of_without by (auto split: if_splits option.splits)
  have "visible a subs i" if "map_of (prune ?allowed) i \<noteq> None" for i
    using that
  proof (induction i rule: wf_induct_rule [OF topology_wf [OF assms]])
    case (1 i)
    then obtain s where s: "map_of (prune ?allowed) i = Some s"
      by blast
    note old = sub [OF s]
    have "(sub_ParentID s, i) \<in> links subs"
      using old unfolding links_def by blast
    then show ?case
      using 1(1) prune_closed [of i s ?allowed] old visible.root [of subs i s a] visible.child [of subs i s a] by blast
  qed
  moreover have "map_of (prune ?allowed) i = map_of ?allowed i \<and> map_of ?allowed i = map_of subs i" if "visible a subs i" for i
  proof -
    have closed: "\<exists>s. map_of ?allowed i = Some s \<and> (ID_IsZero (sub_ParentID s) \<or> sub_ParentID s \<in> {i. visible a subs i})"
      if "i \<in> {i. visible a subs i}" for i
      using that by (auto simp: get elim: visible.cases)
    show ?thesis
      using prune_keeps [OF distinct closed, of i] that get [of i] by (auto elim: visible.cases)
  qed
  ultimately show ?thesis
    by (metis not_None_eq)
qed

section \<open>Projections\<close>

definition shown :: "Authorization \<Rightarrow> subjects \<Rightarrow> LeaseID \<Rightarrow> string \<Rightarrow> SubjectID \<Rightarrow> bool" where
  "shown a subs lease family i \<longleftrightarrow> Allows a lease family \<and> (ID_IsZero i \<or> visible a subs i)"

lemma visible_known: "visible a subs i \<Longrightarrow> map_of subs i \<noteq> None"
  by (auto elim: visible.cases)

lemma Project_subjects:
  assumes "topology_ok (ls_Subjects snap)"
  shows "map_of (ls_Subjects (Project snap a)) i = (if visible a (ls_Subjects snap) i then map_of (ls_Subjects snap) i else None)"
  using prune_visible [OF assms, of a i] by (simp add: Project_def Let_def)

lemma Project_parts:
  assumes "topology_ok (ls_Subjects snap)"
  shows "ls_Metrics (Project snap a) =
      filter (\<lambda>(k, m). shown a (ls_Subjects snap) (mv_LeaseID m) (mv_SignalFamily m) (mv_SubjectID m)) (ls_Metrics snap)"
    "ls_Coverage (Project snap a) =
      filter (\<lambda>(k, c). shown a (ls_Subjects snap) (cv_LeaseID c) (cv_SignalFamily c) (cv_SubjectID c)) (ls_Coverage snap)"
    "ls_Incidents (Project snap a) =
      filter (\<lambda>(k, v). shown a (ls_Subjects snap) (iv_LeaseID v) (iv_SignalFamily v) (iv_SubjectID v)) (ls_Incidents snap)"
    "ls_Pressure (Project snap a) =
      filter (\<lambda>(k, p). shown a (ls_Subjects snap) (pv_LeaseID p) (pv_SignalFamily p) (pv_SubjectID p)) (ls_Pressure snap)"
proof -
  let ?p = "newSnapshot\<lparr>ls_Cursor := ls_Cursor snap,
    ls_Subjects := prune (filter (\<lambda>(i, s). Allows a (sub_LeaseID s) (sub_SignalFamily s)) (ls_Subjects snap))\<rparr>"
  have "subjectVisible ?p i \<longleftrightarrow> ID_IsZero i \<or> visible a (ls_Subjects snap) i" for i
    using prune_visible [OF assms, of a i] visible_known by (auto simp: subjectVisible_def)
  then show "ls_Metrics (Project snap a) =
      filter (\<lambda>(k, m). shown a (ls_Subjects snap) (mv_LeaseID m) (mv_SignalFamily m) (mv_SubjectID m)) (ls_Metrics snap)"
    "ls_Coverage (Project snap a) =
      filter (\<lambda>(k, c). shown a (ls_Subjects snap) (cv_LeaseID c) (cv_SignalFamily c) (cv_SubjectID c)) (ls_Coverage snap)"
    "ls_Incidents (Project snap a) =
      filter (\<lambda>(k, v). shown a (ls_Subjects snap) (iv_LeaseID v) (iv_SignalFamily v) (iv_SubjectID v)) (ls_Incidents snap)"
    "ls_Pressure (Project snap a) =
      filter (\<lambda>(k, p). shown a (ls_Subjects snap) (pv_LeaseID p) (pv_SignalFamily p) (pv_SubjectID p)) (ls_Pressure snap)"
    by (simp_all add: Project_def Let_def shown_def)
qed

text \<open>
  C31.
  A projection shows exactly what is authorized.  On every snapshot the reducer yields, the projection to an
  authorization keeps the cursor; a subject is shown, unchanged, if and only if the authorization
  covers it and all its ancestors; and a metric, a coverage, an incident or a pressure state is shown
  if and only if the authorization covers it and its subject, if it has one, is shown.\<close>

theorem projection_exact:
  assumes "Reduce events = Some (Inr snap)"
  shows "ls_Cursor (Project snap a) = ls_Cursor snap \<and>
    (\<forall>i. map_of (ls_Subjects (Project snap a)) i = (if visible a (ls_Subjects snap) i then map_of (ls_Subjects snap) i else None)) \<and>
    ls_Metrics (Project snap a) =
      filter (\<lambda>(k, m). shown a (ls_Subjects snap) (mv_LeaseID m) (mv_SignalFamily m) (mv_SubjectID m)) (ls_Metrics snap) \<and>
    ls_Coverage (Project snap a) =
      filter (\<lambda>(k, c). shown a (ls_Subjects snap) (cv_LeaseID c) (cv_SignalFamily c) (cv_SubjectID c)) (ls_Coverage snap) \<and>
    ls_Incidents (Project snap a) =
      filter (\<lambda>(k, v). shown a (ls_Subjects snap) (iv_LeaseID v) (iv_SignalFamily v) (iv_SubjectID v)) (ls_Incidents snap) \<and>
    ls_Pressure (Project snap a) =
      filter (\<lambda>(k, p). shown a (ls_Subjects snap) (pv_LeaseID p) (pv_SignalFamily p) (pv_SubjectID p)) (ls_Pressure snap)"
proof -
  have top: "topology_ok (ls_Subjects snap)"
    using Reduce_ok [OF assms] by (simp add: snapshot_ok_def)
  have "ls_Cursor (Project snap a) = ls_Cursor snap"
    by (simp add: Project_def Let_def)
  then show ?thesis
    using Project_subjects [OF top] Project_parts [OF top] by simp
qed

section \<open>Incidents of removed subjects\<close>

text \<open>
  C32.
  Removing a subject hides its incidents from everyone.  The metrics, coverage and pressure of a removed subtree
  leave the snapshot with it, but its incidents stay in the snapshot unchanged; since projections
  show an incident only with its subject, no caller sees it any more, whatever it is authorized for.\<close>

theorem removal_hides_incidents:
  assumes "Reduce events = Some (Inr snap)" "ev_Kind event = EventSubjectRemove" "Reducer_Apply event snap = Some (Inr snap')"
    and "map_of (ls_Incidents snap) k = Some v" "iv_SubjectID v = ev_SubjectID event"
  shows "map_of (ls_Incidents snap') k = Some v \<and> map_of (ls_Incidents (Project snap' a)) k = None"
proof -
  let ?root = "ev_SubjectID event"
  have ok: "snapshot_ok snap"
    using Reduce_ok [OF assms(1)] .
  have valid: "validateEvent event snap = Some None" "ls_Cursor snap \<le> ev_Cursor event"
      "snap' = (apply_event event snap)\<lparr>ls_Cursor := ev_Cursor event\<rparr>"
    using assms(3) by (auto simp: Reducer_Apply_def split: if_splits option.splits)
  then have root: "\<not> ID_IsZero ?root"
    using assms(2) by (simp add: validateEvent_def requireSubject_ok split: option.splits)
  have snap': "snap' = (removeSubjectTree ?root snap)\<lparr>ls_Cursor := ev_Cursor event\<rparr>"
    using valid(3) assms(2) by (simp add: apply_event_def)
  then have kept: "ls_Incidents snap' = ls_Incidents snap"
    by (simp add: removeSubjectTree_def Let_def)
  have "map_of (ls_Subjects snap') ?root = None"
    using mark_contains [of "[?root]" "ls_Subjects snap"] unfolding snap'
    by (simp add: removeSubjectTree_def Let_def map_of_without)
  then have hidden: "\<not> visible a (ls_Subjects snap') ?root"
    using visible_known by blast
  have ok': "snapshot_ok snap'"
    using apply_event_ok [OF ok valid(1,2)] valid(3) by simp
  then have "map_of (ls_Incidents (Project snap' a)) k = None"
    using hidden root assms(4,5) kept
    by (simp add: Project_parts snapshot_ok_def map_of_filter_values shown_def)
  then show ?thesis
    using kept assms(4) by simp
qed

section \<open>A small topology\<close>

definition live_id :: "char \<Rightarrow> 'p typedID" where
  "live_id c = TypedID (replicate 16 c)"

definition live_subject :: Subject where
  "live_subject = \<lparr>sub_ID = live_id (CHR 0x01), sub_ParentID = zeroID, sub_LeaseID = live_id (CHR 0x02), sub_Kind = SubjectHost,
     sub_SignalFamily = ''cpu'', sub_Labels = []\<rparr>"

definition live_incident :: "Cursor \<Rightarrow> IncidentView" where
  "live_incident c = \<lparr>iv_ID = live_id (CHR 0x03), iv_LeaseID = live_id (CHR 0x02), iv_SubjectID = live_id (CHR 0x01), iv_SignalFamily = ''cpu'',
     iv_State = IncidentOpen, iv_Summary = [], iv_UpdatedCursor = c\<rparr>"

definition live_event :: "Cursor \<Rightarrow> EventKind \<Rightarrow> Event" where
  "live_event c kind = \<lparr>ev_Cursor = c, ev_Kind = kind, ev_LeaseID = live_id (CHR 0x02), ev_SignalFamily = ''cpu'',
     ev_SubjectID = live_id (CHR 0x01), ev_Subject = Some live_subject, ev_MetricName = [], ev_Metric = None, ev_Coverage = None,
     ev_Incident = Some (live_incident 0), ev_Pressure = None\<rparr>"

definition live_snapshot :: LiveSnapshot where
  "live_snapshot = \<lparr>ls_Cursor = 2, ls_Subjects = [(live_id (CHR 0x01), live_subject)], ls_Metrics = [], ls_Coverage = [],
     ls_Incidents = [(live_id (CHR 0x03), live_incident 2)], ls_Pressure = []\<rparr>"

lemma live_ids: "\<not> ID_IsZero (live_id (CHR 0x01))" "\<not> ID_IsZero (live_id (CHR 0x02))" "\<not> ID_IsZero (live_id (CHR 0x03))" "ID_IsZero zeroID"
  by (simp_all add: live_id_def ID_IsZero_def zeroID_def zero_uuid_def)

lemma live_family: "TrimSpace ''cpu'' \<noteq> []" "\<not> (2 :: Cursor) \<le> 1"
  by code_simp+

lemma live_reduce: "Reduce [live_event 1 EventSubjectUpsert, live_event 2 EventIncidentSet] = Some (Inr live_snapshot)"
  by (simp add: live_ids live_family fail_if_def Reduce_def newSnapshot_def Reducer_Apply_def validateEvent_def validateSubjectUpsert_def validateIncident_def
      requireSubject_def apply_event_def live_event_def live_subject_def live_incident_def live_snapshot_def Let_def
      SubjectKind_IsValid_def IncidentState_IsValid_def incidentStates_def)

theorem projection_exact_witness:
  "map_of (ls_Subjects (Project live_snapshot (NewAuthorization [live_id (CHR 0x02)] [''*'']))) (live_id (CHR 0x01)) = Some live_subject"
proof -
  let ?a = "NewAuthorization [live_id (CHR 0x02)] [''*'']"
  have "TrimSpace ''*'' = ''*''"
    by code_simp
  then have "visible ?a (ls_Subjects live_snapshot) (live_id (CHR 0x01))"
    using live_ids by (intro visible.root [of _ _ live_subject]) (simp_all add: live_snapshot_def live_subject_def Allows_def NewAuthorization_def)
  then show ?thesis
    using projection_exact [OF live_reduce, of ?a] by (simp add: live_snapshot_def)
qed

theorem removal_hides_incidents_witness:
  "\<exists>snap'. Reducer_Apply (live_event 3 EventSubjectRemove) live_snapshot = Some (Inr snap') \<and>
    map_of (ls_Incidents snap') (live_id (CHR 0x03)) = Some (live_incident 2) \<and>
    map_of (ls_Incidents (Project snap' (NewAuthorization [live_id (CHR 0x02)] [''*'']))) (live_id (CHR 0x03)) = None"
proof -
  obtain snap' where run: "Reducer_Apply (live_event 3 EventSubjectRemove) live_snapshot = Some (Inr snap')"
    by (simp add: live_ids live_family fail_if_def Reducer_Apply_def validateEvent_def requireSubject_def live_event_def live_snapshot_def live_subject_def)
  show ?thesis
    using removal_hides_incidents [OF live_reduce _ run, of "live_id (CHR 0x03)" "live_incident 2"] run
    by (simp add: live_event_def live_snapshot_def live_incident_def)
qed

end
