(* ===== verification/Spec2Isabelle.thy ===== *)
theory Spec2Isabelle
  imports App_Scenario Ledger_Scenario Admission_Pressure Observation_Projection
begin

text \<open>
  \<^bold>\<open>The control plane of the world management layer.\<close>

  The program under \<open>src/\<close> leases isolated agent workspaces and targets to research sessions, observes what
  happens in them and keeps evidence.  This library models its decision-making core, the parts whose
  correctness does not depend on what external programs do, and proves what they promise.

  \<^bold>\<open>The parts and how they interact.\<close>

  \<^item> The \<^emph>\<open>domain\<close> (\<open>src/internal/domain\<close>) has identifiers, revisions, idempotency keys, the lifecycle state machines
    and the validating constructors that every other part uses.
  \<^item> The \<^emph>\<open>control store\<close> (\<open>src/internal/store\<close>) is a hash-chained journal with snapshots, in which a mutation
    runs at most once for each idempotency key.
  \<^item> The \<^emph>\<open>application core\<close> (\<open>src/internal/application\<close>) keeps an in-memory projection that is a replay of
    the journal.  An operation runs as a store transaction that appends records; the core then
    synchronises, which validates every record as if it were untrusted.
  \<^item> The \<^emph>\<open>observation ledger\<close> (\<open>src/internal/ledger\<close>) stores observations durably in segment files of checksummed
    frames (\<open>src/internal/framing\<close>) and fans them out to subscribers.
  \<^item> The \<^emph>\<open>live snapshot\<close> (\<open>src/internal/observation\<close>) reduces observation events to the current state and projects
    it to what a caller may see.
  \<^item> \<^emph>\<open>Admission\<close> (\<open>src/internal/admission\<close>) decides on capacity, on what to shed under pressure and on the order of
    waiting leases.

  \<^bold>\<open>Theories and sources.\<close>

  \<^item> \<open>Prelude\<close>: Go's integers, instants, byte strings, results with errors, string tables, and the functions
    of the packages \<open>strings\<close>, \<open>utf8\<close> and \<open>hex\<close> that the code calls.
  \<^item> \<open>Domain_Errors\<close>, \<open>Domain_Ids\<close>, \<open>Domain_Values\<close>, \<open>Domain_States\<close>, \<open>Domain_Models\<close>, \<open>Domain_Evidence\<close>: the files \<open>errors.go\<close>, \<open>ids.go\<close>,
    \<open>revision.go\<close> with \<open>idempotency.go\<close> and \<open>validation.go\<close>, \<open>states.go\<close>, \<open>lifecycle_models.go\<close>, and \<open>evidence_models.go\<close> with parts of
    \<open>observation.go\<close> and \<open>capability.go\<close>.  Constructors of the source are functions into a result type.
  \<^item> \<open>Store\<close>: \<open>store.go\<close> and \<open>objects.go\<close>.  The state is a record of tables; the payload type and its encoding, the hash
    function, injected faults and failing SQL statements are parameters of the surroundings \<open>store_env\<close>.
  \<^item> \<open>App_Types\<close>, \<open>App_Replay\<close>, \<open>App_Core\<close>: the records of \<open>types.go\<close>, every validator of \<open>replay_validation.go\<close>, and the mutation
    frame of \<open>core.go\<close>.  The state is the record \<open>Core\<close>; readings of the clock and of the entropy source are
    functions of the number of the reading.
  \<^item> \<open>App_Sessions\<close>, \<open>App_Execs\<close>, \<open>App_Targets\<close>, \<open>App_Termination\<close>, \<open>App_Incidents\<close>: the operations of the files with these
    names and of the three plan binding files, each with its handler (\<open>..._tx\<close>), its canonical request and
    its response.
  \<^item> \<open>Framing\<close>: \<open>framing.go\<close>, with CRC-32C written out, readers that may fail and writers that may write short.
  \<^item> \<open>Ledger_Codec\<close>, \<open>Ledger_Segments\<close>, \<open>Ledger_Store\<close>, \<open>Ledger_Subscription\<close>: \<open>types.go\<close> with \<open>codec.go\<close>, \<open>segment.go\<close>, \<open>store.go\<close>
    and \<open>subscription.go\<close>.  The directory is a table from file names to bytes; \<open>ledger_io\<close> decides the outcome of
    every call of the operating system.
  \<^item> \<open>Admission_Resources\<close> and the first half of \<open>Admission_Pressure\<close>: \<open>resources.go\<close> and \<open>pressure.go\<close>, with amounts as 64-bit words
    and IEEE 754 addition written out.
  \<^item> \<open>Observation\<close>: \<open>types.go\<close>, \<open>reducer.go\<close> and \<open>projection.go\<close>.

  The other theories hold proofs about these definitions.

  \<^bold>\<open>What the lemmas show.\<close>

  \<^item> \<open>Domain_*\<close>: identifiers parse exactly from their printed forms, the state machines only advance along their
    tables, derived idempotency keys separate distinct pairs unless the hash collides.
  \<^item> \<open>Store\<close>: mutations run at most once for each key, and tampering with the journal is detected.  The locales there
    state what the core relies on.
  \<^item> \<open>App_Projection\<close>, \<open>App_Journal\<close>, \<open>App_System\<close>: replay of any accepted journal is coherent; every operation only appends; the
    invariant of all reachable states of the core, whatever fails, and what never changes again (ended
    leases, sealed evidence, bound plans, finished work).
  \<^item> \<open>App_Progress\<close>, \<open>App_Outcomes\<close>, \<open>App_Releases\<close>, \<open>App_Retirement\<close>, \<open>App_Completion\<close>: when acquisition, renewal and both phases of a
    release succeed and that replay accepts what they commit; and the race in which beginning a
    release commits a record that replay rejects.  \<open>App_Scenario\<close> evaluates these theorems on concrete inputs.
  \<^item> \<open>Framing\<close>, \<open>Ledger_Codec\<close>: decoders accept exactly the encodings; torn frames and damaged bytes are reported.
  \<^item> \<open>Ledger_Segments\<close>, \<open>Ledger_Layout\<close>, \<open>Ledger_Sources\<close>, \<open>Ledger_Invariant\<close>, \<open>Ledger_Append\<close>, \<open>Ledger_Recovery\<close>: reading is exact, appending with its bounded index, rotation and rollback refines an append to an abstract
    history under every failure, and opening after a crash recovers exactly the completely written
    records.  \<open>Ledger_Integrity\<close> assumes nothing of the files: whatever directory opens, the position and hash of
    the head determine every record that can be read.  \<open>Ledger_Faults\<close> proves two ways in which durable records are lost.  \<open>Ledger_Scenario\<close> evaluates.
  \<^item> \<open>Ledger_Subscription\<close>: under every interleaving a subscriber receives each position once, as a record or in a gap; and the
    callers waiting in \<open>Next\<close>, left to themselves in any order, come to rest after boundedly many steps with
    every queued delivery handed out for which there was a caller.
  \<^item> \<open>Admission\<close>, \<open>Admission_Pressure\<close>: resource arithmetic is exact or refused, admission promises exactly what fits, stages of
    pressure are not skipped and hit only preemptible work, the queue does not starve; and there is no
    stage after the last one.
  \<^item> \<open>Observation_Safety\<close>, \<open>Observation_Projection\<close>: the reducer always returns and keeps a sound topology, projections show exactly
    what is authorized; and removing a subject hides its incidents.

  \<^bold>\<open>Bounds and loops.\<close>

  There is no fuel.  Loops are structural recursions or have termination proofs: batches of the
  synchronisation (at most 1000 records, of which fewer remain after each), segment scans (each frame
  shortens the input), short writes (each makes progress or ends), marking and pruning of subjects (each
  pass marks or deletes one).  The one loop that may run forever on a corrupt state, the walk to the root
  of the topology, is a partial function, and it is proved to return on every state the reducer reaches.
  Cursors, revisions and generations are 64-bit words, and the theorems say where wrap-around is excluded.

  \<^bold>\<open>Idealisations.\<close>

  \<^item> A payload of the journal is a value and its JSON form an injective encoding: the replacement of invalid
    UTF-8, the failure to encode years above 9999, and the difference of nil and empty slices are not modelled.
  \<^item> One outcome of the query for records stands for all batches of a synchronisation, so a failure of a later
    batch only is not represented.
  \<^item> Instants are wall-clock readings; the monotonic reading inside Go's times is ignored.
  \<^item> \<open>Open\<close> of the ledger returns a value: a truncation done before a later error is not part of the error.
    Removing a file that was just created succeeds, and directories are synced as on Unix.
  \<^item> \<open>sort.Slice\<close> in the choice of a candidate is modelled by a stable sort; the lemma \<open>selectCandidate_least\<close> shows that
    the chosen key does not depend on that.

  \<^bold>\<open>What is not modelled.\<close>

  \<^item> SHA-256, JSON encoding, SQLite and the operating system are parameters with stated behaviour.
  \<^item> Opening, closing and migrating the database file; bundles, summaries, change sets and event envelopes
    of the domain, which no modelled operation uses.
  \<^item> Orchestration, drivers, guest and transport processes, the research collectors, the caches and
    path handling: their behaviour is that of external programs, files and devices.
  \<^item> The policy compiler, the RPC facade with its generated code, the adapters, commands and test kits.
\<close>

end
